(* ===== verification/Prelude.thy ===== *)
theory Prelude
  imports Main "HOL-Library.Char_ord"
begin

text \<open>
  Shared vocabulary of the AppForge development: results with errors as values, the
  JavaScript safe-integer test, the few string functions of the ECMAScript standard library
  that the modelled code calls, and the SQL statements the code sends to PostgreSQL
  (SELECT, UPDATE and SUM over a table kept as a list of rows, in insertion order), each with
  the lemmas every component uses.
\<close>

section \<open>Results\<close>

type_synonym ('e, 'a) result = "'e + 'a"

definition bind_result :: "('e, 'a) result \<Rightarrow> ('a \<Rightarrow> ('e, 'b) result) \<Rightarrow> ('e, 'b) result" where
  "bind_result r k = (case r of Inl e \<Rightarrow> Inl e | Inr a \<Rightarrow> k a)"

lemma bind_result_simps [simp]:
  "bind_result (Inl e) k = Inl e"
  "bind_result (Inr a) k = k a"
  by (simp_all add: bind_result_def)

lemma bind_result_eq_Inr [simp]:
  "bind_result r k = Inr b \<longleftrightarrow> (\<exists>a. r = Inr a \<and> k a = Inr b)"
  by (cases r) auto

lemma bind_result_eq_Inl [simp]:
  "bind_result r k = Inl e \<longleftrightarrow> r = Inl e \<or> (\<exists>a. r = Inr a \<and> k a = Inl e)"
  by (cases r) auto

definition require :: "bool \<Rightarrow> 'e \<Rightarrow> ('e, unit) result" where
  "require b e = (if b then Inr () else Inl e)"

lemma require_eq [simp]:
  "require b e = Inr u \<longleftrightarrow> b"
  "require b e = Inl e' \<longleftrightarrow> \<not> b \<and> e' = e"
  by (auto simp: require_def)

text \<open>A database transaction: an error rolls back, a result commits the new state.\<close>

definition transact :: "('s \<Rightarrow> ('e, 'a \<times> 's) result) \<Rightarrow> 's \<Rightarrow> ('e, 'a) result \<times> 's" where
  "transact t s = (case t s of Inl e \<Rightarrow> (Inl e, s) | Inr (a, s') \<Rightarrow> (Inr a, s'))"

lemma transact_eq:
  "transact t s = (Inr a, s') \<longleftrightarrow> t s = Inr (a, s')"
  "transact t s = (Inl e, s') \<longleftrightarrow> t s = Inl e \<and> s' = s"
  by (auto simp: transact_def split: sum.splits)

lemma snd_transact: "snd (transact t s) = (case t s of Inl e \<Rightarrow> s | Inr (a, s') \<Rightarrow> s')"
  by (auto simp: transact_def split: sum.splits)

section \<open>Numbers\<close>

text \<open>
  \<open>Number.MAX_SAFE_INTEGER\<close>. Integers of JavaScript are modelled by \<open>int\<close>; sums of two
  safe integers are below \<open>2 ^ 54\<close>, where rounding never turns an unsafe value into a safe
  one, so testing the exact sum gives the answer the code gets from the rounded one. A number
  that is no integer at all (a fraction, NaN, an infinity) fails the same guards as an unsafe or
  a non-positive integer, with the same error.
\<close>

definition MAX_SAFE_INTEGER :: int where
  "MAX_SAFE_INTEGER = 9007199254740991"

definition is_safe_integer :: "int \<Rightarrow> bool" where
  "is_safe_integer n \<longleftrightarrow> \<bar>n\<bar> \<le> MAX_SAFE_INTEGER"

text \<open>\<open>date.getTime()\<close> is finite exactly inside the range of ECMAScript time values.\<close>

definition finite_time :: "int \<Rightarrow> bool" where
  "finite_time t \<longleftrightarrow> \<bar>t\<bar> \<le> 8640000000000000"

text \<open>
  \<open>toISOString().slice(0, 10)\<close>, the UTC calendar day of a time in milliseconds, is
  represented by the number of that day since the epoch.
\<close>

definition utc_day :: "int \<Rightarrow> int" where
  "utc_day t = t div 86400000"

lemma safe_sum_le: "is_safe_integer n \<Longrightarrow> 0 \<le> m \<Longrightarrow> m \<le> n \<Longrightarrow> is_safe_integer m"
  by (simp add: is_safe_integer_def)

section \<open>Strings\<close>

definition is_digit :: "char \<Rightarrow> bool" where
  "is_digit c \<longleftrightarrow> CHR ''0'' \<le> c \<and> c \<le> CHR ''9''"

definition is_lower :: "char \<Rightarrow> bool" where
  "is_lower c \<longleftrightarrow> CHR ''a'' \<le> c \<and> c \<le> CHR ''z''"

definition is_upper :: "char \<Rightarrow> bool" where
  "is_upper c \<longleftrightarrow> CHR ''A'' \<le> c \<and> c \<le> CHR ''Z''"

definition is_alnum :: "char \<Rightarrow> bool" where
  "is_alnum c \<longleftrightarrow> is_digit c \<or> is_lower c \<or> is_upper c"

definition in_class :: "(char \<Rightarrow> bool) \<Rightarrow> nat \<Rightarrow> nat \<Rightarrow> string \<Rightarrow> bool" where
  \<comment> \<open>the anchored regular expression \<open>^[class]{lo,hi}$\<close>\<close>
  "in_class p lo hi s \<longleftrightarrow> lo \<le> length s \<and> length s \<le> hi \<and> list_all p s"

definition nonempty_class :: "(char \<Rightarrow> bool) \<Rightarrow> string \<Rightarrow> bool" where
  \<comment> \<open>the anchored regular expression \<open>^[class]+$\<close>\<close>
  "nonempty_class p s \<longleftrightarrow> s \<noteq> [] \<and> list_all p s"

definition strip_prefix :: "string \<Rightarrow> string \<Rightarrow> string option" where
  "strip_prefix p s = (if take (length p) s = p then Some (drop (length p) s) else None)"

definition starts_with :: "string \<Rightarrow> string \<Rightarrow> bool" where
  "starts_with p s \<longleftrightarrow> take (length p) s = p"

lemma starts_with_iff: "starts_with p s \<longleftrightarrow> (\<exists>t. s = p @ t)"
  by (metis append_eq_conv_conj starts_with_def)

definition is_js_space :: "char \<Rightarrow> bool" where
  "is_js_space c \<longleftrightarrow> c = CHR '' '' \<or> (CHR 0x09 \<le> c \<and> c \<le> CHR 0x0D)"

definition js_trim :: "string \<Rightarrow> string" where
  "js_trim s = rev (dropWhile is_js_space (rev (dropWhile is_js_space s)))"

definition lower_char :: "char \<Rightarrow> char" where
  "lower_char c = (if is_upper c then char_of (of_char c + (32 :: nat)) else c)"

definition js_lower :: "string \<Rightarrow> string" where
  "js_lower s = map lower_char s"

text \<open>Decimal numerals, as template literals print numbers and \<open>Number(digits)\<close> reads them.\<close>

fun show_nat :: "nat \<Rightarrow> string" where
  "show_nat n = (if n < 10 then [char_of (48 + n)] else show_nat (n div 10) @ [char_of (48 + n mod 10)])"

declare show_nat.simps [simp del]

definition show_int :: "int \<Rightarrow> string" where
  "show_int i = (if i < 0 then CHR ''-'' # show_nat (nat (- i)) else show_nat (nat i))"

definition read_digits :: "string \<Rightarrow> int" where
  "read_digits s = foldl (\<lambda>acc c. 10 * acc + (int (of_char c) - 48)) 0 s"

lemma digit_char_value: "d < 10 \<Longrightarrow> int (of_char (char_of (48 + d :: nat) :: char)) - 48 = int d"
  by (simp add: of_char_of take_bit_eq_mod)

lemma read_digits_append: "read_digits (s @ [c]) = 10 * read_digits s + (int (of_char c) - 48)"
  by (simp add: read_digits_def)

lemma read_digits_show_nat: "read_digits (show_nat n) = int n"
proof (induction n rule: show_nat.induct)
  case (1 n)
  show ?case
  proof (cases "n < 10")
    case True
    then have "read_digits [char_of (48 + n)] = int n"
      using digit_char_value [of n] by (simp add: read_digits_def)
    with True show ?thesis by (simp add: show_nat.simps [of n])
  next
    case False
    have "int (of_char (char_of (48 + n mod 10) :: char)) - 48 = int (n mod 10)"
      by (rule digit_char_value) simp
    moreover have "10 * int (n div 10) + int (n mod 10) = int n" by presburger
    ultimately show ?thesis using False 1 by (simp add: show_nat.simps [of n] read_digits_append)
  qed
qed

lemma show_nat_inject [simp]: "show_nat m = show_nat n \<longleftrightarrow> m = n"
  by (metis of_nat_eq_iff read_digits_show_nat)

lemma show_nat_digits: "list_all is_digit (show_nat n)"
proof (induction n rule: show_nat.induct)
  case (1 n)
  have digit: "is_digit (char_of (48 + d :: nat))" if "d < 10" for d
    using that by (auto simp: is_digit_def less_eq_char_def of_char_of take_bit_eq_mod)
  with 1 show ?case by (subst show_nat.simps) auto
qed

lemma show_int_inject_nonneg: "0 \<le> i \<Longrightarrow> 0 \<le> j \<Longrightarrow> show_int i = show_int j \<longleftrightarrow> i = j"
  by (simp add: show_int_def eq_nat_nat_iff)

section \<open>Tables\<close>

text \<open>A serial column: the next value is above every value in the table.\<close>

definition next_serial :: "('r \<Rightarrow> int) \<Rightarrow> 'r list \<Rightarrow> int" where
  "next_serial f t = 1 + fold max (map f t) 0"

lemma fold_max_ge: "fold max xs (a :: int) \<ge> a \<and> (\<forall>x \<in> set xs. fold max xs a \<ge> x)"
proof (induction xs arbitrary: a)
  case (Cons x xs)
  from Cons [of "max x a"] show ?case by auto
qed simp

lemma next_serial_fresh: "r \<in> set t \<Longrightarrow> f r < next_serial f t"
  using fold_max_ge [of 0 "map f t"] by (fastforce simp: next_serial_def)

definition rows_where :: "('r \<Rightarrow> bool) \<Rightarrow> 'r list \<Rightarrow> 'r list" where
  "rows_where P t = filter P t"

definition first_row :: "('r \<Rightarrow> bool) \<Rightarrow> 'r list \<Rightarrow> 'r option" where
  "first_row P t = List.find P t"

definition update_where :: "('r \<Rightarrow> bool) \<Rightarrow> ('r \<Rightarrow> 'r) \<Rightarrow> 'r list \<Rightarrow> 'r list" where
  "update_where P f t = map (\<lambda>r. if P r then f r else r) t"

definition sum_where :: "('r \<Rightarrow> bool) \<Rightarrow> ('r \<Rightarrow> int) \<Rightarrow> 'r list \<Rightarrow> int" where
  "sum_where P f t = sum_list (map f (filter P t))"

named_theorems table_simps \<open>SELECT, UPDATE, INSERT and SUM over tables\<close>

lemma first_row_Some:
  "first_row P t = Some r \<Longrightarrow> r \<in> set t \<and> P r"
  by (auto simp: first_row_def find_Some_iff)

lemma first_row_None:
  "first_row P t = None \<longleftrightarrow> (\<forall>r \<in> set t. \<not> P r)"
  by (auto simp: first_row_def find_None_iff)

lemma first_row_append [table_simps]:
  "first_row P (t @ u) = (case first_row P t of None \<Rightarrow> first_row P u | Some r \<Rightarrow> Some r)"
  by (induction t) (auto simp: first_row_def)

lemma first_row_single [table_simps]:
  "first_row P [] = None" "first_row P [r] = (if P r then Some r else None)"
  by (simp_all add: first_row_def)

lemma set_update_where [table_simps]:
  "set (update_where P f t) = (\<lambda>r. if P r then f r else r) ` set t"
  by (simp add: update_where_def)

lemma length_update_where [simp]: "length (update_where P f t) = length t"
  by (simp add: update_where_def)

lemma update_where_idle: "\<forall>r \<in> set t. \<not> P r \<Longrightarrow> update_where P f t = t"
  by (simp add: update_where_def map_idI)

lemma map_update_where [table_simps]:
  "(\<And>r. P r \<Longrightarrow> k (f r) = k r) \<Longrightarrow> map k (update_where P f t) = map k t"
  by (simp add: update_where_def)

lemma image_update_where:
  "(\<And>r. P r \<Longrightarrow> k (f r) = k r) \<Longrightarrow> k ` set (update_where P f t) = k ` set t"
  by (metis list.set_map map_update_where)

lemma update_where_clears:
  "(\<And>r. P r \<Longrightarrow> \<not> P (f r)) \<Longrightarrow> r \<in> set (update_where P f t) \<Longrightarrow> \<not> P r"
  by (induction t) (auto simp: update_where_def split: if_splits)

lemma first_row_update_where:
  "(\<And>r. P r \<Longrightarrow> Q (f r) = Q r) \<Longrightarrow>
   first_row Q (update_where P f t) = map_option (\<lambda>r. if P r then f r else r) (first_row Q t)"
  by (induction t) (auto simp: first_row_def update_where_def)

lemma sum_where_Nil [table_simps]: "sum_where P f [] = 0"
  by (simp add: sum_where_def)

lemma sum_where_append [table_simps]:
  "sum_where P f (t @ u) = sum_where P f t + sum_where P f u"
  by (simp add: sum_where_def)

lemma sum_where_single [table_simps]: "sum_where P f [r] = (if P r then f r else 0)"
  by (simp add: sum_where_def)

lemma sum_where_Cons [table_simps]:
  "sum_where P f (r # t) = (if P r then f r else 0) + sum_where P f t"
  by (simp add: sum_where_def)

lemma sum_where_cong:
  "(\<And>r. r \<in> set t \<Longrightarrow> P r = Q r) \<Longrightarrow> (\<And>r. r \<in> set t \<Longrightarrow> P r \<Longrightarrow> f r = g r) \<Longrightarrow>
   sum_where P f t = sum_where Q g t"
  by (induction t) (auto simp: sum_where_def)

lemma sum_where_nonneg: "(\<And>r. r \<in> set t \<Longrightarrow> P r \<Longrightarrow> 0 \<le> f r) \<Longrightarrow> 0 \<le> sum_where P f t"
  by (induction t) (auto simp: sum_where_def)

lemma sum_where_ge:
  "item \<in> set t \<Longrightarrow> P item \<Longrightarrow> (\<And>r. r \<in> set t \<Longrightarrow> 0 \<le> f r) \<Longrightarrow> f item \<le> sum_where P f t"
proof (induction t)
  case (Cons x t)
  then have "0 \<le> sum_where P f t" by (simp add: sum_where_nonneg)
  with Cons show ?case by (fastforce simp: sum_where_def)
qed simp

lemma sum_where_zero: "(\<And>r. r \<in> set t \<Longrightarrow> P r \<Longrightarrow> f r = 0) \<Longrightarrow> sum_where P f t = 0"
  by (induction t) (auto simp: sum_where_def)

text \<open>An UPDATE of the one row with a given key changes a SUM by that row's change.\<close>

lemma sum_where_update_none:
  "(\<forall>r \<in> set t. \<not> K r) \<Longrightarrow> sum_where P f (update_where K g t) = sum_where P f t"
  by (simp add: update_where_idle)

lemma sum_where_update_key:
  assumes "distinct (map key t)" "r \<in> set t" "\<And>x. x \<in> set t \<Longrightarrow> K x = (key x = key r)"
  shows "sum_where P f (update_where K g t) =
    sum_where P f t - (if P r then f r else 0) + (if P (g r) then f (g r) else 0)"
  using assms
proof (induction t)
  case Nil
  then show ?case by simp
next
  case (Cons x t)
  show ?case
  proof (cases "x = r")
    case True
    with Cons.prems have "\<forall>y \<in> set t. \<not> K y" by (auto simp: image_iff)
    with True Cons.prems(3) show ?thesis
      by (simp add: update_where_def sum_where_Cons map_idI)
  next
    case False
    with Cons.prems have r: "r \<in> set t" and "key x \<noteq> key r" by (auto simp: image_iff)
    with Cons.prems(3) have "\<not> K x" by simp
    with Cons r show ?thesis by (simp add: update_where_def sum_where_Cons)
  qed
qed

lemma distinct_key_eq:
  "distinct (map key t) \<Longrightarrow> r \<in> set t \<Longrightarrow> s \<in> set t \<Longrightarrow> key r = key s \<Longrightarrow> r = s"
  by (simp add: distinct_map inj_on_def)

lemma first_row_key:
  "distinct (map key t) \<Longrightarrow> r \<in> set t \<Longrightarrow> first_row (\<lambda>x. key x = key r) t = Some r"
  by (induction t) (auto simp: first_row_def image_iff)

lemma rows_where_key:
  assumes "distinct (map key t)" "r \<in> set t" "\<And>x. x \<in> set t \<Longrightarrow> K x = (key x = key r)"
  shows "rows_where K t = [r]"
  using assms
proof (induction t)
  case (Cons x t)
  show ?case
  proof (cases "x = r")
    case True
    with Cons.prems have "\<forall>y \<in> set t. \<not> K y" by (auto simp: image_iff)
    with True Cons.prems(3) show ?thesis by (simp add: rows_where_def)
  next
    case False
    with Cons.prems have "r \<in> set t" "\<not> K x" by (auto simp: image_iff)
    with Cons show ?thesis by (simp add: rows_where_def)
  qed
qed simp

text \<open>At most one row satisfies a condition that fixes the key.\<close>

lemma rows_where_one:
  assumes "distinct (map key t)" "r \<in> set t" "K r" "\<And>x. K x \<Longrightarrow> key x = key r"
  shows "rows_where K t = [r]"
proof (rule rows_where_key [OF assms(1,2)])
  fix x assume "x \<in> set t"
  with assms distinct_key_eq [of key t x r] show "K x = (key x = key r)" by blast
qed

lemma count_rows_where_one:
  assumes "distinct (map key t)" "\<And>x y. K x \<Longrightarrow> K y \<Longrightarrow> key x = key y"
  shows "length (rows_where K t) = (if list_ex K t then 1 else 0)"
proof (cases "list_ex K t")
  case True
  then obtain r where r: "r \<in> set t" "K r" by (auto simp: list_ex_iff)
  with assms have "rows_where K t = [r]" by (intro rows_where_one [where key = key]) blast+
  with True show ?thesis by simp
next
  case False
  then show ?thesis by (auto simp: list_ex_iff rows_where_def filter_empty_conv)
qed

lemma first_row_keyed:
  assumes "distinct (map key t)" "r \<in> set t" "\<And>x. x \<in> set t \<Longrightarrow> K x = (key x = key r)"
  shows "first_row K t = Some r"
  using assms by (induction t) (auto simp: first_row_def image_iff)

section \<open>Instants as text\<close>

text \<open>
  \<open>new Date(t).toISOString()\<close> for years 0 to 9999: the proleptic Gregorian date of a day number
  (days counted from 1 March of year 0, in 400-year eras), and the time of day.
\<close>

definition pad :: "nat \<Rightarrow> nat \<Rightarrow> string" where
  "pad w n = (let s = show_nat n in replicate (w - length s) (CHR ''0'') @ s)"

definition civil_from_days :: "int \<Rightarrow> int \<times> int \<times> int" where
  "civil_from_days days =
    (let z = days + 719468; era = z div 146097; doe = z mod 146097;
         yoe = (doe - doe div 1460 + doe div 36524 - doe div 146096) div 365;
         doy = doe - (365 * yoe + yoe div 4 - yoe div 100);
         mp = (5 * doy + 2) div 153;
         day = doy - (153 * mp + 2) div 5 + 1;
         month = (if mp < 10 then mp + 3 else mp - 9);
         year = yoe + era * 400 + (if month \<le> 2 then 1 else 0)
     in (year, month, day))"

definition toISOString :: "int \<Rightarrow> string" where
  "toISOString t =
    (let (year, month, day) = civil_from_days (t div 86400000); ms = t mod 86400000
     in pad 4 (nat year) @ ''-'' @ pad 2 (nat month) @ ''-'' @ pad 2 (nat day) @ ''T'' @
        pad 2 (nat (ms div 3600000)) @ '':'' @ pad 2 (nat (ms div 60000 mod 60)) @ '':'' @
        pad 2 (nat (ms div 1000 mod 60)) @ ''.'' @ pad 3 (nat (ms mod 1000)) @ ''Z'')"

lemma toISOString_examples:
  "toISOString 0 = ''1970-01-01T00:00:00.000Z''"
  "toISOString 951782400000 = ''2000-02-29T00:00:00.000Z''"
  "toISOString 1767225599999 = ''2025-12-31T23:59:59.999Z''"
  by code_simp+

end
