(* ===== verification/Database.thy ===== *)
theory Database
  imports Prelude
begin

text \<open>
  The PostgreSQL tables of \<open>src/db/schema.ts\<close> and \<open>src/db/ensureSchema.ts\<close> that the
  modelled operations read or write: one record per table, with the columns those operations
  use, and one record for the whole database. Times are milliseconds since the epoch, DATE
  columns are UTC day numbers, nullable columns are options. The CHECK and UNIQUE constraints
  of the provider-credit tables and of the credit tables are executable predicates; the
  operations commit through them, as PostgreSQL does, and the component theories prove that the
  constraints never fire on a consistent database.
\<close>

section \<open>Customers, subscriptions and user credits\<close>

record user_row =
  u_id :: int
  u_email :: "string option"

record subscription_row =
  sub_user :: int
  sub_customer :: "string option"
  sub_stripe :: "string option"
  sub_status :: "string option"
  sub_tier :: "string option"
  sub_trialEnd :: "int option"
  sub_periodStart :: "int option"
  sub_periodEnd :: "int option"

record user_credits_row =
  uc_user :: int
  uc_balance :: int
  uc_tier :: "string option"
  uc_allowance :: int
  uc_unlimited :: bool
  uc_lastRefill :: "int option"
  uc_created :: "int option"

record credit_transaction_row =
  ct_id :: int
  ct_user :: int
  ct_amount :: int
  ct_type :: string
  ct_project :: "int option"
  ct_ref :: "string option"
  ct_description :: string
  ct_created :: int

text \<open>
  \<open>app_settings\<close> rows are written only by the refund reconciliation among the modelled code;
  a value is the parsed JSON of the two counters, or any other text.
\<close>

datatype setting_value = RefundState int int | OtherSetting string

record app_setting_row =
  as_key :: string
  as_value :: setting_value

record stripe_event_row =
  se_id :: string
  se_type :: string

section \<open>Projects and build events\<close>

text \<open>
  A timestamp kept as text (\<open>createdAt\<close> of a build job, \<open>claimedAt\<close> of a claim) is the text
  together with the value \<open>Date.parse\<close> gives for it, if that is finite.
\<close>

datatype stamp = Stamp (stamp_text: string) (stamp_time: "int option")

datatype event_payload =
    ClaimPayload stamp
  | ExecutionPayload stamp
  | RevokedPayload stamp string
  | AttemptPayload "stamp option"
  | OtherPayload

record build_event_row =
  be_id :: int
  be_project :: int
  be_event :: string
  be_payload :: event_payload

record project_row =
  p_id :: int
  p_user :: int
  p_status :: string
  p_pauseReason :: "string option"
  p_errorMessage :: "string option"
  p_buildStage :: "string option"
  p_failureStage :: "string option"
  p_outputMaturity :: string
  p_creditsSpent :: int
  p_creditsReserved :: int
  p_updatedAt :: int

record senior_task_row =
  sd_id :: int
  sd_user :: int
  sd_project :: int
  sd_status :: string
  sd_planApproved :: bool
  sd_updatedAt :: int

section \<open>Provider credits\<close>

datatype reservation_state = Reserved | Settled | Released

record reservation_row =
  res_operation :: string
  res_user :: int
  res_project :: int
  res_execution :: int
  res_period :: int
  res_maximum :: int
  res_included :: int
  res_purchased :: int
  res_actual :: "int option"
  res_state :: reservation_state
  res_overrun :: bool

record credit_account_row =
  acc_user :: int
  acc_purchased :: int

record credit_period_row =
  per_user :: int
  per_start :: int
  per_end :: int
  per_balance :: int
  per_allowance :: int
  per_invoice :: "string option"

datatype credit_event_kind = IncludedGrant | PurchasedGrant | Reconciliation

record credit_event_row =
  ev_user :: int
  ev_source :: string
  ev_kind :: credit_event_kind
  ev_amount :: int
  ev_period :: "int option"

datatype topup_status = TopupReserved | TopupPaid | TopupExpired

record topup_row =
  top_id :: string
  top_user :: int
  top_period :: int
  top_credits :: int
  top_price :: int
  top_status :: topup_status
  top_expires :: int
  top_session :: "string option"
  top_payment :: "string option"

section \<open>The database\<close>

record db =
  users :: "user_row list"
  subscriptions :: "subscription_row list"
  user_credits :: "user_credits_row list"
  credit_transactions :: "credit_transaction_row list"
  app_settings :: "app_setting_row list"
  stripe_events :: "stripe_event_row list"
  projects :: "project_row list"
  build_events :: "build_event_row list"
  senior_tasks :: "senior_task_row list"
  reservations :: "reservation_row list"
  accounts :: "credit_account_row list"
  periods :: "credit_period_row list"
  credit_events :: "credit_event_row list"
  topups :: "topup_row list"

definition empty_db :: db where
  "empty_db = \<lparr>users = [], subscriptions = [], user_credits = [], credit_transactions = [],
    app_settings = [], stripe_events = [], projects = [], build_events = [], senior_tasks = [],
    reservations = [], accounts = [], periods = [], credit_events = [], topups = []\<rparr>"

section \<open>Constraints of the provider-credit tables\<close>

definition reservation_check :: "reservation_row \<Rightarrow> bool" where
  "reservation_check r \<longleftrightarrow>
     0 < res_execution r \<and> 0 < res_maximum r \<and> 0 \<le> res_included r \<and> 0 \<le> res_purchased r \<and>
     (case res_actual r of None \<Rightarrow> True | Some a \<Rightarrow> 0 \<le> a) \<and>
     (res_state r = Settled \<longleftrightarrow> res_actual r \<noteq> None)"

definition account_check :: "credit_account_row \<Rightarrow> bool" where
  "account_check a \<longleftrightarrow> 0 \<le> acc_purchased a"

definition period_check :: "credit_period_row \<Rightarrow> bool" where
  "period_check p \<longleftrightarrow> 0 \<le> per_balance p \<and> per_balance p \<le> per_allowance p"

definition credit_event_check :: "credit_event_row \<Rightarrow> bool" where
  "credit_event_check e \<longleftrightarrow> 0 < ev_amount e"

definition topup_check :: "topup_row \<Rightarrow> bool" where
  "topup_check t \<longleftrightarrow> 0 < top_credits t \<and> 0 < top_price t"

definition reservation_key :: "reservation_row \<Rightarrow> int \<times> string" where
  "reservation_key r = (res_user r, res_operation r)"

definition period_key :: "credit_period_row \<Rightarrow> int \<times> int" where
  "period_key p = (per_user p, per_start p)"

definition credit_event_key :: "credit_event_row \<Rightarrow> int \<times> string" where
  "credit_event_key e = (ev_user e, ev_source e)"

definition present :: "('r \<Rightarrow> 'k option) \<Rightarrow> 'r list \<Rightarrow> 'k list" where
  \<comment> \<open>the non-null values of a column, which a UNIQUE index compares\<close>
  "present f t = List.map_filter f t"

definition provider_constraints :: "db \<Rightarrow> bool" where
  "provider_constraints d \<longleftrightarrow>
     list_all reservation_check (reservations d) \<and>
     distinct (map reservation_key (reservations d)) \<and>
     list_all account_check (accounts d) \<and> distinct (map acc_user (accounts d)) \<and>
     list_all period_check (periods d) \<and> distinct (map period_key (periods d)) \<and>
     distinct (present per_invoice (periods d)) \<and>
     list_all credit_event_check (credit_events d) \<and>
     distinct (map credit_event_key (credit_events d)) \<and>
     list_all topup_check (topups d) \<and> distinct (map top_id (topups d)) \<and>
     distinct (present top_session (topups d)) \<and> distinct (present top_payment (topups d))"

section \<open>Constraints of the credit tables\<close>

text \<open>\<open>balance\<close> is an \<open>integer\<close> column, so it is stored in 32 bits.\<close>

definition int4 :: "int \<Rightarrow> bool" where
  "int4 n \<longleftrightarrow> - 2147483648 \<le> n \<and> n \<le> 2147483647"

definition user_credits_check :: "user_credits_row \<Rightarrow> bool" where
  "user_credits_check c \<longleftrightarrow> 0 \<le> uc_balance c \<and> int4 (uc_balance c)"

definition credit_constraints :: "db \<Rightarrow> bool" where
  "credit_constraints d \<longleftrightarrow>
     list_all user_credits_check (user_credits d) \<and> distinct (map uc_user (user_credits d)) \<and>
     distinct (present ct_ref (credit_transactions d))"

text \<open>A transaction's statements take effect together, if no constraint is violated.\<close>

definition commit_if :: "('s \<Rightarrow> bool) \<Rightarrow> 'e \<Rightarrow> 'a \<Rightarrow> 's \<Rightarrow> ('e, 'a \<times> 's) result" where
  "commit_if C e a d = (if C d then Inr (a, d) else Inl e)"

lemma commit_if_eq [simp]:
  "commit_if C e a d = Inr (b, d') \<longleftrightarrow> C d \<and> b = a \<and> d' = d"
  "commit_if C e a d = Inl e' \<longleftrightarrow> \<not> C d \<and> e' = e"
  by (auto simp: commit_if_def)

lemma present_append [table_simps]: "present f (t @ u) = present f t @ present f u"
  by (simp add: present_def map_filter_def)

lemma present_single [table_simps]:
  "present f [] = []" "present f [r] = (case f r of None \<Rightarrow> [] | Some k \<Rightarrow> [k])"
  by (simp_all add: present_def map_filter_def split: option.splits)

lemma set_present [table_simps]: "set (present f t) = {k. \<exists>r \<in> set t. f r = Some k}"
  by (force simp: present_def map_filter_def)

lemma present_update_where:
  "(\<And>r. P r \<Longrightarrow> f (g r) = f r) \<Longrightarrow> present f (update_where P g t) = present f t"
  by (induction t) (auto simp: present_def map_filter_def update_where_def)

lemma list_all_update_where [table_simps]:
  "list_all C (update_where P f t) \<longleftrightarrow> list_all (\<lambda>r. C (if P r then f r else r)) t"
  by (induction t) (auto simp: update_where_def)

text \<open>
  Operations that leave all the provider-credit tables alone, or all the credit tables alone,
  keep the corresponding constraints.
\<close>

definition same_provider_tables :: "db \<Rightarrow> db \<Rightarrow> bool" where
  "same_provider_tables d d' \<longleftrightarrow>
     reservations d' = reservations d \<and> accounts d' = accounts d \<and> periods d' = periods d \<and>
     credit_events d' = credit_events d \<and> topups d' = topups d"

lemma same_provider_tables_constraints:
  "same_provider_tables d d' \<Longrightarrow> provider_constraints d' = provider_constraints d"
  by (simp add: same_provider_tables_def provider_constraints_def)

end
