(* ===== verification/CreditPolicy.thy ===== *)
theory CreditPolicy
  imports Database
begin

text \<open>
  The pure money rules: the credit prices (\<open>src/lib/credits.ts\<close>), the plan tables
  (\<open>src/lib/providerCreditPolicy.ts\<close>, \<open>src/db.ts\<close>), the monthly grant
  (\<open>src/lib/creditRollover.ts\<close>), the settlement decision for a failed build
  (\<open>src/lib/creditSettlement.ts\<close>, \<open>src/lib/customerOperations.ts\<close>) and the worst-case
  provider cost of a build (\<open>src/lib/providerCostEnvelope.ts\<close>,
  \<open>src/lib/providerCostPolicy.ts\<close>).
\<close>

section \<open>Prices and plans\<close>

definition BUILD_CREDIT_COST :: int where "BUILD_CREDIT_COST = 5"
definition SENIOR_DEV_CREDIT_COST :: int where "SENIOR_DEV_CREDIT_COST = 6"
definition AI_GENERATE_CREDIT_COST :: int where "AI_GENERATE_CREDIT_COST = 5"

definition INCLUDED_PROVIDER_CREDIT_CENTS :: "string \<rightharpoonup> int" where
  "INCLUDED_PROVIDER_CREDIT_CENTS =
     [''free'' \<mapsto> 0, ''starter'' \<mapsto> 1200, ''builder'' \<mapsto> 3500, ''studio'' \<mapsto> 9500]"

definition PURCHASED_PROVIDER_CREDIT_PACKS_CENTS :: "int list" where
  "PURCHASED_PROVIDER_CREDIT_PACKS_CENTS = [1000, 3000, 8000]"

definition PURCHASED_PROVIDER_CREDIT_PACK_PRICES_USD_CENTS :: "int \<rightharpoonup> int" where
  "PURCHASED_PROVIDER_CREDIT_PACK_PRICES_USD_CENTS =
     [1000 \<mapsto> 2500, 3000 \<mapsto> 6900, 8000 \<mapsto> 16900]"

definition PROVIDER_CREDIT_TOP_UP_PERIOD_LIMIT_USD_CENTS :: int where
  "PROVIDER_CREDIT_TOP_UP_PERIOD_LIMIT_USD_CENTS = 50000"

text \<open>A plan table maps a tier to a number, or to \<open>null\<close> (\<open>None\<close>) for unlimited.\<close>

definition TIER_BUILD_LIMITS :: "string \<rightharpoonup> int option" where
  "TIER_BUILD_LIMITS = [''free'' \<mapsto> Some 0, ''starter'' \<mapsto> Some 16, ''builder'' \<mapsto> Some 66,
     ''studio'' \<mapsto> None, ''enterprise'' \<mapsto> None, ''custom'' \<mapsto> None]"

definition getTierBuildLimit :: "string \<Rightarrow> int option" where
  "getTierBuildLimit tier = (case TIER_BUILD_LIMITS tier of Some l \<Rightarrow> l | None \<Rightarrow> Some 0)"

definition TIER_CREDIT_REFILLS :: "string \<rightharpoonup> int option" where
  "TIER_CREDIT_REFILLS = [''free'' \<mapsto> Some 0, ''starter'' \<mapsto> Some 100, ''builder'' \<mapsto> Some 400,
     ''studio'' \<mapsto> Some 1500, ''enterprise'' \<mapsto> None, ''custom'' \<mapsto> None]"

definition getTierCreditRefill :: "string \<Rightarrow> int option" where
  "getTierCreditRefill tier = (case TIER_CREDIT_REFILLS tier of Some r \<Rightarrow> r | None \<Rightarrow> Some 0)"

lemma getTierCreditRefill_range: "getTierCreditRefill tier = Some r \<Longrightarrow> 0 \<le> r \<and> r \<le> 1500"
  by (auto simp: getTierCreditRefill_def TIER_CREDIT_REFILLS_def split: if_splits)

lemma included_credits_range: "INCLUDED_PROVIDER_CREDIT_CENTS tier = Some c \<Longrightarrow> 0 \<le> c \<and> c \<le> 9500"
  by (auto simp: INCLUDED_PROVIDER_CREDIT_CENTS_def split: if_splits)

section \<open>Monthly grants\<close>

datatype rollover_error = InvalidMonthlyGrant

definition balanceAfterMonthlyGrant :: "int \<Rightarrow> int \<Rightarrow> (rollover_error, int) result" where
  "balanceAfterMonthlyGrant balance grant =
     (if \<not> is_safe_integer balance \<or> balance < 0 \<or>
         \<not> is_safe_integer grant \<or> grant < 0 \<or>
         \<not> is_safe_integer (balance + grant)
      then Inl InvalidMonthlyGrant
      else Inr (balance + grant))"

lemma balanceAfterMonthlyGrant_eq [simp]:
  "balanceAfterMonthlyGrant b g = Inr n \<longleftrightarrow>
     0 \<le> b \<and> 0 \<le> g \<and> is_safe_integer (b + g) \<and> n = b + g"
  by (auto simp: balanceAfterMonthlyGrant_def is_safe_integer_def)

section \<open>Settlement of a failed build\<close>

datatype failure_kind =
    EarlyFailure | ProviderOutage | InternalDefect | InvalidCustomerCredentials
  | ExternalRejection | Timeout | Interruption | Duplicate | Cancelled

datatype credit_outcome = NotCharged | OReleased | Refunded | Charged | ManualReview

fun kind_text :: "failure_kind \<Rightarrow> string" where
  "kind_text EarlyFailure = ''early_failure''"
| "kind_text ProviderOutage = ''provider_outage''"
| "kind_text InternalDefect = ''internal_defect''"
| "kind_text InvalidCustomerCredentials = ''invalid_customer_credentials''"
| "kind_text ExternalRejection = ''external_rejection''"
| "kind_text Timeout = ''timeout''"
| "kind_text Interruption = ''interruption''"
| "kind_text Duplicate = ''duplicate''"
| "kind_text Cancelled = ''cancelled''"

fun outcome_text :: "credit_outcome \<Rightarrow> string" where
  "outcome_text NotCharged = ''not_charged''"
| "outcome_text OReleased = ''released''"
| "outcome_text Refunded = ''refunded''"
| "outcome_text Charged = ''charged''"
| "outcome_text ManualReview = ''manual_review''"

record settlement_input =
  si_kind :: failure_kind
  si_useful :: bool
  si_reserved :: int
  si_charged :: int
  si_customerCaused :: bool
  si_buildRef :: "string option"

record settlement_decision =
  dec_outcome :: credit_outcome
  dec_amount :: int
  dec_customerFault :: bool
  dec_reason :: string
  dec_key :: string

definition appforge_failure_kinds :: "failure_kind list" where
  "appforge_failure_kinds =
     [EarlyFailure, ProviderOutage, InternalDefect, Timeout, Interruption, Duplicate]"

definition decideCreditSettlement :: "settlement_input \<Rightarrow> settlement_decision" where
  "decideCreditSettlement i =
    (let reserved = max 0 (si_reserved i);
         charged = max 0 (si_charged i);
         appforgeOrProviderFailure = si_kind i \<in> set appforge_failure_kinds;
         (outcome, amount, reason) =
           (if appforgeOrProviderFailure \<and> \<not> si_useful i then
              (if charged > 0 then
                 (Refunded, charged,
                  ''AppForge/provider failure before useful work was delivered.'')
               else if reserved > 0 then
                 (OReleased, reserved,
                  ''Reserved credits released because useful work was not delivered.'')
               else
                 (NotCharged, 0, ''Failure occurred before credits were consumed.''))
            else if si_customerCaused i \<and> si_useful i then
              (Charged, charged,
               ''Material work was delivered before a customer-controlled dependency failed.'')
            else if si_kind i = Cancelled \<and> si_useful i then
              (Charged, charged,
               ''Customer cancellation occurred after material work was delivered.'')
            else if charged > 0 \<and> \<not> si_useful i then
              (Refunded, charged, ''No useful work was delivered.'')
            else
              (ManualReview, 0,
               ''Settlement requires evidence review to avoid an unfair or duplicate adjustment.''));
         trimmed = (case si_buildRef i of None \<Rightarrow> [] | Some b \<Rightarrow> js_trim b);
         buildRef = (if trimmed = [] then ''unassigned-build'' else trimmed)
     in \<lparr>dec_outcome = outcome, dec_amount = amount, dec_customerFault = si_customerCaused i,
         dec_reason = reason,
         dec_key = ''credit-settlement:'' @ buildRef @ '':'' @ kind_text (si_kind i) @ '':'' @
                  outcome_text outcome\<rparr>)"

fun FAILURE_COPY :: "failure_kind \<Rightarrow> string" where
  "FAILURE_COPY EarlyFailure = ''The build stopped before useful generation work completed.''"
| "FAILURE_COPY ProviderOutage = ''A required external provider was unavailable during this build.''"
| "FAILURE_COPY InternalDefect = ''AppForge encountered an internal build defect.''"
| "FAILURE_COPY InvalidCustomerCredentials =
    ''A connected service rejected the customer-provided credentials or permissions.''"
| "FAILURE_COPY ExternalRejection = ''An external platform rejected the requested operation.''"
| "FAILURE_COPY Timeout = ''The build exceeded its safe execution window and was stopped.''"
| "FAILURE_COPY Interruption =
    ''The build was interrupted before it could be safely completed.''"
| "FAILURE_COPY Duplicate = ''A duplicate build was detected and stopped.''"
| "FAILURE_COPY Cancelled = ''The build was cancelled before completion.''"

fun CREDIT_COPY :: "credit_outcome \<Rightarrow> string" where
  "CREDIT_COPY NotCharged = ''No build credits were charged.''"
| "CREDIT_COPY OReleased = ''Reserved build credits were released back to your balance.''"
| "CREDIT_COPY Refunded = ''Charged build credits were restored to your balance.''"
| "CREDIT_COPY Charged =
    ''The completed work remains charged under the build settlement rules.''"
| "CREDIT_COPY ManualReview =
    ''Credit settlement requires support review; no duplicate adjustment will be applied.''"

record failure_explanation =
  fe_customerMessage :: string
  fe_creditMessage :: string
  fe_canRetry :: bool

definition buildFailureExplanation ::
    "failure_kind \<Rightarrow> credit_outcome \<Rightarrow> bool \<Rightarrow> failure_explanation" where
  "buildFailureExplanation kind outcome retryable =
     \<lparr>fe_customerMessage = FAILURE_COPY kind, fe_creditMessage = CREDIT_COPY outcome,
      fe_canRetry = retryable\<rparr>"

text \<open>
  A failed build settles fairly: credits charged for a build that delivered nothing useful
  are always refunded in full, whatever the failure; credits stay charged only after useful
  work; and no decision moves more than was charged or reserved.
\<close>

theorem settlement_is_fair:
  "(si_charged i > 0 \<and> \<not> si_useful i \<longrightarrow>
      dec_outcome (decideCreditSettlement i) = Refunded \<and>
      dec_amount (decideCreditSettlement i) = si_charged i) \<and>
   (dec_outcome (decideCreditSettlement i) = Charged \<longrightarrow> si_useful i) \<and>
   0 \<le> dec_amount (decideCreditSettlement i) \<and>
   dec_amount (decideCreditSettlement i) \<le> max 0 (max (si_reserved i) (si_charged i))"
  by (auto simp: decideCreditSettlement_def Let_def)

theorem settlement_is_fair_witness:
  "dec_amount (decideCreditSettlement
     \<lparr>si_kind = ExternalRejection, si_useful = False, si_reserved = 5, si_charged = 5,
      si_customerCaused = True, si_buildRef = None\<rparr>) = 5"
  using settlement_is_fair [of "\<lparr>si_kind = ExternalRejection, si_useful = False,
      si_reserved = 5, si_charged = 5, si_customerCaused = True, si_buildRef = None\<rparr>"]
  by simp

section \<open>Worst-case provider cost\<close>

record costed_attempt =
  at_provider :: string
  at_model :: string
  at_maxInputTokens :: int
  at_maxOutputTokens :: int
  at_inputRate :: int
  at_outputRate :: int
  at_fixedCents :: int

record cost_envelope =
  env_attempts :: "costed_attempt list"
  env_externalCents :: int
  env_validUntil :: stamp
  env_source :: string

datatype envelope_error =
    UnknownRateOrBudget | ZeroCostRate | IncompleteOrExpiredEnvelope | EnvelopeUnsafe
  | PriceCatalogueMissing

definition nonnegative :: "int \<Rightarrow> bool" where
  "nonnegative n \<longleftrightarrow> is_safe_integer n \<and> n \<ge> 0"

definition positive :: "int \<Rightarrow> bool" where
  "positive n \<longleftrightarrow> is_safe_integer n \<and> n > 0"

definition toCentsFromMicrosOfUsd :: "int \<Rightarrow> int" where
  "toCentsFromMicrosOfUsd value = (value + 9999) div 10000"

definition perAttemptMaximumCents :: "costed_attempt \<Rightarrow> (envelope_error, int) result" where
  "perAttemptMaximumCents a =
     (if js_trim (at_provider a) = [] \<or> js_trim (at_model a) = [] \<or>
         \<not> positive (at_maxInputTokens a) \<or> \<not> positive (at_maxOutputTokens a) \<or>
         \<not> nonnegative (at_inputRate a) \<or> \<not> nonnegative (at_outputRate a) \<or>
         \<not> nonnegative (at_fixedCents a)
      then Inl UnknownRateOrBudget
      else if at_inputRate a = 0 \<and> at_outputRate a = 0 \<and> at_fixedCents a = 0
      then Inl ZeroCostRate
      else
        let inputMicros = (at_maxInputTokens a * at_inputRate a + 999999) div 1000000;
            outputMicros = (at_maxOutputTokens a * at_outputRate a + 999999) div 1000000
        in Inr (toCentsFromMicrosOfUsd (inputMicros + outputMicros) + at_fixedCents a))"

fun add_attempts :: "int \<Rightarrow> costed_attempt list \<Rightarrow> (envelope_error, int) result" where
  "add_attempts maximum [] = Inr maximum"
| "add_attempts maximum (a # as) =
     bind_result (perAttemptMaximumCents a) (\<lambda>c. add_attempts (maximum + c) as)"

definition maximumProviderEnvelopeCents ::
    "int \<Rightarrow> cost_envelope \<Rightarrow> (envelope_error, int) result" where
  "maximumProviderEnvelopeCents now e =
     (if env_attempts e = [] \<or> length (env_attempts e) > 64 \<or>
         \<not> nonnegative (env_externalCents e) \<or> \<not> finite_time now \<or>
         (case stamp_time (env_validUntil e) of None \<Rightarrow> True | Some t \<Rightarrow> t \<le> now) \<or>
         env_source e \<notin> {''provisional'', ''provider_confirmed''}
      then Inl IncompleteOrExpiredEnvelope
      else bind_result (add_attempts (env_externalCents e) (env_attempts e)) (\<lambda>maximum.
        if maximum > MAX_SAFE_INTEGER then Inl EnvelopeUnsafe else Inr maximum))"

definition assertProviderPricesConfirmed ::
    "int \<Rightarrow> cost_envelope \<Rightarrow> (envelope_error, unit) result" where
  "assertProviderPricesConfirmed now e =
     bind_result (maximumProviderEnvelopeCents now e) (\<lambda>_. Inl PriceCatalogueMissing)"

text \<open>
  What a run really uses: for every attempt a token count within its maxima. Its exact cost,
  in millionths of a micro-dollar, so that no rounding is involved; a cent is \<open>10 ^ 10\<close> of them.
\<close>

definition exact_attempt_cost :: "costed_attempt \<Rightarrow> int \<times> int \<Rightarrow> int" where
  "exact_attempt_cost a u =
     fst u * at_inputRate a + snd u * at_outputRate a + at_fixedCents a * 10000000000"

definition within_maxima :: "costed_attempt \<Rightarrow> int \<times> int \<Rightarrow> bool" where
  "within_maxima a u \<longleftrightarrow>
     0 \<le> fst u \<and> fst u \<le> at_maxInputTokens a \<and> 0 \<le> snd u \<and> snd u \<le> at_maxOutputTokens a"

lemma ceil_div_le: "0 < d \<Longrightarrow> x \<le> (x + (d - 1)) div d * d" for d :: int
proof -
  assume "0 < d"
  then have "(x + (d - 1)) mod d < d" by simp
  with div_mult_mod_eq [of "x + (d - 1)" d] show ?thesis by linarith
qed

lemma rounded_cost_le:
  fixes x y i oo f :: int
  assumes "x \<le> i" "y \<le> oo"
  shows "x + y + f * 10000000000 \<le>
    (((i + 999999) div 1000000 + (oo + 999999) div 1000000 + 9999) div 10000 + f) * 10000000000"
proof -
  define p q where "p = (i + 999999) div 1000000" and "q = (oo + 999999) div 1000000"
  have "i \<le> p * 1000000" "oo \<le> q * 1000000"
    using ceil_div_le [of 1000000 i] ceil_div_le [of 1000000 oo] by (simp_all add: p_def q_def)
  moreover have "p + q \<le> (p + q + 9999) div 10000 * 10000"
    using ceil_div_le [of 10000 "p + q"] by simp
  ultimately have "x + y \<le> (p + q + 9999) div 10000 * 10000000000" using assms by linarith
  then show ?thesis unfolding p_def q_def by (simp add: algebra_simps)
qed

lemma attempt_cost_covered:
  assumes "perAttemptMaximumCents a = Inr c" "within_maxima a u"
  shows "exact_attempt_cost a u \<le> c * 10000000000 \<and> 0 \<le> c"
proof -
  let ?i = "at_maxInputTokens a * at_inputRate a" and ?o = "at_maxOutputTokens a * at_outputRate a"
  from assms(1) have rates: "0 \<le> at_inputRate a" "0 \<le> at_outputRate a" "0 \<le> at_fixedCents a"
    and tokens: "0 < at_maxInputTokens a" "0 < at_maxOutputTokens a"
    and c: "c = ((?i + 999999) div 1000000 + (?o + 999999) div 1000000 + 9999) div 10000
                + at_fixedCents a"
    by (auto simp: perAttemptMaximumCents_def toCentsFromMicrosOfUsd_def nonnegative_def
        positive_def Let_def split: if_splits)
  from assms(2) rates have "fst u * at_inputRate a \<le> ?i" "snd u * at_outputRate a \<le> ?o"
    by (auto simp: within_maxima_def mult_right_mono)
  moreover from rates tokens have "0 \<le> ?i" "0 \<le> ?o" by simp_all
  moreover from calculation have "0 \<le> (?i + 999999) div 1000000" "0 \<le> (?o + 999999) div 1000000"
    by (simp_all add: pos_imp_zdiv_nonneg_iff)
  ultimately show ?thesis
    using rates rounded_cost_le [of "fst u * at_inputRate a" ?i "snd u * at_outputRate a" ?o "at_fixedCents a"]
    by (simp add: exact_attempt_cost_def c pos_imp_zdiv_nonneg_iff)
qed

lemma add_attempts_covered:
  assumes "add_attempts m as = Inr n" "list_all2 within_maxima as us"
  shows "(\<Sum>(a, u) \<leftarrow> zip as us. exact_attempt_cost a u) \<le> (n - m) * 10000000000 \<and> m \<le> n"
  using assms(2,1)
proof (induction as us arbitrary: m rule: list_all2_induct)
  case Nil
  then show ?case by simp
next
  case (Cons a as u us)
  from Cons.prems obtain c where c: "perAttemptMaximumCents a = Inr c"
    and rest: "add_attempts (m + c) as = Inr n" by auto
  from attempt_cost_covered [OF c Cons.hyps(1)] Cons.IH [OF rest] show ?case
    by (auto simp: algebra_simps)
qed

text \<open>
  C0. The envelope covers every run: if \<open>maximumProviderEnvelopeCents\<close> quotes a number of
  cents, then whatever tokens the permitted attempts really use within their declared maxima,
  the exact cost of all of them together with the external cost is at most the quote; the quote
  is a safe integer.
\<close>

theorem envelope_covers_every_run:
  assumes "maximumProviderEnvelopeCents now e = Inr cents"
    and "list_all2 within_maxima (env_attempts e) usage"
  shows "env_externalCents e * 10000000000 +
      (\<Sum>(a, u) \<leftarrow> zip (env_attempts e) usage. exact_attempt_cost a u) \<le> cents * 10000000000 \<and>
    nonnegative cents"
proof -
  from assms(1) have sum: "add_attempts (env_externalCents e) (env_attempts e) = Inr cents"
    and ext: "0 \<le> env_externalCents e" and "cents \<le> MAX_SAFE_INTEGER"
    by (auto simp: maximumProviderEnvelopeCents_def nonnegative_def split: if_splits)
  with add_attempts_covered [OF sum assms(2)]
  show ?thesis
    by (auto simp: nonnegative_def is_safe_integer_def MAX_SAFE_INTEGER_def algebra_simps)
qed

definition sample_envelope :: cost_envelope where
  "sample_envelope = \<lparr>env_attempts = [\<lparr>at_provider = ''openai'', at_model = ''m'',
      at_maxInputTokens = 1000, at_maxOutputTokens = 500, at_inputRate = 2500000,
      at_outputRate = 10000000, at_fixedCents = 0\<rparr>],
    env_externalCents = 3, env_validUntil = Stamp ''2030'' (Some 100), env_source = ''provisional''\<rparr>"

lemma sample_envelope_cents: "maximumProviderEnvelopeCents 0 sample_envelope = Inr 4"
  by code_simp

theorem envelope_covers_every_run_witness:
  "3 * 10000000000 + (10 * 2500000 + 20 * 10000000) \<le> (4 :: int) * 10000000000"
  using envelope_covers_every_run [OF sample_envelope_cents, of "[(10, 20)]"]
  by (simp add: sample_envelope_def within_maxima_def exact_attempt_cost_def)

section \<open>Provisional monthly budget\<close>

definition PROVISIONAL_PROVIDER_MONTHLY_CEILINGS_CENTS :: "string \<rightharpoonup> int" where
  "PROVISIONAL_PROVIDER_MONTHLY_CEILINGS_CENTS =
     [''free'' \<mapsto> 0, ''starter'' \<mapsto> 1200, ''builder'' \<mapsto> 3500, ''studio'' \<mapsto> 9500]"

datatype budget_error = InvalidProviderCosts | UnknownTier | AccountingOverflow

record budget_evaluation =
  bud_permitted :: bool
  bud_available :: int
  bud_reason :: string

definition evaluateProvisionalProviderBudget ::
    "string \<Rightarrow> int \<Rightarrow> int \<Rightarrow> int \<Rightarrow> (budget_error, budget_evaluation) result" where
  "evaluateProvisionalProviderBudget tier usedCents pendingCents newCents =
     (if \<not> nonnegative usedCents \<or> \<not> nonnegative pendingCents \<or> \<not> nonnegative newCents
      then Inl InvalidProviderCosts
      else case PROVISIONAL_PROVIDER_MONTHLY_CEILINGS_CENTS tier of
        None \<Rightarrow> Inl UnknownTier
      | Some cap \<Rightarrow>
          let used = usedCents + pendingCents; availableCents = max 0 (cap - used)
          in if \<not> is_safe_integer used then Inl AccountingOverflow
             else Inr
               \<lparr>bud_permitted = (newCents \<le> availableCents \<and> newCents > 0),
                bud_available = availableCents,
                bud_reason =
                  (if newCents \<le> availableCents \<and> newCents > 0
                   then ''Within provisional model only; no live authorisation''
                   else ''Provisional provider-cost budget insufficient; pause and quote'')\<rparr>)"

lemma provisional_budget_never_overspends:
  "evaluateProvisionalProviderBudget tier used pending new = Inr b \<Longrightarrow> bud_permitted b \<Longrightarrow>
   \<exists>cap. PROVISIONAL_PROVIDER_MONTHLY_CEILINGS_CENTS tier = Some cap \<and> used + pending + new \<le> cap"
  by (auto simp: evaluateProvisionalProviderBudget_def Let_def split: if_splits option.splits)

end
