(* ===== verification/ProviderLedger.thy ===== *)
theory ProviderLedger
  imports CreditPolicy
begin

text \<open>
  The provider-spend ledger of \<open>src/services/providerSpendLedger.ts\<close>: reserving provider
  credits for an operation of a build, settling the verified charge, and releasing an
  undispatched reservation. Each operation is one serialised transaction (the row lock on the
  user), so it is a function from the database to an error, which rolls everything back, or a
  result with the new database.
\<close>

section \<open>Guards\<close>

definition safeCents :: "int \<Rightarrow> bool" where
  "safeCents v \<longleftrightarrow> is_safe_integer v \<and> v \<ge> 0"

definition safeId :: "int \<Rightarrow> bool" where
  "safeId v \<longleftrightarrow> is_safe_integer v \<and> v > 0"

definition key_char :: "char \<Rightarrow> bool" where
  "key_char c \<longleftrightarrow> is_alnum c \<or> c = CHR '':'' \<or> c = CHR ''_'' \<or> c = CHR ''-''"

definition validKey :: "string \<Rightarrow> bool" where
  "validKey v \<longleftrightarrow> in_class key_char 8 128 v"

datatype ledger_error =
    InvalidReservation | CustomerNotFound | ProjectOwnershipMismatch | ExecutionOwnershipMismatch
  | ActiveSubscriptionRequired | NoApprovedCredits | ConflictingOperation
  | FrozenPendingOverrun | AccountNotProvisioned | PeriodNotProvisioned | PlanMismatch
  | PeriodExpired | CreditsExhausted | BuildBudgetExhausted | UnsafeLedgerAmount
  | InvalidSettlement | MissingReservation | ConflictingSettlement | AccountMissing
  | PeriodMissing | InconsistentAllocation | OverrunFrozen
  | InvalidRelease | OnlyUndispatchedReleasable | LedgerConstraintViolation

definition amount :: "int \<Rightarrow> (ledger_error, int) result" where
  "amount v = (if safeCents v then Inr v else Inl UnsafeLedgerAmount)"

lemma amount_eq [simp]:
  "amount v = Inr n \<longleftrightarrow> safeCents v \<and> n = v"
  "amount v = Inl e \<longleftrightarrow> \<not> safeCents v \<and> e = UnsafeLedgerAmount"
  by (auto simp: amount_def)

section \<open>Reserving\<close>

record reservation_input =
  in_user :: int
  in_project :: int
  in_execution :: int
  in_operation :: string
  in_maximum :: int

definition valid_reservation_input :: "reservation_input \<Rightarrow> bool" where
  "valid_reservation_input i \<longleftrightarrow>
     safeId (in_user i) \<and> safeId (in_project i) \<and> safeId (in_execution i) \<and>
     validKey (in_operation i) \<and> safeCents (in_maximum i) \<and> in_maximum i \<noteq> 0"

definition validTime :: "int option \<Rightarrow> int option" where
  "validTime v = (case v of None \<Rightarrow> None | Some t \<Rightarrow> if finite_time t then Some t else None)"

text \<open>
  The subscription gate: an active or trialing subscription inside its paid period, on a tier
  with a positive provider allowance. It yields the period start and the allowance.
\<close>

definition provider_subscription ::
    "int \<Rightarrow> subscription_row option \<Rightarrow> (ledger_error, int \<times> int) result" where
  "provider_subscription now sub =
    (case sub of None \<Rightarrow> Inl ActiveSubscriptionRequired
     | Some s \<Rightarrow>
        let active = (sub_status s = Some ''active'' \<or> sub_status s = Some ''trialing'');
            validTrial = (sub_status s \<noteq> Some ''trialing'' \<or>
              (case validTime (sub_trialEnd s) of None \<Rightarrow> False | Some t \<Rightarrow> t > now))
        in case (validTime (sub_periodStart s), validTime (sub_periodEnd s)) of
             (Some periodStart, Some periodEnd) \<Rightarrow>
               if \<not> active \<or> \<not> (periodStart < now \<and> periodStart < periodEnd \<and> periodEnd > now) \<or>
                  \<not> validTrial
               then Inl ActiveSubscriptionRequired
               else (case Option.bind (sub_tier s) INCLUDED_PROVIDER_CREDIT_CENTS of
                   None \<Rightarrow> Inl ActiveSubscriptionRequired
                 | Some approved \<Rightarrow>
                     if approved \<le> 0 then Inl NoApprovedCredits
                     else Inr (periodStart, approved))
           | _ \<Rightarrow> Inl ActiveSubscriptionRequired)"

definition is_reservation :: "int \<Rightarrow> string \<Rightarrow> reservation_row \<Rightarrow> bool" where
  "is_reservation user operation r \<longleftrightarrow> res_user r = user \<and> res_operation r = operation"

definition included_held :: "int \<Rightarrow> int \<Rightarrow> db \<Rightarrow> int" where
  "included_held user period d = sum_where
     (\<lambda>r. res_user r = user \<and> res_state r = Reserved \<and> res_period r = period)
     res_included (reservations d)"

definition purchased_held :: "int \<Rightarrow> db \<Rightarrow> int" where
  "purchased_held user d = sum_where
     (\<lambda>r. res_user r = user \<and> res_state r = Reserved) res_purchased (reservations d)"

definition build_usage :: "int \<Rightarrow> int \<Rightarrow> int \<Rightarrow> db \<Rightarrow> int" where
  \<comment> \<open>what this build execution has reserved, or settled in this period\<close>
  "build_usage user execution period d = sum_where
     (\<lambda>r. res_user r = user \<and> res_execution r = execution \<and>
          (res_state r = Reserved \<or> (res_period r = period \<and> res_state r = Settled)))
     (\<lambda>r. case res_actual r of Some a \<Rightarrow> a | None \<Rightarrow> res_maximum r) (reservations d)"

text \<open>The replay branch: an operation that is already in the ledger is never reserved again.\<close>

definition replayed_reservation ::
    "reservation_input \<Rightarrow> reservation_row \<Rightarrow> (ledger_error, unit) result" where
  "replayed_reservation i previous =
     (if res_state previous = Released \<or> res_project previous \<noteq> in_project i \<or>
         res_execution previous \<noteq> in_execution i
      then Inl ConflictingOperation
      else bind_result (amount (res_maximum previous)) (\<lambda>m.
        if m \<noteq> in_maximum i then Inl ConflictingOperation else Inr ()))"

text \<open>The credits a customer can still reserve: purchased balance, included and purchased parts.\<close>

definition available_credits ::
    "int \<Rightarrow> int \<Rightarrow> int \<Rightarrow> int \<Rightarrow> db \<Rightarrow> (ledger_error, int \<times> int \<times> int) result" where
  "available_credits now user period approved d =
    (case first_row (\<lambda>a. acc_user a = user) (accounts d) of None \<Rightarrow> Inl AccountNotProvisioned
     | Some account \<Rightarrow>
    (case first_row (\<lambda>p. per_user p = user \<and> per_start p = period) (periods d) of
       None \<Rightarrow> Inl PeriodNotProvisioned
     | Some creditPeriod \<Rightarrow>
       bind_result (amount (per_allowance creditPeriod)) (\<lambda>allowance.
       if allowance \<noteq> approved then Inl PlanMismatch else
       bind_result (amount (acc_purchased account)) (\<lambda>purchasedBalance.
       if \<not> finite_time (per_end creditPeriod) \<or> per_end creditPeriod \<le> now
       then Inl PeriodExpired else
       bind_result (amount (included_held user period d)) (\<lambda>includedHeld.
       bind_result (amount (purchased_held user d)) (\<lambda>purchasedHeld.
       bind_result (amount (per_balance creditPeriod)) (\<lambda>includedBalance.
       Inr (purchasedBalance, includedBalance - includedHeld,
            purchasedBalance - purchasedHeld))))))))"

datatype reserve_outcome = OutcomeReserved | OutcomeDuplicate

definition new_reservation :: "reservation_input \<Rightarrow> int \<Rightarrow> int \<Rightarrow> reservation_row" where
  "new_reservation i period includedReserved =
     \<lparr>res_operation = in_operation i, res_user = in_user i, res_project = in_project i,
      res_execution = in_execution i, res_period = period, res_maximum = in_maximum i,
      res_included = includedReserved, res_purchased = in_maximum i - includedReserved,
      res_actual = None, res_state = Reserved, res_overrun = False\<rparr>"

definition reserveProviderSpend ::
    "int \<Rightarrow> reservation_input \<Rightarrow> db \<Rightarrow> (ledger_error, reserve_outcome \<times> db) result" where
  "reserveProviderSpend now i d =
    (if \<not> valid_reservation_input i then Inl InvalidReservation
     else if length (rows_where (\<lambda>u. u_id u = in_user i) (users d)) \<noteq> 1 then Inl CustomerNotFound
     else if length (rows_where (\<lambda>p. p_id p = in_project i \<and> p_user p = in_user i)
                      (projects d)) \<noteq> 1
     then Inl ProjectOwnershipMismatch
     else if length (rows_where (\<lambda>e. be_id e = in_execution i \<and> be_project e = in_project i \<and>
                      be_event e = ''build_execution_claim'') (build_events d)) \<noteq> 1
     then Inl ExecutionOwnershipMismatch
     else bind_result
       (provider_subscription now
         (first_row (\<lambda>s. sub_user s = in_user i) (subscriptions d)))
       (\<lambda>(periodStart, approvedIncludedCents).
         case first_row (is_reservation (in_user i) (in_operation i)) (reservations d) of
           Some previous \<Rightarrow>
             bind_result (replayed_reservation i previous) (\<lambda>_. Inr (OutcomeDuplicate, d))
         | None \<Rightarrow>
             if first_row (\<lambda>r. res_user r = in_user i \<and> res_overrun r) (reservations d) \<noteq> None
             then Inl FrozenPendingOverrun
             else
               let period = utc_day periodStart in
               bind_result (available_credits now (in_user i) period approvedIncludedCents d)
                (\<lambda>(purchasedBalance, includedAvailable, purchasedAvailable).
                 if \<not> is_safe_integer (includedAvailable + purchasedAvailable) \<or>
                    in_maximum i > includedAvailable + purchasedAvailable
                 then Inl CreditsExhausted
                 else bind_result (amount (build_usage (in_user i) (in_execution i) period d))
                   (\<lambda>buildSpent.
                     let buildLimitCents = (approvedIncludedCents + purchasedBalance) div 4 in
                     if in_maximum i > buildLimitCents - buildSpent then Inl BuildBudgetExhausted
                     else
                       let includedReserved = min (in_maximum i) includedAvailable in
                       commit_if provider_constraints LedgerConstraintViolation OutcomeReserved
                         (d\<lparr>reservations := reservations d @
                            [new_reservation i period includedReserved]\<rparr>)))))"

section \<open>Settling\<close>

definition settle_row :: "int \<Rightarrow> bool \<Rightarrow> reservation_row \<Rightarrow> reservation_row" where
  "settle_row verified exceeded r =
     r\<lparr>res_state := Settled, res_actual := Some verified, res_overrun := exceeded\<rparr>"

definition settle_transaction ::
    "int \<Rightarrow> string \<Rightarrow> int \<Rightarrow> db \<Rightarrow> (ledger_error, bool \<times> db) result" where
  "settle_transaction userId operationId verifiedCents d =
    (if length (rows_where (\<lambda>u. u_id u = userId) (users d)) \<noteq> 1 then Inl CustomerNotFound
     else case first_row (is_reservation userId operationId) (reservations d) of
       None \<Rightarrow> Inl MissingReservation
     | Some item \<Rightarrow>
       if res_state item = Released then Inl MissingReservation
       else if res_state item = Settled then
         (case res_actual item of None \<Rightarrow> Inl ConflictingSettlement
          | Some a \<Rightarrow> bind_result (amount a) (\<lambda>actual.
              if actual \<noteq> verifiedCents then Inl ConflictingSettlement
              else Inr (res_overrun item, d)))
       else if first_row (\<lambda>a. acc_user a = userId) (accounts d) = None then Inl AccountMissing
       else if length (rows_where (\<lambda>p. per_user p = userId \<and> per_start p = res_period item)
                        (periods d)) \<noteq> 1
       then Inl PeriodMissing
       else
         bind_result (amount (res_included item)) (\<lambda>includedReserved.
         bind_result (amount (res_purchased item)) (\<lambda>purchasedReserved.
         bind_result (amount (res_maximum item)) (\<lambda>maximum.
         if includedReserved + purchasedReserved \<noteq> maximum then Inl InconsistentAllocation
         else
           let billable = min verifiedCents maximum;
               includedDebited = min billable includedReserved;
               purchasedDebited = min (billable - includedDebited) purchasedReserved;
               underfunded = (billable - includedDebited - purchasedDebited > 0);
               exceeded = (verifiedCents > maximum \<or> underfunded)
           in commit_if provider_constraints LedgerConstraintViolation exceeded
             (d\<lparr>periods := update_where
                  (\<lambda>p. per_user p = userId \<and> per_start p = res_period item)
                  (\<lambda>p. p\<lparr>per_balance := per_balance p - includedDebited\<rparr>) (periods d),
                accounts := update_where (\<lambda>a. acc_user a = userId)
                  (\<lambda>a. a\<lparr>acc_purchased := acc_purchased a - purchasedDebited\<rparr>) (accounts d),
                reservations := update_where (is_reservation userId operationId)
                  (settle_row verifiedCents exceeded) (reservations d)\<rparr>)))))"

text \<open>
  The overrun error is thrown after the transaction has committed: the caller gets an error and
  the database has changed.
\<close>

definition settleProviderSpend ::
    "int \<Rightarrow> string \<Rightarrow> int \<Rightarrow> db \<Rightarrow> (ledger_error, unit) result \<times> db" where
  "settleProviderSpend userId operationId verifiedCents d =
    (if \<not> safeId userId \<or> \<not> validKey operationId \<or> \<not> safeCents verifiedCents
     then (Inl InvalidSettlement, d)
     else case settle_transaction userId operationId verifiedCents d of
       Inl e \<Rightarrow> (Inl e, d)
     | Inr (overrun, d') \<Rightarrow> (if overrun then Inl OverrunFrozen else Inr (), d'))"

section \<open>Releasing\<close>

definition releaseProviderSpend ::
    "int \<Rightarrow> string \<Rightarrow> db \<Rightarrow> (ledger_error, unit \<times> db) result" where
  "releaseProviderSpend userId operationId d =
    (if \<not> safeId userId \<or> \<not> validKey operationId then Inl InvalidRelease
     else if length (rows_where (\<lambda>u. u_id u = userId) (users d)) \<noteq> 1 then Inl CustomerNotFound
     else case first_row (is_reservation userId operationId) (reservations d) of
       None \<Rightarrow> Inl MissingReservation
     | Some reservation \<Rightarrow>
       if res_state reservation = Released then Inr ((), d)
       else if res_state reservation \<noteq> Reserved then Inl OnlyUndispatchedReleasable
       else commit_if provider_constraints LedgerConstraintViolation ()
         (d\<lparr>reservations := update_where (is_reservation userId operationId)
            (\<lambda>r. r\<lparr>res_state := Released\<rparr>) (reservations d)\<rparr>))"

section \<open>What each operation does\<close>

lemma is_reservation_key:
  "is_reservation u k r \<longleftrightarrow> reservation_key r = (u, k)"
  by (auto simp: is_reservation_def reservation_key_def)

lemma provider_subscription_Inr:
  assumes "provider_subscription now sub = Inr (start, approved)"
  shows "0 < approved" "approved \<le> 9500" "start < now"
    and "\<exists>s. sub = Some s \<and> sub_status s \<in> {Some ''active'', Some ''trialing''} \<and>
      Option.bind (sub_tier s) INCLUDED_PROVIDER_CREDIT_CENTS = Some approved"
  using assms included_credits_range
  by (auto simp: provider_subscription_def Let_def bind_eq_Some_conv
      split: option.splits if_splits)

lemma available_credits_Inr:
  assumes "available_credits now user period approved d = Inr (bal, incl, purch)"
  obtains a p where "a \<in> set (accounts d)" "acc_user a = user"
    "p \<in> set (periods d)" "per_user p = user" "per_start p = period"
    "per_allowance p = approved" "bal = acc_purchased a" "safeCents bal"
    "incl = per_balance p - included_held user period d"
    "purch = acc_purchased a - purchased_held user d" "now < per_end p"
  using assms
  by (fastforce simp: available_credits_def dest: first_row_Some split: option.splits if_splits)

lemma reserve_reserved:
  assumes "reserveProviderSpend now i d = Inr (OutcomeReserved, d')"
  obtains start approved a p incl where
    "valid_reservation_input i"
    "provider_subscription now (first_row (\<lambda>s. sub_user s = in_user i) (subscriptions d)) =
       Inr (start, approved)"
    "first_row (is_reservation (in_user i) (in_operation i)) (reservations d) = None"
    "\<forall>r \<in> set (reservations d). res_user r = in_user i \<longrightarrow> \<not> res_overrun r"
    "a \<in> set (accounts d)" "acc_user a = in_user i"
    "p \<in> set (periods d)" "per_user p = in_user i" "per_start p = utc_day start"
    "per_allowance p = approved"
    "incl = per_balance p - included_held (in_user i) (utc_day start) d"
    "in_maximum i \<le> incl + (acc_purchased a - purchased_held (in_user i) d)"
    "in_maximum i + build_usage (in_user i) (in_execution i) (utc_day start) d
       \<le> (approved + acc_purchased a) div 4"
    "d' = d\<lparr>reservations := reservations d @
             [new_reservation i (utc_day start) (min (in_maximum i) incl)]\<rparr>"
    "provider_constraints d'"
proof -
  from assms obtain start approved where v: "valid_reservation_input i"
    and s: "provider_subscription now (first_row (\<lambda>s. sub_user s = in_user i) (subscriptions d)) =
       Inr (start, approved)"
    and n: "first_row (is_reservation (in_user i) (in_operation i)) (reservations d) = None"
    and o: "first_row (\<lambda>r. res_user r = in_user i \<and> res_overrun r) (reservations d) = None"
    and rest: "bind_result (available_credits now (in_user i) (utc_day start) approved d)
        (\<lambda>(purchasedBalance, includedAvailable, purchasedAvailable).
                 if \<not> is_safe_integer (includedAvailable + purchasedAvailable) \<or>
                    in_maximum i > includedAvailable + purchasedAvailable
                 then Inl CreditsExhausted
                 else bind_result (amount (build_usage (in_user i) (in_execution i) (utc_day start) d))
                   (\<lambda>buildSpent.
                     let buildLimitCents = (approved + purchasedBalance) div 4 in
                     if in_maximum i > buildLimitCents - buildSpent then Inl BuildBudgetExhausted
                     else
                       let includedReserved = min (in_maximum i) includedAvailable in
                       commit_if provider_constraints LedgerConstraintViolation OutcomeReserved
                         (d\<lparr>reservations := reservations d @
                            [new_reservation i (utc_day start) includedReserved]\<rparr>)))
        = Inr (OutcomeReserved, d')"
    by (auto simp: reserveProviderSpend_def Let_def split: if_splits option.splits)
  from rest obtain bal incl purch where
    av: "available_credits now (in_user i) (utc_day start) approved d = Inr (bal, incl, purch)"
    and fits: "in_maximum i \<le> incl + purch"
      "in_maximum i \<le> (approved + bal) div 4 -
         build_usage (in_user i) (in_execution i) (utc_day start) d"
    and d': "d' = d\<lparr>reservations := reservations d @
             [new_reservation i (utc_day start) (min (in_maximum i) incl)]\<rparr>"
      "provider_constraints d'"
    by (auto simp: Let_def split: if_splits)
  from o have "\<forall>r \<in> set (reservations d). res_user r = in_user i \<longrightarrow> \<not> res_overrun r"
    by (auto simp: first_row_None)
  with av v s n fits d' show thesis
    by (elim available_credits_Inr) (rule that, auto)
qed

lemma settle_cases:
  assumes "settle_transaction u k v d = Inr (over, d')"
  obtains (replay) item where "item \<in> set (reservations d)" "is_reservation u k item"
      "res_state item = Settled" "res_actual item = Some v" "over = res_overrun item" "d' = d"
  | (settled) item incl purch where "item \<in> set (reservations d)" "is_reservation u k item"
      "res_state item = Reserved" "res_included item + res_purchased item = res_maximum item"
      "incl = min (min v (res_maximum item)) (res_included item)"
      "purch = min (min v (res_maximum item) - incl) (res_purchased item)"
      "over = (v > res_maximum item \<or> min v (res_maximum item) - incl - purch > 0)"
      "d' = d\<lparr>periods := update_where
              (\<lambda>p. per_user p = u \<and> per_start p = res_period item)
              (\<lambda>p. p\<lparr>per_balance := per_balance p - incl\<rparr>) (periods d),
            accounts := update_where (\<lambda>a. acc_user a = u)
              (\<lambda>a. a\<lparr>acc_purchased := acc_purchased a - purch\<rparr>) (accounts d),
            reservations := update_where (is_reservation u k) (settle_row v over) (reservations d)\<rparr>"
      "provider_constraints d'"
proof -
  from assms obtain item where f: "first_row (is_reservation u k) (reservations d) = Some item"
    and nr: "res_state item \<noteq> Released"
    by (auto simp: settle_transaction_def split: if_splits option.splits)
  note item = first_row_Some [OF f]
  show thesis
  proof (cases "res_state item = Settled")
    case True
    with assms f item show thesis
      by (intro replay [of item])
        (auto simp: settle_transaction_def split: if_splits option.splits)
  next
    case False
    with nr have r: "res_state item = Reserved" by (cases "res_state item") auto
    let ?m = "min v (res_maximum item)" let ?i = "min ?m (res_included item)"
    let ?p = "min (?m - ?i) (res_purchased item)"
    from assms f r have "res_included item + res_purchased item = res_maximum item"
      "over = (v > res_maximum item \<or> ?m - ?i - ?p > 0)"
      "d' = d\<lparr>periods := update_where
              (\<lambda>p. per_user p = u \<and> per_start p = res_period item)
              (\<lambda>p. p\<lparr>per_balance := per_balance p - ?i\<rparr>) (periods d),
            accounts := update_where (\<lambda>a. acc_user a = u)
              (\<lambda>a. a\<lparr>acc_purchased := acc_purchased a - ?p\<rparr>) (accounts d),
            reservations := update_where (is_reservation u k) (settle_row v over) (reservations d)\<rparr>"
      "provider_constraints d'"
      by (auto simp: settle_transaction_def Let_def split: if_splits)
    with item r show thesis by (intro settled [of item ?i ?p]) auto
  qed
qed

lemma release_cases:
  assumes "releaseProviderSpend u k d = Inr ((), d')"
  obtains (again) item where "item \<in> set (reservations d)" "is_reservation u k item"
      "res_state item = Released" "d' = d"
  | (released) item where "item \<in> set (reservations d)" "is_reservation u k item"
      "res_state item = Reserved" "provider_constraints d'"
      "d' = d\<lparr>reservations := update_where (is_reservation u k)
            (\<lambda>r. r\<lparr>res_state := Released\<rparr>) (reservations d)\<rparr>"
proof -
  from assms obtain item where f: "first_row (is_reservation u k) (reservations d) = Some item"
    by (auto simp: releaseProviderSpend_def split: if_splits option.splits)
  note item = first_row_Some [OF f]
  show thesis
  proof (cases "res_state item = Released")
    case True
    with assms f item show thesis
      by (intro again [of item]) (auto simp: releaseProviderSpend_def split: if_splits)
  next
    case False
    with assms f item show thesis
      by (intro released [of item]) (auto simp: releaseProviderSpend_def split: if_splits)
  qed
qed

section \<open>The ledger invariant\<close>

text \<open>What a settled reservation took out of the included and of the purchased balance.\<close>

definition included_debit :: "reservation_row \<Rightarrow> int" where
  "included_debit r = (case res_actual r of None \<Rightarrow> 0
     | Some a \<Rightarrow> min (min a (res_maximum r)) (res_included r))"

definition purchased_debit :: "reservation_row \<Rightarrow> int" where
  "purchased_debit r = (case res_actual r of None \<Rightarrow> 0
     | Some a \<Rightarrow> min (min a (res_maximum r) - included_debit r) (res_purchased r))"

definition included_spent :: "int \<Rightarrow> int \<Rightarrow> db \<Rightarrow> int" where
  "included_spent user period d = sum_where (\<lambda>r. res_user r = user \<and> res_period r = period)
     included_debit (reservations d)"

definition purchased_spent :: "int \<Rightarrow> db \<Rightarrow> int" where
  "purchased_spent user d = sum_where (\<lambda>r. res_user r = user) purchased_debit (reservations d)"

definition purchased_granted :: "int \<Rightarrow> db \<Rightarrow> int" where
  "purchased_granted user d = sum_where (\<lambda>e. ev_user e = user \<and> ev_kind e = PurchasedGrant)
     ev_amount (credit_events d)"

definition row_ok :: "reservation_row \<Rightarrow> bool" where
  "row_ok r \<longleftrightarrow> res_included r + res_purchased r = res_maximum r \<and> safeCents (res_maximum r) \<and>
     (res_overrun r \<longleftrightarrow> (case res_actual r of None \<Rightarrow> False | Some a \<Rightarrow> a > res_maximum r))"

lemma row_ok_iff:
  "row_ok r \<longleftrightarrow> res_included r + res_purchased r = res_maximum r \<and> safeCents (res_maximum r) \<and>
     (res_overrun r \<longleftrightarrow> (\<exists>a. res_actual r = Some a \<and> a > res_maximum r))"
  by (auto simp: row_ok_def split: option.splits)

text \<open>
  A consistent ledger: the constraints hold; every reservation is fully allocated and belongs to
  an account and a period; no pool is promised twice (what is held never exceeds the balance);
  and the books balance: every balance is what was granted less what settled reservations took.
\<close>

definition ledger_ok :: "db \<Rightarrow> bool" where
  "ledger_ok d \<longleftrightarrow> provider_constraints d \<and>
     (\<forall>r \<in> set (reservations d). row_ok r \<and>
        res_user r \<in> acc_user ` set (accounts d) \<and>
        (res_user r, res_period r) \<in> period_key ` set (periods d)) \<and>
     (\<forall>e \<in> set (credit_events d). ev_kind e = PurchasedGrant \<longrightarrow>
        ev_user e \<in> acc_user ` set (accounts d)) \<and>
     (\<forall>a \<in> set (accounts d).
        purchased_held (acc_user a) d \<le> acc_purchased a \<and>
        acc_purchased a = purchased_granted (acc_user a) d - purchased_spent (acc_user a) d) \<and>
     (\<forall>p \<in> set (periods d).
        included_held (per_user p) (per_start p) d \<le> per_balance p \<and>
        per_balance p = per_allowance p - included_spent (per_user p) (per_start p) d)"

lemma ledger_okD:
  assumes "ledger_ok d"
  shows "provider_constraints d"
    and "r \<in> set (reservations d) \<Longrightarrow> row_ok r \<and> reservation_check r"
    and "a \<in> set (accounts d) \<Longrightarrow> purchased_held (acc_user a) d \<le> acc_purchased a"
    and "p \<in> set (periods d) \<Longrightarrow> included_held (per_user p) (per_start p) d \<le> per_balance p"
    and "distinct (map reservation_key (reservations d))"
    and "distinct (map acc_user (accounts d))" and "distinct (map period_key (periods d))"
  using assms by (auto simp: ledger_ok_def provider_constraints_def list_all_iff)

lemma held_nonneg:
  "ledger_ok d \<Longrightarrow> 0 \<le> included_held u t d" "ledger_ok d \<Longrightarrow> 0 \<le> purchased_held u d"
  unfolding included_held_def purchased_held_def
  by (rule sum_where_nonneg; use ledger_okD in \<open>force simp: reservation_check_def\<close>)+

section \<open>Preservation\<close>

lemmas pool_defs = included_held_def purchased_held_def included_spent_def purchased_spent_def
  purchased_granted_def

lemma update_reservation_sum:
  assumes "ledger_ok d" "item \<in> set (reservations d)" "is_reservation u k item"
  shows "sum_where P f (update_where (is_reservation u k) g (reservations d)) =
    sum_where P f (reservations d) - (if P item then f item else 0) +
    (if P (g item) then f (g item) else 0)"
  by (rule sum_where_update_key [where key = reservation_key])
    (use assms in \<open>auto simp: is_reservation_key ledger_okD(5)\<close>)

lemma reserve_keeps_ledger_ok:
  assumes ok: "ledger_ok d" and res: "reserveProviderSpend now i d = Inr (out, d')"
  shows "ledger_ok d'"
proof (cases out)
  case OutcomeDuplicate
  with res have "d' = d"
    by (auto simp: reserveProviderSpend_def Let_def split: if_splits option.splits)
  with ok show ?thesis by simp
next
  case OutcomeReserved
  with res have "reserveProviderSpend now i d = Inr (OutcomeReserved, d')" by simp
  then obtain start approved a p incl where v: "valid_reservation_input i"
    and a: "a \<in> set (accounts d)" "acc_user a = in_user i"
    and p: "p \<in> set (periods d)" "per_user p = in_user i" "per_start p = utc_day start"
    and incl: "incl = per_balance p - included_held (in_user i) (utc_day start) d"
    and fits: "in_maximum i \<le> incl + (acc_purchased a - purchased_held (in_user i) d)"
    and d': "d' = d\<lparr>reservations := reservations d @
             [new_reservation i (utc_day start) (min (in_maximum i) incl)]\<rparr>"
    and con: "provider_constraints d'"
    by (rule reserve_reserved)
  let ?r = "new_reservation i (utc_day start) (min (in_maximum i) incl)"
  have row: "row_ok ?r"
    using v by (auto simp: row_ok_iff new_reservation_def valid_reservation_input_def)
  have purch: "purchased_held (in_user i) d + res_purchased ?r \<le> acc_purchased a"
    using fits ledger_okD(3) [OF ok a(1)] a(2) by (auto simp: new_reservation_def)
  have inc: "included_held (in_user i) (utc_day start) d + res_included ?r \<le> per_balance p"
    using incl by (auto simp: new_reservation_def)
  have accounts: "purchased_held (acc_user b) d' \<le> acc_purchased b \<and>
      acc_purchased b = purchased_granted (acc_user b) d' - purchased_spent (acc_user b) d'"
    if b: "b \<in> set (accounts d)" for b
  proof -
    have "acc_user b = in_user i \<Longrightarrow> b = a"
      using distinct_key_eq [OF ledger_okD(6) [OF ok] b a(1)] a(2) by simp
    with b ok purch show ?thesis
      by (auto simp: ledger_ok_def d' pool_defs table_simps new_reservation_def purchased_debit_def)
  qed
  have periods: "included_held (per_user q) (per_start q) d' \<le> per_balance q \<and>
      per_balance q = per_allowance q - included_spent (per_user q) (per_start q) d'"
    if q: "q \<in> set (periods d)" for q
  proof -
    have "per_user q = in_user i \<Longrightarrow> per_start q = utc_day start \<Longrightarrow> q = p"
      using distinct_key_eq [OF ledger_okD(7) [OF ok] q p(1)] p(2,3) by (simp add: period_key_def)
    with q ok inc show ?thesis
      by (auto simp: ledger_ok_def d' pool_defs table_simps new_reservation_def included_debit_def)
  qed
  from ok row a p accounts periods con show ?thesis
    unfolding ledger_ok_def
    by (auto simp: d' new_reservation_def period_key_def image_iff) metis+
qed

lemma settle_row_simps [simp]:
  "res_user (settle_row v ov r) = res_user r" "res_period (settle_row v ov r) = res_period r"
  "res_operation (settle_row v ov r) = res_operation r"
  "res_execution (settle_row v ov r) = res_execution r"
  "res_maximum (settle_row v ov r) = res_maximum r"
  "res_included (settle_row v ov r) = res_included r"
  "res_purchased (settle_row v ov r) = res_purchased r"
  "res_state (settle_row v ov r) = Settled" "res_actual (settle_row v ov r) = Some v"
  "res_overrun (settle_row v ov r) = ov"
  by (simp_all add: settle_row_def)

lemma reserved_no_debit:
  "reservation_check r \<Longrightarrow> res_state r = Reserved \<Longrightarrow> included_debit r = 0 \<and> purchased_debit r = 0"
  by (auto simp: reservation_check_def included_debit_def purchased_debit_def)

lemma settle_keeps_ledger_ok:
  assumes ok: "ledger_ok d" and res: "settle_transaction u k v d = Inr (over, d')"
  shows "ledger_ok d'"
  using res
proof (cases rule: settle_cases)
  case replay
  with ok show ?thesis by simp
next
  case (settled item incl purch)
  have u: "res_user item = u" using settled(2) by (simp add: is_reservation_def)
  note item = ledger_okD(2) [OF ok settled(1)]
  from item have none: "included_debit item = 0" "purchased_debit item = 0"
    using reserved_no_debit settled(3) by blast+
  from item have nonneg: "0 \<le> res_included item" "0 \<le> res_purchased item"
    by (auto simp: reservation_check_def)
  have over: "over \<longleftrightarrow> v > res_maximum item"
    using settled(4-7) nonneg by (auto simp: min_def split: if_splits)
  let ?R = "settle_row v over item"
  have debit: "included_debit ?R = incl" "purchased_debit ?R = purch"
    using settled(5,6) by (auto simp: included_debit_def purchased_debit_def)
  note sums = update_reservation_sum [OF ok settled(1,2)]
  have rows: "row_ok r' \<and> res_user r' \<in> acc_user ` set (accounts d') \<and>
      (res_user r', res_period r') \<in> period_key ` set (periods d')"
    if "r' \<in> set (reservations d')" for r'
  proof -
    from that obtain r where r: "r \<in> set (reservations d)"
      and r': "r' = (if is_reservation u k r then settle_row v over r else r)"
      by (auto simp: settled(8) table_simps)
    have "is_reservation u k r \<Longrightarrow> r = item"
      using distinct_key_eq [OF ledger_okD(5) [OF ok] r settled(1)] settled(2)
      by (simp add: is_reservation_key)
    with ok r r' over item have "row_ok r'" "res_user r' = res_user r" "res_period r' = res_period r"
      by (auto simp: row_ok_iff ledger_ok_def)
    moreover have "acc_user ` set (accounts d') = acc_user ` set (accounts d)"
      "period_key ` set (periods d') = period_key ` set (periods d)"
      by (simp_all add: settled(8) image_update_where period_key_def)
    ultimately show ?thesis using ok r by (auto simp: ledger_ok_def)
  qed
  have accs: "purchased_held (acc_user a') d' \<le> acc_purchased a' \<and>
      acc_purchased a' = purchased_granted (acc_user a') d' - purchased_spent (acc_user a') d'"
    if "a' \<in> set (accounts d')" for a'
  proof -
    from that obtain a where a: "a \<in> set (accounts d)"
      and a': "a' = (if acc_user a = u then a\<lparr>acc_purchased := acc_purchased a - purch\<rparr> else a)"
      by (auto simp: settled(8) table_simps)
    from ok a have "purchased_held (acc_user a) d \<le> acc_purchased a"
      "acc_purchased a = purchased_granted (acc_user a) d - purchased_spent (acc_user a) d"
      by (auto simp: ledger_ok_def)
    with a' u none debit settled(3,6) show ?thesis
      by (auto simp: pool_defs settled(8) sums)
  qed
  have pers: "included_held (per_user p') (per_start p') d' \<le> per_balance p' \<and>
      per_balance p' = per_allowance p' - included_spent (per_user p') (per_start p') d'"
    if "p' \<in> set (periods d')" for p'
  proof -
    from that obtain p where p: "p \<in> set (periods d)"
      and p': "p' = (if per_user p = u \<and> per_start p = res_period item
        then p\<lparr>per_balance := per_balance p - incl\<rparr> else p)"
      by (auto simp: settled(8) table_simps)
    from ok p have "included_held (per_user p) (per_start p) d \<le> per_balance p"
      "per_balance p = per_allowance p - included_spent (per_user p) (per_start p) d"
      by (auto simp: ledger_ok_def)
    with p' u none debit settled(3,5) show ?thesis
      by (auto simp: pool_defs settled(8) sums)
  qed
  have events: "ev_user e \<in> acc_user ` set (accounts d')"
    if "e \<in> set (credit_events d')" "ev_kind e = PurchasedGrant" for e
    using ok that by (simp add: ledger_ok_def settled(8) image_update_where)
  from rows accs pers events settled(9) show ?thesis unfolding ledger_ok_def by blast
qed

lemma debit_of_state_change [simp]:
  "included_debit (r\<lparr>res_state := s\<rparr>) = included_debit r"
  "purchased_debit (r\<lparr>res_state := s\<rparr>) = purchased_debit r"
  by (cases "res_actual r"; simp add: included_debit_def purchased_debit_def)+

lemma settle_spend_keeps_ledger_ok:
  "ledger_ok d \<Longrightarrow> ledger_ok (snd (settleProviderSpend u k v d))"
  using settle_keeps_ledger_ok
  by (auto simp: settleProviderSpend_def split: sum.splits prod.splits)

lemma release_keeps_ledger_ok:
  assumes ok: "ledger_ok d" and res: "releaseProviderSpend u k d = Inr ((), d')"
  shows "ledger_ok d'"
  using res
proof (cases rule: release_cases)
  case again
  with ok show ?thesis by simp
next
  case (released item)
  note sums = update_reservation_sum [OF ok released(1,2)]
  note item = ledger_okD(2) [OF ok released(1)]
  have none: "included_debit item = 0" "purchased_debit item = 0"
    using reserved_no_debit item released(3) by blast+
  then have spent: "included_spent u' t d' = included_spent u' t d"
      "purchased_spent u' d' = purchased_spent u' d"
      "purchased_granted u' d' = purchased_granted u' d" for u' t
    by (auto simp: pool_defs released(5) sums)
  have held: "included_held u' t d' \<le> included_held u' t d"
      "purchased_held u' d' \<le> purchased_held u' d" for u' t
    using item by (auto simp: pool_defs released(5) sums reservation_check_def)
  have rows: "row_ok r' \<and> (\<exists>r \<in> set (reservations d). res_user r' = res_user r \<and>
      res_period r' = res_period r)" if "r' \<in> set (reservations d')" for r'
    using that ok by (force simp: released(5) table_simps ledger_ok_def row_ok_iff)
  have same: "accounts d' = accounts d" "periods d' = periods d" "credit_events d' = credit_events d"
    by (simp_all add: released(5))
  show ?thesis
    unfolding ledger_ok_def same
  proof (intro conjI ballI impI)
    fix r' assume "r' \<in> set (reservations d')"
    with rows show "row_ok r'" by blast
    from \<open>r' \<in> set (reservations d')\<close> rows ok
    show "res_user r' \<in> acc_user ` set (accounts d)"
      "(res_user r', res_period r') \<in> period_key ` set (periods d)"
      by (fastforce simp: ledger_ok_def)+
  next
    fix a assume "a \<in> set (accounts d)"
    with ok held(2) [of "acc_user a"] show "purchased_held (acc_user a) d' \<le> acc_purchased a"
      "acc_purchased a = purchased_granted (acc_user a) d' - purchased_spent (acc_user a) d'"
      by (auto simp: ledger_ok_def spent)
  next
    fix p assume "p \<in> set (periods d)"
    with ok held(1) [of "per_user p" "per_start p"]
    show "included_held (per_user p) (per_start p) d' \<le> per_balance p"
      "per_balance p = per_allowance p - included_spent (per_user p) (per_start p) d'"
      by (auto simp: ledger_ok_def spent)
  qed (use ok released(4) in \<open>auto simp: ledger_ok_def\<close>)
qed

section \<open>The constraints never fire\<close>

lemma replayed_reservation_not_violation:
  "replayed_reservation i p \<noteq> Inl LedgerConstraintViolation"
  "available_credits now u t a d \<noteq> Inl LedgerConstraintViolation"
  "provider_subscription now sub \<noteq> Inl LedgerConstraintViolation"
  by (auto simp: replayed_reservation_def available_credits_def provider_subscription_def Let_def
      split: option.splits if_splits)

lemma reserve_commit_ok:
  assumes ok: "ledger_ok d" and v: "valid_reservation_input i"
    and new: "first_row (is_reservation (in_user i) (in_operation i)) (reservations d) = None"
    and av: "available_credits now (in_user i) period approved d = Inr (bal, incl, purch)"
    and fits: "in_maximum i \<le> incl + purch"
  shows "provider_constraints
    (d\<lparr>reservations := reservations d @ [new_reservation i period (min (in_maximum i) incl)]\<rparr>)"
proof -
  from av obtain a p where p: "p \<in> set (periods d)" "per_user p = in_user i" "per_start p = period"
    and incl: "incl = per_balance p - included_held (in_user i) period d"
    by (rule available_credits_Inr)
  from ledger_okD(4) [OF ok p(1)] p incl have "0 \<le> incl" by simp
  with v have "reservation_check (new_reservation i period (min (in_maximum i) incl))"
    by (auto simp: reservation_check_def new_reservation_def valid_reservation_input_def safeId_def
        safeCents_def)
  moreover from new have "(in_user i, in_operation i) \<notin> reservation_key ` set (reservations d)"
    by (auto simp: first_row_None is_reservation_key image_iff)
  ultimately show ?thesis
    using ledger_okD(1) [OF ok]
    by (auto simp: provider_constraints_def new_reservation_def reservation_key_def)
qed

lemma reserve_never_violates:
  assumes ok: "ledger_ok d"
  shows "reserveProviderSpend now i d \<noteq> Inl LedgerConstraintViolation"
proof
  assume "reserveProviderSpend now i d = Inl LedgerConstraintViolation"
  then obtain start approved bal incl purch where v: "valid_reservation_input i"
    and new: "first_row (is_reservation (in_user i) (in_operation i)) (reservations d) = None"
    and av: "available_credits now (in_user i) (utc_day start) approved d = Inr (bal, incl, purch)"
    and fits: "in_maximum i \<le> incl + purch"
    and bad: "\<not> provider_constraints (d\<lparr>reservations := reservations d @
       [new_reservation i (utc_day start) (min (in_maximum i) incl)]\<rparr>)"
    by (auto simp: reserveProviderSpend_def Let_def replayed_reservation_not_violation
        split: if_splits option.splits)
  from reserve_commit_ok [OF ok v new av fits] bad show False by simp
qed

lemma settle_commit_ok:
  assumes ok: "ledger_ok d" and item: "item \<in> set (reservations d)" "is_reservation u k item"
      "res_state item = Reserved"
    and i: "i \<le> res_included item" "0 \<le> i" and p: "p \<le> res_purchased item" "0 \<le> p" and v: "0 \<le> v"
  shows "provider_constraints (d\<lparr>periods := update_where
        (\<lambda>q. per_user q = u \<and> per_start q = res_period item)
        (\<lambda>q. q\<lparr>per_balance := per_balance q - i\<rparr>) (periods d),
      accounts := update_where (\<lambda>a. acc_user a = u)
        (\<lambda>a. a\<lparr>acc_purchased := acc_purchased a - p\<rparr>) (accounts d),
      reservations := update_where (is_reservation u k) (settle_row v ov) (reservations d)\<rparr>)"
    (is "provider_constraints ?d'")
proof -
  have u: "res_user item = u" using item(2) by (simp add: is_reservation_def)
  note con = ledger_okD(1) [OF ok]
  have chk: "0 \<le> res_included r \<and> 0 \<le> res_purchased r" if "r \<in> set (reservations d)" for r
    using ledger_okD(2) [OF ok that] by (simp add: reservation_check_def)
  have hi: "res_included item \<le> included_held u (res_period item) d"
    and hp: "res_purchased item \<le> purchased_held u d"
    unfolding included_held_def purchased_held_def
    by (rule sum_where_ge; use item u chk in simp)+
  have per: "i \<le> per_balance q" if "q \<in> set (periods d)" "per_user q = u" "per_start q = res_period item" for q
    using ledger_okD(4) [OF ok that(1)] that hi i by simp
  have acc: "p \<le> acc_purchased a" if "a \<in> set (accounts d)" "acc_user a = u" for a
    using ledger_okD(3) [OF ok that(1)] that hp p by simp
  have keys: "map reservation_key (reservations ?d') = map reservation_key (reservations d)"
    "map acc_user (accounts ?d') = map acc_user (accounts d)"
    "map period_key (periods ?d') = map period_key (periods d)"
    "present per_invoice (periods ?d') = present per_invoice (periods d)"
    by (simp_all add: map_update_where present_update_where reservation_key_def period_key_def)
  have "list_all reservation_check (reservations ?d')"
    using con v by (auto simp: provider_constraints_def list_all_iff set_update_where reservation_check_def)
  moreover have "list_all account_check (accounts ?d')"
    using con acc by (auto simp: provider_constraints_def list_all_iff set_update_where account_check_def)
  moreover have "list_all period_check (periods ?d')"
    using con per i by (fastforce simp: provider_constraints_def list_all_iff set_update_where period_check_def)
  ultimately show ?thesis
    using con unfolding provider_constraints_def keys by simp
qed

section \<open>Contracts of the three operations\<close>

text \<open>
  C0. A reservation is backed by credits: when \<open>reserveProviderSpend\<close> reserves, exactly one row
  is appended, it is split completely into an included and a purchased part, what the customer
  then holds in the period and in the account does not exceed either balance, and what the build
  execution uses stays within a quarter of the plan allowance and purchased balance.
\<close>

theorem reserve_is_backed:
  assumes "ledger_ok d" "reserveProviderSpend now i d = Inr (OutcomeReserved, d')"
  shows "\<exists>r a p. d' = d\<lparr>reservations := reservations d @ [r]\<rparr> \<and>
      reservation_key r = (in_user i, in_operation i) \<and> res_state r = Reserved \<and>
      res_maximum r = in_maximum i \<and> res_included r + res_purchased r = in_maximum i \<and>
      a \<in> set (accounts d) \<and> acc_user a = in_user i \<and>
      p \<in> set (periods d) \<and> per_user p = in_user i \<and> per_start p = res_period r \<and>
      included_held (in_user i) (res_period r) d' \<le> per_balance p \<and>
      purchased_held (in_user i) d' \<le> acc_purchased a \<and>
      build_usage (in_user i) (in_execution i) (res_period r) d' \<le>
        (per_allowance p + acc_purchased a) div 4"
  using assms(2)
proof (rule reserve_reserved)
  fix start approved a p incl
  let ?r = "new_reservation i (utc_day start) (min (in_maximum i) incl)"
  assume a: "a \<in> set (accounts d)" "acc_user a = in_user i"
    and p: "p \<in> set (periods d)" "per_user p = in_user i" "per_start p = utc_day start"
      "per_allowance p = approved"
    and usage: "in_maximum i + build_usage (in_user i) (in_execution i) (utc_day start) d
       \<le> (approved + acc_purchased a) div 4"
    and d': "d' = d\<lparr>reservations := reservations d @ [?r]\<rparr>"
  from reserve_keeps_ledger_ok [OF assms] have ok: "ledger_ok d'" .
  from ledger_okD(3) [OF ok, of a] ledger_okD(4) [OF ok, of p] a p usage
  show ?thesis
    by (intro exI [of _ ?r] exI [of _ a] exI [of _ p])
      (simp add: d' new_reservation_def reservation_key_def build_usage_def table_simps)
qed

text \<open>
  C0. Reserving is idempotent: once an operation is reserved, the same request is answered
  \<open>duplicate\<close>, holds nothing more and leaves the database as it is.
\<close>

theorem reserve_replay_is_duplicate:
  assumes "reserveProviderSpend now i d = Inr (OutcomeReserved, d')"
  shows "reserveProviderSpend now i d' = Inr (OutcomeDuplicate, d')"
  using assms
proof (rule reserve_reserved)
  fix start approved a p incl
  let ?r = "new_reservation i (utc_day start) (min (in_maximum i) incl)"
  assume v: "valid_reservation_input i"
    and none: "first_row (is_reservation (in_user i) (in_operation i)) (reservations d) = None"
    and d': "d' = d\<lparr>reservations := reservations d @ [?r]\<rparr>"
  have "is_reservation (in_user i) (in_operation i) ?r"
    by (simp add: is_reservation_def new_reservation_def)
  with none have "first_row (is_reservation (in_user i) (in_operation i)) (reservations d') = Some ?r"
    by (simp add: d' table_simps)
  moreover have "replayed_reservation i ?r = Inr ()"
    using v by (simp add: replayed_reservation_def new_reservation_def valid_reservation_input_def)
  ultimately show ?thesis
    using assms by (auto simp: reserveProviderSpend_def d' split: if_splits)
qed

lemma settle_reserved_total:
  assumes ok: "ledger_ok d" and item: "item \<in> set (reservations d)" "is_reservation u k item"
      "res_state item = Reserved"
    and user: "length (rows_where (\<lambda>x. u_id x = u) (users d)) = 1" and v: "0 \<le> v"
  shows "\<exists>d'. settle_transaction u k v d = Inr (v > res_maximum item, d') \<and>
    d' = d\<lparr>periods := update_where (\<lambda>p. per_user p = u \<and> per_start p = res_period item)
        (\<lambda>p. p\<lparr>per_balance := per_balance p - included_debit (settle_row v (v > res_maximum item) item)\<rparr>) (periods d),
      accounts := update_where (\<lambda>a. acc_user a = u)
        (\<lambda>a. a\<lparr>acc_purchased := acc_purchased a - purchased_debit (settle_row v (v > res_maximum item) item)\<rparr>) (accounts d),
      reservations := update_where (is_reservation u k) (settle_row v (v > res_maximum item))
        (reservations d)\<rparr>"
proof -
  have u: "res_user item = u" using item(2) by (simp add: is_reservation_def)
  have first: "first_row (is_reservation u k) (reservations d) = Some item"
    by (rule first_row_keyed [where key = reservation_key])
      (use ok item in \<open>auto simp: is_reservation_key ledger_okD(5)\<close>)
  from ok item(1) obtain a p where a: "a \<in> set (accounts d)" "acc_user a = u"
    and p: "p \<in> set (periods d)" "period_key p = (u, res_period item)"
    by (auto simp: ledger_ok_def u image_iff)
  have "rows_where (\<lambda>q. per_user q = u \<and> per_start q = res_period item) (periods d) = [p]"
    by (rule rows_where_key [where key = period_key])
      (use ok p in \<open>auto simp: period_key_def ledger_okD(7)\<close>)
  moreover from a have "first_row (\<lambda>a. acc_user a = u) (accounts d) \<noteq> None"
    by (auto simp: first_row_None)
  moreover from ledger_okD(2) [OF ok item(1)]
  have alloc: "res_included item + res_purchased item = res_maximum item"
    "0 \<le> res_included item" "0 \<le> res_purchased item" "safeCents (res_maximum item)"
    by (auto simp: row_ok_iff reservation_check_def)
  then have "safeCents (res_included item)" "safeCents (res_purchased item)"
    by (auto simp: safeCents_def is_safe_integer_def)
  moreover
  define m i q where "m = min v (res_maximum item)" and "i = min m (res_included item)"
    and "q = min (m - i) (res_purchased item)"
  have eqs: "included_debit (settle_row v b item) = i" "purchased_debit (settle_row v b item) = q" for b
    by (auto simp: included_debit_def purchased_debit_def m_def i_def q_def)
  have bounds: "i \<le> res_included item" "0 \<le> i" "q \<le> res_purchased item" "0 \<le> q" "\<not> m - i - q > 0"
    using alloc v by (auto simp: m_def i_def q_def min_def)
  ultimately show ?thesis
    using user first item(3) alloc settle_commit_ok [OF ok item bounds(1-4) v, of "v > res_maximum item"]
    by (simp add: settle_transaction_def Let_def eqs commit_if_def flip: m_def i_def q_def)
qed

lemma settle_again:
  assumes ok: "ledger_ok d" and item: "item \<in> set (reservations d)" "is_reservation u k item"
      "res_state item = Reserved"
    and user: "length (rows_where (\<lambda>x. u_id x = u) (users d)) = 1" and v: "safeCents v"
    and d': "settle_transaction u k v d = Inr (over, d')"
  shows "settle_transaction u k w d' =
    (if w = v then Inr (over, d') else Inl ConflictingSettlement)"
proof -
  have "0 \<le> v" using v by (simp add: safeCents_def)
  from settle_reserved_total [OF ok item user this] d'
  have d'_res: "reservations d' = update_where (is_reservation u k) (settle_row v over) (reservations d)"
    and d'_users: "users d' = users d"
    by auto
  have "first_row (is_reservation u k) (reservations d) = Some item"
    by (rule first_row_keyed [where key = reservation_key])
      (use ok item in \<open>auto simp: is_reservation_key ledger_okD(5)\<close>)
  then have "first_row (is_reservation u k) (reservations d') = Some (settle_row v over item)"
    by (simp add: d'_res first_row_update_where is_reservation_def)
      (use item(2) in \<open>simp add: is_reservation_def\<close>)
  with user v show ?thesis by (auto simp: settle_transaction_def d'_users)
qed

text \<open>
  C3. Settling charges exactly the verified amount, once: settling a reservation of a consistent
  ledger at no more than its maximum succeeds, the included and the purchased balance together
  fall by exactly that amount (included credits first), settling again with the same amount
  changes nothing, and settling with another amount is refused without a change.
\<close>

theorem settle_charges_exactly_once:
  assumes "ledger_ok d" "item \<in> set (reservations d)" "is_reservation u k item"
    "res_state item = Reserved" "length (rows_where (\<lambda>x. u_id x = u) (users d)) = 1"
    "safeId u" "validKey k" "safeCents v" "v \<le> res_maximum item"
  shows "\<exists>d'. settleProviderSpend u k v d = (Inr (), d') \<and>
    included_spent u (res_period item) d' + purchased_spent u d' =
      included_spent u (res_period item) d + purchased_spent u d + v \<and>
    included_spent u (res_period item) d' =
      included_spent u (res_period item) d + min v (res_included item) \<and>
    ledger_ok d' \<and>
    settleProviderSpend u k v d' = (Inr (), d') \<and>
    (\<forall>w. safeCents w \<longrightarrow> w \<noteq> v \<longrightarrow>
      settleProviderSpend u k w d' = (Inl ConflictingSettlement, d'))"
proof -
  have v0: "0 \<le> v" using assms(8) by (simp add: safeCents_def)
  have u: "res_user item = u" using assms(3) by (simp add: is_reservation_def)
  from settle_reserved_total [OF assms(1-5) v0] assms(9) obtain d' where
    run: "settle_transaction u k v d = Inr (False, d')"
    and res: "reservations d' = update_where (is_reservation u k) (settle_row v False) (reservations d)"
    by auto
  from ledger_okD(2) [OF assms(1,2)] have alloc: "res_included item + res_purchased item = res_maximum item"
    "0 \<le> res_included item" "0 \<le> res_purchased item"
    and none: "included_debit item = 0" "purchased_debit item = 0"
    using reserved_no_debit [OF _ assms(4)] by (auto simp: row_ok_iff reservation_check_def)
  note sums = update_reservation_sum [OF assms(1-3)]
  have debits: "included_debit (settle_row v False item) = min v (res_included item)"
    "included_debit (settle_row v False item) + purchased_debit (settle_row v False item) = v"
    using alloc v0 assms(9) by (auto simp: included_debit_def purchased_debit_def)
  have "included_spent u (res_period item) d' =
      included_spent u (res_period item) d + included_debit (settle_row v False item)"
    "purchased_spent u d' = purchased_spent u d + purchased_debit (settle_row v False item)"
    using u none by (simp_all add: included_spent_def purchased_spent_def res sums)
  with debits have "included_spent u (res_period item) d' =
      included_spent u (res_period item) d + min v (res_included item)"
    "included_spent u (res_period item) d' + purchased_spent u d' =
      included_spent u (res_period item) d + purchased_spent u d + v"
    by linarith+
  with settle_again [OF assms(1-5,8) run] settle_keeps_ledger_ok [OF assms(1) run] run assms(6-8)
  show ?thesis by (auto simp: settleProviderSpend_def)
qed

lemma settle_overrun_marks:
  assumes "ledger_ok d" "item \<in> set (reservations d)" "is_reservation u k item"
    "res_state item = Reserved" "length (rows_where (\<lambda>x. u_id x = u) (users d)) = 1"
    "safeCents v" "v > res_maximum item"
  obtains d' where "settle_transaction u k v d = Inr (True, d')"
    "settle_row v True item \<in> set (reservations d')"
proof -
  have v0: "0 \<le> v" using assms(6) by (simp add: safeCents_def)
  from settle_reserved_total [OF assms(1-5) v0] assms(7) obtain d' where
    "settle_transaction u k v d = Inr (True, d')"
    "reservations d' = update_where (is_reservation u k) (settle_row v True) (reservations d)"
    by auto
  with assms(2,3) show thesis by (intro that) (force simp: table_simps)+
qed

text \<open>
  An overrun freezes the customer: a verified charge above the reservation is recorded and
  debits the whole reservation, the caller gets the overrun error, and from then on no request of
  that customer for an operation not yet in the ledger can reserve anything.
\<close>

theorem overrun_freezes_spending:
  assumes "ledger_ok d" "item \<in> set (reservations d)" "is_reservation u k item"
    "res_state item = Reserved" "length (rows_where (\<lambda>x. u_id x = u) (users d)) = 1"
    "safeId u" "validKey k" "safeCents v" "v > res_maximum item"
    "in_user i = u"
  shows "\<exists>d'. settleProviderSpend u k v d = (Inl OverrunFrozen, d') \<and> ledger_ok d' \<and>
    included_spent u (res_period item) d' + purchased_spent u d' =
      included_spent u (res_period item) d + purchased_spent u d + res_maximum item \<and>
    (\<forall>now d''. reserveProviderSpend now i d' \<noteq> Inr (OutcomeReserved, d''))"
proof -
  obtain d' where run: "settle_transaction u k v d = Inr (True, d')"
    and row: "settle_row v True item \<in> set (reservations d')"
    using settle_overrun_marks [OF assms(1-5,8,9)] .
  have v0: "0 \<le> v" using assms(8) by (simp add: safeCents_def)
  have u: "res_user item = u" using assms(3) by (simp add: is_reservation_def)
  from settle_reserved_total [OF assms(1-5) v0] run assms(9)
  have res: "reservations d' = update_where (is_reservation u k) (settle_row v True) (reservations d)"
    by auto
  from ledger_okD(2) [OF assms(1,2)] have alloc: "res_included item + res_purchased item = res_maximum item"
    "0 \<le> res_included item" "0 \<le> res_purchased item"
    and none: "included_debit item = 0" "purchased_debit item = 0"
    using reserved_no_debit [OF _ assms(4)] by (auto simp: row_ok_iff reservation_check_def)
  note sums = update_reservation_sum [OF assms(1-3)]
  have "included_debit (settle_row v True item) + purchased_debit (settle_row v True item) =
      res_maximum item"
    using alloc v0 assms(9) by (auto simp: included_debit_def purchased_debit_def)
  then have spent: "included_spent u (res_period item) d' + purchased_spent u d' =
      included_spent u (res_period item) d + purchased_spent u d + res_maximum item"
    using u none by (simp add: included_spent_def purchased_spent_def res sums)
  have frozen: "reserveProviderSpend now i d' \<noteq> Inr (OutcomeReserved, d'')" for now d''
  proof
    assume "reserveProviderSpend now i d' = Inr (OutcomeReserved, d'')"
    then have "\<forall>r \<in> set (reservations d'). res_user r = in_user i \<longrightarrow> \<not> res_overrun r"
      by (rule reserve_reserved)
    with row u assms(10) show False by auto
  qed
  from run spent frozen settle_keeps_ledger_ok [OF assms(1) run] assms(6-8)
  show ?thesis by (auto simp: settleProviderSpend_def)
qed

lemma settle_never_violates:
  assumes ok: "ledger_ok d" and v: "safeCents v"
  shows "settle_transaction u k v d \<noteq> Inl LedgerConstraintViolation"
proof
  assume bad: "settle_transaction u k v d = Inl LedgerConstraintViolation"
  then obtain item where f: "first_row (is_reservation u k) (reservations d) = Some item"
    and r: "res_state item = Reserved"
    and user: "length (rows_where (\<lambda>x. u_id x = u) (users d)) = 1"
    by (cases "first_row (is_reservation u k) (reservations d)"; cases "res_state (the (first_row (is_reservation u k) (reservations d)))")
      (auto simp: settle_transaction_def split: if_splits option.splits)
  from first_row_Some [OF f] settle_reserved_total [OF ok _ _ r user] bad v
  show False by (fastforce simp: safeCents_def)
qed

lemma release_never_violates:
  assumes ok: "ledger_ok d"
  shows "releaseProviderSpend u k d \<noteq> Inl LedgerConstraintViolation"
proof
  assume "releaseProviderSpend u k d = Inl LedgerConstraintViolation"
  then obtain item where f: "first_row (is_reservation u k) (reservations d) = Some item"
    and r: "res_state item = Reserved"
    and bad: "\<not> provider_constraints (d\<lparr>reservations := update_where (is_reservation u k)
        (\<lambda>r. r\<lparr>res_state := Released\<rparr>) (reservations d)\<rparr>)"
    by (auto simp: releaseProviderSpend_def split: if_splits option.splits)
  have "x = item" if "x \<in> set (reservations d)" "is_reservation u k x" for x
    using distinct_key_eq [OF ledger_okD(5) [OF ok] that(1)] that(2) first_row_Some [OF f]
    by (simp add: is_reservation_key)
  then have "list_all reservation_check (update_where (is_reservation u k)
        (\<lambda>r. r\<lparr>res_state := Released\<rparr>) (reservations d))"
    using ledger_okD(2) [OF ok] r by (force simp: list_all_iff set_update_where reservation_check_def)
  with ledger_okD(1) [OF ok] bad show False
    by (simp add: provider_constraints_def map_update_where reservation_key_def)
qed

text \<open>
  C5. On a consistent ledger the database constraints never fire: no reservation, settlement or
  release is ever lost to a violated CHECK or UNIQUE constraint.
\<close>

theorem ledger_constraints_never_fire:
  assumes "ledger_ok d" "safeCents v"
  shows "reserveProviderSpend now i d \<noteq> Inl LedgerConstraintViolation \<and>
    fst (settleProviderSpend u k v d) \<noteq> Inl LedgerConstraintViolation \<and>
    releaseProviderSpend u k d \<noteq> Inl LedgerConstraintViolation"
  using reserve_never_violates settle_never_violates release_never_violates assms
  by (auto simp: settleProviderSpend_def split: sum.splits prod.splits)

section \<open>A concrete ledger\<close>

text \<open>
  One customer on the builder plan with 50 dollars of purchased credits and a running build, the
  ledger after one reservation, and the facts the witnesses of the contracts need.
\<close>

definition sample_ledger :: db where
  "sample_ledger = empty_db\<lparr>users := [\<lparr>u_id = 1, u_email = None\<rparr>],
     subscriptions := [\<lparr>sub_user = 1, sub_customer = Some ''cus_1'', sub_stripe = Some ''sub_1'',
       sub_status = Some ''active'', sub_tier = Some ''builder'', sub_trialEnd = None,
       sub_periodStart = Some 1000, sub_periodEnd = Some 2600000000\<rparr>],
     projects := [\<lparr>p_id = 7, p_user = 1, p_status = ''running'', p_pauseReason = None,
       p_errorMessage = None, p_buildStage = None, p_failureStage = None,
       p_outputMaturity = ''structural'', p_creditsSpent = 0, p_creditsReserved = 5,
       p_updatedAt = 0\<rparr>],
     build_events := [\<lparr>be_id = 3, be_project = 7, be_event = ''build_execution_claim'',
       be_payload = OtherPayload\<rparr>],
     accounts := [\<lparr>acc_user = 1, acc_purchased = 5000\<rparr>],
     credit_events := [\<lparr>ev_user = 1, ev_source = ''pi_1'', ev_kind = PurchasedGrant,
       ev_amount = 5000, ev_period = Some 0\<rparr>],
     periods := [\<lparr>per_user = 1, per_start = 0, per_end = 2600000000, per_balance = 3500,
       per_allowance = 3500, per_invoice = Some ''in_1''\<rparr>]\<rparr>"

definition sample_request :: reservation_input where
  "sample_request = \<lparr>in_user = 1, in_project = 7, in_execution = 3,
     in_operation = ''op-00001'', in_maximum = 2000\<rparr>"

definition sample_reserved :: db where
  "sample_reserved = sample_ledger\<lparr>reservations := [new_reservation sample_request 0 2000]\<rparr>"

lemma sample_ledger_ok: "ledger_ok sample_ledger"
  by code_simp

lemma sample_reserve:
  "reserveProviderSpend 2000 sample_request sample_ledger = Inr (OutcomeReserved, sample_reserved)"
  by code_simp

lemma sample_reserved_ok: "ledger_ok sample_reserved"
  by (rule reserve_keeps_ledger_ok [OF sample_ledger_ok sample_reserve])

lemma sample_item:
  "new_reservation sample_request 0 2000 \<in> set (reservations sample_reserved)"
  "is_reservation 1 ''op-00001'' (new_reservation sample_request 0 2000)"
  "res_state (new_reservation sample_request 0 2000) = Reserved"
  "length (rows_where (\<lambda>x. u_id x = 1) (users sample_reserved)) = 1"
  "safeId 1" "validKey ''op-00001''"
  by code_simp+

theorem reserve_is_backed_witness:
  "\<exists>(r :: reservation_row) (a :: credit_account_row) (p :: credit_period_row).
     included_held (in_user sample_request) (res_period r) sample_reserved \<le> per_balance p \<and>
     purchased_held (in_user sample_request) sample_reserved \<le> acc_purchased a \<and>
     res_maximum r = in_maximum sample_request"
  using reserve_is_backed [OF sample_ledger_ok sample_reserve] by blast

theorem reserve_replay_is_duplicate_witness:
  "reserveProviderSpend 2000 sample_request sample_reserved = Inr (OutcomeDuplicate, sample_reserved)"
  by (rule reserve_replay_is_duplicate [OF sample_reserve])

theorem settle_charges_exactly_once_witness:
  "\<exists>d'. settleProviderSpend 1 ''op-00001'' 1500 sample_reserved = (Inr (), d') \<and>
     settleProviderSpend 1 ''op-00001'' 1500 d' = (Inr (), d')"
proof -
  have "safeCents 1500" "1500 \<le> res_maximum (new_reservation sample_request 0 2000)"
    by code_simp+
  from settle_charges_exactly_once [OF sample_reserved_ok sample_item this] show ?thesis by blast
qed

theorem overrun_freezes_spending_witness:
  "\<exists>d'. settleProviderSpend 1 ''op-00001'' 2500 sample_reserved = (Inl OverrunFrozen, d') \<and>
     (\<forall>now d''. reserveProviderSpend now (sample_request\<lparr>in_operation := ''op-00002''\<rparr>) d' \<noteq>
       Inr (OutcomeReserved, d''))"
proof -
  have "safeCents 2500" "2500 > res_maximum (new_reservation sample_request 0 2000)"
    "in_user (sample_request\<lparr>in_operation := ''op-00002''\<rparr>) = 1"
    by code_simp+
  from overrun_freezes_spending [OF sample_reserved_ok sample_item this] show ?thesis by blast
qed

theorem ledger_constraints_never_fire_witness:
  "releaseProviderSpend 1 ''op-00001'' sample_reserved \<noteq> Inl LedgerConstraintViolation"
proof -
  have "safeCents 1500" by code_simp
  from ledger_constraints_never_fire [OF sample_reserved_ok this] show ?thesis by blast
qed

end
