(* ===== verification/Contracts.thy ===== *)
theory Contracts
  imports Prelude
begin

text \<open>
  The interfaces several components of AppForge share, as locales; each component interprets
  them on its own operations. \<open>guarded_system\<close> is a set of operations that keep an invariant,
  \<open>idempotent_operation\<close> is one that records a key and never acts twice on it (payment and
  webhook handlers, which are delivered at least once), and \<open>exclusive_claim\<close> one whose success
  takes what is claimed away from everybody else.
\<close>

section \<open>Operations that keep an invariant\<close>

locale guarded_system =
  fixes step :: "'s \<Rightarrow> 's \<Rightarrow> bool" and inv :: "'s \<Rightarrow> bool"
  assumes step_keeps: "inv s \<Longrightarrow> step s s' \<Longrightarrow> inv s'"
begin

lemma run_keeps: "step\<^sup>*\<^sup>* s s' \<Longrightarrow> inv s \<Longrightarrow> inv s'"
  by (induction rule: rtranclp_induct) (auto intro: step_keeps)

lemma run_relates:
  assumes refl: "\<And>s. inv s \<Longrightarrow> R s s"
    and step: "\<And>s t u. inv s \<Longrightarrow> inv t \<Longrightarrow> R s t \<Longrightarrow> step t u \<Longrightarrow> R s u"
    and run: "step\<^sup>*\<^sup>* s s'" and inv: "inv s"
  shows "R s s'"
  using run
proof (induction rule: rtranclp_induct)
  case base
  with inv refl show ?case by blast
next
  case (step t u)
  with inv run_keeps assms(2) show ?case by blast
qed

end

section \<open>Operations that act once per key\<close>

locale idempotent_operation =
  fixes run :: "'i \<Rightarrow> 's \<Rightarrow> ('e, 'r) result \<times> 's" and recorded :: "'i \<Rightarrow> 's \<Rightarrow> bool"
  assumes run_records: "run i s = (Inr r, s') \<Longrightarrow> recorded i s'"
    and recorded_skips: "recorded i s \<Longrightarrow> snd (run i s) = s"
begin

text \<open>The state after a delivery, whatever the handler answered.\<close>

definition deliver :: "'i \<Rightarrow> 's \<Rightarrow> 's" where
  "deliver i s = snd (run i s)"

lemma deliver_recorded: "recorded i s \<Longrightarrow> (deliver i ^^ n) s = s"
  by (induction n) (simp_all add: deliver_def recorded_skips)

lemma redelivery: "run i s = (Inr r, s') \<Longrightarrow> (deliver i ^^ n) s' = s'"
  using run_records deliver_recorded by blast

end

text \<open>When a failed delivery also leaves no trace, many deliveries are one delivery.\<close>

locale transactional_operation = idempotent_operation +
  assumes failure_idle: "run i s = (Inl e, s') \<Longrightarrow> s' = s"
begin

lemma deliver_many: "0 < n \<Longrightarrow> (deliver i ^^ n) s = deliver i s"
proof (cases "run i s")
  case (Pair r s')
  assume "0 < n"
  then obtain m where n: "n = Suc m" by (cases n) auto
  show ?thesis
  proof (cases r)
    case (Inl e)
    with Pair failure_idle have idle: "deliver i s = s" by (auto simp: deliver_def)
    have "(deliver i ^^ k) s = s" for k by (induction k) (simp_all add: idle)
    with idle show ?thesis by simp
  next
    case (Inr x)
    with Pair have "recorded i (deliver i s)" using run_records by (auto simp: deliver_def)
    then show ?thesis by (simp add: n funpow_swap1 deliver_recorded)
  qed
qed

end

section \<open>Claims with one winner\<close>

locale exclusive_claim =
  fixes claim :: "'c \<Rightarrow> 's \<Rightarrow> bool \<times> 's" and claimable :: "'s \<Rightarrow> bool" and ok :: "'s \<Rightarrow> bool"
  assumes claim_keeps: "ok s \<Longrightarrow> claim c s = (w, s') \<Longrightarrow> ok s'"
    and wins_iff: "ok s \<Longrightarrow> fst (claim c s) \<longleftrightarrow> claimable s"
    and winner_takes: "ok s \<Longrightarrow> claim c s = (True, s') \<Longrightarrow> \<not> claimable s'"
    and loser_idle: "ok s \<Longrightarrow> claim c s = (False, s') \<Longrightarrow> s' = s"
begin

text \<open>Competing callers, in the order the database serialises them.\<close>

fun race :: "'c list \<Rightarrow> 's \<Rightarrow> bool list \<times> 's" where
  "race [] s = ([], s)"
| "race (c # cs) s = (let (w, s') = claim c s; (ws, t) = race cs s' in (w # ws, t))"

lemma race_lost: "ok s \<Longrightarrow> \<not> claimable s \<Longrightarrow> race cs s = (map (\<lambda>_. False) cs, s)"
proof (induction cs)
  case (Cons c cs)
  obtain w s' where c: "claim c s = (w, s')" by fastforce
  with Cons.prems wins_iff [of s c] have "w = False" by auto
  with c Cons.prems loser_idle have "s' = s" by blast
  with Cons c \<open>w = False\<close> show ?case by simp
qed simp

lemma race_won:
  assumes "ok s" "claimable s"
  shows "race (c # cs) s = (True # map (\<lambda>_. False) cs, snd (claim c s))"
proof -
  obtain w s' where c: "claim c s = (w, s')" by fastforce
  with assms wins_iff [of s c] have w: "w = True" by auto
  with c assms winner_takes claim_keeps have "\<not> claimable s'" "ok s'" by blast+
  with c w race_lost show ?thesis by simp
qed

lemma one_winner:
  "ok s \<Longrightarrow> length (filter id (fst (race cs s))) = (if claimable s \<and> cs \<noteq> [] then 1 else 0)"
  by (cases cs; cases "claimable s") (simp_all add: race_won race_lost del: race.simps(2))

end

end
