(* ===== verification/ProviderTopUps.thy ===== *)
theory ProviderTopUps
  imports ProviderLedger Contracts
begin

text \<open>
  Where provider credits come from: the included allowance of a settled invoice
  (\<open>src/services/providerCreditProvisioning.ts\<close>) and purchased packs, from the reserved order
  to its payment or expiry (\<open>src/services/providerCreditTopUps.ts\<close>), with the eligibility and
  price checks in front of them (\<open>appForgeCreditEligibility.ts\<close>, \<open>appForgePricePolicy.ts\<close>,
  \<open>appForgeCommercialCheckoutGate.ts\<close>). Stripe's answers are arguments.
\<close>

section \<open>Identifiers\<close>

definition hex_char :: "char \<Rightarrow> bool" where
  "hex_char c \<longleftrightarrow> is_digit c \<or> (CHR ''a'' \<le> c \<and> c \<le> CHR ''f'') \<or> (CHR ''A'' \<le> c \<and> c \<le> CHR ''F'')"

fun hex_groups :: "nat list \<Rightarrow> string \<Rightarrow> bool" where
  "hex_groups [] s = (s = [])"
| "hex_groups [n] s = in_class hex_char n n s"
| "hex_groups (n # ns) s =
     (in_class hex_char n n (take n s) \<and> take 1 (drop n s) = ''-'' \<and>
      hex_groups ns (drop (Suc n) s))"

definition is_uuid :: "string \<Rightarrow> bool" where
  "is_uuid s = hex_groups [8, 4, 4, 4, 12] s"

definition uuid_of :: "string \<Rightarrow> string" where
  \<comment> \<open>PostgreSQL stores a UUID in its lower-case form\<close>
  "uuid_of s = js_lower s"

definition prefixed_alnum :: "string \<Rightarrow> string \<Rightarrow> bool" where
  "prefixed_alnum p s = (case strip_prefix p s of None \<Rightarrow> False | Some t \<Rightarrow> nonempty_class is_alnum t)"

definition validStripeSessionId :: "string \<Rightarrow> bool" where
  "validStripeSessionId s \<longleftrightarrow>
     prefixed_alnum ''cs_'' s \<or> prefixed_alnum ''cs_test_'' s \<or> prefixed_alnum ''cs_live_'' s"

definition differs :: "string option \<Rightarrow> string \<Rightarrow> bool" where
  \<comment> \<open>\<open>stored && stored !== given\<close>\<close>
  "differs stored given = (case stored of None \<Rightarrow> False | Some s \<Rightarrow> s \<noteq> [] \<and> s \<noteq> given)"

section \<open>Checks in front of a purchase\<close>

datatype topup_error =
    InvalidTopUpReservation | UnsupportedPack | NotEligible | BillingPeriodRequired
  | PeriodLimitExceeded | TopUpConstraintViolation | InvalidExpiration | ExpirationMismatch
  | CannotExpire | InvalidFulfillment | PriceNotApproved | OrderMismatch | NotFulfillable
  | AlreadyGrantedElsewhere | InvalidInvoice | NoPolicyForTier | InvalidBillingPeriod
  | ConflictingInvoiceGrant | CheckoutPaused | InvalidCustomer | PublicUrlRequired
  | PublicUrlInvalid | PriceIdMissing | PriceConfigurationInvalid | PriceMismatch
  | CannotAttachSession | CheckoutUrlMissing

definition assertEligibleForCreditTopUp ::
    "int \<Rightarrow> subscription_row option \<Rightarrow> (topup_error, unit) result" where
  "assertEligibleForCreditTopUp now sub =
    (let status = Option.bind sub sub_status;
         active = (status = Some ''active'' \<or> status = Some ''trialing'');
         paidTier = (Option.bind sub sub_tier \<in>
           {Some ''starter'', Some ''builder'', Some ''studio''});
         periodValid = (case Option.bind sub sub_periodEnd of None \<Rightarrow> True | Some e \<Rightarrow> e > now);
         trialValid = (status \<noteq> Some ''trialing'' \<or>
           (case Option.bind sub sub_trialEnd of None \<Rightarrow> True | Some t \<Rightarrow> t > now))
     in if \<not> active \<or> \<not> paidTier \<or> \<not> periodValid \<or> \<not> trialValid then Inl NotEligible else Inr ())"

definition providerCreditPack :: "int \<Rightarrow> (topup_error, int) result" where
  "providerCreditPack v =
     (if v \<in> set PURCHASED_PROVIDER_CREDIT_PACKS_CENTS then Inr v else Inl UnsupportedPack)"

definition pack_price :: "int \<Rightarrow> int" where
  "pack_price pack = (case PURCHASED_PROVIDER_CREDIT_PACK_PRICES_USD_CENTS pack of
     Some p \<Rightarrow> p | None \<Rightarrow> 0)"

record price_snapshot =
  pr_active :: "bool option"
  pr_currency :: "string option"
  pr_unitAmount :: "int option"
  pr_type :: "string option"
  pr_recurring :: "(string option \<times> int option) option"
  pr_livemode :: "bool option"

datatype price_type = OneTime | Recurring

fun price_type_text :: "price_type \<Rightarrow> string" where
  "price_type_text OneTime = ''one_time''"
| "price_type_text Recurring = ''recurring''"

definition assertAppForgePrice ::
    "price_snapshot \<Rightarrow> int \<Rightarrow> price_type \<Rightarrow> bool \<Rightarrow> (topup_error, unit) result" where
  "assertAppForgePrice price expectedCents type production =
    (if \<not> is_safe_integer expectedCents \<or> expectedCents \<le> 0 then Inl PriceConfigurationInvalid
     else
       let correctFrequency =
         (case type of
            Recurring \<Rightarrow> (case pr_recurring price of None \<Rightarrow> False
              | Some (interval, count) \<Rightarrow> interval = Some ''month'' \<and>
                  (case count of None \<Rightarrow> 1 | Some c \<Rightarrow> c) = 1)
          | OneTime \<Rightarrow> pr_recurring price = None)
       in if pr_active price \<noteq> Some True \<or> map_option js_lower (pr_currency price) \<noteq> Some ''usd'' \<or>
             pr_unitAmount price \<noteq> Some expectedCents \<or>
             pr_type price \<noteq> Some (price_type_text type) \<or> \<not> correctFrequency \<or>
             (production \<and> pr_livemode price \<noteq> Some True)
          then Inl PriceMismatch else Inr ())"

definition assertCommercialCheckoutReleased :: "string option \<Rightarrow> (topup_error, unit) result" where
  "assertCommercialCheckoutReleased environment =
     (if environment \<noteq> Some ''test'' \<and> environment \<noteq> Some ''development''
      then Inl CheckoutPaused else Inr ())"

section \<open>Orders of credit packs\<close>

definition topup_spent :: "int \<Rightarrow> int \<Rightarrow> db \<Rightarrow> int" where
  "topup_spent user period d = sum_where
     (\<lambda>t. top_user t = user \<and> top_period t = period \<and>
          (top_status t = TopupPaid \<or> top_status t = TopupReserved))
     top_price (topups d)"

record topup_order =
  to_id :: string
  to_period :: int
  to_customer :: string

definition reserveProviderCreditTopUp ::
    "int \<Rightarrow> string \<Rightarrow> int \<Rightarrow> int \<Rightarrow> int \<Rightarrow> db \<Rightarrow> (topup_error, topup_order \<times> db) result" where
  "reserveProviderCreditTopUp now fresh userId packValue expiresAt d =
    (if \<not> safeId userId \<or> \<not> finite_time expiresAt \<or> expiresAt - now \<le> 0 \<or>
        expiresAt - now > 24 * 60 * 60 * 1000
     then Inl InvalidTopUpReservation
     else bind_result (providerCreditPack packValue) (\<lambda>pack.
       let subscription = first_row (\<lambda>s. sub_user s = userId) (subscriptions d) in
       bind_result (assertEligibleForCreditTopUp now subscription) (\<lambda>_.
         case (Option.bind subscription sub_periodStart, Option.bind subscription sub_periodEnd,
               Option.bind subscription sub_customer) of
           (Some start, Some ends, Some customerId) \<Rightarrow>
             if customerId = [] \<or> \<not> finite_time start \<or> \<not> finite_time ends \<or>
                start \<ge> ends \<or> start > now \<or> ends \<le> now
             then Inl BillingPeriodRequired
             else
               let amount = pack_price pack; usedCents = topup_spent userId start d in
               if \<not> is_safe_integer usedCents \<or> usedCents < 0 \<or>
                  usedCents + amount > PROVIDER_CREDIT_TOP_UP_PERIOD_LIMIT_USD_CENTS
               then Inl PeriodLimitExceeded
               else commit_if provider_constraints TopUpConstraintViolation
                 \<lparr>to_id = fresh, to_period = start, to_customer = customerId\<rparr>
                 (d\<lparr>topups := topups d @
                    [\<lparr>top_id = uuid_of fresh, top_user = userId, top_period = start,
                      top_credits = pack, top_price = amount, top_status = TopupReserved,
                      top_expires = expiresAt, top_session = None, top_payment = None\<rparr>]\<rparr>)
         | _ \<Rightarrow> Inl BillingPeriodRequired)))"

text \<open>
  The checkout around an order. The environment, Stripe's price and the session Stripe returns
  are arguments; \<open>None\<close> for the session is a failed call. A failure after the order was reserved
  leaves the order in the database, as the code does.
\<close>

record checkout_environment =
  ce_nodeEnv :: "string option"
  ce_publicUrl :: "string option"
  ce_urlParse :: "string \<Rightarrow> (string \<times> string) option"
  ce_priceId :: "int \<Rightarrow> string option"
  ce_price :: "string \<Rightarrow> price_snapshot"
  ce_session :: "topup_order \<Rightarrow> (string \<times> string option) option"

definition trimmed_setting :: "string option \<Rightarrow> string option" where
  "trimmed_setting v = (case v of None \<Rightarrow> None
     | Some s \<Rightarrow> if js_trim s = [] then None else Some (js_trim s))"

definition checkout_prechecks ::
    "checkout_environment \<Rightarrow> int \<Rightarrow> int \<Rightarrow> int \<Rightarrow> db \<Rightarrow> (topup_error, int) result" where
  "checkout_prechecks env now userId packValue d =
    bind_result (assertCommercialCheckoutReleased (ce_nodeEnv env)) (\<lambda>_.
    if \<not> safeId userId then Inl InvalidCustomer else
    bind_result (providerCreditPack packValue) (\<lambda>pack.
    bind_result (assertEligibleForCreditTopUp now
        (first_row (\<lambda>s. sub_user s = userId) (subscriptions d))) (\<lambda>_.
    case trimmed_setting (ce_publicUrl env) of None \<Rightarrow> Inl PublicUrlRequired
    | Some url \<Rightarrow>
      (case ce_urlParse env url of None \<Rightarrow> Inl PublicUrlInvalid
       | Some (protocol, origin) \<Rightarrow>
         if ce_nodeEnv env = Some ''production'' \<and> protocol \<noteq> ''https:'' then Inl PublicUrlInvalid
         else case trimmed_setting (ce_priceId env pack) of None \<Rightarrow> Inl PriceIdMissing
         | Some priceId \<Rightarrow>
           bind_result (assertAppForgePrice (ce_price env priceId) (pack_price pack) OneTime
             (ce_nodeEnv env = Some ''production'')) (\<lambda>_. Inr pack)))))"

definition createProviderCreditCheckout ::
    "checkout_environment \<Rightarrow> int \<Rightarrow> string \<Rightarrow> int \<Rightarrow> int \<Rightarrow> db \<Rightarrow>
     (topup_error, string) result option \<times> db" where
  \<comment> \<open>\<open>None\<close>: the call to Stripe itself failed\<close>
  "createProviderCreditCheckout env now fresh userId packValue d =
    (case bind_result (checkout_prechecks env now userId packValue d) (\<lambda>pack.
         reserveProviderCreditTopUp now fresh userId pack (now + 23 * 60 * 60 * 1000) d) of
       Inl e \<Rightarrow> (Some (Inl e), d)
     | Inr (order, d1) \<Rightarrow>
       (case ce_session env order of None \<Rightarrow> (None, d1)
        | Some (sessionId, url) \<Rightarrow>
          let attached = (\<lambda>t. top_id t = uuid_of (to_id order) \<and> top_user t = userId \<and>
                              top_status t = TopupReserved);
              d2 = d1\<lparr>topups := update_where attached
                       (\<lambda>t. t\<lparr>top_session := Some sessionId\<rparr>) (topups d1)\<rparr>
          in if \<not> provider_constraints d2 then (Some (Inl TopUpConstraintViolation), d1)
             else if length (rows_where attached (topups d1)) \<noteq> 1
             then (Some (Inl CannotAttachSession), d2)
             else case url of None \<Rightarrow> (Some (Inl CheckoutUrlMissing), d2)
                  | Some u \<Rightarrow> (Some (if u = [] then Inl CheckoutUrlMissing else Inr u), d2)))"

definition is_topup :: "string \<Rightarrow> topup_row \<Rightarrow> bool" where
  "is_topup topUpId t \<longleftrightarrow> top_id t = uuid_of topUpId"

record expire_result =
  ex_expired :: bool
  ex_skipped :: bool

definition expireProviderCreditTopUp ::
    "string \<Rightarrow> int \<Rightarrow> string \<Rightarrow> db \<Rightarrow> (topup_error, expire_result \<times> db) result" where
  "expireProviderCreditTopUp topUpId userId sessionId d =
    (if \<not> is_uuid topUpId \<or> \<not> safeId userId \<or> \<not> validStripeSessionId sessionId
     then Inl InvalidExpiration
     else case first_row (is_topup topUpId) (topups d) of
       None \<Rightarrow> Inl ExpirationMismatch
     | Some purchase \<Rightarrow>
       if top_user purchase \<noteq> userId \<or> differs (top_session purchase) sessionId
       then Inl ExpirationMismatch
       else case top_status purchase of
         TopupExpired \<Rightarrow> Inr (\<lparr>ex_expired = True, ex_skipped = True\<rparr>, d)
       | TopupPaid \<Rightarrow> Inr (\<lparr>ex_expired = False, ex_skipped = True\<rparr>, d)
       | TopupReserved \<Rightarrow>
           commit_if provider_constraints TopUpConstraintViolation
             \<lparr>ex_expired = True, ex_skipped = False\<rparr>
             (d\<lparr>topups := update_where
                (\<lambda>t. is_topup topUpId t \<and> top_status t = TopupReserved)
                (\<lambda>t. t\<lparr>top_status := TopupExpired, top_session := Some sessionId\<rparr>) (topups d)\<rparr>))"

record fulfillment =
  fu_topUp :: string
  fu_user :: int
  fu_session :: string
  fu_payment :: string
  fu_credits :: int
  fu_price :: int

record grant_result =
  gr_granted :: int
  gr_skipped :: bool

definition ensure_account :: "int \<Rightarrow> credit_account_row list \<Rightarrow> credit_account_row list" where
  \<comment> \<open>INSERT ... ON CONFLICT (user_id) DO NOTHING\<close>
  "ensure_account user t = (if first_row (\<lambda>a. acc_user a = user) t = None
     then t @ [\<lparr>acc_user = user, acc_purchased = 0\<rparr>] else t)"

definition fulfillProviderCreditTopUp ::
    "fulfillment \<Rightarrow> db \<Rightarrow> (topup_error, grant_result \<times> db) result" where
  "fulfillProviderCreditTopUp i d =
    (if \<not> is_uuid (fu_topUp i) \<or> \<not> safeId (fu_user i) \<or> \<not> validStripeSessionId (fu_session i) \<or>
        \<not> prefixed_alnum ''pi_'' (fu_payment i) \<or>
        fu_credits i \<notin> set PURCHASED_PROVIDER_CREDIT_PACKS_CENTS \<or>
        \<not> is_safe_integer (fu_price i) \<or> fu_price i \<le> 0
     then Inl InvalidFulfillment
     else bind_result (providerCreditPack (fu_credits i)) (\<lambda>pack.
       if pack_price pack \<noteq> fu_price i then Inl PriceNotApproved
       else case first_row (is_topup (fu_topUp i)) (topups d) of
         None \<Rightarrow> Inl OrderMismatch
       | Some purchase \<Rightarrow>
         if top_user purchase \<noteq> fu_user i \<or> top_credits purchase \<noteq> fu_credits i \<or>
            top_price purchase \<noteq> fu_price i \<or> differs (top_session purchase) (fu_session i) \<or>
            differs (top_payment purchase) (fu_payment i)
         then Inl OrderMismatch
         else if top_status purchase = TopupPaid then
           Inr (\<lparr>gr_granted = 0, gr_skipped = True\<rparr>, d)
         else if top_status purchase \<noteq> TopupReserved then Inl NotFulfillable
         else if first_row (\<lambda>e. ev_user e = fu_user i \<and> ev_source e = fu_payment i)
                   (credit_events d) \<noteq> None
         then Inl AlreadyGrantedElsewhere
         else commit_if provider_constraints TopUpConstraintViolation
           \<lparr>gr_granted = fu_credits i, gr_skipped = False\<rparr>
           (d\<lparr>accounts := update_where (\<lambda>a. acc_user a = fu_user i)
                (\<lambda>a. a\<lparr>acc_purchased := acc_purchased a + fu_credits i\<rparr>)
                (ensure_account (fu_user i) (accounts d)),
              credit_events := credit_events d @
                [\<lparr>ev_user = fu_user i, ev_source = fu_payment i, ev_kind = PurchasedGrant,
                  ev_amount = fu_credits i, ev_period = Some (utc_day (top_period purchase))\<rparr>],
              topups := update_where
                (\<lambda>t. is_topup (fu_topUp i) t \<and> top_status t = TopupReserved)
                (\<lambda>t. t\<lparr>top_status := TopupPaid, top_session := Some (fu_session i),
                       top_payment := Some (fu_payment i)\<rparr>) (topups d)\<rparr>)))"

section \<open>Included credits of a settled invoice\<close>

definition invoicePeriod :: "int \<Rightarrow> int \<Rightarrow> (topup_error, int \<times> int) result" where
  "invoicePeriod startSeconds endSeconds =
    (if \<not> is_safe_integer startSeconds \<or> \<not> is_safe_integer endSeconds \<or>
        startSeconds \<le> 0 \<or> endSeconds \<le> startSeconds \<or>
        \<not> finite_time (startSeconds * 1000) \<or> \<not> finite_time (endSeconds * 1000)
     then Inl InvalidBillingPeriod
     else Inr (utc_day (startSeconds * 1000), endSeconds * 1000))"

definition provider_allowance :: "string \<Rightarrow> (topup_error, int) result" where
  "provider_allowance tier = (case INCLUDED_PROVIDER_CREDIT_CENTS tier of
     Some c \<Rightarrow> Inr c
   | None \<Rightarrow> if tier = ''enterprise'' \<or> tier = ''custom'' then Inr 0 else Inl NoPolicyForTier)"

definition grantStripeInvoiceProviderCredits ::
    "int \<Rightarrow> string \<Rightarrow> string \<Rightarrow> int \<Rightarrow> int \<Rightarrow> db \<Rightarrow> (topup_error, grant_result \<times> db) result" where
  "grantStripeInvoiceProviderCredits userId tier invoiceId startSeconds endSeconds d =
    (if \<not> safeId userId \<or> \<not> prefixed_alnum ''in_'' invoiceId then Inl InvalidInvoice
     else bind_result (provider_allowance tier) (\<lambda>allowance.
     bind_result (invoicePeriod startSeconds endSeconds) (\<lambda>(start, ends).
       let d1 = d\<lparr>accounts := ensure_account userId (accounts d)\<rparr> in
       case first_row (\<lambda>p. per_user p = userId \<and> per_start p = start) (periods d1) of
         Some prior \<Rightarrow>
           if per_invoice prior = Some invoiceId \<and> per_end prior = ends \<and>
              per_allowance prior = allowance
           then commit_if provider_constraints TopUpConstraintViolation
                  \<lparr>gr_granted = 0, gr_skipped = True\<rparr> d1
           else Inl ConflictingInvoiceGrant
       | None \<Rightarrow>
           commit_if provider_constraints TopUpConstraintViolation
             \<lparr>gr_granted = allowance, gr_skipped = False\<rparr>
             (d1\<lparr>periods := periods d1 @
                  [\<lparr>per_user = userId, per_start = start, per_end = ends, per_balance = allowance,
                    per_allowance = allowance, per_invoice = Some invoiceId\<rparr>],
                credit_events := credit_events d1 @
                  (if allowance > 0 then
                    [\<lparr>ev_user = userId, ev_source = invoiceId, ev_kind = IncludedGrant,
                      ev_amount = allowance, ev_period = Some start\<rparr>] else [])\<rparr>))))"

section \<open>The ledger stays consistent\<close>

lemma ledger_ok_frame:
  assumes "ledger_ok d" "reservations d' = reservations d" "accounts d' = accounts d"
    "periods d' = periods d" "credit_events d' = credit_events d" "provider_constraints d'"
  shows "ledger_ok d'"
proof -
  have pools: "included_held u t d' = included_held u t d" "purchased_held u d' = purchased_held u d"
    "included_spent u t d' = included_spent u t d" "purchased_spent u d' = purchased_spent u d"
    "purchased_granted u d' = purchased_granted u d" for u t
    using assms by (simp_all add: pool_defs)
  from assms(1,6) show ?thesis unfolding ledger_ok_def pools assms(2-5) by blast
qed

lemma topup_reserved:
  assumes "reserveProviderCreditTopUp now fresh u pack expires d = Inr (ord, d')"
  obtains start where "topup_spent u start d + pack_price pack \<le>
      PROVIDER_CREDIT_TOP_UP_PERIOD_LIMIT_USD_CENTS"
    "pack \<in> set PURCHASED_PROVIDER_CREDIT_PACKS_CENTS"
    "ord = \<lparr>to_id = fresh, to_period = start, to_customer = to_customer ord\<rparr>"
    "d' = d\<lparr>topups := topups d @
       [\<lparr>top_id = uuid_of fresh, top_user = u, top_period = start, top_credits = pack,
         top_price = pack_price pack, top_status = TopupReserved, top_expires = expires,
         top_session = None, top_payment = None\<rparr>]\<rparr>"
    "provider_constraints d'"
  using assms
  by (fastforce simp: reserveProviderCreditTopUp_def providerCreditPack_def Let_def
      split: if_splits option.splits)

lemma topup_expired:
  assumes "expireProviderCreditTopUp k u sess d = Inr (r, d')"
  obtains (idle) t where "first_row (is_topup k) (topups d) = Some t" "top_status t \<noteq> TopupReserved"
      "d' = d" "r = \<lparr>ex_expired = (top_status t = TopupExpired), ex_skipped = True\<rparr>"
  | (expired) t where "first_row (is_topup k) (topups d) = Some t" "top_status t = TopupReserved"
      "top_user t = u" "r = \<lparr>ex_expired = True, ex_skipped = False\<rparr>" "provider_constraints d'"
      "d' = d\<lparr>topups := update_where (\<lambda>t. is_topup k t \<and> top_status t = TopupReserved)
         (\<lambda>t. t\<lparr>top_status := TopupExpired, top_session := Some sess\<rparr>) (topups d)\<rparr>"
proof -
  from assms obtain t where f: "first_row (is_topup k) (topups d) = Some t"
    by (auto simp: expireProviderCreditTopUp_def split: if_splits option.splits)
  from assms f show thesis
    by (cases "top_status t") (auto simp: expireProviderCreditTopUp_def split: if_splits intro: that)
qed

lemma topup_fulfilled:
  assumes "fulfillProviderCreditTopUp i d = Inr (r, d')"
  obtains (again) t where "first_row (is_topup (fu_topUp i)) (topups d) = Some t"
      "top_status t = TopupPaid" "r = \<lparr>gr_granted = 0, gr_skipped = True\<rparr>" "d' = d"
  | (granted) t where "first_row (is_topup (fu_topUp i)) (topups d) = Some t"
      "top_status t = TopupReserved" "top_user t = fu_user i" "top_credits t = fu_credits i"
      "0 < fu_credits i"
      "\<forall>e \<in> set (credit_events d). \<not> (ev_user e = fu_user i \<and> ev_source e = fu_payment i)"
      "r = \<lparr>gr_granted = fu_credits i, gr_skipped = False\<rparr>" "provider_constraints d'"
      "d' = d\<lparr>accounts := update_where (\<lambda>a. acc_user a = fu_user i)
                (\<lambda>a. a\<lparr>acc_purchased := acc_purchased a + fu_credits i\<rparr>)
                (ensure_account (fu_user i) (accounts d)),
              credit_events := credit_events d @
                [\<lparr>ev_user = fu_user i, ev_source = fu_payment i, ev_kind = PurchasedGrant,
                  ev_amount = fu_credits i, ev_period = Some (utc_day (top_period t))\<rparr>],
              topups := update_where
                (\<lambda>t. is_topup (fu_topUp i) t \<and> top_status t = TopupReserved)
                (\<lambda>t. t\<lparr>top_status := TopupPaid, top_session := Some (fu_session i),
                       top_payment := Some (fu_payment i)\<rparr>) (topups d)\<rparr>"
proof -
  from assms obtain t where f: "first_row (is_topup (fu_topUp i)) (topups d) = Some t"
    by (auto simp: fulfillProviderCreditTopUp_def split: if_splits option.splits)
  show thesis
  proof (cases "top_status t = TopupPaid")
    case True
    with assms f show thesis
      by (intro again [of t]) (auto simp: fulfillProviderCreditTopUp_def split: if_splits)
  next
    case False
    with assms f have "0 < fu_credits i"
      by (auto simp: fulfillProviderCreditTopUp_def providerCreditPack_def
          PURCHASED_PROVIDER_CREDIT_PACKS_CENTS_def split: if_splits)
    with False assms f show thesis
      by (intro granted [of t])
        (auto simp: fulfillProviderCreditTopUp_def providerCreditPack_def first_row_None
          split: if_splits)
  qed
qed

lemma reserve_topup_keeps_ledger_ok:
  "ledger_ok d \<Longrightarrow> reserveProviderCreditTopUp now fresh u pack expires d = Inr (ord, d') \<Longrightarrow>
   ledger_ok d'"
  by (erule topup_reserved) (rule ledger_ok_frame, simp_all)

lemma checkout_keeps_ledger_ok:
  assumes "ledger_ok d"
  shows "ledger_ok (snd (createProviderCreditCheckout env now fresh u pack d))"
proof -
  have "ledger_ok (d1\<lparr>topups := t\<rparr>)" if "ledger_ok d1" "provider_constraints (d1\<lparr>topups := t\<rparr>)" for d1 t
    by (rule ledger_ok_frame [OF that(1)]) (simp_all add: that(2))
  with assms reserve_topup_keeps_ledger_ok show ?thesis
    by (auto simp: createProviderCreditCheckout_def Let_def split: sum.splits option.splits prod.splits)
qed

lemma expire_keeps_ledger_ok:
  "ledger_ok d \<Longrightarrow> expireProviderCreditTopUp k u sess d = Inr (r, d') \<Longrightarrow> ledger_ok d'"
  by (erule topup_expired) (simp, rule ledger_ok_frame, simp_all)

text \<open>A customer without an account has no reservation and no purchased credits.\<close>

lemma no_account_no_pools:
  assumes "ledger_ok d" "u \<notin> acc_user ` set (accounts d)"
  shows "purchased_held u d = 0" "purchased_spent u d = 0" "purchased_granted u d = 0"
  using assms unfolding pool_defs
  by (intro sum_where_zero; fastforce simp: ledger_ok_def)+

lemma no_period_no_pools:
  assumes "ledger_ok d" "(u, t) \<notin> period_key ` set (periods d)"
  shows "included_held u t d = 0" "included_spent u t d = 0"
  using assms unfolding pool_defs
  by (intro sum_where_zero; fastforce simp: ledger_ok_def)+

lemma ensure_account_facts:
  "u \<in> acc_user ` set (ensure_account u t)"
  "acc_user ` set t \<subseteq> acc_user ` set (ensure_account u t)"
  "acc_user ` set (ensure_account u t) = insert u (acc_user ` set t)"
  "list_all account_check t \<Longrightarrow> list_all account_check (ensure_account u t)"
  "distinct (map acc_user t) \<Longrightarrow> distinct (map acc_user (ensure_account u t))"
  by (auto simp: ensure_account_def first_row_None account_check_def)

lemma ensure_account_cases:
  assumes "a \<in> set (ensure_account u t)"
  obtains "a \<in> set t" | "a = \<lparr>acc_user = u, acc_purchased = 0\<rparr>" "u \<notin> acc_user ` set t"
  using assms by (auto simp: ensure_account_def first_row_None split: if_splits)

lemma ledger_ok_account:
  assumes "ledger_ok d" "a \<in> set (accounts d)"
  shows "purchased_held (acc_user a) d \<le> acc_purchased a"
    and "purchased_granted (acc_user a) d - purchased_spent (acc_user a) d = acc_purchased a"
  using assms unfolding ledger_ok_def by auto

lemma ensure_account_keeps_ledger_ok:
  assumes ok: "ledger_ok d"
  shows "ledger_ok (d\<lparr>accounts := ensure_account u (accounts d)\<rparr>)" (is "ledger_ok ?d")
proof -
  have pools: "included_held v t ?d = included_held v t d" "purchased_held v ?d = purchased_held v d"
    "included_spent v t ?d = included_spent v t d" "purchased_spent v ?d = purchased_spent v d"
    "purchased_granted v ?d = purchased_granted v d" for v t
    by (simp_all add: pool_defs)
  have accs: "purchased_held (acc_user a) d \<le> acc_purchased a \<and>
      acc_purchased a = purchased_granted (acc_user a) d - purchased_spent (acc_user a) d"
    if "a \<in> set (ensure_account u (accounts d))" for a
    using that by (cases rule: ensure_account_cases)
      (simp_all add: ledger_ok_account [OF ok] no_account_no_pools [OF ok])
  have "provider_constraints ?d"
    using ok by (simp add: ledger_ok_def provider_constraints_def ensure_account_facts)
  moreover have sel: "reservations ?d = reservations d" "accounts ?d = ensure_account u (accounts d)"
    "periods ?d = periods d" "credit_events ?d = credit_events d"
    by simp_all
  have "acc_user ` set (accounts d) \<subseteq> acc_user ` set (ensure_account u (accounts d))"
    by (rule ensure_account_facts)
  ultimately show ?thesis
    using ok accs unfolding ledger_ok_def pools sel by blast
qed

lemma purchase_keeps_ledger_ok:
  assumes ok: "ledger_ok d" and u: "u \<in> acc_user ` set (accounts d)"
    and con: "provider_constraints d'" and n: "0 < n"
    and d': "d' = d\<lparr>accounts := update_where (\<lambda>a. acc_user a = u)
         (\<lambda>a. a\<lparr>acc_purchased := acc_purchased a + n\<rparr>) (accounts d),
       credit_events := credit_events d @ [\<lparr>ev_user = u, ev_source = s, ev_kind = PurchasedGrant,
         ev_amount = n, ev_period = t\<rparr>], topups := ts\<rparr>"
  shows "ledger_ok d'"
proof -
  have pools: "included_held v p d' = included_held v p d" "purchased_held v d' = purchased_held v d"
    "included_spent v p d' = included_spent v p d" "purchased_spent v d' = purchased_spent v d"
    "purchased_granted v d' = purchased_granted v d + (if v = u then n else 0)" for v p
    by (simp_all add: pool_defs d' table_simps)
  have same: "reservations d' = reservations d" "periods d' = periods d"
    by (simp_all add: d')
  have users: "acc_user ` set (accounts d') = acc_user ` set (accounts d)"
    by (simp add: d' image_update_where)
  have accs: "purchased_held (acc_user a) d' \<le> acc_purchased a \<and>
      acc_purchased a = purchased_granted (acc_user a) d' - purchased_spent (acc_user a) d'"
    if a: "a \<in> set (accounts d')" for a
  proof -
    from a obtain b where "b \<in> set (accounts d)"
      "a = (if acc_user b = u then b\<lparr>acc_purchased := acc_purchased b + n\<rparr> else b)"
      by (auto simp: d' table_simps)
    with ok n show ?thesis by (auto simp: ledger_ok_def pools)
  qed
  have "ev_user e \<in> acc_user ` set (accounts d')"
    if "e \<in> set (credit_events d')" "ev_kind e = PurchasedGrant" for e
    using that ok u by (auto simp: users ledger_ok_def) (auto simp: d' ledger_ok_def u)
  with ok con accs show ?thesis unfolding ledger_ok_def same users pools(1-4) by blast
qed

lemma fulfill_keeps_ledger_ok:
  assumes ok: "ledger_ok d" and run: "fulfillProviderCreditTopUp i d = Inr (r, d')"
  shows "ledger_ok d'"
  using run
proof (cases rule: topup_fulfilled)
  case again
  with ok show ?thesis by simp
next
  case (granted t)
  let ?e = "d\<lparr>accounts := ensure_account (fu_user i) (accounts d)\<rparr>"
  show ?thesis
  proof (rule purchase_keeps_ledger_ok)
    show "ledger_ok ?e" using ok by (rule ensure_account_keeps_ledger_ok)
    show "fu_user i \<in> acc_user ` set (accounts ?e)" by (simp add: ensure_account_facts)
    show "provider_constraints d'" by (fact granted(8))
    show "0 < fu_credits i" by (fact granted(5))
  qed (simp add: granted(9))
qed

lemma invoice_granted:
  assumes "grantStripeInvoiceProviderCredits u tier invo s e d = Inr (r, d')"
  obtains (again) p where "p \<in> set (periods d)" "per_user p = u" "per_start p = utc_day (s * 1000)"
      "per_invoice p = Some invo" "r = \<lparr>gr_granted = 0, gr_skipped = True\<rparr>"
      "d' = d\<lparr>accounts := ensure_account u (accounts d)\<rparr>" "provider_constraints d'"
  | (granted) c where "provider_allowance tier = Inr c"
      "\<forall>p \<in> set (periods d). \<not> (per_user p = u \<and> per_start p = utc_day (s * 1000))"
      "r = \<lparr>gr_granted = c, gr_skipped = False\<rparr>" "provider_constraints d'"
      "d' = d\<lparr>accounts := ensure_account u (accounts d), periods := periods d @
                  [\<lparr>per_user = u, per_start = utc_day (s * 1000), per_end = e * 1000,
                    per_balance = c, per_allowance = c, per_invoice = Some invo\<rparr>],
                credit_events := credit_events d @
                  (if c > 0 then [\<lparr>ev_user = u, ev_source = invo, ev_kind = IncludedGrant,
                      ev_amount = c, ev_period = Some (utc_day (s * 1000))\<rparr>] else [])\<rparr>"
proof -
  let ?K = "\<lambda>p. per_user p = u \<and> per_start p = utc_day (s * 1000)"
  show thesis
  proof (cases "first_row ?K (periods d)")
    case None
    then have "\<forall>p \<in> set (periods d). \<not> ?K p" by (simp add: first_row_None)
    moreover from assms obtain c where "provider_allowance tier = Inr c"
      by (auto simp: grantStripeInvoiceProviderCredits_def split: if_splits)
    moreover from this assms None
    have "r = \<lparr>gr_granted = c, gr_skipped = False\<rparr> \<and> provider_constraints d' \<and>
        d' = d\<lparr>accounts := ensure_account u (accounts d), periods := periods d @
                  [\<lparr>per_user = u, per_start = utc_day (s * 1000), per_end = e * 1000,
                    per_balance = c, per_allowance = c, per_invoice = Some invo\<rparr>],
                credit_events := credit_events d @
                  (if c > 0 then [\<lparr>ev_user = u, ev_source = invo, ev_kind = IncludedGrant,
                      ev_amount = c, ev_period = Some (utc_day (s * 1000))\<rparr>] else [])\<rparr>"
      by (simp add: grantStripeInvoiceProviderCredits_def invoicePeriod_def Let_def del: if_cancel
          split: if_split_asm)
    ultimately show thesis by (intro granted [of c]) blast+
  next
    case (Some p)
    with assms first_row_Some [OF Some] show thesis
      by (intro again [of p])
        (auto simp: grantStripeInvoiceProviderCredits_def invoicePeriod_def Let_def split: if_splits)
  qed
qed

lemma period_keeps_ledger_ok:
  assumes ok: "ledger_ok d" and new: "(u, t) \<notin> period_key ` set (periods d)"
    and con: "provider_constraints d'"
    and d': "d' = d\<lparr>periods := periods d @ [\<lparr>per_user = u, per_start = t, per_end = e,
         per_balance = c, per_allowance = c, per_invoice = v\<rparr>], credit_events := credit_events d @ es\<rparr>"
    and es: "\<forall>x \<in> set es. ev_kind x = IncludedGrant" and c: "0 \<le> c"
  shows "ledger_ok d'"
proof -
  have "sum_where (\<lambda>x. ev_user x = v \<and> ev_kind x = PurchasedGrant) ev_amount es = 0" for v
    by (rule sum_where_zero) (use es in auto)
  then have pools: "included_held v p d' = included_held v p d" "purchased_held v d' = purchased_held v d"
    "included_spent v p d' = included_spent v p d" "purchased_spent v d' = purchased_spent v d"
    "purchased_granted v d' = purchased_granted v d" for v p
    by (simp_all add: pool_defs d' table_simps)
  have same: "reservations d' = reservations d" "accounts d' = accounts d"
    by (simp_all add: d')
  have pers: "included_held (per_user p) (per_start p) d \<le> per_balance p \<and>
      per_balance p = per_allowance p - included_spent (per_user p) (per_start p) d"
    if "p \<in> set (periods d')" for p
    using that ok c no_period_no_pools [OF ok new] by (auto simp: d' ledger_ok_def)
  have "period_key ` set (periods d) \<subseteq> period_key ` set (periods d')" by (auto simp: d')
  moreover have "ev_user x \<in> acc_user ` set (accounts d)"
    if "x \<in> set (credit_events d')" "ev_kind x = PurchasedGrant" for x
    using that ok es by (auto simp: ledger_ok_def d')
  ultimately show ?thesis
    using ok con pers unfolding ledger_ok_def same pools by blast
qed

lemma provider_allowance_range: "provider_allowance tier = Inr c \<Longrightarrow> 0 \<le> c \<and> c \<le> 9500"
  using included_credits_range by (fastforce simp: provider_allowance_def split: option.splits if_splits)

lemma grant_keeps_ledger_ok:
  assumes ok: "ledger_ok d" and run: "grantStripeInvoiceProviderCredits u tier invo s e d = Inr (r, d')"
  shows "ledger_ok d'"
proof -
  have ok': "ledger_ok (d\<lparr>accounts := ensure_account u (accounts d)\<rparr>)"
    using ok by (rule ensure_account_keeps_ledger_ok)
  from run show ?thesis
  proof (cases rule: invoice_granted)
    case again
    with ok' show ?thesis by simp
  next
    case (granted c)
    show ?thesis
      by (rule period_keeps_ledger_ok [OF ok', where u = u and t = "utc_day (s * 1000)" and c = c
          and es = "if c > 0 then [\<lparr>ev_user = u, ev_source = invo, ev_kind = IncludedGrant,
             ev_amount = c, ev_period = Some (utc_day (s * 1000))\<rparr>] else []"])
        (use granted provider_allowance_range in \<open>auto simp: period_key_def\<close>)
  qed
qed

section \<open>Once per payment, once per invoice\<close>

definition topup_paid :: "fulfillment \<Rightarrow> db \<Rightarrow> bool" where
  "topup_paid i d \<longleftrightarrow> (case first_row (is_topup (fu_topUp i)) (topups d) of
     None \<Rightarrow> False | Some t \<Rightarrow> top_status t = TopupPaid)"

definition invoice_recorded :: "int \<Rightarrow> int \<Rightarrow> db \<Rightarrow> bool" where
  "invoice_recorded u t d \<longleftrightarrow> u \<in> acc_user ` set (accounts d) \<and>
     (u, t) \<in> period_key ` set (periods d)"

lemma fulfilled_is_paid:
  assumes "fulfillProviderCreditTopUp i d = Inr (r, d')"
  shows "topup_paid i d'"
  using assms
proof (cases rule: topup_fulfilled)
  case (again t)
  then show ?thesis by (simp add: topup_paid_def)
next
  case (granted t)
  let ?P = "\<lambda>t. is_topup (fu_topUp i) t \<and> top_status t = TopupReserved"
  let ?f = "\<lambda>t. t\<lparr>top_status := TopupPaid, top_session := Some (fu_session i),
     top_payment := Some (fu_payment i)\<rparr>"
  have "first_row (is_topup (fu_topUp i)) (topups d') =
      map_option (\<lambda>t. if ?P t then ?f t else t) (first_row (is_topup (fu_topUp i)) (topups d))"
    by (simp add: granted(9)) (rule first_row_update_where, simp add: is_topup_def)
  with granted(1,2) first_row_Some [OF granted(1)] show ?thesis by (simp add: topup_paid_def)
qed

interpretation topup_payment: transactional_operation
  "\<lambda>i. transact (fulfillProviderCreditTopUp i)" topup_paid
proof
  fix i d r d' assume "transact (fulfillProviderCreditTopUp i) d = (Inr r, d')"
  then show "topup_paid i d'" by (simp add: transact_eq fulfilled_is_paid)
next
  fix i d assume p: "topup_paid i d"
  have "d' = d" if "fulfillProviderCreditTopUp i d = Inr (r, d')" for r d'
    using that by (cases rule: topup_fulfilled) (use p in \<open>auto simp: topup_paid_def\<close>)
  then show "snd (transact (fulfillProviderCreditTopUp i) d) = d"
    by (auto simp: snd_transact split: sum.splits)
qed (simp add: transact_eq)

lemma ensure_account_idle: "u \<in> acc_user ` set t \<Longrightarrow> ensure_account u t = t"
  by (auto simp: ensure_account_def first_row_None)

type_synonym invoice_delivery = "int \<times> string \<times> string \<times> int \<times> int"

fun deliver_invoice :: "invoice_delivery \<Rightarrow> db \<Rightarrow> (topup_error, grant_result) result \<times> db" where
  "deliver_invoice (u, tier, invo, s, e) d = transact (grantStripeInvoiceProviderCredits u tier invo s e) d"

fun delivered_invoice :: "invoice_delivery \<Rightarrow> db \<Rightarrow> bool" where
  "delivered_invoice (u, tier, invo, s, e) d = invoice_recorded u (utc_day (s * 1000)) d"

lemma recorded_invoice_idle:
  assumes rec: "invoice_recorded u (utc_day (s * 1000)) d"
    and run: "grantStripeInvoiceProviderCredits u tier invo s e d = Inr (r, d')"
  shows "d' = d"
proof -
  from rec have "ensure_account u (accounts d) = accounts d"
    by (simp add: invoice_recorded_def ensure_account_idle)
  with run rec show ?thesis
    by (elim invoice_granted) (auto simp: invoice_recorded_def period_key_def)
qed

interpretation invoice_payment: transactional_operation deliver_invoice delivered_invoice
proof
  fix i d r d' assume "deliver_invoice i d = (Inr r, d')"
  then show "delivered_invoice i d'"
    by (cases i) (auto simp: transact_eq invoice_recorded_def ensure_account_facts period_key_def
        elim!: invoice_granted)
next
  fix i d assume "delivered_invoice i d"
  then show "snd (deliver_invoice i d) = d"
    by (cases i) (auto simp: snd_transact dest: recorded_invoice_idle split: sum.splits)
next
  fix i d e d' assume "deliver_invoice i d = (Inl e, d')"
  then show "d' = d" by (cases i) (simp add: transact_eq)
qed

section \<open>The period limit on purchases\<close>

definition topups_ok :: "db \<Rightarrow> bool" where
  "topups_ok d \<longleftrightarrow> (\<forall>t \<in> set (topups d). 0 \<le> top_price t \<and>
     topup_spent (top_user t) (top_period t) d \<le> PROVIDER_CREDIT_TOP_UP_PERIOD_LIMIT_USD_CENTS)"

lemma topups_ok_spent:
  assumes "topups_ok d"
  shows "topup_spent u p d \<le> PROVIDER_CREDIT_TOP_UP_PERIOD_LIMIT_USD_CENTS"
proof (cases "\<exists>t \<in> set (topups d). top_user t = u \<and> top_period t = p")
  case True
  with assms show ?thesis by (auto simp: topups_ok_def)
next
  case False
  then have "topup_spent u p d = 0"
    unfolding topup_spent_def by (intro sum_where_zero) auto
  then show ?thesis by (simp add: PROVIDER_CREDIT_TOP_UP_PERIOD_LIMIT_USD_CENTS_def)
qed

lemma topups_ok_mono:
  assumes ok: "topups_ok d"
    and rows: "\<And>t'. t' \<in> set (topups d') \<Longrightarrow> \<exists>t \<in> set (topups d). top_price t' = top_price t"
    and spent: "\<And>u p. topup_spent u p d' \<le> topup_spent u p d"
  shows "topups_ok d'"
  unfolding topups_ok_def
proof (intro ballI conjI)
  fix t' assume "t' \<in> set (topups d')"
  with rows ok show "0 \<le> top_price t'" by (fastforce simp: topups_ok_def)
  show "topup_spent (top_user t') (top_period t') d' \<le> PROVIDER_CREDIT_TOP_UP_PERIOD_LIMIT_USD_CENTS"
    using spent topups_ok_spent [OF ok] by (rule order_trans)
qed

lemma sum_where_update_mono:
  assumes "\<And>r. r \<in> set t \<Longrightarrow> 0 \<le> f r" "\<And>r. K r \<Longrightarrow> f (g r) = f r" "\<And>r. K r \<Longrightarrow> P (g r) \<Longrightarrow> P r"
  shows "sum_where P f (update_where K g t) \<le> sum_where P f t"
  using assms(1)
proof (induction t)
  case Nil
  then show ?case by (simp add: update_where_def)
next
  case (Cons r t)
  have head: "(if P (if K r then g r else r) then f (if K r then g r else r) else 0) \<le>
      (if P r then f r else 0)"
    using assms(2,3) [of r] Cons.prems [of r] by auto
  have "sum_where P f (update_where K g t) \<le> sum_where P f t"
    using Cons by simp
  then show ?case
    using head by (simp only: update_where_def list.map sum_where_Cons add_mono)
qed

lemma reserve_topup_keeps_topups_ok:
  assumes ok: "topups_ok d" and run: "reserveProviderCreditTopUp now fresh u pack expires d = Inr (ord, d')"
  shows "topups_ok d'"
  using run
proof (cases rule: topup_reserved)
  case (1 start)
  have "0 \<le> pack_price pack"
    using 1(2) by (auto simp: PURCHASED_PROVIDER_CREDIT_PACKS_CENTS_def pack_price_def
        PURCHASED_PROVIDER_CREDIT_PACK_PRICES_USD_CENTS_def)
  moreover have "topup_spent v p d' = topup_spent v p d +
      (if v = u \<and> p = start then pack_price pack else 0)" for v p
    by (simp add: topup_spent_def 1(4) table_simps)
  ultimately show ?thesis
    using ok 1(1) topups_ok_spent [OF ok] unfolding topups_ok_def by (auto simp: 1(4))
qed

lemma settle_topup_keeps_topups_ok:
  assumes ok: "topups_ok d"
    and t: "topups d' = update_where (\<lambda>t. is_topup k t \<and> top_status t = TopupReserved)
      (\<lambda>t. t\<lparr>top_status := st, top_session := v, top_payment := q t\<rparr>) (topups d)"
  shows "topups_ok d'"
proof (rule topups_ok_mono [OF ok])
  fix t' assume "t' \<in> set (topups d')"
  then show "\<exists>t \<in> set (topups d). top_price t' = top_price t" by (force simp: t table_simps)
next
  fix u p show "topup_spent u p d' \<le> topup_spent u p d"
    unfolding topup_spent_def t by (rule sum_where_update_mono) (use ok in \<open>auto simp: topups_ok_def\<close>)
qed

lemma fulfill_keeps_topups_ok:
  "topups_ok d \<Longrightarrow> fulfillProviderCreditTopUp i d = Inr (r, d') \<Longrightarrow> topups_ok d'"
  by (erule topup_fulfilled) (simp, rule settle_topup_keeps_topups_ok, simp_all)

lemma expire_keeps_topups_ok:
  assumes ok: "topups_ok d" and "expireProviderCreditTopUp k u sess d = Inr (r, d')"
  shows "topups_ok d'"
  using assms(2)
proof (cases rule: topup_expired)
  case (expired t)
  have "topups d' = update_where (\<lambda>t. is_topup k t \<and> top_status t = TopupReserved)
      (\<lambda>t. t\<lparr>top_status := TopupExpired, top_session := Some sess, top_payment := top_payment t\<rparr>) (topups d)"
    by (simp add: expired(6))
  with ok show ?thesis by (rule settle_topup_keeps_topups_ok)
qed (use ok in simp)

lemma checkout_keeps_topups_ok:
  assumes ok: "topups_ok d"
  shows "topups_ok (snd (createProviderCreditCheckout env now fresh u pack d))"
proof -
  have attach: "topups_ok (d1\<lparr>topups := update_where K (\<lambda>t. t\<lparr>top_session := v\<rparr>) (topups d1)\<rparr>)"
    if "topups_ok d1" for d1 K v
  proof (rule topups_ok_mono [OF that])
    fix t' assume "t' \<in> set (topups (d1\<lparr>topups := update_where K (\<lambda>t. t\<lparr>top_session := v\<rparr>) (topups d1)\<rparr>))"
    then show "\<exists>t \<in> set (topups d1). top_price t' = top_price t" by (force simp: table_simps)
  next
    fix u p show "topup_spent u p (d1\<lparr>topups := update_where K (\<lambda>t. t\<lparr>top_session := v\<rparr>) (topups d1)\<rparr>) \<le>
        topup_spent u p d1"
      unfolding topup_spent_def
      by (simp, rule sum_where_update_mono) (use that in \<open>auto simp: topups_ok_def\<close>)
  qed
  from ok attach reserve_topup_keeps_topups_ok show ?thesis
    by (auto simp: createProviderCreditCheckout_def Let_def split: sum.splits option.splits prod.splits)
qed

section \<open>Contracts\<close>

definition purchased_balance :: "int \<Rightarrow> db \<Rightarrow> int" where
  "purchased_balance u d = (case first_row (\<lambda>a. acc_user a = u) (accounts d) of
     None \<Rightarrow> 0 | Some a \<Rightarrow> acc_purchased a)"

lemma purchased_balance_books:
  assumes "ledger_ok d"
  shows "purchased_balance u d = purchased_granted u d - purchased_spent u d"
proof (cases "first_row (\<lambda>a. acc_user a = u) (accounts d)")
  case None
  then have "u \<notin> acc_user ` set (accounts d)" by (auto simp: first_row_None)
  with None assms show ?thesis by (simp add: purchased_balance_def no_account_no_pools)
next
  case (Some a)
  with first_row_Some [OF Some] ledger_ok_account [OF assms, of a] show ?thesis
    by (simp add: purchased_balance_def)
qed

lemma fulfilled_row:
  assumes "fulfillProviderCreditTopUp i d = Inr (r, d')" "\<not> gr_skipped r"
  obtains t where "first_row (is_topup (fu_topUp i)) (topups d') = Some t"
    "top_status t = TopupPaid" "top_user t = fu_user i" "top_credits t = fu_credits i"
    "top_price t = fu_price i" "top_session t = Some (fu_session i)"
    "top_payment t = Some (fu_payment i)"
  using assms(1)
proof (cases rule: topup_fulfilled)
  case again
  with assms(2) show thesis by simp
next
  case (granted t)
  let ?P = "\<lambda>t. is_topup (fu_topUp i) t \<and> top_status t = TopupReserved"
  let ?f = "\<lambda>t. t\<lparr>top_status := TopupPaid, top_session := Some (fu_session i),
     top_payment := Some (fu_payment i)\<rparr>"
  have "first_row (is_topup (fu_topUp i)) (topups d') =
      map_option (\<lambda>t. if ?P t then ?f t else t) (first_row (is_topup (fu_topUp i)) (topups d))"
    by (simp add: granted(9)) (rule first_row_update_where, simp add: is_topup_def)
  then have "first_row (is_topup (fu_topUp i)) (topups d') = Some (?f t)"
    using granted(1,2) first_row_Some [OF granted(1)] by simp
  moreover from assms(1) granted(1) have "top_price t = fu_price i"
    by (auto simp: fulfillProviderCreditTopUp_def split: if_splits)
  ultimately show thesis using granted(3,4) by (intro that [of "?f t"]) simp_all
qed

lemma fulfill_again:
  assumes run: "fulfillProviderCreditTopUp i d = Inr (r, d')" "\<not> gr_skipped r"
  shows "fulfillProviderCreditTopUp i d' = Inr (\<lparr>gr_granted = 0, gr_skipped = True\<rparr>, d')"
proof -
  from run obtain t where "first_row (is_topup (fu_topUp i)) (topups d') = Some t"
    "top_status t = TopupPaid" "top_user t = fu_user i" "top_credits t = fu_credits i"
    "top_price t = fu_price i" "top_session t = Some (fu_session i)"
    "top_payment t = Some (fu_payment i)" by (rule fulfilled_row)
  with run(1) show ?thesis
    by (auto simp: fulfillProviderCreditTopUp_def providerCreditPack_def differs_def split: if_splits)
qed

text \<open>
  C4. A payment is credited once: when a payment fulfils an order of a consistent ledger, the
  customer's purchased balance rises by exactly the credits of the approved pack, nobody else's
  balance moves, the ledger stays consistent, the next delivery of the same payment is answered
  as skipped, and no number of further deliveries changes the database.
\<close>

theorem payment_is_credited_once:
  assumes "ledger_ok d" "fulfillProviderCreditTopUp i d = Inr (r, d')" "\<not> gr_skipped r"
  shows "PURCHASED_PROVIDER_CREDIT_PACK_PRICES_USD_CENTS (fu_credits i) = Some (fu_price i) \<and>
    purchased_balance (fu_user i) d' = purchased_balance (fu_user i) d + fu_credits i \<and>
    0 < fu_credits i \<and>
    (\<forall>v. v \<noteq> fu_user i \<longrightarrow> purchased_balance v d' = purchased_balance v d) \<and>
    ledger_ok d' \<and>
    fulfillProviderCreditTopUp i d' = Inr (\<lparr>gr_granted = 0, gr_skipped = True\<rparr>, d') \<and>
    ((\<lambda>x. snd (transact (fulfillProviderCreditTopUp i) x)) ^^ n) d' = d'"
proof -
  have ok': "ledger_ok d'" using assms(1,2) by (rule fulfill_keeps_ledger_ok)
  have again: "((\<lambda>x. snd (transact (fulfillProviderCreditTopUp i) x)) ^^ n) d' = d'"
    using topup_payment.redelivery [of i d r d' n] assms(2)
    by (simp add: transact_eq topup_payment.deliver_def [abs_def])
  have price: "PURCHASED_PROVIDER_CREDIT_PACK_PRICES_USD_CENTS (fu_credits i) = Some (fu_price i)"
    using assms(2)
    by (auto simp: fulfillProviderCreditTopUp_def providerCreditPack_def pack_price_def
        PURCHASED_PROVIDER_CREDIT_PACKS_CENTS_def PURCHASED_PROVIDER_CREDIT_PACK_PRICES_USD_CENTS_def
        split: if_splits)
  have "purchased_spent v d' = purchased_spent v d \<and> 0 < fu_credits i \<and>
      purchased_granted v d' = purchased_granted v d + (if v = fu_user i then fu_credits i else 0)" for v
    using assms(2) by (cases rule: topup_fulfilled)
      (use assms(3) in \<open>simp_all add: pool_defs table_simps\<close>)
  with ok' assms(1) price again fulfill_again [OF assms(2,3)] show ?thesis
    by (simp add: purchased_balance_books)
qed

text \<open>
  An order ends one way only: an order reported expired can never be fulfilled by any payment
  afterwards, and an order that was fulfilled is never expired by a later session event, which
  leaves the database alone.
\<close>

theorem order_paid_or_expired:
  assumes "uuid_of (fu_topUp i) = uuid_of k"
  shows "(expireProviderCreditTopUp k u s d = Inr (\<lparr>ex_expired = True, ex_skipped = sk\<rparr>, d1) \<longrightarrow>
      (\<forall>g d2. fulfillProviderCreditTopUp i d1 \<noteq> Inr (g, d2))) \<and>
    (fulfillProviderCreditTopUp i d = Inr (g, d1) \<longrightarrow>
      expireProviderCreditTopUp k u s d1 = Inr (x, d2) \<longrightarrow> \<not> ex_expired x \<and> d2 = d1)"
proof (intro conjI impI allI)
  have same: "is_topup (fu_topUp i) = is_topup k"
    using assms by (simp add: is_topup_def fun_eq_iff)
  fix g d2
  assume ex: "expireProviderCreditTopUp k u s d = Inr (\<lparr>ex_expired = True, ex_skipped = sk\<rparr>, d1)"
  from ex have "\<exists>t. first_row (is_topup k) (topups d1) = Some t \<and> top_status t = TopupExpired"
  proof (cases rule: topup_expired)
    case (idle t)
    then show ?thesis by simp
  next
    case (expired t)
    have "first_row (is_topup k) (topups d1) = map_option
        (\<lambda>t. if is_topup k t \<and> top_status t = TopupReserved
          then t\<lparr>top_status := TopupExpired, top_session := Some s\<rparr> else t)
        (first_row (is_topup k) (topups d))"
      by (simp add: expired(6)) (rule first_row_update_where, simp add: is_topup_def)
    with expired(1,2) first_row_Some [OF expired(1)] show ?thesis by simp
  qed
  then show "fulfillProviderCreditTopUp i d1 \<noteq> Inr (g, d2)"
    by (auto simp: same elim!: topup_fulfilled)
next
  have same: "is_topup (fu_topUp i) = is_topup k"
    using assms by (simp add: is_topup_def fun_eq_iff)
  assume "fulfillProviderCreditTopUp i d = Inr (g, d1)"
  then have paid: "topup_paid i d1" by (rule fulfilled_is_paid)
  assume "expireProviderCreditTopUp k u s d1 = Inr (x, d2)"
  then show "\<not> ex_expired x" "d2 = d1"
    by (cases rule: topup_expired; use paid in \<open>simp add: topup_paid_def same\<close>)+
qed

text \<open>
  An invoice provisions its billing period once: a first grant on a consistent ledger creates
  the period with exactly the plan's allowance, unspent; delivering the same invoice again is
  skipped without a change, and any other invoice for the same day is refused.
\<close>

theorem invoice_provisions_period_once:
  assumes "ledger_ok d" "grantStripeInvoiceProviderCredits u tier v s e d = Inr (r, d')"
    "\<not> gr_skipped r"
  shows "ledger_ok d' \<and> provider_allowance tier = Inr (gr_granted r) \<and>
    (\<exists>p \<in> set (periods d'). period_key p = (u, utc_day (s * 1000)) \<and>
       per_balance p = gr_granted r \<and> per_allowance p = gr_granted r \<and> per_invoice p = Some v \<and>
       included_spent u (utc_day (s * 1000)) d' = 0) \<and>
    grantStripeInvoiceProviderCredits u tier v s e d' =
      Inr (\<lparr>gr_granted = 0, gr_skipped = True\<rparr>, d') \<and>
    (\<forall>w tier' e' g d''. w \<noteq> v \<longrightarrow> grantStripeInvoiceProviderCredits u tier' w s e' d' \<noteq> Inr (g, d''))"
  using assms(2)
proof (cases rule: invoice_granted)
  case again
  with assms(3) show ?thesis by simp
next
  case (granted c)
  let ?t = "utc_day (s * 1000)"
  let ?p = "\<lparr>per_user = u, per_start = ?t, per_end = e * 1000, per_balance = c,
     per_allowance = c, per_invoice = Some v\<rparr>"
  have ok': "ledger_ok d'" using assms(1,2) by (rule grant_keeps_ledger_ok)
  have "(u, ?t) \<notin> period_key ` set (periods d)" using granted(2) by (auto simp: period_key_def)
  then have spent: "included_spent u ?t d' = 0"
    using no_period_no_pools(2) [OF assms(1)] by (simp add: granted(5) included_spent_def)
  have found: "first_row (\<lambda>p. per_user p = u \<and> per_start p = ?t) (periods d') = Some ?p"
    using granted(2) by (simp add: granted(5) table_simps first_row_None [THEN iffD2])
  have idle: "ensure_account u (accounts d') = accounts d'"
    by (simp add: granted(5) ensure_account_idle ensure_account_facts)
  have con: "provider_constraints d'" by (fact granted(4))
  have "grantStripeInvoiceProviderCredits u tier v s e d' = Inr (\<lparr>gr_granted = 0, gr_skipped = True\<rparr>, d')"
    using assms(2) granted(1) found idle con
    by (auto simp: grantStripeInvoiceProviderCredits_def invoicePeriod_def Let_def commit_if_def
        split: if_splits)
  moreover have "grantStripeInvoiceProviderCredits u tier' w s e' d' \<noteq> Inr (g, d'')" if "w \<noteq> v"
    for w tier' e' g d''
    using found that by (auto simp: grantStripeInvoiceProviderCredits_def invoicePeriod_def Let_def
        split: if_splits)
  moreover have "?p \<in> set (periods d')" by (simp add: granted(5))
  ultimately show ?thesis using ok' granted(1,3) spent
    by (intro conjI bexI [of _ ?p]) (simp_all add: period_key_def)
qed

section \<open>A concrete purchase\<close>

definition sample_order_id :: string where
  "sample_order_id = ''01234567-89ab-cdef-0123-456789abcdef''"

definition sample_ordered :: db where
  "sample_ordered = sample_ledger\<lparr>topups := [\<lparr>top_id = sample_order_id, top_user = 1,
     top_period = 1000, top_credits = 3000, top_price = 6900, top_status = TopupReserved,
     top_expires = 1002000, top_session = None, top_payment = None\<rparr>]\<rparr>"

definition sample_payment :: fulfillment where
  "sample_payment = \<lparr>fu_topUp = sample_order_id, fu_user = 1, fu_session = ''cs_test_a1'',
     fu_payment = ''pi_9'', fu_credits = 3000, fu_price = 6900\<rparr>"

definition sample_fulfilled :: db where
  "sample_fulfilled = (case fulfillProviderCreditTopUp sample_payment sample_ordered of
     Inl _ \<Rightarrow> sample_ordered | Inr (_, d) \<Rightarrow> d)"

lemma sample_order:
  "reserveProviderCreditTopUp 2000 sample_order_id 1 3000 1002000 sample_ledger =
    Inr (\<lparr>to_id = sample_order_id, to_period = 1000, to_customer = ''cus_1''\<rparr>, sample_ordered)"
  by code_simp

lemma sample_ordered_ok: "ledger_ok sample_ordered"
  by (rule reserve_topup_keeps_ledger_ok [OF sample_ledger_ok sample_order])

lemma sample_fulfill:
  "fulfillProviderCreditTopUp sample_payment sample_ordered =
    Inr (\<lparr>gr_granted = 3000, gr_skipped = False\<rparr>, sample_fulfilled)"
  by code_simp

theorem payment_is_credited_once_witness:
  "purchased_balance 1 sample_fulfilled = purchased_balance 1 sample_ordered + 3000 \<and>
   fulfillProviderCreditTopUp sample_payment sample_fulfilled =
     Inr (\<lparr>gr_granted = 0, gr_skipped = True\<rparr>, sample_fulfilled)"
proof -
  have "\<not> gr_skipped \<lparr>gr_granted = 3000, gr_skipped = False\<rparr>"
    "fu_user sample_payment = 1" "fu_credits sample_payment = 3000"
    by (simp_all add: sample_payment_def)
  with payment_is_credited_once [OF sample_ordered_ok sample_fulfill] show ?thesis by simp
qed

theorem order_paid_or_expired_witness:
  "\<not> ex_expired \<lparr>ex_expired = False, ex_skipped = True\<rparr> \<and>
   (\<exists>d1. \<forall>g d2. fulfillProviderCreditTopUp sample_payment d1 \<noteq> Inr (g, d2))"
proof -
  have same: "uuid_of (fu_topUp sample_payment) = uuid_of sample_order_id"
    by (simp add: sample_payment_def)
  have late: "expireProviderCreditTopUp sample_order_id 1 ''cs_test_a1'' sample_fulfilled =
      Inr (\<lparr>ex_expired = False, ex_skipped = True\<rparr>, sample_fulfilled)"
    by code_simp
  have early: "expireProviderCreditTopUp sample_order_id 1 ''cs_test_a1'' sample_ordered =
      Inr (\<lparr>ex_expired = True, ex_skipped = False\<rparr>, sample_ordered\<lparr>topups := [\<lparr>top_id = sample_order_id,
        top_user = 1, top_period = 1000, top_credits = 3000, top_price = 6900,
        top_status = TopupExpired, top_expires = 1002000, top_session = Some ''cs_test_a1'',
        top_payment = None\<rparr>]\<rparr>)"
    by code_simp
  from order_paid_or_expired [OF same] sample_fulfill late early show ?thesis by blast
qed

definition sample_provisioned :: db where
  "sample_provisioned = (case grantStripeInvoiceProviderCredits 1 ''builder'' ''in_2'' 2600000 5200000
     sample_ledger of Inl _ \<Rightarrow> sample_ledger | Inr (_, d) \<Rightarrow> d)"

theorem invoice_provisions_period_once_witness:
  "ledger_ok sample_provisioned \<and>
   grantStripeInvoiceProviderCredits 1 ''builder'' ''in_2'' 2600000 5200000 sample_provisioned =
     Inr (\<lparr>gr_granted = 0, gr_skipped = True\<rparr>, sample_provisioned)"
proof -
  have run: "grantStripeInvoiceProviderCredits 1 ''builder'' ''in_2'' 2600000 5200000 sample_ledger =
      Inr (\<lparr>gr_granted = 3500, gr_skipped = False\<rparr>, sample_provisioned)"
    by code_simp
  have new: "\<not> gr_skipped \<lparr>gr_granted = 3500, gr_skipped = False\<rparr>" by simp
  from invoice_provisions_period_once [OF sample_ledger_ok run new] show ?thesis by simp
qed

end
