(* ===== verification/LedgerRuns.thy ===== *)
theory LedgerRuns
  imports ProviderTopUps
begin

text \<open>
  The provider-credit subsystem as a transition system: any interleaving of the committed
  transactions of \<open>providerSpendLedger.ts\<close>, \<open>providerCreditTopUps.ts\<close> and
  \<open>providerCreditProvisioning.ts\<close>, and of everything else that leaves the provider-credit
  tables alone. What holds in every reachable database, and what no later operation can undo.
\<close>

section \<open>Steps\<close>

inductive ledger_step :: "db \<Rightarrow> db \<Rightarrow> bool" where
  step_reserve: "reserveProviderSpend now i d = Inr (out, d') \<Longrightarrow> ledger_step d d'"
| step_settle: "settleProviderSpend u k v d = (r, d') \<Longrightarrow> ledger_step d d'"
| step_release: "releaseProviderSpend u k d = Inr ((), d') \<Longrightarrow> ledger_step d d'"
| step_order: "reserveProviderCreditTopUp now fresh u pack expires d = Inr (ord, d') \<Longrightarrow>
    ledger_step d d'"
| step_checkout: "createProviderCreditCheckout env now fresh u pack d = (answer, d') \<Longrightarrow>
    ledger_step d d'"
| step_expire: "expireProviderCreditTopUp k u s d = Inr (x, d') \<Longrightarrow> ledger_step d d'"
| step_fulfill: "fulfillProviderCreditTopUp f d = Inr (g, d') \<Longrightarrow> ledger_step d d'"
| step_provision: "grantStripeInvoiceProviderCredits u tier invoice start ends d = Inr (g, d') \<Longrightarrow>
    ledger_step d d'"
| step_elsewhere: "same_provider_tables d d' \<Longrightarrow> ledger_step d d'"

inductive_cases ledger_stepE: "ledger_step d d'"

definition consistent :: "db \<Rightarrow> bool" where
  "consistent d \<longleftrightarrow> ledger_ok d \<and> topups_ok d"

lemma topups_ok_same: "topups d' = topups d \<Longrightarrow> topups_ok d \<Longrightarrow> topups_ok d'"
  by (simp add: topups_ok_def topup_spent_def)

lemma reserve_same_topups: "reserveProviderSpend now i d = Inr (out, d') \<Longrightarrow> topups d' = topups d"
  by (cases out) (auto elim!: reserve_reserved,
    auto simp: reserveProviderSpend_def Let_def split: if_splits option.splits)

lemma settle_same_topups: "settleProviderSpend u k v d = (r, d') \<Longrightarrow> topups d' = topups d"
  by (cases "settle_transaction u k v d")
    (auto simp: settleProviderSpend_def split: if_splits elim: settle_cases)

lemma release_same_topups: "releaseProviderSpend u k d = Inr ((), d') \<Longrightarrow> topups d' = topups d"
  by (auto elim!: release_cases)

lemma grant_same_topups:
  "grantStripeInvoiceProviderCredits u tier v s e d = Inr (g, d') \<Longrightarrow> topups d' = topups d"
  by (auto elim!: invoice_granted)

lemmas keeps_ledger_ok = reserve_keeps_ledger_ok release_keeps_ledger_ok
  reserve_topup_keeps_ledger_ok expire_keeps_ledger_ok fulfill_keeps_ledger_ok grant_keeps_ledger_ok

lemmas keeps_topups_ok = reserve_topup_keeps_topups_ok fulfill_keeps_topups_ok expire_keeps_topups_ok
  topups_ok_same [OF reserve_same_topups] topups_ok_same [OF settle_same_topups]
  topups_ok_same [OF release_same_topups] topups_ok_same [OF grant_same_topups]

lemma step_keeps_consistent: "consistent d \<Longrightarrow> ledger_step d d' \<Longrightarrow> consistent d'"
proof (erule ledger_stepE)
  fix u k v r assume "consistent d" "settleProviderSpend u k v d = (r, d')"
  then show "consistent d'"
    using settle_spend_keeps_ledger_ok [of d u k v] topups_ok_same [OF settle_same_topups]
    by (auto simp: consistent_def)
next
  fix env now fresh u pack answer
  assume "consistent d" "createProviderCreditCheckout env now fresh u pack d = (answer, d')"
  then show "consistent d'"
    using checkout_keeps_ledger_ok [of d env now fresh u pack]
      checkout_keeps_topups_ok [of d env now fresh u pack] by (simp add: consistent_def)
next
  assume "consistent d" "same_provider_tables d d'"
  then show "consistent d'"
    using same_provider_tables_constraints [of d d']
    by (auto simp: consistent_def same_provider_tables_def intro: topups_ok_same
        intro!: ledger_ok_frame [of d d'] dest: ledger_okD(1))
qed (auto simp: consistent_def intro: keeps_ledger_ok keeps_topups_ok)

interpretation ledger_runs: guarded_system ledger_step consistent
  by unfold_locales (rule step_keeps_consistent)

lemma empty_consistent: "consistent empty_db"
  by code_simp

section \<open>What a run cannot undo\<close>

lemma settle_keeps_finished:
  assumes ok: "ledger_ok d" and run: "settleProviderSpend u k v d = (x, d')"
    and r: "r \<in> set (reservations d)" "res_state r \<noteq> Reserved"
  shows "r \<in> set (reservations d')"
proof (cases "settle_transaction u k v d")
  case (Inl e)
  with run r show ?thesis by (auto simp: settleProviderSpend_def split: if_splits)
next
  case (Inr p)
  obtain over d1 where p: "p = (over, d1)" by fastforce
  with Inr have "settle_transaction u k v d = Inr (over, d1)" by simp
  then have "r \<in> set (reservations d1)"
  proof (cases rule: settle_cases)
    case replay
    with r show ?thesis by simp
  next
    case (settled item i q)
    have "\<not> is_reservation u k r"
      using distinct_key_eq [OF ledger_okD(5) [OF ok] r(1) settled(1)] settled(2,3) r(2)
      by (auto simp: is_reservation_key)
    with r show ?thesis by (force simp: settled(8) table_simps)
  qed
  with Inr p run r show ?thesis by (auto simp: settleProviderSpend_def split: if_splits)
qed

lemma release_keeps_finished:
  assumes ok: "ledger_ok d" and run: "releaseProviderSpend u k d = Inr ((), d')"
    and r: "r \<in> set (reservations d)" "res_state r \<noteq> Reserved"
  shows "r \<in> set (reservations d')"
  using run
proof (cases rule: release_cases)
  case again
  with r show ?thesis by simp
next
  case (released item)
  have "\<not> is_reservation u k r"
    using distinct_key_eq [OF ledger_okD(5) [OF ok] r(1) released(1)] released(2,3) r(2)
    by (auto simp: is_reservation_key)
  with r show ?thesis by (force simp: released(5) table_simps)
qed

lemma reserve_keeps_rows:
  "reserveProviderSpend now i d = Inr (out, d') \<Longrightarrow> set (reservations d) \<subseteq> set (reservations d')"
  by (cases out) (auto elim!: reserve_reserved,
    auto simp: reserveProviderSpend_def Let_def split: if_splits option.splits)

lemma orders_same_reservations:
  "reserveProviderCreditTopUp now fresh u pack expires d = Inr (ord, d') \<Longrightarrow>
    reservations d' = reservations d"
  "expireProviderCreditTopUp k u s d = Inr (x, d') \<Longrightarrow> reservations d' = reservations d"
  "fulfillProviderCreditTopUp f d = Inr (g, d') \<Longrightarrow> reservations d' = reservations d"
  "grantStripeInvoiceProviderCredits u tier v st e d = Inr (g, d') \<Longrightarrow> reservations d' = reservations d"
  by (auto elim!: topup_reserved topup_expired topup_fulfilled invoice_granted)

lemma checkout_frame:
  assumes "createProviderCreditCheckout env now fresh u pack d = (answer, d')"
  shows "reservations d' = reservations d"
    and "t \<in> set (topups d) \<Longrightarrow> top_status t \<noteq> TopupReserved \<Longrightarrow> t \<in> set (topups d')"
  using assms
  by (auto simp: createProviderCreditCheckout_def Let_def table_simps image_iff
      split: sum.splits option.splits if_splits prod.splits elim!: topup_reserved)

lemma step_keeps_finished:
  "ledger_step d d' \<Longrightarrow> consistent d \<Longrightarrow> r \<in> set (reservations d) \<Longrightarrow> res_state r \<noteq> Reserved \<Longrightarrow>
   r \<in> set (reservations d')"
proof (induction rule: ledger_step.induct)
  case step_reserve
  with reserve_keeps_rows show ?case by blast
next
  case step_settle
  with settle_keeps_finished show ?case by (auto simp: consistent_def)
next
  case step_release
  with release_keeps_finished show ?case by (auto simp: consistent_def)
next
  case step_checkout
  with checkout_frame(1) show ?case by metis
qed (auto simp: orders_same_reservations same_provider_tables_def)

lemma step_keeps_ended_order:
  "ledger_step d d' \<Longrightarrow> t \<in> set (topups d) \<Longrightarrow> top_status t \<noteq> TopupReserved \<Longrightarrow> t \<in> set (topups d')"
proof (induction rule: ledger_step.induct)
  case step_order
  from step_order(1) show ?case by (cases rule: topup_reserved) (use step_order in simp)
next
  case step_checkout
  with checkout_frame(2) show ?case by metis
next
  case step_expire
  from step_expire(1) show ?case
    by (cases rule: topup_expired) (use step_expire in \<open>auto simp: table_simps image_iff\<close>)
next
  case step_fulfill
  from step_fulfill(1) show ?case
    by (cases rule: topup_fulfilled) (use step_fulfill in \<open>auto simp: table_simps image_iff\<close>)
qed (auto simp: reserve_same_topups settle_same_topups release_same_topups grant_same_topups
    same_provider_tables_def)

text \<open>
  C1. Credits are never oversold, in any interleaving: in every database reachable from the empty
  one, what a customer's reservations hold of purchased credits and what settlements took never
  exceed what was paid for, in no billing period do they exceed the plan's allowance, no balance
  is negative, and purchases of a period stay within the approved limit.
\<close>

theorem credits_never_oversold:
  assumes "ledger_step\<^sup>*\<^sup>* empty_db d"
  shows "purchased_held u d + purchased_spent u d \<le> purchased_granted u d \<and>
    (\<forall>p \<in> set (periods d). included_held (per_user p) (per_start p) d +
       included_spent (per_user p) (per_start p) d \<le> per_allowance p \<and> 0 \<le> per_balance p) \<and>
    0 \<le> purchased_balance u d \<and>
    topup_spent u t d \<le> PROVIDER_CREDIT_TOP_UP_PERIOD_LIMIT_USD_CENTS"
proof -
  from ledger_runs.run_keeps [OF assms empty_consistent]
  have ok: "ledger_ok d" "topups_ok d" by (simp_all add: consistent_def)
  have acc: "purchased_held u d + purchased_spent u d \<le> purchased_granted u d"
  proof (cases "u \<in> acc_user ` set (accounts d)")
    case True
    then obtain a where "a \<in> set (accounts d)" "acc_user a = u" by blast
    with ledger_ok_account [OF ok(1), of a] show ?thesis by simp
  qed (simp add: no_account_no_pools [OF ok(1)])
  have per: "included_held (per_user p) (per_start p) d +
       included_spent (per_user p) (per_start p) d \<le> per_allowance p \<and> 0 \<le> per_balance p"
    if "p \<in> set (periods d)" for p
    using that ok(1) by (fastforce simp: ledger_ok_def provider_constraints_def list_all_iff period_check_def)
  have "0 \<le> purchased_balance u d"
    using acc held_nonneg(2) [OF ok(1), of u] by (simp add: purchased_balance_books [OF ok(1)])
  with acc per topups_ok_spent [OF ok(2)] show ?thesis by blast
qed

text \<open>
  History is final: whatever operations follow, a settled or released reservation and a paid
  or expired order stay in the database exactly as they are.
\<close>

theorem history_is_final:
  assumes "consistent s" "ledger_step\<^sup>*\<^sup>* s s'"
  shows "(\<forall>r \<in> set (reservations s). res_state r \<noteq> Reserved \<longrightarrow> r \<in> set (reservations s')) \<and>
    (\<forall>t \<in> set (topups s). top_status t \<noteq> TopupReserved \<longrightarrow> t \<in> set (topups s'))"
  using assms(2) by (rule ledger_runs.run_relates [rotated 2])
    (use assms(1) step_keeps_finished step_keeps_ended_order in \<open>blast+\<close>)

text \<open>
  A customer with an unresolved overrun stays frozen: once a reservation was settled above its
  maximum, no sequence of operations lets that customer reserve provider credits again.
\<close>

theorem overrun_freezes_forever:
  assumes "consistent s" "r \<in> set (reservations s)" "res_overrun r" "ledger_step\<^sup>*\<^sup>* s s'"
    "in_user i = res_user r"
  shows "reserveProviderSpend now i s' \<noteq> Inr (OutcomeReserved, s'')"
proof
  have row: "row_ok r" "reservation_check r"
    using ledger_okD(2) assms(1,2) by (auto simp: consistent_def)
  with assms(3) have "res_state r \<noteq> Reserved"
    by (auto simp: row_ok_iff reservation_check_def)
  have "(\<forall>x \<in> set (reservations s). res_state x \<noteq> Reserved \<longrightarrow> x \<in> set (reservations s'))"
    using assms(4) by (rule ledger_runs.run_relates [rotated 2])
      (use assms(1) step_keeps_finished in \<open>blast+\<close>)
  with assms(2) \<open>res_state r \<noteq> Reserved\<close> have "r \<in> set (reservations s')" by blast
  moreover assume "reserveProviderSpend now i s' = Inr (OutcomeReserved, s'')"
  then have "\<forall>x \<in> set (reservations s'). res_user x = in_user i \<longrightarrow> \<not> res_overrun x"
    by (rule reserve_reserved)
  ultimately show False using assms(3,5) by auto
qed

section \<open>Concrete runs\<close>

definition run_start :: db where
  "run_start = sample_ledger\<lparr>accounts := [], credit_events := [], periods := []\<rparr>"

definition run_provisioned :: db where
  "run_provisioned = (case grantStripeInvoiceProviderCredits 1 ''builder'' ''in_2'' 1 2600000 run_start of
     Inl _ \<Rightarrow> run_start | Inr (_, d) \<Rightarrow> d)"

definition run_reserved :: db where
  "run_reserved = run_provisioned\<lparr>reservations :=
     [new_reservation (sample_request\<lparr>in_maximum := 800\<rparr>) 0 800]\<rparr>"

lemma run_reserved_reachable: "ledger_step\<^sup>*\<^sup>* empty_db run_reserved"
proof -
  have "ledger_step empty_db run_start"
    by (rule step_elsewhere) code_simp
  moreover have "ledger_step run_start run_provisioned"
  proof (rule step_provision)
    show "grantStripeInvoiceProviderCredits 1 ''builder'' ''in_2'' 1 2600000 run_start =
      Inr (\<lparr>gr_granted = 3500, gr_skipped = False\<rparr>, run_provisioned)" by code_simp
  qed
  moreover have "ledger_step run_provisioned run_reserved"
  proof (rule step_reserve)
    show "reserveProviderSpend 2000 (sample_request\<lparr>in_maximum := 800\<rparr>) run_provisioned =
      Inr (OutcomeReserved, run_reserved)" by code_simp
  qed
  ultimately show ?thesis by (meson converse_rtranclp_into_rtranclp rtranclp.rtrancl_refl)
qed

theorem credits_never_oversold_witness:
  "purchased_held 1 run_reserved + purchased_spent 1 run_reserved \<le> purchased_granted 1 run_reserved \<and>
   reservations run_reserved \<noteq> []"
  using credits_never_oversold [OF run_reserved_reachable, of 1]
  by (simp add: run_reserved_def)

definition sample_overrun :: db where
  "sample_overrun = snd (settleProviderSpend 1 ''op-00001'' 2500 sample_reserved)"

definition sample_overrun_row :: reservation_row where
  "sample_overrun_row = settle_row 2500 True (new_reservation sample_request 0 2000)"

lemma sample_overrun_facts:
  "sample_overrun_row \<in> set (reservations sample_overrun)" "res_overrun sample_overrun_row"
  "res_state sample_overrun_row \<noteq> Reserved" "in_user sample_request = res_user sample_overrun_row"
  by code_simp+

lemma sample_overrun_consistent: "consistent sample_overrun"
  using settle_spend_keeps_ledger_ok [OF sample_reserved_ok, of 1 "''op-00001''" 2500]
  by (simp add: consistent_def sample_overrun_def) code_simp

definition sample_later :: db where
  "sample_later = (case grantStripeInvoiceProviderCredits 1 ''builder'' ''in_2'' 2600000 5200000
     sample_overrun of Inl _ \<Rightarrow> sample_overrun | Inr (_, d) \<Rightarrow> d)"

lemma sample_later_reachable: "ledger_step\<^sup>*\<^sup>* sample_overrun sample_later"
proof (rule r_into_rtranclp, rule step_provision)
  show "grantStripeInvoiceProviderCredits 1 ''builder'' ''in_2'' 2600000 5200000 sample_overrun =
    Inr (\<lparr>gr_granted = 3500, gr_skipped = False\<rparr>, sample_later)" by code_simp
qed

theorem history_is_final_witness: "sample_overrun_row \<in> set (reservations sample_later)"
  using history_is_final [OF sample_overrun_consistent sample_later_reachable] sample_overrun_facts
  by blast

theorem overrun_freezes_forever_witness:
  "\<forall>now d. reserveProviderSpend now sample_request sample_later \<noteq> Inr (OutcomeReserved, d)"
  using overrun_freezes_forever [OF sample_overrun_consistent sample_overrun_facts(1,2)
      sample_later_reachable sample_overrun_facts(4)] by blast

end
