(* ===== verification/UserCredits.thy ===== *)
theory UserCredits
  imports CreditPolicy Contracts
begin

text \<open>
  The customer credit balance of \<open>src/db.ts\<close>: provisioning the row, monthly refills, build
  deductions, purchases, plan grants, grants by code, the project states that follow a grant,
  and who counts as a paying customer. Each operation is its own transaction under the
  customer's advisory lock, after a separate transaction that provisions the row; so an
  operation maps a database to an answer and a database, where an error undoes the operation but
  not the provisioning. The test for the owner's e-mail address depends on server secrets and is
  a parameter; \<open>now\<close> is the time of the call.
\<close>

section \<open>Rows\<close>

datatype credit_error =
    InvalidCreditGrant | CreditBalanceNotFound | OwnerOnly | InvalidCreditBalance
  | InvalidDeduction | InsufficientCredits int int | InvalidGrantAmount | CreditsRowMissing
  | CustomerRowMissing | CreditConstraint | InvalidStripeInvoice | InvalidRefundRequest
  | InvalidOriginalPurchase
  | InvalidRefundAmounts | InvalidRefundState | RefundMovedBackwards | RefundOutOfRange

definition own_credits :: "int \<Rightarrow> user_credits_row \<Rightarrow> bool" where
  "own_credits u c \<longleftrightarrow> uc_user c = u"

definition getUserCredits :: "int \<Rightarrow> db \<Rightarrow> user_credits_row option" where
  "getUserCredits u d = first_row (own_credits u) (user_credits d)"

definition set_credits :: "int \<Rightarrow> (user_credits_row \<Rightarrow> user_credits_row) \<Rightarrow> db \<Rightarrow> db" where
  "set_credits u f d = d\<lparr>user_credits := update_where (own_credits u) f (user_credits d)\<rparr>"

definition record_transaction ::
    "int \<Rightarrow> int \<Rightarrow> int \<Rightarrow> string \<Rightarrow> int option \<Rightarrow> string option \<Rightarrow> string \<Rightarrow> db \<Rightarrow> db" where
  "record_transaction now u amount kind project ref description d =
     d\<lparr>credit_transactions := credit_transactions d @
        [\<lparr>ct_id = next_serial ct_id (credit_transactions d), ct_user = u, ct_amount = amount,
          ct_type = kind, ct_project = project, ct_ref = ref, ct_description = description,
          ct_created = now\<rparr>]\<rparr>"

definition transaction_recorded :: "string \<Rightarrow> db \<Rightarrow> bool" where
  "transaction_recorded key d \<longleftrightarrow>
     first_row (\<lambda>t. ct_ref t = Some key) (credit_transactions d) \<noteq> None"

definition is_owner :: "(string option \<Rightarrow> bool) \<Rightarrow> int \<Rightarrow> db \<Rightarrow> bool" where
  "is_owner isOwnerEmail u d =
     isOwnerEmail (Option.bind (first_row (\<lambda>x. u_id x = u) (users d)) u_email)"

definition plan_balance :: "int \<Rightarrow> int \<Rightarrow> (credit_error, int) result" where
  "plan_balance balance grant = (case balanceAfterMonthlyGrant balance grant of
     Inl _ \<Rightarrow> Inl InvalidCreditBalance | Inr n \<Rightarrow> Inr n)"

lemma plan_balance_eq [simp]:
  "plan_balance b g = Inr n \<longleftrightarrow> 0 \<le> b \<and> 0 \<le> g \<and> is_safe_integer (b + g) \<and> n = b + g"
  by (auto simp: plan_balance_def balanceAfterMonthlyGrant_def is_safe_integer_def)

section \<open>Provisioning\<close>

definition new_credits :: "int \<Rightarrow> int \<Rightarrow> bool \<Rightarrow> user_credits_row" where
  "new_credits now u owner = \<lparr>uc_user = u, uc_balance = 0, uc_tier = Some ''free'',
     uc_allowance = 0, uc_unlimited = owner, uc_lastRefill = Some now, uc_created = Some now\<rparr>"

definition ensureUserCredits ::
    "(string option \<Rightarrow> bool) \<Rightarrow> int \<Rightarrow> int \<Rightarrow> db \<Rightarrow> (credit_error, user_credits_row \<times> db) result" where
  "ensureUserCredits isOwnerEmail now u d =
    (let owner = is_owner isOwnerEmail u d in
     case getUserCredits u d of
       Some existing \<Rightarrow>
         if owner \<and> \<not> uc_unlimited existing
         then Inr (existing\<lparr>uc_unlimited := True\<rparr>,
                   set_credits u (\<lambda>c. c\<lparr>uc_unlimited := True\<rparr>) d)
         else Inr (existing, d)
     | None \<Rightarrow>
         if first_row (\<lambda>x. u_id x = u) (users d) = None then Inl CustomerRowMissing
         else Inr (new_credits now u owner,
                   d\<lparr>user_credits := user_credits d @ [new_credits now u owner]\<rparr>))"

text \<open>An operation that provisions the row first and then runs its own transaction.\<close>

definition with_credits ::
    "(string option \<Rightarrow> bool) \<Rightarrow> int \<Rightarrow> int \<Rightarrow> (db \<Rightarrow> (credit_error, 'a \<times> db) result) \<Rightarrow> db \<Rightarrow>
     (credit_error, 'a) result \<times> db" where
  "with_credits isOwnerEmail now u t d = (case ensureUserCredits isOwnerEmail now u d of
     Inl e \<Rightarrow> (Inl e, d) | Inr (_, d1) \<Rightarrow> transact t d1)"

section \<open>Projects paused for want of credits\<close>

definition credit_exhausted :: "int \<Rightarrow> project_row \<Rightarrow> bool" where
  "credit_exhausted u p \<longleftrightarrow> p_user p = u \<and> p_status p = ''paused'' \<and>
     p_pauseReason p = Some ''credits_exhausted''"

definition unpauseCreditExhaustedProjects :: "int \<Rightarrow> int \<Rightarrow> db \<Rightarrow> db" where
  "unpauseCreditExhaustedProjects now u d = d\<lparr>projects := update_where (credit_exhausted u)
     (\<lambda>p. p\<lparr>p_status := ''pending'', p_pauseReason := None, p_updatedAt := now\<rparr>) (projects d)\<rparr>"

definition updateProjectCreditsSpent :: "int \<Rightarrow> int \<Rightarrow> int \<Rightarrow> db \<Rightarrow> db" where
  "updateProjectCreditsSpent now project spent d = d\<lparr>projects := update_where
     (\<lambda>p. p_id p = project)
     (\<lambda>p. p\<lparr>p_creditsSpent := spent, p_creditsReserved := 0, p_updatedAt := now\<rparr>) (projects d)\<rparr>"

definition updateProjectCreditsReserved :: "int \<Rightarrow> int \<Rightarrow> int \<Rightarrow> db \<Rightarrow> db" where
  "updateProjectCreditsReserved now project reserved d = d\<lparr>projects := update_where
     (\<lambda>p. p_id p = project)
     (\<lambda>p. p\<lparr>p_creditsReserved := max 0 reserved, p_updatedAt := now\<rparr>) (projects d)\<rparr>"

definition pauseProject :: "int \<Rightarrow> int \<Rightarrow> string \<Rightarrow> db \<Rightarrow> db" where
  "pauseProject now project reason d = d\<lparr>projects := update_where (\<lambda>p. p_id p = project)
     (\<lambda>p. p\<lparr>p_status := ''paused'', p_pauseReason := Some reason, p_updatedAt := now\<rparr>)
     (projects d)\<rparr>"

definition resumeProject :: "int \<Rightarrow> int \<Rightarrow> db \<Rightarrow> db" where
  "resumeProject now project d = d\<lparr>projects := update_where (\<lambda>p. p_id p = project)
     (\<lambda>p. p\<lparr>p_status := ''running'', p_pauseReason := None, p_updatedAt := now\<rparr>) (projects d)\<rparr>"

section \<open>Subscriptions\<close>

definition getSubscriptionByUserId :: "int \<Rightarrow> db \<Rightarrow> subscription_row option" where
  "getSubscriptionByUserId u d = first_row (\<lambda>s. sub_user s = u) (subscriptions d)"

definition paying_status :: "string option \<Rightarrow> bool" where
  "paying_status status \<longleftrightarrow> status = Some ''active'' \<or> status = Some ''trialing''"

definition isUserPro :: "int \<Rightarrow> int \<Rightarrow> db \<Rightarrow> bool" where
  "isUserPro now u d = (case getSubscriptionByUserId u d of None \<Rightarrow> False
     | Some s \<Rightarrow>
        if \<not> paying_status (sub_status s) then False
        else if (case sub_periodEnd s of None \<Rightarrow> False | Some e \<Rightarrow> e < now) then False
        else if (case sub_trialEnd s of None \<Rightarrow> False | Some t \<Rightarrow> t < now) \<and>
                sub_status s = Some ''trialing'' then False
        else True)"

definition getUserTier :: "int \<Rightarrow> int \<Rightarrow> db \<Rightarrow> string" where
  "getUserTier now u d = (case getSubscriptionByUserId u d of None \<Rightarrow> ''free''
     | Some s \<Rightarrow>
        if paying_status (sub_status s) \<and>
           (case sub_periodEnd s of None \<Rightarrow> True | Some e \<Rightarrow> e \<ge> now) \<and>
           (sub_status s \<noteq> Some ''trialing'' \<or>
            (case sub_trialEnd s of None \<Rightarrow> True | Some t \<Rightarrow> t \<ge> now))
        then (case sub_tier s of None \<Rightarrow> ''starter'' | Some t \<Rightarrow> t)
        else ''free'')"

definition syncTierFromSubscription :: "int \<Rightarrow> db \<Rightarrow> db" where
  "syncTierFromSubscription u d =
    (case (Option.bind (getSubscriptionByUserId u d) sub_tier, getUserCredits u d) of
       (Some subTier, Some credits) \<Rightarrow>
         if subTier \<noteq> [] \<and> uc_tier credits \<noteq> Some subTier
         then set_credits u (\<lambda>c. c\<lparr>uc_tier := Some subTier\<rparr>) d else d
     | _ \<Rightarrow> d)"

section \<open>Operations on the balance\<close>

definition day_ms :: int where "day_ms = 1000 * 60 * 60 * 24"

definition refill_subscription :: "int \<Rightarrow> string option \<Rightarrow> subscription_row option \<Rightarrow> string option" where
  \<comment> \<open>the tier a refill is for, if the subscription is paid for now\<close>
  "refill_subscription now tier sub =
    (let effectiveTier = (case Option.bind sub sub_tier of None \<Rightarrow> ''free'' | Some t \<Rightarrow> t) in
     if (case tier of None \<Rightarrow> False | Some t \<Rightarrow> t \<noteq> [] \<and> t \<noteq> effectiveTier) then None
     else case sub of None \<Rightarrow> None
     | Some s \<Rightarrow>
        if \<not> paying_status (sub_status s) \<or>
           (case sub_periodEnd s of None \<Rightarrow> True | Some e \<Rightarrow> \<not> finite_time e \<or> e \<le> now) \<or>
           (sub_status s = Some ''trialing'' \<and>
            (case sub_trialEnd s of None \<Rightarrow> True | Some t \<Rightarrow> \<not> finite_time t \<or> t \<le> now))
        then None else Some effectiveTier)"

definition set_plan :: "int \<Rightarrow> string \<Rightarrow> int \<Rightarrow> user_credits_row \<Rightarrow> user_credits_row" where
  "set_plan now tier balance c = c\<lparr>uc_balance := balance, uc_tier := Some tier,
     uc_allowance := (case getTierBuildLimit tier of None \<Rightarrow> 0 | Some l \<Rightarrow> l),
     uc_lastRefill := Some now\<rparr>"

definition refill_transaction ::
    "int \<Rightarrow> int \<Rightarrow> string option \<Rightarrow> db \<Rightarrow> (credit_error, unit \<times> db) result" where
  "refill_transaction now u tier d = (case getUserCredits u d of None \<Rightarrow> Inr ((), d)
     | Some credits \<Rightarrow>
    (case refill_subscription now tier (getSubscriptionByUserId u d) of None \<Rightarrow> Inr ((), d)
     | Some effectiveTier \<Rightarrow>
    (case getTierCreditRefill effectiveTier of None \<Rightarrow> Inr ((), d)
     | Some refillAmount \<Rightarrow>
        let lastRefill = (case uc_lastRefill credits of Some t \<Rightarrow> t
              | None \<Rightarrow> (case uc_created credits of Some t \<Rightarrow> t | None \<Rightarrow> now))
        in if refillAmount \<le> 0 \<or> now - lastRefill < 30 * day_ms then Inr ((), d)
        else bind_result (plan_balance (uc_balance credits) refillAmount) (\<lambda>newBalance.
          commit_if credit_constraints CreditConstraint ()
            (record_transaction now u refillAmount ''subscription_grant'' None None
               (''Monthly credit refill for '' @ effectiveTier @ '' tier ('' @
                show_int refillAmount @ '' credits)'')
               (set_credits u (set_plan now effectiveTier newBalance) d))))))"

definition refillMonthlyCredits ::
    "(string option \<Rightarrow> bool) \<Rightarrow> int \<Rightarrow> int \<Rightarrow> string option \<Rightarrow> db \<Rightarrow> (credit_error, unit) result \<times> db" where
  "refillMonthlyCredits isOwnerEmail now u tier =
     with_credits isOwnerEmail now u (refill_transaction now u tier)"

definition or_default :: "string \<Rightarrow> string option \<Rightarrow> string" where
  "or_default s v = (case v of None \<Rightarrow> s | Some t \<Rightarrow> t)"

definition unlimited_account :: "user_credits_row \<Rightarrow> bool" where
  "unlimited_account c \<longleftrightarrow> uc_unlimited c \<or> uc_tier c = Some ''lifetime''"

definition deduct_transaction ::
    "int \<Rightarrow> int \<Rightarrow> int \<Rightarrow> int option \<Rightarrow> string option \<Rightarrow> db \<Rightarrow> (credit_error, int \<times> db) result" where
  "deduct_transaction now u amount project description d =
    (case getUserCredits u d of None \<Rightarrow> Inl (InsufficientCredits amount 0)
     | Some credits \<Rightarrow>
        if unlimited_account credits
        then commit_if credit_constraints CreditConstraint (uc_balance credits)
          (record_transaction now u 0 ''build_usage'' project None
             (or_default ''Build agent usage'' description @ '' (unlimited)'') d)
        else if uc_balance credits < amount
        then Inl (InsufficientCredits amount (uc_balance credits))
        else
          let newBalance = uc_balance credits - amount
          in commit_if credit_constraints CreditConstraint newBalance
            (record_transaction now u (- amount) ''build_usage'' project None
               (or_default ''Build agent usage'' description)
               (set_credits u (\<lambda>c. c\<lparr>uc_balance := newBalance\<rparr>) d)))"

definition deductCredits ::
    "(string option \<Rightarrow> bool) \<Rightarrow> int \<Rightarrow> int \<Rightarrow> int \<Rightarrow> int option \<Rightarrow> string option \<Rightarrow> db \<Rightarrow>
     (credit_error, int) result \<times> db" where
  "deductCredits isOwnerEmail now u amount project description d =
     (if amount \<le> 0 then (Inl InvalidDeduction, d)
      else with_credits isOwnerEmail now u (deduct_transaction now u amount project description) d)"

definition set_balance :: "int \<Rightarrow> user_credits_row \<Rightarrow> user_credits_row" where
  "set_balance n c = c\<lparr>uc_balance := n\<rparr>"

definition usable_key :: "string option \<Rightarrow> string option" where
  "usable_key key = (case key of None \<Rightarrow> None | Some k \<Rightarrow> if k = [] then None else Some k)"

definition already_recorded :: "string option \<Rightarrow> db \<Rightarrow> bool" where
  "already_recorded key d = (case usable_key key of None \<Rightarrow> False | Some k \<Rightarrow> transaction_recorded k d)"

definition add_transaction ::
    "int \<Rightarrow> int \<Rightarrow> int \<Rightarrow> string \<Rightarrow> string option \<Rightarrow> string option \<Rightarrow> db \<Rightarrow>
     (credit_error, (int \<times> bool) \<times> db) result" where
  "add_transaction now u amount kind description key d =
    (if already_recorded key d
     then Inr ((case getUserCredits u d of None \<Rightarrow> 0 | Some c \<Rightarrow> uc_balance c, True), d)
     else case getUserCredits u d of None \<Rightarrow> Inl CreditsRowMissing
     | Some credits \<Rightarrow>
        bind_result (plan_balance (uc_balance credits) amount) (\<lambda>newBalance.
          commit_if credit_constraints CreditConstraint (newBalance, False)
            (record_transaction now u amount kind None key
               (or_default ''Credit purchase'' description)
               (set_credits u (set_balance newBalance) d))))"

definition addCredits ::
    "(string option \<Rightarrow> bool) \<Rightarrow> int \<Rightarrow> int \<Rightarrow> int \<Rightarrow> string \<Rightarrow> string option \<Rightarrow> string option \<Rightarrow> db \<Rightarrow>
     (credit_error, int) result \<times> db" where
  "addCredits isOwnerEmail now u amount kind description key d =
     (if amount \<le> 0 then (Inl InvalidGrantAmount, d)
      else case with_credits isOwnerEmail now u
             (add_transaction now u amount kind description key) d of
        (Inl e, d1) \<Rightarrow> (Inl e, d1)
      | (Inr (balance, skipped), d1) \<Rightarrow>
          (Inr balance, if skipped then d1 else unpauseCreditExhaustedProjects now u d1))"

definition latest_grant :: "int \<Rightarrow> db \<Rightarrow> int option" where
  "latest_grant u d =
    (case map ct_created (rows_where (\<lambda>t. ct_user t = u \<and> ct_type t = ''subscription_grant'')
        (credit_transactions d)) of [] \<Rightarrow> None | t # ts \<Rightarrow> Some (fold max ts t))"

definition granted_recently :: "int \<Rightarrow> int \<Rightarrow> string \<Rightarrow> user_credits_row \<Rightarrow> db \<Rightarrow> bool" where
  "granted_recently now u tier credits d = (case latest_grant u d of None \<Rightarrow> False
     | Some created \<Rightarrow> or_default ''free'' (uc_tier credits) = tier \<and> tier \<noteq> ''free'' \<and>
         now - created < 25 * day_ms)"

definition plan_transaction ::
    "int \<Rightarrow> int \<Rightarrow> string \<Rightarrow> string option \<Rightarrow> db \<Rightarrow> (credit_error, (int \<times> bool) \<times> db) result" where
  "plan_transaction now u tier key d =
    (if already_recorded key d then Inr ((0, True), d)
     else case getUserCredits u d of None \<Rightarrow> Inr ((0, True), d)
     | Some credits \<Rightarrow>
        (case getTierCreditRefill tier of
           None \<Rightarrow> commit_if credit_constraints CreditConstraint (0, False)
             (set_credits u (set_plan now tier (uc_balance credits)) d)
         | Some refillAmount \<Rightarrow>
             if granted_recently now u tier credits d then Inr ((0, True), d)
             else bind_result (plan_balance (uc_balance credits) refillAmount) (\<lambda>newBalance.
               commit_if credit_constraints CreditConstraint (refillAmount, False)
                 (record_transaction now u refillAmount ''subscription_grant'' None key
                    (''Plan credits for '' @ tier @ '' ('' @ show_int refillAmount @ '' credits)'')
                    (set_credits u (set_plan now tier newBalance) d)))))"

definition grantPlanCredits ::
    "(string option \<Rightarrow> bool) \<Rightarrow> int \<Rightarrow> int \<Rightarrow> string \<Rightarrow> string option \<Rightarrow> db \<Rightarrow>
     (credit_error, int \<times> bool) result \<times> db" where
  "grantPlanCredits isOwnerEmail now u tier key d =
    (case with_credits isOwnerEmail now u (plan_transaction now u tier key) d of
       (Inl e, d1) \<Rightarrow> (Inl e, d1)
     | (Inr (granted, skipped), d1) \<Rightarrow>
         (Inr (granted, skipped),
          if \<not> skipped \<and> granted > 0 then unpauseCreditExhaustedProjects now u d1 else d1))"

datatype code_grant = LifetimeGrant | LimitedGrant

definition code_transaction ::
    "(string option \<Rightarrow> bool) \<Rightarrow> int \<Rightarrow> int \<Rightarrow> code_grant \<Rightarrow> int \<Rightarrow> db \<Rightarrow>
     (credit_error, (int \<times> bool) \<times> db) result" where
  "code_transaction isOwnerEmail now u grantType credits d =
    (case getUserCredits u d of None \<Rightarrow> Inl CreditBalanceNotFound
     | Some row \<Rightarrow>
        (case grantType of
           LifetimeGrant \<Rightarrow>
             if \<not> is_owner isOwnerEmail u d then Inl OwnerOnly
             else commit_if credit_constraints CreditConstraint (uc_balance row, True)
               (if \<not> uc_unlimited row \<or> uc_tier row \<noteq> Some ''lifetime''
                then record_transaction now u 0 ''god_code_grant'' None None
                  ''Lifetime unlimited credits (god code)''
                  (set_credits u (\<lambda>c. c\<lparr>uc_unlimited := True, uc_tier := Some ''lifetime''\<rparr>) d)
                else d)
         | LimitedGrant \<Rightarrow>
             bind_result (plan_balance (uc_balance row) credits) (\<lambda>newBalance.
               commit_if credit_constraints CreditConstraint (newBalance, uc_unlimited row)
                 (if credits > 0
                  then record_transaction now u credits ''god_code_grant'' None None
                    (''God code grant (+'' @ show_int credits @ '' credits)'')
                    (set_credits u (set_balance newBalance) d)
                  else d))))"

definition applyGodCodeGrant ::
    "(string option \<Rightarrow> bool) \<Rightarrow> int \<Rightarrow> int \<Rightarrow> code_grant \<Rightarrow> int \<Rightarrow> db \<Rightarrow>
     (credit_error, int \<times> bool) result \<times> db" where
  "applyGodCodeGrant isOwnerEmail now u grantType credits d =
    (if \<not> is_safe_integer u \<or> u \<le> 0 \<or> \<not> is_safe_integer credits \<or> credits < 0
     then (Inl InvalidCreditGrant, d)
     else case with_credits isOwnerEmail now u
            (code_transaction isOwnerEmail now u grantType credits) d of
       (Inl e, d1) \<Rightarrow> (Inl e, d1)
     | (Inr r, d1) \<Rightarrow> (Inr r, unpauseCreditExhaustedProjects now u d1))"

section \<open>The credit books\<close>

definition credit_total :: "int \<Rightarrow> db \<Rightarrow> int" where
  "credit_total u d = sum_where (\<lambda>t. ct_user t = u) ct_amount (credit_transactions d)"

text \<open>
  Consistent credit tables: the constraints hold, every balance is the sum of the customer's
  transactions, and only customers with a balance row have transactions.
\<close>

definition credits_ok :: "db \<Rightarrow> bool" where
  "credits_ok d \<longleftrightarrow> credit_constraints d \<and>
     (\<forall>c \<in> set (user_credits d). uc_balance c = credit_total (uc_user c) d) \<and>
     (\<forall>t \<in> set (credit_transactions d). ct_user t \<in> uc_user ` set (user_credits d))"

definition same_credit_tables :: "db \<Rightarrow> db \<Rightarrow> bool" where
  "same_credit_tables d d' \<longleftrightarrow>
     user_credits d' = user_credits d \<and> credit_transactions d' = credit_transactions d"

lemma same_credit_tables_ok: "same_credit_tables d d' \<Longrightarrow> credits_ok d' = credits_ok d"
  by (simp add: same_credit_tables_def credits_ok_def credit_constraints_def credit_total_def)

lemma getUserCredits_Some:
  "getUserCredits u d = Some c \<Longrightarrow> c \<in> set (user_credits d) \<and> uc_user c = u"
  unfolding getUserCredits_def own_credits_def by (rule first_row_Some)

lemma getUserCredits_unique:
  assumes "credit_constraints d" "getUserCredits u d = Some c"
    "x \<in> set (user_credits d)" "own_credits u x"
  shows "x = c"
  using assms getUserCredits_Some [OF assms(2)] distinct_key_eq [of uc_user "user_credits d" x c]
  by (simp add: credit_constraints_def own_credits_def)

lemma getUserCredits_set_credits:
  "(\<And>c. own_credits u c \<Longrightarrow> uc_user (f c) = uc_user c) \<Longrightarrow>
   getUserCredits v (set_credits u f d) =
     map_option (\<lambda>c. if own_credits u c then f c else c) (getUserCredits v d)"
  unfolding getUserCredits_def set_credits_def
  by (simp, subst first_row_update_where) (auto simp: own_credits_def)

lemma set_credits_users:
  assumes "\<And>x. x \<in> set (user_credits d) \<Longrightarrow> own_credits u x \<Longrightarrow> uc_user (f x) = uc_user x"
  shows "map uc_user (user_credits (set_credits u f d)) = map uc_user (user_credits d)"
    and "uc_user ` set (user_credits (set_credits u f d)) = uc_user ` set (user_credits d)"
proof -
  show m: "map uc_user (user_credits (set_credits u f d)) = map uc_user (user_credits d)"
    using assms by (simp add: set_credits_def update_where_def)
  then show "uc_user ` set (user_credits (set_credits u f d)) = uc_user ` set (user_credits d)"
    by (metis list.set_map)
qed

lemma getUserCredits_record [simp]:
  "getUserCredits v (record_transaction now u a k p r s d) = getUserCredits v d"
  by (simp add: getUserCredits_def record_transaction_def)

lemma credit_total_record:
  "credit_total v (record_transaction now u a k p r s d) = credit_total v d + (if v = u then a else 0)"
  by (simp add: credit_total_def record_transaction_def table_simps)

lemma credit_total_set_credits [simp]: "credit_total v (set_credits u f d) = credit_total v d"
  by (simp add: credit_total_def set_credits_def)

lemma user_credits_record [simp]:
  "user_credits (record_transaction now u a k p r s d) = user_credits d"
  by (simp add: record_transaction_def)

lemma credit_transactions_set_credits [simp]:
  "credit_transactions (set_credits u f d) = credit_transactions d"
  by (simp add: set_credits_def)

text \<open>
  Changing a customer's balance by an amount and recording that amount keeps the books. This is
  the one argument behind every operation.
\<close>

lemma posting_keeps_credits_ok:
  assumes ok: "credits_ok d" and c: "getUserCredits u d = Some c"
    and f: "uc_user (f c) = u" "uc_balance (f c) = uc_balance c + a"
    and con: "credit_constraints (record_transaction now u a k p r s (set_credits u f d))"
  shows "credits_ok (record_transaction now u a k p r s (set_credits u f d))" (is "credits_ok ?d")
proof -
  have uniq: "x = c" if "x \<in> set (user_credits d)" "own_credits u x" for x
    using getUserCredits_unique [OF _ c that] ok by (simp add: credits_ok_def)
  have rows: "\<exists>y \<in> set (user_credits d). uc_user x = uc_user y \<and>
      uc_balance x = uc_balance y + (if uc_user y = u then a else 0)"
    if "x \<in> set (user_credits ?d)" for x
    using that uniq f by (auto simp: set_credits_def table_simps own_credits_def)
  have users: "uc_user ` set (user_credits ?d) = uc_user ` set (user_credits d)"
    unfolding user_credits_record
    by (rule set_credits_users) (use uniq f(1) getUserCredits_Some [OF c] in auto)
  have "uc_balance x = credit_total (uc_user x) ?d" if "x \<in> set (user_credits ?d)" for x
  proof -
    from rows [OF that] obtain y where y: "y \<in> set (user_credits d)" "uc_user x = uc_user y"
      "uc_balance x = uc_balance y + (if uc_user y = u then a else 0)" by blast
    with ok have "uc_balance y = credit_total (uc_user y) d" by (simp add: credits_ok_def)
    with y show ?thesis by (simp add: credit_total_record)
  qed
  moreover have "ct_user t \<in> uc_user ` set (user_credits ?d)"
    if "t \<in> set (credit_transactions ?d)" for t
    using that ok getUserCredits_Some [OF c] unfolding users
    by (auto simp: credits_ok_def record_transaction_def)
  ultimately show ?thesis using con by (simp add: credits_ok_def)
qed

lemma set_credits_id: "set_credits u (\<lambda>c. c) d = d"
  by (simp add: set_credits_def update_where_def)

lemma recording_keeps_credits_ok:
  assumes "credits_ok d" "getUserCredits u d = Some c"
    "credit_constraints (record_transaction now u 0 k p r s d)"
  shows "credits_ok (record_transaction now u 0 k p r s d)"
  using posting_keeps_credits_ok [of d u c "\<lambda>c. c" 0 now k p r s] assms getUserCredits_Some [OF assms(2)]
  by (simp add: set_credits_id)

text \<open>Changes of a row that keep its balance.\<close>

lemma retier_keeps_credits_ok:
  assumes ok: "credits_ok d" and f: "\<And>c. getUserCredits u d = Some c \<Longrightarrow> uc_user (f c) = uc_user c"
    "\<And>c. getUserCredits u d = Some c \<Longrightarrow> uc_balance (f c) = uc_balance c"
  shows "credits_ok (set_credits u f d)"
proof (cases "getUserCredits u d")
  case None
  then have "set_credits u f d = d"
    by (auto simp: getUserCredits_def set_credits_def first_row_None update_where_idle)
  with ok show ?thesis by simp
next
  case (Some c)
  note con = ok [unfolded credits_ok_def, THEN conjunct1]
  have f': "uc_user (f x) = uc_user x" "uc_balance (f x) = uc_balance x"
    if "x \<in> set (user_credits d)" "own_credits u x" for x
    using getUserCredits_unique [OF con Some that] f [OF Some] by simp_all
  note m = set_credits_users [of d u f, OF f'(1)]
  have "list_all user_credits_check (user_credits (set_credits u f d))"
    using con f' by (auto simp: credit_constraints_def list_all_iff set_credits_def set_update_where
        user_credits_check_def)
  moreover have "uc_balance x = credit_total (uc_user x) d"
    if "x \<in> set (user_credits (set_credits u f d))" for x
    using that ok f' by (auto simp: set_credits_def set_update_where credits_ok_def)
  ultimately show ?thesis
    using ok con m by (simp add: credits_ok_def credit_constraints_def)
qed

lemma ensureUserCredits_cases:
  assumes "ensureUserCredits own now u d = Inr (c, d1)"
  obtains (existing) "getUserCredits u d = Some c" "d1 = d" "is_owner own u d \<Longrightarrow> uc_unlimited c"
  | (upgraded) c0 where "getUserCredits u d = Some c0" "c = c0\<lparr>uc_unlimited := True\<rparr>"
      "d1 = set_credits u (\<lambda>c. c\<lparr>uc_unlimited := True\<rparr>) d"
  | (created) "getUserCredits u d = None" "c = new_credits now u (is_owner own u d)"
      "d1 = d\<lparr>user_credits := user_credits d @ [c]\<rparr>"
  using assms by (auto simp: ensureUserCredits_def Let_def split: option.splits if_splits)

lemma ensure_keeps_credits_ok:
  assumes ok: "credits_ok d" and run: "ensureUserCredits own now u d = Inr (c, d1)"
  shows "credits_ok d1"
  using run
proof (cases rule: ensureUserCredits_cases)
  case existing
  with ok show ?thesis by simp
next
  case (upgraded c0)
  with ok show ?thesis by (auto intro: retier_keeps_credits_ok)
next
  case created
  then have none: "u \<notin> uc_user ` set (user_credits d)"
    by (auto simp: getUserCredits_def own_credits_def first_row_None)
  with ok have "credit_total u d = 0"
    unfolding credit_total_def by (intro sum_where_zero) (auto simp: credits_ok_def)
  moreover have "credit_total v d1 = credit_total v d" for v
    by (simp add: created(3) credit_total_def)
  ultimately show ?thesis
    using ok none
    by (auto simp: credits_ok_def credit_constraints_def created(2,3) new_credits_def
        user_credits_check_def int4_def)
qed

lemma ensure_provides:
  assumes "ensureUserCredits own now u d = Inr (c, d1)"
  shows "getUserCredits u d1 = Some c"
  using assms
proof (cases rule: ensureUserCredits_cases)
  case (upgraded c0)
  then show ?thesis using getUserCredits_Some [of u d c0]
    by (simp add: getUserCredits_set_credits own_credits_def)
next
  case created
  then show ?thesis by (simp add: getUserCredits_def table_simps own_credits_def new_credits_def)
qed simp

section \<open>Every operation keeps the books\<close>

lemma refill_keeps_credits_ok:
  assumes "credits_ok d" "refill_transaction now u tier d = Inr (r, d')"
  shows "credits_ok d'"
  using assms getUserCredits_Some [of u d]
  by (auto simp: refill_transaction_def Let_def set_plan_def split: option.splits if_splits
      intro!: posting_keeps_credits_ok)

lemma deduct_keeps_credits_ok:
  assumes "credits_ok d" "deduct_transaction now u amount project description d = Inr (r, d')"
  shows "credits_ok d'"
  using assms getUserCredits_Some [of u d]
  by (auto simp: deduct_transaction_def Let_def split: option.splits if_splits
      intro!: posting_keeps_credits_ok intro: recording_keeps_credits_ok)

lemma add_keeps_credits_ok:
  assumes "credits_ok d" "add_transaction now u amount kind description key d = Inr (r, d')"
  shows "credits_ok d'"
  using assms getUserCredits_Some [of u d]
  by (auto simp: add_transaction_def Let_def set_balance_def split: option.splits if_splits
      intro!: posting_keeps_credits_ok)

lemma plan_keeps_credits_ok:
  assumes "credits_ok d" "plan_transaction now u tier key d = Inr (r, d')"
  shows "credits_ok d'"
  using assms getUserCredits_Some [of u d]
  by (auto simp: plan_transaction_def Let_def set_plan_def split: option.splits if_splits
      intro!: posting_keeps_credits_ok retier_keeps_credits_ok)

lemma code_keeps_credits_ok:
  assumes ok: "credits_ok d" and run: "code_transaction own now u kind credits d = Inr (r, d')"
  shows "credits_ok d'"
proof -
  from run obtain c where c: "getUserCredits u d = Some c"
    by (cases "getUserCredits u d") (auto simp: code_transaction_def)
  note c' = getUserCredits_Some [OF c]
  show ?thesis
  proof (cases kind)
    case LifetimeGrant
    with run c ok c' posting_keeps_credits_ok [OF ok c, of "\<lambda>c. c\<lparr>uc_unlimited := True, uc_tier := Some ''lifetime''\<rparr>"
        0 now "''god_code_grant''" None None "''Lifetime unlimited credits (god code)''"]
    show ?thesis by (auto simp: code_transaction_def split: if_split_asm)
  next
    case LimitedGrant
    with run c ok c' show ?thesis
      by (auto simp: code_transaction_def set_balance_def split: if_split_asm
          intro: posting_keeps_credits_ok)
  qed
qed

lemma with_credits_keeps_credits_ok:
  assumes ok: "credits_ok d" and run: "with_credits own now u t d = (r, d')"
    and t: "\<And>d1 a d2. credits_ok d1 \<Longrightarrow> t d1 = Inr (a, d2) \<Longrightarrow> credits_ok d2"
  shows "credits_ok d'"
proof (cases "ensureUserCredits own now u d")
  case (Inl e)
  with run ok show ?thesis by (simp add: with_credits_def)
next
  case (Inr p)
  obtain c d1 where p: "p = (c, d1)" by (cases p)
  with Inr ok have ok1: "credits_ok d1" by (auto intro: ensure_keeps_credits_ok)
  from run Inr p have run1: "transact t d1 = (r, d')" by (simp add: with_credits_def)
  show ?thesis
  proof (cases r)
    case (Inl e)
    with run1 ok1 show ?thesis by (simp add: transact_eq)
  next
    case (Inr a)
    with run1 ok1 t show ?thesis by (auto simp: transact_eq)
  qed
qed

lemma unpause_same [simp]:
  "user_credits (unpauseCreditExhaustedProjects now u d) = user_credits d"
  "credit_transactions (unpauseCreditExhaustedProjects now u d) = credit_transactions d"
  by (simp_all add: unpauseCreditExhaustedProjects_def)

lemma unpause_credits_ok [simp]:
  "credits_ok (unpauseCreditExhaustedProjects now u d) = credits_ok d"
  by (rule same_credit_tables_ok) (simp add: same_credit_tables_def)

lemma operations_keep_credits_ok:
  assumes ok: "credits_ok d"
  shows "refillMonthlyCredits own now u tier d = (r1, d') \<Longrightarrow> credits_ok d'"
    and "deductCredits own now u amount project description d = (r2, d') \<Longrightarrow> credits_ok d'"
    and "addCredits own now u amount kind description key d = (r2, d') \<Longrightarrow> credits_ok d'"
    and "grantPlanCredits own now u plan key d = (r3, d') \<Longrightarrow> credits_ok d'"
    and "applyGodCodeGrant own now u grant amount d = (r3, d') \<Longrightarrow> credits_ok d'"
    and "credits_ok (syncTierFromSubscription u d)"
proof -
  note wc = with_credits_keeps_credits_ok [OF ok]
  show "refillMonthlyCredits own now u tier d = (r1, d') \<Longrightarrow> credits_ok d'"
    unfolding refillMonthlyCredits_def by (erule wc) (rule refill_keeps_credits_ok)
  show "deductCredits own now u amount project description d = (r2, d') \<Longrightarrow> credits_ok d'"
    using ok by (auto simp: deductCredits_def split: if_splits elim: wc intro: deduct_keeps_credits_ok)
  show "addCredits own now u amount kind description key d = (r2, d') \<Longrightarrow> credits_ok d'"
    using ok by (auto simp: addCredits_def split: if_splits prod.splits sum.splits
        elim!: wc intro: add_keeps_credits_ok)
  show "grantPlanCredits own now u plan key d = (r3, d') \<Longrightarrow> credits_ok d'"
    by (auto simp: grantPlanCredits_def split: if_splits prod.splits sum.splits
        elim!: wc intro: plan_keeps_credits_ok)
  show "applyGodCodeGrant own now u grant amount d = (r3, d') \<Longrightarrow> credits_ok d'"
    using ok by (auto simp: applyGodCodeGrant_def split: if_splits prod.splits sum.splits
        elim!: wc intro: code_keeps_credits_ok)
  show "credits_ok (syncTierFromSubscription u d)"
    using ok by (auto simp: syncTierFromSubscription_def split: option.splits
        intro!: retier_keeps_credits_ok)
qed

section \<open>Contracts\<close>

definition credit_balance :: "int \<Rightarrow> db \<Rightarrow> int" where
  "credit_balance u d = (case getUserCredits u d of None \<Rightarrow> 0 | Some c \<Rightarrow> uc_balance c)"

lemma posting_constraints:
  assumes con: "credit_constraints d" and c: "getUserCredits u d = Some c"
    and f: "uc_user (f c) = u" "user_credits_check (f c)"
    and ref: "case r of None \<Rightarrow> True | Some key \<Rightarrow> \<not> transaction_recorded key d"
  shows "credit_constraints (record_transaction now u a k p r s (set_credits u f d))"
proof -
  have uniq: "x = c" if "x \<in> set (user_credits d)" "own_credits u x" for x
    using getUserCredits_unique [OF con c that] .
  have "map uc_user (user_credits (set_credits u f d)) = map uc_user (user_credits d)"
    by (rule set_credits_users) (use uniq f(1) getUserCredits_Some [OF c] in auto)
  with con have "distinct (map uc_user (user_credits (set_credits u f d)))"
    by (simp add: credit_constraints_def)
  moreover have "list_all user_credits_check (user_credits (set_credits u f d))"
    using con uniq f(2) by (auto simp: credit_constraints_def list_all_iff set_credits_def set_update_where)
  moreover have "distinct (present ct_ref (credit_transactions (record_transaction now u a k p r s d)))"
    using con ref by (auto simp: credit_constraints_def record_transaction_def table_simps
        transaction_recorded_def first_row_None split: option.splits)
  ultimately show ?thesis
    by (simp add: credit_constraints_def) (simp add: record_transaction_def set_credits_def)
qed

lemma ensure_existing:
  "getUserCredits u d = Some c \<Longrightarrow> (is_owner own u d \<longrightarrow> uc_unlimited c) \<Longrightarrow>
   ensureUserCredits own now u d = Inr (c, d)"
  by (auto simp: ensureUserCredits_def Let_def)

lemma credit_balance_other:
  assumes "\<And>c. own_credits u c \<Longrightarrow> uc_user (f c) = uc_user c" "v \<noteq> u"
  shows "getUserCredits v (set_credits u f d) = getUserCredits v d"
proof -
  have "getUserCredits v (set_credits u f d) =
      map_option (\<lambda>c. if own_credits u c then f c else c) (getUserCredits v d)"
    using assms(1) by (rule getUserCredits_set_credits)
  with assms(2) getUserCredits_Some [of v d] show ?thesis
    by (cases "getUserCredits v d") (auto simp: own_credits_def)
qed

lemma credit_balance_own:
  assumes "\<And>c. own_credits u c \<Longrightarrow> uc_user (f c) = uc_user c" "getUserCredits u d = Some c"
  shows "getUserCredits u (set_credits u f d) = Some (f c)"
  using getUserCredits_set_credits [of u f u d] assms getUserCredits_Some [OF assms(2)]
  by (simp add: own_credits_def)

lemma none_exhausted:
  "\<forall>p \<in> set (projects (unpauseCreditExhaustedProjects now u d)). \<not> credit_exhausted u p"
  unfolding unpauseCreditExhaustedProjects_def
  by (simp, intro ballI, erule update_where_clears [rotated]) (simp add: credit_exhausted_def)

lemma credit_balance_record [simp]:
  "credit_balance v (record_transaction now u a k p r s d) = credit_balance v d"
  "credit_balance v (unpauseCreditExhaustedProjects now u d) = credit_balance v d"
  by (simp_all add: credit_balance_def getUserCredits_def)

text \<open>
  A deduction never overdraws: a customer who is not unlimited and has enough credits is
  charged exactly the amount, with one transaction recorded and nobody else's balance touched;
  with too few credits the deduction is refused and nothing changes. The database's own
  non-negativity check is never what stops it.
\<close>

theorem deduct_never_overdraws:
  assumes "credits_ok d" "getUserCredits u d = Some c" "\<not> unlimited_account c"
    "\<not> is_owner own u d" "0 < amount"
  shows "if amount \<le> uc_balance c
    then \<exists>d'. deductCredits own now u amount project description d = (Inr (uc_balance c - amount), d') \<and>
      credit_balance u d' = credit_balance u d - amount \<and>
      (\<forall>v. v \<noteq> u \<longrightarrow> credit_balance v d' = credit_balance v d) \<and>
      length (credit_transactions d') = Suc (length (credit_transactions d)) \<and> credits_ok d'
    else deductCredits own now u amount project description d =
      (Inl (InsufficientCredits amount (uc_balance c)), d)"
proof -
  let ?f = "\<lambda>x. x\<lparr>uc_balance := uc_balance c - amount\<rparr>"
  let ?d = "record_transaction now u (- amount) ''build_usage'' project None
     (or_default ''Build agent usage'' description) (set_credits u ?f d)"
  note ens = ensure_existing [OF assms(2), of own now]
  have "credit_constraints d" "user_credits_check c"
    using assms(1) getUserCredits_Some [OF assms(2)]
    by (auto simp: credits_ok_def credit_constraints_def list_all_iff)
  show ?thesis
  proof (cases "amount \<le> uc_balance c")
    case False
    with ens assms show ?thesis
      by (simp add: deductCredits_def with_credits_def transact_def deduct_transaction_def)
  next
    case True
    have con: "credit_constraints ?d"
      by (rule posting_constraints)
        (use True assms(2,5) \<open>credit_constraints d\<close> \<open>user_credits_check c\<close> getUserCredits_Some [OF assms(2)] in
          \<open>auto simp: user_credits_check_def int4_def\<close>)
    with ens assms True have run: "deductCredits own now u amount project description d =
        (Inr (uc_balance c - amount), ?d)"
      by (simp add: deductCredits_def with_credits_def transact_def deduct_transaction_def commit_if_def Let_def)
    have "credits_ok ?d" using operations_keep_credits_ok(2) [OF assms(1) run] .
    moreover have "credit_balance u ?d = credit_balance u d - amount"
      using credit_balance_own [of u ?f d c] assms(2) by (simp add: credit_balance_def)
    moreover have "credit_balance v ?d = credit_balance v d" if "v \<noteq> u" for v
      using credit_balance_other [of u ?f v d] that by (simp add: credit_balance_def)
    moreover have "length (credit_transactions ?d) = Suc (length (credit_transactions d))"
      by (simp add: record_transaction_def set_credits_def)
    ultimately show ?thesis using True run by auto
  qed
qed

lemma ensure_same_balance:
  assumes "ensureUserCredits own now u d = Inr (c, d1)"
  shows "credit_balance v d1 = credit_balance v d"
  using assms
proof (cases rule: ensureUserCredits_cases)
  case (upgraded c0)
  then show ?thesis
    using credit_balance_own [of u "\<lambda>c. c\<lparr>uc_unlimited := True\<rparr>" d c0]
      credit_balance_other [of u "\<lambda>c. c\<lparr>uc_unlimited := True\<rparr>" v d]
    by (cases "v = u") (simp_all add: credit_balance_def)
next
  case created
  then show ?thesis
    by (auto simp: credit_balance_def getUserCredits_def table_simps new_credits_def own_credits_def
        split: option.splits)
qed simp

lemma ensure_same_tables:
  assumes "ensureUserCredits own now u d = Inr (c, d1)"
  shows "credit_transactions d1 = credit_transactions d" "app_settings d1 = app_settings d"
    "transaction_recorded k d1 = transaction_recorded k d"
  using assms by (cases rule: ensureUserCredits_cases; simp add: set_credits_def transaction_recorded_def)+

section \<open>Purchases are credited once\<close>

definition provisioned :: "(string option \<Rightarrow> bool) \<Rightarrow> int \<Rightarrow> db \<Rightarrow> bool" where
  "provisioned own u d \<longleftrightarrow> (case getUserCredits u d of None \<Rightarrow> False
     | Some c \<Rightarrow> is_owner own u d \<longrightarrow> uc_unlimited c)"

lemma ensure_provisioned:
  "provisioned own u d \<Longrightarrow> \<exists>c. getUserCredits u d = Some c \<and> ensureUserCredits own now u d = Inr (c, d)"
  by (auto simp: provisioned_def ensureUserCredits_def Let_def split: option.splits)

lemma ensure_makes_provisioned:
  assumes "ensureUserCredits own now u d = Inr (c, d1)"
  shows "provisioned own u d1" and "is_owner own v d1 = is_owner own v d"
proof -
  from assms show own: "is_owner own v d1 = is_owner own v d" for v
    by (cases rule: ensureUserCredits_cases) (auto simp: is_owner_def set_credits_def)
  from assms have "is_owner own u d \<longrightarrow> uc_unlimited c"
    by (cases rule: ensureUserCredits_cases) (auto simp: new_credits_def)
  with own ensure_provides [OF assms] show "provisioned own u d1" by (simp add: provisioned_def)
qed

lemma transaction_recorded_record [simp]:
  "transaction_recorded k (record_transaction now u a t p r s d) \<longleftrightarrow> r = Some k \<or> transaction_recorded k d"
  by (auto simp: transaction_recorded_def record_transaction_def first_row_None)

lemma transaction_recorded_frame [simp]:
  "transaction_recorded k (set_credits u f d) = transaction_recorded k d"
  "transaction_recorded k (unpauseCreditExhaustedProjects now u d) = transaction_recorded k d"
  by (simp_all add: transaction_recorded_def)

lemma is_owner_frame [simp]:
  "is_owner own v (set_credits u f d) = is_owner own v d"
  "is_owner own v (record_transaction now u a t p r s d) = is_owner own v d"
  "is_owner own v (unpauseCreditExhaustedProjects now u d) = is_owner own v d"
  by (simp_all add: is_owner_def set_credits_def record_transaction_def unpauseCreditExhaustedProjects_def)

lemma getUserCredits_unpause [simp]:
  "getUserCredits v (unpauseCreditExhaustedProjects now u d) = getUserCredits v d"
  by (simp add: getUserCredits_def)

lemma addCredits_cases:
  assumes "addCredits own now u amount kind description key d = (Inr b, d')"
  obtains c d1 where "ensureUserCredits own now u d = Inr (c, d1)" "0 < amount"
    "already_recorded key d1" "d' = d1" "b = uc_balance c"
  | c d1 where "ensureUserCredits own now u d = Inr (c, d1)" "0 < amount"
    "\<not> already_recorded key d1" "getUserCredits u d1 = Some c" "b = uc_balance c + amount"
    "d' = unpauseCreditExhaustedProjects now u (record_transaction now u amount kind None key
        (or_default ''Credit purchase'' description) (set_credits u (set_balance b) d1))"
proof -
  from assms obtain c d1 where e: "ensureUserCredits own now u d = Inr (c, d1)" "0 < amount"
    by (auto simp: addCredits_def with_credits_def split: if_splits sum.splits)
  note p = ensure_provides [OF e(1)]
  show thesis
  proof (cases "already_recorded key d1")
    case True
    with assms e p show thesis
      by (intro that(1) [of c d1])
        (auto simp: addCredits_def with_credits_def transact_def add_transaction_def)
  next
    case False
    with assms e p show thesis
      by (intro that(2) [of c d1])
        (auto simp: addCredits_def with_credits_def transact_def add_transaction_def commit_if_def
          split: sum.splits prod.splits if_splits)
  qed
qed

lemma getUserCredits_record_set:
  assumes "getUserCredits u d = Some c" "\<And>c. own_credits u c \<Longrightarrow> uc_user (f c) = uc_user c"
  shows "getUserCredits u (record_transaction now u a k p r s (set_credits u f d)) = Some (f c)"
  using credit_balance_own [of u f d c] assms by simp

lemma addCredits_recorded:
  assumes run: "addCredits own now u amount kind description key d = (Inr b, d')" and key: "usable_key key = Some k"
  shows "transaction_recorded k d'" "provisioned own u d'" "credit_balance u d' = b"
proof -
  have "transaction_recorded k d' \<and> provisioned own u d' \<and> credit_balance u d' = b"
    using run
  proof (cases rule: addCredits_cases)
    case (1 c d1)
    with key ensure_makes_provisioned(1) [OF 1(1)] ensure_provides [OF 1(1)] show ?thesis
      by (simp add: already_recorded_def credit_balance_def)
  next
    case (2 c d1)
    from key have "key = Some k" by (auto simp: usable_key_def split: option.splits if_splits)
    with 2 ensure_makes_provisioned(1) [OF 2(1)] getUserCredits_Some [OF 2(4)]
      credit_balance_own [of u "set_balance b" d1 c] show ?thesis
      by (auto simp: provisioned_def credit_balance_def set_balance_def)
  qed
  then show "transaction_recorded k d'" "provisioned own u d'" "credit_balance u d' = b" by simp_all
qed

lemma addCredits_replay:
  assumes "transaction_recorded k d" "provisioned own u d" "usable_key key = Some k" "0 < amount"
  shows "addCredits own now u amount kind description key d = (Inr (credit_balance u d), d)"
  using ensure_provisioned [OF assms(2), of now] assms
  by (auto simp: addCredits_def with_credits_def transact_def add_transaction_def already_recorded_def
      credit_balance_def)

type_synonym credit_purchase = "int \<times> int \<times> int \<times> string \<times> string option \<times> char \<times> string"

fun deliver_purchase ::
    "(string option \<Rightarrow> bool) \<Rightarrow> credit_purchase \<Rightarrow> db \<Rightarrow> (credit_error, int) result \<times> db" where
  \<comment> \<open>a purchase with a non-empty key\<close>
  "deliver_purchase own (now, u, amount, kind, description, k, ks) d =
     addCredits own now u amount kind description (Some (k # ks)) d"

fun delivered_purchase :: "(string option \<Rightarrow> bool) \<Rightarrow> credit_purchase \<Rightarrow> db \<Rightarrow> bool" where
  "delivered_purchase own (now, u, amount, kind, description, k, ks) d \<longleftrightarrow>
     transaction_recorded (k # ks) d \<and> provisioned own u d"

interpretation purchase: idempotent_operation "deliver_purchase own" "delivered_purchase own" for own
proof
  fix i d r d' assume "deliver_purchase own i d = (Inr r, d')"
  then show "delivered_purchase own i d'"
    by (cases i) (auto simp: usable_key_def dest: addCredits_recorded)
next
  fix i d assume rec: "delivered_purchase own i d"
  obtain now u amount kind desc k ks where i: "i = (now, u, amount, kind, desc, k, ks)" by (cases i)
  show "snd (deliver_purchase own i d) = d"
  proof (cases "0 < amount")
    case True
    with rec show ?thesis by (simp add: i addCredits_replay [of "k # ks"] usable_key_def)
  qed (simp add: i addCredits_def)
qed

lemma purchase_is_credited_once_facts:
  assumes "\<not> transaction_recorded (k # ks) d"
    "addCredits own now u amount kind description (Some (k # ks)) d = (Inr b, d')"
  shows "b = credit_balance u d + amount" "credit_balance u d' = b"
    "\<forall>v. v \<noteq> u \<longrightarrow> credit_balance v d' = credit_balance v d"
    "\<forall>p \<in> set (projects d'). \<not> credit_exhausted u p"
proof -
  have key: "usable_key (Some (k # ks)) = Some (k # ks)" by (simp add: usable_key_def)
  note rec = addCredits_recorded [OF assms(2) key]
  from assms(2) have "b = credit_balance u d + amount \<and>
      (\<forall>v. v \<noteq> u \<longrightarrow> credit_balance v d' = credit_balance v d) \<and>
      (\<forall>p \<in> set (projects d'). \<not> credit_exhausted u p)"
  proof (cases rule: addCredits_cases)
    case (1 c d1)
    then have "transaction_recorded (k # ks) d1" using key by (simp add: already_recorded_def)
    with 1(1) assms(1) show ?thesis
      by (cases rule: ensureUserCredits_cases) (simp_all add: transaction_recorded_def)
  next
    case (2 c d1)
    note ens = ensure_same_balance [OF 2(1)]
    have "credit_balance v d' = credit_balance v d" if "v \<noteq> u" for v
      using that credit_balance_other [of u "set_balance b" v d1] ens [of v]
      by (simp add: 2(6) credit_balance_def set_balance_def)
    moreover have "b = credit_balance u d + amount"
      using ens [of u] 2(4,5) by (simp add: credit_balance_def)
    moreover have "\<forall>p \<in> set (projects d'). \<not> credit_exhausted u p"
      by (simp add: 2(6) none_exhausted)
    ultimately show ?thesis by blast
  qed
  with rec show "b = credit_balance u d + amount" "credit_balance u d' = b"
    "\<forall>v. v \<noteq> u \<longrightarrow> credit_balance v d' = credit_balance v d"
    "\<forall>p \<in> set (projects d'). \<not> credit_exhausted u p" by auto
qed

text \<open>
  A keyed purchase is credited once: the first delivery raises the balance by exactly the
  amount, changes nobody else's balance and leaves none of the customer's projects paused for
  exhausted credits; any number of redeliveries, and any other grant under the same key, change
  nothing and answer with the same balance.
\<close>

theorem purchase_is_credited_once:
  assumes "\<not> transaction_recorded (k # ks) d"
    "addCredits own now u amount kind description (Some (k # ks)) d = (Inr b, d')"
  shows "b = credit_balance u d + amount \<and> credit_balance u d' = b \<and>
    (\<forall>v. v \<noteq> u \<longrightarrow> credit_balance v d' = credit_balance v d) \<and>
    (\<forall>p \<in> set (projects d'). \<not> credit_exhausted u p) \<and>
    ((\<lambda>x. snd (addCredits own now u amount kind description (Some (k # ks)) x)) ^^ n) d' = d' \<and>
    (\<forall>now2 amount2 kind2 description2. 0 < amount2 \<longrightarrow>
      addCredits own now2 u amount2 kind2 description2 (Some (k # ks)) d' = (Inr b, d'))"
proof -
  have key: "usable_key (Some (k # ks)) = Some (k # ks)" by (simp add: usable_key_def)
  note rec = addCredits_recorded [OF assms(2) key]
  have idle: "((\<lambda>x. snd (addCredits own now u amount kind description (Some (k # ks)) x)) ^^ n) d' = d'"
    using purchase.redelivery [of own "(now, u, amount, kind, description, k, ks)" d b d' n] assms(2)
    by (simp add: purchase.deliver_def [abs_def])
  from purchase_is_credited_once_facts [OF assms] rec idle addCredits_replay [OF rec(1,2) key]
  show ?thesis by auto
qed

section \<open>Monthly refills and plan grants\<close>

lemma refill_Some:
  "refill_subscription now tier sub = Some t \<Longrightarrow> \<exists>s e. sub = Some s \<and> paying_status (sub_status s) \<and>
     sub_periodEnd s = Some e \<and> now < e \<and> t = or_default ''free'' (sub_tier s)"
  by (auto simp: refill_subscription_def Let_def or_default_def split: option.splits if_splits)

lemma refill_cases:
  assumes "refill_transaction now u tier d = Inr ((), d')"
  obtains (idle) "d' = d"
  | (refilled) c t amount where "getUserCredits u d = Some c"
      "refill_subscription now tier (getSubscriptionByUserId u d) = Some t"
      "getTierCreditRefill t = Some amount" "0 < amount"
      "\<forall>l. uc_lastRefill c = Some l \<longrightarrow> 30 * day_ms \<le> now - l"
      "d' = record_transaction now u amount ''subscription_grant'' None None
         (''Monthly credit refill for '' @ t @ '' tier ('' @ show_int amount @ '' credits)'')
         (set_credits u (set_plan now t (uc_balance c + amount)) d)"
  using assms
  by (auto simp: refill_transaction_def Let_def split: option.splits if_splits)

lemma refill_too_soon:
  "getUserCredits u d = Some c \<Longrightarrow> uc_lastRefill c = Some l \<Longrightarrow> now < l + 30 * day_ms \<Longrightarrow>
   refill_transaction now u tier d = Inr ((), d)"
  by (simp add: refill_transaction_def Let_def split: option.split)

lemma set_plan_simps [simp]:
  "uc_user (set_plan now t b c) = uc_user c" "uc_balance (set_plan now t b c) = b"
  "uc_tier (set_plan now t b c) = Some t" "uc_unlimited (set_plan now t b c) = uc_unlimited c"
  "uc_lastRefill (set_plan now t b c) = Some now"
  by (simp_all add: set_plan_def)

text \<open>
  Credits are minted only for a paid month, once a month: a refill that changes a provisioned
  customer's balance happens for a subscription that is active or in trial with its paid period
  still running, adds exactly the plan's refill, comes at least 30 days after the last one, and
  no refill in the following 30 days changes anything.
\<close>

theorem refill_is_paid_and_monthly:
  assumes "provisioned own u d" "refillMonthlyCredits own now u tier d = (Inr (), d')"
    "credit_balance u d' \<noteq> credit_balance u d"
  shows "\<exists>c s e amount. getUserCredits u d = Some c \<and> getSubscriptionByUserId u d = Some s \<and>
    paying_status (sub_status s) \<and> sub_periodEnd s = Some e \<and> now < e \<and>
    getTierCreditRefill (or_default ''free'' (sub_tier s)) = Some amount \<and>
    credit_balance u d' = credit_balance u d + amount \<and>
    (\<forall>l. uc_lastRefill c = Some l \<longrightarrow> 30 * day_ms \<le> now - l) \<and>
    (\<forall>later tier2. later < now + 30 * day_ms \<longrightarrow>
      refillMonthlyCredits own later u tier2 d' = (Inr (), d'))"
proof -
  obtain c0 where ens: "ensureUserCredits own now u d = Inr (c0, d)" and c0: "getUserCredits u d = Some c0"
    using ensure_provisioned [OF assms(1)] by blast
  with assms(2) have "refill_transaction now u tier d = Inr ((), d')"
    by (simp add: refillMonthlyCredits_def with_credits_def transact_eq)
  then show ?thesis
  proof (cases rule: refill_cases)
    case idle
    with assms(3) show ?thesis by simp
  next
    case (refilled c t amount)
    from refill_Some [OF refilled(2)] obtain s e where s: "getSubscriptionByUserId u d = Some s"
      "paying_status (sub_status s)" "sub_periodEnd s = Some e" "now < e"
      "t = or_default ''free'' (sub_tier s)" by blast
    let ?c = "set_plan now t (uc_balance c + amount) c"
    have c: "getUserCredits u d' = Some ?c"
      unfolding refilled(6) by (rule getUserCredits_record_set [OF refilled(1)]) simp
    have prov: "provisioned own u d'"
      using assms(1) refilled(1) c by (simp add: provisioned_def) (simp add: refilled(6))
    have "refillMonthlyCredits own later u tier2 d' = (Inr (), d')" if "later < now + 30 * day_ms" for later tier2
    proof -
      from ensure_provisioned [OF prov, of later] obtain x where
        "ensureUserCredits own later u d' = Inr (x, d')" by blast
      with refill_too_soon [OF c _ that] show ?thesis
        by (simp add: refillMonthlyCredits_def with_credits_def transact_def)
    qed
    with s c refilled(1,3,5) show ?thesis by (auto simp: credit_balance_def)
  qed
qed

lemma fold_max_upper: "x \<in> set xs \<or> x = a \<Longrightarrow> x \<le> fold max xs (a :: int)"
  using fold_max_ge [of a xs] by auto

lemma latest_grant_ge:
  assumes "t \<in> set (credit_transactions d)" "ct_user t = u" "ct_type t = ''subscription_grant''"
  shows "\<exists>l. latest_grant u d = Some l \<and> ct_created t \<le> l"
proof -
  let ?xs = "map ct_created (rows_where (\<lambda>t. ct_user t = u \<and> ct_type t = ''subscription_grant'')
      (credit_transactions d))"
  have "ct_created t \<in> set ?xs" using assms by (simp add: rows_where_def)
  then obtain x xs where "?xs = x # xs" by (cases ?xs) auto
  with \<open>ct_created t \<in> set ?xs\<close> fold_max_upper [of "ct_created t" xs x] show ?thesis
    by (auto simp: latest_grant_def)
qed

lemma record_transaction_mem:
  "\<exists>t \<in> set (credit_transactions (record_transaction now u a k p r s d)).
     ct_user t = u \<and> ct_type t = k \<and> ct_created t = now \<and> ct_amount t = a"
  by (simp add: record_transaction_def)

lemma latest_grant_unpause [simp]: "latest_grant v (unpauseCreditExhaustedProjects now u d) = latest_grant v d"
  by (simp add: latest_grant_def)

lemma plan_granted:
  assumes "plan_transaction now u tier key d = Inr ((g, False), d')" "getTierCreditRefill tier = Some a"
  obtains c where "getUserCredits u d = Some c" "g = a"
    "d' = record_transaction now u a ''subscription_grant'' None key
       (''Plan credits for '' @ tier @ '' ('' @ show_int a @ '' credits)'')
       (set_credits u (set_plan now tier (uc_balance c + a)) d)"
  using assms
  by (auto simp: plan_transaction_def split: if_splits option.splits)

text \<open>
  A checkout and its invoice do not both grant: after a plan's credits were granted, a second
  grant of the same paid plan within 25 days is skipped and changes nothing, whatever key it
  comes with.
\<close>

theorem plan_grant_window:
  assumes "grantPlanCredits own now u tier key d = (Inr (g, False), d')"
    "getTierCreditRefill tier = Some a" "tier \<noteq> ''free''" "later < now + 25 * day_ms"
  shows "g = a \<and> grantPlanCredits own later u tier key2 d' = (Inr (0, True), d')"
proof -
  from assms(1) obtain c0 d1 d2 where ens: "ensureUserCredits own now u d = Inr (c0, d1)"
    and run: "plan_transaction now u tier key d1 = Inr ((g, False), d2)"
    and d': "d' = (if g > 0 then unpauseCreditExhaustedProjects now u d2 else d2)"
    by (auto simp: grantPlanCredits_def with_credits_def transact_eq transact_def
        split: sum.splits prod.splits if_splits)
  from run assms(2) show ?thesis
  proof (rule plan_granted)
    fix c assume c: "getUserCredits u d1 = Some c" and g: "g = a"
      and d2: "d2 = record_transaction now u a ''subscription_grant'' None key
        (''Plan credits for '' @ tier @ '' ('' @ show_int a @ '' credits)'')
        (set_credits u (set_plan now tier (uc_balance c + a)) d1)"
    have c2: "getUserCredits u d2 = Some (set_plan now tier (uc_balance c + a) c)"
      unfolding d2 by (rule getUserCredits_record_set [OF c]) simp
    obtain l where l: "latest_grant u d2 = Some l" "now \<le> l"
      using latest_grant_ge record_transaction_mem unfolding d2 by metis
    have same: "getUserCredits u d' = getUserCredits u d2" "latest_grant u d' = latest_grant u d2"
      "is_owner own u d' = is_owner own u d1"
      by (simp_all add: d' d2)
    have "provisioned own u d1" by (rule ensure_makes_provisioned [OF ens])
    then have "provisioned own u d'" by (simp add: provisioned_def same c c2)
    then obtain x where x: "ensureUserCredits own later u d' = Inr (x, d')"
      using ensure_provisioned by blast
    have "granted_recently later u tier (set_plan now tier (uc_balance c + a) c) d'"
      using l assms(3,4) by (simp add: granted_recently_def same or_default_def)
    then have "plan_transaction later u tier key2 d' = Inr ((0, True), d')"
      by (simp add: plan_transaction_def same c2 assms(2))
    with x g show ?thesis
      by (simp add: grantPlanCredits_def with_credits_def transact_def)
  qed
qed

section \<open>A concrete customer\<close>

definition nobody :: "string option \<Rightarrow> bool" where "nobody e = False"

definition sample_credits :: db where
  "sample_credits = empty_db\<lparr>users := [\<lparr>u_id = 1, u_email = Some ''a@b.c''\<rparr>],
     subscriptions := [\<lparr>sub_user = 1, sub_customer = Some ''cus_1'', sub_stripe = Some ''sub_1'',
       sub_status = Some ''active'', sub_tier = Some ''builder'', sub_trialEnd = None,
       sub_periodStart = Some 0, sub_periodEnd = Some 9000000000\<rparr>],
     user_credits := [\<lparr>uc_user = 1, uc_balance = 7, uc_tier = Some ''builder'', uc_allowance = 66,
       uc_unlimited = False, uc_lastRefill = Some 0, uc_created = Some 0\<rparr>],
     credit_transactions := [\<lparr>ct_id = 1, ct_user = 1, ct_amount = 7, ct_type = ''purchase'',
       ct_project = None, ct_ref = Some ''pi_1'', ct_description = ''Credit purchase'', ct_created = 0\<rparr>],
     projects := [\<lparr>p_id = 7, p_user = 1, p_status = ''paused'', p_pauseReason = Some ''credits_exhausted'',
       p_errorMessage = None, p_buildStage = None, p_failureStage = None,
       p_outputMaturity = ''structural'', p_creditsSpent = 0, p_creditsReserved = 0,
       p_updatedAt = 0\<rparr>]\<rparr>"

lemma sample_credits_ok: "credits_ok sample_credits"
  by code_simp

definition sample_credits_row :: user_credits_row where
  "sample_credits_row = hd (user_credits sample_credits)"

theorem deduct_never_overdraws_witness:
  "\<exists>d'. deductCredits nobody 10 1 5 (Some 7) None sample_credits = (Inr 2, d') \<and> credits_ok d'"
proof -
  have pre: "getUserCredits 1 sample_credits = Some sample_credits_row"
    "\<not> unlimited_account sample_credits_row" "\<not> is_owner nobody 1 sample_credits" "0 < (5 :: int)"
    by code_simp+
  have "uc_balance sample_credits_row = 7" by code_simp
  with deduct_never_overdraws [OF sample_credits_ok pre, of 10 "Some 7" None] show ?thesis by auto
qed

definition sample_purchased :: db where
  "sample_purchased = snd (addCredits nobody 10 1 50 ''purchase'' None (Some ''pi_2'') sample_credits)"

theorem purchase_is_credited_once_witness:
  "credit_balance 1 sample_purchased = 57 \<and>
   ((\<lambda>x. snd (addCredits nobody 10 1 50 ''purchase'' None (Some ''pi_2'') x)) ^^ 3) sample_purchased =
     sample_purchased"
proof -
  have run: "addCredits nobody 10 1 50 ''purchase'' None (Some ''pi_2'') sample_credits =
      (Inr 57, sample_purchased)" by code_simp
  have new: "\<not> transaction_recorded ''pi_2'' sample_credits" by code_simp
  from purchase_is_credited_once [OF new run] show ?thesis by blast
qed

definition sample_refilled :: db where
  "sample_refilled = snd (refillMonthlyCredits nobody 3000000000 1 None sample_credits)"

theorem refill_is_paid_and_monthly_witness:
  "refillMonthlyCredits nobody 3000000001 1 None sample_refilled = (Inr (), sample_refilled)"
proof -
  have pre: "provisioned nobody 1 sample_credits"
    "refillMonthlyCredits nobody 3000000000 1 None sample_credits = (Inr (), sample_refilled)"
    "credit_balance 1 sample_refilled \<noteq> credit_balance 1 sample_credits"
    by code_simp+
  have "(3000000001 :: int) < 3000000000 + 30 * day_ms" by (simp add: day_ms_def)
  with refill_is_paid_and_monthly [OF pre] show ?thesis by blast
qed

definition sample_planned :: db where
  "sample_planned = snd (grantPlanCredits nobody 10 1 ''builder'' (Some ''cs_1'') sample_credits)"

theorem plan_grant_window_witness:
  "grantPlanCredits nobody 20 1 ''builder'' (Some ''in_1'') sample_planned = (Inr (0, True), sample_planned)"
proof -
  have "grantPlanCredits nobody 10 1 ''builder'' (Some ''cs_1'') sample_credits =
      (Inr (400, False), sample_planned)"
    "getTierCreditRefill ''builder'' = Some 400" "''builder'' \<noteq> ''free''" "(20 :: int) < 10 + 25 * day_ms"
    by code_simp+
  from plan_grant_window [OF this] show ?thesis by blast
qed

end
