(* ===== verification/StripeCredits.thy ===== *)
theory StripeCredits
  imports UserCredits
begin

text \<open>
  Stripe's effects on the customer credit balance: the refund arithmetic
  (\<open>src/services/stripeCreditRefundMath.ts\<close>), the reconciliation of cumulative refunds
  (\<open>stripeCreditRefund.ts\<close>), the credits of a settled plan invoice (\<open>stripePlanCredits.ts\<close>,
  \<open>stripeInvoiceCredits.ts\<close>) and the replay protection of webhook events
  (\<open>stripeEventLedger.ts\<close>).
\<close>

section \<open>Refund arithmetic\<close>

record refund_input =
  ri_original :: int
  ri_charge :: int
  ri_refunded :: int
  ri_full :: bool
  ri_accounted :: int

record refund_adjustment =
  ra_target :: int
  ra_delta :: int

definition valid_amounts :: "int \<Rightarrow> int \<Rightarrow> bool" where
  "valid_amounts charge refunded \<longleftrightarrow> is_safe_integer charge \<and> 0 < charge \<and>
     is_safe_integer refunded \<and> 0 \<le> refunded \<and> refunded \<le> charge"

definition calculateCreditRefundAdjustment ::
    "refund_input \<Rightarrow> (credit_error, refund_adjustment) result" where
  "calculateCreditRefundAdjustment i =
    (if \<not> is_safe_integer (ri_original i) \<or> ri_original i \<le> 0 then Inl InvalidOriginalPurchase
     else if \<not> valid_amounts (ri_charge i) (ri_refunded i) then Inl InvalidRefundAmounts
     else if \<not> is_safe_integer (ri_accounted i) \<or> ri_accounted i < 0 \<or>
             ri_accounted i > ri_original i then Inl InvalidRefundState
     else
       let weightedRefund = ri_original i * ri_refunded i in
       if \<not> is_safe_integer weightedRefund then Inl RefundOutOfRange
       else
         let calculatedTarget = (if ri_full i then ri_original i else weightedRefund div ri_charge i);
             targetCredits = min (ri_original i) calculatedTarget
         in Inr \<lparr>ra_target = targetCredits, ra_delta = max 0 (targetCredits - ri_accounted i)\<rparr>)"

lemma refund_adjustment_Inr:
  assumes "calculateCreditRefundAdjustment i = Inr a"
  shows "0 < ri_original i" "0 < ri_charge i" "0 \<le> ri_refunded i" "ri_refunded i \<le> ri_charge i"
    "0 \<le> ri_accounted i" "ri_accounted i \<le> ri_original i"
    "ra_target a = (if ri_full i then ri_original i else
       min (ri_original i) (ri_original i * ri_refunded i div ri_charge i))"
    "ra_delta a = max 0 (ra_target a - ri_accounted i)"
  using assms by (auto simp: calculateCreditRefundAdjustment_def valid_amounts_def Let_def split: if_splits)

text \<open>
  The refund target is exact and bounded: it lies between zero and the original pack, a full
  refund targets the whole pack, a partial one never revokes more than its share of the charge,
  and a larger cumulative refund never has a smaller target, so accounted credits never go back.
\<close>

theorem refund_target_bounds:
  assumes "calculateCreditRefundAdjustment i = Inr a"
    "calculateCreditRefundAdjustment (i\<lparr>ri_refunded := later, ri_full := full\<rparr>) = Inr b"
    "ri_refunded i \<le> later" "ri_full i \<longrightarrow> full"
  shows "0 \<le> ra_target a \<and> ra_target a \<le> ri_original i \<and>
    (ri_full i \<longrightarrow> ra_target a = ri_original i) \<and>
    (\<not> ri_full i \<longrightarrow> ra_target a * ri_charge i \<le> ri_original i * ri_refunded i) \<and>
    (ri_refunded i = ri_charge i \<longrightarrow> ra_target a = ri_original i) \<and>
    ra_target a \<le> ra_target b \<and>
    ri_accounted i + ra_delta a = max (ri_accounted i) (ra_target a)"
proof -
  note a = refund_adjustment_Inr [OF assms(1)]
  note b = refund_adjustment_Inr [OF assms(2), simplified]
  let ?q = "ri_original i * ri_refunded i div ri_charge i"
  have "0 \<le> ?q" using a by (simp add: pos_imp_zdiv_nonneg_iff)
  moreover have "?q * ri_charge i \<le> ri_original i * ri_refunded i"
    using a(2) pos_mod_sign [of "ri_charge i" "ri_original i * ri_refunded i"]
    by (simp add: minus_mod_eq_div_mult [symmetric])
  moreover have "?q \<le> ri_original i"
  proof -
    have "ri_original i * ri_refunded i \<le> ri_original i * ri_charge i"
      using a by (intro mult_left_mono) auto
    then have "?q \<le> ri_original i * ri_charge i div ri_charge i" using a(2) by (rule zdiv_mono1)
    with a(2) show ?thesis by simp
  qed
  moreover have "?q \<le> ri_original i * later div ri_charge i"
    using a assms(3) by (intro zdiv_mono1 mult_left_mono) auto
  ultimately show ?thesis
    using a b assms(4) by (auto simp: min_def max_def)
qed

section \<open>Reconciling refunds\<close>

definition parseRefundState :: "setting_value option \<Rightarrow> (credit_error, int \<times> int) result" where
  "parseRefundState v = (case v of None \<Rightarrow> Inr (0, 0)
     | Some (OtherSetting s) \<Rightarrow> if s = [] then Inr (0, 0) else Inl InvalidRefundState
     | Some (RefundState accounted refunded) \<Rightarrow>
         if \<not> is_safe_integer accounted \<or> \<not> is_safe_integer refunded \<or> accounted < 0 \<or> refunded < 0
         then Inl InvalidRefundState else Inr (accounted, refunded))"

definition refund_key :: "string \<Rightarrow> string" where
  "refund_key paymentIntentId = ''stripe_refund:'' @ paymentIntentId"

definition setting_of :: "string \<Rightarrow> db \<Rightarrow> setting_value option" where
  "setting_of key d = map_option as_value (first_row (\<lambda>s. as_key s = key) (app_settings d))"

definition upsert_setting :: "string \<Rightarrow> setting_value \<Rightarrow> db \<Rightarrow> db" where
  \<comment> \<open>INSERT ... ON CONFLICT (key) DO UPDATE\<close>
  "upsert_setting key v d = d\<lparr>app_settings :=
     (if first_row (\<lambda>s. as_key s = key) (app_settings d) = None
      then app_settings d @ [\<lparr>as_key = key, as_value = v\<rparr>]
      else update_where (\<lambda>s. as_key s = key) (\<lambda>s. s\<lparr>as_value := v\<rparr>) (app_settings d))\<rparr>"

record refund_outcome =
  ro_target :: int
  ro_revoked :: int
  ro_unrecovered :: int
  ro_skipped :: bool
  ro_missing :: bool

definition skipped_refund :: "int \<Rightarrow> bool \<Rightarrow> refund_outcome" where
  "skipped_refund target missing = \<lparr>ro_target = target, ro_revoked = 0, ro_unrecovered = 0,
     ro_skipped = True, ro_missing = missing\<rparr>"

record refund_request =
  rr_payment :: string
  rr_event :: string
  rr_charge :: int
  rr_refunded :: int
  rr_full :: bool

definition refund_transaction ::
    "int \<Rightarrow> refund_request \<Rightarrow> credit_transaction_row \<Rightarrow> db \<Rightarrow> (credit_error, refund_outcome \<times> db) result" where
  "refund_transaction now i original d =
    (if transaction_recorded (rr_event i) d then Inr (skipped_refund 0 False, d)
     else bind_result (parseRefundState (setting_of (refund_key (rr_payment i)) d))
       (\<lambda>(accounted, priorRefunded).
        if rr_refunded i < priorRefunded then Inl RefundMovedBackwards
        else bind_result (calculateCreditRefundAdjustment
            \<lparr>ri_original = ct_amount original, ri_charge = rr_charge i, ri_refunded = rr_refunded i,
             ri_full = rr_full i, ri_accounted = accounted\<rparr>) (\<lambda>a.
          if ra_delta a = 0 then
            Inr (skipped_refund (ra_target a) False,
                 upsert_setting (refund_key (rr_payment i)) (RefundState accounted (rr_refunded i)) d)
          else case getUserCredits (ct_user original) d of None \<Rightarrow> Inl CreditsRowMissing
          | Some credits \<Rightarrow>
             let revoked = min (uc_balance credits) (ra_delta a); unrecovered = ra_delta a - revoked in
             commit_if credit_constraints CreditConstraint
               \<lparr>ro_target = ra_target a, ro_revoked = revoked, ro_unrecovered = unrecovered,
                ro_skipped = False, ro_missing = False\<rparr>
               (upsert_setting (refund_key (rr_payment i)) (RefundState (ra_target a) (rr_refunded i))
                 (record_transaction now (ct_user original) (- revoked) ''purchase_refund'' None
                   (Some (rr_event i))
                   (if unrecovered > 0
                    then ''Stripe credit refund reconciled; '' @ show_int unrecovered @
                         '' consumed credits could not be revoked''
                    else ''Stripe credit refund reconciled'')
                   (set_credits (ct_user original) (set_balance (uc_balance credits - revoked)) d))))))"

definition original_purchase :: "string \<Rightarrow> db \<Rightarrow> credit_transaction_row option" where
  "original_purchase payment d =
     first_row (\<lambda>t. ct_ref t = Some payment \<and> ct_type t = ''purchase'') (credit_transactions d)"

definition reconcileCreditPurchaseRefund ::
    "(string option \<Rightarrow> bool) \<Rightarrow> int \<Rightarrow> refund_request \<Rightarrow> db \<Rightarrow> (credit_error, refund_outcome) result \<times> db" where
  "reconcileCreditPurchaseRefund own now i d =
    (if \<not> starts_with ''pi_'' (rr_payment i) \<or> \<not> starts_with ''evt_'' (rr_event i)
     then (Inl InvalidRefundRequest, d)
     else if \<not> valid_amounts (rr_charge i) (rr_refunded i) then (Inl InvalidRefundAmounts, d)
     else case original_purchase (rr_payment i) d of None \<Rightarrow> (Inr (skipped_refund 0 True), d)
     | Some original \<Rightarrow>
        if ct_amount original \<le> 0 \<or> ct_user original = 0 then (Inr (skipped_refund 0 True), d)
        else with_credits own now (ct_user original) (refund_transaction now i original) d)"

section \<open>Credits of a plan invoice\<close>

record invoice_line =
  il_type :: string
  il_proration :: bool
  il_quantity :: "int option"
  il_price :: "string option"

datatype invoice_error = IncompleteLines | NotOnePlan | UnknownInvoicePrice

definition resolveInvoiceCreditTier ::
    "bool \<Rightarrow> invoice_line list \<Rightarrow> (string option \<Rightarrow> string option) \<Rightarrow> (invoice_error, string) result" where
  "resolveInvoiceCreditTier hasMore invoiceLines tierForPrice =
    (if hasMore then Inl IncompleteLines
     else case filter (\<lambda>l. il_type l = ''subscription'' \<and> \<not> il_proration l) invoiceLines of
       [line] \<Rightarrow>
         if il_quantity line \<noteq> Some 1 then Inl NotOnePlan
         else (case tierForPrice (il_price line) of None \<Rightarrow> Inl UnknownInvoicePrice
           | Some tier \<Rightarrow> if tier = [] then Inl UnknownInvoicePrice else Inr tier)
     | _ \<Rightarrow> Inl NotOnePlan)"

definition invoice_transaction ::
    "int \<Rightarrow> int \<Rightarrow> string \<Rightarrow> string \<Rightarrow> string \<Rightarrow> db \<Rightarrow> (credit_error, (int \<times> bool) \<times> db) result" where
  "invoice_transaction now u tier invoiceId entitlement d =
    (if first_row (\<lambda>t. ct_user t = u \<and> ct_ref t = Some invoiceId) (credit_transactions d) \<noteq> None
     then Inr ((0, True), d)
     else case getUserCredits u d of None \<Rightarrow> Inl CreditsRowMissing
     | Some credits \<Rightarrow>
        (case getTierCreditRefill tier of
           None \<Rightarrow> commit_if credit_constraints CreditConstraint (0, False)
             (record_transaction now u 0 ''subscription_grant'' None (Some invoiceId)
               (''Stripe plan entitlement for '' @ tier)
               (set_credits u (set_plan now entitlement (uc_balance credits)) d))
         | Some refillAmount \<Rightarrow>
             commit_if credit_constraints CreditConstraint (refillAmount, False)
             (record_transaction now u refillAmount ''subscription_grant'' None (Some invoiceId)
               (''Stripe plan credits for '' @ tier @ '' ('' @ show_int refillAmount @ '' credits)'')
               (set_credits u (set_plan now entitlement (uc_balance credits + refillAmount)) d))))"

definition grantStripeInvoicePlanCredits ::
    "(string option \<Rightarrow> bool) \<Rightarrow> int \<Rightarrow> int \<Rightarrow> string \<Rightarrow> string \<Rightarrow> string \<Rightarrow> db \<Rightarrow>
     (credit_error, int \<times> bool) result \<times> db" where
  "grantStripeInvoicePlanCredits own now u tier invoiceId entitlement d =
    (if \<not> starts_with ''in_'' invoiceId then (Inl InvalidStripeInvoice, d)
     else case with_credits own now u (invoice_transaction now u tier invoiceId entitlement) d of
       (Inl e, d1) \<Rightarrow> (Inl e, d1)
     | (Inr (granted, skipped), d1) \<Rightarrow>
         (Inr (granted, skipped), if skipped then d1 else unpauseCreditExhaustedProjects now u d1))"

section \<open>Replay protection of webhook events\<close>

datatype 'e event_failure = HandlerFailed 'e | EventAlreadyStored

definition event_processed :: "string \<Rightarrow> db \<Rightarrow> bool" where
  "event_processed eventId d \<longleftrightarrow> first_row (\<lambda>e. se_id e = eventId) (stripe_events d) \<noteq> None"

definition processStripeEventOnce ::
    "string \<Rightarrow> string \<Rightarrow> (db \<Rightarrow> ('e, unit) result \<times> db) \<Rightarrow> db \<Rightarrow> ('e event_failure, bool) result \<times> db" where
  "processStripeEventOnce eventId eventType handler d =
    (if event_processed eventId d then (Inr False, d)
     else case handler d of
       (Inl e, d1) \<Rightarrow> (Inl (HandlerFailed e), d1)
     | (Inr _, d1) \<Rightarrow>
         if event_processed eventId d1 then (Inl EventAlreadyStored, d1)
         else (Inr True, d1\<lparr>stripe_events := stripe_events d1 @
                 [\<lparr>se_id = eventId, se_type = eventType\<rparr>]\<rparr>))"

lemma processed_event: "processStripeEventOnce e t h d = (Inr b, d') \<Longrightarrow> event_processed e d'"
  by (auto simp: processStripeEventOnce_def event_processed_def table_simps
      split: if_splits prod.splits sum.splits option.splits)

definition deliver_event ::
    "(db \<Rightarrow> ('e, unit) result \<times> db) \<Rightarrow> string \<times> string \<Rightarrow> db \<Rightarrow> ('e event_failure, bool) result \<times> db" where
  "deliver_event h i = processStripeEventOnce (fst i) (snd i) h"

definition delivered_event :: "string \<times> string \<Rightarrow> db \<Rightarrow> bool" where
  "delivered_event i = event_processed (fst i)"

interpretation stripe_event: idempotent_operation "deliver_event h" delivered_event for h
proof
  fix i d r d' assume "deliver_event h i d = (Inr r, d')"
  then show "delivered_event i d'"
    unfolding deliver_event_def delivered_event_def by (rule processed_event)
next
  fix i d assume "delivered_event i d"
  then show "snd (deliver_event h i d) = d"
    by (simp add: deliver_event_def delivered_event_def processStripeEventOnce_def)
qed

section \<open>The books stay balanced\<close>

lemma upsert_same [simp]:
  "user_credits (upsert_setting k v d) = user_credits d"
  "credit_transactions (upsert_setting k v d) = credit_transactions d"
  "getUserCredits u (upsert_setting k v d) = getUserCredits u d"
  "credit_balance u (upsert_setting k v d) = credit_balance u d"
  "transaction_recorded s (upsert_setting k v d) = transaction_recorded s d"
  "is_owner own u (upsert_setting k v d) = is_owner own u d"
  by (simp_all add: upsert_setting_def getUserCredits_def credit_balance_def transaction_recorded_def
      is_owner_def)

lemma upsert_credits_ok [simp]: "credits_ok (upsert_setting k v d) = credits_ok d"
  by (rule same_credit_tables_ok) (simp add: same_credit_tables_def)

lemma upsert_constraints [simp]: "credit_constraints (upsert_setting k v d) = credit_constraints d"
  by (simp add: credit_constraints_def)

lemma setting_of_upsert [simp]: "setting_of k (upsert_setting k v d) = Some v"
proof (cases "first_row (\<lambda>s. as_key s = k) (app_settings d)")
  case None
  then show ?thesis by (simp add: setting_of_def upsert_setting_def table_simps)
next
  case (Some s)
  have "first_row (\<lambda>s. as_key s = k) (update_where (\<lambda>s. as_key s = k) (\<lambda>s. s\<lparr>as_value := v\<rparr>) (app_settings d)) =
      map_option (\<lambda>s. if as_key s = k then s\<lparr>as_value := v\<rparr> else s) (first_row (\<lambda>s. as_key s = k) (app_settings d))"
    by (rule first_row_update_where) simp
  with Some first_row_Some [OF Some] show ?thesis by (simp add: setting_of_def upsert_setting_def)
qed

lemma refund_cases:
  assumes "refund_transaction now i original d = Inr (out, d')"
  obtains (replay) "transaction_recorded (rr_event i) d" "out = skipped_refund 0 False" "d' = d"
  | (level) accounted prior a where "\<not> transaction_recorded (rr_event i) d"
      "parseRefundState (setting_of (refund_key (rr_payment i)) d) = Inr (accounted, prior)"
      "prior \<le> rr_refunded i"
      "calculateCreditRefundAdjustment \<lparr>ri_original = ct_amount original, ri_charge = rr_charge i,
         ri_refunded = rr_refunded i, ri_full = rr_full i, ri_accounted = accounted\<rparr> = Inr a"
      "ra_delta a = 0" "out = skipped_refund (ra_target a) False"
      "d' = upsert_setting (refund_key (rr_payment i)) (RefundState accounted (rr_refunded i)) d"
  | (revoked) accounted prior a c n s where "\<not> transaction_recorded (rr_event i) d"
      "parseRefundState (setting_of (refund_key (rr_payment i)) d) = Inr (accounted, prior)"
      "prior \<le> rr_refunded i"
      "calculateCreditRefundAdjustment \<lparr>ri_original = ct_amount original, ri_charge = rr_charge i,
         ri_refunded = rr_refunded i, ri_full = rr_full i, ri_accounted = accounted\<rparr> = Inr a"
      "ra_delta a \<noteq> 0" "getUserCredits (ct_user original) d = Some c"
      "n = min (uc_balance c) (ra_delta a)"
      "out = \<lparr>ro_target = ra_target a, ro_revoked = n, ro_unrecovered = ra_delta a - n,
         ro_skipped = False, ro_missing = False\<rparr>"
      "d' = upsert_setting (refund_key (rr_payment i)) (RefundState (ra_target a) (rr_refunded i))
         (record_transaction now (ct_user original) (- n) ''purchase_refund'' None (Some (rr_event i)) s
           (set_credits (ct_user original) (set_balance (uc_balance c - n)) d))"
      "credit_constraints d'"
proof (cases "transaction_recorded (rr_event i) d")
  case True
  with assms show thesis by (intro replay) (auto simp: refund_transaction_def)
next
  case False
  from assms False obtain accounted prior a where *:
    "parseRefundState (setting_of (refund_key (rr_payment i)) d) = Inr (accounted, prior)"
    "prior \<le> rr_refunded i"
    "calculateCreditRefundAdjustment \<lparr>ri_original = ct_amount original, ri_charge = rr_charge i,
       ri_refunded = rr_refunded i, ri_full = rr_full i, ri_accounted = accounted\<rparr> = Inr a"
    by (auto simp: refund_transaction_def split: if_splits)
  show thesis
  proof (cases "ra_delta a = 0")
    case True
    with assms False * show thesis by (intro level) (auto simp: refund_transaction_def)
  next
    case D: False
    from assms False * D obtain c where c: "getUserCredits (ct_user original) d = Some c"
      by (auto simp: refund_transaction_def split: option.splits)
    show thesis
      by (rule revoked [OF False * D c refl]) (use assms False * D c in \<open>simp_all add: refund_transaction_def Let_def\<close>)
  qed
qed

lemma refund_keeps_credits_ok:
  assumes ok: "credits_ok d" and run: "refund_transaction now i original d = Inr (out, d')"
  shows "credits_ok d'"
  using run
proof (cases rule: refund_cases)
  case (revoked accounted prior a c n s)
  let ?d = "record_transaction now (ct_user original) (- n) ''purchase_refund'' None (Some (rr_event i)) s
           (set_credits (ct_user original) (set_balance (uc_balance c - n)) d)"
  have "credits_ok ?d"
    by (rule posting_keeps_credits_ok [OF ok revoked(6)])
      (use revoked(9,10) getUserCredits_Some [OF revoked(6)] in \<open>simp_all add: set_balance_def\<close>)
  then show ?thesis by (simp add: revoked(9))
qed (use ok in simp_all)

lemma invoice_keeps_credits_ok:
  assumes "credits_ok d" "invoice_transaction now u tier invoiceId ent d = Inr (r, d')"
  shows "credits_ok d'"
  using assms getUserCredits_Some [of u d]
  by (auto simp: invoice_transaction_def split: option.splits if_splits intro!: posting_keeps_credits_ok)

lemma stripe_keeps_credits_ok:
  assumes ok: "credits_ok d"
  shows "reconcileCreditPurchaseRefund own now i d = (r1, d') \<Longrightarrow> credits_ok d'"
    and "grantStripeInvoicePlanCredits own now u tier invoiceId ent d = (r2, d') \<Longrightarrow> credits_ok d'"
proof -
  note wc = with_credits_keeps_credits_ok [OF ok]
  show "reconcileCreditPurchaseRefund own now i d = (r1, d') \<Longrightarrow> credits_ok d'"
    using ok by (auto simp: reconcileCreditPurchaseRefund_def split: if_splits option.splits
        elim: wc intro: refund_keeps_credits_ok)
  show "grantStripeInvoicePlanCredits own now u tier invoiceId ent d = (r2, d') \<Longrightarrow> credits_ok d'"
    using ok by (auto simp: grantStripeInvoicePlanCredits_def split: if_splits prod.splits sum.splits
        elim!: wc intro: invoice_keeps_credits_ok)
qed

section \<open>Contracts\<close>

lemma upsert_again: "upsert_setting k v (upsert_setting k v d) = upsert_setting k v d"
proof (cases "first_row (\<lambda>s. as_key s = k) (app_settings d)")
  case None
  then have "update_where (\<lambda>s. as_key s = k) (\<lambda>s. s\<lparr>as_value := v\<rparr>) (app_settings d) = app_settings d"
    by (simp add: update_where_idle first_row_None)
  with None show ?thesis
    by (simp add: upsert_setting_def table_simps) (simp add: update_where_def)
next
  case (Some s)
  let ?u = "update_where (\<lambda>s. as_key s = k) (\<lambda>s. s\<lparr>as_value := v\<rparr>)"
  have "first_row (\<lambda>s. as_key s = k) (?u t) =
      map_option (\<lambda>s. if as_key s = k then s\<lparr>as_value := v\<rparr> else s) (first_row (\<lambda>s. as_key s = k) t)" for t :: "app_setting_row list"
    by (rule first_row_update_where) simp
  moreover have "?u (?u t) = ?u t" for t :: "app_setting_row list" by (simp add: update_where_def)
  ultimately show ?thesis using Some by (simp add: upsert_setting_def)
qed

lemma original_purchase_same [simp]:
  "original_purchase p (upsert_setting k v d) = original_purchase p d"
  "original_purchase p (set_credits u f d) = original_purchase p d"
  "k \<noteq> ''purchase'' \<Longrightarrow> original_purchase p (record_transaction now u a k pr r s d) = original_purchase p d"
  by (auto simp: original_purchase_def record_transaction_def table_simps split: option.splits)

lemma provisioned_same [simp]:
  "provisioned own u (upsert_setting k v d) = provisioned own u d"
  by (simp add: provisioned_def split: option.split)

lemma credit_balance_nonneg:
  assumes "credits_ok d"
  shows "0 \<le> credit_balance u d"
proof (cases "getUserCredits u d")
  case (Some c)
  with assms getUserCredits_Some [OF Some] have "user_credits_check c"
    by (simp add: credits_ok_def credit_constraints_def list_all_iff)
  with Some show ?thesis by (simp add: credit_balance_def user_credits_check_def)
qed (simp add: credit_balance_def)

lemma parse_state: "parseRefundState v = Inr (a, p) \<Longrightarrow> 0 \<le> a \<and> is_safe_integer a"
  by (auto simp: parseRefundState_def is_safe_integer_def MAX_SAFE_INTEGER_def
      split: option.splits setting_value.splits if_splits)

lemma refund_replay:
  assumes run: "refund_transaction now i original d = Inr (out, d')"
    and new: "\<not> transaction_recorded (rr_event i) d" and amounts: "valid_amounts (rr_charge i) (rr_refunded i)"
  shows "\<exists>out2. refund_transaction later i original d' = Inr (out2, d') \<and> ro_skipped out2 \<and> ro_revoked out2 = 0"
  using run
proof (cases rule: refund_cases)
  case replay
  with new show ?thesis by simp
next
  case (level accounted prior a)
  have "parseRefundState (Some (RefundState accounted (rr_refunded i))) = Inr (accounted, rr_refunded i)"
    using parse_state [OF level(2)] amounts by (simp add: parseRefundState_def valid_amounts_def)
  with level show ?thesis
    by (auto simp: refund_transaction_def upsert_again skipped_refund_def)
next
  case (revoked accounted prior a c n s)
  then show ?thesis by (simp add: refund_transaction_def skipped_refund_def)
qed

lemma refund_effect:
  assumes "credits_ok d1" "refund_transaction now i original d1 = Inr (out, d')" "\<not> transaction_recorded (rr_event i) d1"
    "provisioned own (ct_user original) d1" "original_purchase (rr_payment i) d1 = Some original"
  shows "\<exists>accounted prior a.
    parseRefundState (setting_of (refund_key (rr_payment i)) d1) = Inr (accounted, prior) \<and>
    prior \<le> rr_refunded i \<and>
    calculateCreditRefundAdjustment \<lparr>ri_original = ct_amount original, ri_charge = rr_charge i,
      ri_refunded = rr_refunded i, ri_full = rr_full i, ri_accounted = accounted\<rparr> = Inr a \<and>
    setting_of (refund_key (rr_payment i)) d' =
      Some (RefundState (max accounted (ra_target a)) (rr_refunded i)) \<and>
    ro_revoked out + ro_unrecovered out = max accounted (ra_target a) - accounted \<and>
    0 \<le> ro_revoked out \<and> 0 \<le> ro_unrecovered out \<and>
    credit_balance (ct_user original) d' = credit_balance (ct_user original) d1 - ro_revoked out \<and>
    provisioned own (ct_user original) d' \<and> original_purchase (rr_payment i) d' = Some original"
  using assms(2)
proof (cases rule: refund_cases)
  case replay
  with assms(3) show ?thesis by simp
next
  case (level accounted prior a)
  from refund_adjustment_Inr(8) [OF level(4)] level(5) have "max accounted (ra_target a) = accounted" by simp
  with level(2-7) assms(4,5) show ?thesis by (auto simp: skipped_refund_def original_purchase_def)
next
  case (revoked accounted prior a c n s)
  have bal: "credit_balance (ct_user original) d1 = uc_balance c" using revoked(6) by (simp add: credit_balance_def)
  have c: "getUserCredits (ct_user original) d' = Some (set_balance (uc_balance c - n) c)"
    using credit_balance_own [of "ct_user original" "set_balance (uc_balance c - n)" d1 c] revoked(6)
    by (simp add: revoked(9) set_balance_def)
  have n: "0 \<le> n" "n \<le> uc_balance c"
    using revoked(5,7) refund_adjustment_Inr(8) [OF revoked(4)] assms(1) getUserCredits_Some [OF revoked(6)]
    by (auto simp: credits_ok_def credit_constraints_def list_all_iff user_credits_check_def)
  have d: "max accounted (ra_target a) = ra_target a" "ra_delta a = ra_target a - accounted"
    using refund_adjustment_Inr(8) [OF revoked(4)] revoked(5) by auto
  have "provisioned own (ct_user original) d'"
    using assms(4) revoked(6) c by (simp add: provisioned_def) (simp add: revoked(9) set_balance_def)
  moreover have "credit_balance (ct_user original) d' = credit_balance (ct_user original) d1 - n"
    using bal c by (simp add: credit_balance_def set_balance_def)
  moreover have "original_purchase (rr_payment i) d' = Some original"
    using assms(5) by (simp add: revoked(9))
  moreover have "n \<le> ra_delta a" using revoked(7) by simp
  ultimately show ?thesis using revoked(2-4,8) n(1) d by (auto simp: revoked(9))
qed

text \<open>
  Refunds are reconciled cumulatively and once: a reconciled event takes the accounted credits
  to the larger of what was accounted and the new target, splits the difference into what is
  revoked and what can no longer be recovered, lowers the balance by exactly the revoked part and
  never below zero, and delivering the event again revokes nothing and changes nothing.
\<close>

theorem refund_is_cumulative:
  assumes "credits_ok d" "reconcileCreditPurchaseRefund own now i d = (Inr out, d')"
    "\<not> ro_missing out" "\<not> transaction_recorded (rr_event i) d"
  shows "\<exists>original accounted prior a.
    original_purchase (rr_payment i) d = Some original \<and>
    parseRefundState (setting_of (refund_key (rr_payment i)) d) = Inr (accounted, prior) \<and>
    prior \<le> rr_refunded i \<and>
    calculateCreditRefundAdjustment \<lparr>ri_original = ct_amount original, ri_charge = rr_charge i,
      ri_refunded = rr_refunded i, ri_full = rr_full i, ri_accounted = accounted\<rparr> = Inr a \<and>
    setting_of (refund_key (rr_payment i)) d' =
      Some (RefundState (max accounted (ra_target a)) (rr_refunded i)) \<and>
    ro_revoked out + ro_unrecovered out = max accounted (ra_target a) - accounted \<and>
    0 \<le> ro_revoked out \<and> 0 \<le> ro_unrecovered out \<and>
    credit_balance (ct_user original) d' = credit_balance (ct_user original) d - ro_revoked out \<and>
    0 \<le> credit_balance (ct_user original) d' \<and> credits_ok d' \<and>
    (\<exists>out2. reconcileCreditPurchaseRefund own later i d' = (Inr out2, d') \<and>
      ro_skipped out2 \<and> ro_revoked out2 = 0)"
proof -
  have amounts: "valid_amounts (rr_charge i) (rr_refunded i)"
    and ids: "starts_with ''pi_'' (rr_payment i)" "starts_with ''evt_'' (rr_event i)"
    using assms(2) by (auto simp: reconcileCreditPurchaseRefund_def split: if_splits)
  from assms(2,3) amounts ids obtain original where o: "original_purchase (rr_payment i) d = Some original"
    "0 < ct_amount original" "ct_user original \<noteq> 0"
    and run: "with_credits own now (ct_user original) (refund_transaction now i original) d = (Inr out, d')"
    by (auto simp: reconcileCreditPurchaseRefund_def skipped_refund_def split: option.splits if_splits)
  let ?u = "ct_user original"
  from run obtain c0 d1 where ens: "ensureUserCredits own now ?u d = Inr (c0, d1)"
    and tr: "refund_transaction now i original d1 = Inr (out, d')"
    by (auto simp: with_credits_def transact_eq split: sum.splits)
  note same = ensure_same_tables [OF ens] ensure_same_balance [OF ens]
  have ok1: "credits_ok d1" using ensure_keeps_credits_ok [OF assms(1) ens] .
  have new1: "\<not> transaction_recorded (rr_event i) d1" using assms(4) same by simp
  have ok': "credits_ok d'" using refund_keeps_credits_ok [OF ok1 tr] .
  have set1: "setting_of k d1 = setting_of k d" for k by (simp add: setting_of_def same)
  have prov: "provisioned own ?u d1" by (rule ensure_makes_provisioned [OF ens])
  have "original_purchase (rr_payment i) d1 = Some original" using o(1) same(1) by (simp add: original_purchase_def)
  note step = refund_effect [OF ok1 tr new1 prov this, unfolded set1 same(4)]
  from step have prov': "provisioned own ?u d'" and o': "original_purchase (rr_payment i) d' = Some original"
    by blast+
  obtain out2 where out2: "refund_transaction later i original d' = Inr (out2, d')" "ro_skipped out2"
    "ro_revoked out2 = 0" using refund_replay [OF tr new1 amounts] by blast
  obtain c' where "ensureUserCredits own later ?u d' = Inr (c', d')"
    using ensure_provisioned [OF prov'] by blast
  with out2 o o' amounts ids have "reconcileCreditPurchaseRefund own later i d' = (Inr out2, d')"
    by (simp add: reconcileCreditPurchaseRefund_def with_credits_def transact_def)
  moreover have "0 \<le> credit_balance ?u d'"
    using ok' by (rule credit_balance_nonneg)
  ultimately show ?thesis using step o(1) ok' out2 by blast
qed

lemma invoice_granted_plan:
  assumes "invoice_transaction now u tier invo ent d = Inr ((g, False), d')"
  obtains c s where "getUserCredits u d = Some c"
    "g = (case getTierCreditRefill tier of None \<Rightarrow> 0 | Some a \<Rightarrow> a)"
    "d' = record_transaction now u g ''subscription_grant'' None (Some invo) s
       (set_credits u (set_plan now ent (uc_balance c + g)) d)"
  using assms by (auto simp: invoice_transaction_def split: if_splits option.splits)

definition invoice_credited :: "int \<Rightarrow> string \<Rightarrow> db \<Rightarrow> bool" where
  "invoice_credited u invo d \<longleftrightarrow>
     first_row (\<lambda>t. ct_user t = u \<and> ct_ref t = Some invo) (credit_transactions d) \<noteq> None"

lemma invoice_credited_same [simp]:
  "invoice_credited u invo (unpauseCreditExhaustedProjects now v d) = invoice_credited u invo d"
  by (simp add: invoice_credited_def)

lemma invoice_replay:
  assumes "invoice_credited u invo d" "provisioned own u d" "starts_with ''in_'' invo"
  shows "grantStripeInvoicePlanCredits own now u tier invo ent d = (Inr (0, True), d)"
  using ensure_provisioned [OF assms(2), of now] assms
  by (auto simp: grantStripeInvoicePlanCredits_def with_credits_def transact_def invoice_transaction_def
      invoice_credited_def)

lemma invoice_recorded_after:
  assumes run: "grantStripeInvoicePlanCredits own now u tier invo ent d = (Inr (g, sk), d')"
  shows "invoice_credited u invo d'" "provisioned own u d'" "starts_with ''in_'' invo"
proof -
  from run have st: "starts_with ''in_'' invo"
    by (auto simp: grantStripeInvoicePlanCredits_def split: if_splits)
  with run obtain c0 d1 d2 where ens: "ensureUserCredits own now u d = Inr (c0, d1)"
    and tr: "invoice_transaction now u tier invo ent d1 = Inr ((g, sk), d2)"
    and d': "d' = (if sk then d2 else unpauseCreditExhaustedProjects now u d2)"
    by (auto simp: grantStripeInvoicePlanCredits_def with_credits_def transact_def split: sum.splits prod.splits)
  have prov: "provisioned own u d1" by (rule ensure_makes_provisioned [OF ens])
  have "invoice_credited u invo d' \<and> provisioned own u d'"
  proof (cases sk)
    case True
    with tr prov d' show ?thesis
      by (auto simp: invoice_transaction_def invoice_credited_def split: if_splits option.splits)
  next
    case False
    with tr have "invoice_transaction now u tier invo ent d1 = Inr ((g, False), d2)" by simp
    then show ?thesis
    proof (rule invoice_granted_plan)
      fix c s assume c: "getUserCredits u d1 = Some c"
        and d2: "d2 = record_transaction now u g ''subscription_grant'' None (Some invo) s
          (set_credits u (set_plan now ent (uc_balance c + g)) d1)"
      have "getUserCredits u d2 = Some (set_plan now ent (uc_balance c + g) c)"
        unfolding d2 by (rule getUserCredits_record_set [OF c]) simp
      with prov c False d' have "provisioned own u d'"
        by (simp add: provisioned_def) (simp add: d2)
      moreover have "invoice_credited u invo d2"
        by (auto simp: d2 invoice_credited_def record_transaction_def first_row_None)
      ultimately show ?thesis using d' False by simp
    qed
  qed
  with st show "invoice_credited u invo d'" "provisioned own u d'" "starts_with ''in_'' invo" by simp_all
qed

type_synonym plan_invoice = "int \<times> int \<times> string \<times> string \<times> string"

fun deliver_plan_invoice ::
    "(string option \<Rightarrow> bool) \<Rightarrow> plan_invoice \<Rightarrow> db \<Rightarrow> (credit_error, int \<times> bool) result \<times> db" where
  "deliver_plan_invoice own (now, u, tier, invo, ent) d =
     grantStripeInvoicePlanCredits own now u tier invo ent d"

fun delivered_plan_invoice :: "(string option \<Rightarrow> bool) \<Rightarrow> plan_invoice \<Rightarrow> db \<Rightarrow> bool" where
  "delivered_plan_invoice own (now, u, tier, invo, ent) d \<longleftrightarrow>
     invoice_credited u invo d \<and> provisioned own u d"

interpretation plan_invoice: idempotent_operation "deliver_plan_invoice own" "delivered_plan_invoice own" for own
proof
  fix i d r d' assume "deliver_plan_invoice own i d = (Inr r, d')"
  then show "delivered_plan_invoice own i d'"
    by (cases i; cases r) (auto dest: invoice_recorded_after)
next
  fix i d assume rec: "delivered_plan_invoice own i d"
  obtain now u tier invo ent where i: "i = (now, u, tier, invo, ent)" by (cases i)
  show "snd (deliver_plan_invoice own i d) = d"
  proof (cases "starts_with ''in_'' invo")
    case True
    with rec show ?thesis by (simp add: i invoice_replay)
  qed (simp add: i grantStripeInvoicePlanCredits_def)
qed

text \<open>
  A settled plan invoice grants once: the first delivery adds exactly the credits of the paid
  tier to exactly that customer and sets the entitlement, and every redelivery, even with another
  tier or at another time, is skipped without a change.
\<close>

theorem plan_invoice_grants_once:
  assumes "grantStripeInvoicePlanCredits own now u tier invo ent d = (Inr (g, False), d')"
  shows "g = (case getTierCreditRefill tier of None \<Rightarrow> 0 | Some a \<Rightarrow> a) \<and>
    credit_balance u d' = credit_balance u d + g \<and>
    (\<forall>v. v \<noteq> u \<longrightarrow> credit_balance v d' = credit_balance v d) \<and>
    Option.bind (getUserCredits u d') uc_tier = Some ent \<and>
    ((\<lambda>x. snd (grantStripeInvoicePlanCredits own now u tier invo ent x)) ^^ n) d' = d' \<and>
    (\<forall>later tier2 ent2.
      grantStripeInvoicePlanCredits own later u tier2 invo ent2 d' = (Inr (0, True), d'))"
proof -
  note rec = invoice_recorded_after [OF assms]
  have idle: "((\<lambda>x. snd (grantStripeInvoicePlanCredits own now u tier invo ent x)) ^^ n) d' = d'"
    using plan_invoice.redelivery [of own "(now, u, tier, invo, ent)" d "(g, False)" d' n] assms
    by (simp add: plan_invoice.deliver_def [abs_def])
  from assms rec(3) obtain c0 d1 d2 where ens: "ensureUserCredits own now u d = Inr (c0, d1)"
    and tr: "invoice_transaction now u tier invo ent d1 = Inr ((g, False), d2)"
    and d': "d' = unpauseCreditExhaustedProjects now u d2"
    by (auto simp: grantStripeInvoicePlanCredits_def with_credits_def transact_eq transact_def
        split: sum.splits prod.splits if_splits)
  from tr show ?thesis
  proof (rule invoice_granted_plan)
    fix c s assume c: "getUserCredits u d1 = Some c"
      and g: "g = (case getTierCreditRefill tier of None \<Rightarrow> 0 | Some a \<Rightarrow> a)"
      and d2: "d2 = record_transaction now u g ''subscription_grant'' None (Some invo) s
        (set_credits u (set_plan now ent (uc_balance c + g)) d1)"
    have own: "getUserCredits u d' = Some (set_plan now ent (uc_balance c + g) c)"
      unfolding d' d2 getUserCredits_unpause by (rule getUserCredits_record_set [OF c]) simp
    have "credit_balance v d' = credit_balance v d" if "v \<noteq> u" for v
      using that ensure_same_balance [OF ens, of v] credit_balance_other [of u "set_plan now ent (uc_balance c + g)" v d1]
      by (simp add: d' d2 credit_balance_def)
    with own c g ensure_same_balance [OF ens, of u] idle invoice_replay [OF rec] show ?thesis
      by (simp add: credit_balance_def)
  qed
qed

text \<open>
  A webhook event is handled once: when an event was processed, its handler ran exactly if
  the event was new and then its changes and the event's record are in the database; a replay of
  the event, whatever handler it would reach, is answered as already processed without a change.
  A failed handler leaves the event unrecorded.
\<close>

theorem stripe_event_handled_once:
  assumes "processStripeEventOnce e t h d = (r, d')" "\<forall>x. event_processed e (snd (h x)) = event_processed e x"
  shows "(\<forall>b. r = Inr b \<longrightarrow> (b \<longleftrightarrow> \<not> event_processed e d) \<and> event_processed e d' \<and>
      (if b then \<exists>d1. h d = (Inr (), d1) \<and>
          d' = d1\<lparr>stripe_events := stripe_events d1 @ [\<lparr>se_id = e, se_type = t\<rparr>]\<rparr>
       else d' = d) \<and>
      (\<forall>t2 h2. processStripeEventOnce e t2 h2 d' = (Inr False, d')) \<and>
      ((\<lambda>x. snd (processStripeEventOnce e t h x)) ^^ n) d' = d') \<and>
    (\<forall>f. r = Inl f \<longrightarrow> \<not> event_processed e d' \<and> d' = snd (h d))"
proof (intro conjI allI impI)
  fix b assume "r = Inr b"
  with assms(1) have run: "processStripeEventOnce e t h d = (Inr b, d')" by simp
  from run show stored: "event_processed e d'" by (rule processed_event)
  from run show "b \<longleftrightarrow> \<not> event_processed e d"
    by (auto simp: processStripeEventOnce_def split: if_splits prod.splits sum.splits)
  from run show "if b then \<exists>d1. h d = (Inr (), d1) \<and>
          d' = d1\<lparr>stripe_events := stripe_events d1 @ [\<lparr>se_id = e, se_type = t\<rparr>]\<rparr>
       else d' = d"
    by (auto simp: processStripeEventOnce_def split: if_splits prod.splits sum.splits)
  from stored show "processStripeEventOnce e t2 h2 d' = (Inr False, d')" for t2 h2
    by (simp add: processStripeEventOnce_def)
  show "((\<lambda>x. snd (processStripeEventOnce e t h x)) ^^ n) d' = d'"
    using stripe_event.redelivery [of h "(e, t)" d b d' n] run
    by (simp add: stripe_event.deliver_def [abs_def] deliver_event_def)
next
  fix f assume "r = Inl f"
  with assms(1) have run: "processStripeEventOnce e t h d = (Inl f, d')" by simp
  have new: "event_processed e (snd (h d)) = event_processed e d" using assms(2) by blast
  from run new show "\<not> event_processed e d'" "d' = snd (h d)"
    by (auto simp: processStripeEventOnce_def split: if_splits prod.splits sum.splits)
qed

section \<open>A concrete refund\<close>

definition sample_refund :: refund_request where
  "sample_refund = \<lparr>rr_payment = ''pi_2'', rr_event = ''evt_1'', rr_charge = 1000,
     rr_refunded = 500, rr_full = False\<rparr>"

definition sample_refunded :: db where
  "sample_refunded = snd (reconcileCreditPurchaseRefund nobody 20 sample_refund sample_purchased)"

lemma sample_purchased_ok: "credits_ok sample_purchased"
proof -
  have "addCredits nobody 10 1 50 ''purchase'' None (Some ''pi_2'') sample_credits =
      (Inr 57, sample_purchased)" by code_simp
  with operations_keep_credits_ok(3) [OF sample_credits_ok] show ?thesis by blast
qed

definition sample_refund_outcome :: refund_outcome where
  "sample_refund_outcome = \<lparr>ro_target = 25, ro_revoked = 25, ro_unrecovered = 0, ro_skipped = False,
     ro_missing = False\<rparr>"

theorem refund_is_cumulative_witness:
  "\<exists>out2. reconcileCreditPurchaseRefund nobody 30 sample_refund sample_refunded = (Inr out2, sample_refunded) \<and>
     ro_revoked out2 = 0"
proof -
  have pre: "reconcileCreditPurchaseRefund nobody 20 sample_refund sample_purchased =
      (Inr sample_refund_outcome, sample_refunded)"
    "\<not> ro_missing sample_refund_outcome" "\<not> transaction_recorded (rr_event sample_refund) sample_purchased"
    by code_simp+
  from refund_is_cumulative [OF sample_purchased_ok pre, of 30] show ?thesis by blast
qed

theorem refund_target_bounds_witness:
  "(25 :: int) \<le> 50"
proof -
  have pre: "calculateCreditRefundAdjustment \<lparr>ri_original = 50, ri_charge = 1000, ri_refunded = 500,
      ri_full = False, ri_accounted = 10\<rparr> = Inr \<lparr>ra_target = 25, ra_delta = 15\<rparr>"
    "calculateCreditRefundAdjustment (\<lparr>ri_original = 50, ri_charge = 1000, ri_refunded = 500,
      ri_full = False, ri_accounted = 10\<rparr>\<lparr>ri_refunded := 1000, ri_full := True\<rparr>) =
      Inr \<lparr>ra_target = 50, ra_delta = 40\<rparr>"
    by code_simp+
  from refund_target_bounds [OF pre] show ?thesis by simp
qed

definition sample_invoiced :: db where
  "sample_invoiced = snd (grantStripeInvoicePlanCredits nobody 10 1 ''starter'' ''in_7'' ''starter'' sample_credits)"

theorem plan_invoice_grants_once_witness:
  "credit_balance 1 sample_invoiced = credit_balance 1 sample_credits + 100 \<and>
   grantStripeInvoicePlanCredits nobody 99 1 ''studio'' ''in_7'' ''studio'' sample_invoiced =
     (Inr (0, True), sample_invoiced)"
proof -
  have run: "grantStripeInvoicePlanCredits nobody 10 1 ''starter'' ''in_7'' ''starter'' sample_credits =
      (Inr (100, False), sample_invoiced)" by code_simp
  from plan_invoice_grants_once [OF run] show ?thesis by blast
qed

theorem stripe_event_handled_once_witness:
  "\<exists>d'. processStripeEventOnce ''evt_9'' ''charge.refunded'' (\<lambda>d. (Inr (), d)) sample_credits =
     ((Inr True :: (unit event_failure, bool) result), d') \<and> event_processed ''evt_9'' d'"
proof -
  let ?h = "\<lambda>d :: db. ((Inr () :: (unit, unit) result), d)"
  obtain r d' where run: "processStripeEventOnce ''evt_9'' ''charge.refunded'' ?h sample_credits = (r, d')"
    by fastforce
  have new: "\<not> event_processed ''evt_9'' sample_credits" by code_simp
  from run new have "\<exists>b. r = Inr b" by (auto simp: processStripeEventOnce_def)
  moreover have "\<forall>x. event_processed ''evt_9'' (snd (?h x)) = event_processed ''evt_9'' x" by simp
  ultimately show ?thesis using stripe_event_handled_once [OF run] new run by auto
qed

end
