(* ===== verification/CreditRuns.thy ===== *)
theory CreditRuns
  imports StripeCredits
begin

text \<open>
  The customer credit balance as a transition system: any interleaving of the operations of
  \<open>UserCredits\<close> and \<open>StripeCredits\<close>, and of everything else that leaves the credit tables and
  the owner alone. In every reachable database the balances are the books, and unlimited credits
  belong to the owner.
\<close>

inductive credit_step :: "(string option \<Rightarrow> bool) \<Rightarrow> db \<Rightarrow> db \<Rightarrow> bool" for own where
  credit_refill: "refillMonthlyCredits own now u tier d = (r, d') \<Longrightarrow> credit_step own d d'"
| credit_deduct: "deductCredits own now u amount project description d = (s, d') \<Longrightarrow> credit_step own d d'"
| credit_add: "addCredits own now u amount kind description key d = (s, d') \<Longrightarrow> credit_step own d d'"
| credit_plan: "grantPlanCredits own now u plan key d = (g, d') \<Longrightarrow> credit_step own d d'"
| credit_code: "applyGodCodeGrant own now u grant amount d = (g, d') \<Longrightarrow> credit_step own d d'"
| credit_sync: "credit_step own d (syncTierFromSubscription u d)"
| credit_refund: "reconcileCreditPurchaseRefund own now i d = (f, d') \<Longrightarrow> credit_step own d d'"
| credit_invoice: "grantStripeInvoicePlanCredits own now u plan invoice entitlement d = (g, d') \<Longrightarrow>
    credit_step own d d'"
| credit_elsewhere: "same_credit_tables d d' \<Longrightarrow> (\<forall>u. is_owner own u d \<longrightarrow> is_owner own u d') \<Longrightarrow>
    credit_step own d d'"

lemma step_keeps_credits_ok: "credit_step own d d' \<Longrightarrow> credits_ok d \<Longrightarrow> credits_ok d'"
  by (induction rule: credit_step.induct)
    (auto intro: operations_keep_credits_ok stripe_keeps_credits_ok simp: same_credit_tables_ok)

interpretation credit_books: guarded_system "credit_step own" credits_ok for own
  by unfold_locales (rule step_keeps_credits_ok)

section \<open>Unlimited credits\<close>

definition unlimited_ok :: "(string option \<Rightarrow> bool) \<Rightarrow> db \<Rightarrow> bool" where
  "unlimited_ok own d \<longleftrightarrow> (\<forall>c \<in> set (user_credits d). uc_unlimited c \<longrightarrow> is_owner own (uc_user c) d)"

lemma unlimited_ok_set_credits:
  assumes "unlimited_ok own d" "\<And>c. own_credits u c \<Longrightarrow> uc_user (f c) = uc_user c"
    "\<And>c. own_credits u c \<Longrightarrow> uc_unlimited (f c) \<Longrightarrow> uc_unlimited c \<or> is_owner own u d"
  shows "unlimited_ok own (set_credits u f d)"
proof -
  have "uc_unlimited x \<longrightarrow> is_owner own (uc_user x) d"
    if x: "x \<in> set (user_credits (set_credits u f d))" for x
  proof -
    from x obtain c where c: "c \<in> set (user_credits d)" "x = (if own_credits u c then f c else c)"
      by (auto simp: set_credits_def set_update_where)
    show ?thesis
    proof (cases "own_credits u c")
      case True
      with c assms show ?thesis by (auto simp: unlimited_ok_def own_credits_def)
    next
      case False
      with c assms(1) show ?thesis by (simp add: unlimited_ok_def)
    qed
  qed
  then show ?thesis by (simp add: unlimited_ok_def)
qed

lemma unlimited_ok_frame [simp]:
  "unlimited_ok own (record_transaction now u a k p r s d) = unlimited_ok own d"
  "unlimited_ok own (unpauseCreditExhaustedProjects now u d) = unlimited_ok own d"
  "unlimited_ok own (upsert_setting key v d) = unlimited_ok own d"
  by (simp_all add: unlimited_ok_def)

lemma unlimited_ok_balances:
  assumes "unlimited_ok own d"
  shows "unlimited_ok own (set_credits u (set_plan now t b) d)"
    and "unlimited_ok own (set_credits u (set_balance b) d)"
    and "unlimited_ok own (set_credits u (\<lambda>c. c\<lparr>uc_balance := b\<rparr>) d)"
    and "unlimited_ok own (set_credits u (\<lambda>c. c\<lparr>uc_tier := t2\<rparr>) d)"
    and "is_owner own u d \<Longrightarrow> unlimited_ok own (set_credits u (\<lambda>c. c\<lparr>uc_unlimited := True, uc_tier := t2\<rparr>) d)"
  by (rule unlimited_ok_set_credits [OF assms]; simp add: set_balance_def)+

lemma ensure_keeps_unlimited:
  assumes ok: "unlimited_ok own d" and run: "ensureUserCredits own now u d = Inr (c, d1)"
  shows "unlimited_ok own d1"
proof (cases "getUserCredits u d")
  case (Some e)
  with run ok show ?thesis
    by (auto simp: ensureUserCredits_def Let_def split: if_splits intro!: unlimited_ok_set_credits)
next
  case None
  with run have d1: "d1 = d\<lparr>user_credits := user_credits d @ [new_credits now u (is_owner own u d)]\<rparr>"
    by (auto simp: ensureUserCredits_def Let_def split: if_splits)
  have same: "is_owner own v d1 = is_owner own v d" for v by (rule ensure_makes_provisioned(2) [OF run])
  from ok show ?thesis
    unfolding unlimited_ok_def same by (auto simp: d1 new_credits_def)
qed

lemma with_credits_keeps_unlimited:
  assumes ok: "unlimited_ok own d" and run: "with_credits own now u t d = (r, d')"
    and t: "\<And>d1 a d2. unlimited_ok own d1 \<Longrightarrow> t d1 = Inr (a, d2) \<Longrightarrow> unlimited_ok own d2"
  shows "unlimited_ok own d'"
proof (cases "ensureUserCredits own now u d")
  case (Inl e)
  with run ok show ?thesis by (simp add: with_credits_def)
next
  case (Inr p)
  obtain c d1 where p: "p = (c, d1)" by (cases p)
  with Inr ok have ok1: "unlimited_ok own d1" by (auto intro: ensure_keeps_unlimited)
  from run Inr p have run1: "transact t d1 = (r, d')" by (simp add: with_credits_def)
  with ok1 t show ?thesis by (cases r) (auto simp: transact_eq)
qed

lemma transactions_keep_unlimited:
  assumes ok: "unlimited_ok own d"
  shows "refill_transaction now u tier d = Inr (x, d') \<Longrightarrow> unlimited_ok own d'"
    and "deduct_transaction now u amount project description d = Inr (y, d') \<Longrightarrow> unlimited_ok own d'"
    and "add_transaction now u amount kind description key d = Inr (z, d') \<Longrightarrow> unlimited_ok own d'"
    and "plan_transaction now u plan key d = Inr (z, d') \<Longrightarrow> unlimited_ok own d'"
    and "code_transaction own now u grant amount d = Inr (z, d') \<Longrightarrow> unlimited_ok own d'"
    and "refund_transaction now i original d = Inr (out, d') \<Longrightarrow> unlimited_ok own d'"
    and "invoice_transaction now u plan invoice entitlement d = Inr (z, d') \<Longrightarrow> unlimited_ok own d'"
proof -
  note keep = unlimited_ok_balances [OF ok]
  show "refill_transaction now u tier d = Inr (x, d') \<Longrightarrow> unlimited_ok own d'"
    using ok by (cases x, simp, erule_tac refill_cases) (simp_all add: keep)
  show "deduct_transaction now u amount project description d = Inr (y, d') \<Longrightarrow> unlimited_ok own d'"
    using ok by (auto simp: deduct_transaction_def Let_def keep split: option.splits if_splits)
  show "add_transaction now u amount kind description key d = Inr (z, d') \<Longrightarrow> unlimited_ok own d'"
    using ok by (auto simp: add_transaction_def keep split: option.splits if_splits)
  show "plan_transaction now u plan key d = Inr (z, d') \<Longrightarrow> unlimited_ok own d'"
    using ok by (auto simp: plan_transaction_def keep split: option.splits if_splits)
  show "invoice_transaction now u plan invoice entitlement d = Inr (z, d') \<Longrightarrow> unlimited_ok own d'"
    using ok by (auto simp: invoice_transaction_def keep split: option.splits if_splits)
  show "refund_transaction now i original d = Inr (out, d') \<Longrightarrow> unlimited_ok own d'"
    using ok by (erule_tac refund_cases) (simp_all add: keep)
  show "unlimited_ok own d'" if run: "code_transaction own now u grant amount d = Inr (z, d')"
  proof (cases grant)
    case LifetimeGrant
    with run ok show ?thesis
      by (simp add: code_transaction_def split: option.splits if_splits) (simp_all add: keep)
  next
    case LimitedGrant
    with run ok show ?thesis
      by (simp add: code_transaction_def split: option.splits if_splits) (auto simp: keep)
  qed
qed

lemma step_keeps_unlimited:
  "credit_step own d d' \<Longrightarrow> unlimited_ok own d \<Longrightarrow> unlimited_ok own d'"
proof (induction rule: credit_step.induct)
  case (credit_refill now u tier d r d')
  obtain x y where run: "with_credits own now u (refill_transaction now u tier) d = (x, y)" by fastforce
  have "unlimited_ok own y"
    by (rule with_credits_keeps_unlimited [OF credit_refill.prems run]) (rule transactions_keep_unlimited(1))
  with credit_refill run show ?case
    by (simp add: refillMonthlyCredits_def split: if_splits)
next
  case (credit_deduct now u amount project description d s d')
  obtain x y where run: "with_credits own now u (deduct_transaction now u amount project description) d = (x, y)" by fastforce
  have "unlimited_ok own y"
    by (rule with_credits_keeps_unlimited [OF credit_deduct.prems run]) (rule transactions_keep_unlimited(2))
  with credit_deduct run show ?case
    by (simp add: deductCredits_def split: if_splits)
next
  case (credit_add now u amount kind description key d s d')
  obtain x y where run: "with_credits own now u (add_transaction now u amount kind description key) d = (x, y)" by fastforce
  have "unlimited_ok own y"
    by (rule with_credits_keeps_unlimited [OF credit_add.prems run]) (rule transactions_keep_unlimited(3))
  with credit_add run show ?case
    by (auto simp: addCredits_def split: if_splits prod.splits sum.splits)
next
  case (credit_plan now u plan key d g d')
  obtain x y where run: "with_credits own now u (plan_transaction now u plan key) d = (x, y)" by fastforce
  have "unlimited_ok own y"
    by (rule with_credits_keeps_unlimited [OF credit_plan.prems run]) (rule transactions_keep_unlimited(4))
  with credit_plan run show ?case
    by (auto simp: grantPlanCredits_def split: if_splits prod.splits sum.splits)
next
  case (credit_code now u grant amount d g d')
  obtain x y where run: "with_credits own now u (code_transaction own now u grant amount) d = (x, y)" by fastforce
  have "unlimited_ok own y"
    by (rule with_credits_keeps_unlimited [OF credit_code.prems run]) (rule transactions_keep_unlimited(5))
  with credit_code run show ?case
    by (auto simp: applyGodCodeGrant_def split: if_splits prod.splits sum.splits)
next
  case (credit_sync d u)
  show ?case
  proof (cases "\<exists>t. syncTierFromSubscription u d = set_credits u (\<lambda>c. c\<lparr>uc_tier := t\<rparr>) d")
    case True
    with unlimited_ok_balances(4) [OF credit_sync] show ?thesis by auto
  next
    case False
    then have "syncTierFromSubscription u d = d"
      by (auto simp: syncTierFromSubscription_def split: option.splits)
    with credit_sync show ?thesis by simp
  qed
next
  case (credit_refund now i d f d')
  then show ?case
    by (auto simp: reconcileCreditPurchaseRefund_def split: if_splits option.splits
        elim: with_credits_keeps_unlimited intro: transactions_keep_unlimited(6))
next
  case (credit_invoice now u plan invoice entitlement d g d')
  obtain x y where run: "with_credits own now u (invoice_transaction now u plan invoice entitlement) d = (x, y)" by fastforce
  have "unlimited_ok own y"
    by (rule with_credits_keeps_unlimited [OF credit_invoice.prems run]) (rule transactions_keep_unlimited(7))
  with credit_invoice run show ?case
    by (auto simp: grantStripeInvoicePlanCredits_def split: if_splits prod.splits sum.splits)
next
  case credit_elsewhere
  then show ?case by (auto simp: unlimited_ok_def same_credit_tables_def)
qed

interpretation credit_owner: guarded_system "credit_step own" "unlimited_ok own" for own
  by unfold_locales (rule step_keeps_unlimited)

lemma credit_balance_total:
  assumes "credits_ok d"
  shows "credit_balance u d = credit_total u d"
proof (cases "getUserCredits u d")
  case None
  then have "u \<notin> uc_user ` set (user_credits d)"
    by (auto simp: getUserCredits_def first_row_None own_credits_def)
  with assms have "credit_total u d = 0"
    unfolding credit_total_def by (intro sum_where_zero) (auto simp: credits_ok_def)
  with None show ?thesis by (simp add: credit_balance_def)
next
  case (Some c)
  with getUserCredits_Some [OF Some] assms show ?thesis by (auto simp: credit_balance_def credits_ok_def)
qed


definition run_customer :: db where
  "run_customer = empty_db\<lparr>users := [\<lparr>u_id = 1, u_email = Some ''a@b.c''\<rparr>]\<rparr>"

definition run_purchased :: db where
  "run_purchased = snd (addCredits nobody 10 1 50 ''purchase'' None (Some ''pi_2'') run_customer)"

definition run_spent :: db where
  "run_spent = snd (deductCredits nobody 11 1 5 (Some 7) None run_purchased)"


end
