(* ===== verification/Books.thy ===== *)
theory Books
  imports LedgerRuns CreditRuns
begin

text \<open>
  The two sets of books side by side. Every operation of the provider-credit subsystem is a step
  that leaves the customer credit tables alone, and every operation on customer credits leaves
  the provider-credit tables alone; so code that mixes both runs both transition systems at once
  and keeps both invariants.
\<close>

locale two_systems = one: guarded_system step1 inv1 + two: guarded_system step2 inv2
  for step1 :: "'s \<Rightarrow> 's \<Rightarrow> bool" and inv1 and step2 :: "'s \<Rightarrow> 's \<Rightarrow> bool" and inv2 +
  fixes start :: 's
  assumes start_ok: "inv1 start \<and> inv2 start"
begin

lemma both_keep: "step1\<^sup>*\<^sup>* s s' \<Longrightarrow> step2\<^sup>*\<^sup>* s s' \<Longrightarrow> inv1 s \<and> inv2 s \<Longrightarrow> inv1 s' \<and> inv2 s'"
  using one.run_keeps two.run_keeps by blast

lemma both_from_start: "step1\<^sup>*\<^sup>* start s \<Longrightarrow> step2\<^sup>*\<^sup>* start s \<Longrightarrow> inv1 s \<and> inv2 s"
  using both_keep start_ok by blast

end

lemma empty_credits_ok: "credits_ok empty_db"
  by code_simp

interpretation books: two_systems ledger_step consistent "credit_step own" credits_ok empty_db for own
  by unfold_locales (simp add: empty_consistent empty_credits_ok)

definition books_run :: "(string option \<Rightarrow> bool) \<Rightarrow> db \<Rightarrow> db \<Rightarrow> bool" where
  "books_run own d d' \<longleftrightarrow> ledger_step\<^sup>*\<^sup>* d d' \<and> (credit_step own)\<^sup>*\<^sup>* d d'"

named_theorems books_runs \<open>operations as runs of both systems\<close>

lemma books_run_refl [books_runs]: "books_run own d d"
  by (simp add: books_run_def)

lemma books_run_trans [trans]: "books_run own d d1 \<Longrightarrow> books_run own d1 d2 \<Longrightarrow> books_run own d d2"
  by (meson books_run_def rtranclp_trans)

lemma books_run_keeps:
  "books_run own d d' \<Longrightarrow> consistent d \<and> credits_ok d \<Longrightarrow> consistent d' \<and> credits_ok d'"
  unfolding books_run_def using books.both_keep by blast

lemma books_run_from_empty: "books_run own empty_db d \<Longrightarrow> consistent d \<and> credits_ok d"
  unfolding books_run_def using books.both_from_start by blast

section \<open>Provider credits leave the customer credits alone\<close>

definition same_customer_side :: "db \<Rightarrow> db \<Rightarrow> bool" where
  "same_customer_side d d' \<longleftrightarrow> same_credit_tables d d' \<and> users d' = users d"

lemma same_side_credit_step: "same_customer_side d d' \<Longrightarrow> credit_step own d d'"
  by (rule credit_elsewhere) (simp_all add: same_customer_side_def is_owner_def)

lemma ledger_books_run:
  "ledger_step d d' \<Longrightarrow> same_customer_side d d' \<Longrightarrow> books_run own d d'"
  by (simp add: books_run_def r_into_rtranclp same_side_credit_step)

lemma provider_operations_same_side:
  "reserveProviderSpend now i d = Inr (out, d') \<Longrightarrow> same_customer_side d d'"
  "releaseProviderSpend u k d = Inr ((), d') \<Longrightarrow> same_customer_side d d'"
  "reserveProviderCreditTopUp now fresh u pack expires d = Inr (ord, d') \<Longrightarrow> same_customer_side d d'"
  "expireProviderCreditTopUp k u s d = Inr (x, d') \<Longrightarrow> same_customer_side d d'"
  "fulfillProviderCreditTopUp f d = Inr (g, d') \<Longrightarrow> same_customer_side d d'"
  "grantStripeInvoiceProviderCredits u tier invoice st en d = Inr (g, d') \<Longrightarrow> same_customer_side d d'"
proof -
  show "reserveProviderSpend now i d = Inr (out, d') \<Longrightarrow> same_customer_side d d'"
    by (cases out) (auto elim!: reserve_reserved simp: same_customer_side_def same_credit_tables_def,
      auto simp: reserveProviderSpend_def Let_def same_customer_side_def same_credit_tables_def
        split: if_splits option.splits)
qed (auto elim!: release_cases topup_reserved topup_expired topup_fulfilled invoice_granted
    simp: same_customer_side_def same_credit_tables_def)

lemma settle_same_side: "settleProviderSpend u k v d = (r, d') \<Longrightarrow> same_customer_side d d'"
  by (cases "settle_transaction u k v d")
    (auto simp: settleProviderSpend_def same_customer_side_def same_credit_tables_def
      split: if_splits elim: settle_cases)

lemma checkout_same_side:
  "createProviderCreditCheckout env now fresh u pack d = (answer, d') \<Longrightarrow> same_customer_side d d'"
  by (auto simp: createProviderCreditCheckout_def Let_def same_customer_side_def same_credit_tables_def
      split: sum.splits option.splits if_splits prod.splits elim!: topup_reserved)

lemma provider_books_run [books_runs]:
  "reserveProviderSpend now i d = Inr (out, d') \<Longrightarrow> books_run own d d'"
  "settleProviderSpend u k v d = (r, d') \<Longrightarrow> books_run own d d'"
  "releaseProviderSpend u k d = Inr ((), d') \<Longrightarrow> books_run own d d'"
  "reserveProviderCreditTopUp now fresh u pack expires d = Inr (ord, d') \<Longrightarrow> books_run own d d'"
  "createProviderCreditCheckout env now fresh u pack d = (answer, d') \<Longrightarrow> books_run own d d'"
  "expireProviderCreditTopUp k u s d = Inr (x, d') \<Longrightarrow> books_run own d d'"
  "fulfillProviderCreditTopUp f d = Inr (g, d') \<Longrightarrow> books_run own d d'"
  "grantStripeInvoiceProviderCredits u tier invoice st en d = Inr (g, d') \<Longrightarrow> books_run own d d'"
  by (rule ledger_books_run; (erule ledger_step.intros | erule provider_operations_same_side
      settle_same_side checkout_same_side))+

section \<open>Customer credits leave the provider credits alone\<close>

lemma same_provider_refl [simp]: "same_provider_tables d d"
  by (simp add: same_provider_tables_def)

lemma same_provider_trans:
  "same_provider_tables d d1 \<Longrightarrow> same_provider_tables d1 d2 \<Longrightarrow> same_provider_tables d d2"
  by (simp add: same_provider_tables_def)

lemma same_provider_frame [simp]:
  "same_provider_tables d (set_credits u f d1) = same_provider_tables d d1"
  "same_provider_tables d (record_transaction now u a k p r s d1) = same_provider_tables d d1"
  "same_provider_tables d (unpauseCreditExhaustedProjects now u d1) = same_provider_tables d d1"
  "same_provider_tables d (upsert_setting key v d1) = same_provider_tables d d1"
  by (simp_all add: same_provider_tables_def set_credits_def record_transaction_def
      unpauseCreditExhaustedProjects_def upsert_setting_def)

lemma ensure_same_provider: "ensureUserCredits own now u d = Inr (c, d1) \<Longrightarrow> same_provider_tables d d1"
  by (cases rule: ensureUserCredits_cases) (auto simp: same_provider_tables_def set_credits_def)

lemma with_credits_same_provider:
  assumes run: "with_credits own now u t d = (r, d')"
    and t: "\<And>d1 a d2. t d1 = Inr (a, d2) \<Longrightarrow> same_provider_tables d1 d2"
  shows "same_provider_tables d d'"
proof (cases "ensureUserCredits own now u d")
  case (Inl e)
  with run show ?thesis by (simp add: with_credits_def)
next
  case (Inr p)
  obtain c d1 where p: "p = (c, d1)" by (cases p)
  with Inr have d1: "same_provider_tables d d1" by (auto intro: ensure_same_provider)
  from run Inr p have "transact t d1 = (r, d')" by (simp add: with_credits_def)
  with t have "same_provider_tables d1 d'" by (cases r) (auto simp: transact_eq)
  with d1 show ?thesis by (rule same_provider_trans)
qed

lemma transactions_same_provider:
  "refill_transaction now u tier d = Inr (x, d') \<Longrightarrow> same_provider_tables d d'"
  "deduct_transaction now u n project description d = Inr (y, d') \<Longrightarrow> same_provider_tables d d'"
  "add_transaction now u n kind description key d = Inr (z, d') \<Longrightarrow> same_provider_tables d d'"
  "plan_transaction now u plan key d = Inr (z, d') \<Longrightarrow> same_provider_tables d d'"
  "invoice_transaction now u plan invoice entitlement d = Inr (z, d') \<Longrightarrow> same_provider_tables d d'"
  "code_transaction own now u grant n d = Inr (z, d') \<Longrightarrow> same_provider_tables d d'"
  "refund_transaction now i original d = Inr (out, d') \<Longrightarrow> same_provider_tables d d'"
proof -
  show "refill_transaction now u tier d = Inr (x, d') \<Longrightarrow> same_provider_tables d d'"
    by (cases x, simp, erule refill_cases) simp_all
  show "code_transaction own now u grant n d = Inr (z, d') \<Longrightarrow> same_provider_tables d d'"
    by (cases grant) (auto simp: code_transaction_def split: option.splits if_splits)
  show "refund_transaction now i original d = Inr (out, d') \<Longrightarrow> same_provider_tables d d'"
    by (erule refund_cases) simp_all
qed (auto simp: deduct_transaction_def add_transaction_def plan_transaction_def
    invoice_transaction_def Let_def split: option.splits if_splits)

lemma runs_of_transactions:
  "with_credits own now u (refill_transaction now u tier) d = (r0, d') \<Longrightarrow> same_provider_tables d d'"
  "with_credits own now u (deduct_transaction now u n project description) d = (r1, d') \<Longrightarrow> same_provider_tables d d'"
  "with_credits own now u (add_transaction now u n kind description key) d = (r2, d') \<Longrightarrow> same_provider_tables d d'"
  "with_credits own now u (plan_transaction now u plan key) d = (r3, d') \<Longrightarrow> same_provider_tables d d'"
  "with_credits own now u (invoice_transaction now u plan invoice entitlement) d = (r4, d') \<Longrightarrow> same_provider_tables d d'"
  "with_credits own now u (code_transaction own now u grant n) d = (r5, d') \<Longrightarrow> same_provider_tables d d'"
  "with_credits own now w (refund_transaction now i original) d = (r6, d') \<Longrightarrow> same_provider_tables d d'"
  by (erule with_credits_same_provider, erule transactions_same_provider)+

lemma credit_operations_same_provider:
  "refillMonthlyCredits own now u tier d = (x, d') \<Longrightarrow> same_provider_tables d d'"
  "deductCredits own now u n project description d = (y, d') \<Longrightarrow> same_provider_tables d d'"
  "addCredits own now u n kind description key d = (z, d') \<Longrightarrow> same_provider_tables d d'"
  "grantPlanCredits own now u plan key d = (g, d') \<Longrightarrow> same_provider_tables d d'"
  "applyGodCodeGrant own now u grant n d = (h, d') \<Longrightarrow> same_provider_tables d d'"
  "syncTierFromSubscription u d = d' \<Longrightarrow> same_provider_tables d d'"
  "reconcileCreditPurchaseRefund own now i d = (f, d') \<Longrightarrow> same_provider_tables d d'"
  "grantStripeInvoicePlanCredits own now u plan invoice entitlement d = (k, d') \<Longrightarrow> same_provider_tables d d'"
  by (auto simp: refillMonthlyCredits_def deductCredits_def addCredits_def grantPlanCredits_def
      applyGodCodeGrant_def reconcileCreditPurchaseRefund_def grantStripeInvoicePlanCredits_def
      syncTierFromSubscription_def
      split: if_splits prod.splits sum.splits option.splits dest: runs_of_transactions)

lemma credit_books_run:
  "credit_step own d d' \<Longrightarrow> same_provider_tables d d' \<Longrightarrow> books_run own d d'"
  by (simp add: books_run_def r_into_rtranclp step_elsewhere)

lemma customer_books_run [books_runs]:
  "refillMonthlyCredits own now u tier d = (x, d') \<Longrightarrow> books_run own d d'"
  "deductCredits own now u n project description d = (y, d') \<Longrightarrow> books_run own d d'"
  "addCredits own now u n kind description key d = (z, d') \<Longrightarrow> books_run own d d'"
  "grantPlanCredits own now u plan key d = (g, d') \<Longrightarrow> books_run own d d'"
  "applyGodCodeGrant own now u grant n d = (h, d') \<Longrightarrow> books_run own d d'"
  "syncTierFromSubscription u d = d' \<Longrightarrow> books_run own d d'"
  "reconcileCreditPurchaseRefund own now i d = (f, d') \<Longrightarrow> books_run own d d'"
  "grantStripeInvoicePlanCredits own now u plan invoice entitlement d = (k, d') \<Longrightarrow> books_run own d d'"
  by (rule credit_books_run; (erule credit_step.intros | hypsubst, rule credit_sync
      | erule credit_operations_same_provider | rule credit_operations_same_provider(6) [OF refl]))+

lemma elsewhere_books_run:
  "same_provider_tables d d' \<Longrightarrow> same_customer_side d d' \<Longrightarrow> books_run own d d'"
  by (simp add: ledger_books_run step_elsewhere)

end
