(* ===== verification/StripeEvents.thy ===== *)
theory StripeEvents
  imports Books
begin

text \<open>
  What arrives from Stripe and how the webhook reads it: the objects of
  \<open>src/webhooks/stripe.ts\<close>, the ownership rules of \<open>appForgeStripeOwnership.ts\<close> on an account
  shared with other products, and the functions that turn metadata, references and prices into
  customers, tiers and credit packs. Objects have the fields the code reads. The environment
  variables and Stripe's API are parameters; \<open>None\<close> from the API is a failed call.
\<close>

section \<open>Stripe's objects\<close>

type_synonym metadata = "string \<Rightarrow> string option"

text \<open>A field that holds an id, the expanded object with that id, or nothing.\<close>

datatype reference = NoReference | IdReference string | ObjectReference string

fun string_reference :: "reference \<Rightarrow> string option" where
  "string_reference (IdReference s) = Some s"
| "string_reference _ = None"

fun reference_id :: "reference \<Rightarrow> string option" where
  "reference_id NoReference = None"
| "reference_id (IdReference s) = Some s"
| "reference_id (ObjectReference s) = Some s"

record stripe_subscription =
  so_id :: string
  so_customer :: reference
  so_metadata :: metadata
  so_price :: "string option"
  so_status :: string
  so_trialEnd :: "int option"
  so_periodStart :: "int option"
  so_periodEnd :: "int option"

record checkout_session =
  cs_id :: string
  cs_mode :: string
  cs_metadata :: metadata
  cs_reference :: "string option"
  cs_subscription :: "string option"
  cs_customer :: reference
  cs_paymentStatus :: string
  cs_status :: "string option"
  cs_payment :: reference
  cs_currency :: "string option"
  cs_amountTotal :: "int option"

record line_price =
  lp_id :: string
  lp_currency :: string
  lp_unitAmount :: "int option"

record line_item =
  li_quantity :: "int option"
  li_price :: "line_price option"

record stripe_charge =
  sc_id :: string
  sc_payment :: reference
  sc_amount :: int
  sc_refunded :: int
  sc_full :: bool

record stripe_invoice =
  iv_id :: string
  iv_subscription :: reference
  iv_reason :: "string option"
  iv_hasMore :: bool
  iv_lines :: "(invoice_line \<times> (int \<times> int) option) list"

datatype event_body =
    SubscriptionCreated stripe_subscription
  | SubscriptionUpdated stripe_subscription
  | SubscriptionDeleted stripe_subscription
  | CheckoutCompleted checkout_session
  | CheckoutAsyncPaid checkout_session
  | CheckoutExpired checkout_session
  | ChargeRefunded stripe_charge
  | InvoicePaid stripe_invoice
  | InvoicePaymentFailed stripe_invoice
  | OtherEvent string

fun event_type :: "event_body \<Rightarrow> string" where
  "event_type (SubscriptionCreated _) = ''customer.subscription.created''"
| "event_type (SubscriptionUpdated _) = ''customer.subscription.updated''"
| "event_type (SubscriptionDeleted _) = ''customer.subscription.deleted''"
| "event_type (CheckoutCompleted _) = ''checkout.session.completed''"
| "event_type (CheckoutAsyncPaid _) = ''checkout.session.async_payment_succeeded''"
| "event_type (CheckoutExpired _) = ''checkout.session.expired''"
| "event_type (ChargeRefunded _) = ''charge.refunded''"
| "event_type (InvoicePaid _) = ''invoice.paid''"
| "event_type (InvoicePaymentFailed _) = ''invoice.payment_failed''"
| "event_type (OtherEvent t) = t"

record stripe_event =
  ev_id :: string
  ev_body :: event_body

record stripe_api =
  api_subscription :: "string \<Rightarrow> stripe_subscription option"
  api_lineItems :: "string \<Rightarrow> line_item list option"
  api_charge :: "string \<Rightarrow> stripe_charge option"
  api_payment :: "string \<Rightarrow> metadata option"

type_synonym environment = "string \<Rightarrow> string option"

datatype webhook_error =
    StripeCallFailed | CheckoutUserMismatch | SubscriptionUserMismatch | UnrecognizedPrice
  | UnconfiguredPrice | MetadataUserMissing | CreditCheckoutUnpaid | NotOneCreditItem
  | CreditQuantityNotOne | UnrecognizedCreditPrice | CreditMetadataMismatch
  | ProviderMetadataInvalid | ProviderCheckoutUnpaid | ProviderItemsInvalid
  | ProviderPriceNotApproved | PaymentReferenceMissing | ProviderCustomerMismatch
  | ProviderExpirationInvalid | SubscriptionCustomerMissing | CreditUserMissing
  | PurchaseNotRecorded | InvoiceCustomerUnresolved | InvoicePeriodMissing
  | SubscriptionConstraint | CreditOperation credit_error | ProviderOperation topup_error
  | InvoiceRejected invoice_error

section \<open>Ownership on a shared Stripe account\<close>

text \<open>JavaScript's \<open>a || b\<close> on texts, and a metadata value or the empty text.\<close>

definition first_text :: "string \<Rightarrow> string \<Rightarrow> string" where
  "first_text a b = (if a \<noteq> [] then a else b)"

definition text_of :: "string option \<Rightarrow> string" where
  "text_of v = (case v of None \<Rightarrow> [] | Some s \<Rightarrow> s)"

definition productLine :: "metadata \<Rightarrow> string" where
  "productLine m = js_lower (js_trim (text_of (m ''product_line'')))"

definition declaredTier :: "metadata \<Rightarrow> string" where
  "declaredTier m = js_lower (js_trim (first_text (text_of (m ''tier'')) (text_of (m ''plan''))))"

definition hasValidUserId :: "metadata \<Rightarrow> bool" where
  "hasValidUserId m =
    (let raw = js_trim (text_of (m ''userId''))
     in nonempty_class is_digit raw \<and> is_safe_integer (read_digits raw) \<and> read_digits raw > 0)"

datatype ownership = OwnAppForge | OwnForeign | OwnInvalid

definition classifyAppForgeSubscription :: "metadata \<Rightarrow> bool \<Rightarrow> ownership" where
  "classifyAppForgeSubscription m hasConfiguredPrice =
    (let markedAppForge = (productLine m = ''appforge'') in
     if markedAppForge \<and> \<not> hasValidUserId m then OwnInvalid
     else if hasConfiguredPrice then OwnAppForge
     else if \<not> markedAppForge then OwnForeign
     else if declaredTier m = ''custom'' then OwnAppForge
     else OwnInvalid)"

definition isAppForgeCreditMetadata :: "metadata \<Rightarrow> (webhook_error, bool) result" where
  "isAppForgeCreditMetadata m =
    (if productLine m \<noteq> ''appforge'' then Inr False
     else if \<not> hasValidUserId m then Inl MetadataUserMissing
     else Inr True)"

section \<open>Customers\<close>

definition parsePositiveUserId :: "string option \<Rightarrow> int option" where
  "parsePositiveUserId v = (case v of None \<Rightarrow> None | Some s \<Rightarrow>
     if \<not> nonempty_class is_digit s then None
     else if is_safe_integer (read_digits s) \<and> read_digits s > 0 then Some (read_digits s)
     else None)"

definition resolveCheckoutUserId :: "checkout_session \<Rightarrow> (webhook_error, int option) result" where
  "resolveCheckoutUserId session =
    (let metadataUserId = parsePositiveUserId (cs_metadata session ''userId'');
         referenceUserId = parsePositiveUserId (cs_reference session)
     in if metadataUserId \<noteq> None \<and> referenceUserId \<noteq> None \<and> metadataUserId \<noteq> referenceUserId
        then Inl CheckoutUserMismatch
        else Inr (if metadataUserId \<noteq> None then metadataUserId else referenceUserId))"

definition resolveConsistentUserId :: "int option list \<Rightarrow> (webhook_error, int option) result" where
  "resolveConsistentUserId values =
    (let given = List.map_filter id values in
     if length (remdups given) > 1 then Inl SubscriptionUserMismatch
     else Inr (case given of [] \<Rightarrow> None | u # _ \<Rightarrow> Some u))"

definition truthy_id :: "int option \<Rightarrow> bool" where
  "truthy_id u \<longleftrightarrow> u \<noteq> None \<and> u \<noteq> Some 0"

definition truthy_text :: "string option \<Rightarrow> bool" where
  "truthy_text s \<longleftrightarrow> s \<noteq> None \<and> s \<noteq> Some []"

section \<open>Prices, packs and tiers\<close>

definition CREDIT_PACKS :: "int list" where "CREDIT_PACKS = [50, 100, 250]"

definition parseCreditPack :: "string option \<Rightarrow> int option" where
  "parseCreditPack v = (case v of None \<Rightarrow> None | Some s \<Rightarrow>
     if \<not> nonempty_class is_digit s then None
     else if read_digits s \<in> set CREDIT_PACKS then Some (read_digits s) else None)"

definition creditPriceId :: "environment \<Rightarrow> int \<Rightarrow> string option" where
  "creditPriceId env credits =
    (let envKey = (if credits = 50 then Some ''STRIPE_CREDITS_50_PRICE_ID''
                   else if credits = 100 then Some ''STRIPE_CREDITS_100_PRICE_ID''
                   else if credits = 250 then Some ''STRIPE_CREDITS_250_PRICE_ID'' else None)
     in case Option.bind envKey env of None \<Rightarrow> None | Some s \<Rightarrow> if s = [] then None else Some s)"

definition creditPackFromPriceId :: "environment \<Rightarrow> string option \<Rightarrow> int option" where
  "creditPackFromPriceId env priceId =
    (if \<not> truthy_text priceId then None
     else List.find (\<lambda>credits. creditPriceId env credits = priceId) CREDIT_PACKS)"

definition STANDARD_TIERS :: "string list" where
  "STANDARD_TIERS = [''starter'', ''builder'', ''studio'', ''enterprise'']"

definition tier_env_keys :: "string \<Rightarrow> string list" where
  "tier_env_keys tier =
    (if tier = ''starter'' then [''STRIPE_STARTER_PRICE_ID'', ''STRIPE_PRICE_STARTER'']
     else if tier = ''builder'' then [''STRIPE_BUILDER_PRICE_ID'', ''STRIPE_PRICE_BUILDER'']
     else if tier = ''studio'' then [''STRIPE_STUDIO_PRICE_ID'', ''STRIPE_PRICE_STUDIO'']
     else [''STRIPE_ENTERPRISE_PRICE_ID'', ''STRIPE_PRICE_ENTERPRISE''])"

definition priceIdsForTier :: "environment \<Rightarrow> string \<Rightarrow> string list" where
  "priceIdsForTier env tier = filter (\<lambda>s. s \<noteq> []) (map (\<lambda>k. text_of (env k)) (tier_env_keys tier))"

definition tierFromPriceId :: "environment \<Rightarrow> string option \<Rightarrow> string option" where
  "tierFromPriceId env priceId =
    (if \<not> truthy_text priceId then None
     else List.find (\<lambda>tier. text_of priceId \<in> set (priceIdsForTier env tier)) STANDARD_TIERS)"

definition resolveTier :: "environment \<Rightarrow> metadata \<Rightarrow> string option \<Rightarrow> (webhook_error, string) result" where
  "resolveTier env m priceId =
    (let fromMeta = js_lower (first_text (text_of (m ''tier'')) (text_of (m ''plan''))) in
     case tierFromPriceId env priceId of
       Some mappedTier \<Rightarrow> Inr mappedTier
     | None \<Rightarrow> if fromMeta = ''custom'' then Inr fromMeta else Inl UnrecognizedPrice)"

definition requireAppForgeSubscriptionOwnership ::
    "environment \<Rightarrow> stripe_subscription \<Rightarrow> (webhook_error, bool) result" where
  "requireAppForgeSubscriptionOwnership env sub =
    (case classifyAppForgeSubscription (so_metadata sub) (tierFromPriceId env (so_price sub) \<noteq> None) of
       OwnForeign \<Rightarrow> Inr False
     | OwnInvalid \<Rightarrow> Inl UnconfiguredPrice
     | OwnAppForge \<Rightarrow> Inr True)"

definition shouldGrantMonthlyPlanCredits :: "stripe_invoice \<Rightarrow> bool" where
  "shouldGrantMonthlyPlanCredits invoice \<longleftrightarrow>
     iv_reason invoice = Some ''subscription_create'' \<or> iv_reason invoice = Some ''subscription_cycle''"

definition paidCreditPackForSession ::
    "environment \<Rightarrow> stripe_api \<Rightarrow> checkout_session \<Rightarrow> (webhook_error, int) result" where
  "paidCreditPackForSession env api session =
    (if cs_paymentStatus session \<noteq> ''paid'' then Inl CreditCheckoutUnpaid
     else case api_lineItems api (cs_id session) of None \<Rightarrow> Inl StripeCallFailed
     | Some [lineItem] \<Rightarrow>
         if (case li_quantity lineItem of None \<Rightarrow> 0 | Some q \<Rightarrow> q) \<noteq> 1 then Inl CreditQuantityNotOne
         else (case creditPackFromPriceId env (map_option lp_id (li_price lineItem)) of
                 None \<Rightarrow> Inl UnrecognizedCreditPrice
               | Some paidCredits \<Rightarrow>
                   (case parseCreditPack (cs_metadata session ''credits'') of
                      None \<Rightarrow> Inr paidCredits
                    | Some metadataCredits \<Rightarrow>
                        if metadataCredits \<noteq> paidCredits then Inl CreditMetadataMismatch
                        else Inr paidCredits))
     | Some _ \<Rightarrow> Inl NotOneCreditItem)"

end
