(* ===== verification/StripeWebhook.thy ===== *)
theory StripeWebhook
  imports StripeEvents
begin

text \<open>
  The webhook of \<open>src/webhooks/stripe.ts\<close>: one handler per event type, the dispatch, and the
  HTTP entry point with its signature check and its replay protection. A handler maps a
  database to an answer and a database; a failure keeps what its earlier statements committed.
  A delivery is modelled without other operations between its statements.
\<close>

section \<open>Sequencing\<close>

type_synonym 'a handler = "db \<Rightarrow> (webhook_error, 'a) result \<times> db"

definition check_then :: "(webhook_error, 'a) result \<Rightarrow> ('a \<Rightarrow> 'b handler) \<Rightarrow> 'b handler" where
  "check_then r k d = (case r of Inl e \<Rightarrow> (Inl e, d) | Inr a \<Rightarrow> k a d)"

definition run_then :: "'a handler \<Rightarrow> ('a \<Rightarrow> 'b handler) \<Rightarrow> 'b handler" where
  "run_then h k d = (case h d of (Inl e, d1) \<Rightarrow> (Inl e, d1) | (Inr a, d1) \<Rightarrow> k a d1)"

definition succeed :: "unit handler" where
  "succeed d = (Inr (), d)"

definition refuse :: "webhook_error \<Rightarrow> 'a handler" where
  "refuse e d = (Inl e, d)"

definition stripe_call :: "'a option \<Rightarrow> (webhook_error, 'a) result" where
  "stripe_call r = (case r of None \<Rightarrow> Inl StripeCallFailed | Some a \<Rightarrow> Inr a)"

definition with_error :: "('e \<Rightarrow> webhook_error) \<Rightarrow> ('e, 'a) result \<Rightarrow> (webhook_error, 'a) result" where
  "with_error f r = (case r of Inl e \<Rightarrow> Inl (f e) | Inr a \<Rightarrow> Inr a)"

definition credit_call :: "(db \<Rightarrow> (credit_error, 'a) result \<times> db) \<Rightarrow> 'a handler" where
  "credit_call h d = (case h d of (r, d1) \<Rightarrow> (with_error CreditOperation r, d1))"

definition provider_call :: "(db \<Rightarrow> (topup_error, 'a \<times> db) result) \<Rightarrow> 'a handler" where
  "provider_call h d = (case transact h d of (r, d1) \<Rightarrow> (with_error ProviderOperation r, d1))"

section \<open>Subscriptions\<close>

definition subscription_constraints :: "db \<Rightarrow> bool" where
  "subscription_constraints d \<longleftrightarrow> distinct (map sub_user (subscriptions d)) \<and>
     distinct (present sub_customer (subscriptions d)) \<and>
     distinct (present sub_stripe (subscriptions d))"

definition seconds_date :: "int option \<Rightarrow> int option" where
  \<comment> \<open>\<open>seconds ? new Date(seconds * 1000) : null\<close>\<close>
  "seconds_date s = (case s of None \<Rightarrow> None | Some n \<Rightarrow> if n = 0 then None else Some (n * 1000))"

definition subscription_values ::
    "int \<Rightarrow> string \<Rightarrow> stripe_subscription \<Rightarrow> string \<Rightarrow> subscription_row" where
  "subscription_values userId customerId sub tier =
    \<lparr>sub_user = userId, sub_customer = Some customerId, sub_stripe = Some (so_id sub),
     sub_status = Some (so_status sub), sub_tier = Some tier,
     sub_trialEnd = (if so_status sub = ''trialing'' then seconds_date (so_trialEnd sub) else None),
     sub_periodStart = seconds_date (so_periodStart sub),
     sub_periodEnd = seconds_date (so_periodEnd sub)\<rparr>"

definition replacement_alive ::
    "stripe_api \<Rightarrow> subscription_row option \<Rightarrow> string \<Rightarrow> (webhook_error, stripe_subscription option) result" where
  \<comment> \<open>the customer's other subscription, when Stripe still runs it\<close>
  "replacement_alive api existing subscriptionId =
    (case Option.bind existing sub_stripe of None \<Rightarrow> Inr None
     | Some s \<Rightarrow>
        if s = [] \<or> s = subscriptionId then Inr None
        else (case api_subscription api s of None \<Rightarrow> Inl StripeCallFailed
          | Some current \<Rightarrow>
              if so_status current \<in> {''canceled'', ''incomplete_expired''} then Inr None
              else Inr (Some current)))"

definition upsertSubscription ::
    "environment \<Rightarrow> stripe_api \<Rightarrow> int \<Rightarrow> string \<Rightarrow> stripe_subscription \<Rightarrow> string \<Rightarrow> string handler" where
  "upsertSubscription env api userId customerId sub tier d =
    (let existing = first_row (\<lambda>s. sub_user s = userId) (subscriptions d) in
     check_then (replacement_alive api existing (so_id sub)) (\<lambda>alive.
       case alive of
         Some current \<Rightarrow> check_then (resolveTier env (so_metadata current) (so_price current)) (\<lambda>t d. (Inr t, d))
       | None \<Rightarrow> (\<lambda>d.
           let row = subscription_values userId customerId sub tier;
               d1 = d\<lparr>subscriptions :=
                 (if existing = None then subscriptions d @ [row]
                  else update_where (\<lambda>s. sub_user s = userId) (\<lambda>_. row) (subscriptions d))\<rparr>
           in if (existing = None \<and> first_row (\<lambda>u. u_id u = userId) (users d) = None) \<or>
                 \<not> subscription_constraints d1
              then (Inl SubscriptionConstraint, d) else (Inr tier, d1))) d)"

definition resolveUserIdFromCustomer :: "string option \<Rightarrow> db \<Rightarrow> int option" where
  "resolveUserIdFromCustomer customerId d =
    (if \<not> truthy_text customerId then None
     else map_option sub_user (first_row (\<lambda>s. sub_customer s = customerId) (subscriptions d)))"

definition update_subscriptions ::
    "(subscription_row \<Rightarrow> bool) \<Rightarrow> (subscription_row \<Rightarrow> subscription_row) \<Rightarrow> unit handler" where
  "update_subscriptions P f d = (Inr (), d\<lparr>subscriptions := update_where P f (subscriptions d)\<rparr>)"

text \<open>Whose subscription an event is about, by its metadata and by the customer known here.\<close>

definition subscription_user :: "stripe_subscription \<Rightarrow> db \<Rightarrow> (webhook_error, int option) result" where
  "subscription_user sub d = resolveConsistentUserId
     [parsePositiveUserId (so_metadata sub ''userId''),
      resolveUserIdFromCustomer (string_reference (so_customer sub)) d]"

definition subscription_changed ::
    "environment \<Rightarrow> stripe_api \<Rightarrow> stripe_subscription \<Rightarrow> unit handler" where
  "subscription_changed env api snapshot d =
    check_then (stripe_call (api_subscription api (so_id snapshot))) (\<lambda>sub.
    check_then (requireAppForgeSubscriptionOwnership env sub) (\<lambda>owned.
    if \<not> owned then succeed else
    check_then (subscription_user sub d) (\<lambda>userId.
    check_then (resolveTier env (so_metadata sub) (so_price sub)) (\<lambda>tier.
    let customerId = string_reference (so_customer sub) in
    if truthy_id userId \<and> truthy_text customerId
    then run_then (upsertSubscription env api (the userId) (the customerId) sub tier) (\<lambda>_. succeed)
    else succeed)))) d"

definition subscription_deleted :: "environment \<Rightarrow> stripe_subscription \<Rightarrow> unit handler" where
  "subscription_deleted env sub d =
    check_then (requireAppForgeSubscriptionOwnership env sub) (\<lambda>owned.
    if \<not> owned then succeed else
    check_then (subscription_user sub d) (\<lambda>userId.
    if truthy_id userId
    then update_subscriptions (\<lambda>s. Some (sub_user s) = userId \<and> sub_stripe s = Some (so_id sub))
      (\<lambda>s. s\<lparr>sub_status := Some ''canceled'', sub_tier := Some ''free''\<rparr>)
    else succeed)) d"

definition invoice_payment_failed ::
    "environment \<Rightarrow> stripe_api \<Rightarrow> stripe_invoice \<Rightarrow> unit handler" where
  "invoice_payment_failed env api invoice =
    (let subscriptionId = reference_id (iv_subscription invoice) in
     if \<not> truthy_text subscriptionId then succeed
     else check_then (stripe_call (api_subscription api (the subscriptionId))) (\<lambda>sub.
       check_then (requireAppForgeSubscriptionOwnership env sub) (\<lambda>owned.
       if \<not> owned then succeed
       else update_subscriptions (\<lambda>s. sub_stripe s = subscriptionId)
         (\<lambda>s. s\<lparr>sub_status := Some (so_status sub)\<rparr>))))"

section \<open>Purchases of credits\<close>

definition purchase_credits ::
    "environment \<Rightarrow> stripe_api \<Rightarrow> (string option \<Rightarrow> bool) \<Rightarrow> int \<Rightarrow> string \<Rightarrow> int \<Rightarrow> checkout_session \<Rightarrow>
     unit handler" where
  "purchase_credits env api own now how userId session =
    check_then (paidCreditPackForSession env api session) (\<lambda>credits.
    let paymentRef = reference_id (cs_payment session) in
    if \<not> truthy_text paymentRef then refuse PaymentReferenceMissing
    else run_then (credit_call (addCredits own now userId credits ''purchase''
        (Some (''Stripe '' @ how @ '' credit purchase ('' @ show_int credits @ '' credits)'')) paymentRef))
      (\<lambda>_. succeed))"

definition PROVIDER_CREDIT_PACK_PRICE_ID_ENV :: "int \<Rightarrow> string option" where
  "PROVIDER_CREDIT_PACK_PRICE_ID_ENV pack =
    (if pack = 1000 then Some ''STRIPE_PROVIDER_CREDITS_1000_PRICE_ID''
     else if pack = 3000 then Some ''STRIPE_PROVIDER_CREDITS_3000_PRICE_ID''
     else if pack = 8000 then Some ''STRIPE_PROVIDER_CREDITS_8000_PRICE_ID'' else None)"

definition provider_item_approved ::
    "environment \<Rightarrow> int \<Rightarrow> int \<Rightarrow> line_item \<Rightarrow> checkout_session \<Rightarrow> bool" where
  "provider_item_approved env pack price item session \<longleftrightarrow>
    (let expectedPriceId = Option.bind (PROVIDER_CREDIT_PACK_PRICE_ID_ENV pack) env in
     truthy_text expectedPriceId \<and>
     map_option lp_id (li_price item) = expectedPriceId \<and>
     map_option (js_lower \<circ> lp_currency) (li_price item) = Some ''usd'' \<and>
     Option.bind (li_price item) lp_unitAmount = Some price \<and>
     map_option js_lower (cs_currency session) = Some ''usd'' \<and>
     cs_amountTotal session = Some price)"

definition provider_customer_matches :: "int \<Rightarrow> checkout_session \<Rightarrow> db \<Rightarrow> bool" where
  "provider_customer_matches userId session d \<longleftrightarrow>
    (let stored = Option.bind (first_row (\<lambda>s. sub_user s = userId) (subscriptions d)) sub_customer in
     truthy_text stored \<and> reference_id (cs_customer session) = stored)"

definition fulfillProviderCreditSession ::
    "environment \<Rightarrow> stripe_api \<Rightarrow> checkout_session \<Rightarrow> unit handler" where
  "fulfillProviderCreditSession env api session d =
    check_then (resolveCheckoutUserId session) (\<lambda>userId.
    let topUpId = cs_metadata session ''providerCreditTopUpId'';
        creditsRaw = text_of (cs_metadata session ''creditsCents'');
        creditsCents = read_digits creditsRaw;
        price = pack_price creditsCents
    in
    if \<not> truthy_id userId \<or> \<not> is_uuid (text_of topUpId) \<or> \<not> nonempty_class is_digit creditsRaw \<or>
       creditsCents \<notin> set PURCHASED_PROVIDER_CREDIT_PACKS_CENTS
    then refuse ProviderMetadataInvalid
    else if cs_mode session \<noteq> ''payment'' \<or> cs_paymentStatus session \<noteq> ''paid''
    then refuse ProviderCheckoutUnpaid
    else check_then (stripe_call (api_lineItems api (cs_id session))) (\<lambda>items.
    if length items \<noteq> 1 \<or> (case li_quantity (hd items) of None \<Rightarrow> 0 | Some q \<Rightarrow> q) \<noteq> 1
    then refuse ProviderItemsInvalid
    else if \<not> provider_item_approved env creditsCents price (hd items) session
    then refuse ProviderPriceNotApproved
    else if \<not> truthy_text (reference_id (cs_payment session))
    then refuse PaymentReferenceMissing
    else if \<not> provider_customer_matches (the userId) session d
    then refuse ProviderCustomerMismatch
    else run_then (provider_call (fulfillProviderCreditTopUp
        \<lparr>fu_topUp = text_of topUpId, fu_user = the userId, fu_session = cs_id session,
         fu_payment = the (reference_id (cs_payment session)), fu_credits = creditsCents,
         fu_price = price\<rparr>)) (\<lambda>_. succeed))) d"

definition expireProviderCreditSession :: "checkout_session \<Rightarrow> unit handler" where
  "expireProviderCreditSession session =
    check_then (resolveCheckoutUserId session) (\<lambda>userId.
    let topUpId = text_of (cs_metadata session ''providerCreditTopUpId'') in
    if \<not> truthy_id userId \<or> \<not> is_uuid topUpId \<or> cs_mode session \<noteq> ''payment'' \<or>
       cs_status session \<noteq> Some ''expired''
    then refuse ProviderExpirationInvalid
    else run_then (provider_call (expireProviderCreditTopUp topUpId (the userId) (cs_id session)))
      (\<lambda>_. succeed))"

section \<open>Checkout sessions\<close>

definition is_provider_session :: "checkout_session \<Rightarrow> bool" where
  "is_provider_session session \<longleftrightarrow>
     cs_metadata session ''product_line'' = Some ''appforge_provider_credits''"

definition subscribe ::
    "environment \<Rightarrow> stripe_api \<Rightarrow> int \<Rightarrow> checkout_session \<Rightarrow> unit handler" where
  \<comment> \<open>a completed checkout of a subscription\<close>
  "subscribe env api userId session d =
    check_then (stripe_call (api_subscription api (text_of (cs_subscription session)))) (\<lambda>sub.
    check_then (requireAppForgeSubscriptionOwnership env sub) (\<lambda>owned.
    if \<not> owned then succeed else
    let customerId = (case string_reference (cs_customer session) of
          Some c \<Rightarrow> Some c | None \<Rightarrow> string_reference (so_customer sub)) in
    if \<not> truthy_text customerId
    then refuse SubscriptionCustomerMissing
    else check_then (resolveConsistentUserId
        [Some userId, parsePositiveUserId (so_metadata sub ''userId''),
         resolveUserIdFromCustomer customerId d]) (\<lambda>_.
    check_then (resolveTier env (so_metadata sub ++ cs_metadata session) (so_price sub)) (\<lambda>tier.
    run_then (upsertSubscription env api userId (the customerId) sub tier) (\<lambda>_. succeed))))) d"

definition checkout_completed ::
    "environment \<Rightarrow> stripe_api \<Rightarrow> (string option \<Rightarrow> bool) \<Rightarrow> int \<Rightarrow> checkout_session \<Rightarrow> unit handler" where
  "checkout_completed env api own now session =
    (if is_provider_session session
     then if cs_paymentStatus session = ''paid'' then fulfillProviderCreditSession env api session
          else succeed
     else check_then (isAppForgeCreditMetadata (cs_metadata session)) (\<lambda>ours.
       if \<not> ours then succeed else
       check_then (resolveCheckoutUserId session) (\<lambda>userId.
       if \<not> truthy_id userId then succeed
       else if cs_mode session = ''subscription'' \<and> truthy_text (cs_subscription session)
       then subscribe env api (the userId) session
       else if cs_mode session = ''payment'' \<and> cs_paymentStatus session = ''paid''
       then purchase_credits env api own now ''checkout'' (the userId) session
       else succeed)))"

definition checkout_async_paid ::
    "environment \<Rightarrow> stripe_api \<Rightarrow> (string option \<Rightarrow> bool) \<Rightarrow> int \<Rightarrow> checkout_session \<Rightarrow> unit handler" where
  "checkout_async_paid env api own now session =
    (if is_provider_session session then fulfillProviderCreditSession env api session
     else check_then (isAppForgeCreditMetadata (cs_metadata session)) (\<lambda>ours.
       if \<not> ours then succeed else
       check_then (resolveCheckoutUserId session) (\<lambda>userId.
       if \<not> truthy_id userId \<or> cs_mode session \<noteq> ''payment''
       then if cs_mode session = ''subscription'' then succeed
            else refuse CreditUserMissing
       else purchase_credits env api own now ''delayed'' (the userId) session)))"

definition checkout_expired :: "checkout_session \<Rightarrow> unit handler" where
  "checkout_expired session =
    (if \<not> is_provider_session session then succeed else expireProviderCreditSession session)"

section \<open>Refunds and invoices\<close>

definition charge_refunded ::
    "stripe_api \<Rightarrow> (string option \<Rightarrow> bool) \<Rightarrow> int \<Rightarrow> string \<Rightarrow> stripe_charge \<Rightarrow> unit handler" where
  "charge_refunded api own now eventId snapshot =
    check_then (stripe_call (api_charge api (sc_id snapshot))) (\<lambda>charge.
    if \<not> truthy_text (reference_id (sc_payment charge)) then succeed else
    let paymentIntentId = the (reference_id (sc_payment charge)) in
    check_then (stripe_call (api_payment api paymentIntentId)) (\<lambda>m.
    check_then (isAppForgeCreditMetadata m) (\<lambda>ours.
    if \<not> ours then succeed else
    run_then (credit_call (reconcileCreditPurchaseRefund own now
        \<lparr>rr_payment = paymentIntentId, rr_event = eventId, rr_charge = sc_amount charge,
         rr_refunded = sc_refunded charge, rr_full = sc_full charge\<rparr>)) (\<lambda>outcome.
    if ro_missing outcome \<and> parseCreditPack (m ''credits'') \<noteq> None
    then refuse PurchaseNotRecorded else succeed))))"

definition invoice_plan_line :: "invoice_line \<times> (int \<times> int) option \<Rightarrow> bool" where
  "invoice_plan_line l \<longleftrightarrow> il_type (fst l) = ''subscription'' \<and> \<not> il_proration (fst l)"

definition invoice_credits ::
    "environment \<Rightarrow> (string option \<Rightarrow> bool) \<Rightarrow> int \<Rightarrow> stripe_invoice \<Rightarrow> int \<Rightarrow> string \<Rightarrow> unit handler" where
  "invoice_credits env own now invoice userId tier =
    check_then (with_error InvoiceRejected (resolveInvoiceCreditTier (iv_hasMore invoice)
        (map fst (iv_lines invoice)) (tierFromPriceId env))) (\<lambda>creditTier.
    run_then (credit_call (grantStripeInvoicePlanCredits own now userId creditTier (iv_id invoice) tier))
      (\<lambda>_.
    case Option.bind (List.find invoice_plan_line (iv_lines invoice)) snd of
      None \<Rightarrow> refuse InvoicePeriodMissing
    | Some (start, ends) \<Rightarrow>
        run_then (provider_call (grantStripeInvoiceProviderCredits userId creditTier (iv_id invoice)
          start ends)) (\<lambda>_. succeed)))"

definition invoice_paid ::
    "environment \<Rightarrow> stripe_api \<Rightarrow> (string option \<Rightarrow> bool) \<Rightarrow> int \<Rightarrow> stripe_invoice \<Rightarrow> unit handler" where
  "invoice_paid env api own now invoice d =
    (let subscriptionId = reference_id (iv_subscription invoice);
         stored = map_option sub_user
           (first_row (\<lambda>s. sub_stripe s = subscriptionId) (subscriptions d))
     in if \<not> truthy_text subscriptionId then succeed
     else
       check_then (stripe_call (api_subscription api (the subscriptionId))) (\<lambda>sub.
       check_then (requireAppForgeSubscriptionOwnership env sub) (\<lambda>owned.
       if \<not> owned then succeed else
       let customerId = string_reference (so_customer sub) in
       check_then (resolveTier env (so_metadata sub) (so_price sub)) (\<lambda>paidTier.
       check_then (resolveConsistentUserId [parsePositiveUserId (so_metadata sub ''userId''), stored,
           resolveUserIdFromCustomer customerId d]) (\<lambda>resolved.
       if \<not> truthy_id resolved \<or> \<not> truthy_text customerId then refuse InvoiceCustomerUnresolved
       else run_then (upsertSubscription env api (the resolved) (the customerId) sub paidTier) (\<lambda>tier.
       if shouldGrantMonthlyPlanCredits invoice
       then invoice_credits env own now invoice (the resolved) tier
       else succeed)))))) d"

section \<open>Dispatch and entry point\<close>

definition handleStripeEvent ::
    "environment \<Rightarrow> stripe_api \<Rightarrow> (string option \<Rightarrow> bool) \<Rightarrow> int \<Rightarrow> stripe_event \<Rightarrow> unit handler" where
  "handleStripeEvent env api own now e = (case ev_body e of
     SubscriptionCreated s \<Rightarrow> subscription_changed env api s
   | SubscriptionUpdated s \<Rightarrow> subscription_changed env api s
   | SubscriptionDeleted s \<Rightarrow> subscription_deleted env s
   | CheckoutCompleted s \<Rightarrow> checkout_completed env api own now s
   | CheckoutAsyncPaid s \<Rightarrow> checkout_async_paid env api own now s
   | CheckoutExpired s \<Rightarrow> checkout_expired s
   | ChargeRefunded c \<Rightarrow> charge_refunded api own now (ev_id e) c
   | InvoicePaid i \<Rightarrow> invoice_paid env api own now i
   | InvoicePaymentFailed i \<Rightarrow> invoice_payment_failed env api i
   | OtherEvent _ \<Rightarrow> succeed)"

datatype webhook_answer =
    NotConfigured | SignatureMissing | SignatureInvalid | EventReceived | ProcessingFailed

fun status_code :: "webhook_answer \<Rightarrow> nat" where
  "status_code NotConfigured = 500"
| "status_code SignatureMissing = 400"
| "status_code SignatureInvalid = 400"
| "status_code EventReceived = 200"
| "status_code ProcessingFailed = 500"

definition handleStripeWebhook ::
    "environment \<Rightarrow> stripe_api \<Rightarrow> (string option \<Rightarrow> bool) \<Rightarrow>
     ('body \<Rightarrow> string \<Rightarrow> string \<Rightarrow> stripe_event option) \<Rightarrow> int \<Rightarrow> 'body \<Rightarrow> string option \<Rightarrow> db \<Rightarrow>
     webhook_answer \<times> db" where
  "handleStripeWebhook env api own constructEvent now body signature d =
    (let webhookSecret = text_of (env ''STRIPE_WEBHOOK_SECRET'') in
     if webhookSecret = [] then (NotConfigured, d)
     else if \<not> truthy_text signature then (SignatureMissing, d)
     else case constructEvent body (the signature) webhookSecret of
       None \<Rightarrow> (SignatureInvalid, d)
     | Some e \<Rightarrow>
         (case processStripeEventOnce (ev_id e) (event_type (ev_body e))
             (handleStripeEvent env api own now e) d of
            (Inr _, d1) \<Rightarrow> (EventReceived, d1)
          | (Inl _, d1) \<Rightarrow> (ProcessingFailed, d1)))"

end
