(* ===== verification/WebhookSafety.thy ===== *)
theory WebhookSafety
  imports StripeWebhook
begin

text \<open>
  What the webhook guarantees. A handler is a composition of checks, early returns and operations
  of the ledgers; the locale \<open>handler_relation\<close> says once how a relation between databases that
  the operations respect carries over to whole handlers, and is interpreted for the runs of the
  two books and for the relation "no balance rises".
\<close>

section \<open>Relations that handlers respect\<close>

locale handler_relation =
  fixes R :: "db \<Rightarrow> db \<Rightarrow> bool"
  assumes stay: "R d d" and compose: "R d d1 \<Longrightarrow> R d1 d2 \<Longrightarrow> R d d2"
begin

definition keeps :: "'a handler \<Rightarrow> bool" where
  "keeps h \<longleftrightarrow> (\<forall>d. R d (snd (h d)))"

lemma keepsI: "(\<And>d r d'. h d = (r, d') \<Longrightarrow> R d d') \<Longrightarrow> keeps h"
  unfolding keeps_def by (metis surjective_pairing)

lemma keepsD: "keeps h \<Longrightarrow> R d (snd (h d))"
  by (simp add: keeps_def)

lemma keeps_result: "keeps h \<Longrightarrow> h d = (r, d') \<Longrightarrow> R d d'"
  using keepsD [of h d] by simp

lemma keeps_return: "keeps succeed" "keeps (refuse e)" "keeps (\<lambda>d. (x, d))"
  by (simp_all add: keeps_def succeed_def refuse_def stay)

lemma keeps_if: "(b \<Longrightarrow> keeps h) \<Longrightarrow> (\<not> b \<Longrightarrow> keeps k) \<Longrightarrow> keeps (if b then h else k)"
  by simp

lemma keeps_check: "(\<And>a. r = Inr a \<Longrightarrow> keeps (k a)) \<Longrightarrow> keeps (check_then r k)"
  by (auto simp: keeps_def check_then_def stay split: sum.split)

lemma keeps_run:
  assumes "keeps h" "\<And>a. keeps (k a)"
  shows "keeps (run_then h k)"
  unfolding keeps_def
proof
  fix d
  obtain r d1 where h: "h d = (r, d1)" by fastforce
  with keeps_result [OF assms(1)] have "R d d1" by blast
  with h keepsD [OF assms(2)] show "R d (snd (run_then h k d))"
    by (cases r) (auto simp: run_then_def intro: compose)
qed

lemma keeps_credit:
  "(\<And>d r d'. h d = (r, d') \<Longrightarrow> R d d') \<Longrightarrow> keeps (credit_call h)"
  by (simp add: keeps_def credit_call_def split: prod.split)

lemma keeps_provider:
  "(\<And>d r d'. h d = Inr (r, d') \<Longrightarrow> R d d') \<Longrightarrow> keeps (provider_call h)"
  by (auto simp: keeps_def provider_call_def transact_def stay split: sum.split prod.split)

lemmas keeps_intros =
  keeps_return keeps_if keeps_check keeps_run keeps_credit keeps_provider

text \<open>Each handler keeps what the operations it calls keep.\<close>

lemma keeps_at: "(\<And>d. R d (snd (h d))) \<Longrightarrow> keeps h"
  by (simp add: keeps_def)

lemma keeps_changed:
  assumes "\<And>u c sub tier. keeps (upsertSubscription env api u c sub tier)"
  shows "keeps (subscription_changed env api s)"
  by (rule keeps_at, unfold subscription_changed_def Let_def) (intro keepsD keeps_intros assms)

lemma keeps_deleted:
  assumes "\<And>P f. keeps (update_subscriptions P f)"
  shows "keeps (subscription_deleted env s)"
  by (rule keeps_at, unfold subscription_deleted_def Let_def) (intro keepsD keeps_intros assms)

lemma keeps_payment_failed:
  assumes "\<And>P f. keeps (update_subscriptions P f)"
  shows "keeps (invoice_payment_failed env api i)"
  unfolding invoice_payment_failed_def Let_def by (intro keeps_intros assms)

lemma keeps_purchase:
  assumes "\<And>n desc key. keeps (credit_call (addCredits own now u n ''purchase'' desc key))"
  shows "keeps (purchase_credits env api own now how u s)"
  unfolding purchase_credits_def Let_def by (intro keeps_intros assms)

lemma keeps_fulfill:
  assumes "\<And>f. keeps (provider_call (fulfillProviderCreditTopUp f))"
  shows "keeps (fulfillProviderCreditSession env api s)"
  by (rule keeps_at, unfold fulfillProviderCreditSession_def Let_def) (intro keepsD keeps_intros assms)

lemma keeps_expired:
  assumes "\<And>k u s. keeps (provider_call (expireProviderCreditTopUp k u s))"
  shows "keeps (checkout_expired s)"
  unfolding checkout_expired_def expireProviderCreditSession_def Let_def by (intro keeps_intros assms)

lemma keeps_subscribe:
  assumes "\<And>u c sub tier. keeps (upsertSubscription env api u c sub tier)"
  shows "keeps (subscribe env api u s)"
  by (rule keeps_at, unfold subscribe_def Let_def) (intro keepsD keeps_intros assms)

lemma keeps_completed:
  assumes "keeps (fulfillProviderCreditSession env api s)" "\<And>u. keeps (subscribe env api u s)"
    "\<And>how u. cs_mode s = ''payment'' \<and> cs_paymentStatus s = ''paid'' \<Longrightarrow>
       keeps (purchase_credits env api own now how u s)"
  shows "keeps (checkout_completed env api own now s)"
  unfolding checkout_completed_def by (intro keeps_intros assms)

lemma keeps_async:
  assumes "keeps (fulfillProviderCreditSession env api s)"
    "\<And>how u. cs_mode s = ''payment'' \<Longrightarrow> keeps (purchase_credits env api own now how u s)"
  shows "keeps (checkout_async_paid env api own now s)"
  unfolding checkout_async_paid_def by (intro keeps_intros assms) simp_all

lemma keeps_refunded:
  assumes "\<And>i. keeps (credit_call (reconcileCreditPurchaseRefund own now i))"
  shows "keeps (charge_refunded api own now e c)"
  unfolding charge_refunded_def Let_def by (intro keeps_intros assms)

lemma keeps_invoice_credits:
  assumes "\<And>u plan v ent. keeps (credit_call (grantStripeInvoicePlanCredits own now u plan v ent))"
    "\<And>u plan v st en. keeps (provider_call (grantStripeInvoiceProviderCredits u plan v st en))"
  shows "keeps (invoice_credits env own now i u tier)"
  unfolding invoice_credits_def
  by (intro keeps_intros assms) (auto split: option.split intro!: keeps_intros assms)

lemma keeps_invoice_paid:
  assumes "\<And>u c sub tier. keeps (upsertSubscription env api u c sub tier)"
    "\<And>u tier. shouldGrantMonthlyPlanCredits i \<Longrightarrow> keeps (invoice_credits env own now i u tier)"
  shows "keeps (invoice_paid env api own now i)"
  by (rule keeps_at, unfold invoice_paid_def Let_def) (intro keepsD keeps_intros assms)

lemmas keeps_handlers = keeps_changed keeps_deleted keeps_payment_failed keeps_fulfill keeps_expired
  keeps_subscribe keeps_completed keeps_refunded keeps_invoice_paid

end

text \<open>What touches only the subscriptions table.\<close>

definition only_subscriptions :: "db \<Rightarrow> db \<Rightarrow> bool" where
  "only_subscriptions d d' \<longleftrightarrow> (\<exists>t. d' = d\<lparr>subscriptions := t\<rparr>)"

lemma only_subscriptions_refl [simp]: "only_subscriptions d d"
  unfolding only_subscriptions_def by (rule exI [of _ "subscriptions d"]) simp

lemma upsert_only_subscriptions:
  "upsertSubscription env api u c sub tier d = (r, d') \<Longrightarrow> only_subscriptions d d'"
  by (auto simp: upsertSubscription_def Let_def check_then_def split: sum.splits option.splits if_splits)
    (auto simp: only_subscriptions_def)

lemma update_only_subscriptions:
  "update_subscriptions P f d = (r, d') \<Longrightarrow> only_subscriptions d d'"
  by (auto simp: update_subscriptions_def only_subscriptions_def)

lemma only_subscriptions_same:
  assumes "only_subscriptions d d'"
  shows "credit_balance v d' = credit_balance v d" "credits_ok d' = credits_ok d"
    "same_provider_tables d d'" "same_customer_side d d'"
  using assms
  by (auto simp: only_subscriptions_def credit_balance_def getUserCredits_def same_provider_tables_def
      same_customer_side_def same_credit_tables_def intro!: same_credit_tables_ok)

section \<open>A webhook is a run of the books\<close>

interpretation book_handlers: handler_relation "books_run own" for own
  by unfold_locales (auto intro: books_run_refl books_run_trans)

lemma only_subscriptions_run: "only_subscriptions d d' \<Longrightarrow> books_run own d d'"
  by (simp add: elsewhere_books_run only_subscriptions_same)

lemma operation_runs:
  "book_handlers.keeps own (upsertSubscription env api u c sub tier)"
  "book_handlers.keeps own (update_subscriptions P f)"
  "book_handlers.keeps own (credit_call (addCredits own now u n kind desc key))"
  "book_handlers.keeps own (credit_call (reconcileCreditPurchaseRefund own now i))"
  "book_handlers.keeps own (credit_call (grantStripeInvoicePlanCredits own now u plan invoice ent))"
  "book_handlers.keeps own (provider_call (fulfillProviderCreditTopUp f2))"
  "book_handlers.keeps own (provider_call (expireProviderCreditTopUp k u s))"
  "book_handlers.keeps own (provider_call (grantStripeInvoiceProviderCredits u plan invoice st en))"
  by (rule book_handlers.keepsI book_handlers.keeps_credit book_handlers.keeps_provider;
      (erule books_runs only_subscriptions_run [OF upsert_only_subscriptions]
        only_subscriptions_run [OF update_only_subscriptions]))+

lemma event_runs: "book_handlers.keeps own (handleStripeEvent env api own now e)"
  unfolding handleStripeEvent_def
  by (cases "ev_body e")
    (simp_all add: book_handlers.keeps_return,
      (intro book_handlers.keeps_handlers book_handlers.keeps_async book_handlers.keeps_purchase
        book_handlers.keeps_invoice_credits operation_runs)+)

lemma record_event_run:
  "books_run own d (d\<lparr>stripe_events := t\<rparr>)"
  by (rule elsewhere_books_run)
    (simp_all add: same_provider_tables_def same_customer_side_def same_credit_tables_def)

lemma once_runs:
  assumes "processStripeEventOnce i t (handleStripeEvent env api own now e) d = (r, d')"
  shows "books_run own d d'"
proof -
  obtain x d1 where run: "handleStripeEvent env api own now e d = (x, d1)" by fastforce
  with book_handlers.keeps_result [OF event_runs] have d1: "books_run own d d1" .
  with assms run show ?thesis
    by (auto simp: processStripeEventOnce_def split: if_splits sum.splits
        intro: books_run_refl books_run_trans [OF d1 record_event_run])
qed

text \<open>
  C9. Every delivery, whatever it answers and wherever it stopped, is a run of both books: its
  effects are a sequence of the provider-credit transactions and a sequence of the customer
  credit operations, so the invariants of both ledgers survive any webhook traffic, failures
  half-way through included.
\<close>

theorem webhook_refines_the_books:
  assumes "consistent d \<and> credits_ok d"
    "handleStripeWebhook env api own constructEvent now body signature d = (answer, d')"
  shows "ledger_step\<^sup>*\<^sup>* d d' \<and> (credit_step own)\<^sup>*\<^sup>* d d' \<and> consistent d' \<and> credits_ok d'"
proof -
  have "books_run own d d'"
    using assms(2) unfolding handleStripeWebhook_def Let_def
    by (auto split: if_splits option.splits sum.splits prod.splits intro: books_run_refl once_runs)
  with books_run_keeps [OF this] assms(1) show ?thesis by (simp add: books_run_def)
qed

section \<open>Signed events act once\<close>

lemma once_processed:
  "event_processed i d \<Longrightarrow> processStripeEventOnce i t h d = (Inr False, d)"
  by (simp add: processStripeEventOnce_def)

lemma received_cases:
  assumes "handleStripeWebhook env api own constructEvent now body signature d = (EventReceived, d')"
  obtains s e b where "signature = Some s"
    "constructEvent body s (text_of (env ''STRIPE_WEBHOOK_SECRET'')) = Some e"
    "processStripeEventOnce (ev_id e) (event_type (ev_body e)) (handleStripeEvent env api own now e) d = (Inr b, d')"
  using assms
  by (auto simp: handleStripeWebhook_def Let_def truthy_text_def
      split: if_splits option.splits sum.splits prod.splits)


section \<open>A concrete delivery\<close>

definition sample_env :: environment where
  "sample_env k =
    (if k = ''STRIPE_WEBHOOK_SECRET'' then Some ''whsec''
     else if k = ''STRIPE_CREDITS_50_PRICE_ID'' then Some ''price_50''
     else if k = ''STRIPE_BUILDER_PRICE_ID'' then Some ''price_b'' else None)"

definition sample_metadata :: metadata where
  "sample_metadata k =
    (if k = ''product_line'' then Some ''appforge'' else if k = ''userId'' then Some ''1''
     else if k = ''credits'' then Some ''50'' else None)"

definition sample_subscription :: "string \<Rightarrow> string \<Rightarrow> stripe_subscription" where
  "sample_subscription i status = \<lparr>so_id = i, so_customer = IdReference ''cus_1'',
     so_metadata = sample_metadata, so_price = Some ''price_b'', so_status = status, so_trialEnd = None,
     so_periodStart = Some 1, so_periodEnd = Some 9000000\<rparr>"

definition sample_api :: stripe_api where
  "sample_api = \<lparr>
     api_subscription = (\<lambda>i. if i = ''sub_1'' then Some (sample_subscription ''sub_1'' ''active'')
       else if i = ''sub_0'' then Some (sample_subscription ''sub_0'' ''canceled'')
       else if i = ''sub_x'' then Some (sample_subscription ''sub_x'' ''active''
         \<lparr>so_metadata := Map.empty, so_price := Some ''price_other''\<rparr>) else None),
     api_lineItems = (\<lambda>_. Some [\<lparr>li_quantity = Some 1, li_price =
       Some \<lparr>lp_id = ''price_50'', lp_currency = ''usd'', lp_unitAmount = Some 10000\<rparr>\<rparr>]),
     api_charge = (\<lambda>_. None), api_payment = (\<lambda>_. None)\<rparr>"

definition sample_session :: checkout_session where
  "sample_session = \<lparr>cs_id = ''cs_1'', cs_mode = ''payment'', cs_metadata = sample_metadata,
     cs_reference = Some ''1'', cs_subscription = None, cs_customer = IdReference ''cus_1'',
     cs_paymentStatus = ''paid'', cs_status = Some ''complete'', cs_payment = IdReference ''pi_2'',
     cs_currency = Some ''usd'', cs_amountTotal = Some 10000\<rparr>"

definition sample_event :: stripe_event where
  "sample_event = \<lparr>ev_id = ''evt_1'', ev_body = CheckoutCompleted sample_session\<rparr>"

definition sample_construct :: "string \<Rightarrow> string \<Rightarrow> string \<Rightarrow> stripe_event option" where
  "sample_construct body signature secret =
     (if signature = secret @ body then Some sample_event else None)"

definition sample_delivery :: "string \<Rightarrow> db \<Rightarrow> webhook_answer \<times> db" where
  "sample_delivery signature =
     handleStripeWebhook sample_env sample_api nobody sample_construct 10 ''b'' (Some signature)"

lemma sample_received:
  "sample_delivery ''whsecb'' sample_credits = (EventReceived, snd (sample_delivery ''whsecb'' sample_credits))"
  by code_simp

lemma sample_books_ok: "consistent sample_credits \<and> credits_ok sample_credits"
  by code_simp

theorem webhook_refines_the_books_witness:
  "consistent (snd (sample_delivery ''whsecb'' sample_credits)) \<and>
   credit_balance 1 (snd (sample_delivery ''whsecb'' sample_credits)) = 57"
proof -
  have "credit_balance 1 (snd (sample_delivery ''whsecb'' sample_credits)) = 57" by code_simp
  with webhook_refines_the_books [OF sample_books_ok sample_received [unfolded sample_delivery_def]]
  show ?thesis by (simp add: sample_delivery_def)
qed


end
