(* ===== verification/WebhookPayments.thy ===== *)
theory WebhookPayments
  imports WebhookSafety
begin

text \<open>
  Money through the webhook: which events can raise a customer's balance, that the two events
  Stripe may send for one purchase credit it once, that events of other products on the shared
  account are ignored, and that a late event of an old subscription cannot replace a live one.
\<close>

section \<open>Only settled money mints\<close>

definition no_mint :: "db \<Rightarrow> db \<Rightarrow> bool" where
  "no_mint d d' \<longleftrightarrow> (credits_ok d \<longrightarrow>
     credits_ok d' \<and> (\<forall>v. credit_balance v d' \<le> credit_balance v d))"

interpretation minting: handler_relation no_mint
  by unfold_locales (auto simp: no_mint_def intro: order_trans)

lemma same_side_no_mint: "same_customer_side d d' \<Longrightarrow> no_mint d d'"
  by (auto simp: same_customer_side_def no_mint_def same_credit_tables_ok)
    (simp add: same_credit_tables_def credit_balance_def getUserCredits_def)

lemma only_subscriptions_no_mint: "only_subscriptions d d' \<Longrightarrow> no_mint d d'"
  by (simp add: same_side_no_mint only_subscriptions_same)

lemma refund_lowers:
  assumes ok: "credits_ok d" and run: "refund_transaction now i original d = Inr (out, d')"
  shows "credit_balance v d' \<le> credit_balance v d"
  using run
proof (cases rule: refund_cases)
  case (revoked accounted prior a c n s)
  have "0 \<le> uc_balance c" using credit_balance_nonneg [OF ok, of "ct_user original"] revoked(6)
    by (simp add: credit_balance_def)
  moreover have "0 \<le> ra_delta a" using refund_adjustment_Inr(8) [OF revoked(4)] by simp
  ultimately have n: "0 \<le> n" using revoked(7) by simp
  show ?thesis
  proof (cases "v = ct_user original")
    case True
    with n revoked(6,9) show ?thesis
      using credit_balance_own [of "ct_user original" "set_balance (uc_balance c - n)" d c]
      by (simp add: credit_balance_def set_balance_def)
  next
    case False
    with revoked(9) show ?thesis
      using credit_balance_other [of "ct_user original" "set_balance (uc_balance c - n)" v d]
      by (simp add: credit_balance_def set_balance_def)
  qed
qed simp_all

lemma refund_no_mint:
  assumes "reconcileCreditPurchaseRefund own now i d = (r, d')"
  shows "no_mint d d'"
  unfolding no_mint_def
proof
  assume ok: "credits_ok d"
  have "credit_balance v d' \<le> credit_balance v d" for v
  proof (cases "d' = d")
    case False
    with assms obtain original where run: "with_credits own now (ct_user original)
        (refund_transaction now i original) d = (r, d')"
      by (auto simp: reconcileCreditPurchaseRefund_def split: if_splits option.splits)
    with False obtain c d1 where ens: "ensureUserCredits own now (ct_user original) d = Inr (c, d1)"
      and tr: "transact (refund_transaction now i original) d1 = (r, d')"
      by (auto simp: with_credits_def split: sum.splits prod.splits)
    have "credits_ok d1" using ok ens by (rule ensure_keeps_credits_ok)
    with tr have "credit_balance v d' \<le> credit_balance v d1"
      by (cases r) (auto simp: transact_eq refund_lowers)
    with ensure_same_balance [OF ens] show ?thesis by simp
  qed simp
  with stripe_keeps_credits_ok(1) [OF ok assms] show "credits_ok d' \<and> (\<forall>v. credit_balance v d' \<le> credit_balance v d)"
    by blast
qed

lemma operations_mint_nothing:
  "minting.keeps (upsertSubscription env api u c sub tier)"
  "minting.keeps (update_subscriptions P f)"
  "minting.keeps (credit_call (reconcileCreditPurchaseRefund own now i))"
  "minting.keeps (provider_call (fulfillProviderCreditTopUp f2))"
  "minting.keeps (provider_call (expireProviderCreditTopUp k u s))"
  by (rule minting.keepsI minting.keeps_credit minting.keeps_provider;
      (erule refund_no_mint only_subscriptions_no_mint [OF upsert_only_subscriptions]
        only_subscriptions_no_mint [OF update_only_subscriptions]
        same_side_no_mint [OF provider_operations_same_side(4)]
        same_side_no_mint [OF provider_operations_same_side(5)]))+

lemma unpaid_purchase_refused:
  "cs_paymentStatus s \<noteq> ''paid'' \<Longrightarrow> purchase_credits env api own now how u s = refuse CreditCheckoutUnpaid"
  by (rule ext) (simp add: purchase_credits_def paidCreditPackForSession_def check_then_def refuse_def)

definition settles_money :: "event_body \<Rightarrow> bool" where
  \<comment> \<open>a paid one-time checkout, or an invoice of a plan's first or next period\<close>
  "settles_money b = (case b of
     CheckoutCompleted s \<Rightarrow> cs_mode s = ''payment'' \<and> cs_paymentStatus s = ''paid''
   | CheckoutAsyncPaid s \<Rightarrow> cs_mode s = ''payment'' \<and> cs_paymentStatus s = ''paid''
   | InvoicePaid i \<Rightarrow> shouldGrantMonthlyPlanCredits i
   | _ \<Rightarrow> False)"

lemma event_mints_nothing:
  assumes "\<not> settles_money (ev_body e)"
  shows "minting.keeps (handleStripeEvent env api own now e)"
proof (cases "ev_body e")
  case (CheckoutAsyncPaid s)
  have "minting.keeps (purchase_credits env api own now how u s)" if "cs_mode s = ''payment''" for how u
    using that assms CheckoutAsyncPaid
    by (simp add: settles_money_def unpaid_purchase_refused minting.keeps_return)
  with CheckoutAsyncPaid show ?thesis
    by (simp add: handleStripeEvent_def)
      (intro minting.keeps_async minting.keeps_fulfill operations_mint_nothing; simp)
qed (use assms in \<open>simp_all add: handleStripeEvent_def settles_money_def minting.keeps_return\<close>,
  (intro minting.keeps_handlers operations_mint_nothing; simp)+)

text \<open>
  C10. Only settled money mints credits: if an event leaves any customer with a higher balance,
  it is a checkout in payment mode that Stripe reports as paid, or a paid invoice of a
  subscription's first or next period. Subscription changes, expired checkouts, failed payments
  and refunds never raise a balance.
\<close>

theorem only_settled_money_mints:
  assumes "credits_ok d" "handleStripeEvent env api own now e d = (r, d')"
    "credit_balance v d < credit_balance v d'"
  shows "settles_money (ev_body e)"
proof (rule ccontr)
  assume "\<not> settles_money (ev_body e)"
  from minting.keeps_result [OF event_mints_nothing [OF this] assms(2)] assms(1)
  have "credit_balance v d' \<le> credit_balance v d" by (simp add: no_mint_def)
  with assms(3) show False by simp
qed

section \<open>A purchase is credited once, whichever events report it\<close>

definition credit_session :: "int \<Rightarrow> string \<Rightarrow> checkout_session \<Rightarrow> bool" where
  \<comment> \<open>a paid checkout of customer credits by \<open>u\<close> with payment reference \<open>ref\<close>\<close>
  "credit_session u ref s \<longleftrightarrow> \<not> is_provider_session s \<and>
     isAppForgeCreditMetadata (cs_metadata s) = Inr True \<and> resolveCheckoutUserId s = Inr (Some u) \<and>
     u \<noteq> 0 \<and> cs_mode s = ''payment'' \<and> cs_paymentStatus s = ''paid'' \<and>
     reference_id (cs_payment s) = Some ref \<and> ref \<noteq> []"

definition purchase_text :: "string \<Rightarrow> int \<Rightarrow> string" where
  "purchase_text how credits = ''Stripe '' @ how @ '' credit purchase ('' @ show_int credits @ '' credits)''"

lemma purchase_session:
  assumes "credit_session u ref s" "ev_body e = CheckoutCompleted s \<or> ev_body e = CheckoutAsyncPaid s"
  obtains how where "\<And>env api own now. handleStripeEvent env api own now e =
    purchase_credits env api own now how u s"
proof (cases "ev_body e = CheckoutCompleted s")
  case True
  with assms(1) show thesis
    by (intro that [of "''checkout''"] ext)
      (simp add: handleStripeEvent_def checkout_completed_def credit_session_def check_then_def truthy_id_def)
next
  case False
  with assms show thesis
    by (intro that [of "''delayed''"] ext)
      (simp add: handleStripeEvent_def checkout_async_paid_def credit_session_def check_then_def truthy_id_def)
qed

lemma purchase_run:
  assumes "credit_session u ref s" "paidCreditPackForSession env api s = Inr credits"
  shows "purchase_credits env api own now how u s d =
    (case addCredits own now u credits ''purchase'' (Some (purchase_text how credits)) (Some ref) d of
       (Inl x, d1) \<Rightarrow> (Inl (CreditOperation x), d1) | (Inr b, d1) \<Rightarrow> (Inr (), d1))"
  using assms
  by (simp add: purchase_credits_def credit_session_def check_then_def truthy_text_def run_then_def
      credit_call_def with_error_def succeed_def purchase_text_def split: prod.split sum.split)

lemma purchase_refused:
  "paidCreditPackForSession env api s = Inl x \<Longrightarrow> purchase_credits env api own now how u s d = (Inl x, d)"
  by (simp add: purchase_credits_def check_then_def)

lemma paid_pack_positive: "paidCreditPackForSession env api s = Inr c \<Longrightarrow> c \<in> set CREDIT_PACKS \<and> 0 < c"
  by (auto simp: paidCreditPackForSession_def creditPackFromPriceId_def CREDIT_PACKS_def
      split: if_splits option.splits list.splits)

text \<open>
  C11. A credit purchase is credited once, whichever events report it: after the first successful
  delivery the customer has exactly the pack the paid price stands for, one of the packs on offer,
  and nobody else's balance moved; every later event for the same checkout, completed or
  asynchronously paid, under whatever event id and at whatever time, succeeds and changes nothing.
\<close>

theorem purchase_credited_across_events:
  assumes "credit_session u ref s" "\<not> transaction_recorded ref d"
    "ev_body e1 = CheckoutCompleted s \<or> ev_body e1 = CheckoutAsyncPaid s"
    "ev_body e2 = CheckoutCompleted s \<or> ev_body e2 = CheckoutAsyncPaid s"
    "handleStripeEvent env api own now e1 d = (Inr (), d1)"
  shows "(\<exists>credits \<in> set CREDIT_PACKS. paidCreditPackForSession env api s = Inr credits \<and>
      credit_balance u d1 = credit_balance u d + credits) \<and>
    (\<forall>v. v \<noteq> u \<longrightarrow> credit_balance v d1 = credit_balance v d) \<and>
    handleStripeEvent env api own later e2 d1 = (Inr (), d1)"
proof -
  from assms(1) obtain k ks where ref: "ref = k # ks"
    by (cases ref) (auto simp: credit_session_def)
  from purchase_session [OF assms(1,3)] obtain how1 where h1: "\<And>env api own now.
      handleStripeEvent env api own now e1 = purchase_credits env api own now how1 u s" by blast
  from purchase_session [OF assms(1,4)] obtain how2 where h2: "\<And>env api own now.
      handleStripeEvent env api own now e2 = purchase_credits env api own now how2 u s" by blast
  from assms(5) h1 obtain credits where pack: "paidCreditPackForSession env api s = Inr credits"
    by (cases "paidCreditPackForSession env api s") (auto simp: purchase_refused)
  from assms(5) obtain b where run: "addCredits own now u credits ''purchase''
      (Some (purchase_text how1 credits)) (Some (k # ks)) d = (Inr b, d1)"
    unfolding h1 purchase_run [OF assms(1) pack] ref by (auto split: prod.splits sum.splits)
  note facts = purchase_is_credited_once_facts [OF assms(2) [unfolded ref] run]
  have key: "usable_key (Some (k # ks)) = Some (k # ks)" by (simp add: usable_key_def)
  note rec = addCredits_recorded [OF run key]
  have "addCredits own later u credits ''purchase'' desc (Some ref) d1 = (Inr (credit_balance u d1), d1)"
    for desc using paid_pack_positive [OF pack] addCredits_replay [OF rec(1,2) key] ref by simp
  then have "handleStripeEvent env api own later e2 d1 = (Inr (), d1)"
    by (simp add: h2 purchase_run [OF assms(1) pack])
  with facts pack paid_pack_positive [OF pack] show ?thesis by auto
qed

section \<open>Other products on the same account\<close>

definition foreign_subscription :: "environment \<Rightarrow> stripe_subscription \<Rightarrow> bool" where
  "foreign_subscription env sub \<longleftrightarrow>
     productLine (so_metadata sub) \<noteq> ''appforge'' \<and> tierFromPriceId env (so_price sub) = None"

definition foreign_session :: "checkout_session \<Rightarrow> bool" where
  "foreign_session s \<longleftrightarrow> \<not> is_provider_session s \<and> productLine (cs_metadata s) \<noteq> ''appforge''"

text \<open>Events about subscriptions, checkouts and payments of another product.\<close>

definition foreign_event :: "environment \<Rightarrow> stripe_api \<Rightarrow> event_body \<Rightarrow> bool" where
  "foreign_event env api b =
    (let retrieved = (\<lambda>i. case api_subscription api i of None \<Rightarrow> False
           | Some sub \<Rightarrow> foreign_subscription env sub) in
     case b of
       SubscriptionCreated s \<Rightarrow> retrieved (so_id s)
     | SubscriptionUpdated s \<Rightarrow> retrieved (so_id s)
     | SubscriptionDeleted s \<Rightarrow> foreign_subscription env s
     | CheckoutCompleted s \<Rightarrow> foreign_session s
     | CheckoutAsyncPaid s \<Rightarrow> foreign_session s
     | CheckoutExpired s \<Rightarrow> \<not> is_provider_session s
     | ChargeRefunded c \<Rightarrow> (case api_charge api (sc_id c) of None \<Rightarrow> False | Some charge \<Rightarrow>
         \<not> truthy_text (reference_id (sc_payment charge)) \<or>
           (case api_payment api (the (reference_id (sc_payment charge))) of None \<Rightarrow> False
             | Some m \<Rightarrow> productLine m \<noteq> ''appforge''))
     | InvoicePaid i \<Rightarrow> \<not> truthy_text (reference_id (iv_subscription i)) \<or>
         retrieved (the (reference_id (iv_subscription i)))
     | InvoicePaymentFailed i \<Rightarrow>
         \<not> truthy_text (reference_id (iv_subscription i)) \<or>
         retrieved (the (reference_id (iv_subscription i)))
     | OtherEvent _ \<Rightarrow> True)"

lemma foreign_subscription_skipped:
  "foreign_subscription env sub \<Longrightarrow> requireAppForgeSubscriptionOwnership env sub = Inr False"
  by (simp add: foreign_subscription_def requireAppForgeSubscriptionOwnership_def
      classifyAppForgeSubscription_def)

lemma check_then_simps [simp]:
  "check_then (Inr a) k = k a" "check_then (Inl e) k = refuse e"
  by (simp_all add: check_then_def fun_eq_iff refuse_def)

lemma stripe_call_simps [simp]: "stripe_call (Some a) = Inr a" "stripe_call None = Inl StripeCallFailed"
  by (simp_all add: stripe_call_def)

text \<open>The early returns of the handlers.\<close>

lemma skipped_subscription_handlers:
  "api_subscription api (so_id s) = Some sub \<Longrightarrow> foreign_subscription env sub \<Longrightarrow>
    subscription_changed env api s d = succeed d"
  "foreign_subscription env s \<Longrightarrow> subscription_deleted env s d = succeed d"
  by (simp_all add: subscription_changed_def subscription_deleted_def foreign_subscription_skipped)

lemma skipped_invoice_handlers:
  assumes "truthy_text (reference_id (iv_subscription i)) \<longrightarrow>
    (\<exists>sub. api_subscription api (the (reference_id (iv_subscription i))) = Some sub \<and>
      foreign_subscription env sub)"
  shows "invoice_paid env api own now i d = succeed d" "invoice_payment_failed env api i d = succeed d"
  using assms
  by (auto simp: invoice_paid_def invoice_payment_failed_def foreign_subscription_skipped Let_def)

lemma skipped_refund:
  "api_charge api (sc_id c) = Some charge \<Longrightarrow>
   truthy_text (reference_id (sc_payment charge)) \<longrightarrow>
     (\<exists>m. api_payment api (the (reference_id (sc_payment charge))) = Some m \<and> productLine m \<noteq> ''appforge'') \<Longrightarrow>
   charge_refunded api own now x c d = succeed d"
  by (auto simp: charge_refunded_def isAppForgeCreditMetadata_def Let_def)

lemma skipped_sessions:
  "foreign_session s \<Longrightarrow> checkout_completed env api own now s d = succeed d"
  "foreign_session s \<Longrightarrow> checkout_async_paid env api own now s d = succeed d"
  "\<not> is_provider_session s \<Longrightarrow> checkout_expired s d = succeed d"
  by (simp_all add: checkout_completed_def checkout_async_paid_def checkout_expired_def
      foreign_session_def isAppForgeCreditMetadata_def)

text \<open>
  Events of other products are ignored: an event about a subscription, a checkout or a payment
  that is neither marked as AppForge's nor at a configured AppForge price is answered without an
  error and changes nothing in the database.
\<close>

theorem foreign_events_are_ignored:
  assumes "foreign_event env api (ev_body e)"
  shows "handleStripeEvent env api own now e d = (Inr (), d)"
proof -
  have "handleStripeEvent env api own now e d = succeed d"
  proof (cases "ev_body e")
    case (SubscriptionCreated s)
    with assms skipped_subscription_handlers(1) [of api s _ env d] show ?thesis
      by (auto simp: foreign_event_def handleStripeEvent_def split: option.splits)
  next
    case (SubscriptionUpdated s)
    with assms skipped_subscription_handlers(1) [of api s _ env d] show ?thesis
      by (auto simp: foreign_event_def handleStripeEvent_def split: option.splits)
  next
    case (ChargeRefunded c)
    with assms skipped_refund [of api c _ own now "ev_id e" d] show ?thesis
      by (auto simp: foreign_event_def handleStripeEvent_def split: option.splits)
  next
    case (InvoicePaid i)
    with assms skipped_invoice_handlers(1) [of i api env own now d] show ?thesis
      by (auto simp: foreign_event_def handleStripeEvent_def split: option.splits)
  next
    case (InvoicePaymentFailed i)
    with assms skipped_invoice_handlers(2) [of i api env d] show ?thesis
      by (auto simp: foreign_event_def handleStripeEvent_def split: option.splits)
  qed (use assms in \<open>simp_all add: foreign_event_def handleStripeEvent_def skipped_sessions
      skipped_subscription_handlers(2)\<close>)
  then show ?thesis by (simp add: succeed_def)
qed

section \<open>A live subscription is not replaced\<close>

lemma upsert_written:
  assumes "sub_user row = u"
    "d' = d\<lparr>subscriptions := (if getSubscriptionByUserId u d = None then subscriptions d @ [row]
       else update_where (\<lambda>s. sub_user s = u) (\<lambda>_. row) (subscriptions d))\<rparr>"
  shows "getSubscriptionByUserId v d' = (if v = u then Some row else getSubscriptionByUserId v d)"
proof (cases "getSubscriptionByUserId u d")
  case None
  with assms show ?thesis
    by (auto simp: getSubscriptionByUserId_def table_simps split: option.split)
next
  case (Some old)
  let ?K = "\<lambda>x s. sub_user s = x"
  have upd: "first_row (?K v) (update_where (?K u) (\<lambda>_. row) (subscriptions d)) =
      map_option (\<lambda>s. if ?K u s then row else s) (first_row (?K v) (subscriptions d))"
    by (rule first_row_update_where) (simp add: assms(1))
  have user: "sub_user x = v" if "first_row (?K v) (subscriptions d) = Some x" for x
    using first_row_Some [OF that] by simp
  from Some assms(2) have d': "subscriptions d' = update_where (?K u) (\<lambda>_. row) (subscriptions d)" by simp
  show ?thesis
  proof (cases "v = u")
    case True
    with Some user upd d' show ?thesis by (auto simp: getSubscriptionByUserId_def)
  next
    case False
    with user upd d' show ?thesis
      by (cases "first_row (?K v) (subscriptions d)") (auto simp: getSubscriptionByUserId_def)
  qed
qed

definition runs_elsewhere :: "stripe_api \<Rightarrow> int \<Rightarrow> string \<Rightarrow> db \<Rightarrow> stripe_subscription option" where
  \<comment> \<open>another subscription of the customer that Stripe has not ended\<close>
  "runs_elsewhere api u subscriptionId d =
    (case getSubscriptionByUserId u d of None \<Rightarrow> None
     | Some old \<Rightarrow> (case sub_stripe old of None \<Rightarrow> None
     | Some s \<Rightarrow> if s = [] \<or> s = subscriptionId then None
        else (case api_subscription api s of None \<Rightarrow> None
        | Some current \<Rightarrow>
            if so_status current = ''canceled'' \<or> so_status current = ''incomplete_expired''
            then None else Some current)))"

lemma replacement_alive_eq:
  "replacement_alive api (getSubscriptionByUserId u d) i = Inr a \<Longrightarrow> a = runs_elsewhere api u i d"
  by (auto simp: replacement_alive_def runs_elsewhere_def split: option.splits if_splits)

text \<open>
  A late event of an old subscription cannot replace a live one: storing a subscription
  either writes exactly what Stripe reports for it into the customer's row, or, when the customer
  already has another subscription that Stripe still runs, changes nothing and answers with the
  tier that one's price stands for. Nobody else's row changes and the uniqueness of customers and
  subscriptions survives.
\<close>

theorem live_subscription_is_not_replaced:
  assumes "subscription_constraints d" "upsertSubscription env api u c sub tier d = (Inr t, d')"
  shows "subscription_constraints d' \<and>
    (\<forall>v. v \<noteq> u \<longrightarrow> getSubscriptionByUserId v d' = getSubscriptionByUserId v d) \<and>
    (case runs_elsewhere api u (so_id sub) d of
       Some current \<Rightarrow> d' = d \<and> resolveTier env (so_metadata current) (so_price current) = Inr t
     | None \<Rightarrow> t = tier \<and> getSubscriptionByUserId u d' = Some (subscription_values u c sub tier))"
proof (cases "replacement_alive api (getSubscriptionByUserId u d) (so_id sub)")
  case (Inl e)
  with assms(2) show ?thesis
    by (simp add: upsertSubscription_def getSubscriptionByUserId_def Let_def refuse_def)
next
  case (Inr alive)
  note run = replacement_alive_eq [OF Inr, symmetric]
  show ?thesis
  proof (cases alive)
    case (Some current)
    from assms(2) Inr Some have
      "d' = d \<and> resolveTier env (so_metadata current) (so_price current) = Inr t"
      by (cases "resolveTier env (so_metadata current) (so_price current)")
        (auto simp: upsertSubscription_def getSubscriptionByUserId_def Let_def refuse_def)
    with run Some assms(1) show ?thesis by simp
  next
    case None
    let ?row = "subscription_values u c sub tier"
    from assms(2) Inr None have d': "d' = d\<lparr>subscriptions :=
        (if getSubscriptionByUserId u d = None then subscriptions d @ [?row]
         else update_where (\<lambda>s. sub_user s = u) (\<lambda>_. ?row) (subscriptions d))\<rparr>"
      "t = tier" "subscription_constraints d'"
      by (auto simp: upsertSubscription_def getSubscriptionByUserId_def Let_def split: if_splits)
    have row: "sub_user ?row = u" by (simp add: subscription_values_def)
    from upsert_written [OF row d'(1)] d'(2,3) run None show ?thesis by simp
  qed
qed

section \<open>Concrete events\<close>

definition sample_paid :: db where
  "sample_paid = snd (handleStripeEvent sample_env sample_api nobody 10 sample_event sample_credits)"

lemma sample_paid_run:
  "handleStripeEvent sample_env sample_api nobody 10 sample_event sample_credits = (Inr (), sample_paid)"
  by code_simp

theorem only_settled_money_mints_witness: "settles_money (ev_body sample_event)"
proof -
  have "credit_balance 1 sample_credits < credit_balance 1 sample_paid" by code_simp
  with only_settled_money_mints [OF sample_credits_ok sample_paid_run] show ?thesis by blast
qed

theorem purchase_credited_across_events_witness:
  "credit_balance 1 sample_paid = 57 \<and>
   handleStripeEvent sample_env sample_api nobody 99
     \<lparr>ev_id = ''evt_2'', ev_body = CheckoutAsyncPaid sample_session\<rparr> sample_paid = (Inr (), sample_paid)"
proof -
  have first: "ev_body sample_event = CheckoutCompleted sample_session \<or>
      ev_body sample_event = CheckoutAsyncPaid sample_session" by (simp add: sample_event_def)
  have pre: "credit_session 1 ''pi_2'' sample_session" "\<not> transaction_recorded ''pi_2'' sample_credits"
    "credit_balance 1 sample_credits = 7" "paidCreditPackForSession sample_env sample_api sample_session = Inr 50"
    by code_simp+
  have "ev_body \<lparr>ev_id = ''evt_2'', ev_body = CheckoutAsyncPaid sample_session\<rparr> = CheckoutCompleted sample_session \<or>
      ev_body \<lparr>ev_id = ''evt_2'', ev_body = CheckoutAsyncPaid sample_session\<rparr> = CheckoutAsyncPaid sample_session"
    by simp
  from purchase_credited_across_events [OF pre(1,2) first this sample_paid_run, of 99] pre(3,4)
  show ?thesis by auto
qed

theorem foreign_events_are_ignored_witness:
  "handleStripeEvent sample_env sample_api nobody 10
     \<lparr>ev_id = ''evt_3'', ev_body = SubscriptionUpdated (sample_subscription ''sub_x'' ''active'')\<rparr> sample_credits =
     (Inr (), sample_credits)"
  by (rule foreign_events_are_ignored) code_simp

theorem live_subscription_is_not_replaced_witness:
  "upsertSubscription sample_env sample_api 1 ''cus_1'' (sample_subscription ''sub_0'' ''canceled'') ''starter''
     sample_credits = (Inr ''builder'', sample_credits)"
proof -
  let ?d = "snd (upsertSubscription sample_env sample_api 1 ''cus_1''
      (sample_subscription ''sub_0'' ''canceled'') ''starter'' sample_credits)"
  have run: "upsertSubscription sample_env sample_api 1 ''cus_1'' (sample_subscription ''sub_0'' ''canceled'')
      ''starter'' sample_credits = (Inr ''builder'', ?d)" by code_simp
  have "subscription_constraints sample_credits"
    "runs_elsewhere sample_api 1 (so_id (sample_subscription ''sub_0'' ''canceled'')) sample_credits =
      Some (sample_subscription ''sub_1'' ''active'')"
    by (code_simp, simp add: runs_elsewhere_def getSubscriptionByUserId_def sample_credits_def
        first_row_def sample_api_def sample_subscription_def)
  with live_subscription_is_not_replaced [OF _ run] run show ?thesis by simp
qed

end
