(* ===== verification/SeniorDev.thy ===== *)
theory SeniorDev
  imports UserCredits "HOL-Library.Multiset"
begin

text \<open>
  Senior Dev tasks: the claims that let one caller execute a task, the heartbeat and the expiry of
  an abandoned execution (\<open>src/services/senior-dev-claim.ts\<close>), and the credits reserved for a
  task: pairing charges with refunds in ledger order and refunding exactly one outstanding charge
  (\<open>src/services/senior-dev-reservation.ts\<close>).
\<close>

section \<open>Task states\<close>

definition STARTABLE_SENIOR_DEV_STATUSES :: "string list" where
  "STARTABLE_SENIOR_DEV_STATUSES = [''planning'', ''failed'']"

definition own_task :: "int \<Rightarrow> int \<Rightarrow> senior_task_row \<Rightarrow> bool" where
  "own_task taskId userId t \<longleftrightarrow> sd_id t = taskId \<and> sd_user t = userId"

definition update_tasks ::
    "(senior_task_row \<Rightarrow> bool) \<Rightarrow> (senior_task_row \<Rightarrow> senior_task_row) \<Rightarrow> db \<Rightarrow> bool \<times> db" where
  \<comment> \<open>UPDATE ... RETURNING id, and whether exactly one row came back\<close>
  "update_tasks P f d = (length (rows_where P (senior_tasks d)) = 1,
     d\<lparr>senior_tasks := update_where P f (senior_tasks d)\<rparr>)"

definition start_ready :: "int \<Rightarrow> int \<Rightarrow> senior_task_row \<Rightarrow> bool" where
  "start_ready taskId userId t \<longleftrightarrow> own_task taskId userId t \<and>
     sd_status t \<in> set STARTABLE_SENIOR_DEV_STATUSES"

definition resume_ready :: "int \<Rightarrow> int \<Rightarrow> senior_task_row \<Rightarrow> bool" where
  "resume_ready taskId userId t \<longleftrightarrow> own_task taskId userId t \<and> sd_status t = ''awaiting_approval''"

definition executing :: "int \<Rightarrow> int \<Rightarrow> senior_task_row \<Rightarrow> bool" where
  "executing taskId userId t \<longleftrightarrow> own_task taskId userId t \<and> sd_status t = ''executing''"

definition claimSeniorDevStart :: "int \<Rightarrow> int \<Rightarrow> int \<Rightarrow> db \<Rightarrow> bool \<times> db" where
  "claimSeniorDevStart now taskId userId = update_tasks (start_ready taskId userId)
     (\<lambda>t. t\<lparr>sd_status := ''executing'', sd_updatedAt := now\<rparr>)"

definition touchSeniorDevExecution :: "int \<Rightarrow> int \<Rightarrow> int \<Rightarrow> db \<Rightarrow> bool \<times> db" where
  "touchSeniorDevExecution now taskId userId = update_tasks (executing taskId userId)
     (\<lambda>t. t\<lparr>sd_updatedAt := now\<rparr>)"

definition failStaleSeniorDevExecution :: "int \<Rightarrow> int \<Rightarrow> int \<Rightarrow> int \<Rightarrow> db \<Rightarrow> bool \<times> db" where
  "failStaleSeniorDevExecution now taskId userId staleBefore = update_tasks
     (\<lambda>t. executing taskId userId t \<and> sd_updatedAt t < staleBefore)
     (\<lambda>t. t\<lparr>sd_status := ''failed'', sd_updatedAt := now\<rparr>)"

definition releaseSeniorDevStartClaim :: "int \<Rightarrow> int \<Rightarrow> int \<Rightarrow> string option \<Rightarrow> db \<Rightarrow> db" where
  "releaseSeniorDevStartClaim now taskId userId previousStatus d =
    (let rollbackStatus = (if previousStatus = Some ''failed'' then ''failed'' else ''planning'')
     in snd (update_tasks (executing taskId userId)
          (\<lambda>t. t\<lparr>sd_status := rollbackStatus, sd_updatedAt := now\<rparr>) d))"

definition claimSeniorDevResume :: "int \<Rightarrow> int \<Rightarrow> int \<Rightarrow> db \<Rightarrow> bool \<times> db" where
  "claimSeniorDevResume now taskId userId = update_tasks (resume_ready taskId userId)
     (\<lambda>t. t\<lparr>sd_status := ''executing'', sd_planApproved := True, sd_updatedAt := now\<rparr>)"

section \<open>One executor per task\<close>

definition tasks_keyed :: "db \<Rightarrow> bool" where
  "tasks_keyed d = distinct (map sd_id (senior_tasks d))"

lemma update_tasks_claim:
  assumes keyed: "tasks_keyed d" and one: "\<And>x y. P x \<Longrightarrow> P y \<Longrightarrow> sd_id x = sd_id y"
    and id: "\<And>x. P x \<Longrightarrow> sd_id (f x) = sd_id x" and off: "\<And>x. P x \<Longrightarrow> \<not> P (f x)"
  shows "tasks_keyed (snd (update_tasks P f d))"
    and "fst (update_tasks P f d) \<longleftrightarrow> list_ex P (senior_tasks d)"
    and "\<not> list_ex P (senior_tasks (snd (update_tasks P f d)))"
    and "\<not> fst (update_tasks P f d) \<Longrightarrow> snd (update_tasks P f d) = d"
proof -
  show "tasks_keyed (snd (update_tasks P f d))"
    using keyed id by (simp add: tasks_keyed_def update_tasks_def map_update_where)
  show won: "fst (update_tasks P f d) \<longleftrightarrow> list_ex P (senior_tasks d)"
    using count_rows_where_one [of sd_id "senior_tasks d" P, OF keyed [unfolded tasks_keyed_def] one]
    by (simp add: update_tasks_def)
  show "\<not> list_ex P (senior_tasks (snd (update_tasks P f d)))"
  proof -
    have "\<not> P r" if "r \<in> set (update_where P f (senior_tasks d))" for r
      using update_where_clears [of P f r "senior_tasks d"] off that by blast
    moreover have "senior_tasks (snd (update_tasks P f d)) = update_where P f (senior_tasks d)"
      by (simp add: update_tasks_def)
    ultimately show ?thesis unfolding list_ex_iff by metis
  qed
  assume "\<not> fst (update_tasks P f d)"
  with won show "snd (update_tasks P f d) = d"
    by (simp add: update_tasks_def list_ex_iff update_where_idle)
qed

definition start_claimable :: "int \<Rightarrow> int \<Rightarrow> db \<Rightarrow> bool" where
  "start_claimable tid uid d = list_ex (start_ready tid uid) (senior_tasks d)"

definition resume_claimable :: "int \<Rightarrow> int \<Rightarrow> db \<Rightarrow> bool" where
  "resume_claimable tid uid d = list_ex (resume_ready tid uid) (senior_tasks d)"

lemmas start_claim = update_tasks_claim [where P = "start_ready tid uid" for tid uid]
lemmas resume_claim = update_tasks_claim [where P = "resume_ready tid uid" for tid uid]

lemma start_claim_facts:
  assumes "tasks_keyed d"
  shows "tasks_keyed (snd (claimSeniorDevStart now tid uid d))"
    and "fst (claimSeniorDevStart now tid uid d) \<longleftrightarrow> start_claimable tid uid d"
    and "\<not> start_claimable tid uid (snd (claimSeniorDevStart now tid uid d))"
    and "\<not> fst (claimSeniorDevStart now tid uid d) \<Longrightarrow> snd (claimSeniorDevStart now tid uid d) = d"
  unfolding claimSeniorDevStart_def start_claimable_def
  by (rule start_claim [OF assms];
      simp add: start_ready_def own_task_def STARTABLE_SENIOR_DEV_STATUSES_def)+

lemma resume_claim_facts:
  assumes "tasks_keyed d"
  shows "tasks_keyed (snd (claimSeniorDevResume now tid uid d))"
    and "fst (claimSeniorDevResume now tid uid d) \<longleftrightarrow> resume_claimable tid uid d"
    and "\<not> resume_claimable tid uid (snd (claimSeniorDevResume now tid uid d))"
    and "\<not> fst (claimSeniorDevResume now tid uid d) \<Longrightarrow> snd (claimSeniorDevResume now tid uid d) = d"
  unfolding claimSeniorDevResume_def resume_claimable_def
  by (rule resume_claim [OF assms]; simp add: resume_ready_def own_task_def)+

interpretation start: exclusive_claim
  "\<lambda>now. claimSeniorDevStart now tid uid" "start_claimable tid uid" tasks_keyed for tid uid
  by unfold_locales (use start_claim_facts in \<open>metis fst_conv snd_conv\<close>)+

interpretation resume: exclusive_claim
  "\<lambda>now. claimSeniorDevResume now tid uid" "resume_claimable tid uid" tasks_keyed for tid uid
  by unfold_locales (use resume_claim_facts in \<open>metis fst_conv snd_conv\<close>)+

text \<open>Callers that try to start or to resume one task, in the order they are served.\<close>

datatype attempt = StartAttempt int | ResumeAttempt int

fun attempt_task :: "int \<Rightarrow> int \<Rightarrow> attempt \<Rightarrow> db \<Rightarrow> bool \<times> db" where
  "attempt_task tid uid (StartAttempt now) d = claimSeniorDevStart now tid uid d"
| "attempt_task tid uid (ResumeAttempt now) d = claimSeniorDevResume now tid uid d"

definition task_claimable :: "int \<Rightarrow> int \<Rightarrow> db \<Rightarrow> bool" where
  "task_claimable tid uid d \<longleftrightarrow> start_claimable tid uid d \<or> resume_claimable tid uid d"

fun competing_attempts :: "int \<Rightarrow> int \<Rightarrow> attempt list \<Rightarrow> db \<Rightarrow> bool list \<times> db" where
  "competing_attempts tid uid [] d = ([], d)"
| "competing_attempts tid uid (a # as) d =
     (let (won, d1) = attempt_task tid uid a d; (rest, d2) = competing_attempts tid uid as d1
      in (won # rest, d2))"

lemma attempt_executes:
  assumes "tasks_keyed d" "attempt_task tid uid a d = (True, d')"
  shows "\<not> task_claimable tid uid d'" "tasks_keyed d'" "list_ex (executing tid uid) (senior_tasks d')"
proof -
  have upd: "list_ex (executing tid uid) (update_where P f (senior_tasks d)) \<and>
      (\<forall>x \<in> set (update_where P f (senior_tasks d)). own_task tid uid x \<longrightarrow> sd_status x = ''executing'')"
    if "length (rows_where P (senior_tasks d)) = 1" "\<And>x. P x \<Longrightarrow> own_task tid uid x"
      "\<And>x. P x \<Longrightarrow> executing tid uid (f x)" for P f
  proof -
    from that(1) have "rows_where P (senior_tasks d) \<noteq> []" by auto
    then obtain t where t: "t \<in> set (senior_tasks d)" "P t"
      unfolding rows_where_def filter_empty_conv by blast
    have "r = t" if "r \<in> set (senior_tasks d)" "own_task tid uid r" for r
      using distinct_key_eq [of sd_id "senior_tasks d" r t] assms(1) that t \<open>\<And>x. P x \<Longrightarrow> own_task tid uid x\<close> [of t]
      by (simp add: tasks_keyed_def own_task_def)
    with t that(3) show ?thesis
      by (auto simp: list_ex_iff set_update_where executing_def)
  qed
  have "tasks_keyed d' \<and> list_ex (executing tid uid) (senior_tasks d') \<and>
      (\<forall>x \<in> set (senior_tasks d'). own_task tid uid x \<longrightarrow> sd_status x = ''executing'')"
  proof (cases a)
    case (StartAttempt now)
    with assms have "length (rows_where (start_ready tid uid) (senior_tasks d)) = 1"
      "d' = d\<lparr>senior_tasks := update_where (start_ready tid uid)
        (\<lambda>t. t\<lparr>sd_status := ''executing'', sd_updatedAt := now\<rparr>) (senior_tasks d)\<rparr>"
      by (auto simp: claimSeniorDevStart_def update_tasks_def)
    moreover from this(2) assms(1) have "tasks_keyed d'" by (simp add: tasks_keyed_def map_update_where)
    ultimately show ?thesis
      using upd [of "start_ready tid uid" "\<lambda>t. t\<lparr>sd_status := ''executing'', sd_updatedAt := now\<rparr>"]
      by (auto simp: start_ready_def executing_def own_task_def)
  next
    case (ResumeAttempt now)
    with assms have "length (rows_where (resume_ready tid uid) (senior_tasks d)) = 1"
      "d' = d\<lparr>senior_tasks := update_where (resume_ready tid uid)
        (\<lambda>t. t\<lparr>sd_status := ''executing'', sd_planApproved := True, sd_updatedAt := now\<rparr>) (senior_tasks d)\<rparr>"
      by (auto simp: claimSeniorDevResume_def update_tasks_def)
    moreover from this(2) assms(1) have "tasks_keyed d'" by (simp add: tasks_keyed_def map_update_where)
    ultimately show ?thesis
      using upd [of "resume_ready tid uid"
          "\<lambda>t. t\<lparr>sd_status := ''executing'', sd_planApproved := True, sd_updatedAt := now\<rparr>"]
      by (auto simp: resume_ready_def executing_def own_task_def)
  qed
  then show "\<not> task_claimable tid uid d'" "tasks_keyed d'" "list_ex (executing tid uid) (senior_tasks d')"
    by (auto simp: task_claimable_def start_claimable_def resume_claimable_def list_ex_iff start_ready_def
        resume_ready_def STARTABLE_SENIOR_DEV_STATUSES_def)
qed

lemma attempt_idle:
  assumes "tasks_keyed d" "attempt_task tid uid a d = (False, d')"
  shows "d' = d"
  using assms start_claim_facts(4) [OF assms(1)] resume_claim_facts(4) [OF assms(1)]
  by (cases a) (auto, metis fst_conv snd_conv, metis fst_conv snd_conv)

lemma attempts_lost:
  "tasks_keyed d \<Longrightarrow> \<not> task_claimable tid uid d \<Longrightarrow>
   competing_attempts tid uid as d = (map (\<lambda>_. False) as, d)"
proof (induction as)
  case (Cons a as)
  obtain w d' where a: "attempt_task tid uid a d = (w, d')" by fastforce
  have "w \<longrightarrow> task_claimable tid uid d"
    using a start_claim_facts(2) [OF Cons.prems(1)] resume_claim_facts(2) [OF Cons.prems(1)]
    by (cases a) (auto simp: task_claimable_def, metis fst_conv, metis fst_conv)
  with Cons a attempt_idle [of d tid uid a d'] show ?case by auto
qed simp

text \<open>
  One caller executes a task: whoever tries to start or to resume a Senior Dev task, in any
  mixture and order, exactly one of the attempts that can succeed at first succeeds; once one has,
  the task is executing and every other attempt fails without a change.
\<close>

theorem one_senior_executor:
  assumes "tasks_keyed d" "attempt_task tid uid a d = (won, d')"
  shows "(won \<longrightarrow> list_ex (executing tid uid) (senior_tasks d') \<and>
      competing_attempts tid uid as d' = (map (\<lambda>_. False) as, d')) \<and>
    (\<not> won \<longrightarrow> d' = d) \<and>
    length (filter id (fst (competing_attempts tid uid as d))) \<le> 1"
proof -
  have most: "length (filter id (fst (competing_attempts tid uid as d))) \<le> 1"
    using assms(1)
  proof (induction as)
    case (Cons b bs)
    obtain w e where b: "attempt_task tid uid b d = (w, e)" by fastforce
    show ?case
    proof (cases w)
      case True
      with b have "attempt_task tid uid b d = (True, e)" by simp
      from attempt_executes [OF Cons.prems this] attempts_lost [of e tid uid bs] b True show ?thesis
        by simp
    next
      case False
      with b attempt_idle [of d tid uid b e] Cons.prems have "e = d" by simp
      with b False Cons show ?thesis by (simp add: case_prod_unfold Let_def)
    qed
  qed simp
  show ?thesis
  proof (cases won)
    case True
    with assms(2) have "attempt_task tid uid a d = (True, d')" by simp
    from attempt_executes [OF assms(1) this] attempts_lost [of d' tid uid as] most True show ?thesis
      by simp
  next
    case False
    with assms attempt_idle [of d tid uid a d'] most show ?thesis by simp
  qed
qed

section \<open>Reservations and their refunds\<close>

definition like_prefix :: "string \<Rightarrow> string option \<Rightarrow> bool" where
  \<comment> \<open>\<open>column LIKE 'prefix%'\<close> for a prefix without wildcards\<close>
  "like_prefix p v = (case v of None \<Rightarrow> False | Some s \<Rightarrow> starts_with p s)"

definition reservation_charge :: "int \<Rightarrow> int \<Rightarrow> credit_transaction_row \<Rightarrow> bool" where
  "reservation_charge projectId taskId t \<longleftrightarrow> ct_project t = Some projectId \<and>
     ct_type t = ''build_usage'' \<and> ct_amount t < 0 \<and>
     starts_with (''Senior Dev Agent reservation senior-dev-'' @ show_int taskId @ ''-'') (ct_description t)"

definition reservation_refund :: "int \<Rightarrow> credit_transaction_row \<Rightarrow> bool" where
  "reservation_refund taskId t \<longleftrightarrow> ct_type t = ''senior_dev_refund'' \<and> ct_amount t > 0 \<and>
     (like_prefix (''senior-dev-ledger-refund-'' @ show_int taskId @ ''-'') (ct_ref t) \<or>
      like_prefix (''senior-dev-refund-senior-dev-'' @ show_int taskId @ ''-'') (ct_ref t) \<or>
      ct_ref t = Some (''senior-dev-resume-refund-'' @ show_int taskId))"

definition getSeniorDevReservationLedger :: "int \<Rightarrow> int \<Rightarrow> int \<Rightarrow> db \<Rightarrow> (int \<times> int) list" where
  "getSeniorDevReservationLedger userId projectId taskId d =
     map (\<lambda>t. (ct_id t, ct_amount t)) (sort_key ct_id (rows_where
       (\<lambda>t. ct_user t = userId \<and>
            (reservation_charge projectId taskId t \<or> reservation_refund taskId t))
       (credit_transactions d)))"

fun outstanding :: "int list \<Rightarrow> (int \<times> int) list \<Rightarrow> int list" where
  "outstanding queue [] = queue"
| "outstanding queue ((i, amount) # entries) =
     (if amount < 0 then outstanding (queue @ [i]) entries
      else if amount > 0 \<and> queue \<noteq> [] then outstanding (tl queue) entries
      else outstanding queue entries)"

definition findOutstandingSeniorDevReservationChargeId :: "(int \<times> int) list \<Rightarrow> int option" where
  "findOutstandingSeniorDevReservationChargeId entries =
     (case outstanding [] entries of [] \<Rightarrow> None | i # _ \<Rightarrow> Some i)"

definition getOutstandingSeniorDevReservationChargeId :: "int \<Rightarrow> int \<Rightarrow> int \<Rightarrow> db \<Rightarrow> int option" where
  "getOutstandingSeniorDevReservationChargeId userId projectId taskId d =
     findOutstandingSeniorDevReservationChargeId
       (getSeniorDevReservationLedger userId projectId taskId d)"

definition wasSeniorDevReservationCharged :: "int \<Rightarrow> int \<Rightarrow> int \<Rightarrow> db \<Rightarrow> bool" where
  "wasSeniorDevReservationCharged userId projectId taskId d \<longleftrightarrow>
     getOutstandingSeniorDevReservationChargeId userId projectId taskId d \<noteq> None"

definition senior_refund_key :: "int \<Rightarrow> int \<Rightarrow> string" where
  "senior_refund_key taskId chargeId =
     ''senior-dev-ledger-refund-'' @ show_int taskId @ ''-'' @ show_int chargeId"

text \<open>\<open>between\<close> is what other sessions do between reading the ledger and the refund.\<close>

definition refundOutstandingSeniorDevReservation ::
    "(string option \<Rightarrow> bool) \<Rightarrow> int \<Rightarrow> int \<Rightarrow> int \<Rightarrow> int \<Rightarrow> string \<Rightarrow> (db \<Rightarrow> db) \<Rightarrow> db \<Rightarrow>
     (credit_error, bool) result \<times> db" where
  "refundOutstandingSeniorDevReservation own now userId projectId taskId description between d =
    (case getOutstandingSeniorDevReservationChargeId userId projectId taskId d of
       None \<Rightarrow> (Inr False, between d)
     | Some chargeId \<Rightarrow>
        (case addCredits own now userId SENIOR_DEV_CREDIT_COST ''senior_dev_refund'' (Some description)
            (Some (senior_refund_key taskId chargeId)) (between d) of
           (Inl e, d1) \<Rightarrow> (Inl e, d1)
         | (Inr _, d1) \<Rightarrow> (Inr True, d1)))"

lemma outstanding_append: "outstanding q (es @ fs) = outstanding (outstanding q es) fs"
  by (induction q es rule: outstanding.induct) auto

lemma outstanding_refund: "0 < a \<Longrightarrow> outstanding q (es @ [(i, a)]) = tl (outstanding q es)"
  by (cases "outstanding q es") (simp_all add: outstanding_append)

lemma sort_key_snoc:
  assumes "\<forall>y \<in> set xs. f y < f x"
  shows "sort_key f (xs @ [x]) = sort_key f xs @ [x]"
proof (rule properties_for_sort_key)
  show "mset (sort_key f xs @ [x]) = mset (xs @ [x])" by simp
  show "filter (\<lambda>y. f k = f y) (sort_key f xs @ [x]) = filter (\<lambda>y. f k = f y) (xs @ [x])" for k
    using sort_key_stable [of f "f k" xs] by (simp add: eq_commute)
  show "sorted (map f (sort_key f xs @ [x]))"
    using assms by (auto simp: sorted_append intro: less_imp_le)
qed

lemma ledger_after_refund:
  assumes "credit_transactions d' = credit_transactions d @ [t]" "ct_id t = next_serial ct_id (credit_transactions d)"
    "ct_user t = u" "reservation_refund tid t"
  shows "outstanding [] (getSeniorDevReservationLedger u p tid d') =
    tl (outstanding [] (getSeniorDevReservationLedger u p tid d))"
proof -
  let ?L = "\<lambda>t. ct_user t = u \<and> (reservation_charge p tid t \<or> reservation_refund tid t)"
  have "rows_where ?L (credit_transactions d') = rows_where ?L (credit_transactions d) @ [t]"
    using assms by (simp add: rows_where_def)
  moreover have "\<forall>y \<in> set (rows_where ?L (credit_transactions d)). ct_id y < ct_id t"
    using assms(2) by (auto simp: rows_where_def intro: next_serial_fresh)
  ultimately have "getSeniorDevReservationLedger u p tid d' =
      getSeniorDevReservationLedger u p tid d @ [(ct_id t, ct_amount t)]"
    by (simp add: getSeniorDevReservationLedger_def sort_key_snoc)
  moreover have "0 < ct_amount t" using assms(4) by (simp add: reservation_refund_def)
  ultimately show ?thesis by (simp add: outstanding_refund)
qed

lemma senior_refund_key_cons: "\<exists>k ks. senior_refund_key tid c = k # ks"
  by (simp add: senior_refund_key_def)

text \<open>
  A Senior Dev reservation is refunded once: a refund credits exactly the reservation's cost to
  the customer and takes the oldest outstanding charge out of the ledger, leaving the others; and
  another handler that had read the same outstanding charge, however late it runs, is answered
  but credits nothing and changes nothing.
\<close>

theorem senior_reservation_refunded_once:
  assumes "refundOutstandingSeniorDevReservation own now u p tid text between d = (Inr True, d')"
    "getOutstandingSeniorDevReservationChargeId u p tid d = Some c"
    "\<not> transaction_recorded (senior_refund_key tid c) (between d)"
  shows "credit_balance u d' = credit_balance u (between d) + SENIOR_DEV_CREDIT_COST \<and>
    (\<forall>v. v \<noteq> u \<longrightarrow> credit_balance v d' = credit_balance v (between d)) \<and>
    outstanding [] (getSeniorDevReservationLedger u p tid d') =
      tl (outstanding [] (getSeniorDevReservationLedger u p tid (between d))) \<and>
    (\<forall>later text2. refundOutstandingSeniorDevReservation own later u p tid text2 (\<lambda>_. d') d =
      (Inr True, d'))"
proof -
  let ?key = "senior_refund_key tid c"
  obtain k ks where key: "?key = k # ks" using senior_refund_key_cons by blast
  from assms(1,2) obtain b where add: "addCredits own now u SENIOR_DEV_CREDIT_COST ''senior_dev_refund''
      (Some text) (Some ?key) (between d) = (Inr b, d')"
    by (auto simp: refundOutstandingSeniorDevReservation_def split: prod.splits sum.splits)
  note once = purchase_is_credited_once_facts [OF assms(3) [unfolded key] add [unfolded key]]
  have usable: "usable_key (Some ?key) = Some ?key" by (simp add: key usable_key_def)
  note rec = addCredits_recorded [OF add usable]
  have "outstanding [] (getSeniorDevReservationLedger u p tid d') =
      tl (outstanding [] (getSeniorDevReservationLedger u p tid (between d)))"
    using add
  proof (cases rule: addCredits_cases)
    case (1 c1 d1)
    then have "transaction_recorded ?key (between d)"
      using ensure_same_tables(3) [OF 1(1)] usable by (simp add: already_recorded_def)
    with assms(3) show ?thesis by simp
  next
    case (2 c1 d1)
    let ?t = "\<lparr>ct_id = next_serial ct_id (credit_transactions (between d)), ct_user = u,
       ct_amount = SENIOR_DEV_CREDIT_COST, ct_type = ''senior_dev_refund'', ct_project = None,
       ct_ref = Some ?key, ct_description = text, ct_created = now\<rparr>"
    have "credit_transactions d' = credit_transactions (between d) @ [?t]"
      using ensure_same_tables(1) [OF 2(1)] by (simp add: 2(6) record_transaction_def set_credits_def or_default_def)
    moreover have "reservation_refund tid ?t"
      by (simp add: reservation_refund_def SENIOR_DEV_CREDIT_COST_def like_prefix_def starts_with_iff
          senior_refund_key_def)
    ultimately show ?thesis by (intro ledger_after_refund [where t = ?t]) simp_all
  qed
  moreover have "refundOutstandingSeniorDevReservation own later u p tid text2 (\<lambda>_. d') d = (Inr True, d')"
    for later text2
    using addCredits_replay [OF rec(1,2) usable] assms(2)
    by (simp add: refundOutstandingSeniorDevReservation_def SENIOR_DEV_CREDIT_COST_def)
  ultimately show ?thesis using once by simp
qed

section \<open>A concrete task\<close>

definition sample_senior :: db where
  "sample_senior = sample_credits\<lparr>
     credit_transactions := [\<lparr>ct_id = 1, ct_user = 1, ct_amount = 13, ct_type = ''purchase'',
         ct_project = None, ct_ref = Some ''pi_1'', ct_description = ''Credit purchase'', ct_created = 0\<rparr>,
       \<lparr>ct_id = 2, ct_user = 1, ct_amount = - 6, ct_type = ''build_usage'', ct_project = Some 7,
         ct_ref = None, ct_description = ''Senior Dev Agent reservation senior-dev-3-a'', ct_created = 1\<rparr>],
     senior_tasks := [\<lparr>sd_id = 3, sd_user = 1, sd_project = 7, sd_status = ''planning'',
       sd_planApproved = False, sd_updatedAt = 0\<rparr>]\<rparr>"

definition sample_senior_refunded :: db where
  "sample_senior_refunded = snd (refundOutstandingSeniorDevReservation nobody 9 1 7 3 ''refund'' (\<lambda>d. d) sample_senior)"

theorem senior_reservation_refunded_once_witness:
  "credit_balance 1 sample_senior_refunded = 13 \<and>
   refundOutstandingSeniorDevReservation nobody 10 1 7 3 ''again'' (\<lambda>_. sample_senior_refunded) sample_senior =
     (Inr True, sample_senior_refunded)"
proof -
  have pre: "refundOutstandingSeniorDevReservation nobody 9 1 7 3 ''refund'' (\<lambda>d. d) sample_senior =
      (Inr True, sample_senior_refunded)"
    "getOutstandingSeniorDevReservationChargeId 1 7 3 sample_senior = Some 2"
    "\<not> transaction_recorded (senior_refund_key 3 2) sample_senior"
    by code_simp+
  have "credit_balance 1 sample_senior = 7" by code_simp
  with senior_reservation_refunded_once [OF pre] show ?thesis by (simp add: SENIOR_DEV_CREDIT_COST_def)
qed

theorem one_senior_executor_witness:
  "length (filter id (fst (competing_attempts 3 1 [StartAttempt 5, ResumeAttempt 6, StartAttempt 7]
     sample_senior))) \<le> 1"
proof -
  have keyed: "tasks_keyed sample_senior" by code_simp
  have "attempt_task 3 1 (StartAttempt 5) sample_senior = (True, snd (attempt_task 3 1 (StartAttempt 5) sample_senior))"
    by code_simp
  from one_senior_executor [OF keyed this] show ?thesis by blast
qed

end
