(* ===== verification/BuildClaims.thy ===== *)
theory BuildClaims
  imports UserCredits
begin

text \<open>
  Who may run a build: the claim of a project by one build starter, its release, the pause after
  a dead worker (\<open>src/services/build-claim.ts\<close>), the execution lease that fences stale workers
  (\<open>src/services/buildExecutionLease.ts\<close>), the queries over build events
  (\<open>src/services/build-event-store.ts\<close>, \<open>src/lib/buildRecovery.ts\<close>) and the recovery of a
  failed queue attempt (\<open>src/services/build-queue.ts\<close>). A conditional UPDATE is one atomic
  step; its RETURNING rows are the rows that satisfied the condition.
\<close>

section \<open>Claiming a project\<close>

definition STARTABLE_BUILD_STATUSES :: "string list" where
  "STARTABLE_BUILD_STATUSES = [''pending'', ''failed'', ''paused'']"

definition startable :: "int \<Rightarrow> int \<Rightarrow> project_row \<Rightarrow> bool" where
  "startable projectId userId p \<longleftrightarrow>
     p_id p = projectId \<and> p_user p = userId \<and> p_status p \<in> set STARTABLE_BUILD_STATUSES \<and>
     (p_status p \<noteq> ''paused'' \<or>
      (case p_pauseReason p of None \<Rightarrow> True
       | Some r \<Rightarrow> r \<noteq> ''user_cancelled'' \<and> r \<noteq> ''user-cancelled''))"

definition stamp_of :: "int \<Rightarrow> stamp" where
  "stamp_of t = Stamp (toISOString t) (Some t)"

definition append_event :: "int \<Rightarrow> string \<Rightarrow> event_payload \<Rightarrow> db \<Rightarrow> db" where
  "append_event project event payload d = d\<lparr>build_events := build_events d @
     [\<lparr>be_id = next_serial be_id (build_events d), be_project = project, be_event = event,
       be_payload = payload\<rparr>]\<rparr>"

definition claimProjectBuildStart :: "int \<Rightarrow> int \<Rightarrow> int \<Rightarrow> db \<Rightarrow> bool \<times> db" where
  "claimProjectBuildStart claimedAt projectId userId d =
    (let claimed = rows_where (startable projectId userId) (projects d);
         d1 = d\<lparr>projects := update_where (startable projectId userId)
           (\<lambda>p. p\<lparr>p_status := ''running'', p_pauseReason := None, p_updatedAt := claimedAt\<rparr>)
           (projects d)\<rparr>
     in if length claimed = 1
        then (True, append_event projectId ''build_claim'' (ClaimPayload (stamp_of claimedAt)) d1)
        else (False, d1))"

definition own_running :: "int \<Rightarrow> int \<Rightarrow> project_row \<Rightarrow> bool" where
  "own_running projectId userId p \<longleftrightarrow>
     p_id p = projectId \<and> p_user p = userId \<and> p_status p = ''running''"

definition releaseProjectBuildClaim ::
    "int \<Rightarrow> int \<Rightarrow> int \<Rightarrow> string option \<Rightarrow> string option \<Rightarrow> db \<Rightarrow> db" where
  "releaseProjectBuildClaim now projectId userId previousStatus previousPauseReason d =
    (let rollbackStatus = (case previousStatus of None \<Rightarrow> ''failed''
          | Some s \<Rightarrow> if s = ''pending'' \<or> s = ''paused'' \<or> s = ''failed'' then s else ''failed'')
     in d\<lparr>projects := update_where (own_running projectId userId)
          (\<lambda>p. p\<lparr>p_status := rollbackStatus, p_pauseReason := previousPauseReason,
                 p_updatedAt := now\<rparr>) (projects d)\<rparr>)"

definition claim_stamp :: "build_event_row \<Rightarrow> stamp option" where
  \<comment> \<open>\<open>payload->>'claimedAt'\<close> of a build claim\<close>
  "claim_stamp e = (case be_payload e of ClaimPayload s \<Rightarrow> Some s | _ \<Rightarrow> None)"

definition is_event :: "int \<Rightarrow> string \<Rightarrow> build_event_row \<Rightarrow> bool" where
  "is_event project event e \<longleftrightarrow> be_project e = project \<and> be_event e = event"

definition claimed_after :: "int \<Rightarrow> int \<Rightarrow> db \<Rightarrow> bool" where
  "claimed_after project t d \<longleftrightarrow>
     list_ex (\<lambda>e. case Option.bind (claim_stamp e) stamp_time of None \<Rightarrow> False | Some c \<Rightarrow> c > t)
       (rows_where (is_event project ''build_claim'') (build_events d))"

definition unreadable_claim :: "int \<Rightarrow> db \<Rightarrow> bool" where
  \<comment> \<open>a claim whose text does not cast to a timestamp makes the statement fail\<close>
  "unreadable_claim project d \<longleftrightarrow>
     list_ex (\<lambda>e. case claim_stamp e of None \<Rightarrow> False | Some s \<Rightarrow> stamp_time s = None)
       (rows_where (is_event project ''build_claim'') (build_events d))"

definition pauseFailedQueueAttempt ::
    "int \<Rightarrow> int \<Rightarrow> int \<Rightarrow> int \<Rightarrow> stamp \<Rightarrow> db \<Rightarrow> (bool \<times> db) option" where
  "pauseFailedQueueAttempt now projectId userId expectedUpdatedAt attempt d =
    (case stamp_time attempt of None \<Rightarrow> None
     | Some attemptTime \<Rightarrow>
       if unreadable_claim projectId d then None
       else
         let exact = (\<lambda>p. own_running projectId userId p \<and> p_updatedAt p = expectedUpdatedAt \<and>
               \<not> claimed_after projectId attemptTime d);
             paused = rows_where exact (projects d);
             d1 = d\<lparr>projects := update_where exact
               (\<lambda>p. p\<lparr>p_status := ''paused'', p_pauseReason := Some ''retry_after_error'',
                      p_errorMessage := Some
                        (''The build worker stopped. Your approved decisions and saved files are '' @
                         ''preserved; retry to continue.''),
                      p_failureStage := Some ''worker_interruption'', p_creditsSpent := 0,
                      p_creditsReserved := 0, p_updatedAt := now\<rparr>) (projects d)\<rparr>
         in Some (if length paused = 1
           then (True, append_event projectId ''build_execution_claim''
                   (RevokedPayload attempt ''worker_interruption'') d1)
           else (False, d1)))"

section \<open>Queries over build events\<close>

definition max_event :: "build_event_row list \<Rightarrow> build_event_row option" where
  \<comment> \<open>ORDER BY id DESC LIMIT 1\<close>
  "max_event es = fold (\<lambda>e best. case best of None \<Rightarrow> Some e
     | Some b \<Rightarrow> if be_id e > be_id b then Some e else Some b) es None"

definition getBuildEventsSince :: "int \<Rightarrow> int \<Rightarrow> db \<Rightarrow> build_event_row list" where
  "getBuildEventsSince project afterId d =
     sort_key be_id (rows_where (\<lambda>e. be_project e = project \<and> be_id e > afterId) (build_events d))"

definition getLatestBuildClaimAt :: "int \<Rightarrow> db \<Rightarrow> stamp option" where
  "getLatestBuildClaimAt project d = Option.bind
     (max_event (rows_where (is_event project ''build_claim'') (build_events d))) claim_stamp"

definition getLatestTerminalBuildEvent :: "int \<Rightarrow> db \<Rightarrow> build_event_row option" where
  "getLatestTerminalBuildEvent project d =
    (let lastClaim = (case max_event (rows_where (is_event project ''build_claim'') (build_events d)) of
          None \<Rightarrow> 0 | Some e \<Rightarrow> be_id e)
     in max_event (rows_where (\<lambda>e. be_project e = project \<and>
          (be_event e = ''done'' \<or> be_event e = ''error'') \<and> be_id e > lastClaim) (build_events d)))"

definition buildEventMatchesAttempt :: "event_payload \<Rightarrow> stamp option \<Rightarrow> bool" where
  "buildEventMatchesAttempt payload claimedAt =
    (case claimedAt of None \<Rightarrow> True
     | Some claim \<Rightarrow>
        if stamp_text claim = [] then True
        else case payload of
          AttemptPayload (Some created) \<Rightarrow>
            (case (stamp_time created, stamp_time claim) of
               (Some a, Some b) \<Rightarrow> a \<ge> b | _ \<Rightarrow> False)
        | AttemptPayload None \<Rightarrow> False
        | _ \<Rightarrow> True)"

definition RECOVERABLE_PAUSES :: "string list" where
  "RECOVERABLE_PAUSES =
     [''retry_after_error'', ''agent_timeout'', ''still_building'', ''validation_unavailable'']"

definition isRecoverableBuildPause :: "string option \<Rightarrow> string option \<Rightarrow> bool" where
  "isRecoverableBuildPause status reason \<longleftrightarrow>
     status = Some ''paused'' \<and>
     (case reason of None \<Rightarrow> False
      | Some r \<Rightarrow> r \<in> set RECOVERABLE_PAUSES \<or>
          (case strip_prefix ''still_building_soft_ceiling_'' r of None \<Rightarrow> False
           | Some digits \<Rightarrow> nonempty_class is_digit digits))"

definition canRetryPlanning :: "project_row \<Rightarrow> bool \<Rightarrow> bool" where
  "canRetryPlanning p hasPlan \<longleftrightarrow>
     isRecoverableBuildPause (Some (p_status p)) (p_pauseReason p) \<and> \<not> hasPlan \<and>
     or_default [] (p_buildStage p) \<in> {''researching'', ''planning'', ''architecture''}"

fun currentBuildAttemptEvents :: "('a \<Rightarrow> string) \<Rightarrow> 'a list \<Rightarrow> 'a list" where
  "currentBuildAttemptEvents name [] = []"
| "currentBuildAttemptEvents name (e # es) =
     (if list_ex (\<lambda>x. name x = ''build_resume'') es then currentBuildAttemptEvents name es else e # es)"

section \<open>The execution lease\<close>

record lease =
  le_project :: int
  le_user :: int
  le_created :: stamp
  le_execution :: int
  le_revoked :: bool

datatype lease_error = LeaseLost | ExecutionClaimNotPersisted

definition newerClaim :: "int \<Rightarrow> stamp \<Rightarrow> db \<Rightarrow> bool" where
  "newerClaim projectId createdAt d =
    (case stamp_time createdAt of None \<Rightarrow> True
     | Some created \<Rightarrow>
        (case getLatestBuildClaimAt projectId d of None \<Rightarrow> False
         | Some claim \<Rightarrow> stamp_text claim \<noteq> [] \<and>
            (case stamp_time claim of None \<Rightarrow> True | Some c \<Rightarrow> c > created)))"

definition current_execution :: "int \<Rightarrow> db \<Rightarrow> int option" where
  "current_execution projectId d = map_option be_id
     (max_event (rows_where (is_event projectId ''build_execution_claim'') (build_events d)))"

definition checkLease :: "lease \<Rightarrow> db \<Rightarrow> bool" where
  "checkLease l d \<longleftrightarrow>
     (case first_row (\<lambda>p. p_id p = le_project l) (projects d) of None \<Rightarrow> False
      | Some p \<Rightarrow> p_user p = le_user l) \<and>
     current_execution (le_project l) d = Some (le_execution l) \<and>
     \<not> newerClaim (le_project l) (le_created l) d"

text \<open>
  Every write of a worker runs inside \<open>guarded\<close>, in the transaction that checked the lease. A
  lost lease is remembered, so the worker cannot come back.
\<close>

definition guarded :: "lease \<Rightarrow> (db \<Rightarrow> 'a \<times> db) \<Rightarrow> db \<Rightarrow> (lease_error, 'a) result \<times> lease \<times> db" where
  "guarded l operation d =
    (if le_revoked l \<or> \<not> checkLease l d then (Inl LeaseLost, l\<lparr>le_revoked := True\<rparr>, d)
     else let (a, d') = operation d in (Inr a, l, d'))"

definition acquire_lease :: "int \<Rightarrow> int \<Rightarrow> stamp \<Rightarrow> db \<Rightarrow> (lease_error, lease) result \<times> db" where
  "acquire_lease projectId userId createdAt d =
    (case first_row (\<lambda>p. p_id p = projectId) (projects d) of None \<Rightarrow> (Inl LeaseLost, d)
     | Some p \<Rightarrow>
       if p_user p \<noteq> userId \<or> p_status p \<noteq> ''running'' \<or> newerClaim projectId createdAt d
       then (Inl LeaseLost, d)
       else
         let i = next_serial be_id (build_events d) in
         if \<not> is_safe_integer i \<or> i \<le> 0 then (Inl ExecutionClaimNotPersisted, d)
         else (Inr \<lparr>le_project = projectId, le_user = userId, le_created = createdAt,
                    le_execution = i, le_revoked = False\<rparr>,
               append_event projectId ''build_execution_claim'' (ExecutionPayload createdAt) d))"

definition appendBuildAgentLog :: "lease option \<Rightarrow> int \<Rightarrow> db \<Rightarrow> (lease_error, unit) result \<times> db" where
  "appendBuildAgentLog l projectId d =
    (if (case l of None \<Rightarrow> False | Some x \<Rightarrow> le_project x \<noteq> projectId \<or> le_revoked x)
     then (Inl LeaseLost, d)
     else (Inr (), append_event projectId ''agent'' OtherPayload d))"

section \<open>Recovering a failed queue attempt\<close>

record build_job =
  bj_project :: int
  bj_user :: int
  bj_created :: stamp
  bj_charged :: bool

text \<open>A retained queue job: its state, its data if they parse, and the raw creation text.\<close>

record queued_job =
  qj_state :: string
  qj_job :: "build_job option"
  qj_createdAt :: string

datatype recovery_answer = QueueUnavailable | NoTerminalFailure | SavedStateMismatch | NoValidTimestamp
  | ClaimTimestampUnavailable | NewerBuildClaimed | AttemptChanged | BuildChanged | BuildRecovered

datatype recovery_error = RefundFailed credit_error | PauseStatementFailed

definition recovery_checks ::
    "bool \<Rightarrow> bool \<Rightarrow> queued_job option \<Rightarrow> queued_job option \<Rightarrow> int \<Rightarrow> int \<Rightarrow> db \<Rightarrow>
     recovery_answer + build_job \<times> int" where
  "recovery_checks queueUp buildActive queued current projectId userId d =
    (if \<not> queueUp \<or> buildActive then Inl QueueUnavailable
     else case queued of None \<Rightarrow> Inl NoTerminalFailure
     | Some q \<Rightarrow>
       if qj_state q \<noteq> ''failed'' then Inl NoTerminalFailure
       else case (qj_job q, first_row (\<lambda>p. p_id p = projectId) (projects d)) of
         (Some job, Some project) \<Rightarrow>
           if bj_project job \<noteq> projectId \<or> bj_user job \<noteq> userId \<or> p_user project \<noteq> userId \<or>
              p_status project \<noteq> ''running''
           then Inl SavedStateMismatch
           else (case stamp_time (bj_created job) of None \<Rightarrow> Inl NoValidTimestamp
             | Some created \<Rightarrow>
               (case getLatestBuildClaimAt projectId d of
                  Some claim \<Rightarrow>
                    if stamp_text claim \<noteq> [] \<and> stamp_time claim = None
                    then Inl ClaimTimestampUnavailable
                    else if stamp_text claim \<noteq> [] \<and>
                            (case stamp_time claim of None \<Rightarrow> False | Some c \<Rightarrow> c > created)
                    then Inl NewerBuildClaimed
                    else (case current of None \<Rightarrow> Inl AttemptChanged
                      | Some c \<Rightarrow>
                        if qj_createdAt c \<noteq> stamp_text (bj_created job) \<or> qj_state c \<noteq> ''failed''
                        then Inl AttemptChanged else Inr (job, p_updatedAt project))
                | None \<Rightarrow> (case current of None \<Rightarrow> Inl AttemptChanged
                    | Some c \<Rightarrow>
                      if qj_createdAt c \<noteq> stamp_text (bj_created job) \<or> qj_state c \<noteq> ''failed''
                      then Inl AttemptChanged else Inr (job, p_updatedAt project))))
       | _ \<Rightarrow> Inl SavedStateMismatch)"

definition build_refund_key :: "string \<Rightarrow> build_job \<Rightarrow> string" where
  "build_refund_key prefix job =
     prefix @ show_int (bj_project job) @ ''-'' @ stamp_text (bj_created job)"

definition settle_recovery ::
    "(string option \<Rightarrow> bool) \<Rightarrow> int \<Rightarrow> build_job \<Rightarrow> int \<Rightarrow> db \<Rightarrow>
     (recovery_error, recovery_answer) result \<times> db" where
  "settle_recovery own now job updatedAt d =
    (let (refund, d1) =
       (if bj_charged job
        then addCredits own now (bj_user job) BUILD_CREDIT_COST ''build_refund''
          (Some (''Interrupted build reservation refund for project '' @ show_int (bj_project job)))
          (Some (build_refund_key ''build-refund-'' job)) d
        else (Inr 0, d))
     in case refund of Inl e \<Rightarrow> (Inl (RefundFailed e), d1)
     | Inr _ \<Rightarrow>
       (case pauseFailedQueueAttempt now (bj_project job) (bj_user job) updatedAt (bj_created job) d1 of
          None \<Rightarrow> (Inl PauseStatementFailed, d1)
        | Some (recovered, d2) \<Rightarrow>
            if recovered
            then (Inr BuildRecovered,
                  append_event (bj_project job) ''error'' (AttemptPayload (Some (bj_created job))) d2)
            else (Inr BuildChanged, d2)))"

text \<open>\<open>between\<close> is what other sessions do between the checks and the settlement.\<close>

definition recoverFailedQueuedBuild ::
    "(string option \<Rightarrow> bool) \<Rightarrow> int \<Rightarrow> bool \<Rightarrow> bool \<Rightarrow> queued_job option \<Rightarrow> queued_job option \<Rightarrow>
     int \<Rightarrow> int \<Rightarrow> (db \<Rightarrow> db) \<Rightarrow> db \<Rightarrow> (recovery_error, recovery_answer) result \<times> db" where
  "recoverFailedQueuedBuild own now queueUp buildActive queued current projectId userId between d =
    (case recovery_checks queueUp buildActive queued current projectId userId d of
       Inl answer \<Rightarrow> (Inr answer, between d)
     | Inr (job, updatedAt) \<Rightarrow> settle_recovery own now job updatedAt (between d))"

definition refundDuplicateReservation ::
    "(string option \<Rightarrow> bool) \<Rightarrow> int \<Rightarrow> build_job \<Rightarrow> db \<Rightarrow> db" where
  \<comment> \<open>a failed refund is logged, not raised\<close>
  "refundDuplicateReservation own now job d =
    (if \<not> bj_charged job then d
     else snd (addCredits own now (bj_user job) BUILD_CREDIT_COST ''build_refund''
       (Some (''Duplicate build reservation refund for project '' @ show_int (bj_project job)))
       (Some (build_refund_key ''build-duplicate-refund-'' job)) d))"

section \<open>One winner per claim\<close>

definition projects_keyed :: "db \<Rightarrow> bool" where
  "projects_keyed d = distinct (map p_id (projects d))"

definition claimable :: "int \<Rightarrow> int \<Rightarrow> db \<Rightarrow> bool" where
  "claimable pid uid d = list_ex (startable pid uid) (projects d)"

lemma startable_rows:
  "projects_keyed d \<Longrightarrow>
   length (rows_where (startable pid uid) (projects d)) = (if claimable pid uid d then 1 else 0)"
  unfolding projects_keyed_def claimable_def
  by (rule count_rows_where_one [where key = p_id]) (auto simp: startable_def)

interpretation build_claim: exclusive_claim
  "\<lambda>now. claimProjectBuildStart now pid uid" "claimable pid uid" projects_keyed for pid uid
proof
  fix d now w d' assume k: "projects_keyed d" and c: "claimProjectBuildStart now pid uid d = (w, d')"
  show "projects_keyed d'"
    using k c by (auto simp: claimProjectBuildStart_def Let_def projects_keyed_def append_event_def
        map_update_where split: if_splits)
next
  fix d now assume "projects_keyed d"
  then show "fst (claimProjectBuildStart now pid uid d) \<longleftrightarrow> claimable pid uid d"
    by (simp add: claimProjectBuildStart_def startable_rows)
next
  fix d now d' assume "claimProjectBuildStart now pid uid d = (True, d')"
  then have "projects d' = update_where (startable pid uid)
      (\<lambda>p. p\<lparr>p_status := ''running'', p_pauseReason := None, p_updatedAt := now\<rparr>) (projects d)"
    by (auto simp: claimProjectBuildStart_def Let_def append_event_def split: if_splits)
  moreover have "\<not> startable pid uid r" if "r \<in> set (update_where (startable pid uid)
      (\<lambda>p. p\<lparr>p_status := ''running'', p_pauseReason := None, p_updatedAt := now\<rparr>) (projects d))" for r
    using that by (rule update_where_clears [rotated])
      (simp add: startable_def STARTABLE_BUILD_STATUSES_def)
  ultimately show "\<not> claimable pid uid d'" by (auto simp: claimable_def list_ex_iff)
next
  fix d now d' assume k: "projects_keyed d" and c: "claimProjectBuildStart now pid uid d = (False, d')"
  with startable_rows [OF k, of pid uid] have "\<not> claimable pid uid d"
    by (auto simp: claimProjectBuildStart_def Let_def split: if_splits)
  then have "update_where (startable pid uid) f (projects d) = projects d" for f
    by (auto simp: claimable_def list_ex_iff update_where_idle)
  with c show "d' = d" by (auto simp: claimProjectBuildStart_def Let_def split: if_splits)
qed

text \<open>Starters of one project, each with the time of its attempt, in the order they are served.\<close>

fun competing_starts :: "int \<Rightarrow> int \<Rightarrow> int list \<Rightarrow> db \<Rightarrow> bool list \<times> db" where
  "competing_starts pid uid [] d = ([], d)"
| "competing_starts pid uid (now # nows) d =
     (let (won, d1) = claimProjectBuildStart now pid uid d;
          (rest, d2) = competing_starts pid uid nows d1 in (won # rest, d2))"

lemma competing_starts_race: "competing_starts pid uid nows d = build_claim.race pid uid nows d"
  by (induction nows arbitrary: d) (simp_all add: Let_def)

text \<open>
  C7. Exactly one starter gets a build: however many requests race to start a project, one of them
  wins if the project was startable, and none otherwise; the first one served is the winner, and
  the losers change nothing. A project its customer cancelled is never startable.
\<close>

theorem one_build_starter:
  assumes "projects_keyed d"
  shows "length (filter id (fst (competing_starts pid uid nows d))) =
      (if claimable pid uid d \<and> nows \<noteq> [] then 1 else 0) \<and>
    (nows \<noteq> [] \<longrightarrow> snd (competing_starts pid uid nows d) =
      snd (claimProjectBuildStart (hd nows) pid uid d)) \<and>
    (\<forall>p \<in> set (projects d). p_id p = pid \<longrightarrow> p_status p = ''paused'' \<longrightarrow>
      p_pauseReason p = Some ''user_cancelled'' \<longrightarrow> \<not> claimable pid uid d)"
proof (intro conjI impI ballI)
  show "length (filter id (fst (competing_starts pid uid nows d))) =
      (if claimable pid uid d \<and> nows \<noteq> [] then 1 else 0)"
    using assms by (simp add: competing_starts_race build_claim.one_winner)
  assume "nows \<noteq> []"
  then obtain n ns where nows: "nows = n # ns" by (cases nows) auto
  show "snd (competing_starts pid uid nows d) = snd (claimProjectBuildStart (hd nows) pid uid d)"
  proof (cases "claimable pid uid d")
    case True
    with assms show ?thesis
      by (simp add: competing_starts_race nows build_claim.race_won del: build_claim.race.simps(2))
  next
    case False
    have "fst (claimProjectBuildStart n pid uid d) = False"
      using build_claim.wins_iff [OF assms, of n pid uid] False by simp
    then have "snd (claimProjectBuildStart n pid uid d) = d"
      using build_claim.loser_idle [OF assms, of n pid uid] by (metis prod.collapse)
    with assms False show ?thesis
      by (simp add: competing_starts_race nows build_claim.race_lost del: build_claim.race.simps(2))
  qed
next
  fix p assume p: "p \<in> set (projects d)" "p_id p = pid" "p_status p = ''paused''"
    "p_pauseReason p = Some ''user_cancelled''"
  have "q = p" if "q \<in> set (projects d)" "p_id q = pid" for q
    using distinct_key_eq [of p_id "projects d" q p] assms that p by (simp add: projects_keyed_def)
  moreover have "\<not> startable pid uid p" using p by (simp add: startable_def)
  ultimately have "\<not> startable pid uid q" if "q \<in> set (projects d)" for q
    using that by (metis startable_def)
  then show "\<not> claimable pid uid d" by (simp add: claimable_def list_ex_iff)
qed

section \<open>A concrete project\<close>

definition sample_project :: project_row where
  "sample_project = \<lparr>p_id = 7, p_user = 1, p_status = ''pending'', p_pauseReason = None,
     p_errorMessage = None, p_buildStage = None, p_failureStage = None,
     p_outputMaturity = ''structural'', p_creditsSpent = 0, p_creditsReserved = 5, p_updatedAt = 0\<rparr>"

definition sample_projects :: db where
  "sample_projects = sample_credits\<lparr>projects := [sample_project]\<rparr>"

lemma sample_projects_keyed: "projects_keyed sample_projects"
  by code_simp

theorem one_build_starter_witness:
  "length (filter id (fst (competing_starts 7 1 [1000, 1001, 1002] sample_projects))) = 1"
proof -
  have "claimable 7 1 sample_projects" by code_simp
  with one_build_starter [OF sample_projects_keyed, of 7 1 "[1000, 1001, 1002]"] show ?thesis by simp
qed

end
