(* ===== verification/BuildLeases.thy ===== *)
theory BuildLeases
  imports BuildClaims
begin

text \<open>
  The execution lease under any interleaving: the operations that append build events form a step
  relation, events are never removed, and so a worker whose lease was overtaken (by another
  execution of the project, by the pause after its queue attempt failed, or by a newer claim)
  never writes again. Also the settlement of an interrupted build: one refund, one pause.
\<close>

section \<open>The latest event\<close>

lemma max_event_snoc:
  "max_event (es @ [n]) = (case max_event es of None \<Rightarrow> Some n
     | Some b \<Rightarrow> if be_id n > be_id b then Some n else Some b)"
  by (simp add: max_event_def)

lemma max_event_greatest:
  "case max_event es of None \<Rightarrow> es = []
   | Some b \<Rightarrow> b \<in> set es \<and> (\<forall>e \<in> set es. be_id e \<le> be_id b)"
proof (induction es rule: rev_induct)
  case Nil
  then show ?case by (simp add: max_event_def)
next
  case (snoc e es)
  then show ?case by (auto simp: max_event_snoc split: option.splits)
qed

lemma max_event_Some:
  "max_event es = Some b \<Longrightarrow> b \<in> set es \<and> (\<forall>e \<in> set es. be_id e \<le> be_id b)"
  using max_event_greatest [of es] by simp

lemma max_event_fresh:
  assumes "\<forall>e \<in> set es. be_id e < be_id n"
  shows "max_event (es @ [n]) = Some n"
proof (cases "max_event es")
  case (Some b)
  with max_event_Some [OF Some] assms show ?thesis by (simp add: max_event_snoc)
qed (simp add: max_event_snoc)

lemma latest_appended:
  assumes "is_event project event \<lparr>be_id = next_serial be_id (build_events d), be_project = p,
      be_event = e, be_payload = x\<rparr>"
  shows "max_event (rows_where (is_event project event) (build_events (append_event p e x d))) =
    Some \<lparr>be_id = next_serial be_id (build_events d), be_project = p, be_event = e, be_payload = x\<rparr>"
proof -
  let ?n = "\<lparr>be_id = next_serial be_id (build_events d), be_project = p, be_event = e, be_payload = x\<rparr>"
  let ?es = "rows_where (is_event project event) (build_events d)"
  have "rows_where (is_event project event) (build_events (append_event p e x d)) = ?es @ [?n]"
    using assms by (simp add: append_event_def rows_where_def)
  moreover have "\<forall>r \<in> set ?es. be_id r < be_id ?n"
    by (auto simp: rows_where_def intro: next_serial_fresh)
  ultimately show ?thesis using max_event_fresh [of ?es ?n] by simp
qed

section \<open>Steps\<close>

inductive build_step :: "db \<Rightarrow> db \<Rightarrow> bool" where
  build_claimed: "claimProjectBuildStart now pid uid d = (w, d') \<Longrightarrow> build_step d d'"
| build_released: "build_step d (releaseProjectBuildClaim now pid uid status reason d)"
| build_paused: "pauseFailedQueueAttempt now pid uid updated attempt d = Some (w, d') \<Longrightarrow> build_step d d'"
| lease_acquired: "acquire_lease pid uid created d = (r, d') \<Longrightarrow> build_step d d'"
| agent_logged: "appendBuildAgentLog l pid d = (s, d') \<Longrightarrow> build_step d d'"
| event_appended: "build_step d (append_event pid event payload d)"
| build_elsewhere: "build_events d' = build_events d \<Longrightarrow> build_step d d'"

inductive_cases build_stepE: "build_step d d'"

lemma append_event_events: "set (build_events d) \<subseteq> set (build_events (append_event p e x d))"
  by (auto simp: append_event_def)

lemma step_keeps_events: "build_step d d' \<Longrightarrow> set (build_events d) \<subseteq> set (build_events d')"
  by (erule build_stepE)
    (auto simp: claimProjectBuildStart_def releaseProjectBuildClaim_def pauseFailedQueueAttempt_def
      acquire_lease_def appendBuildAgentLog_def append_event_def Let_def
      split: if_splits option.splits)

definition superseded :: "lease \<Rightarrow> db \<Rightarrow> bool" where
  "superseded l d \<longleftrightarrow> list_ex (\<lambda>e. is_event (le_project l) ''build_execution_claim'' e \<and>
     be_id e > le_execution l) (build_events d)"

interpretation superseded_lease: guarded_system build_step "superseded l" for l
proof
  fix d d' assume "superseded l d" "build_step d d'"
  with step_keeps_events [of d d'] show "superseded l d'" by (auto simp: superseded_def list_ex_iff)
qed

interpretation recorded_event: guarded_system build_step "\<lambda>d. e \<in> set (build_events d)" for e
  by unfold_locales (use step_keeps_events in blast)

lemma superseded_loses:
  assumes "superseded l d"
  shows "\<not> checkLease l d"
proof
  assume "checkLease l d"
  then obtain b where "max_event (rows_where (is_event (le_project l) ''build_execution_claim'')
      (build_events d)) = Some b" "be_id b = le_execution l"
    by (auto simp: checkLease_def current_execution_def)
  with max_event_Some [OF this(1)] assms show False
    by (auto simp: superseded_def list_ex_iff rows_where_def)
qed

lemma lease_granted:
  assumes "acquire_lease pid uid created d = (Inr l, d')"
  obtains p where "first_row (\<lambda>p. p_id p = pid) (projects d) = Some p" "p_user p = uid"
    "p_status p = ''running''" "\<not> newerClaim pid created d"
    "l = \<lparr>le_project = pid, le_user = uid, le_created = created,
       le_execution = next_serial be_id (build_events d), le_revoked = False\<rparr>"
    "d' = append_event pid ''build_execution_claim'' (ExecutionPayload created) d"
  using assms by (auto simp: acquire_lease_def Let_def split: option.splits if_splits)

lemma newerClaim_append:
  "e \<noteq> ''build_claim'' \<Longrightarrow> newerClaim pid c (append_event p e x d) = newerClaim pid c d"
  by (simp add: newerClaim_def getLatestBuildClaimAt_def append_event_def rows_where_def is_event_def
      cong: option.case_cong)

definition lease_event :: "lease \<Rightarrow> build_event_row" where
  "lease_event l = \<lparr>be_id = le_execution l, be_project = le_project l,
     be_event = ''build_execution_claim'', be_payload = ExecutionPayload (le_created l)\<rparr>"

lemma lease_granted_event:
  "acquire_lease pid uid created d = (Inr l, d') \<Longrightarrow> lease_event l \<in> set (build_events d')"
  by (erule lease_granted) (simp add: lease_event_def append_event_def)

lemma later_execution_supersedes:
  assumes "lease_event l \<in> set (build_events d)"
    "(\<exists>u c l2. acquire_lease (le_project l) u c d = (Inr l2, d')) \<or>
     (\<exists>now u updated attempt. pauseFailedQueueAttempt now (le_project l) u updated attempt d = Some (True, d'))"
  shows "superseded l d'"
proof -
  have fresh: "le_execution l < next_serial be_id (build_events d)"
    using next_serial_fresh [OF assms(1), of be_id] by (simp add: lease_event_def)
  from assms(2) obtain payload where "build_events d' = build_events d @
      [\<lparr>be_id = next_serial be_id (build_events d), be_project = le_project l,
        be_event = ''build_execution_claim'', be_payload = payload\<rparr>]"
  proof (elim disjE exE)
    fix u c l2 assume "acquire_lease (le_project l) u c d = (Inr l2, d')"
    then show thesis by (rule lease_granted) (auto intro: that simp: append_event_def)
  next
    fix now u updated attempt
    assume "pauseFailedQueueAttempt now (le_project l) u updated attempt d = Some (True, d')"
    then show thesis
      by (intro that [of "RevokedPayload attempt ''worker_interruption''"])
        (auto simp: pauseFailedQueueAttempt_def append_event_def Let_def split: option.splits if_splits)
  qed
  with fresh show ?thesis by (simp add: superseded_def is_event_def)
qed

text \<open>
  C6. A lease is good when granted and dead once overtaken: it is granted only for a running
  project of the customer with no newer claim, the worker can then write; and after another
  execution of the project was claimed, or the failed attempt was paused, no sequence of later
  operations lets the old worker write again: the write is refused and changes nothing.
\<close>

theorem stale_worker_is_fenced:
  assumes "acquire_lease pid uid created d = (Inr l, d1)" "build_step\<^sup>*\<^sup>* d1 d2"
    "(\<exists>u c l2. acquire_lease pid u c d2 = (Inr l2, d3)) \<or>
     (\<exists>now u updated attempt. pauseFailedQueueAttempt now pid u updated attempt d2 = Some (True, d3))"
    "build_step\<^sup>*\<^sup>* d3 d4"
  shows "(\<exists>p \<in> set (projects d). p_id p = pid \<and> p_user p = uid \<and> p_status p = ''running'') \<and>
    guarded l write d1 = (Inr (fst (write d1)), l, snd (write d1)) \<and>
    guarded l write d4 = (Inl LeaseLost, l\<lparr>le_revoked := True\<rparr>, d4)"
  using assms(1)
proof (rule lease_granted)
  fix p assume p: "first_row (\<lambda>p. p_id p = pid) (projects d) = Some p" "p_user p = uid"
      "p_status p = ''running''" "\<not> newerClaim pid created d"
    and l: "l = \<lparr>le_project = pid, le_user = uid, le_created = created,
       le_execution = next_serial be_id (build_events d), le_revoked = False\<rparr>"
    and d1: "d1 = append_event pid ''build_execution_claim'' (ExecutionPayload created) d"
  have "current_execution pid d1 = Some (le_execution l)"
    unfolding d1 current_execution_def by (subst latest_appended) (simp_all add: is_event_def l)
  with p have "checkLease l d1"
    by (simp add: checkLease_def l d1 newerClaim_append) (simp add: append_event_def)
  then have "guarded l write d1 = (Inr (fst (write d1)), l, snd (write d1))"
    by (simp add: guarded_def l case_prod_unfold Let_def)
  moreover have "lease_event l \<in> set (build_events d2)"
    using recorded_event.run_keeps [OF assms(2)] lease_granted_event [OF assms(1)] .
  then have "superseded l d3"
    by (rule later_execution_supersedes) (use assms(3) in \<open>simp add: l\<close>)
  with superseded_lease.run_keeps [OF assms(4)] have "superseded l d4" by blast
  then have "guarded l write d4 = (Inl LeaseLost, l\<lparr>le_revoked := True\<rparr>, d4)"
    by (simp add: guarded_def superseded_loses)
  ultimately show ?thesis using first_row_Some [OF p(1)] p(2,3) by blast
qed

section \<open>Settling an interrupted build\<close>

lemma refund_key_nonempty: "p \<noteq> [] \<Longrightarrow> \<exists>k ks. build_refund_key p job = k # ks"
  by (cases p) (auto simp: build_refund_key_def)

lemma addCredits_projects:
  assumes "addCredits own now u amount kind description key d = (Inr b, d')"
  shows "projects d' = projects d \<or> projects d' = projects (unpauseCreditExhaustedProjects now u d)"
    and "build_events d' = build_events d"
  using assms
  by (auto simp: unpauseCreditExhaustedProjects_def record_transaction_def set_credits_def
      elim!: addCredits_cases ensureUserCredits_cases)

lemma paused_not_running:
  assumes "pauseFailedQueueAttempt now pid uid upd att d = Some (True, d')" "distinct (map p_id (projects d))"
  shows "\<forall>p \<in> set (projects d'). \<not> own_running pid uid p"
proof -
  from assms(1) obtain t where t: "stamp_time att = Some t"
    by (auto simp: pauseFailedQueueAttempt_def split: option.splits)
  let ?exact = "\<lambda>p. own_running pid uid p \<and> p_updatedAt p = upd \<and> \<not> claimed_after pid t d"
  let ?f = "\<lambda>p. p\<lparr>p_status := ''paused'', p_pauseReason := Some ''retry_after_error'',
     p_errorMessage := Some (''The build worker stopped. Your approved decisions and saved files are '' @
        ''preserved; retry to continue.''), p_failureStage := Some ''worker_interruption'',
     p_creditsSpent := 0, p_creditsReserved := 0, p_updatedAt := now\<rparr>"
  from assms(1) t have one: "length (rows_where ?exact (projects d)) = 1"
    and d': "projects d' = update_where ?exact ?f (projects d)"
    by (auto simp: pauseFailedQueueAttempt_def append_event_def Let_def split: if_splits)
  from one have "rows_where ?exact (projects d) \<noteq> []" by auto
  then obtain p where p: "p \<in> set (projects d)" "?exact p"
    unfolding rows_where_def filter_empty_conv by blast
  show ?thesis
  proof
    fix q assume "q \<in> set (projects d')"
    then obtain r where r: "r \<in> set (projects d)" "q = (if ?exact r then ?f r else r)"
      unfolding d' by (auto simp: update_where_def)
    show "\<not> own_running pid uid q"
    proof (cases "?exact r")
      case True
      with r show ?thesis by (simp add: own_running_def)
    next
      case False
      have "own_running pid uid r \<Longrightarrow> r = p"
        using distinct_key_eq [OF assms(2) r(1) p(1)] p(2) by (simp add: own_running_def)
      with False p(2) r(2) show ?thesis by auto
    qed
  qed
qed

lemma pause_without_running:
  assumes "\<forall>p \<in> set (projects d). \<not> own_running pid uid p" "stamp_time att = Some t"
    "\<not> unreadable_claim pid d"
  shows "pauseFailedQueueAttempt now pid uid upd att d = Some (False, d)"
proof -
  let ?exact = "\<lambda>p. own_running pid uid p \<and> p_updatedAt p = upd \<and> \<not> claimed_after pid t d"
  have "rows_where ?exact (projects d) = []"
    using assms(1) by (simp add: rows_where_def filter_empty_conv)
  moreover have "update_where ?exact f (projects d) = projects d" for f
    using assms(1) by (auto intro: update_where_idle)
  ultimately show ?thesis
    using assms(2,3) by (simp add: pauseFailedQueueAttempt_def)
qed

lemma claims_readable_append:
  "e \<noteq> ''build_claim'' \<Longrightarrow> unreadable_claim pid (append_event p e x d) = unreadable_claim pid d"
  by (simp add: unreadable_claim_def append_event_def rows_where_def is_event_def)

lemma pause_readable:
  assumes "pauseFailedQueueAttempt now pid uid upd att d = Some (True, d')"
  shows "\<not> unreadable_claim pid d'" "\<exists>t. stamp_time att = Some t"
    "user_credits d' = user_credits d" "credit_transactions d' = credit_transactions d" "users d' = users d"
  using assms
  by (auto simp: pauseFailedQueueAttempt_def Let_def unreadable_claim_def append_event_def
      rows_where_def is_event_def split: option.splits if_splits)

text \<open>
  An interrupted build is settled once: when a failed queue attempt is recovered, the customer
  is refunded exactly the reservation (if it was charged), the project no longer runs, and another
  handler that settles the same attempt, at any time and with whatever it read of the project,
  refunds nothing and changes nothing.
\<close>

theorem interrupted_build_settled_once:
  assumes "settle_recovery own now job updatedAt d = (Inr BuildRecovered, d')" "projects_keyed d"
    "bj_charged job" "\<not> transaction_recorded (build_refund_key ''build-refund-'' job) d"
  shows "credit_balance (bj_user job) d' = credit_balance (bj_user job) d + BUILD_CREDIT_COST \<and>
    (\<forall>v. v \<noteq> bj_user job \<longrightarrow> credit_balance v d' = credit_balance v d) \<and>
    (\<forall>p \<in> set (projects d'). \<not> own_running (bj_project job) (bj_user job) p) \<and>
    (\<forall>later updatedAt2. settle_recovery own later job updatedAt2 d' = (Inr BuildChanged, d'))"
proof -
  let ?key = "build_refund_key ''build-refund-'' job" and ?u = "bj_user job" and ?p = "bj_project job"
  let ?desc = "Some (''Interrupted build reservation refund for project '' @ show_int ?p)"
  obtain k ks where key: "?key = k # ks" using refund_key_nonempty by blast
  from assms(1,3) obtain b d1 d2 where add: "addCredits own now ?u BUILD_CREDIT_COST ''build_refund''
       ?desc (Some ?key) d = (Inr b, d1)"
    and pause: "pauseFailedQueueAttempt now ?p ?u updatedAt (bj_created job) d1 = Some (True, d2)"
    and d': "d' = append_event ?p ''error'' (AttemptPayload (Some (bj_created job))) d2"
    by (auto simp: settle_recovery_def Let_def split: prod.splits sum.splits option.splits if_splits)
  note once = purchase_is_credited_once_facts [OF assms(4) [unfolded key] add [unfolded key]]
  have frame: "user_credits d' = user_credits d1" "credit_transactions d' = credit_transactions d1"
    "users d' = users d1" "projects d' = projects d2"
    using pause_readable [OF pause] by (simp_all add: d' append_event_def)
  then have same: "credit_balance v d' = credit_balance v d1" "transaction_recorded s d' = transaction_recorded s d1"
    "provisioned own v d' = provisioned own v d1" for v s
    by (simp_all add: credit_balance_def getUserCredits_def transaction_recorded_def provisioned_def is_owner_def
        split: option.split)
  have "distinct (map p_id (projects d1))"
    using addCredits_projects(1) [OF add] assms(2)
    by (auto simp: projects_keyed_def unpauseCreditExhaustedProjects_def map_update_where)
  then have stopped: "\<forall>p \<in> set (projects d'). \<not> own_running ?p ?u p"
    unfolding frame by (rule paused_not_running [OF pause])
  obtain t where t: "stamp_time (bj_created job) = Some t" using pause_readable(2) [OF pause] by blast
  have "\<not> unreadable_claim ?p d'"
    using pause_readable(1) [OF pause] by (simp add: d' claims_readable_append)
  then have idle: "pauseFailedQueueAttempt later ?p ?u updatedAt2 (bj_created job) d' = Some (False, d')"
    for later updatedAt2 using pause_without_running [OF stopped t] by blast
  have "addCredits own later ?u BUILD_CREDIT_COST ''build_refund'' ?desc (Some ?key) d' =
      (Inr (credit_balance ?u d'), d')" for later
    by (rule addCredits_replay [of ?key])
      (use addCredits_recorded [OF add, of ?key] key in \<open>simp_all add: same usable_key_def BUILD_CREDIT_COST_def\<close>)
  with idle assms(3) have "settle_recovery own later job updatedAt2 d' = (Inr BuildChanged, d')" for later updatedAt2
    by (simp add: settle_recovery_def)
  with once stopped show ?thesis by (simp add: same)
qed

section \<open>A concrete build\<close>

definition sample_created :: stamp where
  "sample_created = Stamp ''1970-01-01T00:00:01.500Z'' (Some 1500)"

definition sample_running :: db where
  "sample_running = sample_projects\<lparr>
     projects := [sample_project\<lparr>p_status := ''running'', p_updatedAt := 1000\<rparr>],
     build_events := [\<lparr>be_id = 1, be_project = 7, be_event = ''build_claim'',
       be_payload = ClaimPayload (Stamp ''1970-01-01T00:00:01.000Z'' (Some 1000))\<rparr>]\<rparr>"

definition sample_lease :: lease where
  "sample_lease = \<lparr>le_project = 7, le_user = 1, le_created = sample_created, le_execution = 2,
     le_revoked = False\<rparr>"

definition sample_executing :: db where
  "sample_executing = snd (acquire_lease 7 1 sample_created sample_running)"

definition sample_overtaken :: db where
  "sample_overtaken = snd (acquire_lease 7 1 sample_created sample_executing)"

theorem stale_worker_is_fenced_witness:
  "guarded sample_lease (\<lambda>d. ((), d)) sample_overtaken =
     (Inl LeaseLost, sample_lease\<lparr>le_revoked := True\<rparr>, sample_overtaken)"
proof -
  have first: "acquire_lease 7 1 sample_created sample_running = (Inr sample_lease, sample_executing)"
    by code_simp
  have "acquire_lease 7 1 sample_created sample_executing =
      (Inr (sample_lease\<lparr>le_execution := 3\<rparr>), sample_overtaken)"
    by code_simp
  then have second: "(\<exists>u c l2. acquire_lease 7 u c sample_executing = (Inr l2, sample_overtaken)) \<or>
      (\<exists>now u updated attempt.
         pauseFailedQueueAttempt now 7 u updated attempt sample_executing = Some (True, sample_overtaken))"
    by blast
  from stale_worker_is_fenced [OF first rtranclp.rtrancl_refl second rtranclp.rtrancl_refl]
  show ?thesis by blast
qed

definition sample_job :: build_job where
  "sample_job = \<lparr>bj_project = 7, bj_user = 1, bj_created = sample_created, bj_charged = True\<rparr>"

definition sample_recovered :: db where
  "sample_recovered = snd (settle_recovery nobody 9000 sample_job 1000 sample_executing)"

theorem interrupted_build_settled_once_witness:
  "credit_balance 1 sample_recovered = credit_balance 1 sample_executing + 5 \<and>
   settle_recovery nobody 9001 sample_job 9000 sample_recovered = (Inr BuildChanged, sample_recovered)"
proof -
  have pre: "settle_recovery nobody 9000 sample_job 1000 sample_executing = (Inr BuildRecovered, sample_recovered)"
    "projects_keyed sample_executing" "bj_charged sample_job"
    "\<not> transaction_recorded (build_refund_key ''build-refund-'' sample_job) sample_executing"
    by code_simp+
  have "bj_user sample_job = 1" by (simp add: sample_job_def)
  with interrupted_build_settled_once [OF pre] show ?thesis by (simp add: BUILD_CREDIT_COST_def)
qed

end
