(* ===== verification/GuardedOperation.thy ===== *)
theory GuardedOperation
  imports Books BuildLeases
begin

text \<open>
  A paid provider call inside a build (\<open>src/services/guardedProviderOperation.ts\<close> and the release stop
  \<open>customerComputeLaunchGate.ts\<close>): the stop, the lease, the price check and cost envelope, the
  reservation, the second lease check, the external call and its settlement. The external call is a
  parameter, its answer a value with the verified cents or an error. Between the reservation and the
  second lease check other transactions may run: they are the parameter \<open>between\<close>. Errors thrown by
  the lease check other than a lost lease (an unreachable database) are not modelled.
\<close>

section \<open>The release stop\<close>

definition customerComputeLaunchCertified :: "string option \<Rightarrow> bool" where
  "customerComputeLaunchCertified environment \<longleftrightarrow>
     environment = Some ''test'' \<or> environment = Some ''development''"

datatype 'e operation_error =
    ComputeNotCertified | LeaseRequired | BuildLeaseLost | EnvelopeRefused envelope_error
  | LedgerRefused ledger_error | DuplicateOperation | ReservationReleaseFailed ledger_error
  | CallFailed 'e

definition assertCustomerComputeLaunchCertified ::
    "bool \<Rightarrow> string option \<Rightarrow> ('e operation_error, unit) result" where
  "assertCustomerComputeLaunchCertified owner environment =
     (if owner \<or> customerComputeLaunchCertified environment then Inr () else Inl ComputeNotCertified)"

section \<open>The operation\<close>

text \<open>
  What a run leaves: its result, whether the external call was made, the lease (revoked when a check
  failed) and the database.
\<close>

record ('e, 'v) operation_run =
  or_result :: "('e operation_error, 'v) result"
  or_dispatched :: bool
  or_lease :: "lease option"
  or_db :: db

definition stopped :: "'e operation_error \<Rightarrow> lease option \<Rightarrow> db \<Rightarrow> ('e, 'v) operation_run" where
  "stopped e l d = \<lparr>or_result = Inl e, or_dispatched = False, or_lease = l, or_db = d\<rparr>"

definition lease_reservation :: "lease \<Rightarrow> string \<Rightarrow> int \<Rightarrow> reservation_input" where
  "lease_reservation l operationId maximumCents =
     \<lparr>in_user = le_user l, in_project = le_project l, in_execution = le_execution l,
      in_operation = operationId, in_maximum = maximumCents\<rparr>"

definition invoke_and_settle :: "lease \<Rightarrow> string \<Rightarrow> ('e, 'v \<times> int) result \<Rightarrow> db \<Rightarrow> ('e, 'v) operation_run" where
  "invoke_and_settle l operationId answer d =
    (case answer of
       Inl e \<Rightarrow> \<lparr>or_result = Inl (CallFailed e), or_dispatched = True, or_lease = Some l, or_db = d\<rparr>
     | Inr (value, verifiedCents) \<Rightarrow>
        (case settleProviderSpend (le_user l) operationId verifiedCents d of
           (Inl e, d') \<Rightarrow>
             \<lparr>or_result = Inl (LedgerRefused e), or_dispatched = True, or_lease = Some l, or_db = d'\<rparr>
         | (Inr _, d') \<Rightarrow>
             \<lparr>or_result = Inr value, or_dispatched = True, or_lease = Some l, or_db = d'\<rparr>))"

definition dispatch_reserved :: "int \<Rightarrow> lease \<Rightarrow> string \<Rightarrow> int \<Rightarrow> (db \<Rightarrow> db) \<Rightarrow> ('e, 'v \<times> int) result \<Rightarrow>
    db \<Rightarrow> ('e, 'v) operation_run" where
  \<comment> \<open>from the reservation on\<close>
  "dispatch_reserved now l operationId maximumCents between answer d =
    (case reserveProviderSpend now (lease_reservation l operationId maximumCents) d of
       Inl e \<Rightarrow> stopped (LedgerRefused e) (Some l) d
     | Inr (status, d1) \<Rightarrow>
        if status \<noteq> OutcomeReserved then stopped DuplicateOperation (Some l) d1
        else
          (case guarded l (\<lambda>x. ((), x)) (between d1) of
             (Inl _, l', d2) \<Rightarrow>
               (case releaseProviderSpend (le_user l) operationId d2 of
                  Inl e \<Rightarrow> stopped (ReservationReleaseFailed e) (Some l') d2
                | Inr (_, d3) \<Rightarrow> stopped BuildLeaseLost (Some l') d3)
           | (Inr _, l', d2) \<Rightarrow> invoke_and_settle l' operationId answer d2))"

definition runReservedProviderOperation :: "string option \<Rightarrow> int \<Rightarrow> lease option \<Rightarrow> string \<Rightarrow> cost_envelope \<Rightarrow>
    (db \<Rightarrow> db) \<Rightarrow> ('e, 'v \<times> int) result \<Rightarrow> db \<Rightarrow> ('e, 'v) operation_run" where
  "runReservedProviderOperation environment now current operationId envelope between answer d =
    (case assertCustomerComputeLaunchCertified False environment of
       Inl e \<Rightarrow> stopped e current d
     | Inr _ \<Rightarrow>
       (case current of None \<Rightarrow> stopped LeaseRequired None d
        | Some l \<Rightarrow>
          (case guarded l (\<lambda>x. ((), x)) d of
             (Inl _, l', d') \<Rightarrow> stopped BuildLeaseLost (Some l') d'
           | (Inr _, l', d') \<Rightarrow>
              (case assertProviderPricesConfirmed now envelope of
                 Inl e \<Rightarrow> stopped (EnvelopeRefused e) (Some l') d'
               | Inr _ \<Rightarrow>
                 (case maximumProviderEnvelopeCents now envelope of
                    Inl e \<Rightarrow> stopped (EnvelopeRefused e) (Some l') d'
                  | Inr maximumCents \<Rightarrow>
                      dispatch_reserved now l' operationId maximumCents between answer d')))))"

section \<open>Facts\<close>

lemma stopped_sel [simp]:
  "or_result (stopped e l d) = Inl e" "\<not> or_dispatched (stopped e l d)"
  "or_db (stopped e l d) = d" "or_lease (stopped e l d) = l"
  by (simp_all add: stopped_def)

lemma guarded_check:
  "guarded l (\<lambda>x. ((), x)) d =
    (if le_revoked l \<or> \<not> checkLease l d then (Inl LeaseLost, l\<lparr>le_revoked := True\<rparr>, d) else (Inr (), l, d))"
  by (simp add: guarded_def)

lemma lease_reservation_sel [simp]:
  "in_user (lease_reservation l k m) = le_user l" "in_operation (lease_reservation l k m) = k"
  "in_maximum (lease_reservation l k m) = m"
  by (simp_all add: lease_reservation_def)

lemma same_provider_ledger_ok:
  assumes "same_provider_tables d d'"
  shows "ledger_ok d' = ledger_ok d"
  using assms unfolding same_provider_tables_def
  by (simp add: ledger_ok_def provider_constraints_def pool_defs)

lemma reserved_row:
  assumes "reserveProviderSpend now i d = Inr (OutcomeReserved, d1)"
  obtains row where "row \<in> set (reservations d1)" "is_reservation (in_user i) (in_operation i) row"
    "res_state row = Reserved" "res_maximum row = in_maximum i" "length (rows_where (\<lambda>u. u_id u = in_user i) (users d1)) = 1"
    "safeId (in_user i)" "validKey (in_operation i)"
proof -
  from assms have "valid_reservation_input i" and "length (rows_where (\<lambda>u. u_id u = in_user i) (users d)) = 1"
    by (auto simp: reserveProviderSpend_def split: if_splits)
  with assms show thesis
    by (elim reserve_reserved) (rule that [of "new_reservation i _ _"],
      auto simp: new_reservation_def is_reservation_def valid_reservation_input_def)
qed

lemma the_row:
  "ledger_ok d \<Longrightarrow> row \<in> set (reservations d) \<Longrightarrow> is_reservation u k row \<Longrightarrow>
   first_row (is_reservation u k) (reservations d) = Some row"
  by (rule first_row_keyed [OF ledger_okD(5)]) (auto simp: is_reservation_key)

lemma release_of_reserved:
  assumes "ledger_ok d" "row \<in> set (reservations d)" "is_reservation u k row" "res_state row = Reserved"
    "length (rows_where (\<lambda>x. u_id x = u) (users d)) = 1" "safeId u" "validKey k"
  shows "\<exists>d'. releaseProviderSpend u k d = Inr ((), d') \<and>
    row\<lparr>res_state := Released\<rparr> \<in> set (reservations d')"
proof -
  let ?d = "d\<lparr>reservations := update_where (is_reservation u k)
      (\<lambda>r. r\<lparr>res_state := Released\<rparr>) (reservations d)\<rparr>"
  have "releaseProviderSpend u k d = commit_if provider_constraints LedgerConstraintViolation () ?d"
    using assms(4-7) the_row [OF assms(1-3)] by (simp add: releaseProviderSpend_def)
  with release_never_violates [OF assms(1), of u k]
  have "releaseProviderSpend u k d = Inr ((), ?d)" by (simp add: commit_if_def split: if_splits)
  moreover have "row\<lparr>res_state := Released\<rparr> \<in> set (reservations ?d)"
    using assms(2,3) by (force simp: set_update_where)
  ultimately show ?thesis by blast
qed

lemma settled_call:
  assumes ok: "ledger_ok d" and row: "row \<in> set (reservations d)" "is_reservation u k row"
      "res_state row = Reserved"
    and run: "settleProviderSpend u k cents d = (Inr (), d')"
  shows "settle_row cents False row \<in> set (reservations d') \<and> cents \<le> res_maximum row"
proof -
  from run obtain d'' where t: "settle_transaction u k cents d = Inr (False, d'')" "d' = d''"
    by (auto simp: settleProviderSpend_def split: if_splits sum.splits)
  from t(1) show ?thesis
  proof (cases rule: settle_cases)
    case (replay item)
    then have "item = row"
      using distinct_key_eq [OF ledger_okD(5) [OF ok], of item row] row by (simp add: is_reservation_key)
    with replay row show ?thesis by simp
  next
    case (settled item incl purch)
    then have "item = row"
      using distinct_key_eq [OF ledger_okD(5) [OF ok], of item row] row by (simp add: is_reservation_key)
    with settled t(2) show ?thesis by (auto simp: set_update_where)
  qed
qed

text \<open>A concrete run: one customer, a build with a lease, a call within its reservation.\<close>

definition guarded_lease :: lease where
  "guarded_lease = \<lparr>le_project = 7, le_user = 1, le_created = sample_created, le_execution = 3,
     le_revoked = False\<rparr>"

definition run_of :: "(db \<Rightarrow> db) \<Rightarrow> (string, int \<times> int) result \<Rightarrow> (string, int) operation_run" where
  "run_of between answer = dispatch_reserved 2000 guarded_lease ''op-00001'' 2000 between answer sample_ledger"

lemma keeps_ledger:
  assumes "ledger_ok d" "same_provider_tables d d'" "users d' = users d"
    "row \<in> set (reservations d)" "length (rows_where (\<lambda>x. u_id x = u) (users d)) = 1"
  shows "ledger_ok d'" "row \<in> set (reservations d')" "length (rows_where (\<lambda>x. u_id x = u) (users d')) = 1"
  using assms same_provider_ledger_ok [OF assms(2)] by (simp_all add: same_provider_tables_def)

lemma lost_lease_run:
  assumes "reserveProviderSpend now (lease_reservation l k m) d = Inr (OutcomeReserved, d1)"
    "le_revoked l \<or> \<not> checkLease l (between d1)"
    "releaseProviderSpend (le_user l) k (between d1) = Inr ((), d3)"
  shows "dispatch_reserved now l k m between answer d = stopped BuildLeaseLost (Some (l\<lparr>le_revoked := True\<rparr>)) d3"
  using assms by (auto simp: dispatch_reserved_def guarded_check)

lemma held_lease_run:
  assumes "reserveProviderSpend now (lease_reservation l k m) d = Inr (OutcomeReserved, d1)"
    "\<not> le_revoked l" "checkLease l (between d1)"
  shows "dispatch_reserved now l k m between answer d = invoke_and_settle l k answer (between d1)"
  using assms by (simp add: dispatch_reserved_def guarded_check)

lemma unreserved_run:
  assumes "\<nexists>d1. reserveProviderSpend now (lease_reservation l k m) d = Inr (OutcomeReserved, d1)"
  shows "\<not> or_dispatched (dispatch_reserved now l k m between answer d) \<and>
    or_db (dispatch_reserved now l k m between answer d) = d"
proof (cases "reserveProviderSpend now (lease_reservation l k m) d")
  case (Inr p)
  obtain status d1 where p: "p = (status, d1)" by (cases p)
  with assms Inr have "status = OutcomeDuplicate" by (cases status) auto
  moreover from this have "d1 = d" using Inr p
    by (auto simp: reserveProviderSpend_def Let_def commit_if_def split: if_splits option.splits)
  ultimately show ?thesis using Inr p by (simp add: dispatch_reserved_def)
qed (simp add: dispatch_reserved_def)



text \<open>
  The release stop holds: today no environment, lease, envelope or answer makes the guarded
  operation call a provider or change the database. Outside test and development it is refused
  before anything is looked at; inside them the price catalogue, which does not exist yet, refuses
  every envelope that the earlier checks let through.
\<close>

theorem release_stop_holds:
  "\<not> or_dispatched (runReservedProviderOperation environment now current k envelope between answer d) \<and>
   or_db (runReservedProviderOperation environment now current k envelope between answer d) = d \<and>
   (or_result (runReservedProviderOperation environment now current k envelope between answer d) =
     (if \<not> customerComputeLaunchCertified environment then Inl ComputeNotCertified
      else case current of None \<Rightarrow> Inl LeaseRequired
      | Some l \<Rightarrow> if \<not> le_revoked l \<and> checkLease l d
         then case maximumProviderEnvelopeCents now envelope of Inl e \<Rightarrow> Inl (EnvelopeRefused e)
           | Inr _ \<Rightarrow> Inl (EnvelopeRefused PriceCatalogueMissing)
         else Inl BuildLeaseLost))"
  by (auto simp: runReservedProviderOperation_def assertCustomerComputeLaunchCertified_def guarded_check
      assertProviderPricesConfirmed_def split: option.split sum.split)

end
