(* ===== verification/Adapters.thy ===== *)
theory Adapters
  imports Database Contracts
begin

text \<open>
  Adapters for external technologies (\<open>src/lib/adapterSdk.ts\<close>, \<open>adapterLifecycle.ts\<close>): the ordered
  states of trust, the evidence each state requires, promotion, quarantine, lifecycle alerts and
  the migration of an adapter to a new version. Texts of messages are not modelled: an alert is its
  adapter and its kind.
\<close>

section \<open>States of trust\<close>

datatype capability_state =
    Unsupported | Discovered | Experimental | Structural | Buildable | Runnable | Packageable
  | Deployable | Verified | ProductionCertified

definition ADAPTER_CAPABILITY_STATES :: "capability_state list" where
  "ADAPTER_CAPABILITY_STATES = [Unsupported, Discovered, Experimental, Structural, Buildable,
     Runnable, Packageable, Deployable, Verified, ProductionCertified]"

fun index_of :: "'a \<Rightarrow> 'a list \<Rightarrow> nat" where
  "index_of x [] = 0"
| "index_of x (y # ys) = (if x = y then 0 else Suc (index_of x ys))"

definition stateRank :: "capability_state \<Rightarrow> nat" where
  "stateRank s = index_of s ADAPTER_CAPABILITY_STATES"

lemma stateRank_simps [simp]:
  "stateRank Unsupported = 0" "stateRank Discovered = 1" "stateRank Experimental = 2"
  "stateRank Structural = 3" "stateRank Buildable = 4" "stateRank Runnable = 5"
  "stateRank Packageable = 6" "stateRank Deployable = 7" "stateRank Verified = 8"
  "stateRank ProductionCertified = 9"
  by (simp_all add: stateRank_def ADAPTER_CAPABILITY_STATES_def)

lemma stateRank_inject: "stateRank s = stateRank t \<longleftrightarrow> s = t"
  by (cases s; cases t) simp_all

text \<open>The states are linearly ordered by their rank, with least and greatest element.\<close>

instantiation capability_state :: "{linorder, bounded_lattice}"
begin

definition less_eq_capability_state :: "capability_state \<Rightarrow> capability_state \<Rightarrow> bool" where
  "s \<le> t \<longleftrightarrow> stateRank s \<le> stateRank t"

definition less_capability_state :: "capability_state \<Rightarrow> capability_state \<Rightarrow> bool" where
  "s < t \<longleftrightarrow> stateRank s < stateRank t"

definition inf_capability_state :: "capability_state \<Rightarrow> capability_state \<Rightarrow> capability_state" where
  "inf s t = (if stateRank s \<le> stateRank t then s else t)"

definition sup_capability_state :: "capability_state \<Rightarrow> capability_state \<Rightarrow> capability_state" where
  "sup s t = (if stateRank s \<le> stateRank t then t else s)"

definition bot_capability_state :: capability_state where "bot = Unsupported"

definition top_capability_state :: capability_state where "top = ProductionCertified"

instance
proof
  fix s t u :: capability_state
  show "bot \<le> s" "s \<le> top"
    by (cases s; simp add: less_eq_capability_state_def bot_capability_state_def top_capability_state_def)+
qed (auto simp: less_eq_capability_state_def less_capability_state_def inf_capability_state_def
    sup_capability_state_def stateRank_inject)

end

definition isAtLeast :: "capability_state \<Rightarrow> capability_state \<Rightarrow> bool" where
  "isAtLeast s bound \<longleftrightarrow> stateRank s \<ge> stateRank bound"

lemma isAtLeast_le [simp]: "isAtLeast s bound \<longleftrightarrow> bound \<le> s"
  by (simp add: isAtLeast_def less_eq_capability_state_def)

section \<open>Evidence and promotion\<close>

datatype evidence_flag =
    EvDiscovered | EvInstall | EvCompile | EvTests | EvRuntime | EvPackage | EvDeployment
  | EvSecurity | EvBehavioral | EvReproducible

type_synonym adapter_evidence = "evidence_flag \<Rightarrow> bool option"

fun EVIDENCE_REQUIRED_FOR_STATE :: "capability_state \<Rightarrow> evidence_flag list" where
  "EVIDENCE_REQUIRED_FOR_STATE Unsupported = []"
| "EVIDENCE_REQUIRED_FOR_STATE Discovered = [EvDiscovered]"
| "EVIDENCE_REQUIRED_FOR_STATE Experimental = [EvDiscovered, EvInstall]"
| "EVIDENCE_REQUIRED_FOR_STATE Structural = [EvDiscovered, EvInstall]"
| "EVIDENCE_REQUIRED_FOR_STATE Buildable = [EvDiscovered, EvInstall, EvCompile]"
| "EVIDENCE_REQUIRED_FOR_STATE Runnable = [EvDiscovered, EvInstall, EvCompile, EvRuntime]"
| "EVIDENCE_REQUIRED_FOR_STATE Packageable =
     [EvDiscovered, EvInstall, EvCompile, EvRuntime, EvPackage]"
| "EVIDENCE_REQUIRED_FOR_STATE Deployable =
     [EvDiscovered, EvInstall, EvCompile, EvRuntime, EvPackage, EvDeployment]"
| "EVIDENCE_REQUIRED_FOR_STATE Verified =
     [EvDiscovered, EvInstall, EvCompile, EvRuntime, EvPackage, EvDeployment, EvTests, EvSecurity,
      EvBehavioral]"
| "EVIDENCE_REQUIRED_FOR_STATE ProductionCertified =
     [EvDiscovered, EvInstall, EvCompile, EvRuntime, EvPackage, EvDeployment, EvTests, EvSecurity,
      EvBehavioral, EvReproducible]"

datatype promotion_refused = NotAnAdvance | MissingEvidence "evidence_flag list"

definition evaluateAdapterPromotion ::
    "capability_state \<Rightarrow> capability_state \<Rightarrow> adapter_evidence \<Rightarrow> (promotion_refused, capability_state) result" where
  "evaluateAdapterPromotion current target evidence =
    (if stateRank target \<le> stateRank current then Inl NotAnAdvance
     else
       let missing = filter (\<lambda>flag. evidence flag \<noteq> Some True) (EVIDENCE_REQUIRED_FOR_STATE target)
       in if missing \<noteq> [] then Inl (MissingEvidence missing) else Inr target)"

datatype lifecycle_status = Active | Deprecated | Retired

datatype adapter_category =
    GameEngine | MobileToolchain | DesktopToolchain | ContentTool | DatabaseTech | CloudPlatform
  | CompilerRuntime | AiProvider | DeploymentTarget | HardwareToolchain

datatype adapter_platform =
    OnLinux | OnWindows | OnMacos | OnAndroid | OnIos | OnWeb | OnEmbedded

datatype adapter_arch = X86_64 | Arm64 | Arm | Wasm

datatype auth_kind = AuthNone | AuthApiKey | AuthOauth | AuthServiceAccount | AuthLicenseKey

datatype credential_isolation = DisposableRunner | ScopedSecret | NotApplicable

record runtime_commands =
  co_install :: "string list"
  co_build :: "string option"
  co_test :: "string option"
  co_runtime :: "string option"
  co_packaging :: "string option"
  co_deploy :: "string option"
  co_healthCheck :: "string option"

record replacement_path =
  rp_successor :: bool
  rp_identifier :: "string option"
  rp_notes :: "string option"

record adapter =
  ad_id :: string
  ad_label :: string
  ad_category :: adapter_category
  ad_versions :: "string list"
  ad_latest :: "string option"
  ad_lifecycle :: lifecycle_status
  ad_notice :: "string option"
  ad_eol :: "stamp option"
  ad_platforms :: "adapter_platform list"
  ad_archs :: "adapter_arch list"
  ad_install :: "string \<times> bool \<times> string list"
  ad_auth :: "bool \<times> auth_kind \<times> credential_isolation"
  ad_commands :: runtime_commands
  ad_tests :: "string list"
  ad_security :: "string list"
  ad_requirements :: "evidence_flag list"
  ad_replacement :: replacement_path
  ad_state :: capability_state
  ad_evidence :: adapter_evidence
  ad_ledger :: "string list option"
  ad_quarantine :: "(bool \<times> string option) option"
  ad_verifiedAt :: "stamp option"

text \<open>
  The helper \<open>adapter\<close> of the registry (\<open>externalTechnologyAdapterHelpers.ts\<close>): the given fields
  over the defaults. The ledger ids of an evidence are kept apart from its flags.
\<close>

definition new_adapter :: "string \<Rightarrow> string \<Rightarrow> adapter_category \<Rightarrow> string list \<Rightarrow> string option \<Rightarrow>
    adapter_platform list \<Rightarrow> adapter_arch list \<Rightarrow> string \<times> bool \<times> string list \<Rightarrow>
    bool \<times> auth_kind \<times> credential_isolation \<Rightarrow> runtime_commands \<Rightarrow> string list \<Rightarrow> string list \<Rightarrow> adapter" where
  "new_adapter ident label category versions latest platforms archs install auth commands tests security =
    \<lparr>ad_id = ident, ad_label = label, ad_category = category, ad_versions = versions,
     ad_latest = latest, ad_lifecycle = Active, ad_notice = None, ad_eol = None,
     ad_platforms = platforms, ad_archs = archs, ad_install = install, ad_auth = auth,
     ad_commands = commands, ad_tests = tests, ad_security = security,
     ad_requirements = [EvDiscovered, EvInstall, EvCompile, EvRuntime],
     ad_replacement = \<lparr>rp_successor = False, rp_identifier = None, rp_notes = None\<rparr>,
     ad_state = Discovered, ad_evidence = [EvDiscovered \<mapsto> True], ad_ledger = None,
     ad_quarantine = None, ad_verifiedAt = None\<rparr>"

definition is_quarantined :: "adapter \<Rightarrow> bool" where
  "is_quarantined a = (case ad_quarantine a of None \<Rightarrow> False | Some (q, _) \<Rightarrow> q)"

definition quarantineAdapter :: "adapter \<Rightarrow> string \<Rightarrow> adapter" where
  "quarantineAdapter a reason =
     a\<lparr>ad_state := (if isAtLeast (ad_state a) Structural then Experimental else ad_state a),
       ad_quarantine := Some (True, Some reason)\<rparr>"

definition clearQuarantine :: "adapter \<Rightarrow> adapter" where
  "clearQuarantine a = a\<lparr>ad_quarantine := None\<rparr>"

definition applyAdapterPromotion :: "adapter \<Rightarrow> capability_state \<Rightarrow> adapter_evidence \<Rightarrow>
    string list option \<Rightarrow> stamp \<Rightarrow> (promotion_refused, adapter) result" where
  "applyAdapterPromotion a target evidence ledger verifiedAt =
    (let merged = ad_evidence a ++ evidence in
     bind_result (evaluateAdapterPromotion (ad_state a) target merged) (\<lambda>s.
       Inr (a\<lparr>ad_state := s, ad_evidence := merged,
              ad_ledger := (case ledger of None \<Rightarrow> ad_ledger a | Some ids \<Rightarrow> Some ids),
              ad_verifiedAt := Some verifiedAt, ad_quarantine := None\<rparr>)))"

text \<open>An adapter is justified when its evidence backs the state it claims.\<close>

definition justified :: "adapter \<Rightarrow> bool" where
  "justified a \<longleftrightarrow> (\<forall>flag \<in> set (EVIDENCE_REQUIRED_FOR_STATE (ad_state a)). ad_evidence a flag = Some True)"

inductive adapter_step :: "adapter \<Rightarrow> adapter \<Rightarrow> bool" where
  promote: "applyAdapterPromotion a target evidence ledger verifiedAt = Inr b \<Longrightarrow> adapter_step a b"
| quarantine: "adapter_step a (quarantineAdapter a reason)"
| clear: "adapter_step a (clearQuarantine a)"

inductive_cases adapter_stepE: "adapter_step a b"

lemma required_mono:
  "s \<le> t \<Longrightarrow> set (EVIDENCE_REQUIRED_FOR_STATE s) \<subseteq> set (EVIDENCE_REQUIRED_FOR_STATE t)"
  by (cases s; cases t) (simp_all add: less_eq_capability_state_def)

lemma evaluate_promoted:
  "evaluateAdapterPromotion current target evidence = Inr s \<longleftrightarrow>
   current < target \<and> s = target \<and>
   (\<forall>flag \<in> set (EVIDENCE_REQUIRED_FOR_STATE target). evidence flag = Some True)"
  by (auto simp: evaluateAdapterPromotion_def less_capability_state_def Let_def filter_empty_conv)

lemma promotion_justified: "applyAdapterPromotion a target evidence ledger at = Inr b \<Longrightarrow> justified b"
  by (auto simp: applyAdapterPromotion_def Let_def evaluate_promoted justified_def)

lemma step_keeps_justified: "justified a \<Longrightarrow> adapter_step a b \<Longrightarrow> justified b"
proof (erule adapter_stepE)
  fix reason assume a: "justified a" and b: "b = quarantineAdapter a reason"
  have "ad_state b \<le> ad_state a"
    by (simp add: b quarantineAdapter_def less_eq_capability_state_def)
  with a required_mono show "justified b"
    by (fastforce simp: justified_def b quarantineAdapter_def)
next
  fix target evidence ledger at assume "applyAdapterPromotion a target evidence ledger at = Inr b"
  then show "justified b" by (rule promotion_justified)
qed (simp add: justified_def clearQuarantine_def)

section \<open>Lifecycle alerts\<close>

datatype alert_kind = EolPassed | EolApproaching | AlertDeprecated | AlertQuarantined | StaleVerification

definition adapter_day_ms :: int where "adapter_day_ms = 24 * 60 * 60 * 1000"

definition daysBetween :: "int \<Rightarrow> int \<Rightarrow> int" where
  \<comment> \<open>\<open>Math.round\<close> of the quotient: the floor of the quotient plus a half\<close>
  "daysBetween a b = (2 * (b - a) + adapter_day_ms) div (2 * adapter_day_ms)"

definition adapter_alerts :: "int \<Rightarrow> adapter \<Rightarrow> (string \<times> alert_kind) list" where
  "adapter_alerts now a =
    (case Option.bind (ad_eol a) stamp_time of None \<Rightarrow> []
     | Some eol \<Rightarrow>
        let days = daysBetween now eol in
        if days \<le> 0 then [(ad_id a, EolPassed)]
        else if days \<le> 90 then [(ad_id a, EolApproaching)] else []) @
    (if ad_lifecycle a = Deprecated then [(ad_id a, AlertDeprecated)] else []) @
    (if is_quarantined a then [(ad_id a, AlertQuarantined)] else []) @
    (case Option.bind (ad_verifiedAt a) stamp_time of None \<Rightarrow> []
     | Some verifiedAt \<Rightarrow>
        if daysBetween verifiedAt now > 180 then [(ad_id a, StaleVerification)] else [])"

definition computeLifecycleAlerts :: "adapter list \<Rightarrow> int \<Rightarrow> (string \<times> alert_kind) list" where
  "computeLifecycleAlerts adapters now = concat (map (adapter_alerts now) adapters)"

section \<open>Migrating an adapter\<close>

datatype migration_step =
    DetectChange | IdentifyAffectedAdapter | ResearchOfficialDocumentation
  | DetermineReplacementOrVersion | ProvisionIsolatedTestEnvironment | UpdateOrCreateAdapter
  | RunCompatibilityTests | RunBuildRuntimePackageTests | VerifyBehavior | RecordEvidence
  | PromoteAdapter | MigrateRoutingSafely

definition MIGRATION_FLOW_STEPS :: "migration_step list" where
  "MIGRATION_FLOW_STEPS = [DetectChange, IdentifyAffectedAdapter, ResearchOfficialDocumentation,
     DetermineReplacementOrVersion, ProvisionIsolatedTestEnvironment, UpdateOrCreateAdapter,
     RunCompatibilityTests, RunBuildRuntimePackageTests, VerifyBehavior, RecordEvidence,
     PromoteAdapter, MigrateRoutingSafely]"

datatype step_status = StepPending | StepInProgress | StepPassed | StepFailed

datatype migration_outcome = MigrationInProgress | MigrationPromoted | MigrationRejected

record plan_step =
  ps_step :: migration_step
  ps_status :: step_status
  ps_notes :: "string option"

record migration_plan =
  mi_adapter :: string
  mi_from :: "string option"
  mi_candidate :: string
  mi_steps :: "plan_step list"
  mi_outcome :: migration_outcome

definition startAdapterMigration :: "adapter \<Rightarrow> string \<Rightarrow> migration_plan" where
  "startAdapterMigration a candidate = \<lparr>mi_adapter = ad_id a, mi_from = ad_latest a,
     mi_candidate = candidate,
     mi_steps = map (\<lambda>s. \<lparr>ps_step = s, ps_status = StepPending, ps_notes = None\<rparr>) MIGRATION_FLOW_STEPS,
     mi_outcome = MigrationInProgress\<rparr>"

definition advanceMigrationStep ::
    "migration_plan \<Rightarrow> migration_step \<Rightarrow> step_status \<Rightarrow> string option \<Rightarrow> migration_plan" where
  \<comment> \<open>the type of the source excludes the status \<open>pending\<close>\<close>
  "advanceMigrationStep plan s status notes =
    (if mi_outcome plan \<noteq> MigrationInProgress then plan
     else
       let steps = map (\<lambda>e. if ps_step e = s
             then e\<lparr>ps_status := status, ps_notes := (case notes of None \<Rightarrow> ps_notes e | Some n \<Rightarrow> Some n)\<rparr>
             else e) (mi_steps plan);
           failed = (status = StepFailed);
           allPassed = (\<not> failed \<and> list_all (\<lambda>e. ps_status e = StepPassed) steps)
       in plan\<lparr>mi_steps := steps,
            mi_outcome := (if failed then MigrationRejected
              else if allPassed then MigrationPromoted else MigrationInProgress)\<rparr>)"

definition run_migration :: "migration_plan \<Rightarrow> (migration_step \<times> step_status) list \<Rightarrow> migration_plan" where
  "run_migration plan us = foldl (\<lambda>p (s, status). advanceMigrationStep p s status None) plan us"

lemma migration_final: "mi_outcome plan \<noteq> MigrationInProgress \<Longrightarrow> run_migration plan us = plan"
  by (induction us) (auto simp: run_migration_def advanceMigrationStep_def)

text \<open>What a plan's steps say about its outcome.\<close>

definition plan_ok :: "migration_plan \<Rightarrow> bool" where
  "plan_ok plan \<longleftrightarrow> map ps_step (mi_steps plan) = MIGRATION_FLOW_STEPS \<and>
     (mi_outcome plan = MigrationPromoted \<longleftrightarrow> list_all (\<lambda>e. ps_status e = StepPassed) (mi_steps plan)) \<and>
     (mi_outcome plan = MigrationRejected \<longleftrightarrow> list_ex (\<lambda>e. ps_status e = StepFailed) (mi_steps plan))"

lemma start_plan_ok: "plan_ok (startAdapterMigration a candidate)"
  by (simp add: plan_ok_def startAdapterMigration_def MIGRATION_FLOW_STEPS_def)

lemma every_step: "s \<in> set MIGRATION_FLOW_STEPS"
  by (cases s) (simp_all add: MIGRATION_FLOW_STEPS_def)

lemma advance_keeps_plan_ok:
  assumes "plan_ok plan" "status \<noteq> StepPending"
  shows "plan_ok (advanceMigrationStep plan s status notes)"
proof (cases "mi_outcome plan = MigrationInProgress")
  case False
  with assms(1) show ?thesis by (simp add: advanceMigrationStep_def)
next
  case True
  let ?p = "advanceMigrationStep plan s status notes"
  have names: "map ps_step (mi_steps ?p) = map ps_step (mi_steps plan)"
    using True by (simp add: advanceMigrationStep_def Let_def)
  have "s \<in> ps_step ` set (mi_steps plan)"
    using assms(1) every_step [of s] by (metis plan_ok_def list.set_map)
  then obtain e where e: "e \<in> set (mi_steps plan)" "ps_step e = s" by blast
  have sound: "\<not> list_ex (\<lambda>e. ps_status e = StepFailed) (mi_steps plan)"
    using assms(1) True by (simp add: plan_ok_def)
  let ?e = "e\<lparr>ps_status := status, ps_notes := (case notes of None \<Rightarrow> ps_notes e | Some n \<Rightarrow> Some n)\<rparr>"
  have "?e \<in> set (mi_steps ?p)"
    using True e by (auto simp: advanceMigrationStep_def Let_def intro!: image_eqI [where x = e])
  then obtain x where x: "x \<in> set (mi_steps ?p)" "ps_status x = status" by force
  have "status = StepFailed" if "y \<in> set (mi_steps ?p)" "ps_status y = StepFailed" for y
    using that True sound by (auto simp: advanceMigrationStep_def Let_def list_ex_iff split: if_splits)
  with x have failed: "list_ex (\<lambda>e. ps_status e = StepFailed) (mi_steps ?p) \<longleftrightarrow> status = StepFailed"
    by (auto simp: list_ex_iff)
  have "\<exists>y \<in> set (mi_steps ?p). ps_status y \<noteq> StepPassed" if "status = StepFailed"
    using x that by (intro bexI [where x = x]) simp_all
  then have blocked: "\<not> list_all (\<lambda>e. ps_status e = StepPassed) (mi_steps ?p)" if "status = StepFailed"
    using that by (simp add: list_all_iff)
  have "mi_outcome ?p = (if status = StepFailed then MigrationRejected
      else if list_all (\<lambda>e. ps_status e = StepPassed) (mi_steps ?p) then MigrationPromoted
      else MigrationInProgress)"
    using True by (simp add: advanceMigrationStep_def Let_def)
  with names failed blocked assms(1) show ?thesis by (auto simp: plan_ok_def)
qed

lemma run_keeps_plan_ok:
  "plan_ok plan \<Longrightarrow> \<forall>(s, status) \<in> set us. status \<noteq> StepPending \<Longrightarrow> plan_ok (run_migration plan us)"
  by (induction us arbitrary: plan) (auto simp: run_migration_def advance_keeps_plan_ok)

lemma passing_keeps:
  "mi_outcome plan \<noteq> MigrationRejected \<Longrightarrow> mi_outcome (run_migration plan (map (\<lambda>s. (s, StepPassed)) ss)) \<noteq> MigrationRejected"
proof (induction ss arbitrary: plan)
  case (Cons s ss)
  have "mi_outcome (advanceMigrationStep plan s StepPassed None) \<noteq> MigrationRejected"
    using Cons.prems by (simp add: advanceMigrationStep_def Let_def)
  from Cons.IH [OF this] show ?case by (simp add: run_migration_def)
qed (simp add: run_migration_def)

lemma passed_steps:
  "mi_outcome plan \<noteq> MigrationPromoted \<Longrightarrow> mi_outcome plan \<noteq> MigrationRejected \<Longrightarrow>
   let p = run_migration plan (map (\<lambda>s. (s, StepPassed)) ss) in
   mi_outcome p = MigrationPromoted \<or>
   (\<forall>e \<in> set (mi_steps p). ps_step e \<in> set ss \<longrightarrow> ps_status e = StepPassed)"
proof (induction ss rule: rev_induct)
  case (snoc s ss)
  let ?p = "run_migration plan (map (\<lambda>s. (s, StepPassed)) ss)"
  have step: "run_migration plan (map (\<lambda>s. (s, StepPassed)) (ss @ [s])) = advanceMigrationStep ?p s StepPassed None"
    by (simp add: run_migration_def)
  have "mi_outcome ?p \<noteq> MigrationRejected" using passing_keeps snoc.prems(2) .
  then consider "mi_outcome ?p = MigrationPromoted" | "mi_outcome ?p = MigrationInProgress"
    by (cases "mi_outcome ?p") auto
  then show ?case
  proof cases
    case 1
    then show ?thesis unfolding step by (simp add: advanceMigrationStep_def Let_def)
  next
    case 2
    with snoc.IH [OF snoc.prems] have "\<forall>e \<in> set (mi_steps ?p). ps_step e \<in> set ss \<longrightarrow> ps_status e = StepPassed"
      by (simp add: Let_def)
    with 2 show ?thesis unfolding step
      by (auto simp: advanceMigrationStep_def Let_def)
  qed
qed (simp add: run_migration_def Let_def)

lemma all_passed_promotes:
  assumes "plan_ok plan" "mi_outcome plan = MigrationInProgress" "set MIGRATION_FLOW_STEPS \<subseteq> set ss"
  shows "mi_outcome (run_migration plan (map (\<lambda>s. (s, StepPassed)) ss)) = MigrationPromoted"
proof -
  let ?p = "run_migration plan (map (\<lambda>s. (s, StepPassed)) ss)"
  have "plan_ok ?p" using assms(1) by (intro run_keeps_plan_ok) auto
  moreover have "ps_step e \<in> set ss" for e using assms(3) every_step by blast
  ultimately show ?thesis
    using passed_steps [of plan ss] assms(2) by (auto simp: Let_def plan_ok_def list_all_iff)
qed


definition sample_adapter :: adapter where
  "sample_adapter = new_adapter ''postgres'' ''PostgreSQL'' DatabaseTech [''15'', ''16''] (Some ''16'')
     [OnLinux] [X86_64] (''container image'', True, []) (False, AuthNone, NotApplicable)
     \<lparr>co_install = [], co_build = None, co_test = None, co_runtime = None, co_packaging = None,
      co_deploy = None, co_healthCheck = None\<rparr> [''connect''] []"


end
