(* ===== verification/StackRegistry.thy ===== *)
theory StackRegistry
  imports Adapters
begin

text \<open>
  The technology stacks AppForge builds on (\<open>src/lib/stackAdapters.ts\<close>) with the lookups over
  them, and the external dependencies each stack declares (\<open>src/lib/stackDependencies.ts\<close>). The
  tables are the literals of the source, one definition per stack.
\<close>

section \<open>The stacks\<close>

datatype product_type =
    Website | SaasApplication | MobileApp | DesktopApp | GameProduct | AiAgent | DeveloperTool
  | ApiProduct | EcommerceProduct | BrowserExtension | AutomationTool | DataProduct | Infrastructure

datatype stack_generation = StackRunnable | StackStructural

datatype stack_preview =
    PreviewStatic | PreviewVite | PreviewNext | PreviewService | PreviewMobile | PreviewDesktop
  | PreviewExtension | PreviewSource

datatype stack_runtime =
    RuntimeBrowser | RuntimeNode | RuntimePython | RuntimeMobile | RuntimeDesktop | RuntimeExtension

datatype artifact_kind =
    KindWeb | KindStatic | KindService | KindMobile | KindDesktop | KindGame | KindExtension
  | KindAutomation | KindData | KindInfrastructure

record stack_adapter =
  sa_id :: string
  sa_label :: string
  sa_aliases :: "string list"
  sa_productTypes :: "product_type list"
  sa_generation :: stack_generation
  sa_runtime :: stack_runtime
  sa_entrypoints :: "string list"
  sa_manifest :: string
  sa_envFiles :: "string list"
  sa_structure :: "string list"
  sa_build :: "string option"
  sa_start :: "string option"
  sa_preview :: stack_preview
  sa_targets :: "string list"
  sa_output :: "string option"
  sa_kind :: artifact_kind

definition stack_react_node :: stack_adapter where
  "stack_react_node =
    \<lparr>sa_id = ''react-node'', sa_label = ''React + Node'',
     sa_aliases = [''react'', ''react vite'', ''vite react'', ''web app''],
     sa_productTypes = [Website, SaasApplication, EcommerceProduct, DeveloperTool],
     sa_generation = StackRunnable, sa_runtime = RuntimeNode,
     sa_entrypoints = [''src/main.tsx'', ''src/App.tsx''],
     sa_manifest = ''package.json'', sa_envFiles = [''.env.example''],
     sa_structure = [''src/'', ''public/''],
     sa_build = Some ''npm run build'', sa_start = Some ''npm run start'',
     sa_preview = PreviewVite, sa_targets = [''vercel'', ''netlify'', ''fly'', ''preview''],
     sa_output = Some ''dist'', sa_kind = KindWeb\<rparr>"

definition stack_static_html :: stack_adapter where
  "stack_static_html =
    \<lparr>sa_id = ''static-html'', sa_label = ''Static HTML/CSS/JavaScript'',
     sa_aliases = [''static website'', ''static site'', ''html css javascript'',
      ''vanilla website''],
     sa_productTypes = [Website],
     sa_generation = StackRunnable, sa_runtime = RuntimeBrowser,
     sa_entrypoints = [''index.html''],
     sa_manifest = ''package.json'', sa_envFiles = [],
     sa_structure = [''assets/''],
     sa_build = Some ''npm run build'', sa_start = None,
     sa_preview = PreviewStatic, sa_targets = [''vercel'', ''netlify'', ''github-pages'',
      ''fly'', ''preview''],
     sa_output = Some ''dist'', sa_kind = KindStatic\<rparr>"

definition stack_next_node :: stack_adapter where
  "stack_next_node =
    \<lparr>sa_id = ''next-node'', sa_label = ''Next.js + Node'',
     sa_aliases = [''next'', ''nextjs'', ''next.js''],
     sa_productTypes = [Website, SaasApplication, EcommerceProduct, DeveloperTool],
     sa_generation = StackRunnable, sa_runtime = RuntimeNode,
     sa_entrypoints = [''app/page.tsx'', ''app/layout.tsx''],
     sa_manifest = ''package.json'', sa_envFiles = [''.env.example''],
     sa_structure = [''app/'', ''public/''],
     sa_build = Some ''npm run build'', sa_start = Some ''npm run start'',
     sa_preview = PreviewNext, sa_targets = [''vercel'', ''fly'', ''preview''],
     sa_output = Some ''.next'', sa_kind = KindWeb\<rparr>"

definition stack_phaser_html5 :: stack_adapter where
  "stack_phaser_html5 =
    \<lparr>sa_id = ''phaser-html5'', sa_label = ''Phaser HTML5'',
     sa_aliases = [''phaser'', ''phaser game''],
     sa_productTypes = [GameProduct],
     sa_generation = StackRunnable, sa_runtime = RuntimeBrowser,
     sa_entrypoints = [''src/main.ts''],
     sa_manifest = ''package.json'', sa_envFiles = [''.env.example''],
     sa_structure = [''src/'', ''public/''],
     sa_build = Some ''npm run build'', sa_start = None,
     sa_preview = PreviewVite, sa_targets = [''vercel'', ''netlify'', ''fly'', ''preview''],
     sa_output = Some ''dist'', sa_kind = KindGame\<rparr>"

definition stack_three_js_3d :: stack_adapter where
  "stack_three_js_3d =
    \<lparr>sa_id = ''three-js-3d'', sa_label = ''Three.js'',
     sa_aliases = [''three'', ''threejs'', ''three.js'', ''webgl''],
     sa_productTypes = [GameProduct, Website, DataProduct],
     sa_generation = StackRunnable, sa_runtime = RuntimeBrowser,
     sa_entrypoints = [''src/main.ts''],
     sa_manifest = ''package.json'', sa_envFiles = [''.env.example''],
     sa_structure = [''src/'', ''public/''],
     sa_build = Some ''npm run build'', sa_start = None,
     sa_preview = PreviewVite, sa_targets = [''vercel'', ''netlify'', ''fly'', ''preview''],
     sa_output = Some ''dist'', sa_kind = KindGame\<rparr>"

definition stack_react_native_expo :: stack_adapter where
  "stack_react_native_expo =
    \<lparr>sa_id = ''react-native-expo'', sa_label = ''React Native + Expo'',
     sa_aliases = [''react native'', ''expo'', ''expo react native''],
     sa_productTypes = [MobileApp],
     sa_generation = StackStructural, sa_runtime = RuntimeMobile,
     sa_entrypoints = [''App.tsx''],
     sa_manifest = ''package.json'', sa_envFiles = [''.env.example'', ''app.json''],
     sa_structure = [''src/'', ''assets/''],
     sa_build = Some ''npx expo export'', sa_start = Some ''npx expo start'',
     sa_preview = PreviewMobile, sa_targets = [''expo-eas''],
     sa_output = Some ''dist'', sa_kind = KindMobile\<rparr>"

definition stack_flutter_node :: stack_adapter where
  "stack_flutter_node =
    \<lparr>sa_id = ''flutter-node'', sa_label = ''Flutter + Node'',
     sa_aliases = [''flutter + node'', ''flutter node'', ''flutter + node.js''],
     sa_productTypes = [MobileApp],
     sa_generation = StackStructural, sa_runtime = RuntimeMobile,
     sa_entrypoints = [''lib/main.dart'', ''server/src/server.ts''],
     sa_manifest = ''pubspec.yaml'', sa_envFiles = [''.env.example'', ''server/.env.example''],
     sa_structure = [''lib/'', ''assets/'', ''test/'', ''server/src/'', ''shared/contracts/''],
     sa_build = Some ''npm run build && npm run build:client'', sa_start = Some ''flutter run'',
     sa_preview = PreviewMobile, sa_targets = [],
     sa_output = Some ''build/'', sa_kind = KindMobile\<rparr>"

definition stack_flutter_firebase :: stack_adapter where
  "stack_flutter_firebase =
    \<lparr>sa_id = ''flutter-firebase'', sa_label = ''Flutter + Firebase'',
     sa_aliases = [''flutter'', ''flutter firebase''],
     sa_productTypes = [MobileApp],
     sa_generation = StackStructural, sa_runtime = RuntimeMobile,
     sa_entrypoints = [''lib/main.dart''],
     sa_manifest = ''pubspec.yaml'', sa_envFiles = [''.env.example''],
     sa_structure = [''lib/'', ''assets/'', ''test/''],
     sa_build = Some ''flutter build appbundle'', sa_start = Some ''flutter run'',
     sa_preview = PreviewMobile, sa_targets = [''google-play'', ''apple-app-store''],
     sa_output = Some ''build/'', sa_kind = KindMobile\<rparr>"

definition stack_electron_react :: stack_adapter where
  "stack_electron_react =
    \<lparr>sa_id = ''electron-react'', sa_label = ''Electron + React'',
     sa_aliases = [''electron'', ''electron react''],
     sa_productTypes = [DesktopApp],
     sa_generation = StackStructural, sa_runtime = RuntimeDesktop,
     sa_entrypoints = [''electron/main.ts'', ''src/main.tsx''],
     sa_manifest = ''package.json'', sa_envFiles = [''.env.example''],
     sa_structure = [''electron/'', ''src/''],
     sa_build = Some ''npm run build'', sa_start = Some ''npm run start'',
     sa_preview = PreviewDesktop, sa_targets = [''desktop-package''],
     sa_output = Some ''release/'', sa_kind = KindDesktop\<rparr>"

definition stack_tauri_rust :: stack_adapter where
  "stack_tauri_rust =
    \<lparr>sa_id = ''tauri-rust'', sa_label = ''Tauri + Rust'',
     sa_aliases = [''tauri'', ''tauri rust''],
     sa_productTypes = [DesktopApp],
     sa_generation = StackStructural, sa_runtime = RuntimeDesktop,
     sa_entrypoints = [''src-tauri/src/main.rs'', ''src/main.tsx''],
     sa_manifest = ''package.json'', sa_envFiles = [''.env.example'',
      ''src-tauri/tauri.conf.json''],
     sa_structure = [''src/'', ''src-tauri/''],
     sa_build = Some ''npm run tauri build'', sa_start = Some ''npm run tauri dev'',
     sa_preview = PreviewDesktop, sa_targets = [''desktop-package''],
     sa_output = Some ''src-tauri/target/release/'', sa_kind = KindDesktop\<rparr>"

definition stack_api_service :: stack_adapter where
  "stack_api_service =
    \<lparr>sa_id = ''api-service'', sa_label = ''Node API Service'',
     sa_aliases = [''api'', ''rest api'', ''node api''],
     sa_productTypes = [ApiProduct, DeveloperTool],
     sa_generation = StackRunnable, sa_runtime = RuntimeNode,
     sa_entrypoints = [''src/server.ts''],
     sa_manifest = ''package.json'', sa_envFiles = [''.env.example''],
     sa_structure = [''src/'', ''test/''],
     sa_build = Some ''npm run build'', sa_start = Some ''npm run start'',
     sa_preview = PreviewService, sa_targets = [''fly'', ''vercel''],
     sa_output = Some ''dist'', sa_kind = KindService\<rparr>"

definition stack_node_service :: stack_adapter where
  "stack_node_service =
    \<lparr>sa_id = ''node-service'', sa_label = ''Node.js Service'',
     sa_aliases = [''node service'', ''nodejs service'', ''node.js service'', ''node backend''],
     sa_productTypes = [ApiProduct, AutomationTool, DeveloperTool],
     sa_generation = StackRunnable, sa_runtime = RuntimeNode,
     sa_entrypoints = [''src/index.ts''],
     sa_manifest = ''package.json'', sa_envFiles = [''.env.example''],
     sa_structure = [''src/'', ''test/''],
     sa_build = Some ''npm run build'', sa_start = Some ''npm run start'',
     sa_preview = PreviewService, sa_targets = [''fly'', ''vercel''],
     sa_output = Some ''dist'', sa_kind = KindService\<rparr>"

definition stack_python_service :: stack_adapter where
  "stack_python_service =
    \<lparr>sa_id = ''python-service'', sa_label = ''Python Service'',
     sa_aliases = [''python'', ''python api'', ''python service'', ''fastapi''],
     sa_productTypes = [ApiProduct, AutomationTool, DeveloperTool, DataProduct, AiAgent],
     sa_generation = StackStructural, sa_runtime = RuntimePython,
     sa_entrypoints = [''app/main.py''],
     sa_manifest = ''requirements.txt'', sa_envFiles = [''.env.example''],
     sa_structure = [''app/'', ''tests/''],
     sa_build = Some ''python -m compileall app'', sa_start = Some ''python -m app.main'',
     sa_preview = PreviewService, sa_targets = [''fly''],
     sa_output = None, sa_kind = KindService\<rparr>"

definition stack_ai_agent_node :: stack_adapter where
  "stack_ai_agent_node =
    \<lparr>sa_id = ''ai-agent-node'', sa_label = ''Node AI Agent'',
     sa_aliases = [''ai agent node'', ''node ai agent'', ''agent node''],
     sa_productTypes = [AiAgent],
     sa_generation = StackRunnable, sa_runtime = RuntimeNode,
     sa_entrypoints = [''src/index.ts''],
     sa_manifest = ''package.json'', sa_envFiles = [''.env.example''],
     sa_structure = [''src/'', ''test/''],
     sa_build = Some ''npm run build'', sa_start = Some ''npm run start'',
     sa_preview = PreviewService, sa_targets = [''fly''],
     sa_output = Some ''dist'', sa_kind = KindService\<rparr>"

definition stack_ai_agent_python :: stack_adapter where
  "stack_ai_agent_python =
    \<lparr>sa_id = ''ai-agent-python'', sa_label = ''Python AI Agent'',
     sa_aliases = [''python ai agent'', ''ai agent python''],
     sa_productTypes = [AiAgent],
     sa_generation = StackStructural, sa_runtime = RuntimePython,
     sa_entrypoints = [''app/main.py''],
     sa_manifest = ''requirements.txt'', sa_envFiles = [''.env.example''],
     sa_structure = [''app/'', ''tests/''],
     sa_build = Some ''python -m compileall app'', sa_start = Some ''python -m app.main'',
     sa_preview = PreviewService, sa_targets = [''fly''],
     sa_output = None, sa_kind = KindService\<rparr>"

definition stack_chrome_extension :: stack_adapter where
  "stack_chrome_extension =
    \<lparr>sa_id = ''chrome-extension'', sa_label = ''Browser Extension (Manifest V3)'',
     sa_aliases = [''browser extension'', ''chrome extension'', ''manifest v3'', ''mv3''],
     sa_productTypes = [BrowserExtension],
     sa_generation = StackStructural, sa_runtime = RuntimeExtension,
     sa_entrypoints = [''manifest.json'', ''src/background.ts''],
     sa_manifest = ''package.json'', sa_envFiles = [''.env.example''],
     sa_structure = [''src/'', ''icons/''],
     sa_build = Some ''npm run build'', sa_start = None,
     sa_preview = PreviewExtension, sa_targets = [''chrome-web-store''],
     sa_output = Some ''dist'', sa_kind = KindExtension\<rparr>"

definition stack_browser_automation :: stack_adapter where
  "stack_browser_automation =
    \<lparr>sa_id = ''browser-automation'', sa_label = ''Browser Automation'',
     sa_aliases = [''automation'', ''browser automation'', ''playwright automation''],
     sa_productTypes = [AutomationTool],
     sa_generation = StackRunnable, sa_runtime = RuntimeNode,
     sa_entrypoints = [''src/index.ts''],
     sa_manifest = ''package.json'', sa_envFiles = [''.env.example''],
     sa_structure = [''src/'', ''test/''],
     sa_build = Some ''npm run build'', sa_start = Some ''npm run start'',
     sa_preview = PreviewService, sa_targets = [''fly''],
     sa_output = Some ''dist'', sa_kind = KindAutomation\<rparr>"

definition stack_data_visualization :: stack_adapter where
  "stack_data_visualization =
    \<lparr>sa_id = ''data-visualization'', sa_label = ''Data Product'',
     sa_aliases = [''data visualization'', ''data dashboard'', ''analytics dashboard''],
     sa_productTypes = [DataProduct],
     sa_generation = StackRunnable, sa_runtime = RuntimeBrowser,
     sa_entrypoints = [''src/main.tsx''],
     sa_manifest = ''package.json'', sa_envFiles = [''.env.example''],
     sa_structure = [''src/'', ''public/''],
     sa_build = Some ''npm run build'', sa_start = None,
     sa_preview = PreviewVite, sa_targets = [''vercel'', ''netlify'', ''fly'', ''preview''],
     sa_output = Some ''dist'', sa_kind = KindData\<rparr>"

definition stack_docker_compose_infra :: stack_adapter where
  "stack_docker_compose_infra =
    \<lparr>sa_id = ''docker-compose-infra'', sa_label = ''Docker Compose Infrastructure'',
     sa_aliases = [''docker compose'', ''docker infra'', ''container stack''],
     sa_productTypes = [Infrastructure],
     sa_generation = StackStructural, sa_runtime = RuntimeNode,
     sa_entrypoints = [''docker-compose.yml''],
     sa_manifest = ''docker-compose.yml'', sa_envFiles = [''.env.example''],
     sa_structure = [''services/'', ''scripts/''],
     sa_build = Some ''docker compose build'', sa_start = Some ''docker compose up -d'',
     sa_preview = PreviewService, sa_targets = [''fly'', ''vps''],
     sa_output = None, sa_kind = KindInfrastructure\<rparr>"

definition stack_kubernetes_helm_infra :: stack_adapter where
  "stack_kubernetes_helm_infra =
    \<lparr>sa_id = ''kubernetes-helm-infra'', sa_label = ''Kubernetes + Helm Infrastructure'',
     sa_aliases = [''kubernetes'', ''k8s'', ''helm chart'', ''helm''],
     sa_productTypes = [Infrastructure],
     sa_generation = StackStructural, sa_runtime = RuntimeNode,
     sa_entrypoints = [''helm/Chart.yaml''],
     sa_manifest = ''helm/Chart.yaml'', sa_envFiles = [''.env.example''],
     sa_structure = [''helm/templates/'', ''manifests/''],
     sa_build = Some ''helm lint helm/'', sa_start = Some ''helm upgrade --install app helm/'',
     sa_preview = PreviewService, sa_targets = [''kubernetes''],
     sa_output = None, sa_kind = KindInfrastructure\<rparr>"

definition STACK_ADAPTERS :: "stack_adapter list" where
  "STACK_ADAPTERS =
    [stack_react_node, stack_static_html, stack_next_node, stack_phaser_html5, stack_three_js_3d,
     stack_react_native_expo, stack_flutter_node, stack_flutter_firebase, stack_electron_react,
     stack_tauri_rust, stack_api_service, stack_node_service, stack_python_service,
     stack_ai_agent_node, stack_ai_agent_python, stack_chrome_extension, stack_browser_automation,
     stack_data_visualization, stack_docker_compose_infra, stack_kubernetes_helm_infra]"

section \<open>Looking a stack up\<close>

definition stacks_by_id :: "(string \<times> stack_adapter) list" where
  "stacks_by_id = map (\<lambda>a. (sa_id a, a)) STACK_ADAPTERS"

definition stack_names :: "stack_adapter \<Rightarrow> (string \<times> stack_adapter) list" where
  "stack_names a = (sa_id a, a) # (js_lower (sa_label a), a) # map (\<lambda>x. (js_lower x, a)) (sa_aliases a)"

definition stacks_by_alias :: "(string \<times> stack_adapter) list" where
  "stacks_by_alias = concat (map stack_names STACK_ADAPTERS)"

definition last_entry :: "('k \<times> 'v) list \<Rightarrow> 'k \<Rightarrow> 'v option" where
  \<comment> \<open>a JavaScript \<open>Map\<close> filled entry by entry: a later entry replaces an earlier one\<close>
  "last_entry entries = map_of (rev entries)"

datatype stack_error = UnsupportedStack string | UnsupportedProduct string product_type

definition getStackAdapter :: "string \<Rightarrow> (stack_error, stack_adapter) result" where
  "getStackAdapter stackId =
    (let normalized = js_lower (js_trim stackId) in
     case last_entry stacks_by_id normalized of Some a \<Rightarrow> Inr a
     | None \<Rightarrow> (case last_entry stacks_by_alias normalized of Some a \<Rightarrow> Inr a
        | None \<Rightarrow> Inl (UnsupportedStack stackId)))"

definition normalizeStackId :: "string \<Rightarrow> (stack_error, string) result" where
  "normalizeStackId stackId = bind_result (getStackAdapter stackId) (\<lambda>a. Inr (sa_id a))"

definition isSupportedStack :: "string \<Rightarrow> bool" where
  "isSupportedStack stackId = (case getStackAdapter stackId of Inl _ \<Rightarrow> False | Inr _ \<Rightarrow> True)"

definition assertStackSupportsProduct :: "string \<Rightarrow> product_type \<Rightarrow> (stack_error, stack_adapter) result" where
  "assertStackSupportsProduct stackId productType =
     bind_result (getStackAdapter stackId) (\<lambda>a.
       if productType \<notin> set (sa_productTypes a) then Inl (UnsupportedProduct (sa_id a) productType)
       else Inr a)"

definition isStructuralOnlyStack :: "string \<Rightarrow> (stack_error, bool) result" where
  "isStructuralOnlyStack stackId =
     bind_result (getStackAdapter stackId) (\<lambda>a. Inr (sa_generation a = StackStructural))"

section \<open>External dependencies\<close>

record stack_dependency =
  sd_adapter :: string
  sd_version :: string
  sd_minimum :: capability_state
  sd_purpose :: string

definition STACK_EXTERNAL_DEPENDENCIES :: "(string \<times> stack_dependency list) list" where
  "STACK_EXTERNAL_DEPENDENCIES =
    [(''react-node'', [\<lparr>sd_adapter = ''node-runtime'', sd_version = ''any'',
         sd_minimum = Runnable, sd_purpose = ''runtime''\<rparr>]),
     (''static-html'', []),
     (''next-node'', [\<lparr>sd_adapter = ''node-runtime'', sd_version = ''any'',
         sd_minimum = Runnable, sd_purpose = ''runtime''\<rparr>]),
     (''phaser-html5'', []),
     (''three-js-3d'', []),
     (''react-native-expo'', [\<lparr>sd_adapter = ''android-sdk-gradle'', sd_version = ''any'',
         sd_minimum = Discovered, sd_purpose = ''android_target''\<rparr>,
       \<lparr>sd_adapter = ''xcode-apple-toolchain'', sd_version = ''any'',
         sd_minimum = Discovered, sd_purpose = ''ios_target''\<rparr>]),
     (''flutter-node'', [\<lparr>sd_adapter = ''node-runtime'', sd_version = ''any'',
         sd_minimum = Runnable, sd_purpose = ''backend_runtime''\<rparr>,
       \<lparr>sd_adapter = ''flutter-sdk'', sd_version = ''any'',
         sd_minimum = Discovered, sd_purpose = ''client_sdk''\<rparr>,
       \<lparr>sd_adapter = ''android-sdk-gradle'', sd_version = ''any'',
         sd_minimum = Discovered, sd_purpose = ''android_target''\<rparr>,
       \<lparr>sd_adapter = ''xcode-apple-toolchain'', sd_version = ''any'',
         sd_minimum = Discovered, sd_purpose = ''ios_target''\<rparr>]),
     (''flutter-firebase'', [\<lparr>sd_adapter = ''flutter-sdk'', sd_version = ''any'',
         sd_minimum = Discovered, sd_purpose = ''sdk''\<rparr>,
       \<lparr>sd_adapter = ''android-sdk-gradle'', sd_version = ''any'',
         sd_minimum = Discovered, sd_purpose = ''android_target''\<rparr>,
       \<lparr>sd_adapter = ''xcode-apple-toolchain'', sd_version = ''any'',
         sd_minimum = Discovered, sd_purpose = ''ios_target''\<rparr>]),
     (''electron-react'', [\<lparr>sd_adapter = ''node-runtime'', sd_version = ''any'',
         sd_minimum = Verified, sd_purpose = ''frontend_runtime''\<rparr>,
       \<lparr>sd_adapter = ''electron-desktop'', sd_version = ''any'',
         sd_minimum = Discovered, sd_purpose = ''desktop_packaging''\<rparr>]),
     (''tauri-rust'', [\<lparr>sd_adapter = ''node-runtime'', sd_version = ''any'',
         sd_minimum = Verified, sd_purpose = ''frontend_runtime''\<rparr>,
       \<lparr>sd_adapter = ''rust-toolchain'', sd_version = ''any'',
         sd_minimum = Discovered, sd_purpose = ''native_toolchain''\<rparr>,
       \<lparr>sd_adapter = ''tauri-toolchain'', sd_version = ''any'',
         sd_minimum = Discovered, sd_purpose = ''desktop_packaging''\<rparr>]),
     (''api-service'', [\<lparr>sd_adapter = ''node-runtime'', sd_version = ''any'',
         sd_minimum = Runnable, sd_purpose = ''runtime''\<rparr>]),
     (''node-service'', [\<lparr>sd_adapter = ''node-runtime'', sd_version = ''any'',
         sd_minimum = Runnable, sd_purpose = ''runtime''\<rparr>]),
     (''python-service'', [\<lparr>sd_adapter = ''python-runtime'', sd_version = ''any'',
         sd_minimum = Runnable, sd_purpose = ''runtime''\<rparr>]),
     (''ai-agent-node'', [\<lparr>sd_adapter = ''node-runtime'', sd_version = ''any'',
         sd_minimum = Runnable, sd_purpose = ''runtime''\<rparr>]),
     (''ai-agent-python'', [\<lparr>sd_adapter = ''python-runtime'', sd_version = ''any'',
         sd_minimum = Runnable, sd_purpose = ''runtime''\<rparr>]),
     (''chrome-extension'', []),
     (''browser-automation'', [\<lparr>sd_adapter = ''node-runtime'', sd_version = ''any'',
         sd_minimum = Runnable, sd_purpose = ''runtime''\<rparr>]),
     (''data-visualization'', [\<lparr>sd_adapter = ''node-runtime'', sd_version = ''any'',
         sd_minimum = Runnable, sd_purpose = ''runtime''\<rparr>]),
     (''docker-compose-infra'', []),
     (''kubernetes-helm-infra'', [])]"

definition externalDependenciesForStack :: "string \<Rightarrow> stack_dependency list" where
  "externalDependenciesForStack stackId =
    (case map_of STACK_EXTERNAL_DEPENDENCIES stackId of None \<Rightarrow> [] | Some ds \<Rightarrow> ds)"

section \<open>Facts about the stacks\<close>

lemmas stack_defs =
    stack_react_node_def stack_static_html_def stack_next_node_def stack_phaser_html5_def
    stack_three_js_3d_def stack_react_native_expo_def stack_flutter_node_def
    stack_flutter_firebase_def stack_electron_react_def stack_tauri_rust_def
    stack_api_service_def stack_node_service_def stack_python_service_def stack_ai_agent_node_def
    stack_ai_agent_python_def stack_chrome_extension_def stack_browser_automation_def
    stack_data_visualization_def stack_docker_compose_infra_def stack_kubernetes_helm_infra_def

lemma stack_modes:
  "map (\<lambda>a. (sa_id a, sa_generation a)) STACK_ADAPTERS =
    [(''react-node'', StackRunnable), (''static-html'', StackRunnable), (''next-node'',
     StackRunnable), (''phaser-html5'', StackRunnable), (''three-js-3d'', StackRunnable),
     (''react-native-expo'', StackStructural), (''flutter-node'', StackStructural),
     (''flutter-firebase'', StackStructural), (''electron-react'', StackStructural),
     (''tauri-rust'', StackStructural), (''api-service'', StackRunnable), (''node-service'',
     StackRunnable), (''python-service'', StackStructural), (''ai-agent-node'', StackRunnable),
     (''ai-agent-python'', StackStructural), (''chrome-extension'', StackStructural),
     (''browser-automation'', StackRunnable), (''data-visualization'', StackRunnable),
     (''docker-compose-infra'', StackStructural), (''kubernetes-helm-infra'', StackStructural)]"
  by (simp add: STACK_ADAPTERS_def stack_defs)

lemma stack_ids_distinct: "distinct (map sa_id STACK_ADAPTERS)"
  by code_simp

lemma stack_ids_normal: "\<forall>a \<in> set STACK_ADAPTERS. js_lower (js_trim (sa_id a)) = sa_id a"
  by code_simp

text \<open>No name means two stacks: entries of one name carry one id.\<close>

fun single_valued_entries :: "('k \<times> 'v) list \<Rightarrow> bool" where
  "single_valued_entries [] = True"
| "single_valued_entries ((k, v) # es) =
     (list_all (\<lambda>(k', v'). k' = k \<longrightarrow> v' = v) es \<and> single_valued_entries es)"

lemma single_valued_entriesD:
  "single_valued_entries es \<Longrightarrow> (k, v) \<in> set es \<Longrightarrow> (k, w) \<in> set es \<Longrightarrow> v = w"
  by (induction es rule: single_valued_entries.induct) (auto simp: list_all_iff)

lemma last_entry_iff:
  assumes "single_valued_entries (map (\<lambda>(k, v). (k, f v)) es)" "inj_on f (snd ` set es)"
  shows "last_entry es k = Some v \<longleftrightarrow> (k, v) \<in> set es"
proof
  assume "(k, v) \<in> set es"
  then obtain w where w: "last_entry es k = Some w"
    by (metis last_entry_def map_of_eq_None_iff not_Some_eq set_rev rev_map image_eqI fst_conv set_map)
  then have in_es: "(k, w) \<in> set es" by (auto simp: last_entry_def dest: map_of_SomeD)
  have "f v = f w"
    by (rule single_valued_entriesD [OF assms(1), of k]) (use \<open>(k, v) \<in> set es\<close> in_es in force)+
  with assms(2) \<open>(k, v) \<in> set es\<close> in_es have "v = w" by (force dest: inj_onD)
  with w show "last_entry es k = Some v" by simp
qed (auto simp: last_entry_def dest: map_of_SomeD)

lemma ids_inject: "inj_on sa_id (set STACK_ADAPTERS)"
  using stack_ids_distinct by (simp add: distinct_map)

text \<open>The names of all stacks, in the order of the alias map.\<close>

lemma alias_table:
  "map (\<lambda>(name, a). (name, sa_id a)) stacks_by_alias =
   [(''react-node'', ''react-node''), (''react + node'', ''react-node''), (''react'',
    ''react-node''), (''react vite'', ''react-node''), (''vite react'', ''react-node''),
    (''web app'', ''react-node''), (''static-html'', ''static-html''),
    (''static html/css/javascript'', ''static-html''), (''static website'', ''static-html''),
    (''static site'', ''static-html''), (''html css javascript'', ''static-html''),
    (''vanilla website'', ''static-html''), (''next-node'', ''next-node''), (''next.js + node'',
    ''next-node''), (''next'', ''next-node''), (''nextjs'', ''next-node''), (''next.js'',
    ''next-node''), (''phaser-html5'', ''phaser-html5''), (''phaser html5'', ''phaser-html5''),
    (''phaser'', ''phaser-html5''), (''phaser game'', ''phaser-html5''), (''three-js-3d'',
    ''three-js-3d''), (''three.js'', ''three-js-3d''), (''three'', ''three-js-3d''), (''threejs'',
    ''three-js-3d''), (''three.js'', ''three-js-3d''), (''webgl'', ''three-js-3d''),
    (''react-native-expo'', ''react-native-expo''), (''react native + expo'',
    ''react-native-expo''), (''react native'', ''react-native-expo''), (''expo'',
    ''react-native-expo''), (''expo react native'', ''react-native-expo''), (''flutter-node'',
    ''flutter-node''), (''flutter + node'', ''flutter-node''), (''flutter + node'',
    ''flutter-node''), (''flutter node'', ''flutter-node''), (''flutter + node.js'',
    ''flutter-node''), (''flutter-firebase'', ''flutter-firebase''), (''flutter + firebase'',
    ''flutter-firebase''), (''flutter'', ''flutter-firebase''), (''flutter firebase'',
    ''flutter-firebase''), (''electron-react'', ''electron-react''), (''electron + react'',
    ''electron-react''), (''electron'', ''electron-react''), (''electron react'',
    ''electron-react''), (''tauri-rust'', ''tauri-rust''), (''tauri + rust'', ''tauri-rust''),
    (''tauri'', ''tauri-rust''), (''tauri rust'', ''tauri-rust''), (''api-service'',
    ''api-service''), (''node api service'', ''api-service''), (''api'', ''api-service''),
    (''rest api'', ''api-service''), (''node api'', ''api-service''), (''node-service'',
    ''node-service''), (''node.js service'', ''node-service''), (''node service'',
    ''node-service''), (''nodejs service'', ''node-service''), (''node.js service'',
    ''node-service''), (''node backend'', ''node-service''), (''python-service'',
    ''python-service''), (''python service'', ''python-service''), (''python'',
    ''python-service''), (''python api'', ''python-service''), (''python service'',
    ''python-service''), (''fastapi'', ''python-service''), (''ai-agent-node'', ''ai-agent-node''),
    (''node ai agent'', ''ai-agent-node''), (''ai agent node'', ''ai-agent-node''),
    (''node ai agent'', ''ai-agent-node''), (''agent node'', ''ai-agent-node''),
    (''ai-agent-python'', ''ai-agent-python''), (''python ai agent'', ''ai-agent-python''),
    (''python ai agent'', ''ai-agent-python''), (''ai agent python'', ''ai-agent-python''),
    (''chrome-extension'', ''chrome-extension''), (''browser extension (manifest v3)'',
    ''chrome-extension''), (''browser extension'', ''chrome-extension''), (''chrome extension'',
    ''chrome-extension''), (''manifest v3'', ''chrome-extension''), (''mv3'',
    ''chrome-extension''), (''browser-automation'', ''browser-automation''),
    (''browser automation'', ''browser-automation''), (''automation'', ''browser-automation''),
    (''browser automation'', ''browser-automation''), (''playwright automation'',
    ''browser-automation''), (''data-visualization'', ''data-visualization''), (''data product'',
    ''data-visualization''), (''data visualization'', ''data-visualization''), (''data dashboard'',
    ''data-visualization''), (''analytics dashboard'', ''data-visualization''),
    (''docker-compose-infra'', ''docker-compose-infra''), (''docker compose infrastructure'',
    ''docker-compose-infra''), (''docker compose'', ''docker-compose-infra''), (''docker infra'',
    ''docker-compose-infra''), (''container stack'', ''docker-compose-infra''),
    (''kubernetes-helm-infra'', ''kubernetes-helm-infra''), (''kubernetes + helm infrastructure'',
    ''kubernetes-helm-infra''), (''kubernetes'', ''kubernetes-helm-infra''), (''k8s'',
    ''kubernetes-helm-infra''), (''helm chart'', ''kubernetes-helm-infra''), (''helm'',
    ''kubernetes-helm-infra'')]"
  by code_simp

lemma alias_ids_agree: "single_valued_entries (map (\<lambda>(name, a). (name, sa_id a)) stacks_by_alias)"
  unfolding alias_table by simp

lemma alias_entries: "snd ` set stacks_by_alias = set STACK_ADAPTERS"
  by (force simp: stacks_by_alias_def stack_names_def)

lemma by_alias_iff: "last_entry stacks_by_alias name = Some a \<longleftrightarrow> (name, a) \<in> set stacks_by_alias"
  by (rule last_entry_iff [OF alias_ids_agree]) (simp add: alias_entries ids_inject)

lemma ids_are_aliases: "last_entry stacks_by_id name = Some a \<Longrightarrow> (name, a) \<in> set stacks_by_alias"
  by (fastforce simp: last_entry_def stacks_by_id_def stacks_by_alias_def stack_names_def dest: map_of_SomeD)

lemma stack_found:
  "getStackAdapter x = Inr a \<longleftrightarrow>
   a \<in> set STACK_ADAPTERS \<and> js_lower (js_trim x) \<in> fst ` set (stack_names a)"
proof -
  have names: "(name, a) \<in> set stacks_by_alias \<longleftrightarrow>
      a \<in> set STACK_ADAPTERS \<and> name \<in> fst ` set (stack_names a)" for name
    by (force simp: stacks_by_alias_def stack_names_def)
  have "getStackAdapter x = Inr a \<longleftrightarrow> (js_lower (js_trim x), a) \<in> set stacks_by_alias"
    using ids_are_aliases [of "js_lower (js_trim x)"]
    by (auto simp: getStackAdapter_def Let_def by_alias_iff split: option.splits)
       (metis by_alias_iff option.inject option.distinct(1))+
  then show ?thesis by (simp add: names)
qed

text \<open>
  A stack is found by its id, its label and its aliases, in any letter case and with any
  surrounding white space, and by nothing else; no such name is claimed by two stacks; normalising
  a normalised id gives it back, and resolves to the same stack.
\<close>

theorem stack_lookup_roundtrip:
  "(getStackAdapter x = Inr a \<longleftrightarrow>
     a \<in> set STACK_ADAPTERS \<and>
     js_lower (js_trim x) \<in> {sa_id a, js_lower (sa_label a)} \<union> js_lower ` set (sa_aliases a)) \<and>
   (normalizeStackId x = Inr i \<longrightarrow>
     normalizeStackId i = Inr i \<and> getStackAdapter i = getStackAdapter x \<and> isSupportedStack i)"
proof -
  have names: "fst ` set (stack_names a) = {sa_id a, js_lower (sa_label a)} \<union> js_lower ` set (sa_aliases a)" for a
    by (force simp: stack_names_def)
  have "normalizeStackId i = Inr i \<and> getStackAdapter i = getStackAdapter x \<and> isSupportedStack i"
    if i: "normalizeStackId x = Inr i"
  proof -
    from i obtain b where b: "getStackAdapter x = Inr b" "sa_id b = i"
      by (auto simp: normalizeStackId_def)
    then have "getStackAdapter i = Inr b"
      using stack_ids_normal by (auto simp: stack_found names)
    with b show ?thesis by (simp add: normalizeStackId_def isSupportedStack_def)
  qed
  then show ?thesis unfolding stack_found names by blast
qed

theorem stack_lookup_roundtrip_witness:
  "normalizeStackId ''  React Vite '' = Inr ''react-node'' \<and> normalizeStackId ''react-node'' = Inr ''react-node''"
proof -
  have "normalizeStackId ''  React Vite '' = Inr ''react-node''" by code_simp
  with stack_lookup_roundtrip [of "''  React Vite ''" stack_react_node "''react-node''"]
  show ?thesis by blast
qed

end
