(* ===== verification/AdapterRegistry.thy ===== *)
theory AdapterRegistry
  imports Adapters
begin

text \<open>
  The registry of external technology adapters (\<open>src/lib/externalTechnologyAdapters.ts\<close> and its
  section files): the descriptors as the literals of the source, one definition per section, the
  lookups over them, and the fact that every adapter claims a state its evidence backs, which the
  operations on adapters keep.
\<close>

section \<open>The sections\<close>

definition GAME_ENGINES :: "adapter list" where
  "GAME_ENGINES =
    [new_adapter ''unreal-engine'' ''Unreal Engine'' GameEngine [''5.3'', ''5.4'', ''5.5'']
         (Some ''5.5'')
       [OnWindows, OnMacos, OnLinux] [X86_64, Arm64]
       (''Epic Games Launcher / Unreal Engine source build'', True, [''Visual Studio or Xcode'',
         ''Unreal Build Tool''])
       (True, AuthOauth, DisposableRunner)
       \<lparr>co_install = [''./Setup.sh'', ''./GenerateProjectFiles.sh''],
         co_build = Some ''UnrealBuildTool Development'',
         co_test = Some ''RunUAT.sh BuildCookRun -run'',
        co_runtime = None, co_packaging = Some ''RunUAT.sh BuildCookRun -package'',
         co_deploy = None,
        co_healthCheck = None\<rparr>
       [''compile_empty_project'', ''cook_content'', ''package_build''] [''dependency_scan'',
         ''signing_verification''],
     new_adapter ''unity-engine'' ''Unity'' GameEngine [''2022 LTS'', ''6000 LTS'']
         (Some ''6000 LTS'')
       [OnWindows, OnMacos, OnLinux, OnAndroid, OnIos, OnWeb] [X86_64, Arm64]
       (''Unity Hub managed editor install'', True, [''Unity Hub'',
         ''platform build support modules''])
       (True, AuthLicenseKey, DisposableRunner)
       \<lparr>co_install = [''unityhub --headless install --version <version>''],
         co_build = Some ''Unity -batchmode -quit -executeMethod Builder.Build'',
         co_test = Some ''Unity -runTests -testPlatform PlayMode'',
        co_runtime = None, co_packaging = Some ''Unity -batchmode -buildTarget'',
         co_deploy = None,
        co_healthCheck = None\<rparr>
       [''compile_empty_project'', ''run_playmode_tests'', ''build_target'']
         [''dependency_scan'', ''signing_verification''],
     new_adapter ''godot-engine'' ''Godot'' GameEngine [''4.2'', ''4.3'', ''4.4'']
         (Some ''4.4'')
       [OnWindows, OnMacos, OnLinux, OnAndroid, OnIos, OnWeb] [X86_64, Arm64, Wasm]
       (''Godot headless editor binary download'', True, [''godot headless binary'',
         ''export templates''])
       (False, AuthNone, NotApplicable)
       \<lparr>co_install = [''curl -L godot headless binary'', ''download export templates''],
         co_build = Some ''godot --headless --export-release'',
         co_test = Some ''godot --headless --script res://tests/run_tests.gd'',
        co_runtime = Some ''godot --headless'',
         co_packaging = Some ''godot --headless --export-release'', co_deploy = None,
        co_healthCheck = None\<rparr>
       [''compile_empty_project'', ''run_headless_tests'', ''export_release'']
         [''dependency_scan'']]"

definition MOBILE_DESKTOP_TOOLCHAINS :: "adapter list" where
  "MOBILE_DESKTOP_TOOLCHAINS =
    [new_adapter ''flutter-sdk'' ''Flutter SDK'' MobileToolchain [''3.24'', ''3.27'']
         (Some ''3.27'')
       [OnAndroid, OnIos, OnWeb, OnWindows, OnMacos, OnLinux] [X86_64, Arm64]
       (''flutter channel stable + flutter precache'', True, [''Dart SDK'',
         ''Android SDK or Xcode for device targets''])
       (False, AuthNone, NotApplicable)
       \<lparr>co_install = [''flutter channel stable'', ''flutter precache''],
         co_build = Some ''flutter build apk | flutter build ios'', co_test = Some ''flutter test'',
        co_runtime = Some ''flutter run'', co_packaging = Some ''flutter build appbundle'',
         co_deploy = None,
        co_healthCheck = Some ''flutter doctor''\<rparr>
       [''flutter_doctor'', ''flutter_test'', ''flutter_build_apk''] [''dependency_scan'',
         ''pub_audit''],
     new_adapter ''xcode-apple-toolchain'' ''Xcode / Apple Developer Toolchain''
         MobileToolchain [''15'', ''16''] (Some ''16'')
       [OnMacos, OnIos] [Arm64, X86_64]
       (''Xcode.app via Apple Developer / App Store, macOS-only runner'', True,
         [''Xcode command line tools'', ''provisioning profiles''])
       (True, AuthServiceAccount, DisposableRunner)
       \<lparr>co_install = [''xcode-select --install''],
         co_build = Some ''xcodebuild -scheme <scheme> build'', co_test = Some
         (''xcodebuild test -destination 'platform=iOS Simulator'' @ [CHR 0x27]),
        co_runtime = Some ''xcrun simctl boot <device>'',
         co_packaging = Some ''xcodebuild -exportArchive'',
         co_deploy = Some ''xcrun altool --upload-app'',
        co_healthCheck = Some ''xcodebuild -version''\<rparr>
       [''xcodebuild_version'', ''simulator_boot'', ''archive_export'']
         [''code_signing_verification'', ''provisioning_profile_check''],
     new_adapter ''android-sdk-gradle'' ''Android SDK + Gradle'' MobileToolchain [''API 34'',
         ''API 35''] (Some ''API 35'')
       [OnAndroid, OnLinux, OnMacos, OnWindows] [X86_64, Arm64]
       (''sdkmanager managed Android SDK + Gradle wrapper'', True, [''Java 17+'',
         ''Android command line tools'', ''Gradle wrapper''])
       (False, AuthServiceAccount, DisposableRunner)
       \<lparr>co_install = [''sdkmanager --install 'platforms;android-35'' @ [CHR 0x27]],
         co_build = Some ''./gradlew assembleRelease'',
         co_test = Some ''./gradlew test connectedAndroidTest'',
        co_runtime = Some ''emulator -avd <device>'',
         co_packaging = Some ''./gradlew bundleRelease'', co_deploy = None,
        co_healthCheck = Some ''sdkmanager --list_installed''\<rparr>
       [''gradle_build'', ''emulator_boot'', ''bundle_release''] [''dependency_scan'',
         ''signing_verification''],
     new_adapter ''electron-desktop'' ''Electron'' DesktopToolchain [''30'', ''31'', ''32'']
         (Some ''32'')
       [OnWindows, OnMacos, OnLinux] [X86_64, Arm64]
       (''npm install electron electron-builder'', False, [''Node.js'', ''electron-builder''])
       (False, AuthNone, NotApplicable)
       \<lparr>co_install = [''npm ci''], co_build = Some ''npm run build'',
         co_test = Some ''npm test'',
        co_runtime = Some ''npm run start'', co_packaging = Some ''npm run electron:package'',
         co_deploy = None,
        co_healthCheck = None\<rparr>
       [''npm_build'', ''electron_launch'', ''installer_package''] [''dependency_scan'',
         ''electron_security_checklist''],
     new_adapter ''tauri-toolchain'' ''Tauri'' DesktopToolchain [''2.0'', ''2.1'']
         (Some ''2.1'')
       [OnWindows, OnMacos, OnLinux] [X86_64, Arm64]
       (''cargo install tauri-cli'', True, [''Rust toolchain'', ''platform WebView runtime''])
       (False, AuthNone, NotApplicable)
       \<lparr>co_install = [''rustup default stable''], co_build = Some ''npm run tauri build'',
         co_test = Some ''cargo test'',
        co_runtime = Some ''npm run tauri dev'', co_packaging = Some ''npm run tauri build'',
         co_deploy = None,
        co_healthCheck = None\<rparr>
       [''cargo_build'', ''tauri_dev_launch'', ''installer_package''] [''dependency_scan'',
         ''cargo_audit'']]"

definition CONTENT_TOOLS :: "adapter list" where
  "CONTENT_TOOLS =
    [new_adapter ''blender'' ''Blender'' ContentTool [''4.1'', ''4.2'', ''4.3''] (Some ''4.3'')
       [OnLinux, OnWindows, OnMacos] [X86_64, Arm64]
       (''Blender headless binary download'', True, [''Blender headless binary''])
       (False, AuthNone, NotApplicable)
       \<lparr>co_install = [''download blender headless binary''], co_build = None,
         co_test = Some ''blender --background --python tests/run_tests.py'',
        co_runtime = Some ''blender --background'',
         co_packaging = Some ''blender --background --python export_glb.py'', co_deploy = None,
        co_healthCheck = Some ''blender --version''\<rparr>
       [''blender_version'', ''headless_render'', ''glb_export''] [''dependency_scan'']]"

definition DATABASES :: "adapter list" where
  "DATABASES =
    [(new_adapter ''postgresql'' ''PostgreSQL'' DatabaseTech [''15'', ''16'', ''17'']
         (Some ''17'')
       [OnLinux, OnWindows, OnMacos] [X86_64, Arm64]
       (''managed Postgres provider or Docker image'', True, [''psql client'', ''drizzle-kit''])
       (True, AuthApiKey, ScopedSecret)
       \<lparr>co_install = [''docker run postgres:17-alpine''],
         co_build = Some ''drizzle-kit generate'', co_test = Some ''drizzle-kit check'',
        co_runtime = None, co_packaging = None, co_deploy = Some ''drizzle-kit push'',
        co_healthCheck = Some ''pg_isready''\<rparr>
       [''connection_check'', ''migration_apply'', ''migration_rollback''] [''tls_enforced'',
         ''least_privilege_role''])
       \<lparr>ad_state := Runnable, ad_evidence := [EvDiscovered \<mapsto> True, EvInstall \<mapsto>
         True, EvCompile \<mapsto> True, EvRuntime \<mapsto> True]\<rparr>,
     new_adapter ''mysql'' ''MySQL'' DatabaseTech [''8.0'', ''8.4''] (Some ''8.4'')
       [OnLinux, OnWindows, OnMacos] [X86_64, Arm64]
       (''managed MySQL provider or Docker image'', True, [''mysql client''])
       (True, AuthApiKey, ScopedSecret)
       \<lparr>co_install = [''docker run mysql:8.4''], co_build = None, co_test = None,
        co_runtime = None, co_packaging = None, co_deploy = None,
        co_healthCheck = Some ''mysqladmin ping''\<rparr>
       [''connection_check''] [''tls_enforced'', ''least_privilege_role''],
     new_adapter ''mongodb'' ''MongoDB'' DatabaseTech [''7.0'', ''8.0''] (Some ''8.0'')
       [OnLinux, OnWindows, OnMacos] [X86_64, Arm64]
       (''managed Atlas cluster or Docker image'', True, [''mongosh''])
       (True, AuthApiKey, ScopedSecret)
       \<lparr>co_install = [''docker run mongo:8.0''], co_build = None, co_test = None,
        co_runtime = None, co_packaging = None, co_deploy = None,
        co_healthCheck = Some ''mongosh --eval db.adminCommand('ping')''\<rparr>
       [''connection_check''] [''tls_enforced'', ''least_privilege_role'']]"

definition CLOUD_PLATFORMS :: "adapter list" where
  "CLOUD_PLATFORMS =
    [(new_adapter ''fly-io'' ''Fly.io'' CloudPlatform [''v2 machines API'']
         (Some ''v2 machines API'')
       [OnLinux] [X86_64, Arm64]
       (''flyctl CLI'', False, [''flyctl''])
       (True, AuthApiKey, ScopedSecret)
       \<lparr>co_install = [''curl -L https://fly.io/install.sh | sh''],
         co_build = Some ''flyctl deploy --build-only'', co_test = None,
        co_runtime = None, co_packaging = None, co_deploy = Some ''flyctl deploy'',
        co_healthCheck = Some ''flyctl status''\<rparr>
       [''flyctl_auth_check'', ''deploy_dry_run''] [''secrets_scoped_per_app''])
       \<lparr>ad_state := Deployable, ad_evidence := [EvDiscovered \<mapsto> True, EvInstall \<mapsto>
         True, EvCompile \<mapsto> True, EvRuntime \<mapsto> True, EvPackage \<mapsto> True,
         EvDeployment \<mapsto> True]\<rparr>,
     new_adapter ''vercel'' ''Vercel'' CloudPlatform [''v2 deployments API'']
         (Some ''v2 deployments API'')
       [OnLinux] [X86_64, Arm64]
       (''Vercel CLI / REST API'', False, [''vercel CLI''])
       (True, AuthApiKey, ScopedSecret)
       \<lparr>co_install = [''npm install -g vercel''], co_build = Some ''vercel build'',
         co_test = None,
        co_runtime = None, co_packaging = None, co_deploy = Some ''vercel deploy --prebuilt'',
        co_healthCheck = Some ''vercel inspect''\<rparr>
       [''vercel_auth_check'', ''deploy_dry_run''] [''secrets_scoped_per_project''],
     new_adapter ''aws'' ''Amazon Web Services'' CloudPlatform [''current''] (Some ''current'')
       [OnLinux] [X86_64, Arm64]
       (''AWS CLI v2 / SDK'', True, [''aws CLI'', ''IAM role''])
       (True, AuthServiceAccount, ScopedSecret)
       \<lparr>co_install = [''install aws CLI v2''], co_build = None, co_test = None,
        co_runtime = None, co_packaging = None, co_deploy = Some ''aws cloudformation deploy'',
        co_healthCheck = Some ''aws sts get-caller-identity''\<rparr>
       [''sts_identity_check''] [''least_privilege_iam'', ''secrets_manager_only'']]"

definition COMPILER_RUNTIMES :: "adapter list" where
  "COMPILER_RUNTIMES =
    [(new_adapter ''node-runtime'' ''Node.js'' CompilerRuntime [''20'', ''22''] (Some ''22'')
       [OnLinux, OnWindows, OnMacos] [X86_64, Arm64]
       (''preinstalled in build runners'', False, [''npm''])
       (False, AuthNone, NotApplicable)
       \<lparr>co_install = [''npm ci''], co_build = Some ''npm run build'',
         co_test = Some ''npm test'',
        co_runtime = Some ''npm run start'', co_packaging = None, co_deploy = None,
        co_healthCheck = Some ''node --version''\<rparr>
       [''npm_install'', ''npm_build'', ''npm_test'', ''npm_start''] [''npm_audit''])
       \<lparr>ad_state := Verified, ad_evidence := [EvDiscovered \<mapsto> True, EvInstall \<mapsto>
         True, EvCompile \<mapsto> True, EvRuntime \<mapsto> True, EvPackage \<mapsto> True,
         EvDeployment \<mapsto> True, EvTests \<mapsto> True, EvSecurity \<mapsto> True,
         EvBehavioral \<mapsto> True]\<rparr>,
     (new_adapter ''python-runtime'' ''Python'' CompilerRuntime [''3.11'', ''3.12'', ''3.13'']
         (Some ''3.13'')
       [OnLinux, OnWindows, OnMacos] [X86_64, Arm64]
       (''venv + pip'', True, [''pip'', ''venv''])
       (False, AuthNone, NotApplicable)
       \<lparr>co_install = [''python -m venv .venv'',
         ''.venv/bin/python -m pip install -r requirements.txt''],
         co_build = Some ''.venv/bin/python -m compileall app'',
         co_test = Some ''.venv/bin/python -m unittest discover -s tests -v'',
        co_runtime = Some ''.venv/bin/python -m app.main'', co_packaging = None, co_deploy = None,
        co_healthCheck = Some ''.venv/bin/python --version''\<rparr>
       [''python_detect'', ''pip_detect'', ''venv_create'', ''pip_install'', ''compileall'',
         ''fixture_run'', ''unittest_run'', ''service_health''] [''pip_audit''])
       \<lparr>ad_state := Runnable, ad_evidence := [EvDiscovered \<mapsto> True, EvInstall \<mapsto>
         True, EvCompile \<mapsto> True, EvRuntime \<mapsto> True, EvTests \<mapsto> True],
         ad_ledger := Some [''python-runtime:detection'', ''python-runtime:venv'',
         ''python-runtime:pip_install'', ''python-runtime:compile'',
         ''python-runtime:fixture_run'', ''python-runtime:unittest'',
         ''python-runtime:service_health''], ad_verifiedAt := Some (Stamp
         ''2026-10-02T00:00:00.000Z'' (Some 1790899200000))\<rparr>,
     new_adapter ''rust-toolchain'' ''Rust'' CompilerRuntime [''1.79'', ''1.82'']
         (Some ''1.82'')
       [OnLinux, OnWindows, OnMacos] [X86_64, Arm64]
       (''rustup'', True, [''rustup'', ''cargo''])
       (False, AuthNone, NotApplicable)
       \<lparr>co_install = [''rustup default stable''],
         co_build = Some ''cargo build --release'', co_test = Some ''cargo test'',
        co_runtime = Some ''cargo run'', co_packaging = None, co_deploy = None,
        co_healthCheck = Some ''rustc --version''\<rparr>
       [''cargo_build'', ''cargo_test''] [''cargo_audit'']]"

definition AI_PROVIDERS :: "adapter list" where
  "AI_PROVIDERS =
    [(new_adapter ''openai-provider'' ''OpenAI'' AiProvider [''v1 chat completions'']
         (Some ''v1 chat completions'')
       [OnLinux] [X86_64, Arm64]
       (''OPENAI_API_KEY environment credential'', False, [])
       (True, AuthApiKey, ScopedSecret)
       \<lparr>co_install = [], co_build = None, co_test = Some ''GET /v1/models'',
        co_runtime = Some ''POST /v1/chat/completions'', co_packaging = None, co_deploy = None,
        co_healthCheck = Some ''GET /v1/models''\<rparr>
       [''models_list'', ''chat_completion_roundtrip'', ''tool_call_roundtrip'']
         [''key_scoping'', ''prompt_injection_resistance''])
       \<lparr>ad_state := Structural, ad_evidence := [EvDiscovered \<mapsto> True, EvInstall \<mapsto>
         True, EvCompile \<mapsto> True]\<rparr>,
     (new_adapter ''anthropic-provider'' ''Anthropic'' AiProvider [''2023-06-01'']
         (Some ''2023-06-01'')
       [OnLinux] [X86_64, Arm64]
       (''ANTHROPIC_API_KEY environment credential'', False, [])
       (True, AuthApiKey, ScopedSecret)
       \<lparr>co_install = [], co_build = None, co_test = Some ''GET /v1/models'',
        co_runtime = Some ''POST /v1/messages'', co_packaging = None, co_deploy = None,
        co_healthCheck = Some ''GET /v1/models''\<rparr>
       [''models_list'', ''message_roundtrip'', ''tool_call_roundtrip''] [''key_scoping'',
         ''prompt_injection_resistance''])
       \<lparr>ad_state := Structural, ad_evidence := [EvDiscovered \<mapsto> True, EvInstall \<mapsto>
         True, EvCompile \<mapsto> True]\<rparr>,
     (new_adapter ''gemini-provider'' ''Google Gemini'' AiProvider
         [''v1beta openai-compatible''] (Some ''v1beta openai-compatible'')
       [OnLinux] [X86_64, Arm64]
       (''GEMINI_API_KEY environment credential'', False, [])
       (True, AuthApiKey, ScopedSecret)
       \<lparr>co_install = [], co_build = None, co_test = Some ''GET /v1beta/openai/models'',
        co_runtime = Some ''POST /v1beta/openai/chat/completions'', co_packaging = None,
         co_deploy = None,
        co_healthCheck = Some ''GET /v1beta/openai/models''\<rparr>
       [''models_list'', ''chat_completion_roundtrip''] [''key_scoping'',
         ''prompt_injection_resistance''])
       \<lparr>ad_state := Structural, ad_evidence := [EvDiscovered \<mapsto> True, EvInstall \<mapsto>
         True, EvCompile \<mapsto> True]\<rparr>]"

definition DEPLOYMENT_TARGETS :: "adapter list" where
  "DEPLOYMENT_TARGETS =
    [new_adapter ''apple-app-store'' ''Apple App Store'' DeploymentTarget
         [''App Store Connect API v1''] (Some ''App Store Connect API v1'')
       [OnIos, OnMacos] [Arm64]
       (''App Store Connect API key'', True, [''xcrun altool / notarytool''])
       (True, AuthServiceAccount, ScopedSecret)
       \<lparr>co_install = [], co_build = None, co_test = None,
        co_runtime = None, co_packaging = None, co_deploy = Some ''xcrun altool --upload-app'',
        co_healthCheck = None\<rparr>
       [''app_store_connect_auth_check''] [''code_signing_verification'', ''notarization_check''],
     new_adapter ''google-play'' ''Google Play Console'' DeploymentTarget
         [''Android Publisher API v3''] (Some ''Android Publisher API v3'')
       [OnAndroid] [Arm64]
       (''Google Play service account'', True, [''Play Developer API client''])
       (True, AuthServiceAccount, ScopedSecret)
       \<lparr>co_install = [], co_build = None, co_test = None,
        co_runtime = None, co_packaging = None,
         co_deploy = Some ''Play Developer API edits.tracks.update'',
        co_healthCheck = None\<rparr>
       [''play_console_auth_check''] [''signing_verification''],
     new_adapter ''chrome-web-store'' ''Chrome Web Store'' DeploymentTarget
         [''Chrome Web Store API v1.1''] (Some ''Chrome Web Store API v1.1'')
       [OnLinux] [X86_64]
       (''Chrome Web Store publish API credentials'', True, [''chrome-webstore-upload CLI''])
       (True, AuthOauth, ScopedSecret)
       \<lparr>co_install = [], co_build = None, co_test = None,
        co_runtime = None, co_packaging = None,
         co_deploy = Some ''chrome-webstore-upload upload --auto-publish'',
        co_healthCheck = None\<rparr>
       [''webstore_auth_check'', ''manifest_v3_validation''] [''permission_review'']]"

definition HARDWARE_TOOLCHAINS :: "adapter list" where
  "HARDWARE_TOOLCHAINS =
    [new_adapter ''arduino-toolchain'' ''Arduino'' HardwareToolchain [''arduino-cli 1.x'']
         (Some ''arduino-cli 1.x'')
       [OnEmbedded] [Arm]
       (''arduino-cli core install'', True, [''arduino-cli'', ''board core package''])
       (False, AuthNone, NotApplicable)
       \<lparr>co_install = [''arduino-cli core install <board-package>''],
         co_build = Some ''arduino-cli compile'', co_test = None,
        co_runtime = None, co_packaging = None, co_deploy = Some ''arduino-cli upload'',
        co_healthCheck = Some ''arduino-cli board list''\<rparr>
       [''compile_blink_sketch'', ''board_detection''] [''firmware_signing_where_supported''],
     new_adapter ''esp32-toolchain'' ''ESP32 / ESP-IDF'' HardwareToolchain [''5.2'', ''5.3'']
         (Some ''5.3'')
       [OnEmbedded] [Arm]
       (''ESP-IDF install script'', True, [''esp-idf'', ''idf.py''])
       (False, AuthNone, NotApplicable)
       \<lparr>co_install = [''./install.sh esp32''], co_build = Some ''idf.py build'',
         co_test = Some ''idf.py test'',
        co_runtime = None, co_packaging = None, co_deploy = Some ''idf.py flash'',
        co_healthCheck = Some ''idf.py --version''\<rparr>
       [''idf_build'', ''flash_dry_run''] [''secure_boot_check'']]"

section \<open>The registry\<close>

definition EXTERNAL_TECHNOLOGY_ADAPTERS :: "adapter list" where
  "EXTERNAL_TECHNOLOGY_ADAPTERS = GAME_ENGINES @ MOBILE_DESKTOP_TOOLCHAINS @ CONTENT_TOOLS @
     DATABASES @ CLOUD_PLATFORMS @ COMPILER_RUNTIMES @ AI_PROVIDERS @ DEPLOYMENT_TARGETS @
     HARDWARE_TOOLCHAINS"

definition getExternalTechnologyAdapter :: "string \<Rightarrow> adapter option" where
  "getExternalTechnologyAdapter ident =
     map_of (rev (map (\<lambda>a. (ad_id a, a)) EXTERNAL_TECHNOLOGY_ADAPTERS)) ident"

definition listAdaptersByCategory :: "adapter_category \<Rightarrow> adapter list" where
  "listAdaptersByCategory category = filter (\<lambda>a. ad_category a = category) EXTERNAL_TECHNOLOGY_ADAPTERS"

definition discoveryEvidence :: adapter_evidence where
  "discoveryEvidence = [EvDiscovered \<mapsto> True]"

section \<open>Facts about the registry\<close>

lemma registry_ids_distinct: "distinct (map ad_id EXTERNAL_TECHNOLOGY_ADAPTERS)"
  by code_simp

lemma lookup_iff:
  "getExternalTechnologyAdapter ident = Some a \<longleftrightarrow> a \<in> set EXTERNAL_TECHNOLOGY_ADAPTERS \<and> ad_id a = ident"
proof -
  have "distinct (map fst (rev (map (\<lambda>a. (ad_id a, a)) EXTERNAL_TECHNOLOGY_ADAPTERS)))"
    using registry_ids_distinct by (simp add: rev_map [symmetric] comp_def)
  then show ?thesis
    unfolding getExternalTechnologyAdapter_def by (auto simp: map_of_eq_Some_iff)
qed

lemma registry_justified: "\<forall>a \<in> set EXTERNAL_TECHNOLOGY_ADAPTERS. justified a"
  unfolding justified_def by code_simp

interpretation justified_adapter: guarded_system adapter_step justified
  by unfold_locales (rule step_keeps_justified)

lemma step_keeps_id: "adapter_step a b \<Longrightarrow> ad_id b = ad_id a"
  by (erule adapter_stepE)
    (auto simp: applyAdapterPromotion_def Let_def evaluate_promoted quarantineAdapter_def clearQuarantine_def)

interpretation same_adapter: guarded_system adapter_step "\<lambda>b. ad_id b = ident" for ident
  by unfold_locales (simp add: step_keeps_id)

text \<open>
  C21. Every adapter of the registry, and every adapter any sequence of promotions, quarantines and
  clearances makes of one, keeps its identity and claims only a state whose whole evidence it
  holds; and a lookup by that identity answers the registered adapter it came from.
\<close>

theorem claimed_states_stay_justified:
  assumes "a \<in> set EXTERNAL_TECHNOLOGY_ADAPTERS" "adapter_step\<^sup>*\<^sup>* a b"
  shows "(\<forall>flag \<in> set (EVIDENCE_REQUIRED_FOR_STATE (ad_state b)). ad_evidence b flag = Some True) \<and>
    getExternalTechnologyAdapter (ad_id b) = Some a"
  using justified_adapter.run_keeps [OF assms(2)] same_adapter.run_keeps [OF assms(2) refl] registry_justified assms(1)
  by (auto simp: lookup_iff justified_def)

definition blender :: adapter where "blender = hd CONTENT_TOOLS"

theorem claimed_states_stay_justified_witness:
  "ad_evidence (clearQuarantine (quarantineAdapter blender ''crash'')) EvDiscovered = Some True \<and>
   ad_state (clearQuarantine (quarantineAdapter blender ''crash'')) = Discovered \<and>
   getExternalTechnologyAdapter ''blender'' = Some blender"
proof -
  let ?b = "clearQuarantine (quarantineAdapter blender ''crash'')"
  have "blender \<in> set EXTERNAL_TECHNOLOGY_ADAPTERS"
    by (simp add: EXTERNAL_TECHNOLOGY_ADAPTERS_def blender_def CONTENT_TOOLS_def)
  moreover have "adapter_step\<^sup>*\<^sup>* blender ?b"
    by (meson adapter_step.quarantine adapter_step.clear r_into_rtranclp rtranclp.rtrancl_into_rtrancl)
  moreover have "ad_state ?b = Discovered" "ad_id ?b = ''blender''"
    by (simp_all add: clearQuarantine_def quarantineAdapter_def blender_def CONTENT_TOOLS_def
        new_adapter_def less_eq_capability_state_def)
  ultimately show ?thesis using claimed_states_stay_justified [of blender ?b] by simp
qed

end
