(* ===== verification/StackCertification.thy ===== *)
theory StackCertification
  imports StackRegistry AdapterRegistry
begin

text \<open>
  From a stack to a certificate: the dependency graph of a stack over the adapter registry
  (\<open>src/lib/stackDependencyResolver.ts\<close>) and the certification of a product on the evidence of its
  build (\<open>src/lib/certificationLogic.ts\<close>). Explanatory messages are not modelled. The patterns the
  source matches with regular expressions are searches for whole words; texts are ASCII.
\<close>

section \<open>The dependency graph\<close>

datatype dependency_status =
    Resolved | ResolvedDeprecated | MissingAdapter | VersionIncompatible | InsufficientCapability
  | Quarantined | RetiredBlocked

definition BLOCKING_STATUSES :: "dependency_status list" where
  "BLOCKING_STATUSES = [MissingAdapter, VersionIncompatible, InsufficientCapability, Quarantined,
     RetiredBlocked]"

record dependency_node =
  dn_adapter :: string
  dn_purpose :: string
  dn_constraint :: string
  dn_minimum :: capability_state
  dn_status :: dependency_status
  dn_version :: "string option"
  dn_state :: "capability_state option"
  dn_runner :: bool

record dependency_graph =
  dg_product :: product_type
  dg_stack :: string
  dg_nodes :: "dependency_node list"
  dg_allowed :: bool
  dg_eligible :: bool
  dg_ceiling :: capability_state

definition versionSatisfied :: "adapter \<Rightarrow> string \<Rightarrow> bool" where
  "versionSatisfied a constraint \<longleftrightarrow> constraint = ''any'' \<or> constraint \<in> set (ad_versions a)"

definition dependency_answer ::
    "stack_dependency \<Rightarrow> dependency_status \<Rightarrow> adapter option \<Rightarrow> bool \<Rightarrow> dependency_node" where
  "dependency_answer dep status found runner =
    \<lparr>dn_adapter = sd_adapter dep, dn_purpose = sd_purpose dep, dn_constraint = sd_version dep,
     dn_minimum = sd_minimum dep, dn_status = status,
     dn_version = Option.bind found ad_latest, dn_state = map_option ad_state found,
     dn_runner = runner\<rparr>"

definition resolveDependency ::
    "stack_dependency \<Rightarrow> (string \<Rightarrow> adapter option) \<Rightarrow> dependency_node" where
  "resolveDependency dep lookup =
    (case lookup (sd_adapter dep) of None \<Rightarrow> dependency_answer dep MissingAdapter None False
     | Some a \<Rightarrow>
        if ad_lifecycle a = Retired then dependency_answer dep RetiredBlocked (Some a) False
        else if is_quarantined a then dependency_answer dep Quarantined (Some a) False
        else if \<not> versionSatisfied a (sd_version dep) then
          dependency_answer dep VersionIncompatible (Some a) False
        else if \<not> isAtLeast (ad_state a) (sd_minimum dep) then
          dependency_answer dep InsufficientCapability (Some a) (isAtLeast (ad_state a) Buildable)
        else
          let runnerAvailable = isAtLeast (ad_state a) Buildable in
          if ad_lifecycle a = Deprecated then
            dependency_answer dep ResolvedDeprecated (Some a) runnerAvailable
          else dependency_answer dep Resolved (Some a) runnerAvailable)"

definition lower_ceiling :: "capability_state \<Rightarrow> dependency_node \<Rightarrow> capability_state" where
  "lower_ceiling ceiling node =
    (case dn_state node of None \<Rightarrow> Unsupported
     | Some s \<Rightarrow> if isAtLeast ceiling s then s else ceiling)"

definition resolve_graph :: "stack_adapter \<Rightarrow> product_type option \<Rightarrow> stack_dependency list \<Rightarrow>
    (string \<Rightarrow> adapter option) \<Rightarrow> dependency_graph" where
  "resolve_graph a productType declared lookup =
    (let nodes = map (\<lambda>dep. resolveDependency dep lookup) declared;
         allowed = list_all (\<lambda>n. dn_status n \<notin> set BLOCKING_STATUSES) nodes;
         productionEligible = (allowed \<and>
           list_all (\<lambda>n. dn_status n = Resolved \<and>
             (case dn_state n of None \<Rightarrow> False | Some s \<Rightarrow> isAtLeast s Verified)) nodes);
         ceiling = foldl lower_ceiling ProductionCertified nodes
     in \<lparr>dg_product = (case productType of Some t \<Rightarrow> t | None \<Rightarrow> hd (sa_productTypes a)),
         dg_stack = sa_id a, dg_nodes = nodes, dg_allowed = allowed,
         dg_eligible = productionEligible,
         dg_ceiling = (if allowed then ceiling else Unsupported)\<rparr>)"

definition resolveStackDependencyGraph :: "string \<Rightarrow> product_type option \<Rightarrow>
    stack_dependency list option \<Rightarrow> (string \<Rightarrow> adapter option) option \<Rightarrow>
    (stack_error, dependency_graph) result" where
  "resolveStackDependencyGraph stackId productType dependencies lookupAdapter =
     bind_result (getStackAdapter stackId) (\<lambda>a.
       Inr (resolve_graph a productType
         (case dependencies of Some ds \<Rightarrow> ds | None \<Rightarrow> externalDependenciesForStack (sa_id a))
         (case lookupAdapter of Some f \<Rightarrow> f | None \<Rightarrow> getExternalTechnologyAdapter)))"

record dependency_evidence =
  de_adapter :: string
  de_purpose :: string
  de_version :: "string option"
  de_state :: "capability_state option"
  de_status :: dependency_status

definition buildDependencyEvidence :: "dependency_graph \<Rightarrow> dependency_evidence list" where
  "buildDependencyEvidence g = map (\<lambda>n. \<lparr>de_adapter = dn_adapter n, de_purpose = dn_purpose n,
     de_version = dn_version n, de_state = dn_state n, de_status = dn_status n\<rparr>) (dg_nodes g)"

definition blockedDependencyNodes :: "dependency_graph \<Rightarrow> dependency_node list" where
  "blockedDependencyNodes g = filter (\<lambda>n. dn_status n \<in> set BLOCKING_STATUSES) (dg_nodes g)"

section \<open>The product and its evidence\<close>

datatype requirement_category =
    SecurityRequirement | OtherRequirement string

record certified_contract =
  cc_productType :: product_type
  cc_stack :: string
  cc_monetization :: "string list"
  cc_capabilities :: "string list"
  cc_security :: "string list"
  cc_functional :: "(requirement_category \<times> string) list"
  cc_roles :: "string list"

record certification_evidence =
  ce_artifact :: bool
  ce_files :: int
  ce_requirements :: bool
  ce_behavior :: bool
  ce_runtime :: bool
  ce_security :: bool
  ce_deployment :: bool
  ce_browser :: "bool option"
  ce_health :: "bool option"
  ce_monetization :: "bool option"
  ce_operations :: bool
  ce_recovery :: bool

datatype certification_requirement =
    NeedArtifact | NeedGeneration | NeedRequirements | NeedBehavior | NeedRuntime | NeedSecurity
  | NeedAuthLifecycle | NeedTenantIsolation | NeedDeployment | NeedBrowser | NeedHealth
  | NeedMonetization | NeedOperations | NeedRecovery | NeedAdapterDependencies

datatype certification_status =
    Structured | Generated | RunnableProduct | BehaviorallyVerified | DeploymentVerified
  | MonetizationVerified | ProductionCandidate | CertifiedForProduction

definition CERTIFICATION_STATUSES :: "certification_status list" where
  "CERTIFICATION_STATUSES = [Structured, Generated, RunnableProduct, BehaviorallyVerified,
     DeploymentVerified, MonetizationVerified, ProductionCandidate, CertifiedForProduction]"

datatype verification_mode = BrowserMode | HealthMode | NativeMode

record certification_decision =
  cd_status :: certification_status
  cd_certified :: bool
  cd_product :: product_type
  cd_stack :: string
  cd_mode :: verification_mode
  cd_monetization :: bool
  cd_missing :: "certification_requirement list"
  cd_graph :: dependency_graph

definition BROWSER_PRODUCT_TYPES :: "product_type list" where
  "BROWSER_PRODUCT_TYPES = [Website, SaasApplication, GameProduct, EcommerceProduct, DataProduct]"

section \<open>What a product asks for\<close>

definition word_char :: "char \<Rightarrow> bool" where
  "word_char c \<longleftrightarrow> is_alnum c \<or> c = CHR ''_''"

fun word_prefix :: "string list \<Rightarrow> string \<Rightarrow> bool" where
  \<comment> \<open>one of the words starts the text and ends at a word boundary\<close>
  "word_prefix [] s = False"
| "word_prefix (w # ws) s =
     ((starts_with w s \<and> (case drop (length w) s of [] \<Rightarrow> True | c # _ \<Rightarrow> \<not> word_char c)) \<or> word_prefix ws s)"

fun word_from :: "string list \<Rightarrow> bool \<Rightarrow> string \<Rightarrow> bool" where
  \<comment> \<open>the flag says that the preceding character belongs to a word\<close>
  "word_from ws inside [] = False"
| "word_from ws inside (c # cs) =
     ((\<not> inside \<and> word_prefix ws (c # cs)) \<or> word_from ws (word_char c) cs)"

definition mentions :: "string list \<Rightarrow> string \<Rightarrow> bool" where
  \<comment> \<open>the pattern \<open>/\b(w1|w2|...)\b/\<close> for words that begin and end with word characters\<close>
  "mentions ws s = word_from ws False s"

definition monetizationRequested :: "certified_contract \<Rightarrow> bool" where
  "monetizationRequested c \<longleftrightarrow> cc_monetization c \<noteq> [] \<or> ''billing'' \<in> set (cc_capabilities c)"

fun join_lines :: "string list \<Rightarrow> string" where
  "join_lines [] = []"
| "join_lines [x] = x"
| "join_lines (x # xs) = x @ CHR 0x0A # join_lines xs"

definition securityRequirementText :: "certified_contract \<Rightarrow> string" where
  "securityRequirementText c = js_lower (join_lines
     (cc_security c @ map snd (filter (\<lambda>r. fst r = SecurityRequirement) (cc_functional c))))"

definition authLifecycleRequested :: "certified_contract \<Rightarrow> bool" where
  "authLifecycleRequested c \<longleftrightarrow> ''authentication'' \<in> set (cc_capabilities c) \<or>
     mentions [''auth'', ''authentication'', ''login'', ''session'', ''oauth'', ''sso'', ''jwt'',
       ''access control''] (securityRequirementText c)"

definition tenantIsolationRequested :: "certified_contract \<Rightarrow> bool" where
  "tenantIsolationRequested c \<longleftrightarrow> ''teams'' \<in> set (cc_capabilities c) \<or> length (cc_roles c) > 1 \<or>
     mentions [''tenant'', ''organization'', ''organisation'', ''workspace'', ''ownership'',
       ''role-based'', ''role based'', ''rbac''] (securityRequirementText c)"

definition verificationModeFor :: "certified_contract \<Rightarrow> stack_adapter \<Rightarrow> verification_mode" where
  "verificationModeFor c a =
    (if sa_generation a = StackStructural then NativeMode
     else if sa_preview a = PreviewService then HealthMode
     else if cc_productType c \<in> set BROWSER_PRODUCT_TYPES then BrowserMode else HealthMode)"

section \<open>The decision\<close>

definition need :: "bool \<Rightarrow> certification_requirement \<Rightarrow> certification_requirement list" where
  "need b r = (if b then [r] else [])"

definition missingForProduction :: "certified_contract \<Rightarrow> stack_adapter \<Rightarrow>
    certification_evidence \<Rightarrow> dependency_graph \<Rightarrow> certification_requirement list" where
  "missingForProduction c a ev g =
    (let mode = verificationModeFor c a;
         missing = need (\<not> ce_artifact ev) NeedArtifact @
           need (ce_files ev \<le> 0) NeedGeneration @
           need (\<not> ce_requirements ev) NeedRequirements @
           need (\<not> ce_behavior ev) NeedBehavior @
           need (\<not> ce_runtime ev) NeedRuntime @
           need (\<not> ce_security ev) NeedSecurity @
           need (authLifecycleRequested c \<and> \<not> ce_security ev) NeedAuthLifecycle @
           need (tenantIsolationRequested c \<and> \<not> ce_security ev) NeedTenantIsolation @
           need (\<not> ce_deployment ev) NeedDeployment @
           need (mode = BrowserMode \<and> ce_browser ev \<noteq> Some True) NeedBrowser @
           need (mode = HealthMode \<and> ce_health ev \<noteq> Some True) NeedHealth @
           need (monetizationRequested c \<and> ce_monetization ev \<noteq> Some True) NeedMonetization @
           need (\<not> ce_operations ev) NeedOperations @
           need (\<not> ce_recovery ev) NeedRecovery;
         structural = (sa_generation a = StackStructural);
         runtime = missing @ need (structural \<and> NeedRuntime \<notin> set missing) NeedRuntime;
         deployment = runtime @ need (structural \<and> NeedDeployment \<notin> set runtime) NeedDeployment
     in deployment @ need (\<not> dg_eligible g) NeedAdapterDependencies)"

definition verified_status :: "certified_contract \<Rightarrow> stack_adapter \<Rightarrow> certification_evidence \<Rightarrow>
    certification_status" where
  \<comment> \<open>the successive assignments to \<open>status\<close> before the production checks\<close>
  "verified_status c a ev =
    (let mode = verificationModeFor c a;
         s1 = (if ce_artifact ev \<and> ce_files ev > 0 then Generated else Structured);
         s2 = (if sa_generation a = StackRunnable \<and> ce_runtime ev then RunnableProduct else s1);
         s3 = (if s2 = RunnableProduct \<and> ce_requirements ev \<and> ce_behavior ev
               then BehaviorallyVerified else s2);
         s4 = (if s3 = BehaviorallyVerified \<and> ce_deployment ev \<and>
                 (mode \<noteq> BrowserMode \<or> ce_browser ev = Some True) \<and>
                 (mode \<noteq> HealthMode \<or> ce_health ev = Some True)
               then DeploymentVerified else s3)
     in if s4 = DeploymentVerified \<and> monetizationRequested c \<and> ce_monetization ev = Some True
        then MonetizationVerified else s4)"

definition production_candidate :: "stack_adapter \<Rightarrow> certification_evidence \<Rightarrow> dependency_graph \<Rightarrow> bool" where
  "production_candidate a ev g \<longleftrightarrow> sa_generation a = StackRunnable \<and> ce_artifact ev \<and>
     ce_files ev > 0 \<and> ce_requirements ev \<and> ce_behavior ev \<and> ce_runtime ev \<and> ce_security ev \<and>
     ce_recovery ev \<and> dg_allowed g"

definition evaluateCertification :: "certified_contract \<Rightarrow> certification_evidence \<Rightarrow>
    dependency_graph option \<Rightarrow> (stack_error, certification_decision) result" where
  "evaluateCertification c ev graph =
     bind_result (getStackAdapter (cc_stack c)) (\<lambda>a.
     bind_result (case graph of Some g \<Rightarrow> Inr g
        | None \<Rightarrow> resolveStackDependencyGraph (cc_stack c) (Some (cc_productType c)) None None) (\<lambda>g.
       let missing = missingForProduction c a ev g;
           candidate = production_candidate a ev g;
           certified = (candidate \<and> missing = [])
       in Inr \<lparr>cd_status = (if certified then CertifiedForProduction
                 else if candidate then ProductionCandidate else verified_status c a ev),
            cd_certified = certified, cd_product = cc_productType c, cd_stack = sa_id a,
            cd_mode = verificationModeFor c a, cd_monetization = monetizationRequested c,
            cd_missing = missing, cd_graph = g\<rparr>))"

definition assertProductionCertified ::
    "certification_decision \<Rightarrow> (certification_requirement list, unit) result" where
  "assertProductionCertified d = (if \<not> cd_certified d then Inl (cd_missing d) else Inr ())"

section \<open>Evidence read from records\<close>

datatype json_value = JsonBool bool | JsonString string | JsonOther

record manifest_requirement =
  mr_priority :: "string option"
  mr_status :: "string option"
  mr_tests :: "nat option"
  mr_evidence :: "bool option list option"

text \<open>
  An array of unknown content is its length, \<open>None\<close> where the field is not an array; an evidence
  item is its \<open>passed\<close> flag. The outer option is \<open>None\<close> for a value that is not an object.
\<close>

definition requirement_proved :: "manifest_requirement \<Rightarrow> bool" where
  "requirement_proved r \<longleftrightarrow> mr_status r \<in> {Some ''validated'', Some ''deployed''} \<and>
     (case mr_tests r of None \<Rightarrow> False | Some n \<Rightarrow> n > 0) \<and>
     (case mr_evidence r of None \<Rightarrow> False | Some items \<Rightarrow> Some True \<in> set items)"

definition requirementBehaviorVerified ::
    "(nat option \<times> manifest_requirement list option) option \<Rightarrow> bool" where
  "requirementBehaviorVerified input =
    (case input of None \<Rightarrow> False
     | Some (unresolved, requirements) \<Rightarrow>
        (case unresolved of None \<Rightarrow> False | Some n \<Rightarrow> n = 0) \<and>
        (case requirements of None \<Rightarrow> False
         | Some rs \<Rightarrow> rs \<noteq> [] \<and>
            list_all requirement_proved (filter (\<lambda>r. mr_priority r = Some ''must'') rs)))"

record recorded_event =
  re_kind :: "string option"
  re_version :: "int option"
  re_payload :: "(string \<times> json_value) list option"

definition payload_has :: "(string \<times> json_value) list \<Rightarrow> string \<Rightarrow> bool" where
  "payload_has payload key \<longleftrightarrow> map_of payload key \<noteq> None"

definition monetization_event_verified :: "recorded_event \<Rightarrow> int \<Rightarrow> bool" where
  "monetization_event_verified e artifactVersion =
    (if re_kind e \<noteq> Some ''monetization'' \<or> re_version e \<noteq> Some artifactVersion then False
     else case re_payload e of None \<Rightarrow> False
     | Some payload \<Rightarrow>
        if map_of payload ''verified'' \<noteq> Some (JsonBool True) then False
        else if \<not> (payload_has payload ''configured'' \<or> payload_has payload ''providerVerified'' \<or>
                    payload_has payload ''state'') then True
        else map_of payload ''configured'' = Some (JsonBool True) \<and>
          map_of payload ''providerVerified'' = Some (JsonBool True) \<and>
          map_of payload ''state'' = Some (JsonString ''connected''))"

definition hasVerifiedMonetizationEvidence :: "recorded_event list \<Rightarrow> int \<Rightarrow> bool" where
  "hasVerifiedMonetizationEvidence events artifactVersion =
     list_ex (\<lambda>e. monetization_event_verified e artifactVersion) events"

section \<open>The graph reports the registry\<close>

text \<open>What a registry says of a dependency, read directly.\<close>

definition usable :: "(string \<Rightarrow> adapter option) \<Rightarrow> stack_dependency \<Rightarrow> bool" where
  "usable lookup dep = (case lookup (sd_adapter dep) of None \<Rightarrow> False
     | Some a \<Rightarrow> ad_lifecycle a \<noteq> Retired \<and> \<not> is_quarantined a \<and>
         versionSatisfied a (sd_version dep) \<and> sd_minimum dep \<le> ad_state a)"

definition trusted :: "(string \<Rightarrow> adapter option) \<Rightarrow> stack_dependency \<Rightarrow> bool" where
  "trusted lookup dep = (case lookup (sd_adapter dep) of None \<Rightarrow> False
     | Some a \<Rightarrow> usable lookup dep \<and> ad_lifecycle a = Active \<and> Verified \<le> ad_state a)"

lemma dependency_answer_sel [simp]:
  "dn_status (dependency_answer dep st found r) = st"
  "dn_state (dependency_answer dep st found r) = map_option ad_state found"
  "dn_adapter (dependency_answer dep st found r) = sd_adapter dep"
  by (simp_all add: dependency_answer_def)

lemma lifecycle_cases: "l \<noteq> Retired \<and> l \<noteq> Deprecated \<longleftrightarrow> l = Active"
  by (cases l) simp_all

lemma node_adapter [simp]: "dn_adapter (resolveDependency dep lookup) = sd_adapter dep"
  by (simp add: resolveDependency_def Let_def split: option.split)

lemma node_state [simp]:
  "dn_state (resolveDependency dep lookup) = map_option ad_state (lookup (sd_adapter dep))"
  by (simp add: resolveDependency_def Let_def split: option.split)

lemma node_usable: "dn_status (resolveDependency dep lookup) \<notin> set BLOCKING_STATUSES \<longleftrightarrow> usable lookup dep"
  by (simp add: resolveDependency_def usable_def BLOCKING_STATUSES_def Let_def split: option.split)

lemma node_resolved:
  "dn_status (resolveDependency dep lookup) = Resolved \<longleftrightarrow>
   usable lookup dep \<and> (\<exists>a. lookup (sd_adapter dep) = Some a \<and> ad_lifecycle a = Active)"
  using lifecycle_cases
  by (simp add: resolveDependency_def usable_def Let_def split: option.split) blast

lemma node_trusted:
  "dn_status (resolveDependency dep lookup) = Resolved \<and>
   (case dn_state (resolveDependency dep lookup) of None \<Rightarrow> False | Some s \<Rightarrow> isAtLeast s Verified) \<longleftrightarrow>
   trusted lookup dep"
  unfolding node_resolved by (auto simp: trusted_def split: option.split)

lemma trusted_usable: "trusted lookup dep \<Longrightarrow> usable lookup dep"
  by (simp add: trusted_def split: option.splits)

lemma allowed_iff: "dg_allowed (resolve_graph a t declared lookup) \<longleftrightarrow> (\<forall>dep \<in> set declared. usable lookup dep)"
  by (simp add: resolve_graph_def Let_def list_all_iff node_usable)

lemma eligible_iff: "dg_eligible (resolve_graph a t declared lookup) \<longleftrightarrow> (\<forall>dep \<in> set declared. trusted lookup dep)"
proof -
  have "dg_eligible (resolve_graph a t declared lookup) \<longleftrightarrow>
      (\<forall>dep \<in> set declared. usable lookup dep) \<and> (\<forall>dep \<in> set declared. trusted lookup dep)"
    by (simp add: resolve_graph_def Let_def list_all_iff node_usable node_trusted
        del: node_state isAtLeast_le)
  then show ?thesis using trusted_usable by blast
qed

lemma nodes_eq: "dg_nodes (resolve_graph a t declared lookup) = map (\<lambda>dep. resolveDependency dep lookup) declared"
  by (simp add: resolve_graph_def Let_def)

lemma Min_merge: "finite S \<Longrightarrow> Min (insert (min c s) S) = Min (insert c (insert s S))"
  for c s :: "'a :: linorder"
  by (cases "S = {}") (simp_all add: min.assoc)

lemma foldl_ceiling:
  "foldl lower_ceiling c nodes =
   Min (insert c ((\<lambda>n. case dn_state n of None \<Rightarrow> Unsupported | Some s \<Rightarrow> s) ` set nodes))"
proof (induction nodes arbitrary: c)
  case (Cons n ns)
  let ?s = "case dn_state n of None \<Rightarrow> Unsupported | Some s \<Rightarrow> s"
  have "lower_ceiling c n = min c ?s"
    using bot_least [of c] by (auto simp: lower_ceiling_def min_def bot_capability_state_def split: option.split)
  then show ?case
    unfolding foldl.simps Cons.IH by (simp only: Min_merge finite_imageI finite_set list.set image_insert)
qed simp

lemma ceiling_eq:
  assumes "\<forall>dep \<in> set declared. usable lookup dep"
  shows "dg_ceiling (resolve_graph a t declared lookup) =
    Min (insert ProductionCertified ((\<lambda>dep. ad_state (the (lookup (sd_adapter dep)))) ` set declared))"
proof -
  have "(case dn_state (resolveDependency dep lookup) of None \<Rightarrow> Unsupported | Some s \<Rightarrow> s) =
      ad_state (the (lookup (sd_adapter dep)))" if "dep \<in> set declared" for dep
    using assms that by (auto simp: usable_def split: option.splits)
  moreover have "dg_ceiling (resolve_graph a t declared lookup) =
      foldl lower_ceiling ProductionCertified (dg_nodes (resolve_graph a t declared lookup))"
    using assms allowed_iff [of a t declared lookup] by (simp add: resolve_graph_def Let_def)
  ultimately show ?thesis by (simp add: foldl_ceiling nodes_eq image_image)
qed

definition sample_dependency :: stack_dependency where
  "sample_dependency = \<lparr>sd_adapter = ''python-runtime'', sd_version = ''any'', sd_minimum = Runnable,
     sd_purpose = ''runtime''\<rparr>"



section \<open>Certificates are earned\<close>

lemma need_empty [simp]: "need b r = [] \<longleftrightarrow> \<not> b"
  by (simp add: need_def)

lemma mem_need [simp]: "x \<in> set (need b r) \<longleftrightarrow> b \<and> x = r"
  by (auto simp: need_def)

text \<open>The whole evidence a product of a stack needs.\<close>

definition fully_verified :: "certified_contract \<Rightarrow> stack_adapter \<Rightarrow> certification_evidence \<Rightarrow> bool" where
  "fully_verified c a ev \<longleftrightarrow> ce_artifact ev \<and> ce_files ev > 0 \<and> ce_requirements ev \<and>
     ce_behavior ev \<and> ce_runtime ev \<and> ce_security ev \<and> ce_deployment ev \<and> ce_operations ev \<and>
     ce_recovery ev \<and>
     (verificationModeFor c a = BrowserMode \<longrightarrow> ce_browser ev = Some True) \<and>
     (verificationModeFor c a = HealthMode \<longrightarrow> ce_health ev = Some True) \<and>
     (monetizationRequested c \<longrightarrow> ce_monetization ev = Some True)"

lemma nothing_missing:
  "missingForProduction c a ev g = [] \<longleftrightarrow>
   sa_generation a = StackRunnable \<and> fully_verified c a ev \<and> dg_eligible g"
  by (cases "sa_generation a") (auto simp: missingForProduction_def fully_verified_def Let_def)

lemma evaluated:
  assumes "evaluateCertification c ev graph = Inr d"
  obtains a g where "getStackAdapter (cc_stack c) = Inr a" "cd_stack d = sa_id a" "cd_graph d = g"
    "case graph of Some g' \<Rightarrow> g = g' | None \<Rightarrow>
       g = resolve_graph a (Some (cc_productType c)) (externalDependenciesForStack (sa_id a)) getExternalTechnologyAdapter"
    "cd_missing d = missingForProduction c a ev g"
    "cd_certified d \<longleftrightarrow> production_candidate a ev g \<and> missingForProduction c a ev g = []"
    "cd_status d = (if cd_certified d then CertifiedForProduction
       else if production_candidate a ev g then ProductionCandidate else verified_status c a ev)"
  using assms
  by (auto simp: evaluateCertification_def resolveStackDependencyGraph_def Let_def split: option.splits)

definition CERTIFIABLE_STACKS :: "string list" where
  "CERTIFIABLE_STACKS = [''react-node'', ''static-html'', ''next-node'', ''phaser-html5'',
     ''three-js-3d'', ''api-service'', ''node-service'', ''ai-agent-node'', ''browser-automation'',
     ''data-visualization'']"

lemma verified_adapters:
  "\<forall>a \<in> set EXTERNAL_TECHNOLOGY_ADAPTERS. Verified \<le> ad_state a \<longrightarrow> ad_id a = ''node-runtime''"
  by code_simp

lemma trusted_node: "trusted getExternalTechnologyAdapter dep \<Longrightarrow> sd_adapter dep = ''node-runtime''"
  using verified_adapters by (auto simp: trusted_def lookup_iff split: option.splits)

lemma node_only_table:
  "list_all (\<lambda>(i, mode). mode = StackRunnable \<and>
     list_all (\<lambda>dep. sd_adapter dep = ''node-runtime'') (externalDependenciesForStack i) \<longrightarrow>
     i \<in> set CERTIFIABLE_STACKS) (map (\<lambda>a. (sa_id a, sa_generation a)) STACK_ADAPTERS)"
  unfolding stack_modes by code_simp

lemma node_only_stacks:
  "\<forall>a \<in> set STACK_ADAPTERS. sa_generation a = StackRunnable \<and>
     list_all (\<lambda>dep. sd_adapter dep = ''node-runtime'') (externalDependenciesForStack (sa_id a)) \<longrightarrow>
     sa_id a \<in> set CERTIFIABLE_STACKS"
  using node_only_table by (simp add: list.pred_map list_all_iff [of _ STACK_ADAPTERS])

lemma certifiable_stacks:
  assumes "a \<in> set STACK_ADAPTERS" "sa_generation a = StackRunnable"
    "\<forall>dep \<in> set (externalDependenciesForStack (sa_id a)). trusted getExternalTechnologyAdapter dep"
  shows "sa_id a \<in> set CERTIFIABLE_STACKS"
  using node_only_stacks assms trusted_node by (simp add: list_all_iff)

text \<open>
  C19. A production certificate is earned: a product is certified exactly when its stack generates
  runnable code, every piece of evidence its kind asks for is verified, and every external
  dependency of the stack is active, not quarantined and verified in the registry; this is when
  nothing is reported missing. With today's registry only ten of the twenty stacks can be certified.
\<close>

theorem certification_is_earned:
  assumes "evaluateCertification c ev None = Inr d"
  shows "(cd_certified d \<longleftrightarrow> (\<exists>a. getStackAdapter (cc_stack c) = Inr a \<and>
      sa_generation a = StackRunnable \<and> fully_verified c a ev \<and>
      (\<forall>dep \<in> set (externalDependenciesForStack (sa_id a)). trusted getExternalTechnologyAdapter dep))) \<and>
    (cd_certified d \<longleftrightarrow> cd_missing d = []) \<and>
    (cd_certified d \<longleftrightarrow> assertProductionCertified d = Inr ()) \<and>
    (cd_certified d \<longleftrightarrow> cd_status d = CertifiedForProduction) \<and>
    (cd_certified d \<longrightarrow> cd_stack d \<in> set CERTIFIABLE_STACKS)"
proof -
  from assms obtain a g where found: "getStackAdapter (cc_stack c) = Inr a" "cd_stack d = sa_id a"
    and g: "g = resolve_graph a (Some (cc_productType c)) (externalDependenciesForStack (sa_id a)) getExternalTechnologyAdapter"
    and d: "cd_missing d = missingForProduction c a ev g"
      "cd_certified d \<longleftrightarrow> production_candidate a ev g \<and> missingForProduction c a ev g = []"
      "cd_status d = (if cd_certified d then CertifiedForProduction
         else if production_candidate a ev g then ProductionCandidate else verified_status c a ev)"
    by (elim evaluated) auto
  have "dg_eligible g \<Longrightarrow> dg_allowed g"
    by (auto simp: g allowed_iff eligible_iff trusted_usable)
  then have "missingForProduction c a ev g = [] \<Longrightarrow> production_candidate a ev g"
    by (auto simp: nothing_missing production_candidate_def fully_verified_def)
  then have missing: "cd_certified d \<longleftrightarrow> missingForProduction c a ev g = []" using d(2) by blast
  let ?deps = "externalDependenciesForStack (sa_id a)"
  have certified: "cd_certified d \<longleftrightarrow> sa_generation a = StackRunnable \<and> fully_verified c a ev \<and>
      (\<forall>dep \<in> set ?deps. trusted getExternalTechnologyAdapter dep)"
    unfolding missing nothing_missing g eligible_iff by (rule refl)
  have "cd_certified d \<longleftrightarrow> (\<exists>a. getStackAdapter (cc_stack c) = Inr a \<and>
      sa_generation a = StackRunnable \<and> fully_verified c a ev \<and>
      (\<forall>dep \<in> set (externalDependenciesForStack (sa_id a)). trusted getExternalTechnologyAdapter dep))"
    unfolding certified by (simp add: found(1))
  moreover have "cd_certified d \<longleftrightarrow> cd_missing d = []" unfolding missing d(1) by (rule refl)
  moreover have "cd_certified d \<longleftrightarrow> assertProductionCertified d = Inr ()"
    by (simp add: assertProductionCertified_def)
  moreover have "verified_status c a ev \<noteq> CertifiedForProduction"
    by (simp add: verified_status_def Let_def)
  then have "cd_certified d \<longleftrightarrow> cd_status d = CertifiedForProduction" unfolding d(3) by simp
  moreover have "a \<in> set STACK_ADAPTERS" using found(1) by (simp add: stack_found)
  then have "cd_certified d \<longrightarrow> cd_stack d \<in> set CERTIFIABLE_STACKS"
    using certifiable_stacks [of a] unfolding certified found(2) by blast
  ultimately show ?thesis by blast
qed

definition sample_contract :: certified_contract where
  "sample_contract = \<lparr>cc_productType = Website, cc_stack = ''React'', cc_monetization = [],
     cc_capabilities = [], cc_security = [''Users can login''], cc_functional = [], cc_roles = []\<rparr>"

definition sample_evidence :: certification_evidence where
  "sample_evidence = \<lparr>ce_artifact = True, ce_files = 12, ce_requirements = True, ce_behavior = True,
     ce_runtime = True, ce_security = True, ce_deployment = True, ce_browser = Some True,
     ce_health = None, ce_monetization = None, ce_operations = True, ce_recovery = True\<rparr>"

lemma sample_stack: "getStackAdapter (cc_stack sample_contract) = Inr stack_react_node"
  by (simp add: stack_found STACK_ADAPTERS_def sample_contract_def) code_simp

lemma evaluation_succeeds:
  "getStackAdapter (cc_stack c) = Inr a \<Longrightarrow> \<exists>d. evaluateCertification c ev graph = Inr d"
  by (cases graph) (simp_all add: evaluateCertification_def resolveStackDependencyGraph_def Let_def)

lemma node_runtime_trusted: "trusted getExternalTechnologyAdapter
    \<lparr>sd_adapter = ''node-runtime'', sd_version = ''any'', sd_minimum = Runnable, sd_purpose = ''runtime''\<rparr>"
  by code_simp

theorem certification_is_earned_witness:
  "\<exists>d. evaluateCertification sample_contract sample_evidence None = Inr d \<and> cd_certified d \<and> cd_missing d = []"
proof -
  obtain d where d: "evaluateCertification sample_contract sample_evidence None = Inr d"
    using evaluation_succeeds [OF sample_stack] by blast
  have "sa_id stack_react_node = ''react-node''" "sa_generation stack_react_node = StackRunnable"
    by (simp_all add: stack_react_node_def)
  moreover have "fully_verified sample_contract stack_react_node sample_evidence"
    by (simp add: fully_verified_def sample_evidence_def monetizationRequested_def sample_contract_def
        verificationModeFor_def stack_react_node_def BROWSER_PRODUCT_TYPES_def)
  moreover have "externalDependenciesForStack ''react-node'' =
      [\<lparr>sd_adapter = ''node-runtime'', sd_version = ''any'', sd_minimum = Runnable, sd_purpose = ''runtime''\<rparr>]"
    by (simp add: externalDependenciesForStack_def STACK_EXTERNAL_DEPENDENCIES_def map_of_Cons_code
        del: map_of.simps)
  ultimately show ?thesis
    using certification_is_earned [OF d] sample_stack node_runtime_trusted d by auto
qed

section \<open>More evidence never hurts\<close>

definition more_evidence :: "certification_evidence \<Rightarrow> certification_evidence \<Rightarrow> bool" where
  "more_evidence ev ev' \<longleftrightarrow> (ce_artifact ev \<longrightarrow> ce_artifact ev') \<and> ce_files ev \<le> ce_files ev' \<and>
     (ce_requirements ev \<longrightarrow> ce_requirements ev') \<and> (ce_behavior ev \<longrightarrow> ce_behavior ev') \<and>
     (ce_runtime ev \<longrightarrow> ce_runtime ev') \<and> (ce_security ev \<longrightarrow> ce_security ev') \<and>
     (ce_deployment ev \<longrightarrow> ce_deployment ev') \<and> (ce_operations ev \<longrightarrow> ce_operations ev') \<and>
     (ce_recovery ev \<longrightarrow> ce_recovery ev') \<and>
     (ce_browser ev = Some True \<longrightarrow> ce_browser ev' = Some True) \<and>
     (ce_health ev = Some True \<longrightarrow> ce_health ev' = Some True) \<and>
     (ce_monetization ev = Some True \<longrightarrow> ce_monetization ev' = Some True)"

definition certification_rank :: "certification_status \<Rightarrow> nat" where
  "certification_rank s = index_of s CERTIFICATION_STATUSES"

lemma certification_rank_simps [simp]:
  "certification_rank Structured = 0" "certification_rank Generated = 1"
  "certification_rank RunnableProduct = 2" "certification_rank BehaviorallyVerified = 3"
  "certification_rank DeploymentVerified = 4" "certification_rank MonetizationVerified = 5"
  "certification_rank ProductionCandidate = 6" "certification_rank CertifiedForProduction = 7"
  by (simp_all add: certification_rank_def CERTIFICATION_STATUSES_def)

definition reached :: "certified_contract \<Rightarrow> stack_adapter \<Rightarrow> certification_evidence \<Rightarrow> nat \<Rightarrow> bool" where
  \<comment> \<open>the condition under which each step of the ladder is taken\<close>
  "reached c a ev n =
    [True, ce_artifact ev \<and> ce_files ev > 0, sa_generation a = StackRunnable \<and> ce_runtime ev,
     ce_requirements ev \<and> ce_behavior ev,
     ce_deployment ev \<and>
       (verificationModeFor c a \<noteq> BrowserMode \<or> ce_browser ev = Some True) \<and>
       (verificationModeFor c a \<noteq> HealthMode \<or> ce_health ev = Some True),
     monetizationRequested c \<and> ce_monetization ev = Some True] ! n"

lemma verified_rank:
  "certification_rank (verified_status c a ev) =
    (if reached c a ev 2 then
       if reached c a ev 3 then if reached c a ev 4 then if reached c a ev 5 then 5 else 4 else 3 else 2
     else if reached c a ev 1 then 1 else 0)"
  by (simp add: verified_status_def reached_def Let_def)

lemma reached_simps:
  "reached c a ev 0" "reached c a ev 1 \<longleftrightarrow> ce_artifact ev \<and> ce_files ev > 0"
  "reached c a ev 2 \<longleftrightarrow> sa_generation a = StackRunnable \<and> ce_runtime ev"
  "reached c a ev 3 \<longleftrightarrow> ce_requirements ev \<and> ce_behavior ev"
  "reached c a ev 4 \<longleftrightarrow> ce_deployment ev \<and>
     (verificationModeFor c a \<noteq> BrowserMode \<or> ce_browser ev = Some True) \<and>
     (verificationModeFor c a \<noteq> HealthMode \<or> ce_health ev = Some True)"
  "reached c a ev 5 \<longleftrightarrow> monetizationRequested c \<and> ce_monetization ev = Some True"
  by (simp_all add: reached_def)

lemma reached_mono:
  assumes "more_evidence ev ev'"
  shows "reached c a ev 1 \<longrightarrow> reached c a ev' 1" "reached c a ev 2 \<longrightarrow> reached c a ev' 2"
    "reached c a ev 3 \<longrightarrow> reached c a ev' 3" "reached c a ev 4 \<longrightarrow> reached c a ev' 4"
    "reached c a ev 5 \<longrightarrow> reached c a ev' 5"
  unfolding reached_simps using assms by (auto simp: more_evidence_def)

lemma verified_rank_mono:
  assumes "more_evidence ev ev'"
  shows "certification_rank (verified_status c a ev) \<le> certification_rank (verified_status c a ev')"
  unfolding verified_rank using reached_mono [OF assms, of c a] by simp

lemma verified_rank_bound: "certification_rank (verified_status c a ev) < 6"
  by (simp add: verified_rank)

lemma candidate_mono: "more_evidence ev ev' \<Longrightarrow> production_candidate a ev g \<Longrightarrow> production_candidate a ev' g"
  by (auto simp: more_evidence_def production_candidate_def)

fun needed :: "certified_contract \<Rightarrow> stack_adapter \<Rightarrow> certification_evidence \<Rightarrow> dependency_graph \<Rightarrow>
    certification_requirement \<Rightarrow> bool" where
  "needed c a ev g NeedArtifact = (\<not> ce_artifact ev)"
| "needed c a ev g NeedGeneration = (ce_files ev \<le> 0)"
| "needed c a ev g NeedRequirements = (\<not> ce_requirements ev)"
| "needed c a ev g NeedBehavior = (\<not> ce_behavior ev)"
| "needed c a ev g NeedRuntime = (\<not> ce_runtime ev \<or> sa_generation a = StackStructural)"
| "needed c a ev g NeedSecurity = (\<not> ce_security ev)"
| "needed c a ev g NeedAuthLifecycle = (authLifecycleRequested c \<and> \<not> ce_security ev)"
| "needed c a ev g NeedTenantIsolation = (tenantIsolationRequested c \<and> \<not> ce_security ev)"
| "needed c a ev g NeedDeployment = (\<not> ce_deployment ev \<or> sa_generation a = StackStructural)"
| "needed c a ev g NeedBrowser = (verificationModeFor c a = BrowserMode \<and> ce_browser ev \<noteq> Some True)"
| "needed c a ev g NeedHealth = (verificationModeFor c a = HealthMode \<and> ce_health ev \<noteq> Some True)"
| "needed c a ev g NeedMonetization = (monetizationRequested c \<and> ce_monetization ev \<noteq> Some True)"
| "needed c a ev g NeedOperations = (\<not> ce_operations ev)"
| "needed c a ev g NeedRecovery = (\<not> ce_recovery ev)"
| "needed c a ev g NeedAdapterDependencies = (\<not> dg_eligible g)"

lemma missing_iff: "r \<in> set (missingForProduction c a ev g) \<longleftrightarrow> needed c a ev g r"
  by (cases r) (simp_all add: missingForProduction_def Let_def)

lemma needed_mono: "more_evidence ev ev' \<Longrightarrow> needed c a ev' g r \<Longrightarrow> needed c a ev g r"
  by (cases r) (auto simp: more_evidence_def)

lemma missing_mono:
  "more_evidence ev ev' \<Longrightarrow> set (missingForProduction c a ev' g) \<subseteq> set (missingForProduction c a ev g)"
  using needed_mono by (auto simp: missing_iff)

text \<open>
  More evidence never hurts: when a product is evaluated again with every verified item still
  verified and no fewer files, its status does not fall on the scale of statuses, nothing new is
  missing, and a certificate is kept.
\<close>

theorem certification_monotone:
  assumes "more_evidence ev ev'" "evaluateCertification c ev graph = Inr d"
    "evaluateCertification c ev' graph = Inr d'"
  shows "certification_rank (cd_status d) \<le> certification_rank (cd_status d') \<and>
    set (cd_missing d') \<subseteq> set (cd_missing d) \<and> (cd_certified d \<longrightarrow> cd_certified d') \<and>
    cd_stack d' = cd_stack d \<and> cd_graph d' = cd_graph d"
proof -
  from assms(2,3) obtain a g where
    d: "cd_missing d = missingForProduction c a ev g"
       "cd_certified d \<longleftrightarrow> production_candidate a ev g \<and> missingForProduction c a ev g = []"
       "cd_status d = (if cd_certified d then CertifiedForProduction
         else if production_candidate a ev g then ProductionCandidate else verified_status c a ev)"
    and d': "cd_missing d' = missingForProduction c a ev' g"
       "cd_certified d' \<longleftrightarrow> production_candidate a ev' g \<and> missingForProduction c a ev' g = []"
       "cd_status d' = (if cd_certified d' then CertifiedForProduction
         else if production_candidate a ev' g then ProductionCandidate else verified_status c a ev')"
    and same: "cd_stack d' = cd_stack d" "cd_graph d' = cd_graph d"
    by (elim evaluated) (cases graph; auto)
  have missing: "set (cd_missing d') \<subseteq> set (cd_missing d)"
    unfolding d d' by (rule missing_mono [OF assms(1)])
  moreover from missing have "cd_certified d \<longrightarrow> cd_certified d'"
    unfolding d(2) d'(2) d(1) d'(1) using candidate_mono [OF assms(1)] by auto
  moreover have "certification_rank (cd_status d) \<le> certification_rank (cd_status d')"
    using calculation(2) candidate_mono [OF assms(1), of a g] verified_rank_mono [OF assms(1), of c a]
      verified_rank_bound [of c a ev] unfolding d(3) d'(3) by auto
  ultimately show ?thesis using same by blast
qed

theorem certification_monotone_witness:
  "\<exists>d d'. evaluateCertification sample_contract (sample_evidence\<lparr>ce_files := 1, ce_recovery := False\<rparr>) None = Inr d \<and>
     evaluateCertification sample_contract sample_evidence None = Inr d' \<and>
     certification_rank (cd_status d) \<le> certification_rank (cd_status d')"
proof -
  let ?less = "sample_evidence\<lparr>ce_files := 1, ce_recovery := False\<rparr>"
  obtain d d' where d: "evaluateCertification sample_contract ?less None = Inr d"
      "evaluateCertification sample_contract sample_evidence None = Inr d'"
    using evaluation_succeeds [OF sample_stack] by blast
  moreover have "more_evidence ?less sample_evidence"
    by (simp add: more_evidence_def sample_evidence_def)
  ultimately show ?thesis using certification_monotone [of ?less sample_evidence] by blast
qed

end
