(* ===== verification/Artifacts.thy ===== *)
theory Artifacts
  imports Prelude "HOL-Library.List_Lexorder"
begin

text \<open>
  Generated artifacts and their integrity (\<open>src/lib/artifactIntegrity.ts\<close>): which file paths a
  generated product may contain, the limits of an artifact, its integrity record and the check of
  files against a record. A JavaScript string is the list of the bytes of its UTF-8 encoding, so
  that its byte length is its length and \<open>sha256\<close>, a parameter, is a function of bytes; an object
  with string keys is an association list in key order. The type test on file contents is not
  modelled: contents are texts.
\<close>

section \<open>Paths\<close>

fun split_slash :: "string \<Rightarrow> string list" where
  "split_slash [] = [[]]"
| "split_slash (c # s) =
     (if c = CHR ''/'' then [] # split_slash s
      else (c # hd (split_slash s)) # tl (split_slash s))"

fun join_slash :: "string list \<Rightarrow> string" where
  "join_slash [] = []"
| "join_slash [s] = s"
| "join_slash (s # ss) = s @ CHR ''/'' # join_slash ss"

definition normal_step :: "string list \<Rightarrow> string \<Rightarrow> string list" where
  "normal_step acc s =
    (if s = [] \<or> s = ''.'' then acc
     else if s = ''..'' then (if acc = [] \<or> last acc = ''..'' then acc @ [s] else butlast acc)
     else acc @ [s])"

definition normal_segments :: "string \<Rightarrow> string list" where
  "normal_segments path = foldl normal_step [] (split_slash path)"

definition posix_normalize :: "string \<Rightarrow> string" where
  \<comment> \<open>\<open>posix.normalize\<close> of Node.js on relative paths\<close>
  "posix_normalize path =
    (let body = join_slash (normal_segments path);
         trailing = (path \<noteq> [] \<and> last path = CHR ''/'')
     in if body = [] then (if trailing then ''./'' else ''.'')
        else if trailing then body @ ''/'' else body)"

definition drop_dot_slash :: "string \<Rightarrow> string" where
  "drop_dot_slash path = (case strip_prefix ''./'' path of Some rest \<Rightarrow> rest | None \<Rightarrow> path)"

definition drive_path :: "string \<Rightarrow> bool" where
  "drive_path path = (case path of c # d # s # _ \<Rightarrow>
     (is_lower c \<or> is_upper c) \<and> d = CHR '':'' \<and> s = CHR ''/'' | _ \<Rightarrow> False)"

fun contains :: "string \<Rightarrow> string \<Rightarrow> bool" where
  "contains needle [] = (needle = [])"
| "contains needle (c # s) = (starts_with needle (c # s) \<or> contains needle s)"

definition APPFORGE_SOURCE_PATHS :: "string list" where
  "APPFORGE_SOURCE_PATHS = [''src/agents/selfHealing.ts'', ''src/services/productionAutoDeploy.ts'',
     ''src/services/deployer.ts'', ''src/lib/artifactIntegrity.ts'', ''src/routers/projects.ts'',
     ''src/routes/hostedApps.ts'', ''src/routes/livePreview.ts'', ''src/db/schema.ts'', ''src/db.ts'',
     ''src/agents/pipeline.generated.ts'', ''src/services/build-worker.ts'', ''src/db/ensureSchema.ts'',
     ''scripts/assemble-pipeline.mjs'', ''.codex/coordination/project.yaml'', ''.sdlc/project.yaml'']"

definition APPFORGE_SOURCE_PREFIXES :: "string list" where
  "APPFORGE_SOURCE_PREFIXES = [''src/_core/'', ''src/agents/.pipeline_parts/'',
     ''.codex/coordination/'', ''.sdlc/runs/'']"

datatype artifact_error =
    InvalidPath string | AbsolutePath string | PathEscapes string | AppForgeSource string
  | EmptyArtifact | TooManyFiles | DuplicatePath string | FileTooLarge string | ArtifactTooLarge
  | BadProjectId | BadArtifactVersion | IntegrityMissing | IntegrityForeign | StateMismatch
  | IntegrityFailed | BadFileVersion

definition byteLength :: "string \<Rightarrow> int" where "byteLength content = int (length content)"

definition safeArtifactPath :: "string \<Rightarrow> (artifact_error, string) result" where
  "safeArtifactPath path =
    (if path = [] \<or> CHR 0x00 \<in> set path \<or> CHR 0x5C \<in> set path then Inl (InvalidPath path)
     else if starts_with ''/'' path \<or> drive_path path then Inl (AbsolutePath path)
     else
       let normalized = posix_normalize path in
       if normalized = ''..'' \<or> starts_with ''../'' normalized \<or> contains ''/../'' normalized \<or>
          normalized \<noteq> drop_dot_slash path
       then Inl (PathEscapes path)
       else if normalized \<in> set APPFORGE_SOURCE_PATHS \<or>
          list_ex (\<lambda>prefix. starts_with prefix normalized) APPFORGE_SOURCE_PREFIXES
       then Inl (AppForgeSource normalized)
       else Inr normalized)"

section \<open>Files\<close>

type_synonym artifact_files = "(string \<times> string) list"

definition MAX_ARTIFACT_FILES :: int where "MAX_ARTIFACT_FILES = 1000"
definition MAX_ARTIFACT_TOTAL_BYTES :: int where "MAX_ARTIFACT_TOTAL_BYTES = 10 * 1024 * 1024"
definition MAX_ARTIFACT_FILE_BYTES :: int where "MAX_ARTIFACT_FILE_BYTES = 1024 * 1024"

definition OBJECT_PROTOTYPE_KEYS :: "string list" where
  \<comment> \<open>the names the \<open>in\<close> operator finds in every object\<close>
  "OBJECT_PROTOTYPE_KEYS = [''constructor'', ''__defineGetter__'', ''__defineSetter__'',
     ''hasOwnProperty'', ''__lookupGetter__'', ''__lookupSetter__'', ''isPrototypeOf'',
     ''propertyIsEnumerable'', ''toString'', ''valueOf'', ''__proto__'', ''toLocaleString'']"

fun validate_entries :: "artifact_files \<Rightarrow> artifact_files \<Rightarrow> int \<Rightarrow> (artifact_error, artifact_files) result" where
  "validate_entries [] out used = Inr out"
| "validate_entries ((rawPath, content) # es) out used =
     bind_result (safeArtifactPath rawPath) (\<lambda>path.
       if path \<in> fst ` set out \<or> path \<in> set OBJECT_PROTOTYPE_KEYS then Inl (DuplicatePath path)
       else if byteLength content > MAX_ARTIFACT_FILE_BYTES then Inl (FileTooLarge path)
       else if used + byteLength content > MAX_ARTIFACT_TOTAL_BYTES then Inl ArtifactTooLarge
       else validate_entries es (out @ [(path, content)]) (used + byteLength content))"

definition validateArtifactFiles :: "artifact_files \<Rightarrow> (artifact_error, artifact_files) result" where
  "validateArtifactFiles input =
    (if input = [] then Inl EmptyArtifact
     else if int (length input) > MAX_ARTIFACT_FILES then Inl TooManyFiles
     else validate_entries input [] 0)"

section \<open>Integrity records\<close>

datatype artifact_state = WorkingArtifact | FinalArtifact

record file_integrity =
  fi_path :: string
  fi_sha :: string
  fi_bytes :: int
  fi_version :: "int option"

record artifact_integrity =
  ai_project :: int
  ai_version :: int
  ai_state :: artifact_state
  ai_fileCount :: int
  ai_totalBytes :: int
  ai_sha :: string
  ai_files :: "file_integrity list"

definition fileSha :: "(string \<Rightarrow> string) \<Rightarrow> string \<Rightarrow> string \<Rightarrow> string" where
  "fileSha sha256 path content = sha256 (path @ CHR 0x00 # content)"

definition next_file_version :: "artifact_integrity option \<Rightarrow> string \<Rightarrow> string \<Rightarrow> int" where
  "next_file_version previousIntegrity path sha =
    (case Option.bind previousIntegrity (\<lambda>i.
        map_of (rev (map (\<lambda>e. (fi_path e, e)) (ai_files i))) path) of
       None \<Rightarrow> max 1 (0 + 1)
     | Some previous \<Rightarrow>
        let previousVersion = (case fi_version previous of Some v \<Rightarrow> v
              | None \<Rightarrow> ai_version (the previousIntegrity))
        in if fi_sha previous = sha then max 1 previousVersion else max 1 (previousVersion + 1))"

definition file_entry :: "(string \<Rightarrow> string) \<Rightarrow> artifact_integrity option \<Rightarrow> artifact_files \<Rightarrow> string \<Rightarrow> file_integrity" where
  "file_entry sha256 previousIntegrity files path =
    (let content = the (map_of files path); sha = fileSha sha256 path content
     in \<lparr>fi_path = path, fi_sha = sha, fi_bytes = byteLength content,
         fi_version = Some (next_file_version previousIntegrity path sha)\<rparr>)"

definition entry_line :: "bool \<Rightarrow> file_integrity \<Rightarrow> string" where
  "entry_line versioned e = fi_path e @ CHR 0x00 # fi_sha e @ CHR 0x00 # show_int (fi_bytes e) @ [CHR 0x00] @
     (if versioned then show_int (the (fi_version e)) @ [CHR 0x00] else [])"

definition buildArtifactIntegrity :: "(string \<Rightarrow> string) \<Rightarrow> int \<Rightarrow> int \<Rightarrow> artifact_state \<Rightarrow> artifact_files \<Rightarrow>
    artifact_integrity option \<Rightarrow> (artifact_error, artifact_integrity) result" where
  "buildArtifactIntegrity sha256 projectId artifactVersion state input previousIntegrity =
    (if projectId \<le> 0 then Inl BadProjectId
     else if artifactVersion \<le> 0 then Inl BadArtifactVersion
     else bind_result (validateArtifactFiles input) (\<lambda>files.
       let entries = map (file_entry sha256 previousIntegrity files) (sort (map fst files))
       in Inr \<lparr>ai_project = projectId, ai_version = artifactVersion, ai_state = state,
            ai_fileCount = int (length entries), ai_totalBytes = sum_list (map fi_bytes entries),
            ai_sha = sha256 (concat (map (entry_line True) entries)), ai_files = entries\<rparr>))"

definition entry_matches :: "(string \<Rightarrow> string) \<Rightarrow> artifact_files \<Rightarrow> string \<Rightarrow> file_integrity \<Rightarrow> bool" where
  "entry_matches sha256 files path e \<longleftrightarrow>
    (case map_of files path of None \<Rightarrow> False
     | Some content \<Rightarrow> fi_path e = path \<and> fi_sha e = fileSha sha256 path content \<and> fi_bytes e = byteLength content)"

fun check_entries :: "(string \<Rightarrow> string) \<Rightarrow> artifact_files \<Rightarrow> string list \<Rightarrow> file_integrity list \<Rightarrow> (artifact_error, unit) result" where
  "check_entries sha256 files (p # ps) (e # es) =
    (if \<not> entry_matches sha256 files p e then Inl IntegrityFailed
     else if (case fi_version e of None \<Rightarrow> False | Some v \<Rightarrow> v \<le> 0) then Inl BadFileVersion
     else check_entries sha256 files ps es)"
| "check_entries sha256 files _ _ = Inr ()"

definition assertArtifactIntegrity :: "(string \<Rightarrow> string) \<Rightarrow> artifact_files \<Rightarrow> artifact_integrity option \<Rightarrow>
    int \<Rightarrow> int \<Rightarrow> artifact_state option \<Rightarrow> (artifact_error, artifact_integrity) result" where
  "assertArtifactIntegrity sha256 input integrity projectId artifactVersion requiredState =
    (case integrity of None \<Rightarrow> Inl IntegrityMissing
     | Some i \<Rightarrow>
       if ai_project i \<noteq> projectId \<or> ai_version i \<noteq> artifactVersion then Inl IntegrityForeign
       else if (case requiredState of None \<Rightarrow> False | Some s \<Rightarrow> ai_state i \<noteq> s) then Inl StateMismatch
       else bind_result (validateArtifactFiles input) (\<lambda>files.
         let expectedPaths = sort (map fst files);
             persisted = sort_key fi_path (ai_files i)
         in if ai_fileCount i \<noteq> int (length expectedPaths) \<or> length persisted \<noteq> length expectedPaths
            then Inl IntegrityFailed
            else bind_result (check_entries sha256 files expectedPaths persisted) (\<lambda>_.
              if ai_totalBytes i \<noteq> sum_list (map fi_bytes persisted) then Inl IntegrityFailed
              else
                let versioned = list_all (\<lambda>e. fi_version e \<noteq> None) persisted
                in if sha256 (concat (map (entry_line versioned) persisted)) \<noteq> ai_sha i
                   then Inl IntegrityFailed else Inr i)))"

section \<open>Safe paths stay inside the project\<close>

lemma split_slash_nonempty [simp]: "split_slash s \<noteq> []"
  by (cases s) simp_all

lemma split_slash_no_slash: "seg \<in> set (split_slash s) \<Longrightarrow> CHR ''/'' \<notin> set seg"
proof (induction s arbitrary: seg)
  case (Cons c s)
  then show ?case
    by (cases "split_slash s") (auto split: if_splits)
qed simp

lemma split_slash_plain: "CHR ''/'' \<notin> set s \<Longrightarrow> split_slash s = [s]"
  by (induction s) auto

lemma split_slash_append:
  "CHR ''/'' \<notin> set s \<Longrightarrow> split_slash (s @ CHR ''/'' # t) = s # split_slash t"
  by (induction s) auto

lemma split_join: "segs \<noteq> [] \<Longrightarrow> (\<And>s. s \<in> set segs \<Longrightarrow> CHR ''/'' \<notin> set s) \<Longrightarrow> split_slash (join_slash segs) = segs"
  by (induction segs rule: join_slash.induct) (auto simp: split_slash_plain split_slash_append)

lemma split_trailing: "split_slash (s @ ''/'') = split_slash s @ [[]]"
  by (induction s) auto

text \<open>Normalized segments: parent steps only in front, then proper names.\<close>

definition climbing :: "string list \<Rightarrow> bool" where
  "climbing segs \<longleftrightarrow> (\<exists>k names. segs = replicate k ''..'' @ names \<and>
     (\<forall>n \<in> set names. n \<noteq> [] \<and> n \<noteq> ''.'' \<and> n \<noteq> ''..'' \<and> CHR ''/'' \<notin> set n))"

lemma climbing_step:
  assumes "climbing acc" "CHR ''/'' \<notin> set s"
  shows "climbing (normal_step acc s)"
proof -
  obtain k names where acc: "acc = replicate k ''..'' @ names"
    and names: "\<forall>n \<in> set names. n \<noteq> [] \<and> n \<noteq> ''.'' \<and> n \<noteq> ''..'' \<and> CHR ''/'' \<notin> set n"
    using assms(1) by (auto simp: climbing_def)
  consider "s = [] \<or> s = ''.''" | "s = ''..''" "names = []" | "s = ''..''" "names \<noteq> []"
    | "s \<noteq> []" "s \<noteq> ''.''" "s \<noteq> ''..''" by blast
  then show ?thesis
  proof cases
    case 1 then show ?thesis using assms(1) by (auto simp: normal_step_def)
  next
    case 2
    then have "normal_step acc s = replicate (Suc k) ''..'' @ []"
      by (cases k) (simp_all add: normal_step_def acc replicate_append_same)
    then show ?thesis unfolding climbing_def by (metis empty_iff list.set(1))
  next
    case 3
    then have "last acc \<noteq> ''..''" using names by (simp add: acc)
    with 3 have "normal_step acc s = replicate k ''..'' @ butlast names"
      by (simp add: normal_step_def acc butlast_append)
    then show ?thesis unfolding climbing_def using names by (meson in_set_butlastD)
  next
    case 4
    then have "normal_step acc s = replicate k ''..'' @ (names @ [s])"
      by (simp add: normal_step_def acc)
    moreover have "\<forall>n \<in> set (names @ [s]). n \<noteq> [] \<and> n \<noteq> ''.'' \<and> n \<noteq> ''..'' \<and> CHR ''/'' \<notin> set n"
      using names 4 assms(2) by simp
    ultimately show ?thesis unfolding climbing_def by blast
  qed
qed

lemma climbing_foldl:
  "climbing acc \<Longrightarrow> (\<And>s. s \<in> set segs \<Longrightarrow> CHR ''/'' \<notin> set s) \<Longrightarrow> climbing (foldl normal_step acc segs)"
  by (induction segs arbitrary: acc) (auto intro: climbing_step)

lemma climbing_normal: "climbing (normal_segments path)"
  unfolding normal_segments_def
  by (rule climbing_foldl) (auto simp: climbing_def split_slash_no_slash intro: exI [of _ 0])

definition inside_project :: "string \<Rightarrow> bool" where
  "inside_project q \<longleftrightarrow> \<not> starts_with ''/'' q \<and> ''..'' \<notin> set (split_slash q) \<and>
     CHR 0x00 \<notin> set q \<and> CHR 0x5C \<notin> set q \<and> q \<notin> set APPFORGE_SOURCE_PATHS \<and>
     (\<forall>prefix \<in> set APPFORGE_SOURCE_PREFIXES. \<not> starts_with prefix q)"

lemma join_climb: "join_slash (''..'' # segs) = ''..'' \<or> starts_with ''../'' (join_slash (''..'' # segs))"
  by (cases segs) (simp_all add: starts_with_def)

lemma starts_with_append: "starts_with p s \<Longrightarrow> starts_with p (s @ t)"
  by (auto simp: starts_with_iff)

lemma drop_dot_slash_chars: "set (drop_dot_slash p) \<subseteq> set p"
  by (auto simp: drop_dot_slash_def strip_prefix_def split: option.splits if_splits dest: in_set_dropD)

lemma normalized_inside:
  assumes "posix_normalize p \<noteq> ''..''" "\<not> starts_with ''../'' (posix_normalize p)"
  shows "''..'' \<notin> set (split_slash (posix_normalize p)) \<and> \<not> starts_with ''/'' (posix_normalize p)"
proof -
  obtain k names where segs: "normal_segments p = replicate k ''..'' @ names"
    and names: "\<forall>n \<in> set names. n \<noteq> [] \<and> n \<noteq> ''.'' \<and> n \<noteq> ''..'' \<and> CHR ''/'' \<notin> set n"
    using climbing_normal [of p] by (auto simp: climbing_def)
  let ?body = "join_slash (normal_segments p)"
  have "k = 0"
  proof (rule ccontr)
    assume "k \<noteq> 0"
    then obtain m where "normal_segments p = ''..'' # (replicate m ''..'' @ names)"
      by (cases k) (simp_all add: segs)
    with join_climb have body: "?body = ''..'' \<or> starts_with ''../'' ?body" by metis
    then have "?body \<noteq> []" by (auto simp: starts_with_def)
    moreover have "starts_with ''../'' (?body @ ''/'')"
      using body by (auto simp: starts_with_append) (simp add: starts_with_def)
    ultimately show False using assms body
      by (auto simp: posix_normalize_def Let_def split: if_splits)
  qed
  then have segs: "normal_segments p = names" using segs by simp
  show ?thesis
  proof (cases "names = []")
    case True
    then show ?thesis by (auto simp: posix_normalize_def segs starts_with_def)
  next
    case False
    then have split: "split_slash ?body = names" using names by (simp add: segs split_join)
    obtain n ns where n: "names = n # ns" using False by (cases names) auto
    then obtain c cs where c: "n = c # cs" "c \<noteq> CHR ''/''" using names by (cases n) auto
    then obtain rest where first: "?body = c # rest" by (cases ns) (auto simp: segs n)
    then have "posix_normalize p = ?body \<or> posix_normalize p = ?body @ ''/''"
      by (simp add: posix_normalize_def Let_def)
    then show ?thesis
    proof
      assume q: "posix_normalize p = ?body"
      show ?thesis unfolding q split using names c(2) by (auto simp: first starts_with_def)
    next
      assume q: "posix_normalize p = ?body @ ''/''"
      show ?thesis unfolding q split_trailing split using names c(2) by (auto simp: first starts_with_def)
    qed
  qed
qed

lemma safe_path_inside: "safeArtifactPath p = Inr q \<Longrightarrow> inside_project q"
  using normalized_inside [of p] drop_dot_slash_chars [of p]
  by (auto simp: safeArtifactPath_def Let_def inside_project_def list_ex_iff split: if_splits)

lemma validate_entries_out:
  assumes "validate_entries es out used = Inr files"
  shows "\<exists>new. files = out @ new \<and> length new = length es \<and>
    (distinct (map fst out) \<longrightarrow> distinct (map fst files)) \<and>
    (\<forall>(q, c) \<in> set new. inside_project q \<and> q \<notin> set OBJECT_PROTOTYPE_KEYS \<and>
       byteLength c \<le> MAX_ARTIFACT_FILE_BYTES) \<and>
    used + sum_list (map (byteLength \<circ> snd) new) \<le> max used MAX_ARTIFACT_TOTAL_BYTES"
  using assms
proof (induction es out used arbitrary: files rule: validate_entries.induct)
  case (2 raw content es out used)
  from "2.prems" obtain path where path: "safeArtifactPath raw = Inr path"
      "path \<notin> fst ` set out" "path \<notin> set OBJECT_PROTOTYPE_KEYS"
      "byteLength content \<le> MAX_ARTIFACT_FILE_BYTES" "used + byteLength content \<le> MAX_ARTIFACT_TOTAL_BYTES"
      "validate_entries es (out @ [(path, content)]) (used + byteLength content) = Inr files"
    by (auto split: if_splits)
  have "\<not> (path \<in> fst ` set out \<or> path \<in> set OBJECT_PROTOTYPE_KEYS)"
    "\<not> MAX_ARTIFACT_FILE_BYTES < byteLength content" "\<not> MAX_ARTIFACT_TOTAL_BYTES < used + byteLength content"
    using path by auto
  from "2.IH" [OF this path(6)] obtain new where
    new: "files = (out @ [(path, content)]) @ new" "length new = length es"
      "distinct (map fst (out @ [(path, content)])) \<longrightarrow> distinct (map fst files)"
      "\<forall>(q, c) \<in> set new. inside_project q \<and> q \<notin> set OBJECT_PROTOTYPE_KEYS \<and> byteLength c \<le> MAX_ARTIFACT_FILE_BYTES"
      "used + byteLength content + sum_list (map (byteLength \<circ> snd) new) \<le> max (used + byteLength content) MAX_ARTIFACT_TOTAL_BYTES"
    by blast
  show ?case
    by (rule exI [of _ "(path, content) # new"]) (use new path safe_path_inside [OF path(1)] in \<open>auto simp: comp_def\<close>)
qed simp


section \<open>Records vouch for files\<close>

lemma validated_distinct:
  assumes "validateArtifactFiles input = Inr files"
  shows "distinct (map fst files)"
proof -
  from assms have "validate_entries input [] 0 = Inr files"
    by (auto simp: validateArtifactFiles_def split: if_splits)
  from validate_entries_out [OF this] show ?thesis by simp
qed

lemma file_entry_sel [simp]: "fi_path (file_entry sha256 prev files path) = path"
  by (simp add: file_entry_def Let_def)

lemma next_file_version_positive: "1 \<le> next_file_version prev path sha"
  by (simp add: next_file_version_def Let_def split: option.split)

lemma check_own_entries:
  "set ps \<subseteq> fst ` set files \<Longrightarrow> check_entries sha256 files ps (map (file_entry sha256 prev files) ps) = Inr ()"
proof (induction ps)
  case (Cons path ps)
  then obtain content where "map_of files path = Some content"
    by (metis list.set_intros(1) map_of_eq_None_iff not_Some_eq subset_eq)
  then have "entry_matches sha256 files path (file_entry sha256 prev files path)"
    "\<exists>v \<ge> 1. fi_version (file_entry sha256 prev files path) = Some v"
    using next_file_version_positive by (simp_all add: entry_matches_def file_entry_def Let_def)
  with Cons show ?case by auto
qed simp

lemma checked_entries:
  "check_entries sha256 files ps es = Inr () \<Longrightarrow> length ps = length es \<Longrightarrow>
   list_all2 (entry_matches sha256 files) ps es"
  by (induction sha256 files ps es rule: check_entries.induct) (auto split: if_splits)

lemma matching_paths: "list_all2 (entry_matches sha256 files) ps es \<Longrightarrow> map fi_path es = ps"
  by (induction rule: list_all2_induct) (auto simp: entry_matches_def split: option.splits)

lemma asserted:
  assumes "assertArtifactIntegrity sha256 input (Some i) projectId v st = Inr j"
  obtains files where "validateArtifactFiles input = Inr files" "j = i"
    "ai_project i = projectId" "ai_version i = v" "\<forall>s. st = Some s \<longrightarrow> ai_state i = s"
    "list_all2 (entry_matches sha256 files) (sort (map fst files)) (sort_key fi_path (ai_files i))"
  using assms checked_entries
  by (auto simp: assertArtifactIntegrity_def Let_def split: if_splits option.splits)

lemma built:
  assumes "buildArtifactIntegrity sha256 projectId v st input prev = Inr i"
  obtains files where "validateArtifactFiles input = Inr files" "0 < projectId" "0 < v"
    "ai_project i = projectId" "ai_version i = v" "ai_state i = st"
    "ai_files i = map (file_entry sha256 prev files) (sort (map fst files))"
    "ai_fileCount i = int (length files)" "ai_totalBytes i = sum_list (map fi_bytes (ai_files i))"
    "ai_sha i = sha256 (concat (map (entry_line True) (ai_files i)))"
  using assms by (auto simp: buildArtifactIntegrity_def Let_def split: if_splits)

lemma build_asserts:
  assumes "buildArtifactIntegrity sha256 projectId v st input prev = Inr i"
  shows "assertArtifactIntegrity sha256 input (Some i) projectId v (Some st) = Inr i"
proof -
  from built [OF assms] obtain files where files: "validateArtifactFiles input = Inr files"
    and i: "ai_project i = projectId" "ai_version i = v" "ai_state i = st"
    "ai_files i = map (file_entry sha256 prev files) (sort (map fst files))"
    "ai_fileCount i = int (length files)" "ai_totalBytes i = sum_list (map fi_bytes (ai_files i))"
    "ai_sha i = sha256 (concat (map (entry_line True) (ai_files i)))" by metis
  have paths: "map fi_path (ai_files i) = sort (map fst files)" by (simp add: i(4) comp_def)
  then have sorted: "sort_key fi_path (ai_files i) = ai_files i"
    by (simp add: sort_key_id_if_sorted)
  have "check_entries sha256 files (sort (map fst files)) (ai_files i) = Inr ()"
    unfolding i(4) by (rule check_own_entries) simp
  moreover have "list_all (\<lambda>e. fi_version e \<noteq> None) (ai_files i)"
    by (simp add: i(4) list_all_iff file_entry_def Let_def)
  moreover have "length (ai_files i) = length files" by (simp add: i(4))
  ultimately show ?thesis
    using files i(1,2,3,5,6,7) by (simp add: assertArtifactIntegrity_def Let_def sorted)
qed

lemma file_version_step:
  assumes "distinct (map fi_path (ai_files p))" "e' \<in> set (ai_files p)" "fi_path e' = path"
    "fi_version e' = Some w" "1 \<le> w"
  shows "next_file_version (Some p) path sha = (if fi_sha e' = sha then w else w + 1)"
proof -
  have "distinct (map fst (rev (map (\<lambda>e. (fi_path e, e)) (ai_files p))))"
    using assms(1) by (simp add: rev_map [symmetric] comp_def)
  then have "map_of (rev (map (\<lambda>e. (fi_path e, e)) (ai_files p))) path = Some e'"
    using assms(2,3) by (intro map_of_is_SomeI) auto
  with assms(4,5) show ?thesis by (simp add: next_file_version_def)
qed


text \<open>
  C16. Tampering is detected: when one record is accepted for two sets of files, both have the same
  paths, and the contents of a path are equal unless they are of equal length and collide under the
  hash function.
\<close>

theorem tampering_is_detected:
  assumes "assertArtifactIntegrity sha256 input (Some i) projectId v st = Inr j" "validateArtifactFiles input = Inr files"
    "assertArtifactIntegrity sha256 input' (Some i) projectId' v' st' = Inr j'" "validateArtifactFiles input' = Inr files'"
  shows "fst ` set files = fst ` set files' \<and>
    (\<forall>path content content'. (path, content) \<in> set files \<and> (path, content') \<in> set files' \<longrightarrow>
       content = content' \<or>
       length content = length content' \<and>
       sha256 (path @ CHR 0x00 # content) = sha256 (path @ CHR 0x00 # content'))"
proof -
  let ?es = "sort_key fi_path (ai_files i)"
  from asserted [OF assms(1)] assms(2) have all: "list_all2 (entry_matches sha256 files) (sort (map fst files)) ?es"
    by (metis Inr_inject)
  from asserted [OF assms(3)] assms(4) have all': "list_all2 (entry_matches sha256 files') (sort (map fst files')) ?es"
    by (metis Inr_inject)
  have same: "sort (map fst files) = sort (map fst files')"
    using matching_paths [OF all] matching_paths [OF all'] by simp
  then have paths: "fst ` set files = fst ` set files'" by (metis list.set_map set_sort)
  have "length content = length content' \<and>
      sha256 (path @ CHR 0x00 # content) = sha256 (path @ CHR 0x00 # content')"
    if "(path, content) \<in> set files" "(path, content') \<in> set files'" for path content content'
  proof -
    have found: "map_of files path = Some content" "map_of files' path = Some content'"
      using that validated_distinct assms(2,4) by (auto intro: map_of_is_SomeI)
    have "path \<in> set (sort (map fst files))" using that(1) by force
    then obtain n where n: "n < length (sort (map fst files))" "sort (map fst files) ! n = path"
      by (metis in_set_conv_nth)
    have "entry_matches sha256 files path (?es ! n)" "entry_matches sha256 files' path (?es ! n)"
      using list_all2_nthD [OF all n(1)] list_all2_nthD [OF all', of n] n same by simp_all
    with found show ?thesis by (auto simp: entry_matches_def fileSha_def byteLength_def)
  qed
  with paths show ?thesis by blast
qed

section \<open>A concrete artifact\<close>

definition sample_input :: artifact_files where
  "sample_input = [(''./src/app.js'', ''let a''), (''index.html'', ''<p>'')]"

definition sample_files :: artifact_files where
  "sample_files = [(''src/app.js'', ''let a''), (''index.html'', ''<p>'')]"

lemma sample_validated: "validateArtifactFiles sample_input = Inr sample_files"
  by code_simp


definition sample_integrity :: artifact_integrity where
  "sample_integrity = \<lparr>ai_project = 7, ai_version = 1, ai_state = FinalArtifact, ai_fileCount = 2,
     ai_totalBytes = 8, ai_sha = ai_sha (projr (buildArtifactIntegrity id 7 1 FinalArtifact sample_input None)),
     ai_files = [\<lparr>fi_path = ''index.html'', fi_sha = ''index.html'' @ CHR 0x00 # ''<p>'', fi_bytes = 3, fi_version = Some 1\<rparr>,
       \<lparr>fi_path = ''src/app.js'', fi_sha = ''src/app.js'' @ CHR 0x00 # ''let a'', fi_bytes = 5, fi_version = Some 1\<rparr>]\<rparr>"

lemma sample_built: "buildArtifactIntegrity id 7 1 FinalArtifact sample_input None = Inr sample_integrity"
  by code_simp


theorem tampering_is_detected_witness:
  "assertArtifactIntegrity id [(''src/app.js'', ''let b''), (''index.html'', ''<p>'')]
     (Some sample_integrity) 7 1 None \<noteq> Inr sample_integrity"
proof
  let ?tampered = "[(''src/app.js'', ''let b''), (''index.html'', ''<p>'')]"
  assume accepted: "assertArtifactIntegrity id ?tampered (Some sample_integrity) 7 1 None = Inr sample_integrity"
  have own: "assertArtifactIntegrity id sample_input (Some sample_integrity) 7 1 (Some FinalArtifact) = Inr sample_integrity"
    by (rule build_asserts [OF sample_built])
  have "validateArtifactFiles ?tampered = Inr ?tampered" by code_simp
  from tampering_is_detected [OF own sample_validated accepted this]
  show False by (auto simp: sample_files_def)
qed

text \<open>
  Three corners of the path check. The drive-letter test looks at the path as given, so a leading
  \<open>./\<close> hides a drive path from it, and the result is a path the same function refuses. The directory
  itself is accepted as a file path. A file whose name is a property of every JavaScript object is
  refused as a duplicate.
\<close>

lemma hidden_drive_path:
  "safeArtifactPath ''./C:/x'' = Inr ''C:/x''" "safeArtifactPath ''C:/x'' = Inl (AbsolutePath ''C:/x'')"
  by code_simp+

lemma directory_path_accepted: "safeArtifactPath ''.'' = Inr ''.''" "safeArtifactPath ''src/'' = Inr ''src/''"
  by code_simp+

lemma prototype_name_refused:
  "validateArtifactFiles [(''constructor'', ''x'')] = Inl (DuplicatePath ''constructor'')"
  by code_simp

end
