(* ===== verification/RequirementManifest.thy ===== *)
theory RequirementManifest
  imports Artifacts Adapters Contracts
begin

text \<open>
  The requirement manifest of a product (\<open>src/lib/requirementManifest.ts\<close>): its creation and revision
  from the product contract and plan, the marking of requirements as implemented, tested, validated
  and deployed on evidence, and the gates that refuse to complete a product with an unresolved
  must-have. The explanation of an unresolved requirement is a constructor per text of the source.
  The capabilities a contract asks for (\<open>nativeCapabilitySelection.ts\<close>, with the state of their
  adapters) are an argument, and the contract is one \<open>validateProductContract\<close> has accepted. White
  space and letter case are those of ASCII; times are texts.
\<close>

section \<open>The manifest\<close>

datatype requirement_status =
    ReqPending | ReqPlanned | ReqImplemented | ReqTested | ReqValidated | ReqDeployed | ReqBlocked

datatype requirement_priority = Must | Should | Could

datatype manifest_category = WorkflowReq | QualityReq | SecurityReq | MonetizationReq | OperationsReq

datatype unresolved_reason =
    NoPlannerMapping | MappedFilesMissing | NoEvidenceMarker | ValidationFailedAt string
  | NoImplementationEvidence

record validation_evidence =
  ve_stage :: string
  ve_passed :: bool
  ve_at :: string
  ve_errors :: "string list"

record deployment_evidence =
  dp_destination :: string
  dp_url :: string
  dp_verified :: bool
  dp_at :: string

record requirement_entry =
  rq_id :: string
  rq_text :: string
  rq_priority :: requirement_priority
  rq_category :: manifest_category
  rq_tasks :: "string list"
  rq_files :: "string list"
  rq_tests :: "string list"
  rq_validations :: "string list"
  rq_hash :: "string option"
  rq_evidence :: "validation_evidence list"
  rq_deployments :: "deployment_evidence list"
  rq_status :: requirement_status
  rq_reason :: "unresolved_reason option"

datatype change_type = AddedReq | RemovedReq | ModifiedReq | RemappedReq

record requirement_change =
  ch_revision :: int
  ch_id :: string
  ch_type :: change_type
  ch_at :: string

record capability_dependency =
  cp_id :: string
  cp_state :: capability_state
  cp_evidence :: "string list"

record requirement_manifest =
  rm_revision :: int
  rm_productType :: string
  rm_stack :: string
  rm_prompt :: string
  rm_createdAt :: string
  rm_updatedAt :: string
  rm_requirements :: "requirement_entry list"
  rm_capabilities :: "capability_dependency list"
  rm_changes :: "requirement_change list"
  rm_unresolved :: "string list"

text \<open>The schema of the source, as far as it says more than the types above.\<close>

definition PRODUCT_CAPABILITY_IDS :: "string list" where
  "PRODUCT_CAPABILITY_IDS = [''push_notifications'', ''speech_recognition'', ''text_to_speech'',
     ''siri_app_intents'', ''android_voice_actions'', ''camera'', ''photos'', ''microphone'', ''audio'',
     ''gps_location'', ''background_location'', ''bluetooth'', ''biometrics'', ''deep_links'',
     ''file_access'', ''sharing'', ''contacts'', ''calendar'', ''widgets'', ''live_activities'',
     ''background_jobs'', ''scheduling'']"

definition requirement_id :: "string \<Rightarrow> bool" where
  \<comment> \<open>the pattern \<open>^REQ-\d{3}$\<close>\<close>
  "requirement_id s = (case strip_prefix ''REQ-'' s of None \<Rightarrow> False | Some d \<Rightarrow> in_class is_digit 3 3 d)"

definition hex_hash :: "string \<Rightarrow> bool" where
  \<comment> \<open>the pattern \<open>^[a-f0-9]{64}$\<close>\<close>
  "hex_hash s = in_class (\<lambda>c. is_digit c \<or> CHR ''a'' \<le> c \<and> c \<le> CHR ''f'') 64 64 s"

definition evidence_schema :: "validation_evidence \<Rightarrow> bool" where
  "evidence_schema e \<longleftrightarrow> ve_stage e \<noteq> [] \<and> ve_at e \<noteq> []"

definition deployment_schema :: "deployment_evidence \<Rightarrow> bool" where
  "deployment_schema e \<longleftrightarrow> dp_destination e \<noteq> [] \<and> dp_url e \<noteq> [] \<and> dp_at e \<noteq> []"

definition requirementManifestEntrySchema :: "requirement_entry \<Rightarrow> bool" where
  "requirementManifestEntrySchema r \<longleftrightarrow> requirement_id (rq_id r) \<and> rq_text r \<noteq> [] \<and>
     [] \<notin> set (rq_tasks r) \<and> [] \<notin> set (rq_files r) \<and> [] \<notin> set (rq_tests r) \<and>
     [] \<notin> set (rq_validations r) \<and> (case rq_hash r of None \<Rightarrow> True | Some h \<Rightarrow> hex_hash h) \<and>
     list_all evidence_schema (rq_evidence r) \<and> list_all deployment_schema (rq_deployments r)"

definition requirementManifestSchema :: "requirement_manifest \<Rightarrow> bool" where
  "requirementManifestSchema m \<longleftrightarrow> rm_revision m > 0 \<and> rm_productType m \<noteq> [] \<and> rm_stack m \<noteq> [] \<and>
     rm_prompt m \<noteq> [] \<and> rm_createdAt m \<noteq> [] \<and> rm_updatedAt m \<noteq> [] \<and>
     rm_requirements m \<noteq> [] \<and> list_all requirementManifestEntrySchema (rm_requirements m) \<and>
     list_all (\<lambda>c. cp_id c \<in> set PRODUCT_CAPABILITY_IDS \<and> [] \<notin> set (cp_evidence c)) (rm_capabilities m) \<and>
     list_all (\<lambda>c. ch_revision c > 0 \<and> requirement_id (ch_id c) \<and> ch_at c \<noteq> []) (rm_changes m) \<and>
     list_all requirement_id (rm_unresolved m)"

datatype manifest_error =
    SchemaRejected | ContractIdsNotUnique | DuplicateRequirementIds | DuplicateCapabilities
  | StaleUnresolvedIndex | CapabilitiesBlocked "string list" | MustHaveUnresolved "string list"

definition unresolvedMustHaveIds :: "requirement_entry list \<Rightarrow> string list" where
  "unresolvedMustHaveIds rs = map rq_id (filter (\<lambda>r. rq_priority r = Must \<and>
     rq_status r \<noteq> ReqValidated \<and> rq_status r \<noteq> ReqDeployed) rs)"

definition withUnresolvedState :: "requirement_manifest \<Rightarrow> (manifest_error, requirement_manifest) result" where
  "withUnresolvedState m =
    (let m' = m\<lparr>rm_unresolved := unresolvedMustHaveIds (rm_requirements m)\<rparr>
     in if requirementManifestSchema m' then Inr m' else Inl SchemaRejected)"

definition parse_manifest :: "requirement_manifest \<Rightarrow> (manifest_error, requirement_manifest) result" where
  "parse_manifest m = (if requirementManifestSchema m then Inr m else Inl SchemaRejected)"

definition unique_texts :: "string list \<Rightarrow> string list" where
  \<comment> \<open>\<open>[...new Set(values.filter(Boolean))]\<close>: the first occurrence of each text that is not empty\<close>
  "unique_texts xs = rev (remdups (rev (filter (\<lambda>x. x \<noteq> []) xs)))"

section \<open>Creating and revising\<close>

record contract_requirement =
  cr_id :: string
  cr_text :: string
  cr_priority :: requirement_priority
  cr_category :: manifest_category

record manifest_contract =
  mc_productType :: string
  mc_stack :: string
  mc_prompt :: string
  mc_requirements :: "contract_requirement list"

record manifest_plan =
  mp_requirementToTasks :: "string \<Rightarrow> string list option"
  mp_taskToFiles :: "string \<Rightarrow> string list option"
  mp_taskToValidation :: "string \<Rightarrow> string list option"

definition or_empty :: "string list option \<Rightarrow> string list" where
  "or_empty x = (case x of None \<Rightarrow> [] | Some l \<Rightarrow> l)"

definition files_of :: "manifest_plan \<Rightarrow> string list \<Rightarrow> string list" where
  "files_of p tasks = unique_texts (concat (map (\<lambda>t. or_empty (mp_taskToFiles p t)) tasks))"

definition validations_of :: "manifest_plan \<Rightarrow> string list \<Rightarrow> string list" where
  "validations_of p tasks = unique_texts (concat (map (\<lambda>t. or_empty (mp_taskToValidation p t)) tasks))"

definition entry_by_id :: "requirement_manifest option \<Rightarrow> string \<Rightarrow> requirement_entry option" where
  "entry_by_id previous i = (case previous of None \<Rightarrow> None
     | Some m \<Rightarrow> map_of (rev (map (\<lambda>r. (rq_id r, r)) (rm_requirements m))) i)"

definition requirement_changes :: "requirement_manifest \<Rightarrow> manifest_plan \<Rightarrow> int \<Rightarrow> string \<Rightarrow>
    contract_requirement \<Rightarrow> requirement_change list" where
  "requirement_changes previous plan revision at c =
    (let change = (\<lambda>t. \<lparr>ch_revision = revision, ch_id = cr_id c, ch_type = t, ch_at = at\<rparr>);
         taskIds = or_empty (mp_requirementToTasks plan (cr_id c))
     in case entry_by_id (Some previous) (cr_id c) of None \<Rightarrow> [change AddedReq]
        | Some prior \<Rightarrow>
           (if (cr_text c, cr_priority c, cr_category c) \<noteq> (rq_text prior, rq_priority prior, rq_category prior)
            then [change ModifiedReq] else []) @
           (if (taskIds, files_of plan taskIds, validations_of plan taskIds) \<noteq>
                 (rq_tasks prior, rq_files prior, rq_validations prior)
            then [change RemappedReq] else []))"

definition compareRequirements :: "requirement_manifest option \<Rightarrow> manifest_contract \<Rightarrow> manifest_plan \<Rightarrow>
    int \<Rightarrow> string \<Rightarrow> requirement_change list" where
  "compareRequirements previous contract plan revision at =
    (case previous of
       None \<Rightarrow> map (\<lambda>c. \<lparr>ch_revision = revision, ch_id = cr_id c, ch_type = AddedReq, ch_at = at\<rparr>)
                 (mc_requirements contract)
     | Some m \<Rightarrow>
         concat (map (requirement_changes m plan revision at) (mc_requirements contract)) @
         map (\<lambda>r. \<lparr>ch_revision = revision, ch_id = rq_id r, ch_type = RemovedReq, ch_at = at\<rparr>)
           (filter (\<lambda>r. rq_id r \<notin> cr_id ` set (mc_requirements contract)) (rm_requirements m)))"

definition planned_entry :: "requirement_manifest option \<Rightarrow> manifest_plan \<Rightarrow> contract_requirement \<Rightarrow> requirement_entry" where
  "planned_entry previous plan c =
    (let taskIds = unique_texts (or_empty (mp_requirementToTasks plan (cr_id c)));
         files = files_of plan taskIds;
         validations = validations_of plan taskIds;
         prior = entry_by_id previous (cr_id c);
         mapped = (taskIds \<noteq> [] \<and> files \<noteq> [])
     in \<lparr>rq_id = cr_id c, rq_text = cr_text c, rq_priority = cr_priority c, rq_category = cr_category c,
         rq_tasks = taskIds, rq_files = files,
         rq_tests = (case prior of None \<Rightarrow> [] | Some r \<Rightarrow> rq_tests r),
         rq_validations = validations,
         rq_hash = (case prior of None \<Rightarrow> None | Some r \<Rightarrow> rq_hash r),
         rq_evidence = (case prior of None \<Rightarrow> [] | Some r \<Rightarrow> rq_evidence r),
         rq_deployments = (case prior of None \<Rightarrow> [] | Some r \<Rightarrow> rq_deployments r),
         rq_status = (if mapped then (case prior of None \<Rightarrow> ReqPlanned | Some r \<Rightarrow> rq_status r) else ReqBlocked),
         rq_reason = (if mapped then Option.bind prior rq_reason else Some NoPlannerMapping)\<rparr>)"

definition createRequirementManifest :: "manifest_contract \<Rightarrow> manifest_plan \<Rightarrow> capability_dependency list \<Rightarrow>
    requirement_manifest option \<Rightarrow> string \<Rightarrow> (manifest_error, requirement_manifest) result" where
  "createRequirementManifest contract plan capabilities previous now =
     bind_result (case previous of None \<Rightarrow> Inr None | Some m \<Rightarrow> map_sum id Some (parse_manifest m)) (\<lambda>previous.
       if \<not> distinct (map cr_id (mc_requirements contract)) then Inl ContractIdsNotUnique
       else
         let provisionalRevision = (case previous of None \<Rightarrow> 0 | Some m \<Rightarrow> rm_revision m) + 1;
             changes = compareRequirements previous contract plan provisionalRevision now;
             revision = (case previous of Some m \<Rightarrow> if changes = [] then rm_revision m else provisionalRevision
                         | None \<Rightarrow> provisionalRevision)
         in withUnresolvedState \<lparr>rm_revision = revision, rm_productType = mc_productType contract,
              rm_stack = mc_stack contract, rm_prompt = mc_prompt contract,
              rm_createdAt = (case previous of None \<Rightarrow> now | Some m \<Rightarrow> rm_createdAt m),
              rm_updatedAt = now,
              rm_requirements = map (planned_entry previous plan) (mc_requirements contract),
              rm_capabilities = capabilities,
              rm_changes = (case previous of None \<Rightarrow> [] | Some m \<Rightarrow> rm_changes m) @
                map (\<lambda>c. c\<lparr>ch_revision := revision\<rparr>) changes,
              rm_unresolved = []\<rparr>)"

section \<open>Marking\<close>

definition update_entries :: "requirement_manifest \<Rightarrow> string \<Rightarrow> (requirement_entry \<Rightarrow> requirement_entry) \<Rightarrow>
    (manifest_error, requirement_manifest) result" where
  "update_entries m now f = bind_result (parse_manifest m) (\<lambda>m.
     withUnresolvedState (m\<lparr>rm_updatedAt := now, rm_requirements := map f (rm_requirements m)\<rparr>))"

definition present_file :: "artifact_files \<Rightarrow> string \<Rightarrow> bool" where
  "present_file files path = (case map_of files path of None \<Rightarrow> False | Some c \<Rightarrow> js_trim c \<noteq> [])"

definition evidence_marker :: "requirement_entry \<Rightarrow> string" where
  "evidence_marker r = ''requirement: '' @ rq_id r"

definition file_mentions :: "artifact_files \<Rightarrow> requirement_entry \<Rightarrow> string \<Rightarrow> bool" where
  "file_mentions files r path =
     contains (evidence_marker r) (case map_of files path of None \<Rightarrow> [] | Some c \<Rightarrow> c)"

definition implementation_hash :: "(string \<Rightarrow> string) \<Rightarrow> artifact_files \<Rightarrow> requirement_entry \<Rightarrow> string" where
  "implementation_hash sha256 files r = sha256 (concat (map (\<lambda>path.
     path @ CHR 0x00 # (case map_of files path of None \<Rightarrow> [] | Some c \<Rightarrow> c) @ [CHR 0x00]) (sort (rq_files r))))"

definition implemented_in :: "artifact_files \<Rightarrow> requirement_entry \<Rightarrow> bool" where
  "implemented_in files r =
    (let existingFiles = filter (present_file files) (rq_files r)
     in length existingFiles = length (rq_files r) \<and> list_ex (file_mentions files r) existingFiles)"

definition mark_implementation :: "(string \<Rightarrow> string) \<Rightarrow> artifact_files \<Rightarrow> requirement_entry \<Rightarrow> requirement_entry" where
  "mark_implementation sha256 files r =
    (if rq_tasks r = [] \<or> rq_files r = [] then r\<lparr>rq_status := ReqBlocked, rq_reason := Some NoPlannerMapping\<rparr>
     else if \<not> implemented_in files r then
       r\<lparr>rq_status := ReqPlanned, rq_hash := None,
         rq_reason := Some (if length (filter (present_file files) (rq_files r)) \<noteq> length (rq_files r)
           then MappedFilesMissing else NoEvidenceMarker)\<rparr>
     else
       let hash = implementation_hash sha256 files r;
           implementationChanged = (rq_hash r \<noteq> Some hash)
       in r\<lparr>rq_hash := Some hash,
            rq_status := (if \<not> implementationChanged \<and>
                (rq_status r = ReqTested \<or> rq_status r = ReqValidated \<or> rq_status r = ReqDeployed)
              then rq_status r else ReqImplemented),
            rq_reason := None\<rparr>)"

definition markRequirementImplementation :: "(string \<Rightarrow> string) \<Rightarrow> requirement_manifest \<Rightarrow> artifact_files \<Rightarrow>
    string \<Rightarrow> (manifest_error, requirement_manifest) result" where
  "markRequirementImplementation sha256 m files now = update_entries m now (mark_implementation sha256 files)"

definition ends_with :: "string \<Rightarrow> string \<Rightarrow> bool" where
  "ends_with suffix s \<longleftrightarrow> starts_with (rev suffix) (rev s)"

fun at_segment_start :: "string \<Rightarrow> bool \<Rightarrow> string \<Rightarrow> bool" where
  \<comment> \<open>the text occurs at the start or right after a slash\<close>
  "at_segment_start needle start [] = (start \<and> needle = [])"
| "at_segment_start needle start (c # s) =
     ((start \<and> starts_with needle (c # s)) \<or> at_segment_start needle (c = CHR ''/'') s)"

definition is_test_path :: "string \<Rightarrow> bool" where
  \<comment> \<open>the pattern of the source: a script under \<open>__tests__/\<close> or named \<open>*.test\<close> or \<open>*.spec\<close>\<close>
  "is_test_path path =
    (let p = js_lower path in
     list_ex (\<lambda>ext. ends_with ext p \<and>
       (let base = take (length p - length ext) p in
        at_segment_start ''__tests__/'' True base \<or> ends_with ''.test'' base \<or> ends_with ''.spec'' base))
       [''.js'', ''.jsx'', ''.ts'', ''.tsx''])"

definition mark_tests :: "artifact_files \<Rightarrow> requirement_entry \<Rightarrow> requirement_entry" where
  "mark_tests files r =
    (let tests = unique_texts (filter (file_mentions files r) (filter is_test_path (map fst files)))
     in if tests = [] then r\<lparr>rq_tests := tests\<rparr>
        else if rq_status r = ReqImplemented \<or> rq_status r = ReqTested
        then r\<lparr>rq_tests := tests, rq_status := ReqTested, rq_reason := None\<rparr>
        else r\<lparr>rq_tests := tests\<rparr>)"

definition markRequirementTests :: "requirement_manifest \<Rightarrow> artifact_files \<Rightarrow> string \<Rightarrow>
    (manifest_error, requirement_manifest) result" where
  "markRequirementTests m files now = update_entries m now (mark_tests files)"

definition mark_validation :: "validation_evidence \<Rightarrow> requirement_entry \<Rightarrow> requirement_entry" where
  "mark_validation e r =
    (let evidence = rq_evidence r @ [e] in
     if \<not> ve_passed e then
       r\<lparr>rq_evidence := evidence,
         rq_status := (if rq_tests r \<noteq> [] then ReqTested
           else if (case rq_hash r of None \<Rightarrow> False | Some h \<Rightarrow> h \<noteq> []) then ReqImplemented
           else if rq_status r = ReqBlocked then ReqBlocked else ReqPlanned),
         rq_reason := (if rq_priority r = Must then Some (ValidationFailedAt (ve_stage e)) else rq_reason r)\<rparr>
     else if rq_status r \<notin> {ReqImplemented, ReqTested, ReqValidated, ReqDeployed} then
       r\<lparr>rq_evidence := evidence, rq_status := ReqBlocked, rq_reason := Some NoImplementationEvidence\<rparr>
     else
       r\<lparr>rq_evidence := evidence,
         rq_status := (if rq_status r = ReqDeployed then ReqDeployed else ReqValidated), rq_reason := None\<rparr>)"

definition markRequirementValidation :: "requirement_manifest \<Rightarrow> bool \<Rightarrow> string \<Rightarrow> string list \<Rightarrow> string \<Rightarrow>
    (manifest_error, requirement_manifest) result" where
  "markRequirementValidation m passed stage errors now = update_entries m now (mark_validation
     \<lparr>ve_stage = (if stage = [] then ''unknown'' else stage), ve_passed = passed, ve_at = now,
      ve_errors = take 50 (unique_texts errors)\<rparr>)"

definition mark_deployment :: "deployment_evidence \<Rightarrow> requirement_entry \<Rightarrow> requirement_entry" where
  "mark_deployment e r =
    (if rq_status r \<noteq> ReqValidated \<and> rq_status r \<noteq> ReqDeployed then r
     else r\<lparr>rq_deployments := rq_deployments r @ [e],
            rq_status := (if dp_verified e then ReqDeployed else rq_status r)\<rparr>)"

definition markRequirementDeployment :: "requirement_manifest \<Rightarrow> string \<Rightarrow> string \<Rightarrow> bool \<Rightarrow> string \<Rightarrow>
    (manifest_error, requirement_manifest) result" where
  "markRequirementDeployment m destination url verified at = update_entries m at (mark_deployment
     \<lparr>dp_destination = destination, dp_url = url, dp_verified = verified, dp_at = at\<rparr>)"

section \<open>The completion gates\<close>

definition validateRequirementManifest :: "requirement_manifest \<Rightarrow> (manifest_error, requirement_manifest) result" where
  "validateRequirementManifest m =
     bind_result (parse_manifest m) (\<lambda>m.
       if \<not> distinct (map rq_id (rm_requirements m)) then Inl DuplicateRequirementIds
       else if \<not> distinct (map cp_id (rm_capabilities m)) then Inl DuplicateCapabilities
       else if unresolvedMustHaveIds (rm_requirements m) \<noteq> rm_unresolved m then Inl StaleUnresolvedIndex
       else Inr m)"

definition assertProductCapabilityDependenciesReady :: "requirement_manifest \<Rightarrow> capability_state \<Rightarrow>
    (manifest_error, requirement_manifest) result" where
  "assertProductCapabilityDependenciesReady m bound =
     bind_result (validateRequirementManifest m) (\<lambda>m.
       let blocked = filter (\<lambda>c. \<not> isAtLeast (cp_state c) bound) (rm_capabilities m)
       in if blocked \<noteq> [] then Inl (CapabilitiesBlocked (map cp_id blocked)) else Inr m)"

definition assertMustHaveRequirementsResolved :: "requirement_manifest \<Rightarrow>
    (manifest_error, requirement_manifest) result" where
  "assertMustHaveRequirementsResolved m =
     bind_result (validateRequirementManifest m) (\<lambda>m.
       if rm_unresolved m \<noteq> [] then Inl (MustHaveUnresolved (rm_unresolved m))
       else assertProductCapabilityDependenciesReady m Runnable)"

section \<open>What every manifest keeps\<close>

text \<open>
  A requirement is founded when its status rests on recorded evidence, and a manifest is sound when
  it is one the validation accepts and all its requirements are founded.
\<close>

definition founded :: "requirement_entry \<Rightarrow> bool" where
  "founded r \<longleftrightarrow>
     (rq_status r \<in> {ReqValidated, ReqDeployed} \<longrightarrow> (\<exists>e \<in> set (rq_evidence r). ve_passed e)) \<and>
     (rq_status r = ReqDeployed \<longrightarrow> (\<exists>e \<in> set (rq_deployments r). dp_verified e))"

definition sound_manifest :: "requirement_manifest \<Rightarrow> bool" where
  "sound_manifest m \<longleftrightarrow> validateRequirementManifest m = Inr m \<and> (\<forall>r \<in> set (rm_requirements m). founded r)"

inductive manifest_step :: "(string \<Rightarrow> string) \<Rightarrow> requirement_manifest \<Rightarrow> requirement_manifest \<Rightarrow> bool" for sha256 where
  implementation: "markRequirementImplementation sha256 m files now = Inr m' \<Longrightarrow> manifest_step sha256 m m'"
| tests: "markRequirementTests m files now = Inr m' \<Longrightarrow> manifest_step sha256 m m'"
| validation: "markRequirementValidation m passed stage errors now = Inr m' \<Longrightarrow> manifest_step sha256 m m'"
| deployment: "markRequirementDeployment m destination url verified at = Inr m' \<Longrightarrow> manifest_step sha256 m m'"
| revision: "createRequirementManifest contract plan capabilities (Some m) now = Inr m' \<Longrightarrow>
    distinct (map cp_id capabilities) \<Longrightarrow> manifest_step sha256 m m'"

lemma withUnresolvedState_Inr:
  "withUnresolvedState m = Inr m' \<longleftrightarrow>
   m' = m\<lparr>rm_unresolved := unresolvedMustHaveIds (rm_requirements m)\<rparr> \<and> requirementManifestSchema m'"
  by (auto simp: withUnresolvedState_def Let_def)

lemma validate_iff:
  "validateRequirementManifest m = Inr m' \<longleftrightarrow> m' = m \<and> requirementManifestSchema m \<and>
   distinct (map rq_id (rm_requirements m)) \<and> distinct (map cp_id (rm_capabilities m)) \<and>
   rm_unresolved m = unresolvedMustHaveIds (rm_requirements m)"
  by (auto simp: validateRequirementManifest_def parse_manifest_def)

lemma update_entries_sound:
  assumes "update_entries m now f = Inr m'" "sound_manifest m"
    and id: "\<And>r. rq_id (f r) = rq_id r" and f: "\<And>r. founded r \<Longrightarrow> founded (f r)"
  shows "sound_manifest m' \<and> rm_requirements m' = map f (rm_requirements m)"
proof -
  from assms(1) have m': "m' = m\<lparr>rm_updatedAt := now, rm_requirements := map f (rm_requirements m),
      rm_unresolved := unresolvedMustHaveIds (map f (rm_requirements m))\<rparr>" "requirementManifestSchema m'"
    by (auto simp: update_entries_def parse_manifest_def withUnresolvedState_Inr split: if_splits)
  have "map rq_id (map f (rm_requirements m)) = map rq_id (rm_requirements m)" by (simp add: id)
  with m' assms(2) f show ?thesis by (auto simp: sound_manifest_def validate_iff comp_def id)
qed

lemma mark_ids [simp]:
  "rq_id (mark_implementation sha256 files r) = rq_id r" "rq_id (mark_tests files r) = rq_id r"
  "rq_id (mark_validation e r) = rq_id r" "rq_id (mark_deployment d r) = rq_id r"
  by (simp_all add: mark_implementation_def mark_tests_def mark_validation_def mark_deployment_def Let_def)

lemma mark_founded:
  "founded r \<Longrightarrow> founded (mark_implementation sha256 files r)"
  "founded r \<Longrightarrow> founded (mark_tests files r)"
  "founded r \<Longrightarrow> founded (mark_validation e r)"
  "founded r \<Longrightarrow> founded (mark_deployment d r)"
  by (auto simp: founded_def mark_implementation_def mark_tests_def mark_validation_def mark_deployment_def Let_def)

lemma entry_by_id_in: "entry_by_id previous i = Some r \<Longrightarrow> \<exists>m. previous = Some m \<and> r \<in> set (rm_requirements m) \<and> rq_id r = i"
  by (auto simp: entry_by_id_def dest!: map_of_SomeD split: option.splits)

lemma planned_founded:
  assumes "\<And>m. previous = Some m \<Longrightarrow> sound_manifest m"
  shows "founded (planned_entry previous plan c)"
proof (cases "entry_by_id previous (cr_id c)")
  case None
  then show ?thesis by (simp add: planned_entry_def founded_def Let_def)
next
  case (Some r)
  with entry_by_id_in [OF Some] assms have "founded r" by (auto simp: sound_manifest_def)
  with Some show ?thesis by (simp add: planned_entry_def founded_def Let_def)
qed

lemma created_sound:
  assumes "createRequirementManifest contract plan capabilities previous now = Inr m"
    "distinct (map cp_id capabilities)" "\<And>m. previous = Some m \<Longrightarrow> sound_manifest m"
  shows "sound_manifest m"
proof -
  from assms(1) obtain previous' where previous': "previous' = None \<or> previous' = previous"
    and ids: "distinct (map cr_id (mc_requirements contract))"
    and m: "rm_requirements m = map (planned_entry previous' plan) (mc_requirements contract)"
      "rm_capabilities m = capabilities" "requirementManifestSchema m"
      "rm_unresolved m = unresolvedMustHaveIds (rm_requirements m)"
    by (auto simp: createRequirementManifest_def withUnresolvedState_Inr parse_manifest_def Let_def
        split: option.splits if_splits)
  have "rq_id (planned_entry previous' plan c) = cr_id c" for c
    by (simp add: planned_entry_def Let_def)
  with ids m assms(2) have "validateRequirementManifest m = Inr m"
    by (simp add: validate_iff comp_def)
  moreover have "founded r" if "r \<in> set (rm_requirements m)" for r
    using that previous' planned_founded [of previous' plan] assms(3) by (auto simp: m)
  ultimately show ?thesis by (simp add: sound_manifest_def)
qed

lemmas marks = markRequirementImplementation_def markRequirementTests_def
  markRequirementValidation_def markRequirementDeployment_def

lemma step_keeps_sound: "manifest_step sha256 m m' \<Longrightarrow> sound_manifest m \<Longrightarrow> sound_manifest m'"
proof (induction rule: manifest_step.induct)
  case (revision contract plan capabilities m now m')
  then show ?case using created_sound [OF revision(1,2)] by simp
next
  case (implementation m files now m')
  then show ?case
    using update_entries_sound [of m now "mark_implementation sha256 files" m'] mark_founded(1)
    by (simp add: marks)
next
  case (tests m files now m')
  then show ?case
    using update_entries_sound [of m now "mark_tests files" m'] mark_founded(2) by (simp add: marks)
next
  case (validation m passed stage errors now m')
  then show ?case
    using update_entries_sound [of m now "mark_validation _" m'] mark_founded(3) by (simp add: marks)
next
  case (deployment m destination url verified at m')
  then show ?case
    using update_entries_sound [of m at "mark_deployment _" m'] mark_founded(4) by (simp add: marks)
qed

interpretation manifest_runs: guarded_system "manifest_step sha256" sound_manifest for sha256
  by unfold_locales (auto intro: step_keeps_sound)

text \<open>
  C18. Whatever revisions and marks a manifest goes through, it stays one the validation accepts, with
  unique requirements and an index of exactly the must-haves that are neither validated nor
  deployed; and a requirement is validated only with a passed validation on record and deployed only
  with a verified deployment on record.
\<close>

theorem manifest_stays_sound:
  assumes "createRequirementManifest contract plan capabilities None now = Inr m0"
    "distinct (map cp_id capabilities)" "(manifest_step sha256)\<^sup>*\<^sup>* m0 m"
  shows "validateRequirementManifest m = Inr m \<and> distinct (map rq_id (rm_requirements m)) \<and>
    rm_unresolved m = map rq_id (filter (\<lambda>r. rq_priority r = Must \<and>
      rq_status r \<notin> {ReqValidated, ReqDeployed}) (rm_requirements m)) \<and>
    (\<forall>r \<in> set (rm_requirements m).
      (rq_status r \<in> {ReqValidated, ReqDeployed} \<longrightarrow> (\<exists>e \<in> set (rq_evidence r). ve_passed e)) \<and>
      (rq_status r = ReqDeployed \<longrightarrow> (\<exists>e \<in> set (rq_deployments r). dp_verified e)))"
proof -
  have "sound_manifest m"
    using manifest_runs.run_keeps [OF assms(3)] created_sound [OF assms(1,2)] by simp
  then show ?thesis
    by (simp add: sound_manifest_def validate_iff unresolvedMustHaveIds_def founded_def)
qed

section \<open>What completion proves\<close>

lemma resolved_iff:
  "assertMustHaveRequirementsResolved m = Inr m' \<longleftrightarrow> m' = m \<and> validateRequirementManifest m = Inr m \<and>
   (\<forall>r \<in> set (rm_requirements m). rq_priority r = Must \<longrightarrow> rq_status r \<in> {ReqValidated, ReqDeployed}) \<and>
   (\<forall>c \<in> set (rm_capabilities m). Runnable \<le> cp_state c)"
  by (auto simp: assertMustHaveRequirementsResolved_def assertProductCapabilityDependenciesReady_def
      validate_iff unresolvedMustHaveIds_def filter_empty_conv Let_def)

lemma remarked_status:
  assumes "rq_status (mark_tests files (mark_implementation sha256 files r)) \<in> {ReqValidated, ReqDeployed}"
  shows "implemented_in files r \<and> rq_files r \<noteq> [] \<and> rq_hash r = Some (implementation_hash sha256 files r) \<and>
    rq_status (mark_tests files (mark_implementation sha256 files r)) = rq_status r"
  using assms by (auto simp: mark_tests_def mark_implementation_def Let_def split: if_splits)

lemma implemented_files:
  assumes "implemented_in files r" "path \<in> set (rq_files r)"
  shows "present_file files path"
proof -
  have "length (filter (present_file files) (rq_files r)) = length (rq_files r)"
    using assms(1) by (simp add: implemented_in_def Let_def)
  then show ?thesis using assms(2) length_filter_less [of path "rq_files r" "present_file files"] by auto
qed


section \<open>A concrete manifest\<close>

definition sample_sha :: "string \<Rightarrow> string" where
  "sample_sha s = replicate 64 (CHR ''0'')"

definition sample_contract_of :: "manifest_contract" where
  "sample_contract_of = \<lparr>mc_productType = ''website'', mc_stack = ''react-node'', mc_prompt = ''A shop'',
     mc_requirements = [\<lparr>cr_id = ''REQ-001'', cr_text = ''List products'', cr_priority = Must,
       cr_category = WorkflowReq\<rparr>]\<rparr>"

definition sample_plan :: "string list \<Rightarrow> manifest_plan" where
  "sample_plan tasks = \<lparr>mp_requirementToTasks = [''REQ-001'' \<mapsto> tasks], mp_taskToFiles = [''t1'' \<mapsto> [''app.js'']],
     mp_taskToValidation = [''t1'' \<mapsto> [''build'']]\<rparr>"

definition sample_build :: artifact_files where
  "sample_build = [(''app.js'', ''// requirement: REQ-001''), (''app.test.js'', ''// requirement: REQ-001'')]"

definition the_manifest :: "(manifest_error, requirement_manifest) result \<Rightarrow> requirement_manifest" where
  "the_manifest r = projr r"

definition sample_created_manifest :: requirement_manifest where
  "sample_created_manifest = the_manifest (createRequirementManifest sample_contract_of (sample_plan [''t1'']) [] None ''t0'')"

definition sample_implemented :: requirement_manifest where
  "sample_implemented = the_manifest (markRequirementImplementation sample_sha sample_created_manifest sample_build ''t1'')"

definition sample_validated_manifest :: requirement_manifest where
  "sample_validated_manifest = the_manifest (markRequirementValidation sample_implemented True ''build'' [] ''t2'')"

definition sample_remarked :: requirement_manifest where
  "sample_remarked = the_manifest (markRequirementImplementation sample_sha sample_validated_manifest sample_build ''t3'')"

definition sample_retested :: requirement_manifest where
  "sample_retested = the_manifest (markRequirementTests sample_remarked sample_build ''t4'')"

lemma sample_runs:
  "createRequirementManifest sample_contract_of (sample_plan [''t1'']) [] None ''t0'' = Inr sample_created_manifest"
  "markRequirementImplementation sample_sha sample_created_manifest sample_build ''t1'' = Inr sample_implemented"
  "markRequirementValidation sample_implemented True ''build'' [] ''t2'' = Inr sample_validated_manifest"
  "markRequirementImplementation sample_sha sample_validated_manifest sample_build ''t3'' = Inr sample_remarked"
  "markRequirementTests sample_remarked sample_build ''t4'' = Inr sample_retested"
  "assertMustHaveRequirementsResolved sample_retested = Inr sample_retested"
  by code_simp+

lemma sample_steps: "(manifest_step sample_sha)\<^sup>*\<^sup>* sample_created_manifest sample_validated_manifest"
proof -
  have "manifest_step sample_sha sample_created_manifest sample_implemented"
    by (rule implementation [OF sample_runs(2)])
  moreover have "manifest_step sample_sha sample_implemented sample_validated_manifest"
    by (rule validation [OF sample_runs(3)])
  ultimately show ?thesis by (simp add: converse_rtranclp_into_rtranclp)
qed

theorem manifest_stays_sound_witness:
  "validateRequirementManifest sample_validated_manifest = Inr sample_validated_manifest"
proof -
  have "distinct (map cp_id [])" by simp
  from manifest_stays_sound [OF sample_runs(1) this sample_steps] show ?thesis by blast
qed


text \<open>
  Two surprises. A failed validation promotes a requirement that has tests but no implementation to
  \<open>tested\<close>, so that the next passed validation resolves it without any implementation on record. And
  a plan that lists a task twice for a requirement is reported as remapped at every revision.
\<close>

definition tests_only :: requirement_manifest where
  "tests_only = the_manifest (markRequirementTests sample_created_manifest
     [(''app.test.js'', ''// requirement: REQ-001'')] ''t1'')"

definition tests_failed :: requirement_manifest where
  "tests_failed = the_manifest (markRequirementValidation tests_only False ''build'' [] ''t2'')"

definition tests_passed :: requirement_manifest where
  "tests_passed = the_manifest (markRequirementValidation tests_failed True ''build'' [] ''t3'')"

lemma resolved_without_implementation:
  "map rq_status (rm_requirements tests_only) = [ReqPlanned]"
  "assertMustHaveRequirementsResolved tests_passed = Inr tests_passed"
  "map rq_hash (rm_requirements tests_passed) = [None]"
  by code_simp+

lemma repeated_task_remaps:
  "map rm_revision (map (\<lambda>m. the_manifest (createRequirementManifest sample_contract_of
     (sample_plan [''t1'', ''t1'']) [] (Some m) ''t1''))
     [the_manifest (createRequirementManifest sample_contract_of (sample_plan [''t1'', ''t1'']) [] None ''t0'')]) = [2]"
  by code_simp

end
