(* ===== verification/Snapshots.thy ===== *)
theory Snapshots
  imports RequirementManifest "HOL-Library.AList"
begin

text \<open>
  The versions of a generated product in the database (\<open>src/db.ts\<close>, build snapshots and working
  files), the edits of saved files (\<open>src/services/projectFileEdits.ts\<close>) and the recovery checkpoints
  (\<open>src/services/recovery.ts\<close>). The state has the columns of \<open>projects\<close>, \<open>build_snapshots\<close> and
  \<open>recovery_checkpoints\<close> these operations read or write; labels, stacks and validation reports are
  stored unread and left out. Every transaction takes the project's row and advisory lock, so it is
  one step. Cached previews are not modelled. That at most one snapshot of a project is current is a
  unique index, so the current one needs no ordering by time.
\<close>

section \<open>State\<close>

record artifact_project =
  ap_id :: int
  ap_user :: "int option"
  ap_status :: string
  ap_files :: "artifact_files option"
  ap_workVersion :: "int option"
  ap_workIntegrity :: "artifact_integrity option"
  ap_manifest :: "requirement_manifest option"

record snapshot_row =
  sn_id :: int
  sn_project :: int
  sn_user :: int
  sn_version :: int
  sn_files :: artifact_files
  sn_fileCount :: int
  sn_manifest :: "requirement_manifest option"
  sn_integrity :: "artifact_integrity option"
  sn_current :: bool

datatype checkpoint_source = ValidatedArtifact | ProductionVerified

record checkpoint_row =
  rc_id :: int
  rc_project :: int
  rc_snapshot :: int
  rc_version :: int
  rc_sha :: string
  rc_deployment :: "int option"
  rc_manifestSha :: "string option"
  rc_url :: "string option"
  rc_source :: checkpoint_source
  rc_createdAt :: int

record artifact_db =
  ad_projects :: "artifact_project list"
  ad_snapshots :: "snapshot_row list"
  ad_checkpoints :: "checkpoint_row list"

text \<open>The unique indexes of the two tables.\<close>

definition snapshot_key :: "snapshot_row \<Rightarrow> int \<times> int" where
  "snapshot_key s = (sn_project s, sn_version s)"

definition checkpoint_key :: "checkpoint_row \<Rightarrow> int \<times> int \<times> checkpoint_source" where
  "checkpoint_key c = (rc_project c, rc_version c, rc_source c)"

definition snapshot_constraints :: "artifact_db \<Rightarrow> bool" where
  "snapshot_constraints d \<longleftrightarrow> distinct (map snapshot_key (ad_snapshots d)) \<and>
     distinct (map sn_project (filter sn_current (ad_snapshots d)))"

datatype snapshot_error =
    ManifestRefused manifest_error | ArtifactRefused artifact_error | FileCountMismatch
  | ProjectMissing | NotProjectOwner | VersionExists | SnapshotMissing | NoCurrentSnapshot
  | SnapshotConstraintViolation | BuildRunning | SavedFilesChanged | InvalidEditPath | FileNotFound
  | FileInvalid | BadCheckpoint | CheckpointVersionMismatch | CheckpointHashMismatch | NoCheckpoint

abbreviation refuse_manifest :: "(manifest_error, 'a) result \<Rightarrow> (snapshot_error, 'a) result" where
  "refuse_manifest \<equiv> map_sum ManifestRefused id"

abbreviation refuse_artifact :: "(artifact_error, 'a) result \<Rightarrow> (snapshot_error, 'a) result" where
  "refuse_artifact \<equiv> map_sum ArtifactRefused id"

lemma refused [simp]: "map_sum f id r = Inr x \<longleftrightarrow> r = Inr x"
  by (cases r) simp_all

lemma refused_unless:
  "(case a of None \<Rightarrow> Inl e | Some v \<Rightarrow> f v) = Inr y \<longleftrightarrow> (\<exists>v. a = Some v \<and> f v = Inr y)"
  "(if c then Inl e else r) = Inr y \<longleftrightarrow> \<not> c \<and> r = Inr y"
  by (simp_all split: option.split)

definition required_manifest :: "requirement_manifest option \<Rightarrow> (snapshot_error, requirement_manifest) result" where
  \<comment> \<open>\<open>assertMustHaveRequirementsResolved\<close> on a nullable column: its schema refuses null\<close>
  "required_manifest column = (case column of None \<Rightarrow> Inl (ManifestRefused SchemaRejected)
     | Some m \<Rightarrow> refuse_manifest (assertMustHaveRequirementsResolved m))"

definition or_else :: "'a option \<Rightarrow> 'a option \<Rightarrow> 'a option" where
  \<comment> \<open>the \<open>??\<close> operator\<close>
  "or_else a b = (case a of Some x \<Rightarrow> Some x | None \<Rightarrow> b)"

definition locked_project :: "int \<Rightarrow> artifact_db \<Rightarrow> (snapshot_error, artifact_project) result" where
  "locked_project i d = (case first_row (\<lambda>p. ap_id p = i) (ad_projects d) of None \<Rightarrow> Inl ProjectMissing
     | Some p \<Rightarrow> Inr p)"

definition set_project :: "int \<Rightarrow> (artifact_project \<Rightarrow> artifact_project) \<Rightarrow> artifact_db \<Rightarrow> artifact_db" where
  "set_project i f d = d\<lparr>ad_projects := update_where (\<lambda>p. ap_id p = i) f (ad_projects d)\<rparr>"

definition set_snapshots :: "(snapshot_row \<Rightarrow> bool) \<Rightarrow> (snapshot_row \<Rightarrow> snapshot_row) \<Rightarrow> artifact_db \<Rightarrow> artifact_db" where
  "set_snapshots P f d = d\<lparr>ad_snapshots := update_where P f (ad_snapshots d)\<rparr>"

text \<open>Clear the current flag of a project's snapshots, then set it on one of them.\<close>

definition switch_current :: "int \<Rightarrow> int \<Rightarrow> artifact_db \<Rightarrow> artifact_db" where
  "switch_current projectId snapshotId d =
     set_snapshots (\<lambda>s. sn_id s = snapshotId \<and> sn_project s = projectId) (\<lambda>s. s\<lparr>sn_current := True\<rparr>)
       (set_snapshots (\<lambda>s. sn_project s = projectId) (\<lambda>s. s\<lparr>sn_current := False\<rparr>) d)"

section \<open>Working files\<close>

definition updateProjectFiles :: "(string \<Rightarrow> string) \<Rightarrow> int \<Rightarrow> artifact_files \<Rightarrow> artifact_db \<Rightarrow>
    (snapshot_error, artifact_integrity \<times> artifact_db) result" where
  "updateProjectFiles sha256 i files d =
     bind_result (refuse_artifact (validateArtifactFiles files)) (\<lambda>normalized.
     bind_result (locked_project i d) (\<lambda>p.
       let artifactVersion = (case ap_workVersion p of None \<Rightarrow> 0 | Some v \<Rightarrow> v) + 1 in
       bind_result (refuse_artifact (buildArtifactIntegrity sha256 i artifactVersion WorkingArtifact
           normalized (ap_workIntegrity p))) (\<lambda>integrity.
         Inr (integrity, set_project i (\<lambda>p. p\<lparr>ap_files := Some normalized,
           ap_workVersion := Some artifactVersion, ap_workIntegrity := Some integrity\<rparr>) d))))"

definition getWorkingProjectFiles :: "(string \<Rightarrow> string) \<Rightarrow> int \<Rightarrow> artifact_db \<Rightarrow>
    (snapshot_error, artifact_files \<times> artifact_db) result" where
  "getWorkingProjectFiles sha256 i d =
    (case first_row (\<lambda>p. ap_id p = i) (ad_projects d) of None \<Rightarrow> Inr ([], d)
     | Some p \<Rightarrow>
      (case ap_files p of None \<Rightarrow> Inr ([], d)
       | Some stored \<Rightarrow>
         bind_result (refuse_artifact (validateArtifactFiles stored)) (\<lambda>files.
           let version = (case ap_workVersion p of None \<Rightarrow> 0 | Some v \<Rightarrow> v) in
           bind_result
            (if ap_workIntegrity p = None \<or> version \<le> 0 then
               bind_result (refuse_artifact (buildArtifactIntegrity sha256 i (max 1 version) WorkingArtifact files None))
                 (\<lambda>integrity. Inr (max 1 version, Some integrity, set_project i (\<lambda>p. p\<lparr>
                    ap_workVersion := Some (max 1 version), ap_workIntegrity := Some integrity\<rparr>) d))
             else Inr (version, ap_workIntegrity p, d)) (\<lambda>(artifactVersion, integrity, d').
           bind_result (refuse_artifact (assertArtifactIntegrity sha256 files integrity i artifactVersion
               (Some WorkingArtifact))) (\<lambda>_. Inr (files, d'))))))"

section \<open>Snapshots\<close>

record snapshot_data =
  sd_project :: int
  sd_user :: int
  sd_snapshotVersion :: int
  sd_files :: artifact_files
  sd_fileCount :: int
  sd_manifest :: requirement_manifest

definition insert_snapshot :: "snapshot_row \<Rightarrow> artifact_db \<Rightarrow> (snapshot_error, int \<times> artifact_db) result" where
  "insert_snapshot s d =
    (let i = next_serial sn_id (ad_snapshots d)
     in commit_if snapshot_constraints SnapshotConstraintViolation i
          (d\<lparr>ad_snapshots := ad_snapshots d @ [s\<lparr>sn_id := i\<rparr>]\<rparr>))"

definition snapshot_of :: "snapshot_data \<Rightarrow> artifact_files \<Rightarrow> requirement_manifest \<Rightarrow> artifact_integrity \<Rightarrow> snapshot_row" where
  "snapshot_of sd files manifest integrity =
     \<lparr>sn_id = 0, sn_project = sd_project sd, sn_user = sd_user sd, sn_version = sd_snapshotVersion sd,
      sn_files = files, sn_fileCount = ai_fileCount integrity, sn_manifest = Some manifest,
      sn_integrity = Some integrity, sn_current = False\<rparr>"

definition createBuildSnapshot :: "(string \<Rightarrow> string) \<Rightarrow> snapshot_data \<Rightarrow> artifact_db \<Rightarrow>
    (snapshot_error, int \<times> artifact_db) result" where
  "createBuildSnapshot sha256 sd d =
     bind_result (refuse_manifest (assertMustHaveRequirementsResolved (sd_manifest sd))) (\<lambda>manifest.
     bind_result (refuse_artifact (validateArtifactFiles (sd_files sd))) (\<lambda>files.
       if sd_fileCount sd \<noteq> int (length files) then Inl FileCountMismatch
       else bind_result (locked_project (sd_project sd) d) (\<lambda>p.
         if ap_user p \<noteq> Some (sd_user sd) then Inl NotProjectOwner
         else bind_result (refuse_artifact (buildArtifactIntegrity sha256 (sd_project sd)
             (sd_snapshotVersion sd) FinalArtifact files (ap_workIntegrity p))) (\<lambda>integrity.
           if first_row (\<lambda>s. sn_project s = sd_project sd \<and> sn_version s = sd_snapshotVersion sd)
                (ad_snapshots d) \<noteq> None then Inl VersionExists
           else insert_snapshot (snapshot_of sd files manifest integrity) d))))"

definition createAndActivateBuildSnapshot :: "(string \<Rightarrow> string) \<Rightarrow> snapshot_data \<Rightarrow> artifact_db \<Rightarrow>
    (snapshot_error, (int \<times> artifact_integrity) \<times> artifact_db) result" where
  "createAndActivateBuildSnapshot sha256 sd d =
     bind_result (refuse_manifest (assertMustHaveRequirementsResolved (sd_manifest sd))) (\<lambda>manifest.
     bind_result (refuse_artifact (validateArtifactFiles (sd_files sd))) (\<lambda>files.
       if sd_fileCount sd \<noteq> int (length files) then Inl FileCountMismatch
       else bind_result (locked_project (sd_project sd) d) (\<lambda>p.
         if ap_user p \<noteq> Some (sd_user sd) then Inl NotProjectOwner
         else if first_row (\<lambda>s. sn_project s = sd_project sd \<and> sn_version s = sd_snapshotVersion sd)
              (ad_snapshots d) \<noteq> None then Inl VersionExists
         else bind_result (refuse_artifact (buildArtifactIntegrity sha256 (sd_project sd)
             (sd_snapshotVersion sd) FinalArtifact files (ap_workIntegrity p))) (\<lambda>integrity.
           bind_result (insert_snapshot (snapshot_of sd files manifest integrity) d) (\<lambda>(i, d1).
             Inr ((i, integrity), set_project (sd_project sd)
               (\<lambda>p. p\<lparr>ap_manifest := Some manifest, ap_status := ''validated''\<rparr>)
               (switch_current (sd_project sd) i d1)))))))"

definition getCurrentSnapshot :: "int \<Rightarrow> artifact_db \<Rightarrow> snapshot_row option" where
  "getCurrentSnapshot projectId d = first_row (\<lambda>s. sn_project s = projectId \<and> sn_current s) (ad_snapshots d)"

record current_artifact =
  ca_snapshot :: int
  ca_version :: int
  ca_files :: artifact_files
  ca_integrity :: artifact_integrity

definition verified_snapshot :: "(string \<Rightarrow> string) \<Rightarrow> int \<Rightarrow> snapshot_row \<Rightarrow>
    (snapshot_error, artifact_files \<times> artifact_integrity) result" where
  "verified_snapshot sha256 projectId s =
     bind_result (refuse_artifact (validateArtifactFiles (sn_files s))) (\<lambda>files.
     bind_result (case sn_integrity s of Some i \<Rightarrow> Inr i
        | None \<Rightarrow> refuse_artifact (buildArtifactIntegrity sha256 projectId (sn_version s) FinalArtifact files None)) (\<lambda>persisted.
     bind_result (refuse_artifact (assertArtifactIntegrity sha256 files (Some persisted) projectId (sn_version s)
         (Some FinalArtifact))) (\<lambda>integrity. Inr (files, integrity))))"

definition backfill_integrity :: "snapshot_row \<Rightarrow> int \<Rightarrow> artifact_integrity \<Rightarrow> artifact_db \<Rightarrow> artifact_db" where
  "backfill_integrity s projectId integrity d =
    (if sn_integrity s = None
     then set_snapshots (\<lambda>x. sn_id x = sn_id s \<and> sn_project x = projectId) (\<lambda>x. x\<lparr>sn_integrity := Some integrity\<rparr>) d
     else d)"

definition getSnapshotArtifact :: "(string \<Rightarrow> string) \<Rightarrow> int \<Rightarrow> int \<Rightarrow> artifact_db \<Rightarrow>
    (snapshot_error, current_artifact option \<times> artifact_db) result" where
  "getSnapshotArtifact sha256 snapshotId projectId d =
    (case first_row (\<lambda>s. sn_id s = snapshotId \<and> sn_project s = projectId) (ad_snapshots d) of
       None \<Rightarrow> Inr (None, d)
     | Some s \<Rightarrow> bind_result (verified_snapshot sha256 projectId s) (\<lambda>(files, integrity).
         Inr (Some \<lparr>ca_snapshot = snapshotId, ca_version = sn_version s, ca_files = files, ca_integrity = integrity\<rparr>,
              backfill_integrity s projectId integrity d)))"

definition getCurrentArtifact :: "(string \<Rightarrow> string) \<Rightarrow> int \<Rightarrow> artifact_db \<Rightarrow>
    (snapshot_error, current_artifact option \<times> artifact_db) result" where
  "getCurrentArtifact sha256 projectId d =
    (case getCurrentSnapshot projectId d of
       None \<Rightarrow> Inr (None, d)
     | Some s \<Rightarrow> bind_result (verified_snapshot sha256 projectId s) (\<lambda>(files, integrity).
         bind_result (case sn_manifest s of None \<Rightarrow> Inr None
           | Some m \<Rightarrow> map_sum ManifestRefused Some (validateRequirementManifest m)) (\<lambda>_.
         Inr (Some \<lparr>ca_snapshot = sn_id s, ca_version = sn_version s, ca_files = files, ca_integrity = integrity\<rparr>,
              backfill_integrity s projectId integrity d))))"

definition getProjectFiles :: "(string \<Rightarrow> string) \<Rightarrow> int \<Rightarrow> artifact_db \<Rightarrow>
    (snapshot_error, artifact_files \<times> artifact_db) result" where
  "getProjectFiles sha256 projectId d = bind_result (getCurrentArtifact sha256 projectId d) (\<lambda>(a, d').
     Inr (case a of None \<Rightarrow> [] | Some x \<Rightarrow> ca_files x, d'))"

definition getEditableProjectFiles :: "(string \<Rightarrow> string) \<Rightarrow> int \<Rightarrow> artifact_db \<Rightarrow>
    (snapshot_error, artifact_files \<times> artifact_db) result" where
  "getEditableProjectFiles sha256 projectId d =
     bind_result (getWorkingProjectFiles sha256 projectId d) (\<lambda>(working, d').
       if working \<noteq> [] then Inr (working, d') else getProjectFiles sha256 projectId d')"

definition markSnapshotAsCurrent :: "(string \<Rightarrow> string) \<Rightarrow> int \<Rightarrow> int \<Rightarrow> artifact_db \<Rightarrow>
    (snapshot_error, unit \<times> artifact_db) result" where
  "markSnapshotAsCurrent sha256 snapshotId projectId d =
    (case first_row (\<lambda>s. sn_id s = snapshotId \<and> sn_project s = projectId) (ad_snapshots d) of
       None \<Rightarrow> Inl SnapshotMissing
     | Some s \<Rightarrow>
       bind_result (required_manifest (sn_manifest s)) (\<lambda>manifest.
       bind_result (verified_snapshot sha256 projectId s) (\<lambda>(files, integrity).
         Inr ((), set_project projectId (\<lambda>p. p\<lparr>ap_manifest := Some manifest, ap_status := ''validated''\<rparr>)
           (switch_current projectId snapshotId (backfill_integrity s projectId integrity d))))))"

definition max_version :: "int \<Rightarrow> artifact_db \<Rightarrow> int" where
  "max_version projectId d = fold max (map sn_version (rows_where (\<lambda>s. sn_project s = projectId) (ad_snapshots d))) 0"

definition getNextVersion :: "int \<Rightarrow> artifact_db \<Rightarrow> int" where
  "getNextVersion projectId d = max_version projectId d + 1"

definition appendArtifactToCurrentSnapshot :: "(string \<Rightarrow> string) \<Rightarrow> int \<Rightarrow> string \<Rightarrow> string \<Rightarrow> artifact_db \<Rightarrow>
    (snapshot_error, current_artifact \<times> artifact_db) result" where
  "appendArtifactToCurrentSnapshot sha256 projectId path content d =
     bind_result (locked_project projectId d) (\<lambda>p.
     case ap_user p of None \<Rightarrow> Inl ProjectMissing | Some owner \<Rightarrow>
     if owner = 0 then Inl ProjectMissing
     else case getCurrentSnapshot projectId d of None \<Rightarrow> Inl NoCurrentSnapshot
     | Some current \<Rightarrow>
       bind_result (verified_snapshot sha256 projectId current) (\<lambda>(currentFiles, currentIntegrity).
       bind_result (refuse_artifact (validateArtifactFiles (AList.update path content currentFiles))) (\<lambda>files.
         let version = max_version projectId d + 1 in
         bind_result (required_manifest (or_else (sn_manifest current) (ap_manifest p))) (\<lambda>manifest.
         bind_result (refuse_artifact (buildArtifactIntegrity sha256 projectId version FinalArtifact files
             (Some currentIntegrity))) (\<lambda>integrity.
         bind_result (insert_snapshot \<lparr>sn_id = 0, sn_project = projectId, sn_user = owner,
             sn_version = version, sn_files = files, sn_fileCount = ai_fileCount integrity,
             sn_manifest = Some manifest, sn_integrity = Some integrity, sn_current = False\<rparr> d) (\<lambda>(i, d1).
         let workVersion = (case ap_workVersion p of None \<Rightarrow> 0 | Some v \<Rightarrow> v) + 1 in
         bind_result (refuse_artifact (buildArtifactIntegrity sha256 projectId workVersion WorkingArtifact files
             (or_else (ap_workIntegrity p) (Some currentIntegrity)))) (\<lambda>work.
           Inr (\<lparr>ca_snapshot = i, ca_version = version, ca_files = files, ca_integrity = integrity\<rparr>,
             set_project projectId (\<lambda>p. p\<lparr>ap_files := Some files, ap_workVersion := Some workVersion,
                 ap_workIntegrity := Some work, ap_manifest := Some manifest, ap_status := ''validated''\<rparr>)
               (switch_current projectId i d1))))))))) "

definition updateProjectRequirementManifest :: "int \<Rightarrow> requirement_manifest \<Rightarrow> artifact_db \<Rightarrow>
    (snapshot_error, unit \<times> artifact_db) result" where
  "updateProjectRequirementManifest projectId m d =
     bind_result (refuse_manifest (validateRequirementManifest m)) (\<lambda>validated.
       Inr ((), set_project projectId (\<lambda>p. p\<lparr>ap_manifest := Some validated\<rparr>) d))"

definition persistRequirementDeploymentEvidence :: "int \<Rightarrow> requirement_manifest \<Rightarrow> artifact_db \<Rightarrow>
    (snapshot_error, unit \<times> artifact_db) result" where
  "persistRequirementDeploymentEvidence projectId m d =
     bind_result (refuse_manifest (validateRequirementManifest m)) (\<lambda>validated.
       let d1 = set_project projectId (\<lambda>p. p\<lparr>ap_manifest := Some validated\<rparr>) d in
       Inr ((), case getCurrentSnapshot projectId d1 of None \<Rightarrow> d1
         | Some s \<Rightarrow> set_snapshots (\<lambda>x. sn_id x = sn_id s) (\<lambda>x. x\<lparr>sn_manifest := Some validated\<rparr>) d1))"

section \<open>Editing saved files\<close>

definition safeProjectPath :: "string \<Rightarrow> bool" where
  "safeProjectPath path =
    (let normalized = map (\<lambda>c. if c = CHR 0x5C then CHR ''/'' else c) path
     in normalized \<noteq> [] \<and> \<not> starts_with ''/'' normalized \<and> ''..'' \<notin> set (split_slash normalized))"

definition saved_files_unchanged :: "(string \<Rightarrow> string) \<Rightarrow> artifact_project \<Rightarrow> artifact_files \<Rightarrow>
    (snapshot_error, unit) result" where
  \<comment> \<open>the stored working files, checked against the ones the edit started from\<close>
  "saved_files_unchanged sha256 p originalFiles =
     bind_result (case ap_files p of None \<Rightarrow> Inr []
         | Some stored \<Rightarrow> refuse_artifact (validateArtifactFiles stored)) (\<lambda>workingFiles.
       let currentFiles = (if workingFiles \<noteq> [] then workingFiles else originalFiles) in
       bind_result
        (if ap_workIntegrity p \<noteq> None \<and> workingFiles \<noteq> [] then
           (case ap_workVersion p of None \<Rightarrow> Inl (ArtifactRefused IntegrityForeign)
            | Some v \<Rightarrow> map_sum ArtifactRefused (\<lambda>_. ()) (assertArtifactIntegrity sha256 currentFiles
                (ap_workIntegrity p) (ap_id p) v (Some WorkingArtifact)))
         else Inr ()) (\<lambda>_.
       if length currentFiles \<noteq> length originalFiles \<or>
          list_ex (\<lambda>(path, content). map_of originalFiles path \<noteq> Some content) currentFiles
       then Inl SavedFilesChanged else Inr ()))"

definition commitProjectFilesSnapshot :: "(string \<Rightarrow> string) \<Rightarrow> int \<Rightarrow> int \<Rightarrow> artifact_files \<Rightarrow> artifact_files \<Rightarrow>
    artifact_db \<Rightarrow> (snapshot_error, (int \<times> int) \<times> artifact_db) result" where
  "commitProjectFilesSnapshot sha256 projectId userId files originalFiles d =
    (case first_row (\<lambda>p. ap_id p = projectId) (ad_projects d) of None \<Rightarrow> Inl ProjectMissing
     | Some p \<Rightarrow>
       if ap_user p \<noteq> Some userId then Inl ProjectMissing
       else if ap_status p = ''running'' then Inl BuildRunning
       else bind_result (saved_files_unchanged sha256 p originalFiles) (\<lambda>_.
         let workVersion = (case ap_workVersion p of None \<Rightarrow> 0 | Some v \<Rightarrow> v) + 1;
             version = max_version projectId d + 1 in
         bind_result (refuse_artifact (buildArtifactIntegrity sha256 projectId workVersion WorkingArtifact files
             (ap_workIntegrity p))) (\<lambda>work.
         bind_result (refuse_artifact (buildArtifactIntegrity sha256 projectId version WorkingArtifact files
             (ap_workIntegrity p))) (\<lambda>integrity.
         bind_result (insert_snapshot \<lparr>sn_id = 0, sn_project = projectId, sn_user = userId,
             sn_version = version, sn_files = files, sn_fileCount = int (length files),
             sn_manifest = None, sn_integrity = Some integrity, sn_current = False\<rparr> d) (\<lambda>(i, d1).
           Inr ((i, version), set_project projectId (\<lambda>p. p\<lparr>ap_files := Some files,
             ap_workVersion := Some workVersion, ap_workIntegrity := Some work\<rparr>) d1))))))"

text \<open>
  The edit of one file: \<open>valid\<close> is the answer of the single-file check. The read of the editable
  files is a transaction of its own, so the commit sees the database after \<open>between\<close>.
\<close>

definition commitValidatedProjectFileEdit :: "(string \<Rightarrow> string) \<Rightarrow> int \<Rightarrow> int \<Rightarrow> string \<Rightarrow> string \<Rightarrow> bool \<Rightarrow> bool \<Rightarrow> bool \<Rightarrow>
    (artifact_db \<Rightarrow> artifact_db) \<Rightarrow> artifact_db \<Rightarrow> (snapshot_error, (int \<times> int) \<times> artifact_db) result" where
  "commitValidatedProjectFileEdit sha256 projectId userId path content requireValid allowCreate valid between d =
    (if \<not> safeProjectPath path then Inl InvalidEditPath
     else bind_result (getEditableProjectFiles sha256 projectId d) (\<lambda>(files, d1).
       if path \<notin> fst ` set files \<and> path \<notin> set OBJECT_PROTOTYPE_KEYS \<and> \<not> allowCreate then Inl FileNotFound
       else if \<not> valid \<and> requireValid then Inl FileInvalid
       else commitProjectFilesSnapshot sha256 projectId userId (AList.update path content files) files (between d1)))"

section \<open>Recovery checkpoints\<close>

record checkpoint_input =
  ci_project :: int
  ci_snapshot :: int
  ci_version :: int
  ci_sha :: string
  ci_source :: checkpoint_source
  ci_deployment :: "int option"
  ci_manifestSha :: "string option"
  ci_url :: "string option"

definition SHA256_text :: "string \<Rightarrow> bool" where
  "SHA256_text s = in_class (\<lambda>c. is_digit c \<or> CHR ''a'' \<le> c \<and> c \<le> CHR ''f'' \<or> CHR ''A'' \<le> c \<and> c \<le> CHR ''F'') 64 64 s"

definition checkpoint_of :: "checkpoint_input \<Rightarrow> int \<Rightarrow> int \<Rightarrow> checkpoint_row" where
  "checkpoint_of c now i = \<lparr>rc_id = i, rc_project = ci_project c, rc_snapshot = ci_snapshot c,
     rc_version = ci_version c, rc_sha = ci_sha c, rc_deployment = ci_deployment c,
     rc_manifestSha = ci_manifestSha c, rc_url = ci_url c, rc_source = ci_source c, rc_createdAt = now\<rparr>"

definition recordKnownGoodCheckpoint :: "checkpoint_input \<Rightarrow> int \<Rightarrow> artifact_db \<Rightarrow>
    (snapshot_error, checkpoint_row \<times> artifact_db) result" where
  "recordKnownGoodCheckpoint c now d =
    (if ci_version c < 1 \<or> \<not> SHA256_text (ci_sha c) \<or>
        (case ci_manifestSha c of None \<Rightarrow> False | Some s \<Rightarrow> s \<noteq> [] \<and> \<not> SHA256_text s) \<or>
        ci_source c = ProductionVerified \<and>
          ((case ci_deployment c of None \<Rightarrow> True | Some v \<Rightarrow> v = 0) \<or>
           (case ci_url c of None \<Rightarrow> True | Some u \<Rightarrow> u = []))
     then Inl BadCheckpoint
     else case first_row (\<lambda>s. sn_id s = ci_snapshot c \<and> sn_project s = ci_project c) (ad_snapshots d) of
       None \<Rightarrow> Inl SnapshotMissing
     | Some s \<Rightarrow>
       if sn_version s \<noteq> ci_version c then Inl CheckpointVersionMismatch
       else if map_option ai_sha (sn_integrity s) \<noteq> Some (ci_sha c) then Inl CheckpointHashMismatch
       else
         (case first_row (\<lambda>x. checkpoint_key x = (ci_project c, ci_version c, ci_source c)) (ad_checkpoints d) of
            Some existing \<Rightarrow>
              let row = checkpoint_of c now (rc_id existing)
              in Inr (row, d\<lparr>ad_checkpoints := update_where (\<lambda>x. rc_id x = rc_id existing) (\<lambda>_. row) (ad_checkpoints d)\<rparr>)
          | None \<Rightarrow>
              let row = checkpoint_of c now (next_serial rc_id (ad_checkpoints d))
              in Inr (row, d\<lparr>ad_checkpoints := ad_checkpoints d @ [row]\<rparr>)))"

fun newest :: "checkpoint_row list \<Rightarrow> checkpoint_row option" where
  "newest [] = None"
| "newest (c # cs) = (case newest cs of None \<Rightarrow> Some c
     | Some x \<Rightarrow> if rc_createdAt x > rc_createdAt c then Some x else Some c)"

definition getLatestKnownGoodCheckpoint :: "int \<Rightarrow> bool \<Rightarrow> artifact_db \<Rightarrow> checkpoint_row option" where
  "getLatestKnownGoodCheckpoint projectId productionOnly d =
     newest (rows_where (\<lambda>c. rc_project c = projectId \<and> (productionOnly \<longrightarrow> rc_source c = ProductionVerified))
       (ad_checkpoints d))"

definition recoverLatest :: "(string \<Rightarrow> string) \<Rightarrow> int \<Rightarrow> int \<Rightarrow> bool \<Rightarrow> artifact_db \<Rightarrow>
    (snapshot_error, checkpoint_row \<times> artifact_db) result" where
  \<comment> \<open>the procedure that restores the latest known-good checkpoint\<close>
  "recoverLatest sha256 projectId userId productionOnly d =
    (case first_row (\<lambda>p. ap_id p = projectId) (ad_projects d) of None \<Rightarrow> Inl NotProjectOwner
     | Some p \<Rightarrow>
       if ap_user p \<noteq> Some userId then Inl NotProjectOwner
       else case getLatestKnownGoodCheckpoint projectId productionOnly d of None \<Rightarrow> Inl NoCheckpoint
       | Some c \<Rightarrow> bind_result (markSnapshotAsCurrent sha256 (rc_snapshot c) projectId d) (\<lambda>(_, d'). Inr (c, d')))"

definition rollbackTo :: "(string \<Rightarrow> string) \<Rightarrow> int \<Rightarrow> int \<Rightarrow> int \<Rightarrow> artifact_db \<Rightarrow>
    (snapshot_error, int \<times> artifact_db) result" where
  \<comment> \<open>the procedure \<open>rollback\<close>\<close>
  "rollbackTo sha256 projectId userId snapshotId d =
    (case first_row (\<lambda>p. ap_id p = projectId) (ad_projects d) of None \<Rightarrow> Inl NotProjectOwner
     | Some p \<Rightarrow>
       if ap_user p \<noteq> Some userId then Inl NotProjectOwner
       else case first_row (\<lambda>s. sn_id s = snapshotId) (ad_snapshots d) of None \<Rightarrow> Inl SnapshotMissing
       | Some s \<Rightarrow> if sn_project s \<noteq> projectId then Inl SnapshotMissing
          else bind_result (markSnapshotAsCurrent sha256 snapshotId projectId d) (\<lambda>(_, d'). Inr (sn_version s, d')))"

section \<open>Files already validated\<close>

text \<open>A validated path that is validated again is left as it is.\<close>

lemma first_segment: "split_slash s \<noteq> [] \<and> (starts_with ''./'' s \<longrightarrow> hd (split_slash s) = ''.'')"
  by (auto simp: starts_with_iff)

lemma proper_segments:
  assumes "n \<in> set (normal_segments p)"
  shows "n \<noteq> ''.''" "CHR ''/'' \<notin> set n"
proof -
  obtain k names where segs: "normal_segments p = replicate k ''..'' @ names"
    and names: "\<forall>n \<in> set names. n \<noteq> [] \<and> n \<noteq> ''.'' \<and> n \<noteq> ''..'' \<and> CHR ''/'' \<notin> set n"
    using climbing_normal [of p] by (auto simp: climbing_def)
  from assms have "n = ''..'' \<or> n \<in> set names" unfolding segs by (simp add: in_set_replicate) blast
  then have "n \<noteq> ''.'' \<and> CHR ''/'' \<notin> set n"
  proof
    assume "n \<in> set names"
    from bspec [OF names this] show ?thesis by simp
  qed simp
  then show "n \<noteq> ''.''" "CHR ''/'' \<notin> set n" by simp_all
qed

lemma normalized_body:
  assumes "starts_with ''./'' (posix_normalize p)" "posix_normalize p \<noteq> ''./''"
  shows "join_slash (normal_segments p) \<noteq> []"
    "posix_normalize p = join_slash (normal_segments p) \<or> posix_normalize p = join_slash (normal_segments p) @ ''/''"
proof -
  show body: "join_slash (normal_segments p) \<noteq> []"
  proof
    assume "join_slash (normal_segments p) = []"
    then have "posix_normalize p = ''.''" using assms(2) by (auto simp: posix_normalize_def Let_def)
    with assms(1) show False by (simp add: starts_with_def)
  qed
  then show "posix_normalize p = join_slash (normal_segments p) \<or> posix_normalize p = join_slash (normal_segments p) @ ''/''"
    by (simp add: posix_normalize_def Let_def)
qed

lemma normalized_dot_slash:
  assumes "starts_with ''./'' (posix_normalize p)"
  shows "posix_normalize p = ''./''"
proof (rule ccontr)
  assume "posix_normalize p \<noteq> ''./''"
  note body = normalized_body [OF assms this]
  then have segs: "normal_segments p \<noteq> []" by auto
  then have "split_slash (join_slash (normal_segments p)) = normal_segments p"
    by (rule split_join) (rule proper_segments)
  with body(2) segs have "hd (split_slash (posix_normalize p)) = hd (normal_segments p)" by (auto simp: split_trailing)
  with first_segment [of "posix_normalize p"] assms have "hd (normal_segments p) = ''.''" by simp
  with proper_segments(1) [OF hd_in_set [OF segs]] show False by simp
qed

lemma safe_path_normal:
  assumes "safeArtifactPath p = Inr q"
  shows "q = posix_normalize p" "q = drop_dot_slash p"
proof -
  have "posix_normalize p = q" "posix_normalize p = drop_dot_slash p"
    using assms unfolding safeArtifactPath_def Let_def by (metis Inl_Inr_False sum.inject(2))+
  then show "q = posix_normalize p" "q = drop_dot_slash p" by simp_all
qed

lemma safe_path_again:
  assumes "safeArtifactPath p = Inr q" "safeArtifactPath q = Inr q'"
  shows "q' = q"
proof -
  have "\<not> starts_with ''./'' q"
  proof
    assume "starts_with ''./'' q"
    with normalized_dot_slash safe_path_normal(1) [OF assms(1)] have "q = ''./''" by simp
    moreover have "safeArtifactPath ''./'' = Inl (PathEscapes ''./'')" by code_simp
    ultimately show False using assms(2) by simp
  qed
  then show ?thesis using safe_path_normal(2) [OF assms(2)]
    by (simp add: drop_dot_slash_def strip_prefix_def starts_with_def)
qed

lemma validate_entries_again:
  assumes "validate_entries es out used = Inr files" "\<forall>(q, c) \<in> set es. \<exists>p. safeArtifactPath p = Inr q"
  shows "files = out @ es"
  using assms
proof (induction es out used arbitrary: files rule: validate_entries.induct)
  case (2 raw content es out used)
  from "2.prems"(1) obtain path where path: "safeArtifactPath raw = Inr path" "path \<notin> fst ` set out"
      "path \<notin> set OBJECT_PROTOTYPE_KEYS" "\<not> byteLength content > MAX_ARTIFACT_FILE_BYTES"
      "\<not> used + byteLength content > MAX_ARTIFACT_TOTAL_BYTES"
      "validate_entries es (out @ [(path, content)]) (used + byteLength content) = Inr files"
    by (auto split: if_splits)
  with "2.prems"(2) have "path = raw" by (auto intro: safe_path_again)
  with "2.IH" [of path files] path "2.prems"(2) show ?case by auto
qed simp

lemma validate_entries_paths:
  assumes "validate_entries es out used = Inr files" "\<forall>(q, c) \<in> set out. \<exists>p. safeArtifactPath p = Inr q"
  shows "\<forall>(q, c) \<in> set files. \<exists>p. safeArtifactPath p = Inr q"
  using assms
proof (induction es out used arbitrary: files rule: validate_entries.induct)
  case (2 raw content es out used)
  from "2.prems"(1) obtain path where path: "safeArtifactPath raw = Inr path" "path \<notin> fst ` set out"
      "path \<notin> set OBJECT_PROTOTYPE_KEYS" "\<not> byteLength content > MAX_ARTIFACT_FILE_BYTES"
      "\<not> used + byteLength content > MAX_ARTIFACT_TOTAL_BYTES"
      "validate_entries es (out @ [(path, content)]) (used + byteLength content) = Inr files"
    by (auto split: if_splits)
  with "2.IH" [of path files] "2.prems"(2) show ?case by auto
qed simp

lemma validated_again: "validateArtifactFiles raw = Inr files \<Longrightarrow> validateArtifactFiles files = Inr files' \<Longrightarrow> files' = files"
  using validate_entries_paths [of raw "[]" 0 files] validate_entries_again [of files "[]" 0 files']
  by (auto simp: validateArtifactFiles_def split: if_splits)

section \<open>Every interleaving\<close>

inductive artifact_step :: "(string \<Rightarrow> string) \<Rightarrow> artifact_db \<Rightarrow> artifact_db \<Rightarrow> bool" for sha256 where
  save: "updateProjectFiles sha256 i files d = Inr (integrity, d') \<Longrightarrow> artifact_step sha256 d d'"
| read_working: "getWorkingProjectFiles sha256 i d = Inr (files, d') \<Longrightarrow> artifact_step sha256 d d'"
| read_snapshot: "getSnapshotArtifact sha256 s i d = Inr (a, d') \<Longrightarrow> artifact_step sha256 d d'"
| read_current: "getCurrentArtifact sha256 i d = Inr (a, d') \<Longrightarrow> artifact_step sha256 d d'"
| create: "createBuildSnapshot sha256 sd d = Inr (n, d') \<Longrightarrow> artifact_step sha256 d d'"
| activate: "createAndActivateBuildSnapshot sha256 sd d = Inr (r, d') \<Longrightarrow> artifact_step sha256 d d'"
| rollback: "markSnapshotAsCurrent sha256 s i d = Inr (u, d') \<Longrightarrow> artifact_step sha256 d d'"
| append: "appendArtifactToCurrentSnapshot sha256 i path content d = Inr (a, d') \<Longrightarrow> artifact_step sha256 d d'"
| edit: "commitProjectFilesSnapshot sha256 i user files originalFiles d = Inr (r, d') \<Longrightarrow> artifact_step sha256 d d'"
| manifest: "updateProjectRequirementManifest i m d = Inr (u, d') \<Longrightarrow> artifact_step sha256 d d'"
| evidence: "persistRequirementDeploymentEvidence i m d = Inr (u, d') \<Longrightarrow> artifact_step sha256 d d'"
| checkpoint: "recordKnownGoodCheckpoint c now d = Inr (row, d') \<Longrightarrow> artifact_step sha256 d d'"
| other_columns: "ad_snapshots d' = ad_snapshots d \<Longrightarrow> ad_checkpoints d' = ad_checkpoints d \<Longrightarrow> artifact_step sha256 d d'"

text \<open>
  A snapshot can be served when its integrity record is final, or missing as in rows older than
  integrity records; it is sound when what could be served passes the integrity check.
\<close>

definition servable :: "snapshot_row \<Rightarrow> bool" where
  "servable s = (case sn_integrity s of None \<Rightarrow> True | Some i \<Rightarrow> ai_state i = FinalArtifact)"

definition snapshot_ok :: "(string \<Rightarrow> string) \<Rightarrow> snapshot_row \<Rightarrow> bool" where
  "snapshot_ok sha256 s \<longleftrightarrow> 0 < sn_project s \<and> 0 < sn_version s \<and> (sn_current s \<longrightarrow> servable s) \<and>
     (case sn_manifest s of None \<Rightarrow> True | Some m \<Rightarrow> validateRequirementManifest m = Inr m) \<and>
     (servable s \<longrightarrow> validateArtifactFiles (sn_files s) = Inr (sn_files s) \<and>
       (case sn_integrity s of None \<Rightarrow> True
        | Some i \<Rightarrow> assertArtifactIntegrity sha256 (sn_files s) (Some i) (sn_project s) (sn_version s)
            (Some FinalArtifact) = Inr i))"

definition same_snapshot :: "snapshot_row \<Rightarrow> snapshot_row \<Rightarrow> bool" where
  "same_snapshot s s' \<longleftrightarrow> sn_id s' = sn_id s \<and> sn_project s' = sn_project s \<and> sn_user s' = sn_user s \<and>
     sn_version s' = sn_version s \<and> sn_files s' = sn_files s \<and> sn_fileCount s' = sn_fileCount s \<and>
     (sn_integrity s \<noteq> None \<longrightarrow> sn_integrity s' = sn_integrity s)"

definition checkpoint_ok :: "snapshot_row list \<Rightarrow> checkpoint_row \<Rightarrow> bool" where
  "checkpoint_ok ss c \<longleftrightarrow> (\<exists>s \<in> set ss. sn_id s = rc_snapshot c \<and> sn_project s = rc_project c \<and>
     sn_version s = rc_version c \<and> map_option ai_sha (sn_integrity s) = Some (rc_sha c))"

definition one_current :: "snapshot_row list \<Rightarrow> bool" where
  "one_current ss \<longleftrightarrow> inj_on sn_project {s \<in> set ss. sn_current s}"

definition artifacts_ok :: "(string \<Rightarrow> string) \<Rightarrow> artifact_db \<Rightarrow> bool" where
  "artifacts_ok sha256 d \<longleftrightarrow> distinct (map sn_id (ad_snapshots d)) \<and>
     distinct (map snapshot_key (ad_snapshots d)) \<and> one_current (ad_snapshots d) \<and>
     (\<forall>s \<in> set (ad_snapshots d). snapshot_ok sha256 s) \<and>
     (\<forall>c \<in> set (ad_checkpoints d). checkpoint_ok (ad_snapshots d) c)"

text \<open>The three ways a transaction changes the snapshots, as a relation on the table.\<close>

definition rows_kept :: "snapshot_row list \<Rightarrow> snapshot_row list \<Rightarrow> bool" where
  "rows_kept ss ss' \<longleftrightarrow> (\<forall>s \<in> set ss. \<exists>s' \<in> set ss'. same_snapshot s s')"

lemma same_snapshot_refl [simp]: "same_snapshot s s"
  by (simp add: same_snapshot_def)

lemma same_snapshot_trans: "same_snapshot s t \<Longrightarrow> same_snapshot t u \<Longrightarrow> same_snapshot s u"
  by (auto simp: same_snapshot_def)

lemma rows_kept_refl [simp]: "rows_kept ss ss"
  unfolding rows_kept_def by (meson same_snapshot_refl)

lemma rows_kept_trans: "rows_kept ss ts \<Longrightarrow> rows_kept ts us \<Longrightarrow> rows_kept ss us"
  unfolding rows_kept_def by (meson same_snapshot_trans)

lemma rows_kept_append [simp]: "rows_kept ss (ss @ ts)"
  unfolding rows_kept_def by (metis Un_iff same_snapshot_refl set_append)

lemma rows_kept_update:
  "(\<And>s. s \<in> set ss \<Longrightarrow> P s \<Longrightarrow> same_snapshot s (f s)) \<Longrightarrow> rows_kept ss (update_where P f ss)"
  unfolding rows_kept_def set_update_where
  by (intro ballI, rule_tac x = "if P s then f s else s" in bexI) simp_all

lemma checkpoints_kept: "rows_kept ss ss' \<Longrightarrow> checkpoint_ok ss c \<Longrightarrow> checkpoint_ok ss' c"
  unfolding rows_kept_def checkpoint_ok_def same_snapshot_def by fastforce

lemma one_current_iff:
  "distinct (map sn_id ss) \<Longrightarrow> distinct (map sn_project (filter sn_current ss)) \<longleftrightarrow> one_current ss"
  by (simp add: one_current_def distinct_map)

lemma one_current_same: "one_current ss \<Longrightarrow> s \<in> set ss \<Longrightarrow> t \<in> set ss \<Longrightarrow> sn_current s \<Longrightarrow> sn_current t \<Longrightarrow>
    sn_project s = sn_project t \<Longrightarrow> s = t"
  by (auto simp: one_current_def dest: inj_onD)

text \<open>Updating rows without touching their identity, files or current flag.\<close>

lemma update_same_keys:
  assumes "\<And>s. s \<in> set ss \<Longrightarrow> P s \<Longrightarrow> same_snapshot s (f s) \<and> sn_current (f s) = sn_current s"
  shows "map sn_id (update_where P f ss) = map sn_id ss"
    "map snapshot_key (update_where P f ss) = map snapshot_key ss"
    "map sn_project (filter sn_current (update_where P f ss)) = map sn_project (filter sn_current ss)"
  using assms by (induction ss) (simp_all add: update_where_def same_snapshot_def snapshot_key_def)

lemma update_keeps_ok:
  assumes ok: "artifacts_ok sha256 d" and ss: "ad_snapshots d' = update_where P f (ad_snapshots d)"
      "ad_checkpoints d' = ad_checkpoints d"
    and f: "\<And>s. s \<in> set (ad_snapshots d) \<Longrightarrow> P s \<Longrightarrow> same_snapshot s (f s) \<and> sn_current (f s) = sn_current s \<and> snapshot_ok sha256 (f s)"
  shows "artifacts_ok sha256 d' \<and> rows_kept (ad_snapshots d) (ad_snapshots d')"
proof -
  have kept: "rows_kept (ad_snapshots d) (ad_snapshots d')" unfolding ss by (rule rows_kept_update) (use f in blast)
  have keys: "map sn_id (ad_snapshots d') = map sn_id (ad_snapshots d)"
    "map snapshot_key (ad_snapshots d') = map snapshot_key (ad_snapshots d)"
    "map sn_project (filter sn_current (ad_snapshots d')) = map sn_project (filter sn_current (ad_snapshots d))"
    unfolding ss by (rule update_same_keys; use f in blast)+
  with ok have "one_current (ad_snapshots d')"
    by (metis artifacts_ok_def one_current_iff)
  moreover have "\<forall>s \<in> set (ad_snapshots d'). snapshot_ok sha256 s"
    using ok f by (auto simp: ss set_update_where artifacts_ok_def)
  ultimately show ?thesis using ok keys kept checkpoints_kept by (auto simp: artifacts_ok_def ss(2))
qed

text \<open>Projects are rows of their own: changing them keeps everything said of the snapshots.\<close>

lemma project_frame [simp]:
  "ad_snapshots (set_project i f d) = ad_snapshots d" "ad_checkpoints (set_project i f d) = ad_checkpoints d"
  "artifacts_ok sha256 (set_project i f d) = artifacts_ok sha256 d"
  "getCurrentSnapshot p (set_project i f d) = getCurrentSnapshot p d"
  by (simp_all add: set_project_def artifacts_ok_def getCurrentSnapshot_def)

lemma set_snapshots_sel [simp]:
  "ad_snapshots (set_snapshots P f d) = update_where P f (ad_snapshots d)"
  "ad_checkpoints (set_snapshots P f d) = ad_checkpoints d"
  by (simp_all add: set_snapshots_def)

definition switched :: "int \<Rightarrow> int \<Rightarrow> snapshot_row \<Rightarrow> snapshot_row" where
  "switched p i s = (if sn_project s = p then s\<lparr>sn_current := (sn_id s = i)\<rparr> else s)"

lemma switch_rows:
  "ad_snapshots (switch_current p i d) = map (switched p i) (ad_snapshots d)"
  "ad_checkpoints (switch_current p i d) = ad_checkpoints d"
  by (auto simp: switch_current_def update_where_def switched_def)

lemma switched_same [simp]: "same_snapshot s (switched p i s)" "sn_id (switched p i s) = sn_id s"
    "sn_project (switched p i s) = sn_project s" "snapshot_key (switched p i s) = snapshot_key s"
  by (simp_all add: switched_def same_snapshot_def snapshot_key_def)

lemma same_id: "artifacts_ok sha256 d \<Longrightarrow> s \<in> set (ad_snapshots d) \<Longrightarrow> t \<in> set (ad_snapshots d) \<Longrightarrow>
    sn_id s = sn_id t \<Longrightarrow> s = t"
  by (rule distinct_key_eq [of sn_id "ad_snapshots d"]) (simp_all add: artifacts_ok_def)

lemma snapshot_ok_flag: "snapshot_ok sha256 s \<Longrightarrow> (b \<longrightarrow> servable s) \<Longrightarrow> snapshot_ok sha256 (s\<lparr>sn_current := b\<rparr>)"
  by (cases "sn_integrity s") (auto simp: snapshot_ok_def servable_def)

lemma switch_keeps_ok:
  assumes ok: "artifacts_ok sha256 d" and s: "s \<in> set (ad_snapshots d)" "sn_id s = i" "sn_project s = p" "servable s"
  shows "artifacts_ok sha256 (switch_current p i d)"
    "rows_kept (ad_snapshots d) (ad_snapshots (switch_current p i d))"
    "getCurrentSnapshot p (switch_current p i d) = Some (s\<lparr>sn_current := True\<rparr>)"
proof -
  let ?ss = "ad_snapshots (switch_current p i d)"
  show kept: "rows_kept (ad_snapshots d) ?ss"
    unfolding rows_kept_def switch_rows by (intro ballI, rule_tac x = "switched p i s" in bexI) simp_all
  have only: "t = s" if "t \<in> set (ad_snapshots d)" "sn_id t = i" for t
    using same_id [OF ok that(1) s(1)] that(2) s(2) by simp
  have one: "one_current ?ss"
  proof (unfold one_current_def, rule inj_onI, clarify)
    fix x y assume xy: "x \<in> set ?ss" "y \<in> set ?ss" "sn_current x" "sn_current y" "sn_project x = sn_project y"
    then obtain a b where ab: "a \<in> set (ad_snapshots d)" "b \<in> set (ad_snapshots d)" "x = switched p i a" "y = switched p i b"
      by (auto simp: switch_rows)
    have "a = b"
    proof (cases "sn_project a = p")
      case True
      with ab xy have "sn_id a = i" "sn_id b = i" by (simp_all add: switched_def split: if_splits)
      then show ?thesis using only [OF ab(1)] only [OF ab(2)] by simp
    next
      case False
      with ab xy have "sn_current a" "sn_current b" "sn_project a = sn_project b"
        by (simp_all add: switched_def split: if_splits)
      with ab ok show ?thesis by (auto simp: artifacts_ok_def dest: one_current_same)
    qed
    with ab show "x = y" by simp
  qed
  have "\<forall>t \<in> set ?ss. snapshot_ok sha256 t"
    using ok only s(4) by (auto simp: switch_rows switched_def artifacts_ok_def intro!: snapshot_ok_flag)
  with ok one kept checkpoints_kept show "artifacts_ok sha256 (switch_current p i d)"
    by (auto simp: artifacts_ok_def switch_rows comp_def)
  have "\<exists>x. first_row (\<lambda>x. sn_project x = p \<and> sn_current x) ?ss = Some x"
  proof (rule ccontr)
    assume "\<nexists>x. first_row (\<lambda>x. sn_project x = p \<and> sn_current x) ?ss = Some x"
    then have "first_row (\<lambda>x. sn_project x = p \<and> sn_current x) ?ss = None" by simp
    moreover have "switched p i s \<in> set ?ss" using s(1) by (simp add: switch_rows)
    ultimately show False using s by (simp add: first_row_None) (auto simp: switched_def)
  qed
  then obtain x where x: "first_row (\<lambda>x. sn_project x = p \<and> sn_current x) ?ss = Some x" by blast
  with first_row_Some [OF x] obtain a where "a \<in> set (ad_snapshots d)" "x = switched p i a" "sn_project a = p" "sn_current x"
    by (auto simp: switch_rows)
  with only have "x = s\<lparr>sn_current := True\<rparr>" using s by (auto simp: switched_def)
  with x show "getCurrentSnapshot p (switch_current p i d) = Some (s\<lparr>sn_current := True\<rparr>)"
    by (simp add: getCurrentSnapshot_def)
qed

lemma insert_keeps_ok:
  assumes ok: "artifacts_ok sha256 d" and ins: "insert_snapshot s d = Inr (i, d')"
    and s: "\<not> sn_current s" "snapshot_ok sha256 (s\<lparr>sn_id := i\<rparr>)"
  shows "artifacts_ok sha256 d'" "rows_kept (ad_snapshots d) (ad_snapshots d')"
    "ad_snapshots d' = ad_snapshots d @ [s\<lparr>sn_id := i\<rparr>]" "ad_projects d' = ad_projects d"
proof -
  have i: "i = next_serial sn_id (ad_snapshots d)" and d': "d' = d\<lparr>ad_snapshots := ad_snapshots d @ [s\<lparr>sn_id := i\<rparr>]\<rparr>"
    and con: "snapshot_constraints d'"
    using ins by (auto simp: insert_snapshot_def Let_def)
  show "ad_snapshots d' = ad_snapshots d @ [s\<lparr>sn_id := i\<rparr>]" "ad_projects d' = ad_projects d" by (simp_all add: d')
  show kept: "rows_kept (ad_snapshots d) (ad_snapshots d')" by (simp add: d')
  have fresh: "sn_id t \<noteq> i" if "t \<in> set (ad_snapshots d)" for t
    using next_serial_fresh [OF that, of sn_id] by (simp add: i)
  have ids: "distinct (map sn_id (ad_snapshots d'))"
    using ok fresh by (auto simp: d' artifacts_ok_def)
  moreover have "one_current (ad_snapshots d')"
    using con one_current_iff [OF ids] by (simp add: snapshot_constraints_def)
  ultimately show "artifacts_ok sha256 d'"
    using ok con s checkpoints_kept [OF kept] by (auto simp: artifacts_ok_def snapshot_constraints_def d')
qed

text \<open>What a snapshot that can be served is made of.\<close>

lemma final_snapshot_ok:
  assumes "validateArtifactFiles raw = Inr files" "sn_files s = files" "sn_manifest s = Some m"
    "validateRequirementManifest m = Inr m" "sn_integrity s = Some i" "\<not> sn_current s"
    "buildArtifactIntegrity sha256 (sn_project s) (sn_version s) FinalArtifact files prev = Inr i"
  shows "snapshot_ok sha256 s" "servable s"
proof -
  from built [OF assms(7)] obtain files' where b: "validateArtifactFiles files = Inr files'" "0 < sn_project s" "0 < sn_version s"
    "ai_state i = FinalArtifact" by metis
  then show "servable s" by (simp add: servable_def assms)
  from b validated_again [OF assms(1)] have "validateArtifactFiles files = Inr files" by blast
  with b assms build_asserts [OF assms(7)] show "snapshot_ok sha256 s"
    by (simp add: snapshot_ok_def)
qed

lemma asserted_same: "assertArtifactIntegrity sha256 files (Some i) p v st = Inr j \<Longrightarrow> j = i"
  by (erule asserted)

lemma verified_ok:
  assumes "verified_snapshot sha256 (sn_project s) s = Inr (files, integrity)" "snapshot_ok sha256 s"
  shows "files = sn_files s" "servable s" "snapshot_ok sha256 (s\<lparr>sn_integrity := Some integrity\<rparr>)"
    "sn_integrity s \<noteq> None \<longrightarrow> sn_integrity s = Some integrity" "ai_state integrity = FinalArtifact"
proof -
  from assms(1) obtain persisted where v: "validateArtifactFiles (sn_files s) = Inr files"
      "assertArtifactIntegrity sha256 files (Some persisted) (sn_project s) (sn_version s) (Some FinalArtifact) = Inr integrity"
    and p: "case sn_integrity s of Some i \<Rightarrow> persisted = i
        | None \<Rightarrow> buildArtifactIntegrity sha256 (sn_project s) (sn_version s) FinalArtifact files None = Inr persisted"
    by (cases "sn_integrity s") (auto simp: verified_snapshot_def)
  from asserted [OF v(2)] have final: "integrity = persisted" "ai_state persisted = FinalArtifact" by auto
  then show state: "ai_state integrity = FinalArtifact" by simp
  show servable: "servable s" using p final by (auto simp: servable_def split: option.splits)
  with assms(2) v show files: "files = sn_files s" by (auto simp: snapshot_ok_def)
  show "sn_integrity s \<noteq> None \<longrightarrow> sn_integrity s = Some integrity" using p final by (auto split: option.splits)
  show "snapshot_ok sha256 (s\<lparr>sn_integrity := Some integrity\<rparr>)"
    using assms(2) v(2) servable state final(1) files
    by (simp add: snapshot_ok_def servable_def)
qed

lemma verified_again:
  assumes "snapshot_ok sha256 s" "servable s"
    "sn_integrity s = None \<longrightarrow> (\<exists>i. buildArtifactIntegrity sha256 (sn_project s) (sn_version s) FinalArtifact (sn_files s) None = Inr i)"
  shows "\<exists>i. verified_snapshot sha256 (sn_project s) s = Inr (sn_files s, i)"
proof (cases "sn_integrity s")
  case None
  with assms(3) obtain i where "buildArtifactIntegrity sha256 (sn_project s) (sn_version s) FinalArtifact (sn_files s) None = Inr i"
    by auto
  with build_asserts [OF this] assms None show ?thesis
    by (auto simp: verified_snapshot_def snapshot_ok_def)
next
  case (Some i)
  with assms show ?thesis by (auto simp: verified_snapshot_def snapshot_ok_def)
qed

definition keeps :: "(string \<Rightarrow> string) \<Rightarrow> artifact_db \<Rightarrow> artifact_db \<Rightarrow> bool" where
  "keeps sha256 d d' \<longleftrightarrow> (artifacts_ok sha256 d \<longrightarrow> artifacts_ok sha256 d' \<and> rows_kept (ad_snapshots d) (ad_snapshots d'))"

lemma keeps_refl [simp]: "keeps sha256 d d"
  by (simp add: keeps_def)

lemma keeps_trans: "keeps sha256 d e \<Longrightarrow> keeps sha256 e f \<Longrightarrow> keeps sha256 d f"
  by (auto simp: keeps_def intro: rows_kept_trans)

lemma keeps_project [simp]: "keeps sha256 d (set_project i f e) = keeps sha256 d e"
  by (simp add: keeps_def)

lemma keeps_backfill:
  assumes "s \<in> set (ad_snapshots d)" "verified_snapshot sha256 (sn_project s) s = Inr (files, integrity)"
  shows "keeps sha256 d (backfill_integrity s (sn_project s) integrity d)"
proof (cases "sn_integrity s")
  case None
  show ?thesis unfolding keeps_def
  proof (intro impI)
    assume ok: "artifacts_ok sha256 d"
    with assms have "snapshot_ok sha256 s" by (auto simp: artifacts_ok_def)
    note v = verified_ok [OF assms(2) this]
    have "same_snapshot t (t\<lparr>sn_integrity := Some integrity\<rparr>) \<and>
        sn_current (t\<lparr>sn_integrity := Some integrity\<rparr>) = sn_current t \<and> snapshot_ok sha256 (t\<lparr>sn_integrity := Some integrity\<rparr>)"
      if "t \<in> set (ad_snapshots d)" "sn_id t = sn_id s \<and> sn_project t = sn_project s" for t
    proof -
      have "t = s" using same_id [OF ok that(1) assms(1)] that(2) by simp
      with v(3) None show ?thesis by (simp add: same_snapshot_def)
    qed
    then show "artifacts_ok sha256 (backfill_integrity s (sn_project s) integrity d) \<and>
        rows_kept (ad_snapshots d) (ad_snapshots (backfill_integrity s (sn_project s) integrity d))"
      by (intro update_keeps_ok [OF ok, where P = "\<lambda>x. sn_id x = sn_id s \<and> sn_project x = sn_project s"
            and f = "\<lambda>x. x\<lparr>sn_integrity := Some integrity\<rparr>"]) (simp_all add: backfill_integrity_def None)
  qed
qed (simp add: backfill_integrity_def)

lemma snapshot_ok_id [simp]: "snapshot_ok sha256 (s\<lparr>sn_id := i\<rparr>) = snapshot_ok sha256 s" "servable (s\<lparr>sn_id := i\<rparr>) = servable s"
  by (simp_all add: snapshot_ok_def servable_def split: option.split)

lemma keeps_insert:
  assumes "insert_snapshot s d = Inr (i, d1)" "\<not> sn_current s" "snapshot_ok sha256 s"
  shows "keeps sha256 d d1"
  using insert_keeps_ok [OF _ assms(1,2)] assms(3) by (auto simp: keeps_def)

lemma activated:
  assumes "insert_snapshot s d = Inr (i, d1)" "\<not> sn_current s" "snapshot_ok sha256 s" "servable s" "artifacts_ok sha256 d"
  shows "artifacts_ok sha256 (switch_current (sn_project s) i d1)"
    "rows_kept (ad_snapshots d) (ad_snapshots (switch_current (sn_project s) i d1))"
    "getCurrentSnapshot (sn_project s) (switch_current (sn_project s) i d1) = Some (s\<lparr>sn_id := i, sn_current := True\<rparr>)"
proof -
  note ins = insert_keeps_ok [OF assms(5,1,2)]
  have "s\<lparr>sn_id := i\<rparr> \<in> set (ad_snapshots d1)" using ins(3) assms(3) by simp
  note sw = switch_keeps_ok [OF ins(1) this, of i "sn_project s"]
  show "artifacts_ok sha256 (switch_current (sn_project s) i d1)" using sw(1) assms(3,4) by simp
  show "rows_kept (ad_snapshots d) (ad_snapshots (switch_current (sn_project s) i d1))"
    using sw(2) ins(2) assms(3,4) by (auto intro: rows_kept_trans)
  show "getCurrentSnapshot (sn_project s) (switch_current (sn_project s) i d1) = Some (s\<lparr>sn_id := i, sn_current := True\<rparr>)"
    using sw(3) assms(3,4) by simp
qed

lemma keeps_activated:
  assumes "insert_snapshot s d = Inr (i, d1)" "\<not> sn_current s" "snapshot_ok sha256 s" "servable s"
  shows "keeps sha256 d (switch_current (sn_project s) i d1)"
  using activated [OF assms] by (simp add: keeps_def)

definition resolved_row :: "snapshot_row \<Rightarrow> bool" where
  "resolved_row s \<longleftrightarrow> (\<exists>m. sn_manifest s = Some m \<and> assertMustHaveRequirementsResolved m = Inr m)"

lemma resolved_manifest: "assertMustHaveRequirementsResolved m = Inr m' \<Longrightarrow> m' = m \<and> validateRequirementManifest m = Inr m"
  by (simp add: resolved_iff)

lemma required_manifest:
  "required_manifest column = Inr m \<Longrightarrow> column = Some m \<and> assertMustHaveRequirementsResolved m = Inr m"
  by (cases column) (auto simp: required_manifest_def resolved_iff)

section \<open>Every transaction keeps the artifacts sound\<close>

lemma save_keeps: "updateProjectFiles sha256 i files d = Inr (integrity, d') \<Longrightarrow> keeps sha256 d d'"
  by (auto simp: updateProjectFiles_def Let_def)

lemma read_working_keeps: "getWorkingProjectFiles sha256 i d = Inr (files, d') \<Longrightarrow> keeps sha256 d d'"
  by (auto simp: getWorkingProjectFiles_def Let_def split: option.splits if_splits)

lemma read_snapshot_keeps: "getSnapshotArtifact sha256 sid p d = Inr (a, d') \<Longrightarrow> keeps sha256 d d'"
  using keeps_backfill [of _ d sha256] by (auto simp: getSnapshotArtifact_def split: option.splits dest!: first_row_Some)

lemma current_row: "getCurrentSnapshot p d = Some s \<Longrightarrow> s \<in> set (ad_snapshots d) \<and> sn_project s = p \<and> sn_current s"
  by (auto simp: getCurrentSnapshot_def dest!: first_row_Some)

lemma read_current_keeps: "getCurrentArtifact sha256 p d = Inr (a, d') \<Longrightarrow> keeps sha256 d d'"
  using keeps_backfill [of _ d sha256] by (auto simp: getCurrentArtifact_def split: option.splits dest!: current_row)

lemma created:
  assumes "createBuildSnapshot sha256 sd d = Inr (i, d')"
  obtains files m integrity where "insert_snapshot (snapshot_of sd files m integrity) d = Inr (i, d')"
    "snapshot_ok sha256 (snapshot_of sd files m integrity)" "validateArtifactFiles (sd_files sd) = Inr files"
    "assertMustHaveRequirementsResolved (sd_manifest sd) = Inr m"
proof -
  from assms obtain files m p integrity where
    "assertMustHaveRequirementsResolved (sd_manifest sd) = Inr m" "validateArtifactFiles (sd_files sd) = Inr files"
    "buildArtifactIntegrity sha256 (sd_project sd) (sd_snapshotVersion sd) FinalArtifact files p = Inr integrity"
    "insert_snapshot (snapshot_of sd files m integrity) d = Inr (i, d')"
    by (auto simp: createBuildSnapshot_def split: if_splits)
  with resolved_manifest final_snapshot_ok(1) [of "sd_files sd" files "snapshot_of sd files m integrity" m integrity sha256 p]
  show ?thesis by (intro that) (auto simp: snapshot_of_def)
qed

lemma create_keeps: "createBuildSnapshot sha256 sd d = Inr (n, d') \<Longrightarrow> keeps sha256 d d'"
  by (erule created, erule keeps_insert) (simp_all add: snapshot_of_def)

lemma activated_snapshot:
  assumes "createAndActivateBuildSnapshot sha256 sd d = Inr ((i, integrity), d')"
  obtains files m d1 where "insert_snapshot (snapshot_of sd files m integrity) d = Inr (i, d1)"
    "snapshot_ok sha256 (snapshot_of sd files m integrity)" "servable (snapshot_of sd files m integrity)"
    "validateArtifactFiles (sd_files sd) = Inr files" "assertMustHaveRequirementsResolved (sd_manifest sd) = Inr m"
    "d' = set_project (sd_project sd) (\<lambda>p. p\<lparr>ap_manifest := Some m, ap_status := ''validated''\<rparr>)
       (switch_current (sd_project sd) i d1)"
proof -
  from assms obtain files m p d1 where
    "assertMustHaveRequirementsResolved (sd_manifest sd) = Inr m" "validateArtifactFiles (sd_files sd) = Inr files"
    "buildArtifactIntegrity sha256 (sd_project sd) (sd_snapshotVersion sd) FinalArtifact files p = Inr integrity"
    "insert_snapshot (snapshot_of sd files m integrity) d = Inr (i, d1)"
    "d' = set_project (sd_project sd) (\<lambda>p. p\<lparr>ap_manifest := Some m, ap_status := ''validated''\<rparr>)
       (switch_current (sd_project sd) i d1)"
    by (auto simp: createAndActivateBuildSnapshot_def split: if_splits)
  with resolved_manifest final_snapshot_ok [of "sd_files sd" files "snapshot_of sd files m integrity" m integrity sha256 p]
  show ?thesis by (intro that) (auto simp: snapshot_of_def)
qed

lemma snapshot_of_sel [simp]: "sn_project (snapshot_of sd files m integrity) = sd_project sd"
  "\<not> sn_current (snapshot_of sd files m integrity)" "sn_files (snapshot_of sd files m integrity) = files"
  "sn_version (snapshot_of sd files m integrity) = sd_snapshotVersion sd"
  "sn_integrity (snapshot_of sd files m integrity) = Some integrity"
  "sn_manifest (snapshot_of sd files m integrity) = Some m"
  by (simp_all add: snapshot_of_def)

lemma activate_keeps:
  assumes "createAndActivateBuildSnapshot sha256 sd d = Inr (r, d')"
  shows "keeps sha256 d d'"
proof -
  obtain i integrity where "r = (i, integrity)" by (cases r)
  with assms have "createAndActivateBuildSnapshot sha256 sd d = Inr ((i, integrity), d')" by simp
  from activated_snapshot [OF this] obtain files m d1 where
    "insert_snapshot (snapshot_of sd files m integrity) d = Inr (i, d1)"
    "snapshot_ok sha256 (snapshot_of sd files m integrity)" "servable (snapshot_of sd files m integrity)"
    "d' = set_project (sd_project sd) (\<lambda>p. p\<lparr>ap_manifest := Some m, ap_status := ''validated''\<rparr>)
       (switch_current (sd_project sd) i d1)" by metis
  with keeps_activated [OF this(1) _ this(2,3)] show ?thesis by simp
qed

lemma backfilled_row:
  assumes "s \<in> set (ad_snapshots d)" "sn_integrity s \<noteq> None \<longrightarrow> sn_integrity s = Some integrity"
  shows "s\<lparr>sn_integrity := Some integrity\<rparr> \<in> set (ad_snapshots (backfill_integrity s (sn_project s) integrity d))"
proof (cases "sn_integrity s")
  case None
  with assms(1) show ?thesis by (auto simp: backfill_integrity_def set_update_where)
next
  case (Some i)
  with assms have "s\<lparr>sn_integrity := Some integrity\<rparr> = s" by simp
  with assms(1) Some show ?thesis by (simp add: backfill_integrity_def)
qed

lemma other_tables [simp]:
  "ad_projects (set_project i f d) = update_where (\<lambda>p. ap_id p = i) f (ad_projects d)"
  "ad_projects (switch_current p i d) = ad_projects d" "ad_projects (backfill_integrity s p integrity d) = ad_projects d"
  "ad_checkpoints (backfill_integrity s p integrity d) = ad_checkpoints d"
  by (simp_all add: set_project_def switch_current_def set_snapshots_def backfill_integrity_def)

lemma restored:
  assumes "markSnapshotAsCurrent sha256 i p d = Inr (u, d')" "artifacts_ok sha256 d"
  obtains s m integrity where "s \<in> set (ad_snapshots d)" "sn_id s = i" "sn_project s = p" "sn_manifest s = Some m"
    "assertMustHaveRequirementsResolved m = Inr m" "verified_snapshot sha256 p s = Inr (sn_files s, integrity)"
    "getCurrentSnapshot p d' = Some (s\<lparr>sn_integrity := Some integrity, sn_current := True\<rparr>)"
    "artifacts_ok sha256 d'" "rows_kept (ad_snapshots d) (ad_snapshots d')"
    "ad_projects d' = update_where (\<lambda>q. ap_id q = p) (\<lambda>q. q\<lparr>ap_manifest := Some m, ap_status := ''validated''\<rparr>) (ad_projects d)"
    "ad_checkpoints d' = ad_checkpoints d"
proof -
  from assms(1) obtain s m' files integrity where
    s: "first_row (\<lambda>s. sn_id s = i \<and> sn_project s = p) (ad_snapshots d) = Some s" and
    m': "required_manifest (sn_manifest s) = Inr m'" and
    v: "verified_snapshot sha256 p s = Inr (files, integrity)" and
    d': "d' = set_project p (\<lambda>q. q\<lparr>ap_manifest := Some m', ap_status := ''validated''\<rparr>)
           (switch_current p i (backfill_integrity s p integrity d))"
    by (auto simp: markSnapshotAsCurrent_def split: option.split_asm)
  from required_manifest [OF m'] have m: "sn_manifest s = Some m'" "assertMustHaveRequirementsResolved m' = Inr m'" by auto
  from first_row_Some [OF s] have row: "s \<in> set (ad_snapshots d)" "sn_id s = i" "sn_project s = p" by auto
  with assms(2) have "snapshot_ok sha256 s" by (simp add: artifacts_ok_def)
  note vs = verified_ok [OF v [folded row(3)] this]
  let ?t = "s\<lparr>sn_integrity := Some integrity\<rparr>" and ?e = "backfill_integrity s p integrity d"
  have e: "artifacts_ok sha256 ?e" "rows_kept (ad_snapshots d) (ad_snapshots ?e)"
    using keeps_backfill [OF row(1) v [folded row(3)]] assms(2) row(3) by (auto simp: keeps_def)
  have t: "?t \<in> set (ad_snapshots ?e)" using backfilled_row [OF row(1) vs(4)] row(3) by simp
  have "servable ?t" using vs(5) by (simp add: servable_def)
  note sw = switch_keeps_ok [OF e(1) t, of i p]
  show thesis
    using sw rows_kept_trans [OF e(2)] row m v vs(1) \<open>servable ?t\<close>
    by (intro that [of s m' integrity]) (simp_all add: d' switch_rows)
qed

lemma rollback_keeps: "markSnapshotAsCurrent sha256 s i d = Inr (u, d') \<Longrightarrow> keeps sha256 d d'"
  unfolding keeps_def by (blast elim: restored)

lemma appended:
  assumes "appendArtifactToCurrentSnapshot sha256 projectId path content d = Inr (a, d')"
  obtains s d1 raw where "insert_snapshot s d = Inr (ca_snapshot a, d1)" "sn_project s = projectId" "\<not> sn_current s"
    "sn_version s = max_version projectId d + 1" "sn_files s = ca_files a" "sn_integrity s = Some (ca_integrity a)"
    "snapshot_ok sha256 s" "servable s" "resolved_row s"
    "\<exists>f. d' = set_project projectId f (switch_current projectId (ca_snapshot a) d1)"
    "validateArtifactFiles raw = Inr (ca_files a)"
proof -
  from assms obtain p owner currentFiles files m0 m i integrity prev d1 f where
    files: "validateArtifactFiles (AList.update path content currentFiles) = Inr files" and
    m: "required_manifest m0 = Inr m" and
    build: "buildArtifactIntegrity sha256 projectId (max_version projectId d + 1) FinalArtifact files prev = Inr integrity" and
    ins: "insert_snapshot \<lparr>sn_id = 0, sn_project = projectId, sn_user = owner,
             sn_version = max_version projectId d + 1, sn_files = files, sn_fileCount = ai_fileCount integrity,
             sn_manifest = Some m, sn_integrity = Some integrity, sn_current = False\<rparr> d = Inr (i, d1)" and
    a: "a = \<lparr>ca_snapshot = i, ca_version = max_version projectId d + 1, ca_files = files, ca_integrity = integrity\<rparr>" and
    d': "d' = set_project projectId f (switch_current projectId i d1)"
    by (auto simp: appendArtifactToCurrentSnapshot_def Let_def refused_unless)
  let ?s = "\<lparr>sn_id = 0, sn_project = projectId, sn_user = owner,
             sn_version = max_version projectId d + 1, sn_files = files, sn_fileCount = ai_fileCount integrity,
             sn_manifest = Some m, sn_integrity = Some integrity, sn_current = False\<rparr>"
  have "snapshot_ok sha256 ?s" "servable ?s"
    using final_snapshot_ok [OF files, of ?s m integrity sha256 prev] build required_manifest [OF m] resolved_manifest [of m m] by simp_all
  moreover have "resolved_row ?s" using required_manifest [OF m] by (simp add: resolved_row_def)
  ultimately show ?thesis using ins a d' files by (intro that [of ?s d1]) auto
qed

lemma append_keeps:
  assumes "appendArtifactToCurrentSnapshot sha256 i path content d = Inr (a, d')"
  shows "keeps sha256 d d'"
proof -
  from appended [OF assms] obtain s d1 f where "insert_snapshot s d = Inr (ca_snapshot a, d1)" "\<not> sn_current s"
    "snapshot_ok sha256 s" "servable s" "sn_project s = i" "d' = set_project i f (switch_current i (ca_snapshot a) d1)"
    by metis
  with keeps_activated [OF this(1-4)] show ?thesis by simp
qed

lemma edited:
  assumes "commitProjectFilesSnapshot sha256 i user files originalFiles d = Inr ((n, v), d')"
  obtains s d1 f where "insert_snapshot s d = Inr (n, d1)" "d' = set_project i f d1" "\<not> sn_current s" "sn_files s = files"
    "sn_project s = i" "sn_version s = v" "v = max_version i d + 1" "snapshot_ok sha256 s" "\<not> servable s"
proof -
  from assms obtain integrity prev d1 f where
    build: "buildArtifactIntegrity sha256 i v WorkingArtifact files prev = Inr integrity" and v: "v = max_version i d + 1" and
    ins: "insert_snapshot \<lparr>sn_id = 0, sn_project = i, sn_user = user,
               sn_version = v, sn_files = files, sn_fileCount = int (length files),
               sn_manifest = None, sn_integrity = Some integrity, sn_current = False\<rparr> d = Inr (n, d1)" and
    d': "d' = set_project i f d1"
    by (auto simp: commitProjectFilesSnapshot_def Let_def refused_unless)
  from built [OF build] have "0 < i" "0 < v" "ai_state integrity = WorkingArtifact" by metis+
  with ins d' v show ?thesis by (intro that [OF ins d']) (simp_all add: snapshot_ok_def servable_def)
qed

lemma edit_keeps:
  assumes "commitProjectFilesSnapshot sha256 i user files originalFiles d = Inr (r, d')"
  shows "keeps sha256 d d'"
proof -
  obtain n v where "r = (n, v)" by (cases r)
  with assms have "commitProjectFilesSnapshot sha256 i user files originalFiles d = Inr ((n, v), d')" by simp
  from edited [OF this] keeps_insert show ?thesis by (metis keeps_project)
qed

lemma manifest_keeps: "updateProjectRequirementManifest i m d = Inr (u, d') \<Longrightarrow> keeps sha256 d d'"
  by (auto simp: updateProjectRequirementManifest_def)

lemma validate_same: "validateRequirementManifest m = Inr m' \<Longrightarrow> m' = m \<and> validateRequirementManifest m' = Inr m'"
  by (simp add: validate_iff)

lemma evidence_rows:
  assumes "persistRequirementDeploymentEvidence i m d = Inr (u, d')"
  shows "validateRequirementManifest m = Inr m \<and> ad_checkpoints d' = ad_checkpoints d \<and>
    ad_snapshots d' = (case getCurrentSnapshot i d of None \<Rightarrow> ad_snapshots d
      | Some s \<Rightarrow> update_where (\<lambda>x. sn_id x = sn_id s) (\<lambda>x. x\<lparr>sn_manifest := Some m\<rparr>) (ad_snapshots d))"
proof -
  from assms obtain v where v: "validateRequirementManifest m = Inr v" and
    d': "d' = (let d1 = set_project i (\<lambda>p. p\<lparr>ap_manifest := Some v\<rparr>) d in
      case getCurrentSnapshot i d1 of None \<Rightarrow> d1
       | Some s \<Rightarrow> set_snapshots (\<lambda>x. sn_id x = sn_id s) (\<lambda>x. x\<lparr>sn_manifest := Some v\<rparr>) d1)"
    by (auto simp: persistRequirementDeploymentEvidence_def Let_def)
  from validate_same [OF v] v show ?thesis by (simp add: d' Let_def split: option.split)
qed

lemma evidence_keeps:
  assumes "persistRequirementDeploymentEvidence i m d = Inr (u, d')"
  shows "keeps sha256 d d'"
proof (cases "getCurrentSnapshot i d")
  case None
  with evidence_rows [OF assms] have "ad_snapshots d' = ad_snapshots d" "ad_checkpoints d' = ad_checkpoints d" by auto
  then show ?thesis by (simp add: keeps_def artifacts_ok_def)
next
  case (Some s)
  with evidence_rows [OF assms] have m: "validateRequirementManifest m = Inr m" and rows:
    "ad_snapshots d' = update_where (\<lambda>x. sn_id x = sn_id s) (\<lambda>x. x\<lparr>sn_manifest := Some m\<rparr>) (ad_snapshots d)"
    "ad_checkpoints d' = ad_checkpoints d" by auto
  have "same_snapshot t (t\<lparr>sn_manifest := Some m\<rparr>) \<and> sn_current (t\<lparr>sn_manifest := Some m\<rparr>) = sn_current t \<and>
      snapshot_ok sha256 (t\<lparr>sn_manifest := Some m\<rparr>)" if "snapshot_ok sha256 t" for t
    using that m by (cases "sn_integrity t") (simp_all add: same_snapshot_def snapshot_ok_def servable_def)
  then show ?thesis unfolding keeps_def
    by (intro impI update_keeps_ok [OF _ rows]) (auto simp: artifacts_ok_def)
qed

lemma recorded:
  assumes "recordKnownGoodCheckpoint c now d = Inr (row, d')"
  shows "ad_snapshots d' = ad_snapshots d" "set (ad_checkpoints d') \<subseteq> insert row (set (ad_checkpoints d))"
    "row \<in> set (ad_checkpoints d')" "rc_project row = ci_project c" "rc_snapshot row = ci_snapshot c"
    "rc_version row = ci_version c" "rc_sha row = ci_sha c" "rc_source row = ci_source c"
    "checkpoint_ok (ad_snapshots d) row"
proof -
  from assms obtain s where
    s: "first_row (\<lambda>s. sn_id s = ci_snapshot c \<and> sn_project s = ci_project c) (ad_snapshots d) = Some s"
      "sn_version s = ci_version c" "map_option ai_sha (sn_integrity s) = Some (ci_sha c)"
    and rest: "(case first_row (\<lambda>x. checkpoint_key x = (ci_project c, ci_version c, ci_source c)) (ad_checkpoints d) of
            Some existing \<Rightarrow>
              let row = checkpoint_of c now (rc_id existing)
              in Inr (row, d\<lparr>ad_checkpoints := update_where (\<lambda>x. rc_id x = rc_id existing) (\<lambda>_. row) (ad_checkpoints d)\<rparr>)
          | None \<Rightarrow>
              let row = checkpoint_of c now (next_serial rc_id (ad_checkpoints d))
              in Inr (row, d\<lparr>ad_checkpoints := ad_checkpoints d @ [row]\<rparr>)) = (Inr (row, d') :: (snapshot_error, _) result)"
    unfolding recordKnownGoodCheckpoint_def refused_unless by blast
  show rows: "ad_snapshots d' = ad_snapshots d" "set (ad_checkpoints d') \<subseteq> insert row (set (ad_checkpoints d))"
    "row \<in> set (ad_checkpoints d')" "rc_project row = ci_project c" "rc_snapshot row = ci_snapshot c"
    "rc_version row = ci_version c" "rc_sha row = ci_sha c" "rc_source row = ci_source c"
    using rest by (auto simp: Let_def checkpoint_of_def set_update_where dest: first_row_Some split: option.split_asm if_split_asm)
  show "checkpoint_ok (ad_snapshots d) row"
    unfolding checkpoint_ok_def rows(4-7) using s first_row_Some [OF s(1)] by blast
qed

lemma checkpoint_keeps:
  assumes "recordKnownGoodCheckpoint c now d = Inr (row, d')"
  shows "keeps sha256 d d'"
  using recorded [OF assms] by (auto simp: keeps_def artifacts_ok_def)

lemma artifact_step_keeps: "artifact_step sha256 d d' \<Longrightarrow> keeps sha256 d d'"
proof (induction rule: artifact_step.induct)
  case (other_columns d' d)
  then show ?case by (simp add: keeps_def artifacts_ok_def)
qed (fact save_keeps read_working_keeps read_snapshot_keeps read_current_keeps create_keeps activate_keeps
    rollback_keeps append_keeps edit_keeps manifest_keeps evidence_keeps checkpoint_keeps)+

interpretation artifact_runs: guarded_system "artifact_step sha256" "artifacts_ok sha256" for sha256
  by unfold_locales (use artifact_step_keeps in \<open>auto simp: keeps_def\<close>)

lemma artifact_run_keeps: "(artifact_step sha256)\<^sup>*\<^sup>* d d' \<Longrightarrow> keeps sha256 d d'"
  unfolding keeps_def
proof (intro impI conjI)
  assume run: "(artifact_step sha256)\<^sup>*\<^sup>* d d'" and ok: "artifacts_ok sha256 d"
  then show "artifacts_ok sha256 d'" by (rule artifact_runs.run_keeps)
  show "rows_kept (ad_snapshots d) (ad_snapshots d')"
    by (rule artifact_runs.run_relates [where R = "\<lambda>d d'. rows_kept (ad_snapshots d) (ad_snapshots d')", OF _ _ run ok])
      (auto dest: artifact_step_keeps [unfolded keeps_def, rule_format] intro: rows_kept_trans)
qed

section \<open>What is served\<close>

lemma newest_none: "newest cs = None \<longleftrightarrow> cs = []"
  by (cases cs) (auto split: option.splits)

lemma newest_checkpoint: "newest cs = Some c \<Longrightarrow> c \<in> set cs \<and> (\<forall>x \<in> set cs. rc_createdAt x \<le> rc_createdAt c)"
  by (induction cs arbitrary: c) (auto simp: newest_none split: option.splits if_splits)

lemma latest_checkpoint:
  assumes "getLatestKnownGoodCheckpoint p productionOnly d = Some c"
  shows "c \<in> set (ad_checkpoints d)" "rc_project c = p" "productionOnly \<longrightarrow> rc_source c = ProductionVerified"
    "\<forall>x \<in> set (ad_checkpoints d). rc_project x = p \<and> (productionOnly \<longrightarrow> rc_source x = ProductionVerified) \<longrightarrow>
       rc_createdAt x \<le> rc_createdAt c"
  using newest_checkpoint [OF assms [unfolded getLatestKnownGoodCheckpoint_def]] by (auto simp: rows_where_def)

lemma current_unique:
  assumes "artifacts_ok sha256 d" "s \<in> set (ad_snapshots d)" "sn_current s"
  shows "getCurrentSnapshot (sn_project s) d = Some s"
proof (cases "getCurrentSnapshot (sn_project s) d")
  case None
  with assms show ?thesis by (auto simp: getCurrentSnapshot_def first_row_None)
next
  case (Some t)
  with current_row [OF Some] assms show ?thesis by (auto simp: artifacts_ok_def dest: one_current_same)
qed

lemma served:
  assumes "artifacts_ok sha256 d" "getCurrentSnapshot p d = Some s"
  obtains i d' where
    "getCurrentArtifact sha256 p d = Inr (Some \<lparr>ca_snapshot = sn_id s, ca_version = sn_version s, ca_files = sn_files s,
       ca_integrity = i\<rparr>, d')"
    "verified_snapshot sha256 p s = Inr (sn_files s, i)"
    "assertArtifactIntegrity sha256 (sn_files s) (Some i) p (sn_version s) (Some FinalArtifact) = Inr i"
proof -
  from current_row [OF assms(2)] assms(1) have s: "snapshot_ok sha256 s" "servable s" "sn_project s = p"
    by (auto simp: artifacts_ok_def snapshot_ok_def)
  then have "\<exists>i. buildArtifactIntegrity sha256 (sn_project s) (sn_version s) FinalArtifact (sn_files s) None = Inr i"
    by (simp add: snapshot_ok_def buildArtifactIntegrity_def Let_def)
  with verified_again [OF s(1,2)] obtain i where v: "verified_snapshot sha256 p s = Inr (sn_files s, i)" using s(3) by auto
  have manifest: "\<exists>r. (case sn_manifest s of None \<Rightarrow> Inr None
           | Some m \<Rightarrow> map_sum ManifestRefused Some (validateRequirementManifest m)) = (Inr r :: (snapshot_error, _) result)"
    using s(1) by (simp add: snapshot_ok_def split: option.split_asm)
  have "snapshot_ok sha256 (s\<lparr>sn_integrity := Some i\<rparr>)" "ai_state i = FinalArtifact"
    using verified_ok [OF v [folded s(3)] s(1)] by auto
  then have "assertArtifactIntegrity sha256 (sn_files s) (Some i) p (sn_version s) (Some FinalArtifact) = Inr i"
    using s(3) by (simp add: snapshot_ok_def servable_def)
  with v manifest assms(2) show thesis
    by (intro that [of i "backfill_integrity s p i d"]) (auto simp: getCurrentArtifact_def)
qed

text \<open>
  C24. Whatever sequence of saves, reads, builds, edits, rollbacks and checkpoints runs against the
  artifact tables, a project never has two current snapshots or two snapshots of one version, and
  serving never fails: the current artifact is either absent or exactly the files of the one current
  snapshot, and these pass the integrity check of a finished artifact.
\<close>

theorem served_files_always_verify:
  assumes "(artifact_step sha256)\<^sup>*\<^sup>* d0 d" "ad_snapshots d0 = []" "ad_checkpoints d0 = []"
  shows "(\<forall>s \<in> set (ad_snapshots d). \<forall>t \<in> set (ad_snapshots d). sn_project s = sn_project t \<and>
       (sn_current s \<and> sn_current t \<or> sn_version s = sn_version t) \<longrightarrow> s = t) \<and>
    (\<forall>p. case getCurrentSnapshot p d of
       None \<Rightarrow> getCurrentArtifact sha256 p d = Inr (None, d)
     | Some s \<Rightarrow> \<exists>a d'. getCurrentArtifact sha256 p d = Inr (Some a, d') \<and>
         ca_snapshot a = sn_id s \<and> ca_version a = sn_version s \<and> ca_files a = sn_files s \<and>
         assertArtifactIntegrity sha256 (ca_files a) (Some (ca_integrity a)) p (ca_version a)
           (Some FinalArtifact) = Inr (ca_integrity a))"
proof -
  have "artifacts_ok sha256 d0" using assms(2,3) by (simp add: artifacts_ok_def one_current_def)
  with artifact_run_keeps [OF assms(1)] have ok: "artifacts_ok sha256 d" by (simp add: keeps_def)
  have "case getCurrentSnapshot p d of
       None \<Rightarrow> getCurrentArtifact sha256 p d = Inr (None, d)
     | Some s \<Rightarrow> \<exists>a d'. getCurrentArtifact sha256 p d = Inr (Some a, d') \<and>
         ca_snapshot a = sn_id s \<and> ca_version a = sn_version s \<and> ca_files a = sn_files s \<and>
         assertArtifactIntegrity sha256 (ca_files a) (Some (ca_integrity a)) p (ca_version a)
           (Some FinalArtifact) = Inr (ca_integrity a)" for p
  proof (cases "getCurrentSnapshot p d")
    case None
    then show ?thesis by (simp add: getCurrentArtifact_def)
  next
    case (Some s)
    show ?thesis by (rule served [OF ok Some]) (auto simp: Some)
  qed
  moreover have "s = t" if "s \<in> set (ad_snapshots d)" "t \<in> set (ad_snapshots d)" "sn_project s = sn_project t"
      "sn_current s \<and> sn_current t \<or> sn_version s = sn_version t" for s t
    using that ok one_current_same [of "ad_snapshots d" s t] distinct_key_eq [of snapshot_key "ad_snapshots d" s t]
    by (auto simp: artifacts_ok_def snapshot_key_def)
  ultimately show ?thesis by blast
qed

lemma build_survives:
  assumes "createAndActivateBuildSnapshot sha256 sd d0 = Inr ((i, integrity), d1)" "artifacts_ok sha256 d0"
    "(artifact_step sha256)\<^sup>*\<^sup>* d1 d2" "validateArtifactFiles (sd_files sd) = Inr files"
  obtains s where "s \<in> set (ad_snapshots d2)" "sn_id s = i" "sn_project s = sd_project sd" "sn_files s = files"
    "sn_version s = sd_snapshotVersion sd" "sn_integrity s = Some integrity" "artifacts_ok sha256 d2"
    "verified_snapshot sha256 (sd_project sd) s = Inr (files, integrity)"
proof -
  from activated_snapshot [OF assms(1)] obtain m d' where ins: "insert_snapshot (snapshot_of sd files m integrity) d0 = Inr (i, d')"
    and ok0: "snapshot_ok sha256 (snapshot_of sd files m integrity)" "servable (snapshot_of sd files m integrity)"
    and d1: "d1 = set_project (sd_project sd) (\<lambda>p. p\<lparr>ap_manifest := Some m, ap_status := ''validated''\<rparr>) (switch_current (sd_project sd) i d')"
    using assms(4) by (metis sum.inject(2))
  let ?row = "(snapshot_of sd files m integrity)\<lparr>sn_id := i, sn_current := True\<rparr>"
  note act = activated [OF ins _ ok0 assms(2)]
  from act(3) have "getCurrentSnapshot (sd_project sd) d1 = Some ?row" by (simp add: d1)
  from current_row [OF this] have row: "?row \<in> set (ad_snapshots d1)" by simp
  from act(1) artifact_run_keeps [OF assms(3)] have ok2: "artifacts_ok sha256 d2" and "rows_kept (ad_snapshots d1) (ad_snapshots d2)"
    by (auto simp: keeps_def d1)
  with row obtain s where s: "s \<in> set (ad_snapshots d2)" "same_snapshot ?row s" unfolding rows_kept_def by blast
  then have sel: "sn_id s = i" "sn_project s = sd_project sd" "sn_version s = sd_snapshotVersion sd" "sn_files s = files"
      "sn_integrity s = Some integrity" by (simp_all add: same_snapshot_def)
  have sok: "snapshot_ok sha256 s" and "servable s" using s(1) ok2 ok0(2) sel(5) by (simp_all add: artifacts_ok_def servable_def)
  then obtain j where v: "verified_snapshot sha256 (sd_project sd) s = Inr (files, j)"
    using verified_again [OF sok] sel by auto
  with verified_ok(4) [of sha256 s files j] sok sel have "j = integrity" by auto
  with v s(1) sel ok2 show thesis by (intro that) simp_all
qed

lemma mark_snapshot:
  assumes "artifacts_ok sha256 d" "s \<in> set (ad_snapshots d)" "verified_snapshot sha256 (sn_project s) s = Inr (files, j)"
  shows "markSnapshotAsCurrent sha256 (sn_id s) (sn_project s) d =
      bind_result (required_manifest (sn_manifest s)) (\<lambda>manifest. Inr ((), set_project (sn_project s)
        (\<lambda>p. p\<lparr>ap_manifest := Some manifest, ap_status := ''validated''\<rparr>)
        (switch_current (sn_project s) (sn_id s) (backfill_integrity s (sn_project s) j d))))"
proof -
  let ?P = "\<lambda>x. sn_id x = sn_id s \<and> sn_project x = sn_project s"
  have "first_row ?P (ad_snapshots d) = Some s"
  proof (cases "first_row ?P (ad_snapshots d)")
    case None
    with assms(2) show ?thesis by (auto simp: first_row_None)
  next
    case (Some t)
    from first_row_Some [OF Some] same_id [OF assms(1) _ assms(2), of t] Some show ?thesis by simp
  qed
  then show ?thesis by (simp add: markSnapshotAsCurrent_def assms(3))
qed

lemma served_after_mark:
  assumes "markSnapshotAsCurrent sha256 i p d = Inr (u, d')" "artifacts_ok sha256 d" "s \<in> set (ad_snapshots d)"
    "sn_id s = i" "verified_snapshot sha256 p s = Inr (files, j)"
  obtains d'' where "getCurrentArtifact sha256 p d' = Inr (Some \<lparr>ca_snapshot = i, ca_version = sn_version s,
     ca_files = sn_files s, ca_integrity = j\<rparr>, d'')"
proof -
  from restored [OF assms(1,2)] obtain t k where t: "t \<in> set (ad_snapshots d)" "sn_id t = i" "artifacts_ok sha256 d'"
      "getCurrentSnapshot p d' = Some (t\<lparr>sn_integrity := Some k, sn_current := True\<rparr>)"
      "verified_snapshot sha256 p t = Inr (sn_files t, k)" by metis
  then have "t = s" using same_id [OF assms(2) t(1) assms(3)] assms(4) by simp
  with t assms(5) have "getCurrentSnapshot p d' = Some (s\<lparr>sn_integrity := Some j, sn_current := True\<rparr>)" by simp
  then obtain l d'' where
    art: "getCurrentArtifact sha256 p d' = Inr (Some \<lparr>ca_snapshot = i, ca_version = sn_version s, ca_files = sn_files s, ca_integrity = l\<rparr>, d'')"
    and l: "verified_snapshot sha256 p (s\<lparr>sn_integrity := Some j, sn_current := True\<rparr>) = Inr (sn_files s, l)"
    using assms(4) by (elim served [OF t(3)]) auto
  from l have "l = j" by (auto simp: verified_snapshot_def dest: asserted_same)
  with art that show thesis by simp
qed

text \<open>
  C25. Rolling back brings back exactly what was built. After a build activated a snapshot, whatever
  runs in between, making that snapshot current again is possible as long as its requirement
  manifest is still resolved, and then the served files are the ones the build delivered, under
  their own version and integrity record.
\<close>

theorem rollback_restores_the_build:
  assumes "createAndActivateBuildSnapshot sha256 sd d0 = Inr ((i, integrity), d1)" "artifacts_ok sha256 d0"
    "(artifact_step sha256)\<^sup>*\<^sup>* d1 d2" "validateArtifactFiles (sd_files sd) = Inr files"
  shows "\<exists>s \<in> set (ad_snapshots d2). sn_id s = i \<and>
    (case required_manifest (sn_manifest s) of
       Inl e \<Rightarrow> markSnapshotAsCurrent sha256 i (sd_project sd) d2 = Inl e
     | Inr m \<Rightarrow> \<exists>d3 a d4. markSnapshotAsCurrent sha256 i (sd_project sd) d2 = Inr ((), d3) \<and>
         getCurrentArtifact sha256 (sd_project sd) d3 = Inr (Some a, d4) \<and> ca_snapshot a = i \<and>
         ca_version a = sd_snapshotVersion sd \<and> ca_files a = files \<and> ca_integrity a = integrity)"
proof -
  from build_survives [OF assms] obtain s where s: "s \<in> set (ad_snapshots d2)" "sn_id s = i" "sn_project s = sd_project sd"
      "sn_files s = files" "sn_version s = sd_snapshotVersion sd"
    and ok: "artifacts_ok sha256 d2" and v: "verified_snapshot sha256 (sd_project sd) s = Inr (files, integrity)" by metis
  note mark = mark_snapshot [OF ok s(1) v [folded s(3)], unfolded s(2,3)]
  show ?thesis
  proof (cases "required_manifest (sn_manifest s)")
    case (Inl e)
    with mark s(2) show ?thesis by (intro bexI [OF _ s(1)]) simp
  next
    case (Inr m)
    with mark obtain d3 where d3: "markSnapshotAsCurrent sha256 i (sd_project sd) d2 = Inr ((), d3)" by simp
    from served_after_mark [OF d3 ok s(1,2) v] obtain d4 where
      "getCurrentArtifact sha256 (sd_project sd) d3 = Inr (Some \<lparr>ca_snapshot = i, ca_version = sn_version s,
         ca_files = sn_files s, ca_integrity = integrity\<rparr>, d4)" by metis
    with d3 Inr s show ?thesis by (intro bexI [OF _ s(1)]) auto
  qed
qed

text \<open>
  C26. Recovery restores a known good version. When the owner recovers a project, the checkpoint used
  is a recorded one of this project (a production one when asked for) that no other eligible one is
  newer than, and afterwards the served artifact is the snapshot it names: same version, and an
  integrity record with the hash the checkpoint recorded. Nobody else can recover the project.
\<close>

theorem recovery_restores_known_good:
  assumes "recoverLatest sha256 p user productionOnly d = Inr (c, d')" "artifacts_ok sha256 d"
  shows "c \<in> set (ad_checkpoints d) \<and> rc_project c = p \<and> (productionOnly \<longrightarrow> rc_source c = ProductionVerified) \<and>
    (\<forall>x \<in> set (ad_checkpoints d). rc_project x = p \<and> (productionOnly \<longrightarrow> rc_source x = ProductionVerified) \<longrightarrow>
       rc_createdAt x \<le> rc_createdAt c) \<and>
    (\<exists>row \<in> set (ad_projects d). ap_id row = p \<and> ap_user row = Some user) \<and>
    (\<exists>a d''. getCurrentArtifact sha256 p d' = Inr (Some a, d'') \<and> ca_snapshot a = rc_snapshot c \<and>
       ca_version a = rc_version c \<and> ai_sha (ca_integrity a) = rc_sha c)"
proof -
  from assms(1) obtain row u where row: "first_row (\<lambda>q. ap_id q = p) (ad_projects d) = Some row" "ap_user row = Some user"
    and c: "getLatestKnownGoodCheckpoint p productionOnly d = Some c"
    and mark: "markSnapshotAsCurrent sha256 (rc_snapshot c) p d = Inr (u, d')"
    unfolding recoverLatest_def refused_unless by auto
  note latest = latest_checkpoint [OF c]
  from latest(1) assms(2) obtain s where s: "s \<in> set (ad_snapshots d)" "sn_id s = rc_snapshot c" "sn_version s = rc_version c"
      "map_option ai_sha (sn_integrity s) = Some (rc_sha c)"
    by (auto simp: artifacts_ok_def checkpoint_ok_def)
  from restored [OF mark assms(2)] obtain t k where t: "t \<in> set (ad_snapshots d)" "sn_id t = rc_snapshot c" "sn_project t = p"
      "verified_snapshot sha256 p t = Inr (sn_files t, k)" by metis
  then have ts: "t = s" using same_id [OF assms(2) t(1) s(1)] s(2) by simp
  from served_after_mark [OF mark assms(2) t(1,2,4)] obtain d'' where
    art: "getCurrentArtifact sha256 p d' = Inr (Some \<lparr>ca_snapshot = rc_snapshot c, ca_version = sn_version t,
       ca_files = sn_files t, ca_integrity = k\<rparr>, d'')" by metis
  have "snapshot_ok sha256 t" using t(1) assms(2) by (simp add: artifacts_ok_def)
  with verified_ok(4) [of sha256 t "sn_files t" k] t(3,4) s(4) ts have "ai_sha k = rc_sha c" by auto
  with art ts s(3) latest first_row_Some [OF row(1)] row(2) show ?thesis by auto
qed

section \<open>What goes live\<close>

definition live_from :: "snapshot_row list \<Rightarrow> snapshot_row list \<Rightarrow> bool" where
  \<comment> \<open>every current row was the current one before or has a resolved manifest\<close>
  "live_from ss ss' \<longleftrightarrow> (\<forall>s' \<in> set ss'. sn_current s' \<longrightarrow>
     (\<exists>s \<in> set ss. sn_current s \<and> same_snapshot s s') \<or> resolved_row s')"

lemma live_refl [simp]: "live_from ss ss"
  by (auto simp: live_from_def)

lemma live_update:
  assumes "\<And>s. s \<in> set ss \<Longrightarrow> P s \<Longrightarrow> same_snapshot s (f s) \<and> sn_current (f s) = sn_current s"
  shows "live_from ss (update_where P f ss)"
  using assms by (auto simp: live_from_def set_update_where)

lemma live_insert: "\<not> sn_current s \<Longrightarrow> live_from ss (ss @ [s])"
  by (auto simp: live_from_def)

lemma live_activate:
  assumes "artifacts_ok sha256 d'" "getCurrentSnapshot p d' = Some s" "resolved_row s"
    "\<And>t. t \<in> set (ad_snapshots d') \<Longrightarrow> sn_project t \<noteq> p \<Longrightarrow> t \<in> set (ad_snapshots d)"
  shows "live_from (ad_snapshots d) (ad_snapshots d')"
  unfolding live_from_def
proof (intro ballI impI)
  fix t assume t: "t \<in> set (ad_snapshots d')" "sn_current t"
  show "(\<exists>s \<in> set (ad_snapshots d). sn_current s \<and> same_snapshot s t) \<or> resolved_row t"
  proof (cases "sn_project t = p")
    case True
    with current_unique [OF assms(1) t] assms(2,3) show ?thesis by simp
  next
    case False
    with assms(4) [OF t(1)] t(2) show ?thesis using same_snapshot_refl by blast
  qed
qed

lemma other_rows_switched: "t \<in> set (ad_snapshots (switch_current p i d)) \<Longrightarrow> sn_project t \<noteq> p \<Longrightarrow> t \<in> set (ad_snapshots d)"
  by (auto simp: switch_rows switched_def)

lemma other_rows_backfilled:
  "t \<in> set (ad_snapshots (backfill_integrity s p i d)) \<Longrightarrow> sn_project t \<noteq> p \<Longrightarrow> t \<in> set (ad_snapshots d)"
  by (auto simp: backfill_integrity_def set_update_where split: if_splits)

lemma live_inserted:
  assumes "insert_snapshot s d = Inr (i, d1)" "\<not> sn_current s" "snapshot_ok sha256 s" "artifacts_ok sha256 d"
  shows "live_from (ad_snapshots d) (ad_snapshots d1)"
  using insert_keeps_ok(3) [OF assms(4,1,2)] assms(2,3) by (simp add: live_insert)

lemma live_activated:
  assumes "insert_snapshot s d = Inr (i, d1)" "\<not> sn_current s" "snapshot_ok sha256 s" "servable s" "resolved_row s"
    "artifacts_ok sha256 d"
  shows "live_from (ad_snapshots d) (ad_snapshots (switch_current (sn_project s) i d1))"
proof (rule live_activate)
  note act = activated [OF assms(1-4,6)]
  from act show "artifacts_ok sha256 (switch_current (sn_project s) i d1)"
    "getCurrentSnapshot (sn_project s) (switch_current (sn_project s) i d1) = Some (s\<lparr>sn_id := i, sn_current := True\<rparr>)" by auto
  show "resolved_row (s\<lparr>sn_id := i, sn_current := True\<rparr>)" using assms(5) by (simp add: resolved_row_def)
  show "t \<in> set (ad_snapshots d)" if "t \<in> set (ad_snapshots (switch_current (sn_project s) i d1))" "sn_project t \<noteq> sn_project s" for t
    using other_rows_switched [OF that] that(2) insert_keeps_ok(3) [OF assms(6,1,2)] assms(3) by auto
qed

lemma live_backfilled:
  assumes "s \<in> set (ad_snapshots d)" "artifacts_ok sha256 d"
  shows "live_from (ad_snapshots d) (ad_snapshots (backfill_integrity s (sn_project s) integrity d))"
proof (cases "sn_integrity s")
  case None
  have "same_snapshot t (t\<lparr>sn_integrity := Some integrity\<rparr>) \<and> sn_current (t\<lparr>sn_integrity := Some integrity\<rparr>) = sn_current t"
    if "t \<in> set (ad_snapshots d)" "sn_id t = sn_id s \<and> sn_project t = sn_project s" for t
    using same_id [OF assms(2) that(1) assms(1)] that(2) None by (simp add: same_snapshot_def)
  then show ?thesis by (simp add: backfill_integrity_def None live_update)
qed (simp add: backfill_integrity_def)

lemma live_marked:
  assumes "markSnapshotAsCurrent sha256 i p d = Inr (u, d')" "artifacts_ok sha256 d"
  shows "live_from (ad_snapshots d) (ad_snapshots d')"
proof -
  from restored [OF assms] obtain s m k where r: "sn_manifest s = Some m" "assertMustHaveRequirementsResolved m = Inr m"
    "getCurrentSnapshot p d' = Some (s\<lparr>sn_integrity := Some k, sn_current := True\<rparr>)" "artifacts_ok sha256 d'" by metis
  obtain m s j where d': "d' = set_project p (\<lambda>q. q\<lparr>ap_manifest := Some m, ap_status := ''validated''\<rparr>)
      (switch_current p i (backfill_integrity s p j d))"
    using assms(1) by (auto simp: markSnapshotAsCurrent_def split: option.split_asm)
  show ?thesis
  proof (rule live_activate [OF r(4,3)])
    show "t \<in> set (ad_snapshots d)" if "t \<in> set (ad_snapshots d')" "sn_project t \<noteq> p" for t
      using that other_rows_backfilled [OF other_rows_switched] by (simp add: d')
  qed (use r in \<open>simp add: resolved_row_def\<close>)
qed

lemma same_rows_live: "ad_snapshots d' = ad_snapshots d \<Longrightarrow> live_from (ad_snapshots d) (ad_snapshots d')"
  by simp

lemma step_live:
  assumes "artifact_step sha256 d d'" "artifacts_ok sha256 d"
  shows "live_from (ad_snapshots d) (ad_snapshots d')"
  using assms
proof (induction rule: artifact_step.induct)
  case (save i files d integrity d')
  then show ?case by (auto simp: updateProjectFiles_def Let_def)
next
  case (read_working i d files d')
  then show ?case by (auto simp: getWorkingProjectFiles_def Let_def split: option.splits if_splits)
next
  case (read_snapshot s i d a d')
  then show ?case
    by (auto simp: getSnapshotArtifact_def live_backfilled split: option.split_asm dest!: first_row_Some)
next
  case (read_current i d a d')
  then show ?case
    by (auto simp: getCurrentArtifact_def live_backfilled split: option.split_asm dest!: current_row)
next
  case (create sd d n d')
  from created [OF create(1)] live_inserted create(2) snapshot_of_sel(2) show ?case by metis
next
  case (activate sd d r d')
  obtain i integrity where "r = (i, integrity)" by (cases r)
  with activate(1) have "createAndActivateBuildSnapshot sha256 sd d = Inr ((i, integrity), d')" by simp
  then show ?case
  proof (rule activated_snapshot)
    fix files m d1
    assume s: "insert_snapshot (snapshot_of sd files m integrity) d = Inr (i, d1)"
      "snapshot_ok sha256 (snapshot_of sd files m integrity)" "servable (snapshot_of sd files m integrity)"
      "assertMustHaveRequirementsResolved (sd_manifest sd) = Inr m"
      "d' = set_project (sd_project sd) (\<lambda>p. p\<lparr>ap_manifest := Some m, ap_status := ''validated''\<rparr>) (switch_current (sd_project sd) i d1)"
    from resolved_manifest [OF s(4)] s(4) have "resolved_row (snapshot_of sd files m integrity)" by (simp add: resolved_row_def)
    from live_activated [OF s(1) _ s(2,3) this activate(2)] show ?thesis by (simp add: s(5))
  qed
next
  case (rollback s i d u d')
  then show ?case by (rule live_marked)
next
  case (append i path content d a d')
  from append(1) show ?case
  proof (rule appended)
    fix s d1 raw
    assume s: "insert_snapshot s d = Inr (ca_snapshot a, d1)" "sn_project s = i" "\<not> sn_current s" "snapshot_ok sha256 s"
      "servable s" "resolved_row s" "\<exists>f. d' = set_project i f (switch_current i (ca_snapshot a) d1)"
    from live_activated [OF s(1,3,4,5,6) append(2)] s(2,7) show ?thesis by auto
  qed
next
  case (edit i user files originalFiles d r d')
  obtain n v where "r = (n, v)" by (cases r)
  with edit(1) have "commitProjectFilesSnapshot sha256 i user files originalFiles d = Inr ((n, v), d')" by simp
  from edited [OF this] live_inserted edit(2) show ?case by (metis project_frame(1))
next
  case (manifest i m d u d')
  then show ?case by (auto simp: updateProjectRequirementManifest_def)
next
  case (evidence i m d u d')
  from evidence_rows [OF evidence(1)] show ?case
    by (auto simp: same_snapshot_def intro: live_update split: option.split_asm)
next
  case (checkpoint c now d row d')
  then show ?case by (simp add: recorded)
qed simp

text \<open>
  C27. Only finished products go live. Whatever transaction runs, a snapshot that is current
  afterwards either was the current one before, with the same files, or carries a requirement
  manifest whose must-have requirements are all resolved. In particular saved edits are never
  served.
\<close>

theorem only_resolved_products_go_live:
  assumes "artifact_step sha256 d d'" "artifacts_ok sha256 d" "getCurrentSnapshot p d' = Some s'"
  shows "(\<exists>s. getCurrentSnapshot p d = Some s \<and> sn_id s = sn_id s' \<and> sn_files s = sn_files s') \<or>
    (\<exists>m. sn_manifest s' = Some m \<and> assertMustHaveRequirementsResolved m = Inr m)"
proof -
  note s' = current_row [OF assms(3)]
  with step_live [OF assms(1,2)] consider s where "s \<in> set (ad_snapshots d)" "sn_current s" "same_snapshot s s'" | "resolved_row s'"
    unfolding live_from_def by blast
  then show ?thesis
  proof cases
    case 1
    with current_unique [OF assms(2) 1(1,2)] s' show ?thesis by (auto simp: same_snapshot_def)
  qed (auto simp: resolved_row_def)
qed

section \<open>A concrete project\<close>

definition sample_artifacts :: artifact_db where
  "sample_artifacts = \<lparr>ad_projects = [\<lparr>ap_id = 7, ap_user = Some 3, ap_status = ''running'', ap_files = None,
     ap_workVersion = None, ap_workIntegrity = None, ap_manifest = None\<rparr>], ad_snapshots = [], ad_checkpoints = []\<rparr>"

definition sample_done :: requirement_manifest where
  "sample_done = \<lparr>rm_revision = 1, rm_productType = ''website'', rm_stack = ''react-node'', rm_prompt = ''A shop'',
     rm_createdAt = ''t0'', rm_updatedAt = ''t1'',
     rm_requirements = [\<lparr>rq_id = ''REQ-001'', rq_text = ''List'', rq_priority = Must, rq_category = WorkflowReq,
       rq_tasks = [''t1''], rq_files = [''index.html''], rq_tests = [], rq_validations = [], rq_hash = None,
       rq_evidence = [\<lparr>ve_stage = ''build'', ve_passed = True, ve_at = ''t1'', ve_errors = []\<rparr>],
       rq_deployments = [], rq_status = ReqValidated, rq_reason = None\<rparr>],
     rm_capabilities = [], rm_changes = [], rm_unresolved = []\<rparr>"

definition sample_snapshot :: snapshot_data where
  "sample_snapshot = \<lparr>sd_project = 7, sd_user = 3, sd_snapshotVersion = 1, sd_files = sample_files, sd_fileCount = 2,
     sd_manifest = sample_done\<rparr>"

definition sample_int :: artifact_integrity where
  "sample_int = projr (buildArtifactIntegrity sample_sha 7 1 FinalArtifact sample_files None)"

definition sample_live :: artifact_db where
  "sample_live = snd (projr (createAndActivateBuildSnapshot sample_sha sample_snapshot sample_artifacts))"

definition sample_saved :: artifact_db where
  "sample_saved = snd (projr (updateProjectFiles sample_sha 7 [(''index.html'', ''new'')] sample_live))"

lemma sample_activated:
  "createAndActivateBuildSnapshot sample_sha sample_snapshot sample_artifacts = Inr ((1, sample_int), sample_live)"
  by code_simp

definition sample_work :: artifact_integrity where
  "sample_work = projr (buildArtifactIntegrity sample_sha 7 1 WorkingArtifact [(''index.html'', ''new'')] None)"

lemma sample_saves:
  "updateProjectFiles sample_sha 7 [(''index.html'', ''new'')] sample_live = Inr (sample_work, sample_saved)"
  by code_simp

lemma sample_start: "artifacts_ok sample_sha sample_artifacts"
  by (simp add: artifacts_ok_def one_current_def sample_artifacts_def)

lemma sample_sound: "artifacts_ok sample_sha sample_live"
  using activate_keeps [OF sample_activated] sample_start by (simp add: keeps_def)

lemma sample_run:
  "artifact_step sample_sha sample_artifacts sample_live" "artifact_step sample_sha sample_live sample_saved"
  by (rule activate [OF sample_activated], rule save [OF sample_saves])

lemma sample_validated_files: "validateArtifactFiles (sd_files sample_snapshot) = Inr sample_files"
  by code_simp

theorem served_files_always_verify_witness:
  "\<exists>s. getCurrentSnapshot 7 sample_saved = Some s \<and>
     (\<exists>a d'. getCurrentArtifact sample_sha 7 sample_saved = Inr (Some a, d') \<and> ca_files a = sn_files s)"
proof -
  have "(artifact_step sample_sha)\<^sup>*\<^sup>* sample_artifacts sample_saved" using sample_run by (meson rtranclp.simps)
  note served = served_files_always_verify [OF this, THEN conjunct2, rule_format, of 7]
  have "map_option sn_version (getCurrentSnapshot 7 sample_saved) = Some 1" by code_simp
  then obtain s where "getCurrentSnapshot 7 sample_saved = Some s" by auto
  with served show ?thesis by (auto simp: sample_artifacts_def)
qed

theorem rollback_restores_the_build_witness:
  "\<exists>d3 a d4. markSnapshotAsCurrent sample_sha 1 7 sample_saved = Inr ((), d3) \<and>
     getCurrentArtifact sample_sha 7 d3 = Inr (Some a, d4) \<and> ca_files a = sample_files"
proof -
  have p: "sd_project sample_snapshot = 7" by (simp add: sample_snapshot_def)
  have "(artifact_step sample_sha)\<^sup>*\<^sup>* sample_live sample_saved" using sample_run(2) by blast
  from rollback_restores_the_build [OF sample_activated sample_start this sample_validated_files]
  obtain s where s: "s \<in> set (ad_snapshots sample_saved)" "(case required_manifest (sn_manifest s) of
       Inl e \<Rightarrow> markSnapshotAsCurrent sample_sha 1 7 sample_saved = Inl e
     | Inr m \<Rightarrow> \<exists>d3 a d4. markSnapshotAsCurrent sample_sha 1 7 sample_saved = Inr ((), d3) \<and>
         getCurrentArtifact sample_sha 7 d3 = Inr (Some a, d4) \<and> ca_snapshot a = 1 \<and>
         ca_version a = sd_snapshotVersion sample_snapshot \<and> ca_files a = sample_files \<and> ca_integrity a = sample_int)"
    unfolding p by blast
  have "list_all (\<lambda>s. required_manifest (sn_manifest s) = Inr sample_done) (ad_snapshots sample_saved)" by code_simp
  with s show ?thesis by (auto simp: list_all_iff)
qed

definition sample_checkpoint :: checkpoint_input where
  "sample_checkpoint = \<lparr>ci_project = 7, ci_snapshot = 1, ci_version = 1, ci_sha = sample_sha [], ci_source = ValidatedArtifact,
     ci_deployment = None, ci_manifestSha = None, ci_url = None\<rparr>"

definition sample_recorded :: artifact_db where
  "sample_recorded = snd (projr (recordKnownGoodCheckpoint sample_checkpoint 5 sample_live))"

definition sample_recovered :: artifact_db where
  "sample_recovered = snd (projr (recoverLatest sample_sha 7 3 False sample_recorded))"

lemma sample_records:
  "recordKnownGoodCheckpoint sample_checkpoint 5 sample_live = Inr (checkpoint_of sample_checkpoint 5 1, sample_recorded)"
  "recoverLatest sample_sha 7 3 False sample_recorded = Inr (checkpoint_of sample_checkpoint 5 1, sample_recovered)"
  by code_simp+

theorem recovery_restores_known_good_witness:
  "\<exists>a d''. getCurrentArtifact sample_sha 7 sample_recovered = Inr (Some a, d'') \<and> ca_snapshot a = 1 \<and>
     ai_sha (ca_integrity a) = sample_sha []"
proof -
  have "artifacts_ok sample_sha sample_recorded"
    using checkpoint_keeps [OF sample_records(1)] sample_sound by (simp add: keeps_def)
  note recovery_restores_known_good [OF sample_records(2) this]
  moreover have "rc_snapshot (checkpoint_of sample_checkpoint 5 1) = 1" "rc_sha (checkpoint_of sample_checkpoint 5 1) = sample_sha []"
    by (simp_all add: checkpoint_of_def sample_checkpoint_def)
  ultimately show ?thesis by metis
qed

theorem only_resolved_products_go_live_witness:
  "\<exists>s' m. getCurrentSnapshot 7 sample_live = Some s' \<and> sn_manifest s' = Some m \<and>
     assertMustHaveRequirementsResolved m = Inr m"
proof -
  have "map_option sn_version (getCurrentSnapshot 7 sample_live) = Some 1" by code_simp
  then obtain s' where s': "getCurrentSnapshot 7 sample_live = Some s'" by auto
  moreover have "getCurrentSnapshot 7 sample_artifacts = None"
    by (simp add: getCurrentSnapshot_def sample_artifacts_def table_simps)
  ultimately show ?thesis
    using only_resolved_products_go_live [OF sample_run(1) sample_start s'] by auto
qed

text \<open>
  A surprise: rolling back switches what is served and leaves the working copy as it is, so the next
  edit starts from the files the rollback was meant to leave behind.
\<close>

lemma rollback_keeps_working_copy:
  "map_sum id fst (bind_result (markSnapshotAsCurrent sample_sha 1 7 sample_saved)
     (\<lambda>(_, d). getEditableProjectFiles sample_sha 7 d)) = Inr [(''index.html'', ''new'')]"
  "map_sum id fst (bind_result (markSnapshotAsCurrent sample_sha 1 7 sample_saved)
     (\<lambda>(_, d). getProjectFiles sample_sha 7 d)) = Inr sample_files"
  by code_simp+

end
