(* ===== verification/Regex.thy ===== *)
theory Regex
  imports Prelude
begin

text \<open>
  The regular expressions of JavaScript that the sources use with \<open>test\<close>: literal text, character
  classes, sequence, choice, bounded and unbounded repetition, the anchors, word boundaries,
  negative lookahead and the flag \<open>i\<close>. A spot of a text is the character before it, if any, and
  the text after it. \<open>rx_match\<close> says which spots an expression joins, as relations; \<open>ends\<close>
  computes the spots where a match that starts at a given one can end, and the two agree. Texts are
  bytes, and letter case, words and white space are those of ASCII.
\<close>

section \<open>Expressions\<close>

datatype regex =
    Never | Empty | Exact string | Class bool "(char \<times> char) list" | Seq regex regex | Or regex regex
  | Repeat regex nat "nat option" | WordEdge | TextStart | TextEnd | NotAhead regex

datatype pattern = Pattern bool regex

definition rx_seq :: "regex list \<Rightarrow> regex" where
  "rx_seq rs = foldr Seq rs Empty"

definition rx_or :: "regex list \<Rightarrow> regex" where
  "rx_or rs = foldr Or rs Never"

definition rx_opt :: "regex \<Rightarrow> regex" where
  "rx_opt r = Repeat r 0 (Some 1)"

definition rx_star :: "regex \<Rightarrow> regex" where
  "rx_star r = Repeat r 0 None"

definition rx_plus :: "regex \<Rightarrow> regex" where
  "rx_plus r = Repeat r 1 None"

definition rx_dot :: regex where
  "rx_dot = Class True [(CHR 0x0A, CHR 0x0A), (CHR 0x0D, CHR 0x0D)]"

definition rx_any :: regex where
  \<comment> \<open>\<open>[\s\S]\<close>\<close>
  "rx_any = Class True []"

definition rx_digit :: regex where
  "rx_digit = Class False [(CHR ''0'', CHR ''9'')]"

definition rx_space :: regex where
  "rx_space = Class False [(CHR 0x09, CHR 0x0D), (CHR '' '', CHR '' '')]"

definition rx_word :: regex where
  "rx_word = Class False [(CHR ''0'', CHR ''9''), (CHR ''A'', CHR ''Z''), (CHR ''_'', CHR ''_''), (CHR ''a'', CHR ''z'')]"

definition rx_texts :: "string list \<Rightarrow> regex" where
  \<comment> \<open>\<open>a|b|c\<close> of plain texts\<close>
  "rx_texts ts = rx_or (map Exact ts)"

definition rx_edged :: "regex list \<Rightarrow> regex" where
  \<comment> \<open>\<open>\b(?:a|b|c)\b\<close>\<close>
  "rx_edged rs = rx_seq [WordEdge, rx_or rs, WordEdge]"

definition rx_words :: "string list \<Rightarrow> regex" where
  "rx_words ts = rx_edged (map Exact ts)"

section \<open>Spots\<close>

datatype spot = Spot (before: "char option") (ahead: string)

definition word_at :: "char option \<Rightarrow> bool" where
  "word_at p = (case p of None \<Rightarrow> False | Some c \<Rightarrow> is_alnum c \<or> c = CHR ''_'')"

definition after :: "string \<Rightarrow> char option" where
  "after s = (case s of [] \<Rightarrow> None | c # _ \<Rightarrow> Some c)"

definition word_edge :: "spot \<Rightarrow> bool" where
  "word_edge a = (word_at (before a) \<noteq> word_at (after (ahead a)))"

definition upper_char :: "char \<Rightarrow> char" where
  "upper_char c = (if is_lower c then char_of (of_char c - (32 :: nat)) else c)"

definition same_char :: "bool \<Rightarrow> char \<Rightarrow> char \<Rightarrow> bool" where
  "same_char i c d = (if i then lower_char c = lower_char d else c = d)"

definition in_ranges :: "bool \<Rightarrow> (char \<times> char) list \<Rightarrow> char \<Rightarrow> bool" where
  "in_ranges i ranges c = list_ex (\<lambda>x. list_ex (\<lambda>(lo, hi). lo \<le> x \<and> x \<le> hi) ranges)
     (if i then [c, lower_char c, upper_char c] else [c])"

text \<open>The bits of an ASCII letter, for evaluation.\<close>

lemma is_upper_bits [code]: "is_upper (Char b0 b1 b2 b3 b4 b5 b6 b7) \<longleftrightarrow>
    \<not> b7 \<and> b6 \<and> \<not> b5 \<and> (b0 \<or> b1 \<or> b2 \<or> b3 \<or> b4) \<and> (b4 \<and> b3 \<longrightarrow> \<not> b2 \<and> \<not> (b1 \<and> b0))"
  by (cases b0; cases b1; cases b2; cases b3; cases b4; cases b5; cases b6; cases b7)
     (simp_all add: is_upper_def less_eq_char_def)

lemma lower_char_bits [code]: "lower_char (Char b0 b1 b2 b3 b4 b5 b6 b7) =
    Char b0 b1 b2 b3 b4 (b5 \<or> is_upper (Char b0 b1 b2 b3 b4 b5 b6 b7)) b6 b7"
  by (cases b0; cases b1; cases b2; cases b3; cases b4; cases b5; cases b6; cases b7)
     (simp_all add: is_upper_bits lower_char_def char_of_def bit_iff_odd)

fun take_exact :: "bool \<Rightarrow> string \<Rightarrow> spot \<Rightarrow> spot option" where
  "take_exact i [] a = Some a"
| "take_exact i (c # cs) (Spot p []) = None"
| "take_exact i (c # cs) (Spot p (d # s)) = (if same_char i c d then take_exact i cs (Spot (Some d) s) else None)"

section \<open>Meaning\<close>

primrec rx_match :: "bool \<Rightarrow> regex \<Rightarrow> spot \<Rightarrow> spot \<Rightarrow> bool" where
  "rx_match i Never = (\<lambda>a b. False)"
| "rx_match i Empty = (\<lambda>a b. a = b)"
| "rx_match i (Exact t) = (\<lambda>a b. take_exact i t a = Some b)"
| "rx_match i (Class neg ranges) = (\<lambda>a b. \<exists>c. ahead a = c # ahead b \<and> before b = Some c \<and> in_ranges i ranges c \<noteq> neg)"
| "rx_match i (Seq r s) = rx_match i r OO rx_match i s"
| "rx_match i (Or r s) = (\<lambda>a b. rx_match i r a b \<or> rx_match i s a b)"
| "rx_match i (Repeat r m limit) = (\<lambda>a b. \<exists>n \<ge> m. (case limit of None \<Rightarrow> True | Some k \<Rightarrow> n \<le> k) \<and>
     (rx_match i r ^^ n) a b)"
| "rx_match i WordEdge = (\<lambda>a b. a = b \<and> word_edge a)"
| "rx_match i TextStart = (\<lambda>a b. a = b \<and> before a = None)"
| "rx_match i TextEnd = (\<lambda>a b. a = b \<and> ahead a = [])"
| "rx_match i (NotAhead r) = (\<lambda>a b. a = b \<and> (\<nexists>c. rx_match i r a c))"

section \<open>Matching\<close>

definition step_all :: "(spot \<Rightarrow> spot list) \<Rightarrow> spot list \<Rightarrow> spot list" where
  "step_all f S = remdups (concat (map f S))"

fun step_upto :: "(spot \<Rightarrow> spot list) \<Rightarrow> nat \<Rightarrow> spot list \<Rightarrow> spot list" where
  "step_upto f 0 S = S"
| "step_upto f (Suc n) S = (if S = [] then [] else remdups (S @ step_upto f n (step_all f S)))"

primrec ends :: "bool \<Rightarrow> regex \<Rightarrow> spot \<Rightarrow> spot list" where
  "ends i Never a = []"
| "ends i Empty a = [a]"
| "ends i (Exact t) a = (case take_exact i t a of None \<Rightarrow> [] | Some b \<Rightarrow> [b])"
| "ends i (Class neg ranges) a = (case ahead a of [] \<Rightarrow> []
     | c # s \<Rightarrow> if in_ranges i ranges c \<noteq> neg then [Spot (Some c) s] else [])"
| "ends i (Seq r s) a = step_all (ends i s) (ends i r a)"
| "ends i (Or r s) a = ends i r a @ ends i s a"
| "ends i (Repeat r m limit) a = (let S = (step_all (ends i r) ^^ m) [a] in
     case limit of None \<Rightarrow> step_upto (ends i r) (length (ahead a)) S
     | Some k \<Rightarrow> if k < m then [] else step_upto (ends i r) (k - m) S)"
| "ends i WordEdge a = (if word_edge a then [a] else [])"
| "ends i TextStart a = (if before a = None then [a] else [])"
| "ends i TextEnd a = (if ahead a = [] then [a] else [])"
| "ends i (NotAhead r) a = (if ends i r a = [] then [a] else [])"

fun rx_search :: "bool \<Rightarrow> regex \<Rightarrow> char option \<Rightarrow> string \<Rightarrow> bool" where
  "rx_search i r p [] = (ends i r (Spot p []) \<noteq> [])"
| "rx_search i r p (c # s) = (ends i r (Spot p (c # s)) \<noteq> [] \<or> rx_search i r (Some c) s)"

definition rx_test :: "pattern \<Rightarrow> string \<Rightarrow> bool" where
  \<comment> \<open>the method \<open>test\<close> of a regular expression\<close>
  "rx_test p s = (case p of Pattern i r \<Rightarrow> rx_search i r None s)"

section \<open>The matcher computes the meaning\<close>

text \<open>A match consumes text or stays where it is, so that repeating it cannot go on for ever.\<close>

definition progress :: "spot \<Rightarrow> spot \<Rightarrow> bool" where
  "progress a b \<longleftrightarrow> a = b \<or> length (ahead b) < length (ahead a)"

lemma progress_refl [simp]: "progress a a"
  by (simp add: progress_def)

lemma progress_trans: "progress a b \<Longrightarrow> progress b c \<Longrightarrow> progress a c"
  by (auto simp: progress_def)

lemma take_exact_progress: "take_exact i t a = Some b \<Longrightarrow> progress a b"
  by (induction i t a rule: take_exact.induct) (fastforce simp: progress_def split: if_splits)+

lemma relpow_progress: "(R ^^ n) a b \<Longrightarrow> (\<And>a b. R a b \<Longrightarrow> progress a b) \<Longrightarrow> progress a b"
  by (induction n arbitrary: b) (auto intro: progress_trans)

lemma match_progress: "rx_match i r a b \<Longrightarrow> progress a b"
proof (induction r arbitrary: a b)
  case (Exact t)
  then show ?case by (simp add: take_exact_progress)
next
  case (Seq r s)
  from Seq.prems obtain c where "rx_match i r a c" "rx_match i s c b" by auto
  with Seq.IH show ?case using progress_trans by blast
next
  case (Repeat r m limit)
  then show ?case by (auto intro: relpow_progress)
qed (auto simp: progress_def)

text \<open>Hence as many rounds as there are characters left reach every spot that can be reached.\<close>

lemma relpow_short:
  assumes "(R ^^ n) a b" "\<And>a b. R a b \<Longrightarrow> progress a b"
  shows "\<exists>k \<le> length (ahead a). (R ^^ k) a b"
  using assms(1)
proof (induction n arbitrary: a)
  case (Suc n)
  from Suc.prems obtain c where c: "R a c" "(R ^^ n) c b" by (meson relpowp_Suc_D2)
  from Suc.IH [OF c(2)] obtain k where k: "k \<le> length (ahead c)" "(R ^^ k) c b" by blast
  from assms(2) [OF c(1)] show ?case unfolding progress_def
  proof
    assume "a = c"
    with k show ?thesis by blast
  next
    assume "length (ahead c) < length (ahead a)"
    with k(1) have "Suc k \<le> length (ahead a)" by simp
    moreover have "(R ^^ Suc k) a b" using relpowp_Suc_I2 [of R a c k b] c(1) k(2) by simp
    ultimately show ?thesis by blast
  qed
qed auto

lemma set_step_all: "set (step_all f S) = (\<Union>a \<in> set S. set (f a))"
  by (simp add: step_all_def)

lemma step_all_pow:
  assumes "\<And>a b. b \<in> set (f a) \<longleftrightarrow> R a b"
  shows "b \<in> set ((step_all f ^^ n) S) \<longleftrightarrow> (\<exists>a \<in> set S. (R ^^ n) a b)"
proof (induction n arbitrary: b)
  case (Suc n)
  have "b \<in> set ((step_all f ^^ Suc n) S) \<longleftrightarrow> (\<exists>c. c \<in> set ((step_all f ^^ n) S) \<and> R c b)"
    by (auto simp: set_step_all assms)
  also have "\<dots> \<longleftrightarrow> (\<exists>a \<in> set S. (R ^^ Suc n) a b)" unfolding Suc by auto
  finally show ?case .
qed simp

lemma relpow_first: "(\<exists>k \<le> n. (R ^^ Suc k) a b) \<longleftrightarrow> (\<exists>c. R a c \<and> (\<exists>k \<le> n. (R ^^ k) c b))"
  by (meson relpowp_Suc_D2 relpowp_Suc_I2)

lemma relpow_upto_Suc: "(\<exists>k \<le> Suc n. (R ^^ k) a b) \<longleftrightarrow> a = b \<or> (\<exists>k \<le> n. (R ^^ Suc k) a b)"
proof
  assume "\<exists>k \<le> Suc n. (R ^^ k) a b"
  then obtain k where "k \<le> Suc n" "(R ^^ k) a b" by blast
  then show "a = b \<or> (\<exists>k \<le> n. (R ^^ Suc k) a b)" by (cases k) auto
next
  assume "a = b \<or> (\<exists>k \<le> n. (R ^^ Suc k) a b)"
  then show "\<exists>k \<le> Suc n. (R ^^ k) a b" by (metis Suc_le_mono le0 relpowp_0_I)
qed

lemma relpow_split: "(\<exists>c. (R ^^ m) a c \<and> (R ^^ k) c b) \<longleftrightarrow> (R ^^ (m + k)) a b"
  by (simp add: relpowp_add relcompp_apply)

lemma step_all_Bex:
  assumes "\<And>a b. b \<in> set (f a) \<longleftrightarrow> R a b"
  shows "b \<in> set S \<or> (\<exists>c \<in> set (step_all f S). Q c) \<longleftrightarrow> (\<exists>a \<in> set S. a = b \<or> (\<exists>c. R a c \<and> Q c))"
proof -
  have "(\<exists>c \<in> set (step_all f S). Q c) \<longleftrightarrow> (\<exists>a \<in> set S. \<exists>c. R a c \<and> Q c)"
    unfolding set_step_all Bex_def UN_iff assms by blast
  then show ?thesis by blast
qed

lemma step_upto_pow:
  assumes "\<And>a b. b \<in> set (f a) \<longleftrightarrow> R a b"
  shows "b \<in> set (step_upto f n S) \<longleftrightarrow> (\<exists>a \<in> set S. \<exists>k \<le> n. (R ^^ k) a b)"
proof (induction n arbitrary: S)
  case (Suc n)
  have "b \<in> set (step_upto f (Suc n) S) \<longleftrightarrow> b \<in> set S \<or> (\<exists>c \<in> set (step_all f S). \<exists>k \<le> n. (R ^^ k) c b)"
    using Suc [of "step_all f S"] by (cases "S = []") (auto simp: set_step_all)
  also have "\<dots> \<longleftrightarrow> (\<exists>a \<in> set S. a = b \<or> (\<exists>c. R a c \<and> (\<exists>k \<le> n. (R ^^ k) c b)))"
    by (rule step_all_Bex) (rule assms)
  also have "\<dots> \<longleftrightarrow> (\<exists>a \<in> set S. \<exists>k \<le> Suc n. (R ^^ k) a b)"
    unfolding relpow_upto_Suc relpow_first ..
  finally show ?case .
qed auto

lemma ends_iff: "b \<in> set (ends i r a) \<longleftrightarrow> rx_match i r a b"
proof (induction r arbitrary: a b)
  case (Class neg ranges)
  show ?case by (cases b) (auto split: list.split)
next
  case (Seq r s)
  then show ?case by (auto simp: set_step_all relcompp_apply)
next
  case (Repeat r m limit)
  note pow = step_all_pow [of "ends i r" "rx_match i r", OF Repeat]
    and upto = step_upto_pow [of "ends i r" "rx_match i r", OF Repeat]
  show ?case
  proof (cases limit)
    case None
    have "(\<exists>c. (rx_match i r ^^ m) a c \<and> (\<exists>k \<le> length (ahead a). (rx_match i r ^^ k) c b)) \<longleftrightarrow>
        (\<exists>n \<ge> m. (rx_match i r ^^ n) a b)"
    proof
      assume "\<exists>n \<ge> m. (rx_match i r ^^ n) a b"
      then obtain k where "(rx_match i r ^^ (m + k)) a b" by (auto simp: le_iff_add)
      then obtain c where c: "(rx_match i r ^^ m) a c" "(rx_match i r ^^ k) c b"
        unfolding relpow_split [symmetric] by blast
      from relpow_short [OF c(2)] match_progress [of i r] obtain j where
        j: "j \<le> length (ahead c)" "(rx_match i r ^^ j) c b" by blast
      moreover have "length (ahead c) \<le> length (ahead a)"
        using relpow_progress [OF c(1)] match_progress [of i r] by (auto simp: progress_def)
      ultimately show "\<exists>c. (rx_match i r ^^ m) a c \<and> (\<exists>k \<le> length (ahead a). (rx_match i r ^^ k) c b)"
        using c(1) by (meson le_trans)
    next
      assume "\<exists>c. (rx_match i r ^^ m) a c \<and> (\<exists>k \<le> length (ahead a). (rx_match i r ^^ k) c b)"
      then obtain k where "(rx_match i r ^^ (m + k)) a b" unfolding relpow_split [symmetric] by blast
      then show "\<exists>n \<ge> m. (rx_match i r ^^ n) a b" by (meson le_add1)
    qed
    then show ?thesis using None by (simp add: Let_def upto pow Bex_def)
  next
    case (Some k)
    have "(\<exists>c. (rx_match i r ^^ m) a c \<and> (\<exists>j \<le> k - m. (rx_match i r ^^ j) c b)) \<longleftrightarrow>
        (\<exists>n \<ge> m. n \<le> k \<and> (rx_match i r ^^ n) a b)" if "m \<le> k"
    proof
      assume "\<exists>c. (rx_match i r ^^ m) a c \<and> (\<exists>j \<le> k - m. (rx_match i r ^^ j) c b)"
      then obtain j where "j \<le> k - m" "(rx_match i r ^^ (m + j)) a b" unfolding relpow_split [symmetric] by blast
      with that show "\<exists>n \<ge> m. n \<le> k \<and> (rx_match i r ^^ n) a b" by (intro exI [of _ "m + j"]) simp
    next
      assume "\<exists>n \<ge> m. n \<le> k \<and> (rx_match i r ^^ n) a b"
      then obtain n where "m \<le> n" "n \<le> k" "(rx_match i r ^^ n) a b" by blast
      then have "n - m \<le> k - m" "(rx_match i r ^^ (m + (n - m))) a b" by simp_all
      then obtain j where "j \<le> k - m" "(rx_match i r ^^ (m + j)) a b" by blast
      then show "\<exists>c. (rx_match i r ^^ m) a c \<and> (\<exists>j \<le> k - m. (rx_match i r ^^ j) c b)"
        unfolding relpow_split [symmetric] by blast
    qed
    then show ?thesis using Some by (auto simp: Let_def upto pow Bex_def)
  qed
next
  case (NotAhead r)
  then have "ends i r a = [] \<longleftrightarrow> (\<nexists>c. rx_match i r a c)" by (metis equals0D set_empty equals0I)
  then show ?case by auto
qed (auto split: option.split)

text \<open>A search succeeds when some part of the text matches.\<close>

definition spot_of :: "char option \<Rightarrow> string \<Rightarrow> string \<Rightarrow> spot" where
  "spot_of p u s = Spot (if u = [] then p else Some (last u)) s"

lemma rx_search_iff:
  "rx_search i r p s \<longleftrightarrow> (\<exists>u v b. s = u @ v \<and> rx_match i r (spot_of p u v) b)"
proof (induction i r p s rule: rx_search.induct)
  case (1 i r p)
  show ?case by (auto simp: spot_of_def ends_iff [symmetric]) (metis list.set_sel(1) spot.collapse)
next
  case (2 i r p c s)
  have here: "ends i r (Spot p (c # s)) \<noteq> [] \<longleftrightarrow> (\<exists>b. rx_match i r (Spot p (c # s)) b)"
    unfolding ends_iff [symmetric] by (metis equals0I set_empty equals0D)
  have split: "(\<exists>u v. c # s = u @ v \<and> Q u v) \<longleftrightarrow> Q [] (c # s) \<or> (\<exists>u v. s = u @ v \<and> Q (c # u) v)" for Q
    by (auto simp: Cons_eq_append_conv)
  have spots: "spot_of p (c # u) v = spot_of (Some c) u v" for u v by (simp add: spot_of_def)
  show ?case using 2 by (simp add: here split spots) (simp add: spot_of_def)
qed

lemma rx_test_iff:
  "rx_test (Pattern i r) s \<longleftrightarrow> (\<exists>u v b. s = u @ v \<and> rx_match i r (spot_of None u v) b)"
  by (simp add: rx_test_def rx_search_iff)

end
