(* ===== verification/ProductContract.thy ===== *)
theory ProductContract
  imports RequirementManifest StackRegistry Regex
begin

text \<open>
  The product contract and the product plan as data (\<open>src/lib/productContract.ts\<close>,
  \<open>src/lib/productPlan.ts\<close>): the schema of the contract, the change of its technology stack, the
  shape of a plan, and what the requirement manifest reads of both. The confidence of a contract is
  in hundredths. Objects of the source with free keys are association lists.
\<close>

section \<open>The contract\<close>

datatype secondary_capability =
    CapAuthentication | CapDatabase | CapBilling | CapAi | CapAnalytics | CapAdministration | CapTeams
  | CapNotifications | CapSearch | CapFileUploads | CapIntegrations | CapDeployment

datatype product_family =
    FamFrontend | FamBackend | FamDatabase | FamAi | FamInteractive | FamMobile | FamDesktop
  | FamBilling | FamAuth | FamAnalytics | FamIntegrations | FamDeployment

fun product_type_text :: "product_type \<Rightarrow> string" where
  "product_type_text Website = ''website''"
| "product_type_text SaasApplication = ''saas_application''"
| "product_type_text MobileApp = ''mobile_app''"
| "product_type_text DesktopApp = ''desktop_app''"
| "product_type_text GameProduct = ''game''"
| "product_type_text AiAgent = ''ai_agent''"
| "product_type_text DeveloperTool = ''developer_tool''"
| "product_type_text ApiProduct = ''api''"
| "product_type_text EcommerceProduct = ''ecommerce_product''"
| "product_type_text BrowserExtension = ''browser_extension''"
| "product_type_text AutomationTool = ''automation_tool''"
| "product_type_text DataProduct = ''data_product''"
| "product_type_text Infrastructure = ''infrastructure''"

fun secondary_text :: "secondary_capability \<Rightarrow> string" where
  "secondary_text CapAuthentication = ''authentication''"
| "secondary_text CapDatabase = ''database''"
| "secondary_text CapBilling = ''billing''"
| "secondary_text CapAi = ''ai''"
| "secondary_text CapAnalytics = ''analytics''"
| "secondary_text CapAdministration = ''administration''"
| "secondary_text CapTeams = ''teams''"
| "secondary_text CapNotifications = ''notifications''"
| "secondary_text CapSearch = ''search''"
| "secondary_text CapFileUploads = ''file_uploads''"
| "secondary_text CapIntegrations = ''external_integrations''"
| "secondary_text CapDeployment = ''deployment''"

record product_contract =
  pc_prompt :: string
  pc_productType :: product_type
  pc_families :: "product_family list"
  pc_targetUsers :: "string list"
  pc_userRoles :: "string list"
  pc_workflows :: "string list"
  pc_requirements :: "contract_requirement list"
  pc_nonFunctional :: "string list"
  pc_dataModels :: "string list"
  pc_integrations :: "string list"
  pc_security :: "string list"
  pc_deployment :: "string list"
  pc_monetization :: "string list"
  pc_recommendations :: "string list option"
  pc_stack :: string
  pc_research :: "string list"
  pc_runtime :: "string list"
  pc_secondary :: "secondary_capability list"
  pc_confidence :: int
  pc_interpretation :: string

definition texts_ok :: "string list \<Rightarrow> bool" where
  \<comment> \<open>\<open>z.array(z.string().min(1))\<close>\<close>
  "texts_ok xs \<longleftrightarrow> [] \<notin> set xs"

definition some_texts :: "string list \<Rightarrow> bool" where
  "some_texts xs \<longleftrightarrow> texts_ok xs \<and> xs \<noteq> []"

definition productContractSchema :: "product_contract \<Rightarrow> bool" where
  "productContractSchema c \<longleftrightarrow> pc_prompt c \<noteq> [] \<and> pc_families c \<noteq> [] \<and> some_texts (pc_targetUsers c) \<and>
     some_texts (pc_userRoles c) \<and> some_texts (pc_workflows c) \<and>
     pc_requirements c \<noteq> [] \<and>
     list_all (\<lambda>r. requirement_id (cr_id r) \<and> cr_text r \<noteq> []) (pc_requirements c) \<and>
     some_texts (pc_nonFunctional c) \<and> texts_ok (pc_dataModels c) \<and> texts_ok (pc_integrations c) \<and>
     some_texts (pc_security c) \<and> some_texts (pc_deployment c) \<and> texts_ok (pc_monetization c) \<and>
     (case pc_recommendations c of None \<Rightarrow> True | Some rs \<Rightarrow> texts_ok rs) \<and> pc_stack c \<noteq> [] \<and>
     texts_ok (pc_research c) \<and> some_texts (pc_runtime c) \<and>
     0 \<le> pc_confidence c \<and> pc_confidence c \<le> 100 \<and> pc_interpretation c \<noteq> []"

datatype contract_error =
    ContractInvalid | StackProblem stack_error | AmbiguousIntent | RequirementLimit string

definition validateProductContract :: "product_contract \<Rightarrow> (contract_error, product_contract) result" where
  "validateProductContract c = (if productContractSchema c then Inr c else Inl ContractInvalid)"

definition lift_error :: "('e \<Rightarrow> 'f) \<Rightarrow> ('e, 'a) result \<Rightarrow> ('f, 'a) result" where
  "lift_error f r = map_sum f id r"

lemma lift_error_Inr [simp]: "lift_error f r = Inr a \<longleftrightarrow> r = Inr a"
  by (cases r) (auto simp: lift_error_def)

definition withSelectedTechnologyStack ::
    "product_contract \<Rightarrow> string \<Rightarrow> (contract_error, product_contract) result" where
  "withSelectedTechnologyStack contract stack =
     bind_result (lift_error StackProblem (normalizeStackId stack)) (\<lambda>normalized.
     bind_result (lift_error StackProblem (assertStackSupportsProduct normalized (pc_productType contract))) (\<lambda>_.
       validateProductContract (contract\<lparr>pc_stack := normalized\<rparr>)))"

section \<open>The plan\<close>

datatype plan_agent =
    AgentFrontend | AgentBackend | AgentDatabase | AgentAi | AgentIntegration | AgentSecurity
  | AgentDeployment | AgentOperations | AgentGeneral

fun agent_text :: "plan_agent \<Rightarrow> string" where
  "agent_text AgentFrontend = ''frontend''"
| "agent_text AgentBackend = ''backend''"
| "agent_text AgentDatabase = ''database''"
| "agent_text AgentAi = ''ai''"
| "agent_text AgentIntegration = ''integration''"
| "agent_text AgentSecurity = ''security''"
| "agent_text AgentDeployment = ''deployment''"
| "agent_text AgentOperations = ''operations''"
| "agent_text AgentGeneral = ''general''"

lemma agent_text_inject [simp]: "agent_text a = agent_text b \<longleftrightarrow> a = b"
  by (cases a; cases b) simp_all

record plan_task =
  tk_id :: string
  tk_module :: string
  tk_description :: string
  tk_sequence :: int
  tk_dependencies :: "string list"
  tk_acceptance :: "string list"
  tk_requirementIds :: "string list"
  tk_files :: "string list"
  tk_agent :: plan_agent
  tk_validations :: "string list"

record plan_architecture =
  ar_summary :: string
  ar_workflows :: "string list"
  ar_personas :: "string list"
  ar_roles :: "string list"
  ar_frontend :: "string list"
  ar_backend :: "string list"
  ar_database :: "string list"
  ar_ai :: "string list"
  ar_integration :: "string list"
  ar_designs :: "string list"
    \<comment> \<open>authentication, authorization, billing, deployment, operations, recovery, monetization\<close>

record product_plan =
  pl_title :: string
  pl_overview :: string
  pl_productType :: string
  pl_stack :: string
  pl_capabilities :: "string list option"
  pl_architecture :: plan_architecture
  pl_sequence :: "string list"
  pl_tasks :: "plan_task list"
  pl_requirementToTasks :: "(string \<times> string list) list"
  pl_taskToFiles :: "(string \<times> string list) list"
  pl_taskToAgent :: "(string \<times> string) list"
  pl_taskToValidation :: "(string \<times> string list) list"
  pl_research :: "string list"

definition manifest_contract_of :: "product_contract \<Rightarrow> manifest_contract" where
  "manifest_contract_of c = \<lparr>mc_productType = product_type_text (pc_productType c), mc_stack = pc_stack c,
     mc_prompt = pc_prompt c, mc_requirements = pc_requirements c\<rparr>"

definition manifest_plan_of :: "product_plan \<Rightarrow> manifest_plan" where
  "manifest_plan_of p = \<lparr>mp_requirementToTasks = map_of (pl_requirementToTasks p),
     mp_taskToFiles = map_of (pl_taskToFiles p), mp_taskToValidation = map_of (pl_taskToValidation p)\<rparr>"

fun join_texts :: "string \<Rightarrow> string list \<Rightarrow> string" where
  "join_texts sep [] = []"
| "join_texts sep [x] = x"
| "join_texts sep (x # xs) = x @ sep @ join_texts sep xs"

definition requirement_texts :: "product_contract \<Rightarrow> string list" where
  "requirement_texts c = map cr_text (pc_requirements c)"

section \<open>Trimming\<close>

lemma js_trim_idem [simp]: "js_trim (js_trim s) = js_trim s"
proof -
  let ?t = "dropWhile is_js_space s"
  let ?u = "rev (dropWhile is_js_space (rev ?t))"
  have "?t = ?u @ rev (takeWhile is_js_space (rev ?t))"
    by (metis rev_append rev_rev_ident takeWhile_dropWhile_id)
  then have "?u = [] \<or> hd ?u = hd ?t \<and> ?t \<noteq> []" by (metis append_is_Nil_conv hd_append2)
  then have "dropWhile is_js_space ?u = ?u" by (metis dropWhile.simps(1) dropWhile_eq_self_iff hd_dropWhile)
  then show ?thesis by (simp add: js_trim_def dropWhile_idem)
qed

lemma map_trim_idem [simp]: "map (\<lambda>x. js_trim (js_trim x)) xs = map js_trim xs" "js_trim \<circ> js_trim = js_trim"
  by (simp_all add: fun_eq_iff)

section \<open>The stack of a contract\<close>

lemma stack_by_id: "a \<in> set STACK_ADAPTERS \<Longrightarrow> getStackAdapter (sa_id a) = Inr a"
  using stack_ids_normal by (simp add: stack_found stack_names_def)

lemma assertStackSupportsProduct_iff:
  "assertStackSupportsProduct stack t = Inr a \<longleftrightarrow> getStackAdapter stack = Inr a \<and> t \<in> set (sa_productTypes a)"
  by (auto simp: assertStackSupportsProduct_def bind_result_def split: sum.splits)

text \<open>A contract keeps only a stack that is registered and supports its product type.\<close>

lemma withSelectedTechnologyStack_iff:
  "withSelectedTechnologyStack c stack = Inr d \<longleftrightarrow>
    (\<exists>a. getStackAdapter stack = Inr a \<and> pc_productType c \<in> set (sa_productTypes a) \<and>
      d = c\<lparr>pc_stack := sa_id a\<rparr> \<and> productContractSchema d)"
proof (cases "getStackAdapter stack")
  case (Inl e)
  then show ?thesis
    by (simp add: withSelectedTechnologyStack_def normalizeStackId_def bind_result_def lift_error_def)
next
  case (Inr a)
  then have "getStackAdapter (sa_id a) = Inr a" using stack_found stack_by_id by blast
  with Inr show ?thesis
    by (auto simp: withSelectedTechnologyStack_def normalizeStackId_def assertStackSupportsProduct_def
      bind_result_def lift_error_def validateProductContract_def)
qed

end
