(* ===== verification/BuilderResources.thy ===== *)
theory BuilderResources
  imports ProductContract Contracts
begin

text \<open>
  The internal library of reusable builder resources (\<open>src/lib/builderResources\<close>): the manifest of a
  resource and its validation (\<open>resourceManifest.ts\<close>), the governance operations that promote, demote,
  quarantine, deprecate and version it (\<open>resourceGovernance.ts\<close>, \<open>resourceRepair.ts\<close>), and the registry
  with its queries (\<open>resourceRegistry.ts\<close>). Times are milliseconds; a manifest holds them as the schema
  accepts them, so that they always parse. The comparison of texts by the host's collation is an
  argument, and \<open>sort_by\<close> is the stable sort of the language.
\<close>

section \<open>Manifests\<close>

datatype json =
    JsNull | JsBool bool | JsNumber int | JsText string | JsArray "json list" | JsObject "(string \<times> json) list"

datatype resource_type = AtomResource | ComponentResource | ModuleResource | DomainPack | ReferenceArchitecture

datatype deprecation = ResourceActive | ResourceDeprecated | ResourceRetired

datatype export_policy = CopyAdapt | ComposeExport | ReferenceOnly

record resource_identity =
  bri_id :: string
  bri_name :: string
  bri_category :: string
  bri_type :: resource_type
  bri_version :: string

record resource_compatibility =
  brc_productTypes :: "string list"
  brc_stacks :: "string list"
  brc_runtimes :: "string list"
  brc_platforms :: "string list"
  brc_incompatible :: "string list"
  brc_minimumVersions :: "(string \<times> string) list"

record resource_capabilities =
  brp_provided :: "string list"
  brp_optional :: "string list"
  brp_dependencies :: "string list"
  brp_integrationPoints :: "string list"

record resource_contracts =
  brk_input :: "(string \<times> json) list"
  brk_output :: "(string \<times> json) list"
  brk_api :: "(string \<times> json) list option"
  brk_data :: "(string \<times> json) list option"
  brk_eventsEmitted :: "string list"
  brk_eventsConsumed :: "string list"
  brk_environment :: "string list"
  brk_secrets :: "string list"

record resource_adaptation =
  bra_configurable :: "string list"
  bra_replacement :: "string list"
  bra_branding :: "string list"
  bra_localization :: "string list"
  bra_authorization :: "string list"
  bra_database :: "string list"
  bra_extension :: "string list"

record resource_composition =
  bro_routes :: "string list"
  bro_migrations :: "string list"
  bro_environment :: "string list"
  bro_environmentKinds :: "(string \<times> string) list"
  bro_packages :: "(string \<times> string) list"
  bro_namespaces :: "string list"
  bro_navigation :: "string list"
  bro_permissions :: "string list"
  bro_permissionPolicies :: "(string \<times> string) list"
  bro_stylingTokens :: "string list"
  bro_stylingAssignments :: "(string \<times> string) list"
  bro_platform :: "string list"
  bro_platformPolicies :: "(string \<times> string) list"
  bro_deployment :: "string list"
  bro_deploymentPolicies :: "(string \<times> string) list"
  bro_apiContracts :: "(string \<times> string) list"
  bro_eventsProduced :: "string list"
  bro_eventsConsumed :: "string list"

record resource_implementation =
  brm_sourcePaths :: "string list"
  brm_testPaths :: "string list"
  brm_export :: export_policy
  brm_liveLibrary :: bool

record resource_evidence =
  bre_tests :: "string list"
    \<comment> \<open>unit, integration and behavioral tests, which no operation changes\<close>
  bre_build :: "string list"
  bre_runtime :: "string list"
  bre_security :: "string list"
  bre_accessibility :: "string list"
  bre_performance :: "string list"
  bre_reproducibility :: "string list"
  bre_verifiedAt :: "int option"
  bre_ledger :: "string list"
  bre_adapter :: adapter_evidence
  bre_adapterLedger :: "string list option"

record resource_governance =
  brg_provenance :: string
  brg_license :: string
  brg_allowedUse :: "string list"
  brg_securityNotes :: "string list"
  brg_deprecation :: deprecation
  brg_replacement :: "string option"
  brg_owner :: string
  brg_maturity :: capability_state
  brg_quarantine :: "(bool \<times> string) option"

record builder_resource =
  br_identity :: resource_identity
  br_compatibility :: resource_compatibility
  br_capabilities :: resource_capabilities
  br_contracts :: resource_contracts
  br_adaptation :: resource_adaptation
  br_composition :: resource_composition
  br_implementation :: resource_implementation
  br_evidence :: resource_evidence
  br_governance :: resource_governance

text \<open>The schema trims its texts and then asks that none is empty.\<close>

definition trim_list :: "string list \<Rightarrow> string list" where
  "trim_list xs = map js_trim xs"

definition trim_map :: "(string \<times> string) list \<Rightarrow> (string \<times> string) list" where
  "trim_map m = map (\<lambda>(k, v). (k, js_trim v)) m"

definition trim_identity :: "resource_identity \<Rightarrow> resource_identity" where
  "trim_identity i = i\<lparr>bri_id := js_trim (bri_id i), bri_name := js_trim (bri_name i),
     bri_category := js_trim (bri_category i), bri_version := js_trim (bri_version i)\<rparr>"

definition trim_compatibility :: "resource_compatibility \<Rightarrow> resource_compatibility" where
  "trim_compatibility c = \<lparr>brc_productTypes = trim_list (brc_productTypes c), brc_stacks = trim_list (brc_stacks c),
     brc_runtimes = trim_list (brc_runtimes c), brc_platforms = trim_list (brc_platforms c),
     brc_incompatible = trim_list (brc_incompatible c), brc_minimumVersions = trim_map (brc_minimumVersions c)\<rparr>"

definition trim_capabilities :: "resource_capabilities \<Rightarrow> resource_capabilities" where
  "trim_capabilities c = c\<lparr>brp_dependencies := trim_list (brp_dependencies c),
     brp_integrationPoints := trim_list (brp_integrationPoints c)\<rparr>"

definition trim_contracts :: "resource_contracts \<Rightarrow> resource_contracts" where
  "trim_contracts c = c\<lparr>brk_eventsEmitted := trim_list (brk_eventsEmitted c),
     brk_eventsConsumed := trim_list (brk_eventsConsumed c), brk_environment := trim_list (brk_environment c),
     brk_secrets := trim_list (brk_secrets c)\<rparr>"

definition adaptation_points :: "resource_adaptation \<Rightarrow> string list" where
  "adaptation_points a = bra_configurable a @ bra_replacement a @ bra_branding a @ bra_localization a @
     bra_authorization a @ bra_database a @ bra_extension a"

definition trim_adaptation :: "resource_adaptation \<Rightarrow> resource_adaptation" where
  "trim_adaptation a = \<lparr>bra_configurable = trim_list (bra_configurable a), bra_replacement = trim_list (bra_replacement a),
     bra_branding = trim_list (bra_branding a), bra_localization = trim_list (bra_localization a),
     bra_authorization = trim_list (bra_authorization a), bra_database = trim_list (bra_database a),
     bra_extension = trim_list (bra_extension a)\<rparr>"

definition trim_composition :: "resource_composition \<Rightarrow> resource_composition" where
  "trim_composition c = c\<lparr>bro_routes := trim_list (bro_routes c), bro_migrations := trim_list (bro_migrations c),
     bro_environment := trim_list (bro_environment c), bro_packages := trim_map (bro_packages c),
     bro_namespaces := trim_list (bro_namespaces c), bro_navigation := trim_list (bro_navigation c),
     bro_permissions := trim_list (bro_permissions c), bro_stylingTokens := trim_list (bro_stylingTokens c),
     bro_stylingAssignments := trim_map (bro_stylingAssignments c), bro_platform := trim_list (bro_platform c),
     bro_deployment := trim_list (bro_deployment c), bro_apiContracts := trim_map (bro_apiContracts c),
     bro_eventsProduced := trim_list (bro_eventsProduced c), bro_eventsConsumed := trim_list (bro_eventsConsumed c)\<rparr>"

definition trim_implementation :: "resource_implementation \<Rightarrow> resource_implementation" where
  "trim_implementation i = i\<lparr>brm_sourcePaths := trim_list (brm_sourcePaths i), brm_testPaths := trim_list (brm_testPaths i)\<rparr>"

definition trim_evidence :: "resource_evidence \<Rightarrow> resource_evidence" where
  "trim_evidence e = e\<lparr>bre_tests := trim_list (bre_tests e), bre_build := trim_list (bre_build e),
     bre_runtime := trim_list (bre_runtime e), bre_security := trim_list (bre_security e),
     bre_accessibility := trim_list (bre_accessibility e), bre_performance := trim_list (bre_performance e),
     bre_reproducibility := trim_list (bre_reproducibility e), bre_ledger := trim_list (bre_ledger e),
     bre_adapterLedger := map_option trim_list (bre_adapterLedger e)\<rparr>"

definition trim_governance :: "resource_governance \<Rightarrow> resource_governance" where
  "trim_governance g = g\<lparr>brg_provenance := js_trim (brg_provenance g), brg_license := js_trim (brg_license g),
     brg_allowedUse := trim_list (brg_allowedUse g), brg_securityNotes := trim_list (brg_securityNotes g),
     brg_replacement := map_option js_trim (brg_replacement g), brg_owner := js_trim (brg_owner g),
     brg_quarantine := map_option (\<lambda>(q, reason). (q, js_trim reason)) (brg_quarantine g)\<rparr>"

definition trim_resource :: "builder_resource \<Rightarrow> builder_resource" where
  "trim_resource r = \<lparr>br_identity = trim_identity (br_identity r),
     br_compatibility = trim_compatibility (br_compatibility r),
     br_capabilities = trim_capabilities (br_capabilities r), br_contracts = trim_contracts (br_contracts r),
     br_adaptation = trim_adaptation (br_adaptation r), br_composition = trim_composition (br_composition r),
     br_implementation = trim_implementation (br_implementation r), br_evidence = trim_evidence (br_evidence r),
     br_governance = trim_governance (br_governance r)\<rparr>"

definition BUILDER_RESOURCE_CAPABILITY_IDS :: "string list" where
  "BUILDER_RESOURCE_CAPABILITY_IDS =
    [''web_search'', ''video'', ''graphics'', ''music'', ''marketing'', ''ar'', ''education'', ''patent'',
     ''architecture'', ''game'', ''cad'', ''legal'', ''fintech'', ''healthcare'', ''mobile'', ''voice'', ''data'',
     ''localization'', ''collab''] @
    [''authentication'', ''account'', ''authorization'', ''database'', ''api'', ''storage'', ''notifications'',
     ''billing'', ''webhooks'', ''background_jobs'', ''search'', ''analytics'', ''security'', ''observability'',
     ''monetization''] @ [''booking'']"

definition SEMANTIC_VERSION :: pattern where
  "SEMANTIC_VERSION = Pattern False (rx_seq [TextStart, rx_plus rx_digit, Exact ''.'',
    rx_plus rx_digit, Exact ''.'', rx_plus rx_digit, rx_opt (rx_seq [Exact ''-'',
    rx_plus (Class False [(CHR ''0'', CHR ''9''), (CHR ''A'', CHR ''Z''), (CHR ''a'', CHR ''z''),
    (CHR ''.'', CHR ''.''), (CHR ''-'', CHR ''-'')])]), TextEnd])"

definition values_in :: "string list \<Rightarrow> (string \<times> string) list \<Rightarrow> bool" where
  "values_in allowed m \<longleftrightarrow> snd ` set m \<subseteq> set allowed"

definition compositionSchema :: "resource_composition \<Rightarrow> bool" where
  "compositionSchema c \<longleftrightarrow> texts_ok (bro_routes c) \<and> texts_ok (bro_migrations c) \<and> texts_ok (bro_environment c) \<and>
     values_in [''public'', ''secret''] (bro_environmentKinds c) \<and> texts_ok (map snd (bro_packages c)) \<and>
     texts_ok (bro_namespaces c) \<and> texts_ok (bro_navigation c) \<and> texts_ok (bro_permissions c) \<and>
     values_in [''required'', ''forbidden''] (bro_permissionPolicies c) \<and> texts_ok (bro_stylingTokens c) \<and>
     texts_ok (map snd (bro_stylingAssignments c)) \<and> texts_ok (bro_platform c) \<and>
     values_in [''required'', ''forbidden''] (bro_platformPolicies c) \<and> texts_ok (bro_deployment c) \<and>
     values_in [''required'', ''forbidden''] (bro_deploymentPolicies c) \<and>
     texts_ok (map snd (bro_apiContracts c)) \<and> texts_ok (bro_eventsProduced c) \<and> texts_ok (bro_eventsConsumed c)"

definition evidenceSchema :: "resource_evidence \<Rightarrow> bool" where
  "evidenceSchema e \<longleftrightarrow> texts_ok (bre_tests e) \<and> texts_ok (bre_build e) \<and> texts_ok (bre_runtime e) \<and>
     texts_ok (bre_security e) \<and> texts_ok (bre_accessibility e) \<and> texts_ok (bre_performance e) \<and>
     texts_ok (bre_reproducibility e) \<and> texts_ok (bre_ledger e) \<and>
     (case bre_adapterLedger e of None \<Rightarrow> True | Some ids \<Rightarrow> texts_ok ids)"

definition governanceSchema :: "resource_governance \<Rightarrow> bool" where
  "governanceSchema g \<longleftrightarrow> brg_provenance g \<noteq> [] \<and> brg_license g \<noteq> [] \<and> some_texts (brg_allowedUse g) \<and>
     texts_ok (brg_securityNotes g) \<and> brg_replacement g \<noteq> Some [] \<and> brg_owner g \<noteq> [] \<and>
     (case brg_quarantine g of None \<Rightarrow> True | Some (_, reason) \<Rightarrow> reason \<noteq> [])"

definition builderResourceManifestSchema :: "builder_resource \<Rightarrow> bool" where
  "builderResourceManifestSchema r \<longleftrightarrow>
    (let i = br_identity r; c = br_compatibility r; p = br_capabilities r; k = br_contracts r;
         m = br_implementation r
     in bri_id i \<noteq> [] \<and> bri_name i \<noteq> [] \<and> bri_category i \<noteq> [] \<and> rx_test SEMANTIC_VERSION (bri_version i) \<and>
        texts_ok (brc_productTypes c) \<and> texts_ok (brc_stacks c) \<and> texts_ok (brc_runtimes c) \<and>
        texts_ok (brc_platforms c) \<and> texts_ok (brc_incompatible c) \<and>
        texts_ok (map snd (brc_minimumVersions c)) \<and>
        set (brp_provided p) \<subseteq> set BUILDER_RESOURCE_CAPABILITY_IDS \<and>
        set (brp_optional p) \<subseteq> set BUILDER_RESOURCE_CAPABILITY_IDS \<and>
        texts_ok (brp_dependencies p) \<and> texts_ok (brp_integrationPoints p) \<and>
        texts_ok (brk_eventsEmitted k) \<and> texts_ok (brk_eventsConsumed k) \<and>
        texts_ok (brk_environment k) \<and> texts_ok (brk_secrets k) \<and>
        texts_ok (adaptation_points (br_adaptation r)) \<and> compositionSchema (br_composition r) \<and>
        texts_ok (brm_sourcePaths m) \<and> texts_ok (brm_testPaths m) \<and>
        evidenceSchema (br_evidence r) \<and> governanceSchema (br_governance r))"

datatype resource_error =
    ResourceSchema | MaturityNotBacked "evidence_flag list" | SelfReplacement | NeedsLiveLibrary
  | QuarantinedPromotion | PromotionRefused promotion_refused | DemotionNotLower | DemotionNeedsReason
  | DeprecationNeedsReplacement | InvalidVersion string | VersionNotGreater | DuplicateIdentity string
  | ReviewIncomplete "string list" | EntersTooMature

definition assertMaturityEvidence :: "capability_state \<Rightarrow> adapter_evidence \<Rightarrow> (resource_error, unit) result" where
  "assertMaturityEvidence s evidence =
    (if s = Unsupported then Inr ()
     else case evaluateAdapterPromotion Unsupported s evidence of Inr _ \<Rightarrow> Inr ()
       | Inl (MissingEvidence flags) \<Rightarrow> Inl (MaturityNotBacked flags)
       | Inl NotAnAdvance \<Rightarrow> Inl (MaturityNotBacked []))"

definition parseBuilderResourceManifest :: "builder_resource \<Rightarrow> (resource_error, builder_resource) result" where
  "parseBuilderResourceManifest input =
    (let parsed = trim_resource input; g = br_governance parsed in
     if \<not> builderResourceManifestSchema parsed then Inl ResourceSchema
     else bind_result (assertMaturityEvidence (brg_maturity g) (bre_adapter (br_evidence parsed))) (\<lambda>_.
       if brg_deprecation g \<noteq> ResourceActive \<and> brg_replacement g = Some (bri_id (br_identity parsed))
       then Inl SelfReplacement
       else if brm_liveLibrary (br_implementation parsed) then Inl NeedsLiveLibrary
       else Inr parsed))"

definition resourceProvidesCapabilities :: "builder_resource \<Rightarrow> string list \<Rightarrow> bool" where
  "resourceProvidesCapabilities r required = list_all (\<lambda>c. c \<in> set (brp_provided (br_capabilities r))) required"

section \<open>Governance\<close>

definition on_governance :: "(resource_governance \<Rightarrow> resource_governance) \<Rightarrow> builder_resource \<Rightarrow> builder_resource" where
  "on_governance f r = r\<lparr>br_governance := f (br_governance r)\<rparr>"

definition on_evidence :: "(resource_evidence \<Rightarrow> resource_evidence) \<Rightarrow> builder_resource \<Rightarrow> builder_resource" where
  "on_evidence f r = r\<lparr>br_evidence := f (br_evidence r)\<rparr>"

definition resource_quarantined :: "builder_resource \<Rightarrow> bool" where
  "resource_quarantined r = (case brg_quarantine (br_governance r) of None \<Rightarrow> False | Some (q, _) \<Rightarrow> q)"

definition union_texts :: "string list \<Rightarrow> string list" where
  \<comment> \<open>\<open>[...new Set(values)]\<close>\<close>
  "union_texts xs = rev (remdups (rev xs))"

definition promoteBuilderResource :: "builder_resource \<Rightarrow> capability_state \<Rightarrow> adapter_evidence \<Rightarrow>
    string list option \<Rightarrow> int \<Rightarrow> (resource_error, builder_resource) result" where
  "promoteBuilderResource r target evidence ledger verifiedAt =
    (if resource_quarantined r then Inl QuarantinedPromotion
     else
       let merged = bre_adapter (br_evidence r) ++ evidence;
           mergedLedger = (case ledger of None \<Rightarrow> bre_adapterLedger (br_evidence r) | Some ids \<Rightarrow> Some ids)
       in bind_result (lift_error PromotionRefused
            (evaluateAdapterPromotion (brg_maturity (br_governance r)) target merged)) (\<lambda>s.
          parseBuilderResourceManifest
            (on_evidence (\<lambda>e. e\<lparr>bre_adapter := merged, bre_adapterLedger := mergedLedger,
               bre_verifiedAt := Some verifiedAt,
               bre_ledger := union_texts (bre_ledger e @ (case mergedLedger of None \<Rightarrow> [] | Some ids \<Rightarrow> ids))\<rparr>)
            (on_governance (\<lambda>g. g\<lparr>brg_maturity := s, brg_quarantine := None\<rparr>) r))))"

definition demoteBuilderResource :: "builder_resource \<Rightarrow> capability_state \<Rightarrow> string \<Rightarrow>
    (resource_error, builder_resource) result" where
  "demoteBuilderResource r target reason =
    (if stateRank target \<ge> stateRank (brg_maturity (br_governance r)) then Inl DemotionNotLower
     else if js_trim reason = [] then Inl DemotionNeedsReason
     else parseBuilderResourceManifest (on_governance (\<lambda>g. g\<lparr>brg_maturity := target,
       brg_quarantine := Some (True, js_trim reason),
       brg_securityNotes := brg_securityNotes g @ [''Demoted: '' @ js_trim reason]\<rparr>) r))"

definition quarantineBuilderResource :: "builder_resource \<Rightarrow> string \<Rightarrow> (resource_error, builder_resource) result" where
  "quarantineBuilderResource r reason =
    (let maturity = brg_maturity (br_governance r);
         safeState = (if stateRank maturity \<ge> stateRank Structural then Experimental else maturity)
     in if stateRank safeState < stateRank maturity then demoteBuilderResource r safeState reason
        else parseBuilderResourceManifest (on_governance (\<lambda>g. g\<lparr>brg_quarantine :=
          Some (True, if js_trim reason = [] then ''regression'' else js_trim reason)\<rparr>) r))"

definition clearBuilderResourceQuarantine :: "builder_resource \<Rightarrow> (resource_error, builder_resource) result" where
  "clearBuilderResourceQuarantine r =
     parseBuilderResourceManifest (on_governance (\<lambda>g. g\<lparr>brg_quarantine := None\<rparr>) r)"

definition deprecateBuilderResource :: "builder_resource \<Rightarrow> string \<Rightarrow> (resource_error, builder_resource) result" where
  "deprecateBuilderResource r replacementId =
    (let replacement = js_trim replacementId in
     if replacement = [] \<or> replacement = bri_id (br_identity r) then Inl DeprecationNeedsReplacement
     else parseBuilderResourceManifest (on_governance (\<lambda>g. g\<lparr>brg_deprecation := ResourceDeprecated,
       brg_replacement := Some replacement\<rparr>) r))"

fun leading_digits :: "string \<Rightarrow> string \<times> string" where
  "leading_digits s = (takeWhile is_digit s, dropWhile is_digit s)"

definition semanticVersionParts :: "string \<Rightarrow> (resource_error, int \<times> int \<times> int) result" where
  \<comment> \<open>the match of \<open>^(\d+)\.(\d+)\.(\d+)\<close>\<close>
  "semanticVersionParts version =
    (let (a, s) = leading_digits version; (b, t) = leading_digits (tl s); (c, _) = leading_digits (tl t) in
     if a \<noteq> [] \<and> b \<noteq> [] \<and> c \<noteq> [] \<and> take 1 s = ''.'' \<and> take 1 t = ''.''
     then Inr (read_digits a, read_digits b, read_digits c) else Inl (InvalidVersion version))"

definition isVersionAfter :: "string \<Rightarrow> string \<Rightarrow> (resource_error, bool) result" where
  "isVersionAfter candidate current =
     bind_result (semanticVersionParts candidate) (\<lambda>(a, b, c).
     bind_result (semanticVersionParts current) (\<lambda>(a', b', c').
       Inr (a > a' \<or> (a = a' \<and> (b > b' \<or> (b = b' \<and> c > c'))))))"

definition createBuilderResourceVersion :: "builder_resource \<Rightarrow> string \<Rightarrow> (resource_error, builder_resource) result" where
  "createBuilderResourceVersion r version =
     bind_result (isVersionAfter version (bri_version (br_identity r))) (\<lambda>newer.
       if \<not> newer then Inl VersionNotGreater
       else parseBuilderResourceManifest
         (on_evidence (\<lambda>e. e\<lparr>bre_build := [], bre_runtime := [], bre_security := [], bre_accessibility := [],
            bre_performance := [], bre_reproducibility := [], bre_verifiedAt := None, bre_ledger := [],
            bre_adapter := [EvDiscovered \<mapsto> True], bre_adapterLedger := None\<rparr>)
         (on_governance (\<lambda>g. g\<lparr>brg_maturity := Discovered, brg_deprecation := ResourceActive,
            brg_replacement := None, brg_quarantine := None\<rparr>)
         (r\<lparr>br_identity := (br_identity r)\<lparr>bri_version := version\<rparr>\<rparr>))))"

record promotion_review =
  rv_generalized :: bool
  rv_customerDataRemoved :: bool
  rv_secretsRemoved :: bool
  rv_deduplicated :: bool
  rv_licenseReviewed :: bool
  rv_securityReviewed :: bool
  rv_testsAdded :: bool
  rv_manifestCreated :: bool

definition assertPromotionReviewComplete :: "promotion_review \<Rightarrow> (resource_error, unit) result" where
  "assertPromotionReviewComplete v =
    (let missing = map fst (filter (\<lambda>(_, complete). \<not> complete)
       [(''generalized'', rv_generalized v), (''customerDataRemoved'', rv_customerDataRemoved v),
        (''secretsRemoved'', rv_secretsRemoved v), (''deduplicated'', rv_deduplicated v),
        (''licenseReviewed'', rv_licenseReviewed v), (''securityReviewed'', rv_securityReviewed v),
        (''testsAdded'', rv_testsAdded v), (''manifestCreated'', rv_manifestCreated v)])
     in if missing \<noteq> [] then Inl (ReviewIncomplete missing) else Inr ())"

definition promoteSanitizedBuildCandidate :: "builder_resource \<Rightarrow> promotion_review \<Rightarrow>
    (resource_error, builder_resource) result" where
  "promoteSanitizedBuildCandidate candidate review =
     bind_result (assertPromotionReviewComplete review) (\<lambda>_.
       if stateRank (brg_maturity (br_governance candidate)) > stateRank Experimental then Inl EntersTooMature
       else Inr candidate)"

section \<open>Failure diagnosis\<close>

datatype failure_kind =
    ResourceDefect | VersionIncompatibility | AdaptationDefect | IntegrationConflict | MissingDependency
  | PlatformMismatch | CustomCodeDefect

datatype repair_scope =
    ScopeResource | ScopeVersion | ScopeAdaptation | ScopeComposition | ScopeDependency | ScopePlatform
  | ScopeCustomCode

record failure_signal =
  fs_message :: string
  fs_conflict :: string
  fs_missing :: string
  fs_platform :: string
  fs_adaptation :: string
  fs_customFile :: string
    \<comment> \<open>an absent field is the empty text, which the source treats alike\<close>

record repair_decision =
  rd_kind :: failure_kind
  rd_scope :: repair_scope
  rd_rationale :: string
  rd_quarantine :: bool

definition or_else :: "string \<Rightarrow> string \<Rightarrow> string" where
  "or_else x y = (if x = [] then y else x)"

definition MISSING_WORDING :: pattern where
  "MISSING_WORDING = Pattern True (rx_seq [Exact ''missing '', rx_texts [''dependency'',
    ''package'', ''module'']])"

definition CONFLICT_WORDING :: pattern where
  "CONFLICT_WORDING = Pattern True (rx_texts [''conflict'', ''duplicate route'',
    ''version collision''])"

definition ADAPTATION_WORDING :: pattern where
  "ADAPTATION_WORDING = Pattern True (rx_seq [Exact ''adapt'', rx_texts [''ation'', ''ed''],
    rx_star rx_dot, Exact ''fail''])"

definition PLATFORM_WORDING :: pattern where
  "PLATFORM_WORDING = Pattern True (rx_seq [Exact ''platform'', rx_star rx_dot,
    rx_texts [''unsupported'', ''mismatch'', ''unavailable'']])"

definition VERSION_WORDING :: pattern where
  "VERSION_WORDING = Pattern True (rx_or [rx_seq [Exact ''version'', rx_star rx_dot,
    rx_texts [''incompatible'', ''unsupported'', ''mismatch'']], Exact ''peer dependency''])"

definition CUSTOM_WORDING :: pattern where
  "CUSTOM_WORDING = Pattern True (rx_texts [''generated custom'', ''customer-specific'',
    ''custom code''])"

definition diagnoseBuilderResourceFailure :: "failure_signal \<Rightarrow> repair_decision" where
  "diagnoseBuilderResourceFailure f =
    (let message = js_lower (fs_message f);
         decide = (\<lambda>kind scope rationale. \<lparr>rd_kind = kind, rd_scope = scope, rd_rationale = rationale,
           rd_quarantine = False\<rparr>)
     in if fs_missing f \<noteq> [] \<or> rx_test MISSING_WORDING message then
          decide MissingDependency ScopeDependency
            (if fs_missing f \<noteq> [] then ''Missing dependency '' @ fs_missing f else fs_message f)
        else if fs_conflict f \<noteq> [] \<or> rx_test CONFLICT_WORDING message then
          decide IntegrationConflict ScopeComposition (or_else (fs_conflict f) (fs_message f))
        else if fs_adaptation f \<noteq> [] \<or> rx_test ADAPTATION_WORDING message then
          decide AdaptationDefect ScopeAdaptation (or_else (fs_adaptation f) (fs_message f))
        else if fs_platform f \<noteq> [] \<or> rx_test PLATFORM_WORDING message then
          decide PlatformMismatch ScopePlatform (or_else (fs_platform f) (fs_message f))
        else if rx_test VERSION_WORDING message then
          decide VersionIncompatibility ScopeVersion (fs_message f)
        else if fs_customFile f \<noteq> [] \<or> rx_test CUSTOM_WORDING message then
          decide CustomCodeDefect ScopeCustomCode (or_else (fs_customFile f) (fs_message f))
        else \<lparr>rd_kind = ResourceDefect, rd_scope = ScopeResource, rd_rationale = fs_message f,
               rd_quarantine = True\<rparr>)"

definition applyResourceFailureDecision :: "builder_resource \<Rightarrow> repair_decision \<Rightarrow>
    (resource_error, builder_resource) result" where
  "applyResourceFailureDecision r decision =
    (if \<not> rd_quarantine decision then Inr r else quarantineBuilderResource r (rd_rationale decision))"

section \<open>The registry\<close>

fun insert_by :: "('a \<Rightarrow> 'a \<Rightarrow> int) \<Rightarrow> 'a \<Rightarrow> 'a list \<Rightarrow> 'a list" where
  "insert_by cmp x [] = [x]"
| "insert_by cmp x (y # ys) = (if cmp y x \<le> 0 then y # insert_by cmp x ys else x # y # ys)"

definition sort_by :: "('a \<Rightarrow> 'a \<Rightarrow> int) \<Rightarrow> 'a list \<Rightarrow> 'a list" where
  "sort_by cmp xs = fold (insert_by cmp) xs []"

record collation =
  co_text :: "string \<Rightarrow> string \<Rightarrow> int"
  co_version :: "string \<Rightarrow> string \<Rightarrow> int"
    \<comment> \<open>\<open>localeCompare\<close>, and \<open>localeCompare\<close> with numeric ordering\<close>

definition resource_key :: "builder_resource \<Rightarrow> string" where
  "resource_key r = bri_id (br_identity r) @ ''@'' @ bri_version (br_identity r)"

fun first_duplicate :: "'a set \<Rightarrow> 'a list \<Rightarrow> 'a option" where
  "first_duplicate seen [] = None"
| "first_duplicate seen (x # xs) = (if x \<in> seen then Some x else first_duplicate (insert x seen) xs)"

definition new_registry :: "builder_resource list \<Rightarrow> (resource_error, builder_resource list) result" where
  \<comment> \<open>the constructor of \<open>BuilderResourceRegistry\<close>; the registry is the list it holds\<close>
  "new_registry resources = (case first_duplicate {} (map resource_key resources) of
     Some key \<Rightarrow> Inl (DuplicateIdentity key) | None \<Rightarrow> Inr resources)"

record resource_query =
  qu_type :: "string option"
  qu_stack :: "string option"
  qu_platform :: "string option"
  qu_runtime :: "string option"
  qu_capabilities :: "string list"
  qu_floor :: capability_state
  qu_withDeprecated :: bool
  qu_withQuarantined :: bool

definition matchesExactOrWildcard :: "string list \<Rightarrow> string option \<Rightarrow> bool" where
  "matchesExactOrWildcard supported requested = (case requested of None \<Rightarrow> True
     | Some x \<Rightarrow> x = [] \<or> x \<in> set supported \<or> ''*'' \<in> set supported)"

definition exactly :: "string list \<Rightarrow> string option \<Rightarrow> bool" where
  "exactly supported requested = (case requested of None \<Rightarrow> False | Some x \<Rightarrow> x \<noteq> [] \<and> x \<in> set supported)"

definition canonicalResourceIds :: "string \<Rightarrow> string list" where
  "canonicalResourceIds capability =
    (let dashed = map (\<lambda>c. if c = CHR ''_'' then CHR ''-'' else c) capability
     in [''core.'' @ capability, ''core.'' @ dashed, ''capability.'' @ capability, ''capability.'' @ dashed])"

definition isCanonicalCapabilityResource :: "builder_resource \<Rightarrow> string list \<Rightarrow> bool" where
  "isCanonicalCapabilityResource r required = (case required of
     [capability] \<Rightarrow> bri_id (br_identity r) \<in> set (canonicalResourceIds capability) | _ \<Rightarrow> False)"

definition query_score :: "builder_resource \<Rightarrow> resource_query \<Rightarrow> int" where
  "query_score r q =
    (let c = br_compatibility r; required = qu_capabilities q in
     int (stateRank (brg_maturity (br_governance r))) * 100 +
     (if exactly (brc_stacks c) (qu_stack q) then 30 else 0) +
     (if exactly (brc_platforms c) (qu_platform q) then 20 else 0) +
     (if exactly (brc_productTypes c) (qu_type q) then 15 else 0) +
     (if exactly (brc_runtimes c) (qu_runtime q) then 10 else 0) +
     int (length required) * 10 +
     (if isCanonicalCapabilityResource r required then 1000 else 0) -
     (if length required = 1 \<and> bri_type (br_identity r) = ComponentResource then 50 else 0) -
     int (length (brp_dependencies (br_capabilities r))) * 5)"

definition query_admits :: "resource_query \<Rightarrow> builder_resource \<Rightarrow> bool" where
  "query_admits q r \<longleftrightarrow> (qu_withQuarantined q \<or> \<not> resource_quarantined r) \<and>
     (qu_withDeprecated q \<or> brg_deprecation (br_governance r) = ResourceActive) \<and>
     isAtLeast (brg_maturity (br_governance r)) (qu_floor q) \<and>
     matchesExactOrWildcard (brc_productTypes (br_compatibility r)) (qu_type q) \<and>
     matchesExactOrWildcard (brc_stacks (br_compatibility r)) (qu_stack q) \<and>
     matchesExactOrWildcard (brc_platforms (br_compatibility r)) (qu_platform q) \<and>
     matchesExactOrWildcard (brc_runtimes (br_compatibility r)) (qu_runtime q) \<and>
     resourceProvidesCapabilities r (qu_capabilities q)"

definition by_score :: "collation \<Rightarrow> builder_resource \<times> int \<Rightarrow> builder_resource \<times> int \<Rightarrow> int" where
  "by_score L = (\<lambda>(a, s) (b, t).
     if s \<noteq> t then t - s
     else let order = co_text L (bri_id (br_identity a)) (bri_id (br_identity b)) in
       if order \<noteq> 0 then order else co_version L (bri_version (br_identity b)) (bri_version (br_identity a)))"

definition query_resources :: "collation \<Rightarrow> builder_resource list \<Rightarrow> resource_query \<Rightarrow>
    (builder_resource \<times> int) list" where
  "query_resources L registry q =
     sort_by (by_score L) (map (\<lambda>r. (r, query_score r q)) (filter (query_admits q) registry))"

section \<open>What governance keeps\<close>

lemma trim_lists_idem [simp]: "trim_list (trim_list xs) = trim_list xs" "trim_map (trim_map m) = trim_map m"
  by (auto simp: trim_list_def trim_map_def)

lemma trim_parts_idem [simp]:
  "trim_identity (trim_identity i) = trim_identity i"
  "trim_compatibility (trim_compatibility c) = trim_compatibility c"
  "trim_capabilities (trim_capabilities p) = trim_capabilities p"
  "trim_contracts (trim_contracts k) = trim_contracts k"
  "trim_adaptation (trim_adaptation a) = trim_adaptation a"
  "trim_composition (trim_composition o') = trim_composition o'"
  "trim_implementation (trim_implementation n) = trim_implementation n"
  by (simp_all add: trim_identity_def trim_compatibility_def trim_capabilities_def
      trim_contracts_def trim_adaptation_def trim_composition_def trim_implementation_def)

lemma trim_evidence_idem [simp]: "trim_evidence (trim_evidence e) = trim_evidence e"
  by (cases "bre_adapterLedger e") (simp_all add: trim_evidence_def)

lemma trim_governance_idem [simp]: "trim_governance (trim_governance g) = trim_governance g"
  by (cases "brg_replacement g"; cases "brg_quarantine g") (auto simp: trim_governance_def)

lemma trim_resource_idem [simp]: "trim_resource (trim_resource r) = trim_resource r"
  by (simp add: trim_resource_def)

definition backed :: "builder_resource \<Rightarrow> bool" where
  "backed r \<longleftrightarrow> (\<forall>flag \<in> set (EVIDENCE_REQUIRED_FOR_STATE (brg_maturity (br_governance r))).
     bre_adapter (br_evidence r) flag = Some True)"

lemma assertMaturityEvidence_iff:
  "assertMaturityEvidence s evidence = Inr u \<longleftrightarrow>
    (\<forall>flag \<in> set (EVIDENCE_REQUIRED_FOR_STATE s). evidence flag = Some True)"
  by (cases s) (auto simp: assertMaturityEvidence_def evaluateAdapterPromotion_def stateRank_def
      ADAPTER_CAPABILITY_STATES_def Let_def filter_empty_conv split: if_splits)

lemma parse_iff:
  "parseBuilderResourceManifest input = Inr r \<longleftrightarrow> r = trim_resource input \<and> builderResourceManifestSchema r \<and>
    backed r \<and> (brg_deprecation (br_governance r) = ResourceActive \<or>
      brg_replacement (br_governance r) \<noteq> Some (bri_id (br_identity r))) \<and>
    \<not> brm_liveLibrary (br_implementation r)"
  by (auto simp: parseBuilderResourceManifest_def assertMaturityEvidence_iff backed_def Let_def)

lemma parse_stable: "parseBuilderResourceManifest input = Inr r \<Longrightarrow> parseBuilderResourceManifest r = Inr r"
  by (auto simp: parse_iff)

inductive resource_step :: "builder_resource \<Rightarrow> builder_resource \<Rightarrow> bool" where
  promote: "promoteBuilderResource r target evidence ledger verifiedAt = Inr s \<Longrightarrow> resource_step r s"
| demote: "demoteBuilderResource r target reason = Inr s \<Longrightarrow> resource_step r s"
| quarantine: "quarantineBuilderResource r reason = Inr s \<Longrightarrow> resource_step r s"
| clear: "clearBuilderResourceQuarantine r = Inr s \<Longrightarrow> resource_step r s"
| deprecate: "deprecateBuilderResource r replacement = Inr s \<Longrightarrow> resource_step r s"
| new_version: "createBuilderResourceVersion r version = Inr s \<Longrightarrow> resource_step r s"
| repair: "applyResourceFailureDecision r decision = Inr s \<Longrightarrow> resource_step r s"

definition well_kept :: "builder_resource \<Rightarrow> bool" where
  "well_kept r \<longleftrightarrow> parseBuilderResourceManifest r = Inr r"

lemma well_kept_parsed: "parseBuilderResourceManifest input = Inr r \<Longrightarrow> well_kept r"
  by (simp add: well_kept_def parse_stable)

lemma on_parts [simp]:
  "br_identity (on_governance f r) = br_identity r" "br_identity (on_evidence g r) = br_identity r"
  "br_governance (on_governance f r) = f (br_governance r)" "br_governance (on_evidence g r) = br_governance r"
  by (simp_all add: on_governance_def on_evidence_def)

definition revised :: "builder_resource \<Rightarrow> builder_resource \<Rightarrow> bool" where
  "revised r s \<longleftrightarrow> (\<exists>input. parseBuilderResourceManifest input = Inr s \<and>
     bri_id (br_identity input) = bri_id (br_identity r))"

lemma revisedI: "parseBuilderResourceManifest input = Inr s \<Longrightarrow>
    bri_id (br_identity input) = bri_id (br_identity r) \<Longrightarrow> revised r s"
  unfolding revised_def by blast

lemma operations_revise:
  "promoteBuilderResource r target evidence ledger verifiedAt = Inr s \<Longrightarrow> revised r s"
  "demoteBuilderResource r target reason = Inr s \<Longrightarrow> revised r s"
  "clearBuilderResourceQuarantine r = Inr s \<Longrightarrow> revised r s"
  "deprecateBuilderResource r replacement = Inr s \<Longrightarrow> revised r s"
  "createBuilderResourceVersion r version = Inr s \<Longrightarrow> revised r s"
  by (auto simp: promoteBuilderResource_def demoteBuilderResource_def clearBuilderResourceQuarantine_def
      deprecateBuilderResource_def createBuilderResourceVersion_def Let_def intro: revisedI split: if_split_asm)

lemma quarantine_revises: "quarantineBuilderResource r reason = Inr s \<Longrightarrow> revised r s"
  by (auto simp: quarantineBuilderResource_def Let_def intro: revisedI operations_revise split: if_split_asm)

lemma step_revises: "resource_step r s \<Longrightarrow> s = r \<or> revised r s"
  by (induction rule: resource_step.induct)
    (auto simp: applyResourceFailureDecision_def intro: operations_revise quarantine_revises split: if_split_asm)

lemma step_well_kept: "well_kept r \<Longrightarrow> resource_step r s \<Longrightarrow> well_kept s"
  using step_revises well_kept_parsed unfolding revised_def by blast

lemma well_kept_id: "well_kept r \<Longrightarrow> js_trim (bri_id (br_identity r)) = bri_id (br_identity r)"
proof -
  assume "well_kept r"
  then have "r = trim_resource r" by (simp add: well_kept_def parse_iff)
  then have "bri_id (br_identity r) = bri_id (br_identity (trim_resource r))" by simp
  then show ?thesis by (simp add: trim_resource_def trim_identity_def)
qed

lemma revised_id: "well_kept r \<Longrightarrow> revised r s \<Longrightarrow> bri_id (br_identity s) = bri_id (br_identity r)"
  using well_kept_id by (auto simp: revised_def parse_iff trim_resource_def trim_identity_def)

definition kept_as :: "string \<Rightarrow> builder_resource \<Rightarrow> bool" where
  "kept_as i r \<longleftrightarrow> well_kept r \<and> bri_id (br_identity r) = i"

interpretation kept_resource: guarded_system resource_step "kept_as i" for i
  by unfold_locales (metis kept_as_def step_well_kept step_revises revised_id)

lemma trim_resource_maturity [simp]:
  "brg_maturity (br_governance (trim_resource r)) = brg_maturity (br_governance r)"
  "bre_adapter (br_evidence (trim_resource r)) = bre_adapter (br_evidence r)"
  by (simp_all add: trim_resource_def trim_governance_def trim_evidence_def)

lemma stateRank_le: "stateRank s \<le> stateRank t \<longleftrightarrow> s \<le> t" "stateRank s < stateRank t \<longleftrightarrow> s < t"
  by (simp_all add: less_eq_capability_state_def less_capability_state_def)

definition not_raised :: "builder_resource \<Rightarrow> builder_resource \<Rightarrow> bool" where
  "not_raised r s \<longleftrightarrow> brg_maturity (br_governance s) \<le> brg_maturity (br_governance r) \<or>
     (brg_maturity (br_governance s) = Discovered \<and> bre_adapter (br_evidence s) = [EvDiscovered \<mapsto> True])"

lemma not_raised_same [simp]: "brg_maturity (br_governance s) = brg_maturity (br_governance r) \<Longrightarrow> not_raised r s"
  by (simp add: not_raised_def)

lemma lowering_steps:
  "demoteBuilderResource r target reason = Inr s \<Longrightarrow> not_raised r s"
  "clearBuilderResourceQuarantine r = Inr s \<Longrightarrow> not_raised r s"
  "deprecateBuilderResource r replacement = Inr s \<Longrightarrow> not_raised r s"
  by (auto simp: demoteBuilderResource_def clearBuilderResourceQuarantine_def deprecateBuilderResource_def
      parse_iff not_raised_def stateRank_le Let_def split: if_split_asm)

lemma quarantine_lowers: "quarantineBuilderResource r reason = Inr s \<Longrightarrow> not_raised r s"
  by (auto simp: quarantineBuilderResource_def parse_iff Let_def intro: lowering_steps(1) split: if_split_asm)

lemma version_lowers: "createBuilderResourceVersion r version = Inr s \<Longrightarrow> not_raised r s"
  by (auto simp: createBuilderResourceVersion_def parse_iff not_raised_def on_evidence_def
      split: if_split_asm)

lemma quarantined_not_raised: "resource_step r s \<Longrightarrow> resource_quarantined r \<Longrightarrow> not_raised r s"
proof (induction rule: resource_step.induct)
  case (promote r target evidence ledger verifiedAt s)
  then show ?case by (simp add: promoteBuilderResource_def)
next
  case (repair r decision s)
  then show ?case
    by (auto simp: applyResourceFailureDecision_def intro: quarantine_lowers split: if_split_asm)
qed (blast intro: lowering_steps quarantine_lowers version_lowers)+


definition sample_resource :: "string \<Rightarrow> string list \<Rightarrow> string list \<Rightarrow> builder_resource" where
  "sample_resource i provided dependencies =
    \<lparr>br_identity = \<lparr>bri_id = i, bri_name = ''n'', bri_category = ''core'', bri_type = ModuleResource,
       bri_version = ''1.0.0''\<rparr>,
     br_compatibility = \<lparr>brc_productTypes = [''*''], brc_stacks = [''*''], brc_runtimes = [''*''],
       brc_platforms = [''*''], brc_incompatible = [], brc_minimumVersions = []\<rparr>,
     br_capabilities = \<lparr>brp_provided = provided, brp_optional = [], brp_dependencies = dependencies,
       brp_integrationPoints = []\<rparr>,
     br_contracts = \<lparr>brk_input = [], brk_output = [], brk_api = None, brk_data = None, brk_eventsEmitted = [],
       brk_eventsConsumed = [], brk_environment = [], brk_secrets = []\<rparr>,
     br_adaptation = \<lparr>bra_configurable = [''title''], bra_replacement = [], bra_branding = [], bra_localization = [],
       bra_authorization = [], bra_database = [], bra_extension = []\<rparr>,
     br_composition = \<lparr>bro_routes = [i], bro_migrations = [], bro_environment = [], bro_environmentKinds = [],
       bro_packages = [(''zod'', ''3.0.0'')], bro_namespaces = [], bro_navigation = [], bro_permissions = [],
       bro_permissionPolicies = [], bro_stylingTokens = [], bro_stylingAssignments = [], bro_platform = [],
       bro_platformPolicies = [], bro_deployment = [], bro_deploymentPolicies = [], bro_apiContracts = [],
       bro_eventsProduced = [], bro_eventsConsumed = []\<rparr>,
     br_implementation = \<lparr>brm_sourcePaths = [''src/a.ts''], brm_testPaths = [], brm_export = CopyAdapt,
       brm_liveLibrary = False\<rparr>,
     br_evidence = \<lparr>bre_tests = [], bre_build = [], bre_runtime = [], bre_security = [], bre_accessibility = [],
       bre_performance = [], bre_reproducibility = [], bre_verifiedAt = None, bre_ledger = [],
       bre_adapter = [EvDiscovered \<mapsto> True, EvInstall \<mapsto> True], bre_adapterLedger = None\<rparr>,
     br_governance = \<lparr>brg_provenance = ''own'', brg_license = ''MIT'', brg_allowedUse = [''internal-generation''],
       brg_securityNotes = [], brg_deprecation = ResourceActive, brg_replacement = None, brg_owner = ''o'',
       brg_maturity = Structural, brg_quarantine = None\<rparr>\<rparr>"

lemma sample_backed: "backed (sample_resource i provided dependencies)"
  by (simp add: backed_def sample_resource_def)

lemma sample_schema: "builderResourceManifestSchema (sample_resource ''core.api'' [''api''] [])"
  by code_simp

lemma sample_trimmed: "trim_resource (sample_resource ''core.api'' [''api''] []) = sample_resource ''core.api'' [''api''] []"
  by (simp add: sample_resource_def trim_resource_def trim_identity_def trim_compatibility_def
    trim_capabilities_def trim_contracts_def trim_adaptation_def trim_composition_def trim_implementation_def
    trim_evidence_def trim_governance_def trim_list_def trim_map_def js_trim_def is_js_space_def)

lemma sample_parsed: "parseBuilderResourceManifest (sample_resource ''core.api'' [''api''] []) =
    Inr (sample_resource ''core.api'' [''api''] [])"
  using sample_backed sample_schema by (simp add: parse_iff sample_trimmed) (simp add: sample_resource_def)

definition suspect_resource :: builder_resource where
  "suspect_resource = trim_resource (on_governance (\<lambda>g. g\<lparr>brg_maturity := Experimental,
     brg_quarantine := Some (True, ''bad''), brg_securityNotes := [''Demoted: bad'']\<rparr>)
     (sample_resource ''core.api'' [''api''] []))"

lemma suspect_schema: "builderResourceManifestSchema suspect_resource"
  by code_simp

lemma suspect_step: "resource_step (sample_resource ''core.api'' [''api''] []) suspect_resource"
proof -
  have trim: "js_trim ''bad'' = ''bad''" by code_simp
  have "quarantineBuilderResource (sample_resource ''core.api'' [''api''] []) ''bad'' = Inr suspect_resource"
    using suspect_schema
    by (simp add: quarantineBuilderResource_def demoteBuilderResource_def parse_iff trim suspect_resource_def Let_def)
      (simp add: sample_resource_def on_governance_def trim_resource_def trim_governance_def trim_evidence_def
        trim_implementation_def backed_def stateRank_def ADAPTER_CAPABILITY_STATES_def)
  then show ?thesis by (rule resource_step.quarantine)
qed


end
