(* ===== verification/ResourceComposition.thy ===== *)
theory ResourceComposition
  imports "HOL-Library.Multiset" BuilderResources
begin

text \<open>
  Composing builder resources (\<open>src/lib/builderResources/resourceComposition.ts\<close>): who owns each route,
  migration, package version, policy and so on, the conflicts this gives, and the merged plan. The
  ownership tables of the source are maps in the order of their first entry; texts are compared by the
  host's collation, an argument.
\<close>

section \<open>Ownership tables\<close>

datatype conflict_kind =
    RouteConflict | MigrationConflict | PackageConflict | NamespaceConflict | NavigationConflict
  | DependencyConflict | EnvironmentConflict | ApiConflict | EventConflict | PermissionConflict
  | StylingConflict | PlatformConflict | DeploymentConflict

fun conflict_text :: "conflict_kind \<Rightarrow> string" where
  "conflict_text RouteConflict = ''route''"
| "conflict_text MigrationConflict = ''database-migration''"
| "conflict_text PackageConflict = ''package-version''"
| "conflict_text NamespaceConflict = ''state-namespace''"
| "conflict_text NavigationConflict = ''navigation''"
| "conflict_text DependencyConflict = ''missing-dependency''"
| "conflict_text EnvironmentConflict = ''environment-kind''"
| "conflict_text ApiConflict = ''api-contract''"
| "conflict_text EventConflict = ''event-producer''"
| "conflict_text PermissionConflict = ''permission-policy''"
| "conflict_text StylingConflict = ''styling-token''"
| "conflict_text PlatformConflict = ''platform-capability''"
| "conflict_text DeploymentConflict = ''deployment-policy''"

record conflict =
  cf_kind :: conflict_kind
  cf_key :: string
  cf_resources :: "string list"
  cf_values :: "string list"

fun update_entry :: "'k \<Rightarrow> ('v option \<Rightarrow> 'v) \<Rightarrow> ('k \<times> 'v) list \<Rightarrow> ('k \<times> 'v) list" where
  \<comment> \<open>\<open>map.set(key, f(map.get(key)))\<close>\<close>
  "update_entry k f [] = [(k, f None)]"
| "update_entry k f ((k', v) # m) = (if k = k' then (k', f (Some v)) # m else (k', v) # update_entry k f m)"

definition push :: "'a \<Rightarrow> 'a list option \<Rightarrow> 'a list" where
  "push x owners = (case owners of None \<Rightarrow> [x] | Some xs \<Rightarrow> xs @ [x])"

definition ownershipOf :: "builder_resource list \<Rightarrow> (builder_resource \<Rightarrow> string list) \<Rightarrow> (string \<times> string list) list" where
  "ownershipOf resources field = fold (\<lambda>(value, owner). update_entry value (push owner))
     (concat (map (\<lambda>r. map (\<lambda>value. (value, resource_key r)) (field r)) resources)) []"

definition valueOwnershipOf :: "builder_resource list \<Rightarrow> (builder_resource \<Rightarrow> (string \<times> string) list) \<Rightarrow>
    (string \<times> (string \<times> string list) list) list" where
  "valueOwnershipOf resources field = fold (\<lambda>(key, value, owner). update_entry key
       (\<lambda>byValue. update_entry value (push owner) (case byValue of None \<Rightarrow> [] | Some m \<Rightarrow> m)))
     (concat (map (\<lambda>r. map (\<lambda>(key, value). (key, value, resource_key r)) (field r)) resources)) []"

definition sortedUnique :: "collation \<Rightarrow> string list \<Rightarrow> string list" where
  "sortedUnique L values = sort_by (co_text L) (union_texts values)"

definition collisions :: "collation \<Rightarrow> conflict_kind \<Rightarrow> (string \<times> string list) list \<Rightarrow> conflict list" where
  "collisions L kind ownership =
     map (\<lambda>(key, owners). \<lparr>cf_kind = kind, cf_key = key, cf_resources = sortedUnique L owners, cf_values = [key]\<rparr>)
       (filter (\<lambda>(_, owners). length (union_texts owners) > 1) ownership)"

definition incompatibleValues :: "collation \<Rightarrow> conflict_kind \<Rightarrow> (string \<times> (string \<times> string list) list) list \<Rightarrow>
    conflict list" where
  "incompatibleValues L kind ownership =
     map (\<lambda>(key, byValue). \<lparr>cf_kind = kind, cf_key = key,
         cf_resources = sortedUnique L (concat (map snd byValue)),
         cf_values = sort_by (co_text L) (map fst byValue)\<rparr>)
       (filter (\<lambda>(_, byValue). length byValue > 1) ownership)"

definition missingDependencyConflicts :: "builder_resource list \<Rightarrow> conflict list" where
  "missingDependencyConflicts resources =
    (let available = map (\<lambda>r. bri_id (br_identity r)) resources in
     concat (map (\<lambda>r. map (\<lambda>d. \<lparr>cf_kind = DependencyConflict, cf_key = d, cf_resources = [resource_key r],
         cf_values = [d]\<rparr>) (filter (\<lambda>d. d \<notin> set available) (brp_dependencies (br_capabilities r)))) resources))"

definition mergedRecord :: "collation \<Rightarrow> builder_resource list \<Rightarrow> (builder_resource \<Rightarrow> (string \<times> string) list) \<Rightarrow>
    (string \<times> string) list" where
  \<comment> \<open>\<open>merged[key] ??= value\<close>: the first value of a key stays\<close>
  "mergedRecord L resources field = sort_by (\<lambda>a b. co_text L (fst a) (fst b))
     (fold (\<lambda>(key, value). update_entry key (\<lambda>old. case old of None \<Rightarrow> value | Some v \<Rightarrow> v))
       (concat (map field resources)) [])"

section \<open>The composition\<close>

record composition_plan =
  cm_ok :: bool
  cm_resources :: "string list"
  cm_routes :: "string list"
  cm_migrations :: "string list"
  cm_environment :: "string list"
  cm_packages :: "(string \<times> string) list"
  cm_namespaces :: "string list"
  cm_navigation :: "string list"
  cm_permissions :: "string list"
  cm_stylingTokens :: "string list"
  cm_platform :: "string list"
  cm_deployment :: "string list"
  cm_eventsProduced :: "string list"
  cm_eventsConsumed :: "string list"
  cm_apiContracts :: "(string \<times> string) list"
  cm_conflicts :: "conflict list"

definition of_composition :: "(resource_composition \<Rightarrow> 'a) \<Rightarrow> builder_resource \<Rightarrow> 'a" where
  "of_composition f r = f (br_composition r)"

definition composition_conflicts :: "collation \<Rightarrow> builder_resource list \<Rightarrow> conflict list" where
  "composition_conflicts L rs =
    (let owned = (\<lambda>kind f. collisions L kind (ownershipOf rs (of_composition f)));
         valued = (\<lambda>kind f. incompatibleValues L kind (valueOwnershipOf rs (of_composition f)))
     in owned RouteConflict bro_routes @ owned MigrationConflict bro_migrations @
        valued PackageConflict bro_packages @ owned NamespaceConflict bro_namespaces @
        owned NavigationConflict bro_navigation @ missingDependencyConflicts rs @
        valued EnvironmentConflict bro_environmentKinds @ valued ApiConflict bro_apiContracts @
        owned EventConflict bro_eventsProduced @ valued PermissionConflict bro_permissionPolicies @
        valued StylingConflict bro_stylingAssignments @ valued PlatformConflict bro_platformPolicies @
        valued DeploymentConflict bro_deploymentPolicies)"

definition by_conflict :: "collation \<Rightarrow> conflict \<Rightarrow> conflict \<Rightarrow> int" where
  "by_conflict L a b = (let kind = co_text L (conflict_text (cf_kind a)) (conflict_text (cf_kind b)) in
     if kind \<noteq> 0 then kind else co_text L (cf_key a) (cf_key b))"

definition composeBuilderResources :: "collation \<Rightarrow> builder_resource list \<Rightarrow> composition_plan" where
  "composeBuilderResources L resources =
    (let rs = sort_by (\<lambda>a b. co_text L (resource_key a) (resource_key b)) resources;
         conflicts = sort_by (by_conflict L) (composition_conflicts L rs);
         all = (\<lambda>f. sortedUnique L (concat (map (of_composition f) rs)))
     in \<lparr>cm_ok = (conflicts = []), cm_resources = map resource_key rs, cm_routes = all bro_routes,
         cm_migrations = all bro_migrations, cm_environment = all bro_environment,
         cm_packages = mergedRecord L rs (of_composition bro_packages), cm_namespaces = all bro_namespaces,
         cm_navigation = all bro_navigation, cm_permissions = all bro_permissions,
         cm_stylingTokens = all bro_stylingTokens, cm_platform = all bro_platform,
         cm_deployment = all bro_deployment, cm_eventsProduced = all bro_eventsProduced,
         cm_eventsConsumed = all bro_eventsConsumed,
         cm_apiContracts = mergedRecord L rs (of_composition bro_apiContracts), cm_conflicts = conflicts\<rparr>)"

section \<open>What the tables say\<close>

lemma mset_insert_by [simp]: "mset (insert_by cmp x ys) = add_mset x (mset ys)"
  by (induction ys) auto

lemma mset_sort_by [simp]: "mset (sort_by cmp xs) = mset xs"
proof -
  have "mset (fold (insert_by cmp) xs acc) = mset xs + mset acc" for acc
    by (induction xs arbitrary: acc) auto
  then show ?thesis by (simp add: sort_by_def)
qed

lemma set_sort_by [simp]: "set (sort_by cmp xs) = set xs"
  by (rule mset_eq_setD) simp

lemma sort_by_Nil [simp]: "sort_by cmp xs = [] \<longleftrightarrow> xs = []"
  by (metis set_empty set_sort_by)

lemma set_union_texts [simp]: "set (union_texts xs) = set xs"
  by (simp add: union_texts_def)

lemma several: "Suc 0 < length (union_texts xs) \<longleftrightarrow> (\<exists>x \<in> set xs. \<exists>y \<in> set xs. x \<noteq> y)"
proof -
  have "length (union_texts xs) = card (set xs)" by (simp add: union_texts_def length_remdups_card_conv)
  moreover have "card (set xs) > 1 \<longleftrightarrow> (\<exists>x \<in> set xs. \<exists>y \<in> set xs. x \<noteq> y)"
    by (metis List.finite_set One_nat_def card_le_Suc0_iff_eq not_le)
  ultimately show ?thesis by simp
qed

text \<open>A table built entry by entry holds, under each key, what was put in for this key.\<close>

lemma update_entry_keys: "fst ` set (update_entry k f m) = insert k (fst ` set m)"
  by (induction m rule: update_entry.induct) auto

lemma update_entry_distinct: "distinct (map fst m) \<Longrightarrow> distinct (map fst (update_entry k f m))"
proof (induction m)
  case (Cons e m)
  then show ?case using update_entry_keys [of k f m] by (cases e) (auto simp: image_iff; metis fst_conv image_eqI)
qed simp

lemma update_entry_lookup: "map_of (update_entry k f m) = (map_of m)(k \<mapsto> f (map_of m k))"
  by (induction m rule: update_entry.induct) (auto simp: fun_eq_iff)

definition owner_table :: "(string \<times> string) list \<Rightarrow> (string \<times> string list) list" where
  "owner_table es = fold (\<lambda>(value, owner). update_entry value (push owner)) es []"

lemma owner_table_snoc: "owner_table (es @ [(v, ow)]) = update_entry v (push ow) (owner_table es)"
  by (simp add: owner_table_def)

lemma owner_table_distinct: "distinct (map fst (owner_table es))"
  by (induction es rule: rev_induct)
    (auto simp: owner_table_snoc update_entry_distinct simp: owner_table_def [of "[]"])

lemma owner_table_lookup:
  "case map_of (owner_table es) v of None \<Rightarrow> {a. (v, a) \<in> set es} = {}
   | Some owners \<Rightarrow> set owners = {a. (v, a) \<in> set es}"
proof (induction es rule: rev_induct)
  case (snoc e es)
  obtain w ow where e: "e = (w, ow)" by force
  show ?case using snoc
    by (cases "w = v"; cases "map_of (owner_table es) v")
      (auto simp: e owner_table_snoc update_entry_lookup push_def)
qed (simp add: owner_table_def)

lemma in_table: "distinct (map fst m) \<Longrightarrow> (k, v) \<in> set m \<longleftrightarrow> map_of m k = Some v"
  by (rule map_of_eq_Some_iff [symmetric])

lemma table_filter_Nil:
  "distinct (map fst m) \<Longrightarrow> filter (\<lambda>(k, v). P v) m = [] \<longleftrightarrow> (\<forall>k v. map_of m k = Some v \<longrightarrow> \<not> P v)"
  by (simp only: filter_empty_conv Ball_def split_paired_All prod.case in_table)

lemma collisions_Nil:
  "collisions L kind (owner_table es) = [] \<longleftrightarrow> (\<forall>v a b. (v, a) \<in> set es \<longrightarrow> (v, b) \<in> set es \<longrightarrow> a = b)"
proof -
  have "(\<forall>owners. map_of (owner_table es) v = Some owners \<longrightarrow> \<not> 1 < length (union_texts owners)) \<longleftrightarrow>
      (\<forall>a b. (v, a) \<in> set es \<longrightarrow> (v, b) \<in> set es \<longrightarrow> a = b)" for v
  proof (cases "map_of (owner_table es) v")
    case None
    then show ?thesis using owner_table_lookup [where es = es and v = v] by auto
  next
    case (Some owners)
    then have owners: "set owners = {a. (v, a) \<in> set es}"
      using owner_table_lookup [where es = es and v = v] by simp
    have "\<not> 1 < length (union_texts owners) \<longleftrightarrow> (\<forall>a \<in> set owners. \<forall>b \<in> set owners. a = b)"
      using several [of owners] by simp
    also have "\<dots> \<longleftrightarrow> (\<forall>a b. (v, a) \<in> set es \<longrightarrow> (v, b) \<in> set es \<longrightarrow> a = b)" unfolding owners by blast
    finally show ?thesis using Some by simp
  qed
  then show ?thesis
    by (simp add: collisions_def table_filter_Nil [OF owner_table_distinct] del: One_nat_def)
qed

definition value_table :: "(string \<times> string \<times> string) list \<Rightarrow> (string \<times> (string \<times> string list) list) list" where
  "value_table es = fold (\<lambda>(key, value, owner). update_entry key
     (\<lambda>byValue. update_entry value (push owner) (case byValue of None \<Rightarrow> [] | Some m \<Rightarrow> m))) es []"

lemma value_table_snoc: "value_table (es @ [(k, v, ow)]) = update_entry k
    (\<lambda>byValue. update_entry v (push ow) (case byValue of None \<Rightarrow> [] | Some m \<Rightarrow> m)) (value_table es)"
  by (simp add: value_table_def)

lemma value_table_distinct: "distinct (map fst (value_table es))"
  by (induction es rule: rev_induct)
    (auto simp: value_table_snoc update_entry_distinct simp: value_table_def [of "[]"])

lemma value_table_lookup:
  "case map_of (value_table es) k of None \<Rightarrow> \<nexists>v ow. (k, v, ow) \<in> set es
   | Some byValue \<Rightarrow> distinct (map fst byValue) \<and> fst ` set byValue = {v. \<exists>ow. (k, v, ow) \<in> set es}"
proof (induction es rule: rev_induct)
  case (snoc e es)
  obtain k' v ow where e: "e = (k', v, ow)" by (cases e) auto
  show ?case
  proof (cases "k' = k")
    case True
    show ?thesis
    proof (cases "map_of (value_table es) k")
      case None
      with snoc True show ?thesis by (auto simp: e value_table_snoc update_entry_lookup)
    next
      case (Some m)
      with snoc have m: "distinct (map fst m)" "fst ` set m = {v. \<exists>ow. (k, v, ow) \<in> set es}" by simp_all
      show ?thesis using True Some m(1)
        by (simp add: e value_table_snoc update_entry_lookup update_entry_distinct update_entry_keys m(2)) auto
    qed
  next
    case False
    with snoc show ?thesis by (auto simp: e value_table_snoc update_entry_lookup split: option.splits)
  qed
qed (simp add: value_table_def)

lemma incompatible_Nil:
  "incompatibleValues L kind (value_table es) = [] \<longleftrightarrow>
    (\<forall>k v w a b. (k, v, a) \<in> set es \<longrightarrow> (k, w, b) \<in> set es \<longrightarrow> v = w)"
proof -
  have "(\<forall>m. map_of (value_table es) k = Some m \<longrightarrow> \<not> 1 < length m) \<longleftrightarrow>
      (\<forall>v w a b. (k, v, a) \<in> set es \<longrightarrow> (k, w, b) \<in> set es \<longrightarrow> v = w)" for k
  proof (cases "map_of (value_table es) k")
    case None
    then show ?thesis using value_table_lookup [where es = es and k = k] by auto
  next
    case (Some m)
    then have m: "distinct (map fst m)" "fst ` set m = {v. \<exists>ow. (k, v, ow) \<in> set es}"
      using value_table_lookup [where es = es and k = k] by simp_all
    have "\<not> 1 < length m \<longleftrightarrow> card (fst ` set m) \<le> Suc 0" using distinct_card [OF m(1)] by auto
    also have "\<dots> \<longleftrightarrow> (\<forall>v \<in> fst ` set m. \<forall>w \<in> fst ` set m. v = w)"
      by (rule card_le_Suc0_iff_eq) simp
    also have "\<dots> \<longleftrightarrow> (\<forall>v w a b. (k, v, a) \<in> set es \<longrightarrow> (k, w, b) \<in> set es \<longrightarrow> v = w)"
      unfolding m(2) by blast
    finally show ?thesis using Some by simp
  qed
  then show ?thesis
    by (simp add: incompatibleValues_def table_filter_Nil [OF value_table_distinct] del: One_nat_def)
qed

definition merged_table :: "(string \<times> string) list \<Rightarrow> (string \<times> string) list" where
  "merged_table es = fold (\<lambda>(key, value). update_entry key
     (\<lambda>old. case old of None \<Rightarrow> value | Some v \<Rightarrow> v)) es []"

lemma merged_table_snoc: "merged_table (es @ [(k, v)]) =
    update_entry k (\<lambda>old. case old of None \<Rightarrow> v | Some w \<Rightarrow> w) (merged_table es)"
  by (simp add: merged_table_def)

lemma merged_table_distinct: "distinct (map fst (merged_table es))"
  by (induction es rule: rev_induct)
    (auto simp: merged_table_snoc update_entry_distinct simp: merged_table_def [of "[]"])

lemma merged_table_lookup:
  assumes "\<And>k v w. (k, v) \<in> set es \<Longrightarrow> (k, w) \<in> set es \<Longrightarrow> v = w"
  shows "map_of (merged_table es) k = Some v \<longleftrightarrow> (k, v) \<in> set es"
  using assms
proof (induction es arbitrary: v rule: rev_induct)
  case (snoc e es)
  obtain k' w where e: "e = (k', w)" by force
  have IH: "map_of (merged_table es) k = Some x \<longleftrightarrow> (k, x) \<in> set es" for x
    using snoc.prems by (intro snoc.IH) auto
  show ?case
  proof (cases "k' = k")
    case True
    show ?thesis
    proof (cases "map_of (merged_table es) k")
      case None
      with IH have "(k, x) \<notin> set es" for x by auto
      with None True show ?thesis by (auto simp: e merged_table_snoc update_entry_lookup)
    next
      case (Some x)
      with IH have "(k, x) \<in> set es" by blast
      with snoc.prems [of k x w] have "x = w" by (simp add: e True)
      have "map_of (merged_table (es @ [e])) k = Some x"
        using True Some by (simp add: e merged_table_snoc update_entry_lookup)
      then show ?thesis using IH [of v] Some True \<open>x = w\<close> by (auto simp: e)
    qed
  next
    case False
    then show ?thesis using IH [of v] by (simp add: e merged_table_snoc update_entry_lookup)
  qed
qed (simp add: merged_table_def)

section \<open>When a composition is accepted\<close>

definition exclusive :: "builder_resource list \<Rightarrow> (resource_composition \<Rightarrow> string list) \<Rightarrow> bool" where
  \<comment> \<open>no two resources claim the same value\<close>
  "exclusive rs f \<longleftrightarrow> (\<forall>r \<in> set rs. \<forall>s \<in> set rs. resource_key r \<noteq> resource_key s \<longrightarrow>
     set (f (br_composition r)) \<inter> set (f (br_composition s)) = {})"

definition agreeing :: "builder_resource list \<Rightarrow> (resource_composition \<Rightarrow> (string \<times> string) list) \<Rightarrow> bool" where
  \<comment> \<open>no key has two values\<close>
  "agreeing rs f \<longleftrightarrow> (\<forall>r \<in> set rs. \<forall>s \<in> set rs. \<forall>k v w.
     (k, v) \<in> set (f (br_composition r)) \<longrightarrow> (k, w) \<in> set (f (br_composition s)) \<longrightarrow> v = w)"

lemma owned_iff: "collisions L kind (ownershipOf rs (of_composition f)) = [] \<longleftrightarrow> exclusive rs f"
proof -
  have "ownershipOf rs (of_composition f) =
      owner_table (concat (map (\<lambda>r. map (\<lambda>value. (value, resource_key r)) (f (br_composition r))) rs))"
    by (simp add: ownershipOf_def owner_table_def of_composition_def)
  then have "collisions L kind (ownershipOf rs (of_composition f)) = [] \<longleftrightarrow>
      (\<forall>v. \<forall>r \<in> set rs. \<forall>s \<in> set rs. v \<in> set (f (br_composition r)) \<longrightarrow> v \<in> set (f (br_composition s)) \<longrightarrow>
        resource_key r = resource_key s)"
    by (simp add: collisions_Nil) blast
  also have "\<dots> \<longleftrightarrow> exclusive rs f" unfolding exclusive_def by blast
  finally show ?thesis .
qed

lemma valued_iff: "incompatibleValues L kind (valueOwnershipOf rs (of_composition f)) = [] \<longleftrightarrow> agreeing rs f"
proof -
  let ?es = "concat (map (\<lambda>r. map (\<lambda>(key, value). (key, value, resource_key r)) (f (br_composition r))) rs)"
  have "valueOwnershipOf rs (of_composition f) = value_table ?es"
    by (simp add: valueOwnershipOf_def value_table_def of_composition_def)
  moreover have mem: "(k, v, a) \<in> set ?es \<longleftrightarrow> (\<exists>r \<in> set rs. (k, v) \<in> set (f (br_composition r)) \<and> a = resource_key r)"
    for k v a by force
  ultimately show ?thesis unfolding agreeing_def incompatible_Nil mem by (simp only: incompatible_Nil mem) blast
qed

lemma missing_dependencies_iff: "missingDependencyConflicts rs = [] \<longleftrightarrow> (\<forall>r \<in> set rs.
    set (brp_dependencies (br_capabilities r)) \<subseteq> (\<lambda>r. bri_id (br_identity r)) ` set rs)"
  by (auto simp: missingDependencyConflicts_def Let_def filter_empty_conv)

lemma reordered: "set rs = set ss \<Longrightarrow> exclusive rs f = exclusive ss f" "set rs = set ss \<Longrightarrow> agreeing rs g = agreeing ss g"
  by (simp_all add: exclusive_def agreeing_def)

lemma merged_iff:
  assumes "agreeing rs f"
  shows "(k, v) \<in> set (mergedRecord L rs (of_composition f)) \<longleftrightarrow> (\<exists>r \<in> set rs. (k, v) \<in> set (f (br_composition r)))"
proof -
  let ?es = "concat (map (of_composition f) rs)"
  have one: "v = w" if "(k, v) \<in> set ?es" "(k, w) \<in> set ?es" for k v w
    using that assms unfolding agreeing_def by (auto simp: of_composition_def)
  have lookup: "map_of (merged_table ?es) k = Some v \<longleftrightarrow> (k, v) \<in> set ?es"
    by (rule merged_table_lookup) (rule one)
  have "(k, v) \<in> set (mergedRecord L rs (of_composition f)) \<longleftrightarrow> (k, v) \<in> set (merged_table ?es)"
    by (simp add: mergedRecord_def merged_table_def)
  also have "\<dots> \<longleftrightarrow> (k, v) \<in> set ?es" using lookup in_table [OF merged_table_distinct, of k v ?es] by simp
  also have "\<dots> \<longleftrightarrow> (\<exists>r \<in> set rs. (k, v) \<in> set (f (br_composition r)))" by (auto simp: of_composition_def)
  finally show ?thesis .
qed


definition sample_collation :: collation where
  "sample_collation = \<lparr>co_text = (\<lambda>a b. if a = b then 0 else if a < b then - 1 else 1),
     co_version = (\<lambda>a b. if a = b then 0 else if a < b then - 1 else 1)\<rparr>"


end
