(* ===== verification/PlanPolicies.thy ===== *)
theory PlanPolicies
  imports ProductContract
begin

text \<open>
  What a contract demands of a plan and of the files it produces, for persistence
  (\<open>src/lib/databasePersistence.ts\<close>), integrations (\<open>src/lib/integrationImplementation.ts\<close>), AI agents
  (\<open>src/lib/aiAgentImplementation.ts\<close>) and billing (\<open>src/lib/monetizationImplementation.ts\<close>): the
  policy read off the contract and the patterns that say which role a path plays.
\<close>

definition MARKDOWN :: pattern where
  "MARKDOWN = Pattern True (rx_seq [Exact ''.md'', TextEnd])"

section \<open>Persistence\<close>

record database_policy =
  dbp_required :: bool
  dbp_modelNames :: "string list"
  dbp_tenantIsolation :: bool
  dbp_softDelete :: bool
  dbp_seed :: bool

definition RECOVERABLE_DELETE :: pattern where
  "RECOVERABLE_DELETE = Pattern True (rx_words [''delete'', ''deleted'', ''deletion'', ''archive'',
    ''archived'', ''restore'', ''trash'', ''recover'', ''undo delete''])"

definition databasePersistencePolicy :: "product_contract \<Rightarrow> database_policy" where
  "databasePersistencePolicy c =
    (let requirementText = join_texts '' '' (pc_workflows c @ requirement_texts c @ pc_nonFunctional c);
         required = (CapDatabase \<in> set (pc_secondary c) \<or> FamDatabase \<in> set (pc_families c));
         modelNames = unique_texts (map js_trim (pc_dataModels c))
     in \<lparr>dbp_required = required, dbp_modelNames = modelNames,
         dbp_tenantIsolation = (required \<and>
           (pc_productType c = SaasApplication \<or> CapTeams \<in> set (pc_secondary c))),
         dbp_softDelete = (required \<and> rx_test RECOVERABLE_DELETE requirementText),
         dbp_seed = (required \<and> modelNames \<noteq> [])\<rparr>)"

definition DB_SCHEMA_PATH :: pattern where
  "DB_SCHEMA_PATH = Pattern True (rx_or [rx_seq [rx_or [TextStart, Exact ''/''],
    rx_or [Exact ''schema'', rx_seq [Exact ''model'', rx_opt (Exact ''s'')]], rx_or [Exact ''/'',
    Exact ''.'', TextEnd]], rx_seq [rx_or [TextStart, Exact ''/''], rx_texts [''db'', ''database''],
    Exact ''/'', rx_or [Exact ''schema'', rx_seq [Exact ''model'', rx_opt (Exact ''s'')]],
    rx_or [Exact ''/'', Exact ''.'', TextEnd]], rx_seq [rx_or [TextStart, Exact ''/''],
    Exact ''prisma/schema.prisma'', TextEnd], rx_seq [Exact ''firestore.'', rx_texts [''rules'',
    ''indexes.json''], TextEnd]])"

definition DB_MIGRATION_PATH :: pattern where
  "DB_MIGRATION_PATH = Pattern True (rx_or [rx_seq [rx_or [TextStart, Exact ''/''],
    rx_or [rx_seq [Exact ''migration'', rx_opt (Exact ''s'')], Exact ''drizzle''],
    rx_or [Exact ''/'', Exact ''.'', TextEnd]], rx_seq [rx_or [TextStart, Exact ''/''],
    Repeat rx_digit 4 None, Class False [(CHR ''_'', CHR ''_''), (CHR ''-'', CHR ''-'')],
    rx_star rx_dot, Exact ''.'', rx_texts [''sql'', ''ts'', ''js'', ''py'', ''dart''], TextEnd]])"

definition DB_SEED_PATH :: pattern where
  "DB_SEED_PATH = Pattern True (rx_or [rx_seq [rx_or [TextStart, Exact ''/''], rx_texts [''seed'',
    ''seeds'', ''fixtures''], rx_or [Exact ''/'', Exact ''.'', TextEnd]], rx_seq [rx_or [TextStart,
    Exact ''/''], rx_star rx_dot, Exact ''.seed.'', rx_texts [''ts'', ''js'', ''py'', ''dart''],
    TextEnd]])"

definition DB_RECOVERY_PATH :: pattern where
  "DB_RECOVERY_PATH = Pattern True (rx_or [rx_seq [rx_or [TextStart, Exact ''/''],
    rx_opt (Exact ''docs/''), rx_texts [''database'', ''db''], rx_opt (Class False [(CHR ''-'',
    CHR ''-''), (CHR ''_'', CHR ''_''), (CHR '' '', CHR '' '')]), rx_texts [''recovery'',
    ''backup'', ''restore''], rx_star rx_dot, Exact ''.md'', TextEnd], rx_seq [rx_or [TextStart,
    Exact ''/''], rx_texts [''recovery'', ''backup'', ''restore''], rx_opt (Class False [(CHR ''-'',
    CHR ''-''), (CHR ''_'', CHR ''_''), (CHR '' '', CHR '' '')]), rx_texts [''database'', ''db''],
    rx_star rx_dot, Exact ''.md'', TextEnd]])"

definition DB_PERSISTENCE_PATH :: pattern where
  "DB_PERSISTENCE_PATH = Pattern True (rx_seq [rx_or [TextStart, Exact ''/''], rx_or [Exact ''db'',
    Exact ''database'', rx_seq [Exact ''repositorie'', rx_opt (Exact ''s'')], Exact ''persistence'',
    Exact ''storage''], rx_or [Exact ''/'', Exact ''.'', TextEnd]])"

definition isDatabaseSchemaPath :: "string \<Rightarrow> bool" where
  "isDatabaseSchemaPath path \<longleftrightarrow> rx_test DB_SCHEMA_PATH path \<and> \<not> rx_test MARKDOWN path"

definition isDatabaseMigrationPath :: "string \<Rightarrow> bool" where
  "isDatabaseMigrationPath path = rx_test DB_MIGRATION_PATH path"

definition isDatabaseSeedPath :: "string \<Rightarrow> bool" where
  "isDatabaseSeedPath path = rx_test DB_SEED_PATH path"

definition isDatabaseRecoveryPath :: "string \<Rightarrow> bool" where
  "isDatabaseRecoveryPath path = rx_test DB_RECOVERY_PATH path"

definition isDatabasePersistencePath :: "string \<Rightarrow> bool" where
  "isDatabasePersistencePath path \<longleftrightarrow> rx_test DB_PERSISTENCE_PATH path \<and> \<not> isDatabaseSchemaPath path \<and>
     \<not> isDatabaseMigrationPath path \<and> \<not> isDatabaseSeedPath path \<and> \<not> rx_test MARKDOWN path"

section \<open>Integrations\<close>

record integration_policy =
  inp_required :: bool
  inp_requested :: "string list"
  inp_webhook :: bool
  inp_serverBoundary :: bool

definition INTEGRATION_CLIENT_PATH :: pattern where
  "INTEGRATION_CLIENT_PATH = Pattern True (rx_seq [rx_or [TextStart, Exact ''/''],
    rx_opt (Exact ''src/''), rx_opt (Exact ''server/''), rx_or [rx_seq [Exact ''integration'',
    rx_opt (Exact ''s'')], rx_seq [Exact ''client'', rx_opt (Exact ''s'')],
    rx_seq [Exact ''provider'', rx_opt (Exact ''s'')]], Exact ''/'',
    NotAhead (rx_seq [rx_star rx_dot, rx_texts [''health'', ''webhook'']])])"

definition INTEGRATION_HEALTH_PATH :: pattern where
  "INTEGRATION_HEALTH_PATH = Pattern True (rx_or [rx_seq [rx_or [TextStart, Exact ''/''],
    rx_opt (rx_seq [Exact ''integration'', rx_opt (Exact ''s''), Exact ''/'']),
    rx_texts [''health'', ''status''], rx_or [Exact ''/'', Exact ''.'', TextEnd]],
    rx_seq [rx_or [TextStart, Exact ''/''], rx_star rx_dot, Exact ''integration'', rx_star rx_dot,
    Exact ''health'']])"

definition INTEGRATION_WEBHOOK_PATH :: pattern where
  "INTEGRATION_WEBHOOK_PATH = Pattern True (rx_or [rx_seq [rx_or [TextStart, Exact ''/''],
    rx_opt (Exact ''api/''), Exact ''webhook'', rx_opt (Exact ''s''), rx_or [Exact ''/'',
    Exact ''.'', TextEnd]], rx_seq [rx_or [TextStart, Exact ''/''], rx_star rx_dot,
    Exact ''webhook'', rx_star rx_dot, Exact ''.'', rx_texts [''ts'', ''js'', ''py'', ''dart''],
    TextEnd]])"

definition INTEGRATION_DOC_PATH :: pattern where
  "INTEGRATION_DOC_PATH = Pattern True (rx_or [rx_seq [rx_or [TextStart, Exact ''/''],
    Exact ''docs/'', rx_or [rx_seq [Exact ''integration'', rx_opt (Exact ''s'')],
    rx_seq [Exact ''external-service'', rx_opt (Exact ''s'')]], Exact ''.md'', TextEnd],
    rx_seq [rx_or [TextStart, Exact ''/''], Exact ''INTEGRATIONS.md'', TextEnd]])"

definition ENV_EXAMPLE_PATH :: pattern where
  "ENV_EXAMPLE_PATH = Pattern True (rx_or [rx_seq [rx_or [TextStart, Exact ''/''], Exact ''.env'',
    rx_texts [''.example'', ''.sample'', ''.template''], TextEnd], rx_seq [rx_or [TextStart,
    Exact ''/''], Exact ''env.example'', TextEnd]])"

definition WEBHOOK_PROVIDER_PATTERN :: pattern where
  "WEBHOOK_PROVIDER_PATTERN = Pattern True (rx_words [''stripe'', ''shopify'', ''twilio'',
    ''github'', ''slack'', ''paypal'', ''paddle'', ''square'', ''sendgrid'', ''mailgun''])"

definition WEBHOOK_WORDING :: pattern where
  "WEBHOOK_WORDING = Pattern True (rx_words [''webhook'', ''callback'', ''event subscription'',
    ''event delivery''])"

definition integrationImplementationPolicy :: "product_contract \<Rightarrow> integration_policy" where
  "integrationImplementationPolicy c =
    (let requested = unique_texts (map js_trim (pc_integrations c));
         requirementText = join_texts '' ''
           (pc_workflows c @ requirement_texts c @ pc_nonFunctional c @ pc_security c);
         required = (requested \<noteq> [] \<or> CapIntegrations \<in> set (pc_secondary c) \<or>
           FamIntegrations \<in> set (pc_families c))
     in \<lparr>inp_required = required, inp_requested = requested,
         inp_webhook = (required \<and> (rx_test WEBHOOK_WORDING requirementText \<or>
           list_ex (rx_test WEBHOOK_PROVIDER_PATTERN) requested)),
         inp_serverBoundary = required\<rparr>)"

datatype compatibility_problem = NeedsServerBoundary | NeedsWebhookReceiver

definition integrationCompatibilityProblems ::
    "product_contract \<Rightarrow> (stack_error, compatibility_problem list) result" where
  "integrationCompatibilityProblems c =
    (let policy = integrationImplementationPolicy c in
     if \<not> inp_required policy then Inr []
     else bind_result (getStackAdapter (pc_stack c)) (\<lambda>adapter. Inr
       ((if inp_serverBoundary policy \<and> sa_runtime adapter \<in> {RuntimeBrowser, RuntimeExtension} \<and>
             FamBackend \<notin> set (pc_families c) then [NeedsServerBoundary] else []) @
        (if inp_webhook policy \<and> sa_runtime adapter \<in> {RuntimeBrowser, RuntimeExtension, RuntimeMobile} \<and>
             FamBackend \<notin> set (pc_families c) then [NeedsWebhookReceiver] else []))))"

definition isIntegrationHealthPath :: "string \<Rightarrow> bool" where
  "isIntegrationHealthPath path = rx_test INTEGRATION_HEALTH_PATH path"

definition isIntegrationClientPath :: "string \<Rightarrow> bool" where
  "isIntegrationClientPath path \<longleftrightarrow> rx_test INTEGRATION_CLIENT_PATH path \<and> \<not> rx_test INTEGRATION_HEALTH_PATH path"

definition isIntegrationWebhookPath :: "string \<Rightarrow> bool" where
  "isIntegrationWebhookPath path = rx_test INTEGRATION_WEBHOOK_PATH path"

definition isIntegrationDocsPath :: "string \<Rightarrow> bool" where
  "isIntegrationDocsPath path = rx_test INTEGRATION_DOC_PATH path"

definition isIntegrationEnvPath :: "string \<Rightarrow> bool" where
  "isIntegrationEnvPath path = rx_test ENV_EXAMPLE_PATH path"

section \<open>AI agents\<close>

record ai_policy =
  aip_required :: bool
  aip_toolUse :: bool
  aip_approval :: bool
  aip_memory :: bool

definition AI_PROVIDER_PATH :: pattern where
  "AI_PROVIDER_PATH = Pattern True (rx_seq [rx_or [TextStart, Exact ''/''],
    rx_opt (rx_texts [''src/'', ''app/'']), rx_texts [''ai'', ''agent''], Exact ''/'',
    rx_texts [''provider'', ''providers'', ''modelProvider'', ''model_provider'', ''llm''],
    rx_or [Exact ''.'', Exact ''/'', TextEnd]])"

definition AI_ROUTER_PATH :: pattern where
  "AI_ROUTER_PATH = Pattern True (rx_seq [rx_or [TextStart, Exact ''/''],
    rx_opt (rx_texts [''src/'', ''app/'']), rx_texts [''ai'', ''agent''], Exact ''/'',
    rx_texts [''modelRouter'', ''model_router'', ''routing'', ''router''], rx_or [Exact ''.'',
    Exact ''/'', TextEnd]])"

definition AI_TOOLS_PATH :: pattern where
  "AI_TOOLS_PATH = Pattern True (rx_seq [rx_or [TextStart, Exact ''/''], rx_opt (rx_texts [''src/'',
    ''app/'']), rx_texts [''ai'', ''agent''], Exact ''/'', rx_or [rx_seq [Exact ''tool'',
    rx_opt (Exact ''s'')], Exact ''toolRegistry'', Exact ''tool_registry''], rx_or [Exact ''.'',
    Exact ''/'', TextEnd]])"

definition AI_POLICY_PATH :: pattern where
  "AI_POLICY_PATH = Pattern True (rx_seq [rx_or [TextStart, Exact ''/''],
    rx_opt (rx_texts [''src/'', ''app/'']), rx_texts [''ai'', ''agent''], Exact ''/'',
    rx_or [Exact ''policy'', Exact ''safety'', rx_seq [Exact ''guardrail'', rx_opt (Exact ''s'')],
    rx_seq [Exact ''permission'', rx_opt (Exact ''s'')]], rx_or [Exact ''.'', Exact ''/'',
    TextEnd]])"

definition AI_MEMORY_PATH :: pattern where
  "AI_MEMORY_PATH = Pattern True (rx_seq [rx_or [TextStart, Exact ''/''],
    rx_opt (rx_texts [''src/'', ''app/'']), rx_texts [''ai'', ''agent''], Exact ''/'',
    rx_texts [''memory'', ''context'', ''state''], rx_or [Exact ''.'', Exact ''/'', TextEnd]])"

definition AI_AUDIT_PATH :: pattern where
  "AI_AUDIT_PATH = Pattern True (rx_seq [rx_or [TextStart, Exact ''/''], rx_opt (rx_texts [''src/'',
    ''app/'']), rx_texts [''ai'', ''agent''], Exact ''/'', rx_texts [''audit'', ''auditLog'',
    ''audit_log'', ''telemetry''], rx_or [Exact ''.'', Exact ''/'', TextEnd]])"

definition AI_STATUS_PATH :: pattern where
  "AI_STATUS_PATH = Pattern True (rx_seq [rx_or [TextStart, Exact ''/''],
    rx_opt (rx_texts [''src/'', ''app/'']), rx_texts [''ai'', ''agent''], Exact ''/'',
    rx_texts [''status'', ''health'', ''progress''], rx_or [Exact ''.'', Exact ''/'', TextEnd]])"

definition AI_DOC_PATH :: pattern where
  "AI_DOC_PATH = Pattern True (rx_seq [rx_or [TextStart, Exact ''/''], Exact ''docs/'',
    rx_texts [''AI_AGENT'', ''AI-AGENT'', ''ai-agent'', ''agent''], Exact ''.md'', TextEnd])"

definition ENV_PATH :: pattern where
  \<comment> \<open>the pattern of the AI and of the billing module\<close>
  "ENV_PATH = Pattern True (rx_seq [rx_or [TextStart, Exact ''/''], Exact ''.env'',
    rx_texts [''.example'', ''.sample'', ''.template''], TextEnd])"

definition TOOL_WORDING :: pattern where
  "TOOL_WORDING = Pattern True (rx_words [''tool'', ''tools'', ''action'', ''actions'', ''execute'',
    ''execution'', ''automation'', ''email'', ''calendar'', ''browser'', ''api'', ''command'',
    ''file'', ''database'', ''search'', ''send'', ''create'', ''update'', ''delete''])"

definition APPROVAL_WORDING :: pattern where
  "APPROVAL_WORDING = Pattern True (rx_edged [Exact ''send'', Exact ''delete'', Exact ''purchase'',
    Exact ''pay'', Exact ''publish'', Exact ''deploy'', Exact ''execute'', Exact ''command'',
    Exact ''modify'', Exact ''write'', Exact ''create'', Exact ''update'', Exact ''external'',
    rx_seq [Exact ''real'', Class False [(CHR ''-'', CHR ''-''), (CHR '' '', CHR '' '')],
    Exact ''world''], Exact ''side effect''])"

definition MEMORY_WORDING :: pattern where
  "MEMORY_WORDING = Pattern True (rx_words [''memory'', ''remember'', ''conversation'', ''history'',
    ''context'', ''persistent'', ''profile'', ''preferences''])"

definition aiAgentPolicy :: "product_contract \<Rightarrow> ai_policy" where
  "aiAgentPolicy c =
    (let requirementText = join_texts '' ''
           (pc_prompt c # pc_workflows c @ requirement_texts c @ pc_nonFunctional c @ pc_security c);
         required = (pc_productType c = AiAgent);
         toolUseExpected = (required \<and> rx_test TOOL_WORDING requirementText)
     in \<lparr>aip_required = required, aip_toolUse = toolUseExpected,
         aip_approval = (toolUseExpected \<and> rx_test APPROVAL_WORDING requirementText),
         aip_memory = (required \<and> rx_test MEMORY_WORDING requirementText)\<rparr>)"

definition isAiProviderPath :: "string \<Rightarrow> bool" where
  "isAiProviderPath path = rx_test AI_PROVIDER_PATH path"

definition isAiRouterPath :: "string \<Rightarrow> bool" where
  "isAiRouterPath path = rx_test AI_ROUTER_PATH path"

definition isAiToolsPath :: "string \<Rightarrow> bool" where
  "isAiToolsPath path = rx_test AI_TOOLS_PATH path"

definition isAiPolicyPath :: "string \<Rightarrow> bool" where
  "isAiPolicyPath path = rx_test AI_POLICY_PATH path"

definition isAiMemoryPath :: "string \<Rightarrow> bool" where
  "isAiMemoryPath path = rx_test AI_MEMORY_PATH path"

definition isAiAuditPath :: "string \<Rightarrow> bool" where
  "isAiAuditPath path = rx_test AI_AUDIT_PATH path"

definition isAiStatusPath :: "string \<Rightarrow> bool" where
  "isAiStatusPath path = rx_test AI_STATUS_PATH path"

definition isAiDocsPath :: "string \<Rightarrow> bool" where
  "isAiDocsPath path = rx_test AI_DOC_PATH path"

definition isAiEnvPath :: "string \<Rightarrow> bool" where
  "isAiEnvPath path = rx_test ENV_PATH path"

section \<open>Billing\<close>

datatype billing_model =
    SubscriptionModel | OneTimeModel | UsageModel | TrialModel | CreditsModel | InAppModel | AdvertisingModel

record monetization_policy =
  mop_required :: bool
  mop_models :: "billing_model list"
  mop_provider :: "string option"

definition BILLING_WORDING :: "(billing_model \<times> pattern) list" where
  "BILLING_WORDING =
    [(SubscriptionModel, Pattern False (rx_texts [''subscription'', ''recurring'', ''monthly'',
      ''annual'', ''yearly'', ''per seat'', ''plan''])),
     (OneTimeModel, Pattern False (rx_or [rx_seq [Exact ''one'', Class False [(CHR ''-'',
       CHR ''-''), (CHR '' '', CHR '' '')], Exact ''time''], Exact ''single purchase'',
       Exact ''buy'', Exact ''purchase'', Exact ''checkout''])),
     (UsageModel, Pattern False (rx_or [Exact ''usage'', Exact ''metered'', rx_seq [Exact ''pay'',
       Class False [(CHR ''-'', CHR ''-''), (CHR '' '', CHR '' '')], Exact ''as'',
       Class False [(CHR ''-'', CHR ''-''), (CHR '' '', CHR '' '')], Exact ''you'',
       Class False [(CHR ''-'', CHR ''-''), (CHR '' '', CHR '' '')], Exact ''go''],
       Exact ''per request''])),
     (TrialModel, Pattern False (rx_texts [''trial'', ''free trial''])),
     (CreditsModel, Pattern False (rx_texts [''credit'', ''token pack'', ''build credit''])),
     (InAppModel, Pattern False (rx_seq [Exact ''in'', Class False [(CHR ''-'', CHR ''-''),
       (CHR '' '', CHR '' '')], Exact ''app purchase''])),
     (AdvertisingModel, Pattern False (rx_or [Exact ''advertis'', rx_seq [WordEdge, Exact ''ad'',
       rx_opt (Exact ''s''), WordEdge], Exact ''ad-supported'']))]"

definition BILLING_PROVIDER :: pattern where
  "BILLING_PROVIDER = Pattern True (rx_texts [''stripe'', ''paypal'', ''paddle'', ''lemon'',
    ''app store'', ''google play''])"

definition monetizationPolicy :: "product_contract \<Rightarrow> monetization_policy" where
  "monetizationPolicy c =
    (let billingText = js_lower (join_texts '' '' (pc_monetization c) @ '' '' @ pc_prompt c);
         models = map fst (filter (\<lambda>(_, wording). rx_test wording billingText) BILLING_WORDING);
         required = (pc_monetization c \<noteq> [])
     in \<lparr>mop_required = required,
         mop_models = (if required \<and> models = [] then [SubscriptionModel] else models),
         mop_provider = List.find (rx_test BILLING_PROVIDER) (pc_integrations c)\<rparr>)"

definition PRODUCT_PRICE_PATH :: pattern where
  "PRODUCT_PRICE_PATH = Pattern True (rx_seq [rx_or [TextStart, Exact ''/''],
    rx_opt (Exact ''billing/''), rx_or [Exact ''catalog'', rx_seq [Exact ''product'',
    rx_opt (Exact ''s'')], rx_seq [Exact ''price'', rx_opt (Exact ''s'')], rx_seq [Exact ''plan'',
    rx_opt (Exact ''s'')]], rx_or [Exact ''/'', Exact ''.'', TextEnd]])"

definition CHECKOUT_PATH :: pattern where
  "CHECKOUT_PATH = Pattern True (rx_seq [rx_or [TextStart, Exact ''/''],
    rx_opt (Exact ''billing/''), rx_or [Exact ''checkout'', rx_seq [Exact ''payment'',
    rx_opt (Exact ''s'')], Exact ''purchase''], rx_or [Exact ''/'', Exact ''.'', TextEnd]])"

definition ENTITLEMENT_PATH :: pattern where
  "ENTITLEMENT_PATH = Pattern True (rx_seq [rx_or [TextStart, Exact ''/''],
    rx_opt (Exact ''billing/''), Exact ''entitlement'', rx_opt (Exact ''s''), rx_or [Exact ''/'',
    Exact ''.'', TextEnd]])"

definition LIMIT_PATH :: pattern where
  "LIMIT_PATH = Pattern True (rx_seq [rx_or [TextStart, Exact ''/''], rx_opt (Exact ''billing/''),
    rx_or [rx_seq [Exact ''limit'', rx_opt (Exact ''s'')], rx_seq [Exact ''quota'',
    rx_opt (Exact ''s'')], Exact ''access''], rx_or [Exact ''/'', Exact ''.'', TextEnd]])"

definition PORTAL_PATH :: pattern where
  "PORTAL_PATH = Pattern True (rx_seq [rx_or [TextStart, Exact ''/''], rx_opt (Exact ''billing/''),
    rx_texts [''portal'', ''customerPortal'', ''customer_portal''], rx_or [Exact ''/'', Exact ''.'',
    TextEnd]])"

definition BILLING_WEBHOOK_PATH :: pattern where
  "BILLING_WEBHOOK_PATH = Pattern True (rx_or [rx_seq [rx_or [TextStart, Exact ''/''],
    rx_opt (Exact ''billing/''), Exact ''webhook'', rx_opt (Exact ''s''), rx_or [Exact ''/'',
    Exact ''.'', TextEnd]], rx_seq [Exact ''stripe'', rx_star rx_dot, Exact ''webhook'']])"

definition BILLING_AUDIT_PATH :: pattern where
  "BILLING_AUDIT_PATH = Pattern True (rx_seq [rx_or [TextStart, Exact ''/''],
    rx_opt (Exact ''billing/''), rx_or [Exact ''audit'', rx_seq [Exact ''event'',
    rx_opt (Exact ''s'')], Exact ''ledger''], rx_or [Exact ''/'', Exact ''.'', TextEnd]])"

definition BILLING_DOC_PATH :: pattern where
  "BILLING_DOC_PATH = Pattern True (rx_seq [rx_or [TextStart, Exact ''/''], Exact ''docs/'',
    rx_texts [''BILLING'', ''MONETIZATION'', ''billing'', ''monetization''], Exact ''.md'',
    TextEnd])"

definition isMonetizationCatalogPath :: "string \<Rightarrow> bool" where
  "isMonetizationCatalogPath path = rx_test PRODUCT_PRICE_PATH path"

definition isMonetizationCheckoutPath :: "string \<Rightarrow> bool" where
  "isMonetizationCheckoutPath path = rx_test CHECKOUT_PATH path"

definition isMonetizationEntitlementPath :: "string \<Rightarrow> bool" where
  "isMonetizationEntitlementPath path = rx_test ENTITLEMENT_PATH path"

definition isMonetizationLimitPath :: "string \<Rightarrow> bool" where
  "isMonetizationLimitPath path = rx_test LIMIT_PATH path"

definition isMonetizationPortalPath :: "string \<Rightarrow> bool" where
  "isMonetizationPortalPath path = rx_test PORTAL_PATH path"

definition isMonetizationWebhookPath :: "string \<Rightarrow> bool" where
  "isMonetizationWebhookPath path = rx_test BILLING_WEBHOOK_PATH path"

definition isMonetizationAuditPath :: "string \<Rightarrow> bool" where
  "isMonetizationAuditPath path = rx_test BILLING_AUDIT_PATH path"

definition isMonetizationEnvPath :: "string \<Rightarrow> bool" where
  "isMonetizationEnvPath path = rx_test ENV_PATH path"

definition isMonetizationDocsPath :: "string \<Rightarrow> bool" where
  "isMonetizationDocsPath path = rx_test BILLING_DOC_PATH path"

end
