(* ===== verification/NativeCapabilities.thy ===== *)
theory NativeCapabilities
  imports ProductContract
begin

text \<open>
  The native capabilities of a mobile product (\<open>src/lib/nativeCapabilitySelection.ts\<close>): what a contract
  asks for by its wording, the registry of their adapters (\<open>src/lib/productCapabilityAdapters.ts\<close>), and
  the dependencies the requirement manifest records for them (\<open>requirementManifest.ts\<close>). The main
  result follows the state of an adapter to the completion gate: as long as the adapters are only
  discovered, no mobile product that asks for such a capability is reported complete.
\<close>

section \<open>What a contract asks for\<close>

definition contractText :: "product_contract \<Rightarrow> string" where
  "contractText c = js_lower (join_texts [CHR 0x0A] (pc_prompt c # pc_interpretation c # pc_workflows c @
     requirement_texts c @ pc_nonFunctional c @ pc_integrations c @ pc_runtime c @ pc_deployment c @ pc_security c))"

definition MOBILE_WORDING :: pattern where
  "MOBILE_WORDING = Pattern False (rx_words [''iphone'', ''ipad'', ''ios'', ''android'',
    ''mobile app'', ''mobile application''])"

definition mobileProduct :: "product_contract \<Rightarrow> bool" where
  "mobileProduct c \<longleftrightarrow> pc_productType c = MobileApp \<or> FamMobile \<in> set (pc_families c) \<or>
     rx_test MOBILE_WORDING (contractText c)"

text \<open>One row per \<open>if\<close> of the source: any of the patterns selects the capabilities.\<close>

definition NATIVE_SIGNALS :: "(pattern list \<times> string list) list" where
  "NATIVE_SIGNALS =
    [([Pattern False (rx_seq [WordEdge, Exact ''push'', rx_opt (Class False [(CHR ''-'', CHR ''-''),
      (CHR '' '', CHR '' '')]), Exact ''notification'', rx_opt (Exact ''s''), WordEdge]),
       Pattern False (rx_seq [WordEdge, Exact ''notification'', WordEdge,
         Repeat (Class True [(CHR 0x0A, CHR 0x0A)]) 0 (Some 60), WordEdge, rx_texts [''phone'',
         ''device'', ''mobile''], WordEdge])],
      [''push_notifications'', ''deep_links'']),
     ([Pattern False (rx_edged [rx_seq [Exact ''hands'', rx_opt (Class False [(CHR ''-'',
       CHR ''-''), (CHR '' '', CHR '' '')]), Exact ''free''], Exact ''voice interaction'',
       Exact ''voice command'', Exact ''voice reply'', Exact ''answer by voice'',
       Exact ''respond by voice'', Exact ''spoken command'', Exact ''speech recognition''])],
      [''speech_recognition'', ''text_to_speech'', ''microphone'']),
     ([Pattern False (rx_edged [rx_seq [Exact ''text'', rx_opt (Class False [(CHR ''-'', CHR ''-''),
       (CHR '' '', CHR '' '')]), Exact ''to'', rx_opt (Class False [(CHR ''-'', CHR ''-''),
       (CHR '' '', CHR '' '')]), Exact ''speech''], Exact ''tts'', rx_seq [Exact ''read'',
       rx_opt (Exact ''s''), Exact '' '', rx_opt (Exact ''the ''), rx_texts [''response'',
       ''message'', ''result''], Exact '' aloud''], rx_seq [Exact ''speak'',
       rx_opt (rx_texts [''s'', ''ing'']), Exact '' aloud'']])],
      [''text_to_speech'']),
     ([Pattern False (rx_edged [Exact ''siri'', rx_seq [Exact ''app intent'',
       rx_opt (Exact ''s'')]])], [''siri_app_intents'']),
     ([Pattern False (rx_edged [rx_seq [Exact ''android voice action'', rx_opt (Exact ''s'')],
       rx_seq [Exact ''app action'', rx_opt (Exact ''s'')]])], [''android_voice_actions'']),
     ([Pattern False (rx_or [rx_words [''camera''], rx_seq [WordEdge, Exact ''take '',
       rx_opt (Exact ''a ''), rx_texts [''photo'', ''picture''], WordEdge]])], [''camera'']),
     ([Pattern False (rx_edged [Exact ''photo library'', Exact ''photo picker'',
       rx_seq [Exact ''photo'', rx_opt (Exact ''s''), Exact '' access''], rx_seq [Exact ''image'',
       rx_opt (Exact ''s''), Exact '' access'']])], [''photos'']),
     ([Pattern False (rx_or [rx_words [''microphone''], rx_seq [WordEdge, Exact ''record '',
       rx_texts [''audio'', ''voice''], WordEdge]])], [''microphone'']),
     ([Pattern False (rx_words [''audio playback'', ''play audio'', ''play sound'',
       ''audio player''])], [''audio'']),
     ([Pattern False (rx_words [''gps'', ''current location'', ''user location'',
       ''geolocation''])], [''gps_location'']),
     ([Pattern False (rx_or [rx_words [''background location''],
       rx_words [''location tracking'']])], [''gps_location'', ''background_location'']),
     ([Pattern False (rx_or [rx_words [''bluetooth''], rx_words [''ble'']])], [''bluetooth'']),
     ([Pattern False (rx_words [''biometric'', ''face id'', ''touch id'', ''fingerprint''])],
       [''biometrics'']),
     ([Pattern False (rx_edged [rx_seq [Exact ''deep link'', rx_opt (Exact ''s'')],
       rx_seq [Exact ''deep'', Class False [(CHR ''-'', CHR ''-''), (CHR '' '', CHR '' '')],
       Exact ''link''], rx_seq [Exact ''universal link'', rx_opt (Exact ''s'')],
       rx_seq [Exact ''app link'', rx_opt (Exact ''s'')]])], [''deep_links'']),
     ([Pattern False (rx_edged [Exact ''file picker'', Exact ''document picker'',
       Exact ''file access'', rx_seq [Exact ''select '', rx_opt (Exact ''a ''), Exact ''file'']])],
       [''file_access'']),
     ([Pattern False (rx_edged [Exact ''share sheet'', Exact ''system share'',
       Exact ''sharing extension'', rx_seq [Exact ''share '', rx_opt (Exact ''a ''),
       rx_texts [''file'', ''link'', ''image'']]])],
      [''sharing'']),
     ([Pattern False (rx_edged [rx_seq [Exact ''contact'', rx_opt (Exact ''s''), Exact '' access''],
       Exact ''address book'', rx_seq [Exact ''import contact'', rx_opt (Exact ''s'')],
       rx_seq [Exact ''sync contact'', rx_opt (Exact ''s'')]])], [''contacts'']),
     ([Pattern False (rx_edged [Exact ''calendar access'', rx_seq [Exact ''calendar event'',
       rx_opt (Exact ''s'')], Exact ''eventkit''])], [''calendar'']),
     ([Pattern False (rx_edged [rx_seq [Exact ''home'', Class False [(CHR ''-'', CHR ''-''),
       (CHR '' '', CHR '' '')], Exact ''screen widget''], rx_seq [Exact ''lock'',
       Class False [(CHR ''-'', CHR ''-''), (CHR '' '', CHR '' '')], Exact ''screen widget''],
       rx_seq [Exact ''widget'', rx_opt (Exact ''s'')]])], [''widgets'']),
     ([Pattern False (rx_or [rx_seq [WordEdge, Exact ''live activit'', rx_texts [''y'', ''ies''],
       WordEdge], rx_words [''dynamic island'']])], [''live_activities'']),
     ([Pattern False (rx_seq [WordEdge, Exact ''background'', WordEdge,
       Repeat (Class True [(CHR 0x0A, CHR 0x0A)]) 0 (Some 100), WordEdge,
       rx_or [rx_seq [Exact ''monitor'', rx_opt (rx_texts [''s'', ''ing''])], Exact ''watch'',
       Exact ''job'', Exact ''task'', Exact ''sync'', Exact ''poll'', Exact ''tracking'',
       Exact ''availability''], WordEdge]),
       Pattern False (rx_seq [WordEdge, rx_or [rx_seq [Exact ''monitor'', rx_opt (rx_texts [''s'',
         ''ing''])], Exact ''watch'', Exact ''poll''], WordEdge, Repeat (Class True [(CHR 0x0A,
         CHR 0x0A)]) 0 (Some 100), WordEdge, Exact ''background'', WordEdge])],
      [''background_jobs'', ''scheduling'']),
     ([Pattern False (rx_edged [rx_seq [Exact ''scheduled task'', rx_opt (Exact ''s'')],
       Exact ''scheduler'', Exact ''cron'', Exact ''recurring job'', Exact ''recurring task'',
       Exact ''run every'', Exact ''check every''])],
      [''scheduling'']),
     ([Pattern False (rx_edged [rx_seq [Exact ''background job'', rx_opt (Exact ''s'')],
       Exact ''background task'', Exact ''background worker'', Exact ''durable worker'',
       Exact ''job queue''])],
      [''background_jobs''])]"

definition deriveRequestedProductCapabilities :: "product_contract \<Rightarrow> string list" where
  "deriveRequestedProductCapabilities c =
    (if \<not> mobileProduct c then []
     else let text = contractText c in
       unique_texts (concat (map snd (filter (\<lambda>(ps, _). list_ex (\<lambda>p. rx_test p text) ps) NATIVE_SIGNALS))))"

section \<open>The registry of the adapters\<close>

datatype credential_scope = ScopedCredential | PublicConfig | NoCredential

record capability_adapter =
  ca_id :: string
  ca_label :: string
  ca_platforms :: "adapter_platform list"
  ca_dependencies :: "string list"
  ca_permissions :: "(adapter_platform \<times> string list) list"
  ca_configuration :: "string list"
  ca_credentials :: "bool \<times> string list \<times> credential_scope"
  ca_provisioning :: "string list"
  ca_install :: "string list"
  ca_build :: "string list"
  ca_runtimeTests :: "string list"
  ca_behavioralTests :: "string list"
  ca_failures :: "string list"
  ca_security :: "string list"
  ca_limitations :: "string list"
  ca_required :: "evidence_flag list"
  ca_state :: capability_state
  ca_evidence :: adapter_evidence
  ca_ledger :: "string list option"

definition NATIVE_RUNTIME_EVIDENCE :: "evidence_flag list" where
  "NATIVE_RUNTIME_EVIDENCE = [EvDiscovered, EvInstall, EvCompile, EvTests, EvRuntime, EvBehavioral]"

definition discoveredCapability :: "string \<Rightarrow> string \<Rightarrow> adapter_platform list \<Rightarrow> string list \<Rightarrow>
    (adapter_platform \<times> string list) list \<Rightarrow> string list \<Rightarrow> bool \<times> string list \<times> credential_scope \<Rightarrow>
    string list \<Rightarrow> string list \<Rightarrow> string list \<Rightarrow> string list \<Rightarrow> string list \<Rightarrow> string list \<Rightarrow>
    string list \<Rightarrow> string list \<Rightarrow> capability_adapter" where
  "discoveredCapability i label platforms dependencies permissions configuration credentials
     provisioning install build runtimeTests behavioralTests failures security limitations =
   \<lparr>ca_id = i, ca_label = label, ca_platforms = platforms, ca_dependencies = dependencies,
    ca_permissions = permissions, ca_configuration = configuration, ca_credentials = credentials,
    ca_provisioning = provisioning, ca_install = install, ca_build = build,
    ca_runtimeTests = runtimeTests, ca_behavioralTests = behavioralTests, ca_failures = failures,
    ca_security = security, ca_limitations = limitations, ca_required = NATIVE_RUNTIME_EVIDENCE,
    ca_state = Discovered, ca_evidence = (\<lambda>f. if f = EvDiscovered then Some True else None),
    ca_ledger = Some [''repository-audit-2026-10-15:'' @ i]\<rparr>"

definition capability_push_notifications :: capability_adapter where
  "capability_push_notifications = discoveredCapability ''push_notifications'' ''Push notifications'' [OnIos, OnAndroid]
     [''Flutter/native push client selected through current-technology research'',
     ''APNs and/or Firebase Cloud Messaging provider integration''] [(OnIos,
     [''remote notifications'']), (OnAndroid, [''POST_NOTIFICATIONS''])]
     [''Configure platform notification entitlements/channels and provider identifiers'',
     ''Register device tokens without embedding server credentials in the client''] (True,
     [''APNs signing key/certificate'', ''FCM server/service credential''], ScopedCredential)
     [''Provision provider application identifiers and server-side sending credentials'']
     [''Install the researched compatible Flutter/native notification client dependency'']
     [''Apply iOS entitlements and Android manifest/channel configuration before native build'']
     [''Register a real simulator/device token where the platform/provider permits and receive a test notification'']
     [''Tap notification and prove routing to the intended product state through a validated deep link'']
     [''Detect denied permission, token registration failure, provider rejection and stale-token responses'']
     [''Provider sending credentials remain server-side and notifications must not disclose sensitive data on locked devices'']
     [''Real APNs delivery may require Apple signing/provisioning and physical-device access'']"

definition capability_speech_recognition :: capability_adapter where
  "capability_speech_recognition = discoveredCapability ''speech_recognition'' ''Speech recognition'' [OnIos, OnAndroid]
     [''Platform speech recognizer or current compatible Flutter bridge''] [(OnIos,
     [''microphone'', ''speech recognition'']), (OnAndroid, [''RECORD_AUDIO''])]
     [''Declare microphone/speech usage descriptions and locale handling''] (False, [],
     NoCredential)
     [''Select on-device/platform service first; declare external provider only when required'']
     [''Install the researched compatible speech-recognition bridge'']
     [''Compile native microphone/speech permissions into the app'']
     [''Capture a controlled utterance and produce recognized text on the target runtime'']
     [''Prove recognized command text drives only the allowed product action'']
     [''Detect permission denial, unavailable recognizer, silence, timeout and low-confidence/empty results'']
     [''Do not record or transmit microphone audio before explicit permission and active user intent'']
     [''Simulator speech support varies; device/provider/network may be required for full proof'']"

definition capability_text_to_speech :: capability_adapter where
  "capability_text_to_speech = discoveredCapability ''text_to_speech'' ''Text to speech'' [OnIos, OnAndroid]
     [''Platform TTS engine or current compatible Flutter bridge''] [(OnIos, []), (OnAndroid, [])]
     [''Configure language, voice availability and audio-session behavior''] (False, [],
     NoCredential)
     [''Prefer installed platform voices; report when a requested voice/language is unavailable'']
     [''Install the researched compatible text-to-speech bridge'']
     [''Compile audio-session/platform integration for supported targets'']
     [''Synthesize a deterministic phrase and observe successful playback lifecycle'']
     [''Prove product prompt is spoken once and can be cancelled/interrupted safely'']
     [''Detect missing voice/language, synthesis failure and audio interruption'']
     [''Never speak secrets, payment credentials or sensitive content without product-level authorization'']
     [''Available voices and offline behavior differ by device/OS'']"

definition capability_siri_app_intents :: capability_adapter where
  "capability_siri_app_intents = discoveredCapability ''siri_app_intents'' ''Siri and App Intents'' [OnIos]
     [''Apple App Intents/Siri frameworks and generated native integration''] [(OnIos,
     [''Siri capability where required''])]
     [''Define typed App Intents, phrases and app entitlement configuration''] (False, [],
     NoCredential) [''Require legitimate Xcode/iOS target capable of compiling App Intents'']
     [''Generate/compile the native App Intent target or bridge'']
     [''Build with supported Xcode SDK and validate intent metadata'']
     [''Invoke an intent in simulator/device environment that supports it'']
     [''Verify intent executes only the declared action and respects confirmation requirements'']
     [''Detect unavailable intent, missing entitlement, invalid parameters and cancelled invocation'']
     [''Sensitive or irreversible actions require explicit in-app/user confirmation where appropriate'']
     [''Signing, OS availability and some Siri behavior may require Apple developer access/device testing'']"

definition capability_android_voice_actions :: capability_adapter where
  "capability_android_voice_actions = discoveredCapability ''android_voice_actions'' ''Android voice actions'' [OnAndroid]
     [''Android intents/App Actions/Assistant-compatible integration selected through current research'']
     [(OnAndroid, [])] [''Declare supported deep links/intents and typed parameters''] (False, [],
     NoCredential)
     [''Use legitimate Android tooling and current platform/Assistant integration path'']
     [''Generate native intent/action integration and app-link bindings'']
     [''Compile and validate Android manifest/intent filters'']
     [''Invoke the supported voice/deep-link intent on an emulator/device'']
     [''Verify parsed voice intent reaches only the expected product action'']
     [''Detect unmatched intent, invalid parameters and unavailable voice service'']
     [''Require explicit confirmation before purchases, bookings or destructive actions'']
     [''Assistant/App Actions availability and certification vary by current Google platform support'']"

definition capability_camera :: capability_adapter where
  "capability_camera = discoveredCapability ''camera'' ''Camera'' [OnIos, OnAndroid]
     [''Platform camera APIs or current compatible Flutter camera bridge''] [(OnIos, [''camera'']),
     (OnAndroid, [''CAMERA''])] [''Declare camera usage reason and supported capture modes'']
     (False, [], NoCredential) [''Select target camera APIs supported by the requested devices'']
     [''Install researched compatible camera dependency'']
     [''Compile camera permissions and native camera integration'']
     [''Open camera, capture controlled media and close resources cleanly'']
     [''Verify captured media is attached only to the intended product workflow'']
     [''Detect permission denial, unavailable camera, capture failure and lifecycle interruption'']
     [''Never activate camera without visible user intent and granted permission'']
     [''Emulators may provide synthetic/no camera; physical hardware may be required for full proof'']"

definition capability_photos :: capability_adapter where
  "capability_photos = discoveredCapability ''photos'' ''Photo library'' [OnIos, OnAndroid]
     [''Platform photo picker/library API or current compatible Flutter bridge''] [(OnIos,
     [''photo library when required'']), (OnAndroid,
     [''platform photo picker or scoped media access''])]
     [''Prefer least-privilege system photo picker/scoped media access''] (False, [], NoCredential)
     [''Choose picker/scoped-storage path appropriate to target OS versions'']
     [''Install researched compatible photo-picker dependency when needed'']
     [''Compile supported picker/library configuration'']
     [''Select a controlled image and verify readable content/metadata'']
     [''Verify only user-selected media enters the product workflow'']
     [''Detect cancellation, permission denial, inaccessible media and invalid file types'']
     [''Request the minimum photo access and avoid broad library access when a picker suffices'']
     [''Permission model differs by OS version and selected picker API'']"

definition capability_microphone :: capability_adapter where
  "capability_microphone = discoveredCapability ''microphone'' ''Microphone'' [OnIos, OnAndroid]
     [''Platform audio-recording API or current compatible Flutter bridge''] [(OnIos,
     [''microphone'']), (OnAndroid, [''RECORD_AUDIO''])]
     [''Declare microphone usage reason and audio-session behavior''] (False, [], NoCredential)
     [''Select recording format/sample settings required by the product'']
     [''Install researched compatible recording dependency'']
     [''Compile microphone permission and audio-session configuration'']
     [''Record and stop a controlled audio sample without resource leakage'']
     [''Verify recording begins only after explicit product/user action'']
     [''Detect denied permission, audio-session conflict, interruption and write failure'']
     [''Never record in the background unless explicitly required, disclosed and permitted'']
     [''Simulator microphone fidelity varies; physical device may be required'']"

definition capability_audio :: capability_adapter where
  "capability_audio = discoveredCapability ''audio'' ''Audio playback and session'' [OnIos, OnAndroid]
     [''Platform audio engine or current compatible Flutter audio bridge''] [(OnIos, []),
     (OnAndroid, [])]
     [''Configure playback category/focus and background audio only when requested''] (False, [],
     NoCredential) [''Select codec/playback path supported by target devices'']
     [''Install researched compatible audio dependency when needed'']
     [''Compile audio-session/focus configuration'']
     [''Play, pause, resume and stop a controlled audio asset'']
     [''Verify lifecycle/focus handling and user controls behave correctly'']
     [''Detect unsupported codec, focus loss, missing asset and playback error'']
     [''Do not continue sensitive audio unexpectedly after app/session state changes'']
     [''Background playback requires additional platform configuration and separate proof'']"

definition capability_gps_location :: capability_adapter where
  "capability_gps_location = discoveredCapability ''gps_location'' ''Location'' [OnIos, OnAndroid]
     [''Platform location API or current compatible Flutter bridge''] [(OnIos,
     [''location when in use'']), (OnAndroid, [''ACCESS_COARSE_LOCATION'',
     ''ACCESS_FINE_LOCATION when justified''])]
     [''Declare purpose strings and least-privilege accuracy requirements''] (False, [],
     NoCredential) [''Select accuracy and update policy from product requirements'']
     [''Install researched compatible location dependency'']
     [''Compile location permissions and platform configuration'']
     [''Obtain a controlled/simulated location fix on target runtime'']
     [''Verify location-dependent behavior changes only from validated coordinates'']
     [''Detect denied permission, disabled services, timeout and unavailable accuracy'']
     [''Minimize precision/retention and never expose location across users'']
     [''Physical GPS behavior and accuracy may require device testing'']"

definition capability_background_location :: capability_adapter where
  "capability_background_location = discoveredCapability ''background_location'' ''Background location'' [OnIos, OnAndroid]
     [''Platform background-location APIs and a qualified location bridge''] [(OnIos,
     [''background location when explicitly required'']), (OnAndroid,
     [''ACCESS_BACKGROUND_LOCATION when explicitly required''])]
     [''Configure background modes/services and disclosure required by each platform''] (False, [],
     NoCredential) [''Require product justification before enabling background location'']
     [''Install researched background-capable location dependency'']
     [''Compile background modes/service configuration and permission flows'']
     [''Move app to background and verify bounded authorized location updates'']
     [''Verify updates stop when permission/service is revoked and follow product policy'']
     [''Detect revoked permission, OS throttling, killed service and stale coordinates'']
     [''Background tracking must be explicit, least-privilege, user-controllable and retention-bounded'']
     [''Store policy review and physical-device testing may be required'']"

definition capability_bluetooth :: capability_adapter where
  "capability_bluetooth = discoveredCapability ''bluetooth'' ''Bluetooth'' [OnIos, OnAndroid]
     [''Platform CoreBluetooth/Bluetooth LE APIs or current compatible Flutter bridge''] [(OnIos,
     [''Bluetooth usage'']), (OnAndroid, [''BLUETOOTH_SCAN'',
     ''BLUETOOTH_CONNECT when required''])]
     [''Declare Bluetooth usage and target BLE/classic profile requirements''] (False, [],
     NoCredential) [''Define allowed device/service UUIDs and pairing expectations'']
     [''Install researched compatible Bluetooth dependency'']
     [''Compile Bluetooth permissions and platform modes'']
     [''Scan/connect/read a controlled test peripheral where hardware exists'']
     [''Verify only expected device/service data drives application behavior'']
     [''Detect denied permission, radio off, scan timeout, disconnect and protocol error'']
     [''Restrict discovered peripherals/services and validate untrusted device data'']
     [''Real Bluetooth proof normally requires physical hardware'']"

definition capability_biometrics :: capability_adapter where
  "capability_biometrics = discoveredCapability ''biometrics'' ''Biometric authentication'' [OnIos, OnAndroid]
     [''Platform LocalAuthentication/BiometricPrompt or current compatible Flutter bridge'']
     [(OnIos, [''Face ID usage description when applicable'']), (OnAndroid, [''USE_BIOMETRIC''])]
     [''Configure biometric prompt purpose and secure fallback policy''] (False, [], NoCredential)
     [''Require platform secure-enclave/keystore-backed authentication semantics'']
     [''Install researched compatible biometric bridge'']
     [''Compile biometric permissions and minimum platform levels'']
     [''Exercise success, failure and cancellation on simulator/device support'']
     [''Verify protected action remains blocked after failed/cancelled biometric challenge'']
     [''Detect no enrollment, unavailable hardware, lockout, cancellation and auth failure'']
     [''Biometrics authorize access; raw biometric data must never be collected or stored by AppForge products'']
     [''Hardware-backed proof requires compatible simulator/device configuration'']"

definition capability_deep_links :: capability_adapter where
  "capability_deep_links = discoveredCapability ''deep_links'' ''Deep links and universal/app links'' [OnIos, OnAndroid]
     [''Platform universal/app-link APIs or current compatible Flutter router bridge''] [(OnIos,
     []), (OnAndroid, [])] [''Declare associated domains/intent filters and route allowlist'']
     (False, [], NoCredential)
     [''Provision verified domain association files when universal/app links are requested'']
     [''Install researched compatible routing/deep-link bridge if framework support is insufficient'']
     [''Compile entitlements/manifest filters and route parser'']
     [''Open a controlled deep link into installed app on simulator/emulator'']
     [''Verify route and parameters map to the intended screen/action and reject unknown routes'']
     [''Detect malformed URL, unverified domain, unknown route and missing required state'']
     [''Treat all deep-link input as untrusted and never bypass auth/confirmation boundaries'']
     [''Universal/app-link verification requires control of the associated web domain'']"

definition capability_file_access :: capability_adapter where
  "capability_file_access = discoveredCapability ''file_access'' ''File access'' [OnIos, OnAndroid]
     [''Platform document picker/scoped-storage APIs or current compatible Flutter bridge'']
     [(OnIos, [''user-selected document access'']), (OnAndroid,
     [''Storage Access Framework/user-selected document access''])]
     [''Prefer system document picker and scoped access''] (False, [], NoCredential)
     [''Define accepted file types and size limits'']
     [''Install researched compatible document-picker dependency when needed'']
     [''Compile picker/scoped-storage integration'']
     [''Select/read a controlled document and release access cleanly'']
     [''Validate type/size/content before product processing'']
     [''Detect cancellation, revoked access, invalid path/type/size and read failure'']
     [''Never traverse arbitrary filesystem paths or retain broader access than the user selected'']
     [''Filesystem semantics differ by platform and provider'']"

definition capability_sharing :: capability_adapter where
  "capability_sharing = discoveredCapability ''sharing'' ''System sharing'' [OnIos, OnAndroid]
     [''Platform share sheet/intent APIs or current compatible Flutter bridge''] [(OnIos, []),
     (OnAndroid, [])] [''Declare shareable content types and incoming/outgoing sharing scope'']
     (False, [], NoCredential)
     [''Define data sanitization rules before content enters a system share sheet'']
     [''Install researched compatible sharing bridge if required'']
     [''Compile share extension/intent configuration only when requested'']
     [''Open system share UI with controlled text/file payload'']
     [''Verify sensitive fields are excluded and cancellation leaves product state consistent'']
     [''Detect unavailable target, cancelled share and inaccessible file payload'']
     [''Never share secrets, tokens or private cross-user data'']
     [''Available share targets are environment dependent'']"

definition capability_contacts :: capability_adapter where
  "capability_contacts = discoveredCapability ''contacts'' ''Contacts'' [OnIos, OnAndroid]
     [''Platform Contacts/ContactsContract APIs or current compatible Flutter bridge''] [(OnIos,
     [''contacts'']), (OnAndroid, [''READ_CONTACTS and/or WRITE_CONTACTS only when required''])]
     [''Declare exact read/write purpose and requested contact fields''] (False, [], NoCredential)
     [''Prefer picker/limited fields over bulk address-book access'']
     [''Install researched compatible contacts dependency'']
     [''Compile requested contact permissions'']
     [''Read/select a controlled contact after permission grant'']
     [''Verify product only uses requested fields and handles permission revocation'']
     [''Detect denial, empty selection, missing fields and write conflict'']
     [''Treat contact data as private user data; minimize collection and prohibit cross-user leakage'']
     [''Contact access may be restricted by OS/user policy and store review'']"

definition capability_calendar :: capability_adapter where
  "capability_calendar = discoveredCapability ''calendar'' ''Calendar'' [OnIos, OnAndroid]
     [''Platform EventKit/Calendar Provider APIs or current compatible Flutter bridge''] [(OnIos,
     [''calendar events when required'']), (OnAndroid,
     [''READ_CALENDAR and/or WRITE_CALENDAR only when required''])]
     [''Declare event read/write scope and timezone handling''] (False, [], NoCredential)
     [''Select system calendar integration only for explicit product requirements'']
     [''Install researched compatible calendar bridge'']
     [''Compile requested calendar permissions'']
     [''Create/read/delete a controlled test event in an authorized calendar'']
     [''Verify duplicates, timezone and cancellation behavior'']
     [''Detect denial, unavailable calendar, conflict and failed write'']
     [''Do not read or mutate unrelated calendar data beyond product need'']
     [''Calendar account/provider behavior differs by device configuration'']"

definition capability_widgets :: capability_adapter where
  "capability_widgets = discoveredCapability ''widgets'' ''Home/lock-screen widgets'' [OnIos, OnAndroid]
     [''WidgetKit and/or Android App Widgets plus generated native bridge''] [(OnIos, []),
     (OnAndroid, [])]
     [''Define widget extension/provider, refresh policy and shared data contract''] (False, [],
     NoCredential) [''Generate platform-specific extension/provider target only when requested'']
     [''Generate/install native widget target and bridge'']
     [''Build widget extension/provider together with host app'']
     [''Add widget on simulator/emulator/device and observe a controlled data refresh'']
     [''Verify stale/error/empty states and tap routing to the host app'']
     [''Detect missing shared state, refresh failure and unsupported widget family'']
     [''Do not expose sensitive data on unlocked/locked surfaces without explicit policy'']
     [''Widget families, background refresh frequency and lock-screen behavior vary by OS'']"

definition capability_live_activities :: capability_adapter where
  "capability_live_activities = discoveredCapability ''live_activities'' ''iOS Live Activities'' [OnIos]
     [''ActivityKit/WidgetKit and generated native integration''] [(OnIos, [])]
     [''Define ActivityAttributes, lifecycle and push-update configuration if requested''] (False,
     [''APNs credential only when remote Live Activity updates are requested''], NoCredential)
     [''Require supported iOS/Xcode target and optional APNs setup for remote updates'']
     [''Generate/compile ActivityKit extension and bridge'']
     [''Build host app plus widget/activity extension on supported Xcode SDK'']
     [''Start, update and end a controlled Live Activity on supported simulator/device'']
     [''Verify activity lifecycle mirrors product state and terminates when stale/completed'']
     [''Detect disabled activities, stale state, update rejection and unsupported OS'']
     [''Limit lock-screen/Dynamic Island data to explicitly safe information'']
     [''iOS-only; remote updates require separate APNs evidence and signing access'']"

definition capability_background_jobs :: capability_adapter where
  "capability_background_jobs = discoveredCapability ''background_jobs'' ''Background jobs'' [OnIos, OnAndroid]
     [''Platform background-task APIs plus AppForge-generated durable server worker when continuous execution is required'']
     [(OnIos, [''declared background modes only when justified'']), (OnAndroid,
     [''WorkManager/foreground service configuration only when justified''])]
     [''Define bounded device background task and server-side durable-work responsibilities separately'']
     (False, [], NoCredential)
     [''Reuse AppForge single-writer/idempotency patterns for server-side work; never rely on mobile process permanence'']
     [''Install researched platform background-task bridge only when device-side scheduling is required'']
     [''Compile platform background modes/work constraints and server worker configuration'']
     [''Background the app/process and prove bounded task execution or durable server job recovery'']
     [''Verify duplicate/retry/restart paths produce one logical side effect'']
     [''Detect OS deferral/termination, duplicate lease, stale job, exhausted retry and unavailable queue'']
     [''Use idempotency, scoped secrets, bounded retries, per-user authorization and single-writer/deduplication for mutating work'']
     [''Mobile OS scheduling is opportunistic; continuous monitoring belongs on durable backend infrastructure'']"

definition capability_scheduling :: capability_adapter where
  "capability_scheduling = discoveredCapability ''scheduling'' ''Scheduled tasks'' [OnIos, OnAndroid]
     [''Durable backend scheduler/queue and optional platform local scheduling APIs''] [(OnIos,
     []), (OnAndroid, [''exact alarm permission only when truly required and policy-compliant''])]
     [''Represent schedule, timezone, recurrence and idempotency key explicitly''] (False, [],
     NoCredential)
     [''Prefer durable server scheduling for business-critical work; use device scheduling for local UX only'']
     [''Connect to existing AppForge-compatible queue/scheduler pattern and optional native scheduler bridge'']
     [''Compile only platform scheduling permissions/modes actually required'']
     [''Execute a controlled scheduled task across restart/time-boundary conditions'']
     [''Verify recurrence, cancellation, deduplication and timezone behavior'']
     [''Detect missed schedule, duplicate dispatch, clock/timezone shift and exhausted retry'']
     [(''Authorize scheduled side effects at execution time and prevent one user'' @ [CHR 0x27] @
     ''s schedule from acting on another user'' @ [CHR 0x27] @ ''s data'')]
     [''Exact timing is not guaranteed by mobile OS background schedulers; server infrastructure is required for reliable monitoring'']"

definition PRODUCT_CAPABILITY_ADAPTERS :: "capability_adapter list" where
  "PRODUCT_CAPABILITY_ADAPTERS =
    [capability_push_notifications, capability_speech_recognition, capability_text_to_speech,
     capability_siri_app_intents, capability_android_voice_actions, capability_camera,
     capability_photos, capability_microphone, capability_audio, capability_gps_location,
     capability_background_location, capability_bluetooth, capability_biometrics,
     capability_deep_links, capability_file_access, capability_sharing, capability_contacts,
     capability_calendar, capability_widgets, capability_live_activities,
     capability_background_jobs, capability_scheduling]"

definition getProductCapabilityAdapter :: "string \<Rightarrow> capability_adapter option" where
  "getProductCapabilityAdapter i = last_entry (map (\<lambda>a. (ca_id a, a)) PRODUCT_CAPABILITY_ADAPTERS) i"

definition listProductCapabilitiesForPlatform :: "adapter_platform \<Rightarrow> capability_adapter list" where
  "listProductCapabilitiesForPlatform platform =
     filter (\<lambda>a. platform \<in> set (ca_platforms a)) PRODUCT_CAPABILITY_ADAPTERS"

definition capability_dependency_of :: "string \<Rightarrow> (string, capability_dependency) result" where
  \<comment> \<open>the flags and the explanation of the source are read off the state\<close>
  "capability_dependency_of i = (case getProductCapabilityAdapter i of None \<Rightarrow> Inl i
     | Some a \<Rightarrow> Inr \<lparr>cp_id = i, cp_state = ca_state a,
         cp_evidence = (case ca_ledger a of None \<Rightarrow> [] | Some ids \<Rightarrow> ids)\<rparr>)"

fun map_results :: "('a \<Rightarrow> ('e, 'b) result) \<Rightarrow> 'a list \<Rightarrow> ('e, 'b list) result" where
  "map_results f [] = Inr []"
| "map_results f (x # xs) = bind_result (f x) (\<lambda>y. bind_result (map_results f xs) (\<lambda>ys. Inr (y # ys)))"

definition buildCapabilityDependencies :: "product_contract \<Rightarrow> (string, capability_dependency list) result" where
  "buildCapabilityDependencies c = map_results capability_dependency_of (deriveRequestedProductCapabilities c)"

section \<open>What is registered\<close>

lemma derivable_ids: "set (deriveRequestedProductCapabilities c) \<subseteq> set (concat (map snd NATIVE_SIGNALS))"
  by (auto simp: deriveRequestedProductCapabilities_def unique_texts_def Let_def)

lemma distinct_unique_texts: "distinct (unique_texts xs)"
  by (simp add: unique_texts_def)

lemma derive_distinct: "distinct (deriveRequestedProductCapabilities c)"
  by (simp add: deriveRequestedProductCapabilities_def Let_def distinct_unique_texts)

lemmas capability_defs =
    capability_push_notifications_def capability_speech_recognition_def
    capability_text_to_speech_def capability_siri_app_intents_def
    capability_android_voice_actions_def capability_camera_def capability_photos_def
    capability_microphone_def capability_audio_def capability_gps_location_def
    capability_background_location_def capability_bluetooth_def capability_biometrics_def
    capability_deep_links_def capability_file_access_def capability_sharing_def
    capability_contacts_def capability_calendar_def capability_widgets_def
    capability_live_activities_def capability_background_jobs_def capability_scheduling_def

definition registered_as :: "capability_adapter \<Rightarrow> string \<times> capability_state \<times> string list option" where
  "registered_as a = (ca_id a, ca_state a, ca_ledger a)"

lemma registered: "map registered_as PRODUCT_CAPABILITY_ADAPTERS =
    map (\<lambda>i. (i, Discovered, Some [''repository-audit-2026-10-15:'' @ i])) PRODUCT_CAPABILITY_IDS"
  by (simp add: PRODUCT_CAPABILITY_ADAPTERS_def capability_defs discoveredCapability_def registered_as_def
    PRODUCT_CAPABILITY_IDS_def)

lemma signals_registered: "set (concat (map snd NATIVE_SIGNALS)) \<subseteq> set PRODUCT_CAPABILITY_IDS"
  by (simp add: NATIVE_SIGNALS_def PRODUCT_CAPABILITY_IDS_def)

lemma capability_ids_distinct: "distinct PRODUCT_CAPABILITY_IDS"
  by (simp add: PRODUCT_CAPABILITY_IDS_def)

lemma registered_adapter:
  assumes "i \<in> set PRODUCT_CAPABILITY_IDS"
  shows "\<exists>a. getProductCapabilityAdapter i = Some a \<and> registered_as a =
      (i, Discovered, Some [''repository-audit-2026-10-15:'' @ i])"
proof -
  have "map ca_id PRODUCT_CAPABILITY_ADAPTERS = map fst (map registered_as PRODUCT_CAPABILITY_ADAPTERS)"
    by (simp add: registered_as_def)
  also have "\<dots> = PRODUCT_CAPABILITY_IDS" unfolding registered by (simp add: comp_def)
  finally have "i \<in> ca_id ` set PRODUCT_CAPABILITY_ADAPTERS" using assms by (metis image_set)
  then obtain a where a: "getProductCapabilityAdapter i = Some a"
    by (cases "getProductCapabilityAdapter i")
      (auto simp: getProductCapabilityAdapter_def last_entry_def map_of_eq_None_iff image_image)
  then have mem: "a \<in> set PRODUCT_CAPABILITY_ADAPTERS" "ca_id a = i"
    by (auto simp: getProductCapabilityAdapter_def last_entry_def dest!: map_of_SomeD)
  then have "registered_as a \<in> set (map registered_as PRODUCT_CAPABILITY_ADAPTERS)" by simp
  then show ?thesis unfolding registered using a mem by (auto simp: registered_as_def)
qed

definition pending_capability :: "string \<Rightarrow> capability_dependency" where
  "pending_capability i = \<lparr>cp_id = i, cp_state = Discovered,
     cp_evidence = [''repository-audit-2026-10-15:'' @ i]\<rparr>"

lemma map_results_Inr: "(\<And>x. x \<in> set xs \<Longrightarrow> f x = Inr (g x)) \<Longrightarrow> map_results f xs = Inr (map g xs)"
  by (induction xs) simp_all

lemma capabilities_built:
  "buildCapabilityDependencies c = Inr (map pending_capability (deriveRequestedProductCapabilities c))"
  unfolding buildCapabilityDependencies_def
proof (rule map_results_Inr)
  fix i assume "i \<in> set (deriveRequestedProductCapabilities c)"
  then have "i \<in> set PRODUCT_CAPABILITY_IDS" using derivable_ids signals_registered by blast
  from registered_adapter [OF this] show "capability_dependency_of i = Inr (pending_capability i)"
    by (auto simp: capability_dependency_of_def pending_capability_def registered_as_def)
qed

section \<open>The completion gate\<close>

text \<open>The manifests of a product: created or revised from its contract, then marked.\<close>

inductive product_manifest :: "(string \<Rightarrow> string) \<Rightarrow> product_contract \<Rightarrow> requirement_manifest \<Rightarrow> bool"
  for sha256 c where
  created: "buildCapabilityDependencies c = Inr capabilities \<Longrightarrow>
    createRequirementManifest (manifest_contract_of c) plan capabilities previous now = Inr m \<Longrightarrow>
    product_manifest sha256 c m"
| implementation: "product_manifest sha256 c m \<Longrightarrow>
    markRequirementImplementation sha256 m files now = Inr m' \<Longrightarrow> product_manifest sha256 c m'"
| tests: "product_manifest sha256 c m \<Longrightarrow> markRequirementTests m files now = Inr m' \<Longrightarrow>
    product_manifest sha256 c m'"
| validation: "product_manifest sha256 c m \<Longrightarrow>
    markRequirementValidation m passed stage errors now = Inr m' \<Longrightarrow> product_manifest sha256 c m'"
| deployment: "product_manifest sha256 c m \<Longrightarrow>
    markRequirementDeployment m destination url verified at = Inr m' \<Longrightarrow> product_manifest sha256 c m'"

lemma update_keeps_capabilities: "update_entries m now f = Inr m' \<Longrightarrow> rm_capabilities m' = rm_capabilities m"
  by (auto simp: update_entries_def parse_manifest_def withUnresolvedState_Inr split: if_splits)

lemma created_capabilities:
  "createRequirementManifest contract plan capabilities previous now = Inr m \<Longrightarrow> rm_capabilities m = capabilities"
  by (auto simp: createRequirementManifest_def withUnresolvedState_Inr parse_manifest_def Let_def
      split: option.splits if_splits)

lemma product_capabilities: "product_manifest sha256 c m \<Longrightarrow>
    rm_capabilities m = map pending_capability (deriveRequestedProductCapabilities c)"
  by (induction rule: product_manifest.induct)
    (auto simp: marks capabilities_built dest!: update_keeps_capabilities created_capabilities)

text \<open>
  C31. A product is reported complete exactly when its manifest is valid, no must-have requirement is
  open, and its contract asks for no native capability: the registered adapters are only discovered,
  so a mobile product that asks for one stays incomplete whatever evidence is recorded for it.
\<close>

theorem native_capabilities_gate_delivery:
  assumes "product_manifest sha256 c m"
  shows "assertMustHaveRequirementsResolved m = Inr r \<longleftrightarrow>
    r = m \<and> validateRequirementManifest m = Inr m \<and> rm_unresolved m = [] \<and>
    deriveRequestedProductCapabilities c = []"
proof -
  have pending: "\<not> Runnable \<le> cp_state (pending_capability i)" for i
    by (simp add: pending_capability_def less_eq_capability_state_def stateRank_def ADAPTER_CAPABILITY_STATES_def)
  have "filter (\<lambda>d. \<not> isAtLeast (cp_state d) Runnable) (rm_capabilities m) = rm_capabilities m"
    unfolding product_capabilities [OF assms] by (simp add: filter_id_conv pending)
  then show ?thesis
    by (auto simp: assertMustHaveRequirementsResolved_def assertProductCapabilityDependenciesReady_def
      Let_def validate_iff product_capabilities [OF assms])
qed

definition sample_mobile :: product_contract where
  "sample_mobile = \<lparr>pc_prompt = ''camera'', pc_productType = MobileApp, pc_families = [FamMobile],
     pc_targetUsers = [''u''], pc_userRoles = [''u''], pc_workflows = [''w''],
     pc_requirements = [\<lparr>cr_id = ''REQ-001'', cr_text = ''r'', cr_priority = Must, cr_category = WorkflowReq\<rparr>],
     pc_nonFunctional = [''n''], pc_dataModels = [], pc_integrations = [], pc_security = [''s''],
     pc_deployment = [''d''], pc_monetization = [], pc_recommendations = None,
     pc_stack = ''flutter-node'', pc_research = [], pc_runtime = [''t''], pc_secondary = [],
     pc_confidence = 90, pc_interpretation = ''i''\<rparr>"

definition sample_mobile_manifest :: requirement_manifest where
  "sample_mobile_manifest = the_manifest (createRequirementManifest (manifest_contract_of sample_mobile)
     (sample_plan [''t1'']) [pending_capability ''camera''] None ''t0'')"

lemma sample_mobile_asks: "deriveRequestedProductCapabilities sample_mobile = [''camera'']"
  by code_simp

lemma sample_mobile_created:
  "createRequirementManifest (manifest_contract_of sample_mobile) (sample_plan [''t1''])
     [pending_capability ''camera''] None ''t0'' = Inr sample_mobile_manifest"
  by code_simp

theorem native_capabilities_gate_delivery_witness:
  "product_manifest sample_sha sample_mobile sample_mobile_manifest \<and>
   (\<forall>r. assertMustHaveRequirementsResolved sample_mobile_manifest \<noteq> Inr r)"
proof -
  have "product_manifest sample_sha sample_mobile sample_mobile_manifest"
    by (rule created [OF _ sample_mobile_created]) (simp add: capabilities_built sample_mobile_asks)
  then show ?thesis using native_capabilities_gate_delivery sample_mobile_asks by simp
qed

end
