(* ===== verification/ProductPlan.thy ===== *)
theory ProductPlan
  imports "HOL-Library.Multiset" PlanPolicies NativeCapabilities
begin

text \<open>
  The validation of a product plan against its contract (\<open>src/lib/productPlan.ts\<close>): the schema, which
  trims every text but requirement ids and keys, the checks of the source in their order with one
  error constructor per message, and what a plan that passes them guarantees to the stages after it.
  The input is a value of the shape of a plan; JSON texts of another shape are the source's schema errors.
\<close>

section \<open>Schema\<close>

definition trim_texts :: "string list \<Rightarrow> string list" where
  "trim_texts xs = map js_trim xs"

definition trim_values :: "(string \<times> string list) list \<Rightarrow> (string \<times> string list) list" where
  "trim_values m = map (\<lambda>(k, v). (k, trim_texts v)) m"

definition trim_task :: "plan_task \<Rightarrow> plan_task" where
  "trim_task t = t\<lparr>tk_id := js_trim (tk_id t), tk_module := js_trim (tk_module t),
     tk_description := js_trim (tk_description t), tk_dependencies := trim_texts (tk_dependencies t),
     tk_acceptance := trim_texts (tk_acceptance t), tk_files := trim_texts (tk_files t),
     tk_validations := trim_texts (tk_validations t)\<rparr>"

definition trim_architecture :: "plan_architecture \<Rightarrow> plan_architecture" where
  "trim_architecture a = \<lparr>ar_summary = js_trim (ar_summary a), ar_workflows = trim_texts (ar_workflows a),
     ar_personas = trim_texts (ar_personas a), ar_roles = trim_texts (ar_roles a),
     ar_frontend = trim_texts (ar_frontend a), ar_backend = trim_texts (ar_backend a),
     ar_database = trim_texts (ar_database a), ar_ai = trim_texts (ar_ai a),
     ar_integration = trim_texts (ar_integration a), ar_designs = trim_texts (ar_designs a)\<rparr>"

definition trim_plan :: "product_plan \<Rightarrow> product_plan" where
  "trim_plan p = p\<lparr>pl_title := js_trim (pl_title p), pl_overview := js_trim (pl_overview p),
     pl_productType := js_trim (pl_productType p), pl_stack := js_trim (pl_stack p),
     pl_architecture := trim_architecture (pl_architecture p), pl_sequence := trim_texts (pl_sequence p),
     pl_tasks := map trim_task (pl_tasks p), pl_requirementToTasks := trim_values (pl_requirementToTasks p),
     pl_taskToFiles := trim_values (pl_taskToFiles p),
     pl_taskToAgent := map (\<lambda>(k, v). (k, js_trim v)) (pl_taskToAgent p),
     pl_taskToValidation := trim_values (pl_taskToValidation p), pl_research := trim_texts (pl_research p)\<rparr>"

definition productPlanTaskSchema :: "plan_task \<Rightarrow> bool" where
  "productPlanTaskSchema t \<longleftrightarrow> tk_id t \<noteq> [] \<and> tk_module t \<noteq> [] \<and> tk_description t \<noteq> [] \<and> tk_sequence t > 0 \<and>
     texts_ok (tk_dependencies t) \<and> some_texts (tk_acceptance t) \<and>
     tk_requirementIds t \<noteq> [] \<and> list_all requirement_id (tk_requirementIds t) \<and>
     some_texts (tk_files t) \<and> some_texts (tk_validations t)"

definition architectureSchema :: "plan_architecture \<Rightarrow> bool" where
  "architectureSchema a \<longleftrightarrow> ar_summary a \<noteq> [] \<and> some_texts (ar_workflows a) \<and> some_texts (ar_personas a) \<and>
     some_texts (ar_roles a) \<and> texts_ok (ar_frontend a) \<and> texts_ok (ar_backend a) \<and>
     texts_ok (ar_database a) \<and> texts_ok (ar_ai a) \<and> texts_ok (ar_integration a) \<and>
     length (ar_designs a) = 7 \<and> texts_ok (ar_designs a)"

definition productPlanSchema :: "product_plan \<Rightarrow> bool" where
  "productPlanSchema p \<longleftrightarrow> pl_title p \<noteq> [] \<and> pl_overview p \<noteq> [] \<and> pl_productType p \<noteq> [] \<and> pl_stack p \<noteq> [] \<and>
     (case pl_capabilities p of None \<Rightarrow> True | Some ids \<Rightarrow> set ids \<subseteq> set PRODUCT_CAPABILITY_IDS) \<and>
     architectureSchema (pl_architecture p) \<and> some_texts (pl_sequence p) \<and>
     pl_tasks p \<noteq> [] \<and> list_all productPlanTaskSchema (pl_tasks p) \<and>
     list_all (\<lambda>(_, v). some_texts v) (pl_requirementToTasks p) \<and>
     list_all (\<lambda>(_, v). some_texts v) (pl_taskToFiles p) \<and>
     list_all (\<lambda>(_, v). v \<noteq> []) (pl_taskToAgent p) \<and>
     list_all (\<lambda>(_, v). some_texts v) (pl_taskToValidation p) \<and> texts_ok (pl_research p)"

section \<open>Errors\<close>

datatype planned_role =
    RoleProvider | RoleRouter | RoleTools | RolePolicy | RoleMemory | RoleAudit | RoleStatus | RoleEnv | RoleDocs
  | RoleSchema | RoleMigration | RoleSeed | RolePersistence | RoleRecovery
  | RoleClient | RoleHealth | RoleWebhook
  | RoleCatalog | RoleCheckout | RoleEntitlement | RoleLimits | RolePortal

datatype plan_domain = AiDomain | DatabaseDomain | IntegrationDomain | BillingDomain

datatype plan_error =
    PlanSchema | PlanProductType | PlanStack | PlanStackUnknown stack_error | NoModules product_family
  | NoOwnedTask plan_domain | RoleMissing plan_domain planned_role | NoDomainValidation plan_domain
  | Incompatible "compatibility_problem list"
  | SequenceDisagrees | NoDependencies | TaskIdsNotUnique | UnknownDependency string string | SelfDependency string
  | RequirementDropped string | UnknownTaskMapped string string | RequirementDisagrees string
  | NoFileMapping string | NoAgentMapping string | NoValidationMapping string
  | FilesDisagree string | AgentDisagrees string | ValidationDisagrees string | GenericPlan

fun check_all :: "(bool \<times> 'e) list \<Rightarrow> ('e, unit) result" where
  "check_all [] = Inr ()"
| "check_all ((ok, e) # cs) = (if ok then check_all cs else Inl e)"

lemma check_all_Inr [simp]: "check_all cs = Inr u \<longleftrightarrow> list_all fst cs"
  by (induction cs rule: check_all.induct) auto

declare check_all.simps [simp del]

section \<open>The policies of the contract\<close>

definition AI_VALIDATION :: pattern where
  "AI_VALIDATION = Pattern True (rx_texts [''provider'', ''model'', ''tool'', ''permission'',
    ''approval'', ''injection'', ''memory'', ''context'', ''cost'', ''audit'', ''status'',
    ''refusal'', ''timeout'', ''retry''])"

definition check_ai :: "product_contract \<Rightarrow> plan_task list \<Rightarrow> (plan_error, unit) result" where
  "check_ai c tasks =
    (let policy = aiAgentPolicy c; aiTasks = filter (\<lambda>t. tk_agent t = AgentAi) tasks;
         files = concat (map tk_files aiTasks)
     in if \<not> aip_required policy then Inr ()
        else check_all
          [(aiTasks \<noteq> [], NoOwnedTask AiDomain),
           (list_ex isAiProviderPath files, RoleMissing AiDomain RoleProvider),
           (list_ex isAiRouterPath files, RoleMissing AiDomain RoleRouter),
           (aip_toolUse policy \<longrightarrow> list_ex isAiToolsPath files, RoleMissing AiDomain RoleTools),
           (list_ex isAiPolicyPath files, RoleMissing AiDomain RolePolicy),
           (list_ex isAiMemoryPath files, RoleMissing AiDomain RoleMemory),
           (list_ex isAiAuditPath files, RoleMissing AiDomain RoleAudit),
           (list_ex isAiStatusPath files, RoleMissing AiDomain RoleStatus),
           (list_ex isAiEnvPath files, RoleMissing AiDomain RoleEnv),
           (list_ex isAiDocsPath files, RoleMissing AiDomain RoleDocs),
           (rx_test AI_VALIDATION (join_texts '' '' (concat (map tk_validations aiTasks))),
            NoDomainValidation AiDomain)])"

definition DATABASE_VALIDATION :: pattern where
  "DATABASE_VALIDATION = Pattern True (rx_texts [''database'', ''schema'', ''migration'',
    ''transaction'', ''tenant'', ''persistence'', ''restore'', ''backup''])"

definition check_database :: "product_contract \<Rightarrow> plan_task list \<Rightarrow> (plan_error, unit) result" where
  "check_database c tasks =
    (let policy = databasePersistencePolicy c;
         databaseTasks = filter (\<lambda>t. tk_agent t = AgentDatabase) tasks;
         files = concat (map tk_files databaseTasks)
     in if \<not> dbp_required policy then Inr ()
        else check_all
          [(databaseTasks \<noteq> [], NoOwnedTask DatabaseDomain),
           (list_ex isDatabaseSchemaPath files, RoleMissing DatabaseDomain RoleSchema),
           (list_ex isDatabaseMigrationPath files, RoleMissing DatabaseDomain RoleMigration),
           (dbp_seed policy \<longrightarrow> list_ex isDatabaseSeedPath files, RoleMissing DatabaseDomain RoleSeed),
           (list_ex isDatabasePersistencePath files, RoleMissing DatabaseDomain RolePersistence),
           (list_ex isDatabaseRecoveryPath files, RoleMissing DatabaseDomain RoleRecovery),
           (rx_test DATABASE_VALIDATION (join_texts '' '' (concat (map tk_validations databaseTasks))),
            NoDomainValidation DatabaseDomain)])"

definition INTEGRATION_VALIDATION :: pattern where
  "INTEGRATION_VALIDATION = Pattern True (rx_or [Exact ''integration'', Exact ''provider'',
    Exact ''webhook'', Exact ''signature'', Exact ''retry'', rx_seq [Exact ''rate'', rx_opt rx_dot,
    Exact ''limit''], Exact ''timeout'', Exact ''health'', Exact ''idempot''])"

definition check_integrations :: "product_contract \<Rightarrow> plan_task list \<Rightarrow> (plan_error, unit) result" where
  "check_integrations c tasks =
    (let policy = integrationImplementationPolicy c;
         integrationTasks = filter (\<lambda>t. tk_agent t = AgentIntegration) tasks;
         files = concat (map tk_files integrationTasks)
     in if \<not> inp_required policy then Inr ()
        else bind_result (lift_error PlanStackUnknown (integrationCompatibilityProblems c)) (\<lambda>problems.
          check_all
          [(problems = [], Incompatible problems),
           (integrationTasks \<noteq> [], NoOwnedTask IntegrationDomain),
           (list_ex isIntegrationClientPath files, RoleMissing IntegrationDomain RoleClient),
           (list_ex isIntegrationEnvPath files, RoleMissing IntegrationDomain RoleEnv),
           (list_ex isIntegrationHealthPath files, RoleMissing IntegrationDomain RoleHealth),
           (list_ex isIntegrationDocsPath files, RoleMissing IntegrationDomain RoleDocs),
           (inp_webhook policy \<longrightarrow> list_ex isIntegrationWebhookPath files,
            RoleMissing IntegrationDomain RoleWebhook),
           (rx_test INTEGRATION_VALIDATION (join_texts '' '' (concat (map tk_validations integrationTasks))),
            NoDomainValidation IntegrationDomain)]))"

definition BILLING_VALIDATION :: pattern where
  "BILLING_VALIDATION = Pattern True (rx_texts [''billing'', ''payment'', ''price'',
    ''entitlement'', ''webhook'', ''invoice'', ''refund'', ''idempot'', ''portal'', ''quota'',
    ''credit'', ''usage''])"

definition billing_task :: "plan_task \<Rightarrow> bool" where
  "billing_task t \<longleftrightarrow> (tk_agent t = AgentBackend \<or> tk_agent t = AgentIntegration) \<and>
     list_ex (\<lambda>path. isMonetizationCatalogPath path \<or> isMonetizationCheckoutPath path \<or>
       isMonetizationEntitlementPath path \<or> isMonetizationLimitPath path \<or>
       isMonetizationWebhookPath path \<or> isMonetizationAuditPath path) (tk_files t)"

definition required_billing :: "monetization_policy \<Rightarrow> (planned_role \<times> (string \<Rightarrow> bool)) list" where
  "required_billing policy =
    [(RoleCatalog, isMonetizationCatalogPath), (RoleCheckout, isMonetizationCheckoutPath),
     (RoleEntitlement, isMonetizationEntitlementPath), (RoleLimits, isMonetizationLimitPath),
     (RoleWebhook, isMonetizationWebhookPath), (RoleAudit, isMonetizationAuditPath),
     (RoleEnv, isMonetizationEnvPath), (RoleDocs, isMonetizationDocsPath)] @
    (if SubscriptionModel \<in> set (mop_models policy) then [(RolePortal, isMonetizationPortalPath)] else [])"

definition check_billing :: "product_contract \<Rightarrow> plan_task list \<Rightarrow> (plan_error, unit) result" where
  "check_billing c tasks =
    (let policy = monetizationPolicy c; billingTasks = filter billing_task tasks;
         files = concat (map tk_files billingTasks)
     in if \<not> mop_required policy then Inr ()
        else check_all
          ((billingTasks \<noteq> [], NoOwnedTask BillingDomain) #
           map (\<lambda>(role, match). (list_ex match files, RoleMissing BillingDomain role)) (required_billing policy) @
           [(rx_test BILLING_VALIDATION (join_texts '' '' (concat (map tk_validations billingTasks))),
             NoDomainValidation BillingDomain)]))"

section \<open>The structure of the plan\<close>

definition check_modules :: "product_contract \<Rightarrow> plan_architecture \<Rightarrow> (plan_error, unit) result" where
  "check_modules c a = check_all
     [(FamFrontend \<in> set (pc_families c) \<longrightarrow> ar_frontend a \<noteq> [], NoModules FamFrontend),
      (FamBackend \<in> set (pc_families c) \<longrightarrow> ar_backend a \<noteq> [], NoModules FamBackend),
      (FamDatabase \<in> set (pc_families c) \<longrightarrow> ar_database a \<noteq> [], NoModules FamDatabase),
      (FamAi \<in> set (pc_families c) \<longrightarrow> ar_ai a \<noteq> [], NoModules FamAi)]"

definition check_order :: "product_plan \<Rightarrow> (plan_error, unit) result" where
  "check_order p = check_all
     [(pl_sequence p = map tk_id (sort_key tk_sequence (pl_tasks p)), SequenceDisagrees),
      (length (pl_tasks p) > 1 \<longrightarrow> list_ex (\<lambda>t. tk_dependencies t \<noteq> []) (pl_tasks p), NoDependencies),
      (distinct (map tk_id (pl_tasks p)), TaskIdsNotUnique)]"

definition check_dependencies :: "plan_task list \<Rightarrow> (plan_error, unit) result" where
  "check_dependencies tasks = check_all (concat (map (\<lambda>t. concat (map (\<lambda>d.
     [(d \<in> set (map tk_id tasks), UnknownDependency (tk_id t) d), (d \<noteq> tk_id t, SelfDependency (tk_id t))])
     (tk_dependencies t))) tasks))"

definition must_have_ids :: "product_contract \<Rightarrow> string list" where
  "must_have_ids c = map cr_id (filter (\<lambda>r. cr_priority r = Must) (pc_requirements c))"

definition check_requirement :: "product_plan \<Rightarrow> string \<Rightarrow> (bool \<times> plan_error) list" where
  "check_requirement p i =
    (let mapped = or_empty (map_of (pl_requirementToTasks p) i) in
     (mapped \<noteq> [], RequirementDropped i) #
     map (\<lambda>task. (task \<in> set (map tk_id (pl_tasks p)), UnknownTaskMapped i task)) mapped @
     [(list_ex (\<lambda>t. tk_id t \<in> set mapped \<and> i \<in> set (tk_requirementIds t)) (pl_tasks p), RequirementDisagrees i)])"

definition check_mapping :: "product_plan \<Rightarrow> plan_task \<Rightarrow> (bool \<times> plan_error) list" where
  "check_mapping p t =
    (let files = or_empty (map_of (pl_taskToFiles p) (tk_id t));
         agent = map_of (pl_taskToAgent p) (tk_id t);
         validations = or_empty (map_of (pl_taskToValidation p) (tk_id t))
     in [(files \<noteq> [], NoFileMapping (tk_id t)),
         (agent \<noteq> None, NoAgentMapping (tk_id t)),
         (validations \<noteq> [], NoValidationMapping (tk_id t)),
         (files = tk_files t, FilesDisagree (tk_id t)),
         (agent = Some (agent_text (tk_agent t)), AgentDisagrees (tk_id t)),
         (validations = tk_validations t, ValidationDisagrees (tk_id t))])"

definition GENERIC_MODULE_NAMES :: "string list" where
  "GENERIC_MODULE_NAMES = [''core app'', ''core ui'', ''main app'', ''application'', ''app'']"

definition isComplexContract :: "product_contract \<Rightarrow> bool" where
  "isComplexContract c \<longleftrightarrow> length (pc_requirements c) > 3 \<or> length (pc_secondary c) > 2 \<or>
     pc_integrations c \<noteq> [] \<or> pc_monetization c \<noteq> [] \<or> length (pc_families c) > 3"

definition module_names :: "product_plan \<Rightarrow> string list" where
  "module_names p = (let a = pl_architecture p in pl_title p # map tk_module (pl_tasks p) @
     ar_frontend a @ ar_backend a @ ar_database a @ ar_ai a @ ar_integration a)"

definition check_generic :: "product_contract \<Rightarrow> product_plan \<Rightarrow> (plan_error, unit) result" where
  "check_generic c p = check_all
     [(isComplexContract c \<longrightarrow> length (pl_tasks p) \<ge> 2 \<and>
        \<not> list_ex (\<lambda>n. js_lower (js_trim n) \<in> set GENERIC_MODULE_NAMES) (module_names p), GenericPlan)]"

section \<open>The validation\<close>

definition validateProductPlan :: "product_plan \<Rightarrow> product_contract \<Rightarrow> (plan_error, product_plan) result" where
  "validateProductPlan input c =
    (let p = trim_plan input in
     bind_result (check_all
       [(productPlanSchema p, PlanSchema),
        (pl_productType p = product_type_text (pc_productType c), PlanProductType),
        (pl_stack p = pc_stack c, PlanStack)]) (\<lambda>_.
     let p = p\<lparr>pl_capabilities := Some (deriveRequestedProductCapabilities c)\<rparr> in
     bind_result (check_modules c (pl_architecture p)) (\<lambda>_.
     bind_result (check_ai c (pl_tasks p)) (\<lambda>_.
     bind_result (check_database c (pl_tasks p)) (\<lambda>_.
     bind_result (check_all [(FamIntegrations \<in> set (pc_families c) \<longrightarrow>
       ar_integration (pl_architecture p) \<noteq> [], NoModules FamIntegrations)]) (\<lambda>_.
     bind_result (check_integrations c (pl_tasks p)) (\<lambda>_.
     bind_result (check_billing c (pl_tasks p)) (\<lambda>_.
     bind_result (check_order p) (\<lambda>_.
     bind_result (check_dependencies (pl_tasks p)) (\<lambda>_.
     bind_result (check_all (concat (map (check_requirement p) (must_have_ids c)))) (\<lambda>_.
     bind_result (check_all (concat (map (check_mapping p) (pl_tasks p)))) (\<lambda>_.
     bind_result (check_generic c p) (\<lambda>_. Inr p)))))))))))))"

section \<open>What an accepted plan says\<close>

lemma accepted_iff:
  "validateProductPlan input c = Inr p \<longleftrightarrow>
    p = (trim_plan input)\<lparr>pl_capabilities := Some (deriveRequestedProductCapabilities c)\<rparr> \<and>
    productPlanSchema (trim_plan input) \<and> pl_productType p = product_type_text (pc_productType c) \<and>
    pl_stack p = pc_stack c \<and> check_modules c (pl_architecture p) = Inr () \<and>
    check_ai c (pl_tasks p) = Inr () \<and> check_database c (pl_tasks p) = Inr () \<and>
    (FamIntegrations \<in> set (pc_families c) \<longrightarrow> ar_integration (pl_architecture p) \<noteq> []) \<and>
    check_integrations c (pl_tasks p) = Inr () \<and> check_billing c (pl_tasks p) = Inr () \<and>
    check_order p = Inr () \<and> check_dependencies (pl_tasks p) = Inr () \<and>
    (\<forall>i \<in> set (must_have_ids c). list_all fst (check_requirement p i)) \<and>
    (\<forall>t \<in> set (pl_tasks p). list_all fst (check_mapping p t)) \<and> check_generic c p = Inr ()"
  unfolding validateProductPlan_def Let_def bind_result_eq_Inr check_all_Inr
  by (auto simp: list_all_iff)

lemma trims_idem [simp]:
  "trim_texts (trim_texts xs) = trim_texts xs" "trim_values (trim_values m) = trim_values m"
  "trim_task (trim_task t) = trim_task t" "trim_architecture (trim_architecture a) = trim_architecture a"
  by (auto simp: trim_texts_def trim_values_def trim_task_def trim_architecture_def)

lemma trim_plan_idem: "trim_plan (trim_plan p) = trim_plan p"
  by (simp add: trim_plan_def comp_def case_prod_beta)

lemma trim_plan_capabilities: "trim_plan (p\<lparr>pl_capabilities := x\<rparr>) = (trim_plan p)\<lparr>pl_capabilities := x\<rparr>"
  by (simp add: trim_plan_def)

lemma check_dependencies_iff:
  "check_dependencies tasks = Inr () \<longleftrightarrow>
    (\<forall>t \<in> set tasks. \<forall>d \<in> set (tk_dependencies t). d \<in> tk_id ` set tasks \<and> d \<noteq> tk_id t)"
  by (auto simp: check_dependencies_def list_all_iff)

lemma check_mapping_iff:
  assumes "productPlanTaskSchema t"
  shows "list_all fst (check_mapping p t) \<longleftrightarrow>
    map_of (pl_taskToFiles p) (tk_id t) = Some (tk_files t) \<and>
    map_of (pl_taskToAgent p) (tk_id t) = Some (agent_text (tk_agent t)) \<and>
    map_of (pl_taskToValidation p) (tk_id t) = Some (tk_validations t)"
  using assms by (auto simp: check_mapping_def productPlanTaskSchema_def some_texts_def or_empty_def Let_def
      split: option.splits)

lemma check_requirement_iff:
  "list_all fst (check_requirement p i) \<longleftrightarrow> (\<exists>mapped. map_of (pl_requirementToTasks p) i = Some mapped \<and>
    set mapped \<subseteq> tk_id ` set (pl_tasks p) \<and>
    (\<exists>t \<in> set (pl_tasks p). tk_id t \<in> set mapped \<and> i \<in> set (tk_requirementIds t)))"
  by (cases "map_of (pl_requirementToTasks p) i")
    (auto simp: check_requirement_def or_empty_def Let_def list_all_iff list_ex_iff)

lemma accepted_schema: "validateProductPlan input c = Inr p \<Longrightarrow> productPlanSchema p"
  using subset_trans [OF derivable_ids signals_registered, of c]
  by (auto simp: accepted_iff productPlanSchema_def)

lemma accepted_tasks: "validateProductPlan input c = Inr p \<Longrightarrow> t \<in> set (pl_tasks p) \<Longrightarrow> productPlanTaskSchema t"
  using accepted_schema by (auto simp: productPlanSchema_def list_all_iff)

lemma accepted_plan_consistent:
  assumes "validateProductPlan input c = Inr p"
  shows "distinct (map tk_id (pl_tasks p))"
    and "pl_sequence p = map tk_id (sort_key tk_sequence (pl_tasks p))"
    and "t \<in> set (pl_tasks p) \<Longrightarrow> map_of (pl_taskToFiles p) (tk_id t) = Some (tk_files t) \<and>
      map_of (pl_taskToAgent p) (tk_id t) = Some (agent_text (tk_agent t)) \<and>
      map_of (pl_taskToValidation p) (tk_id t) = Some (tk_validations t)"
    and "t \<in> set (pl_tasks p) \<Longrightarrow> d \<in> set (tk_dependencies t) \<Longrightarrow> d \<in> tk_id ` set (pl_tasks p) \<and> d \<noteq> tk_id t"
    and "r \<in> set (pc_requirements c) \<Longrightarrow> cr_priority r = Must \<Longrightarrow>
      \<exists>mapped. map_of (pl_requirementToTasks p) (cr_id r) = Some mapped \<and>
        set mapped \<subseteq> tk_id ` set (pl_tasks p) \<and>
        (\<exists>t \<in> set (pl_tasks p). tk_id t \<in> set mapped \<and> cr_id r \<in> set (tk_requirementIds t))"
proof -
  note p = assms [unfolded accepted_iff]
  from p have "check_order p = Inr ()" by blast
  then show "distinct (map tk_id (pl_tasks p))" "pl_sequence p = map tk_id (sort_key tk_sequence (pl_tasks p))"
    by (simp_all add: check_order_def)
  show "map_of (pl_taskToFiles p) (tk_id t) = Some (tk_files t) \<and>
      map_of (pl_taskToAgent p) (tk_id t) = Some (agent_text (tk_agent t)) \<and>
      map_of (pl_taskToValidation p) (tk_id t) = Some (tk_validations t)" if "t \<in> set (pl_tasks p)"
    using p that check_mapping_iff [OF accepted_tasks [OF assms that]] by blast
  show "d \<in> tk_id ` set (pl_tasks p) \<and> d \<noteq> tk_id t" if "t \<in> set (pl_tasks p)" "d \<in> set (tk_dependencies t)"
    using p that unfolding check_dependencies_iff by blast
  show "\<exists>mapped. map_of (pl_requirementToTasks p) (cr_id r) = Some mapped \<and>
      set mapped \<subseteq> tk_id ` set (pl_tasks p) \<and>
      (\<exists>t \<in> set (pl_tasks p). tk_id t \<in> set mapped \<and> cr_id r \<in> set (tk_requirementIds t))"
    if "r \<in> set (pc_requirements c)" "cr_priority r = Must"
    using p that unfolding check_requirement_iff must_have_ids_def by auto
qed

text \<open>
  C28. An accepted plan is consistent: its task ids are distinct, its implementation sequence lists every
  task once in the order of the sequence numbers, a task depends only on other tasks of the plan, the
  three task maps repeat what the tasks say, every must-have requirement is mapped to tasks of the
  plan one of which claims it, and validating the accepted plan again gives the same plan.
\<close>

theorem accepted_plan_is_consistent:
  assumes "validateProductPlan input c = Inr p"
  shows "distinct (map tk_id (pl_tasks p)) \<and>
    (\<exists>ts. pl_sequence p = map tk_id ts \<and> mset ts = mset (pl_tasks p) \<and> sorted (map tk_sequence ts)) \<and>
    (\<forall>t \<in> set (pl_tasks p).
      set (tk_dependencies t) \<subseteq> tk_id ` set (pl_tasks p) - {tk_id t} \<and>
      map_of (pl_taskToFiles p) (tk_id t) = Some (tk_files t) \<and>
      map_of (pl_taskToAgent p) (tk_id t) = Some (agent_text (tk_agent t)) \<and>
      map_of (pl_taskToValidation p) (tk_id t) = Some (tk_validations t)) \<and>
    (\<forall>r \<in> set (pc_requirements c). cr_priority r = Must \<longrightarrow>
      (\<exists>mapped. map_of (pl_requirementToTasks p) (cr_id r) = Some mapped \<and>
        set mapped \<subseteq> tk_id ` set (pl_tasks p) \<and>
        (\<exists>t \<in> set (pl_tasks p). tk_id t \<in> set mapped \<and> cr_id r \<in> set (tk_requirementIds t)))) \<and>
    validateProductPlan p c = Inr p"
proof -
  note p = assms [unfolded accepted_iff] and consistent = accepted_plan_consistent [OF assms]
  let ?ts = "sort_key tk_sequence (pl_tasks p)"
  from p have "p = (trim_plan input)\<lparr>pl_capabilities := Some (deriveRequestedProductCapabilities c)\<rparr>" by blast
  then have trim: "trim_plan p = p" "p\<lparr>pl_capabilities := Some (deriveRequestedProductCapabilities c)\<rparr> = p"
    by (simp_all add: trim_plan_capabilities trim_plan_idem)
  have "validateProductPlan p c = Inr p"
    unfolding accepted_iff [of p] trim using p accepted_schema [OF assms] by blast
  moreover have "mset ?ts = mset (pl_tasks p)" "sorted (map tk_sequence ?ts)" by simp_all
  ultimately show ?thesis using consistent by (intro conjI ballI impI subsetI; blast)
qed

section \<open>Policies\<close>

definition planned_by :: "product_plan \<Rightarrow> (plan_task \<Rightarrow> bool) \<Rightarrow> (string \<Rightarrow> bool) \<Rightarrow> bool" where
  "planned_by p owner role \<longleftrightarrow> (\<exists>t \<in> set (pl_tasks p). owner t \<and> (\<exists>path \<in> set (tk_files t). role path))"

lemma planned_by_files:
  "list_ex role (concat (map tk_files (filter owner (pl_tasks p)))) \<longleftrightarrow> planned_by p owner role"
  by (auto simp: planned_by_def list_ex_iff)


section \<open>The manifest of a planned product\<close>

lemma unique_texts_set [simp]: "set (unique_texts xs) = set xs - {[]}"
  by (auto simp: unique_texts_def)

lemma unique_texts_Nil [simp]: "unique_texts xs = [] \<longleftrightarrow> set xs \<subseteq> {[]}"
  by (metis Diff_eq_empty_iff set_empty unique_texts_set)

lemma task_of_id:
  assumes "distinct (map tk_id tasks)" "t \<in> set tasks" "u \<in> set tasks" "tk_id t = tk_id u"
  shows "t = u"
  using assms by (metis distinct_map inj_onD)

lemma created_fields:
  assumes "createRequirementManifest contract plan caps None now = Inr m"
  shows "rm_requirements m = map (planned_entry None plan) (mc_requirements contract)"
    and "rm_unresolved m = unresolvedMustHaveIds (rm_requirements m)"
  using assms by (auto simp: createRequirementManifest_def withUnresolvedState_Inr Let_def split: if_splits)

lemma planned_must_have:
  assumes accepted: "validateProductPlan input c = Inr p"
    and r: "q \<in> set (pc_requirements c)" "cr_priority q = Must"
  defines "r \<equiv> planned_entry None (manifest_plan_of p) q"
  shows "rq_status r = ReqPlanned \<and> rq_reason r = None \<and>
      rq_tasks r \<noteq> [] \<and> set (rq_tasks r) \<subseteq> tk_id ` set (pl_tasks p) \<and> rq_files r \<noteq> [] \<and>
      set (rq_files r) = (\<Union>t \<in> {t \<in> set (pl_tasks p). tk_id t \<in> set (rq_tasks r)}. set (tk_files t))"
proof -
  note consistent = accepted_plan_consistent [OF accepted]
  from consistent(5) [OF r] obtain mapped where mapped:
    "map_of (pl_requirementToTasks p) (cr_id q) = Some mapped" "set mapped \<subseteq> tk_id ` set (pl_tasks p)" "mapped \<noteq> []"
    by fastforce
  have task: "tk_id t \<noteq> []" "tk_files t \<noteq> []" "[] \<notin> set (tk_files t)" if "t \<in> set (pl_tasks p)" for t
    using accepted_tasks [OF accepted that]
    by (auto simp: productPlanTaskSchema_def some_texts_def texts_ok_def)
  define tasks where "tasks = unique_texts mapped"
  have named: "[] \<notin> set mapped" using mapped(2) task(1) by force
  then have tasks: "set tasks = set mapped" "tasks \<noteq> []"
    using mapped(3) by (auto simp: tasks_def) (metis list.set_sel(1) singletonD subsetD)
  define files where "files = files_of (manifest_plan_of p) tasks"
  have "set (or_empty (map_of (pl_taskToFiles p) i)) = (\<Union>t \<in> {t \<in> set (pl_tasks p). tk_id t = i}. set (tk_files t))"
    if i: "i \<in> set mapped" for i
  proof -
    from mapped(2) i obtain t where t: "t \<in> set (pl_tasks p)" "i = tk_id t" by auto
    then have "{u \<in> set (pl_tasks p). tk_id u = i} = {t}" using task_of_id [OF consistent(1)] by auto
    then show ?thesis using consistent(3) [OF t(1)] t(2) by (simp add: or_empty_def)
  qed
  then have files: "set files = (\<Union>t \<in> {t \<in> set (pl_tasks p). tk_id t \<in> set tasks}. set (tk_files t))"
    using task(3) by (fastforce simp: files_def files_of_def manifest_plan_of_def tasks(1))
  from mapped(2,3) obtain t where "t \<in> set (pl_tasks p)" "tk_id t \<in> set tasks"
    by (metis image_iff list.set_intros(1) neq_Nil_conv subsetD tasks(1))
  then have "files \<noteq> []" using files task(2) by fastforce
  then have "rq_status r = ReqPlanned \<and> rq_reason r = None \<and> rq_tasks r = tasks \<and> rq_files r = files"
    using tasks(2) mapped(1)
    by (simp add: r_def planned_entry_def entry_by_id_def manifest_plan_of_def or_empty_def Let_def
      tasks_def files_def)
  then show ?thesis using tasks mapped(2) files \<open>files \<noteq> []\<close> by simp
qed

text \<open>
  C30. The requirement manifest created from an accepted plan plans every must-have requirement: it is in
  state planned with no open reason, tasks of the plan are mapped to it, its files are exactly the
  files of these tasks, and the open requirements are exactly the must-have ones of the contract.
\<close>

theorem accepted_plan_plans_every_must_have:
  assumes accepted: "validateProductPlan input c = Inr p"
    and created: "createRequirementManifest (manifest_contract_of c) (manifest_plan_of p) caps None now = Inr m"
  shows "rm_unresolved m = must_have_ids c \<and>
    (\<forall>r \<in> set (rm_requirements m). rq_priority r = Must \<longrightarrow>
      rq_status r = ReqPlanned \<and> rq_reason r = None \<and>
      rq_tasks r \<noteq> [] \<and> set (rq_tasks r) \<subseteq> tk_id ` set (pl_tasks p) \<and>
      rq_files r \<noteq> [] \<and>
      set (rq_files r) = (\<Union>t \<in> {t \<in> set (pl_tasks p). tk_id t \<in> set (rq_tasks r)}. set (tk_files t)))"
proof -
  have requirements: "rm_requirements m = map (planned_entry None (manifest_plan_of p)) (pc_requirements c)"
    using created_fields(1) [OF created] by (simp add: manifest_contract_of_def)
  have entry: "rq_id (planned_entry None plan q) = cr_id q" "rq_priority (planned_entry None plan q) = cr_priority q"
    for plan q by (simp_all add: planned_entry_def Let_def)
  note planned = planned_must_have [OF accepted]
  have "filter (\<lambda>q. cr_priority q = Must \<and> rq_status (planned_entry None (manifest_plan_of p) q) \<noteq> ReqValidated \<and>
      rq_status (planned_entry None (manifest_plan_of p) q) \<noteq> ReqDeployed) (pc_requirements c) =
      filter (\<lambda>q. cr_priority q = Must) (pc_requirements c)"
    by (rule filter_cong) (use planned in auto)
  then have "rm_unresolved m = must_have_ids c"
    by (simp add: created_fields(2) [OF created] requirements unresolvedMustHaveIds_def must_have_ids_def
      filter_map comp_def entry)
  then show ?thesis using planned by (auto simp: requirements entry)
qed

section \<open>A concrete plan\<close>

definition stored_contract :: product_contract where
  "stored_contract = \<lparr>pc_prompt = ''p'', pc_productType = Website, pc_families = [FamDeployment],
     pc_targetUsers = [''u''], pc_userRoles = [''u''], pc_workflows = [''w''],
     pc_requirements = [\<lparr>cr_id = ''REQ-001'', cr_text = ''r'', cr_priority = Must, cr_category = WorkflowReq\<rparr>],
     pc_nonFunctional = [''n''], pc_dataModels = [], pc_integrations = [], pc_security = [''s''],
     pc_deployment = [''d''], pc_monetization = [], pc_recommendations = None,
     pc_stack = ''react-node'', pc_research = [], pc_runtime = [''t''], pc_secondary = [CapDatabase],
     pc_confidence = 90, pc_interpretation = ''i''\<rparr>"

definition stored_task :: plan_task where
  "stored_task = \<lparr>tk_id = '' t1 '', tk_module = ''Store'', tk_description = ''d'', tk_sequence = 1,
     tk_dependencies = [], tk_acceptance = [''a''], tk_requirementIds = [''REQ-001''],
     tk_files = [''schema.ts'', ''drizzle'', ''db.ts'', ''db-backup.md''], tk_agent = AgentDatabase,
     tk_validations = [''schema'']\<rparr>"

definition stored_input :: product_plan where
  "stored_input = \<lparr>pl_title = ''Store'', pl_overview = ''o'', pl_productType = ''website'',
     pl_stack = ''react-node'', pl_capabilities = None,
     pl_architecture = \<lparr>ar_summary = ''s'', ar_workflows = [''w''], ar_personas = [''p''], ar_roles = [''r''],
       ar_frontend = [], ar_backend = [], ar_database = [], ar_ai = [], ar_integration = [],
       ar_designs = [''1'', ''2'', ''3'', ''4'', ''5'', ''6'', ''7'']\<rparr>,
     pl_sequence = [''t1''], pl_tasks = [stored_task], pl_requirementToTasks = [(''REQ-001'', [''t1''])],
     pl_taskToFiles = [(''t1'', tk_files stored_task)], pl_taskToAgent = [(''t1'', ''database'')],
     pl_taskToValidation = [(''t1'', [''schema''])], pl_research = []\<rparr>"

definition stored_plan :: product_plan where
  "stored_plan = (trim_plan stored_input)\<lparr>pl_capabilities := Some []\<rparr>"

lemma stored_accepted: "validateProductPlan stored_input stored_contract = Inr stored_plan"
  by code_simp

definition stored_manifest :: requirement_manifest where
  "stored_manifest = the_manifest (createRequirementManifest (manifest_contract_of stored_contract)
     (manifest_plan_of stored_plan) [] None ''t0'')"

lemma stored_created: "createRequirementManifest (manifest_contract_of stored_contract)
    (manifest_plan_of stored_plan) [] None ''t0'' = Inr stored_manifest"
  by code_simp

theorem accepted_plan_is_consistent_witness:
  "distinct (map tk_id (pl_tasks stored_plan)) \<and> validateProductPlan stored_plan stored_contract = Inr stored_plan"
  using accepted_plan_is_consistent [OF stored_accepted] by blast


theorem accepted_plan_plans_every_must_have_witness:
  "rm_unresolved stored_manifest = [''REQ-001'']"
  using accepted_plan_plans_every_must_have [OF stored_accepted stored_created]
  by (simp add: stored_contract_def must_have_ids_def)

end
