(* ===== verification/ResourcePlanning.thy ===== *)
theory ResourcePlanning
  imports ResourceComposition ProductPlan
begin

text \<open>
  Choosing builder resources for a product: the gates and the score of a resource
  (\<open>src/lib/builderResources/resourceSelection.ts\<close>), and the plan that selects one resource per required
  capability, adds the domain packs and the declared dependencies and composes the whole
  (\<open>resourcePlanning.ts\<close>). The worklist over the dependencies is a recursion that need not return; that
  it returns is proved. The registry, the host's collation and the creative plan of the prompt
  (\<open>creativeOrchestrator.ts\<close>) are arguments.
\<close>

section \<open>Selection\<close>

record selection_input =
  si_platform :: "string option"
  si_capabilities :: "string list"
  si_floor :: capability_state
  si_maxAgeDays :: "int option"
  si_allowedUse :: "string option"

datatype reject_reason =
    IsQuarantined | IsDeprecated | MaturityBelow | TypeIncompatible | StackIncompatible | PlatformIncompatible
  | CapabilityMismatch | UseNotAllowed | VerificationStale | SecurityBlocked | DependenciesUnknown
  | DeclaredIncompatible

definition SECURITY_BLOCK :: pattern where
  "SECURITY_BLOCK = Pattern True (rx_words [''critical'', ''unsafe'', ''blocked'',
    ''known vulnerability'', ''compromised''])"

definition stale :: "int \<Rightarrow> int option \<Rightarrow> int \<Rightarrow> bool" where
  "stale now verifiedAt days = (case verifiedAt of None \<Rightarrow> True | Some at \<Rightarrow> max 0 (now - at) > days * 86400000)"

definition only_if :: "bool \<Rightarrow> 'a \<Rightarrow> 'a list" where
  "only_if b x = (if b then [x] else [])"

definition rejectReasons :: "builder_resource list \<Rightarrow> product_contract \<Rightarrow> selection_input \<Rightarrow> int \<Rightarrow>
    builder_resource \<Rightarrow> reject_reason list" where
  "rejectReasons registry c i now r =
    (let g = br_governance r; k = br_compatibility r in
     only_if (resource_quarantined r) IsQuarantined @
     only_if (brg_deprecation g \<noteq> ResourceActive) IsDeprecated @
     only_if (\<not> isAtLeast (brg_maturity g) (si_floor i)) MaturityBelow @
     only_if (\<not> matchesExactOrWildcard (brc_productTypes k) (Some (product_type_text (pc_productType c)))) TypeIncompatible @
     only_if (\<not> matchesExactOrWildcard (brc_stacks k) (Some (pc_stack c))) StackIncompatible @
     only_if (\<not> matchesExactOrWildcard (brc_platforms k) (si_platform i)) PlatformIncompatible @
     only_if (\<not> resourceProvidesCapabilities r (si_capabilities i)) CapabilityMismatch @
     only_if (case si_allowedUse i of None \<Rightarrow> False | Some u \<Rightarrow> u \<noteq> [] \<and> u \<notin> set (brg_allowedUse g)) UseNotAllowed @
     only_if (case si_maxAgeDays i of None \<Rightarrow> False | Some days \<Rightarrow> stale now (bre_verifiedAt (br_evidence r)) days)
       VerificationStale @
     only_if (list_ex (rx_test SECURITY_BLOCK) (brg_securityNotes g)) SecurityBlocked @
     only_if (\<not> list_all (\<lambda>d. d \<in> set (map (\<lambda>s. bri_id (br_identity s)) registry)) (brp_dependencies (br_capabilities r)))
       DependenciesUnknown @
     only_if (pc_stack c \<in> set (brc_incompatible k) \<or> exactly (brc_incompatible k) (si_platform i)) DeclaredIncompatible)"

lemma dropWhile_shorter [termination_simp]:
  "length (dropWhile P s) < Suc (length s)" "length (dropWhile P s) \<le> length s"
  by (simp_all add: length_dropWhile_le le_imp_less_Suc)

fun split_words :: "string \<Rightarrow> string list" where
  \<comment> \<open>\<open>split(/[^a-z0-9]+/)\<close>, without the empty words that the length test drops\<close>
  "split_words [] = []"
| "split_words (c # s) =
     (if \<not> (is_digit c \<or> is_lower c) then split_words s
      else (c # takeWhile (\<lambda>d. is_digit d \<or> is_lower d) s) #
        split_words (dropWhile (\<lambda>d. is_digit d \<or> is_lower d) s))"

definition applicableRequirementIds :: "builder_resource \<Rightarrow> product_contract \<Rightarrow> requirement_manifest \<Rightarrow> string list" where
  "applicableRequirementIds r c m =
    (let p = br_capabilities r;
         terms = filter (\<lambda>w. length w \<ge> 3) (concat (map (\<lambda>v. split_words (js_lower v))
           (brp_integrationPoints p @ [bri_category (br_identity r)] @ brp_provided p)));
         matched = filter (\<lambda>q. list_ex (\<lambda>w. contains w (js_lower (rq_text q))) terms) (rm_requirements m)
     in if matched \<noteq> [] then map rq_id matched
        else if list_ex (\<lambda>v. js_lower v \<in> set (map secondary_text (pc_secondary c))) (brp_integrationPoints p)
        then map rq_id (filter (\<lambda>q. rq_priority q = Must) (rm_requirements m))
        else rm_unresolved m)"

definition evidenceStrength :: "builder_resource \<Rightarrow> nat" where
  "evidenceStrength r = length (filter (\<lambda>flag. bre_adapter (br_evidence r) flag = Some True)
     [EvDiscovered, EvInstall, EvCompile, EvTests, EvRuntime, EvPackage, EvDeployment, EvSecurity,
      EvBehavioral, EvReproducible])"

definition selection_score :: "builder_resource \<Rightarrow> product_contract \<Rightarrow> selection_input \<Rightarrow> string list \<Rightarrow> int" where
  "selection_score r c i requirementIds =
    (let k = br_compatibility r; required = si_capabilities i in
     int (stateRank (brg_maturity (br_governance r))) * 100 +
     (if pc_stack c \<in> set (brc_stacks k) then 40 else 0) +
     (if exactly (brc_platforms k) (si_platform i) then 30 else 0) +
     int (evidenceStrength r) * 5 + int (length requirementIds) * 10 -
     int (length (bra_replacement (br_adaptation r))) * 2 -
     int (length (brp_dependencies (br_capabilities r))) * 5 +
     (if isCanonicalCapabilityResource r required then 1000 else 0) -
     (if length required = 1 \<and> bri_type (br_identity r) = ComponentResource then 50 else 0))"

datatype rationale =
    MaturityNote capability_state | EvidenceNote nat | StackExact | PlatformExact string
  | RequirementsNote "string list" | CanonicalRole | PackFor string | SubstantivePack
  | DependencyOf string | DependencyNote string

record selected_resource =
  sr_resource :: builder_resource
  sr_score :: int
  sr_requirementIds :: "string list"
  sr_rationale :: "rationale list"
  sr_selectedAt :: int

definition select_candidate :: "product_contract \<Rightarrow> requirement_manifest \<Rightarrow> selection_input \<Rightarrow> int \<Rightarrow>
    builder_resource \<Rightarrow> selected_resource" where
  "select_candidate c m i now r =
    (let ids = applicableRequirementIds r c m in
     \<lparr>sr_resource = r, sr_score = selection_score r c i ids, sr_requirementIds = ids,
      sr_rationale = [MaturityNote (brg_maturity (br_governance r)), EvidenceNote (evidenceStrength r)] @
        only_if (pc_stack c \<in> set (brc_stacks (br_compatibility r))) StackExact @
        (case si_platform i of None \<Rightarrow> []
         | Some p \<Rightarrow> only_if (p \<noteq> [] \<and> p \<in> set (brc_platforms (br_compatibility r))) (PlatformExact p)) @
        only_if (ids \<noteq> []) (RequirementsNote ids) @
        only_if (isCanonicalCapabilityResource r (si_capabilities i)) CanonicalRole,
      sr_selectedAt = now\<rparr>)"

definition by_selection :: "collation \<Rightarrow> selected_resource \<Rightarrow> selected_resource \<Rightarrow> int" where
  "by_selection L a b = by_score L (sr_resource a, sr_score a) (sr_resource b, sr_score b)"

datatype selection_error = PlanDisagrees | ManifestDisagrees

definition selectBuilderResources :: "collation \<Rightarrow> builder_resource list \<Rightarrow> product_contract \<Rightarrow> product_plan \<Rightarrow>
    requirement_manifest \<Rightarrow> selection_input \<Rightarrow> int \<Rightarrow>
    (selection_error, selected_resource list \<times> (string \<times> string \<times> reject_reason list) list) result" where
  "selectBuilderResources L registry c p m i now =
    (if pl_productType p \<noteq> product_type_text (pc_productType c) \<or> pl_stack p \<noteq> pc_stack c then Inl PlanDisagrees
     else if rm_productType m \<noteq> product_type_text (pc_productType c) \<or> rm_stack m \<noteq> pc_stack c
     then Inl ManifestDisagrees
     else
       let reasons = rejectReasons registry c i now in
       Inr (sort_by (by_selection L) (map (select_candidate c m i now) (filter (\<lambda>r. reasons r = []) registry)),
            sort_by (\<lambda>a b. co_text L (fst a) (fst b))
              (map (\<lambda>r. (bri_id (br_identity r), bri_version (br_identity r), reasons r))
                (filter (\<lambda>r. reasons r \<noteq> []) registry))))"

section \<open>Required capabilities\<close>

fun SECONDARY_CAPABILITY_MAP :: "secondary_capability \<Rightarrow> string list" where
  "SECONDARY_CAPABILITY_MAP CapAuthentication = [''authentication'', ''authorization'']"
| "SECONDARY_CAPABILITY_MAP CapDatabase = [''database'']"
| "SECONDARY_CAPABILITY_MAP CapBilling = [''billing'', ''monetization'']"
| "SECONDARY_CAPABILITY_MAP CapAi = [''api'', ''security'', ''observability'']"
| "SECONDARY_CAPABILITY_MAP CapAnalytics = [''analytics'']"
| "SECONDARY_CAPABILITY_MAP CapAdministration = [''authorization'', ''observability'']"
| "SECONDARY_CAPABILITY_MAP CapTeams = [''collab'', ''authorization'']"
| "SECONDARY_CAPABILITY_MAP CapNotifications = [''notifications'']"
| "SECONDARY_CAPABILITY_MAP CapSearch = [''search'']"
| "SECONDARY_CAPABILITY_MAP CapFileUploads = [''storage'']"
| "SECONDARY_CAPABILITY_MAP CapIntegrations = [''api'', ''webhooks'']"
| "SECONDARY_CAPABILITY_MAP CapDeployment = [''observability'', ''security'']"

definition NATIVE_CAPABILITY_MAP :: "(string \<times> string list) list" where
  "NATIVE_CAPABILITY_MAP =
    [(''push_notifications'', [''notifications'', ''mobile'']), (''local_notifications'', [''notifications'', ''mobile'']),
     (''deep_links'', [''mobile'']), (''universal_links'', [''mobile'']), (''app_links'', [''mobile'']),
     (''speech_recognition'', [''voice'', ''mobile'']), (''text_to_speech'', [''voice'', ''mobile'']),
     (''microphone'', [''voice'', ''mobile'']), (''background_jobs'', [''background_jobs'', ''mobile'']),
     (''scheduling'', [''background_jobs'']), (''camera'', [''mobile'']), (''photos'', [''mobile'']),
     (''location'', [''mobile'']), (''background_location'', [''mobile'']),
     (''biometrics'', [''authentication'', ''mobile'']), (''sharing'', [''mobile'']), (''contacts'', [''mobile'']),
     (''calendar'', [''mobile''])]"

definition BOOKING_INTENT :: pattern where
  "BOOKING_INTENT = Pattern True (rx_edged [Exact ''booking'', Exact ''reservation'',
    Exact ''reserve'', Exact ''appointment'', Exact ''availability'', Exact ''table availability'',
    Exact ''class booking'', Exact ''accommodation'', Exact ''vehicle rental'',
    rx_seq [Exact ''event ticket'', rx_opt (Exact ''s'')]])"

definition ACCOUNT_INTENT :: pattern where
  "ACCOUNT_INTENT = Pattern True (rx_words [''account'', ''profile'', ''preferences'',
    ''password change'', ''change password'', ''email change'', ''change email'',
    ''account deletion'', ''delete account'', ''data export''])"

fun family_capabilities :: "product_family \<Rightarrow> string list" where
  "family_capabilities FamAuth = [''authentication'']"
| "family_capabilities FamDatabase = [''database'']"
| "family_capabilities FamBilling = [''billing'', ''monetization'']"
| "family_capabilities FamAnalytics = [''analytics'']"
| "family_capabilities FamMobile = [''mobile'']"
| "family_capabilities FamIntegrations = [''api'', ''webhooks'']"
| "family_capabilities _ = []"

definition deriveRequiredBuilderCapabilities :: "(string \<Rightarrow> string list) \<Rightarrow> product_contract \<Rightarrow>
    string list option \<Rightarrow> string list" where
  \<comment> \<open>the creative plan answers the matched capabilities of a prompt, if any\<close>
  "deriveRequiredBuilderCapabilities creative c active =
    (let evidence = join_texts [CHR 0x0A] (pc_prompt c # pc_interpretation c # pc_workflows c @ requirement_texts c)
     in sort (remdups
       ((case active of Some ids \<Rightarrow> ids | None \<Rightarrow> creative (pc_prompt c)) @
        only_if (rx_test BOOKING_INTENT evidence) ''booking'' @ only_if (rx_test ACCOUNT_INTENT evidence) ''account'' @
        concat (map SECONDARY_CAPABILITY_MAP (pc_secondary c)) @
        concat (map family_capabilities (pc_families c)) @
        concat (map (\<lambda>n. or_empty (map_of NATIVE_CAPABILITY_MAP n)) (deriveRequestedProductCapabilities c)) @
        (if pc_monetization c \<noteq> [] then [''billing'', ''monetization''] else []) @
        only_if (pc_security c \<noteq> []) ''security'' @ only_if (pc_dataModels c \<noteq> []) ''database'')))"

section \<open>The plan\<close>

record decision_evidence =
  de_capability :: string
  de_resource :: string
  de_version :: string
  de_requirementIds :: "string list"
  de_rationale :: "rationale list"
  de_ledger :: "string list"

record plan_state =
  ps_selected :: "(string \<times> builder_resource) list"
  ps_decisions :: "decision_evidence list"

definition admissible :: "product_contract \<Rightarrow> string option \<Rightarrow> builder_resource \<Rightarrow> bool" where
  \<comment> \<open>the filter of domain packs and dependencies\<close>
  "admissible c platform r \<longleftrightarrow> brg_deprecation (br_governance r) = ResourceActive \<and> \<not> resource_quarantined r \<and>
     matchesExactOrWildcard (brc_productTypes (br_compatibility r)) (Some (product_type_text (pc_productType c))) \<and>
     matchesExactOrWildcard (brc_stacks (br_compatibility r)) (Some (pc_stack c)) \<and>
     matchesExactOrWildcard (brc_platforms (br_compatibility r)) platform"

definition newest :: "collation \<Rightarrow> (builder_resource \<Rightarrow> bool) \<Rightarrow> builder_resource list \<Rightarrow> builder_resource option" where
  "newest L P registry = (case sort_by (\<lambda>a b. co_version L (bri_version (br_identity b)) (bri_version (br_identity a)))
       (filter P registry) of [] \<Rightarrow> None | r # _ \<Rightarrow> Some r)"

definition decides :: "builder_resource \<Rightarrow> decision_evidence \<Rightarrow> bool" where
  "decides r d \<longleftrightarrow> de_resource d = bri_id (br_identity r) \<and> de_version d = bri_version (br_identity r)"

definition inherited_ids :: "builder_resource \<Rightarrow> decision_evidence list \<Rightarrow> string list" where
  "inherited_ids parent ds = (case List.find (decides parent) ds of None \<Rightarrow> [] | Some d \<Rightarrow> de_requirementIds d)"

definition decision_for :: "builder_resource \<Rightarrow> string \<Rightarrow> string list \<Rightarrow> rationale list \<Rightarrow> decision_evidence" where
  "decision_for r capability ids why = \<lparr>de_capability = capability, de_resource = bri_id (br_identity r),
     de_version = bri_version (br_identity r), de_requirementIds = ids, de_rationale = why,
     de_ledger = bre_ledger (br_evidence r)\<rparr>"

definition select_in :: "builder_resource \<Rightarrow> plan_state \<Rightarrow> plan_state" where
  "select_in r s = s\<lparr>ps_selected := update_entry (resource_key r) (\<lambda>_. r) (ps_selected s)\<rparr>"

definition decide_in :: "decision_evidence \<Rightarrow> plan_state \<Rightarrow> plan_state" where
  "decide_in d s = s\<lparr>ps_decisions := ps_decisions s @ [d]\<rparr>"

definition add_pack :: "collation \<Rightarrow> builder_resource list \<Rightarrow> product_contract \<Rightarrow> string option \<Rightarrow>
    builder_resource \<Rightarrow> plan_state \<Rightarrow> plan_state" where
  "add_pack L registry c platform canonical s =
    (let packId = ''domain.'' @ bri_category (br_identity canonical) @ ''.contract-pack'' in
     case newest L (\<lambda>r. bri_id (br_identity r) = packId \<and> admissible c platform r) registry of None \<Rightarrow> s
     | Some pack \<Rightarrow>
         if resource_key pack \<in> fst ` set (ps_selected s) then s
         else
           let ids = inherited_ids canonical (ps_decisions s); s = select_in pack s in
           case brp_provided (br_capabilities pack) of [] \<Rightarrow> s
           | capability # _ \<Rightarrow> decide_in (decision_for pack capability ids
               [PackFor (resource_key canonical), MaturityNote (brg_maturity (br_governance pack)), SubstantivePack]) s)"

definition addSubstantiveDomainPacks :: "collation \<Rightarrow> builder_resource list \<Rightarrow> product_contract \<Rightarrow> string option \<Rightarrow>
    plan_state \<Rightarrow> plan_state" where
  "addSubstantiveDomainPacks L registry c platform s =
     fold (add_pack L registry c platform)
       (filter (\<lambda>r. starts_with ''capability.'' (bri_id (br_identity r))) (map snd (ps_selected s))) s"

record worklist =
  wl_plan :: plan_state
  wl_ids :: "string list"
  wl_queue :: "builder_resource list"

definition add_dependency :: "collation \<Rightarrow> builder_resource list \<Rightarrow> product_contract \<Rightarrow> string option \<Rightarrow>
    builder_resource \<Rightarrow> string \<Rightarrow> worklist \<Rightarrow> worklist" where
  "add_dependency L registry c platform r dependencyId w =
    (if dependencyId \<in> set (wl_ids w) then w
     else case newest L (\<lambda>d. bri_id (br_identity d) = dependencyId \<and> admissible c platform d) registry of
       None \<Rightarrow> w
     | Some d \<Rightarrow>
         let ds = ps_decisions (wl_plan w); plan = select_in d (wl_plan w)
         in \<lparr>wl_plan = (case brp_provided (br_capabilities d) of [] \<Rightarrow> plan
               | capability # _ \<Rightarrow>
                   if list_ex (decides d) ds then plan
                   else decide_in (decision_for d capability (inherited_ids r ds)
                     [DependencyOf (resource_key r), MaturityNote (brg_maturity (br_governance d)),
                      DependencyNote dependencyId]) plan),
             wl_ids = bri_id (br_identity d) # wl_ids w, wl_queue = wl_queue w @ [d]\<rparr>)"

partial_function (option) work :: "collation \<Rightarrow> builder_resource list \<Rightarrow> product_contract \<Rightarrow> string option \<Rightarrow>
    string list \<Rightarrow> worklist \<Rightarrow> worklist option" where
  "work L registry c platform processed w =
    (case wl_queue w of [] \<Rightarrow> Some w
     | r # queue \<Rightarrow>
         let w = w\<lparr>wl_queue := queue\<rparr> in
         if resource_key r \<in> set processed then work L registry c platform processed w
         else work L registry c platform (resource_key r # processed)
           (fold (add_dependency L registry c platform r) (brp_dependencies (br_capabilities r)) w))"

declare work.simps [code]

definition addDeclaredDependencies :: "collation \<Rightarrow> builder_resource list \<Rightarrow> product_contract \<Rightarrow> string option \<Rightarrow>
    plan_state \<Rightarrow> plan_state option" where
  "addDeclaredDependencies L registry c platform s =
     map_option wl_plan (work L registry c platform []
       \<lparr>wl_plan = s, wl_ids = map (\<lambda>e. bri_id (br_identity (snd e))) (ps_selected s),
        wl_queue = map snd (ps_selected s)\<rparr>)"

record resource_usage =
  ru_resource :: string
  ru_version :: string
  ru_ledger :: "string list"

definition usageRecordForResource :: "builder_resource \<Rightarrow> resource_usage" where
  "usageRecordForResource r = \<lparr>ru_resource = bri_id (br_identity r), ru_version = bri_version (br_identity r),
     ru_ledger = bre_ledger (br_evidence r)\<rparr>"

record resource_plan =
  rp_required :: "string list"
  rp_selected :: "builder_resource list"
  rp_missing :: "string list"
  rp_conflicts :: "conflict list"
  rp_viable :: bool
  rp_decisions :: "decision_evidence list"
  rp_catalogSize :: nat

definition selectedResourceIds :: "resource_plan \<Rightarrow> string list" where
  "selectedResourceIds p = map resource_key (rp_selected p)"

definition usageRecords :: "resource_plan \<Rightarrow> resource_usage list" where
  "usageRecords p = map usageRecordForResource (rp_selected p)"

definition select_capability :: "collation \<Rightarrow> builder_resource list \<Rightarrow> product_contract \<Rightarrow> product_plan \<Rightarrow>
    requirement_manifest \<Rightarrow> string option \<Rightarrow> int \<Rightarrow> string \<Rightarrow> string list \<times> plan_state \<Rightarrow>
    (selection_error, string list \<times> plan_state) result" where
  "select_capability L registry c p m platform now capability = (\<lambda>(missing, s).
     bind_result (selectBuilderResources L registry c p m
       \<lparr>si_platform = platform, si_capabilities = [capability], si_floor = Discovered, si_maxAgeDays = None,
        si_allowedUse = Some ''internal-generation''\<rparr> now) (\<lambda>(selected, _).
       case selected of [] \<Rightarrow> Inr (missing @ [capability], s)
       | candidate # _ \<Rightarrow> Inr (missing, decide_in (decision_for (sr_resource candidate) capability
           (sr_requirementIds candidate) (sr_rationale candidate)) (select_in (sr_resource candidate) s))))"

fun select_capabilities :: "(string \<Rightarrow> string list \<times> plan_state \<Rightarrow> (selection_error, string list \<times> plan_state) result) \<Rightarrow>
    string list \<Rightarrow> string list \<times> plan_state \<Rightarrow> (selection_error, string list \<times> plan_state) result" where
  "select_capabilities select [] s = Inr s"
| "select_capabilities select (capability # cs) s =
     bind_result (select capability s) (\<lambda>s. select_capabilities select cs s)"

definition createBuilderResourcePlan :: "collation \<Rightarrow> builder_resource list \<Rightarrow> (string \<Rightarrow> string list) \<Rightarrow>
    product_contract \<Rightarrow> product_plan \<Rightarrow> requirement_manifest \<Rightarrow> string list option \<Rightarrow> string option \<Rightarrow> int \<Rightarrow>
    (selection_error, resource_plan) result option" where
  "createBuilderResourcePlan L registry creative c p m active platform now =
    (let required = deriveRequiredBuilderCapabilities creative c active in
     case select_capabilities (select_capability L registry c p m platform now) required
       ([], \<lparr>ps_selected = [], ps_decisions = []\<rparr>) of
       Inl e \<Rightarrow> Some (Inl e)
     | Inr (missing, s) \<Rightarrow>
         Option.bind (addDeclaredDependencies L registry c platform
           (addSubstantiveDomainPacks L registry c platform s)) (\<lambda>s.
         let selected = map snd (ps_selected s); composition = composeBuilderResources L selected
         in Some (Inr \<lparr>rp_required = required, rp_selected = selected, rp_missing = missing,
              rp_conflicts = cm_conflicts composition, rp_viable = (missing = [] \<and> cm_ok composition),
              rp_decisions = ps_decisions s, rp_catalogSize = length registry\<rparr>)))"

section \<open>The worklist returns\<close>

definition potential :: "builder_resource list \<Rightarrow> worklist \<Rightarrow> nat" where
  "potential registry w =
     card ((\<lambda>r. bri_id (br_identity r)) ` set registry - set (wl_ids w)) + length (wl_queue w)"

lemma head_of:
  "(case xs of [] \<Rightarrow> None | r # _ \<Rightarrow> Some r) = None \<longleftrightarrow> set xs = {}"
  "(case xs of [] \<Rightarrow> None | r # _ \<Rightarrow> Some r) = Some x \<Longrightarrow> x \<in> set xs"
  by (cases xs; simp)+

lemma newest_None: "newest L P registry = None \<longleftrightarrow> (\<forall>r \<in> set registry. \<not> P r)"
  unfolding newest_def head_of set_sort_by by auto

lemma newest_Some: "newest L P registry = Some r \<Longrightarrow> r \<in> set registry \<and> P r"
  unfolding newest_def by (drule head_of(2)) simp

lemma add_dependency_cases:
  obtains (same) "add_dependency L registry c platform r d w = w"
      "d \<in> set (wl_ids w) \<or> (\<forall>s \<in> set registry. \<not> (bri_id (br_identity s) = d \<and> admissible c platform s))"
  | (added) s where "s \<in> set registry" "admissible c platform s" "bri_id (br_identity s) = d" "d \<notin> set (wl_ids w)"
      "wl_ids (add_dependency L registry c platform r d w) = d # wl_ids w"
      "wl_queue (add_dependency L registry c platform r d w) = wl_queue w @ [s]"
      "ps_selected (wl_plan (add_dependency L registry c platform r d w)) =
        update_entry (resource_key s) (\<lambda>_. s) (ps_selected (wl_plan w))"
proof (cases "d \<in> set (wl_ids w) \<or>
    newest L (\<lambda>s. bri_id (br_identity s) = d \<and> admissible c platform s) registry = None")
  case True
  then show ?thesis using same newest_None [of L "\<lambda>s. bri_id (br_identity s) = d \<and> admissible c platform s" registry]
    by (auto simp: add_dependency_def)
next
  case False
  then obtain s where s: "newest L (\<lambda>s. bri_id (br_identity s) = d \<and> admissible c platform s) registry = Some s"
    and new: "d \<notin> set (wl_ids w)" by blast
  show ?thesis using newest_Some [OF s] new s
    by (intro added [of s]) (auto simp: add_dependency_def Let_def select_in_def decide_in_def split: list.splits)
qed

lemma add_dependency_potential: "potential registry (add_dependency L registry c platform r d w) = potential registry w"
proof (cases rule: add_dependency_cases [of L registry c platform r d w])
  case (added s)
  let ?ids = "(\<lambda>r. bri_id (br_identity r)) ` set registry"
  have "d \<in> ?ids - set (wl_ids w)" using added(1,3,4) by auto
  then have "card (?ids - set (wl_ids w)) = Suc (card (?ids - set (wl_ids w) - {d}))"
    by (simp only: card_Suc_Diff1 finite_Diff finite_imageI List.finite_set)
  moreover have "?ids - set (wl_ids w) - {d} = ?ids - set (d # wl_ids w)" by auto
  ultimately show ?thesis unfolding potential_def added(5,6) by simp
qed (simp only:)

lemma add_dependencies_potential:
  "potential registry (fold (add_dependency L registry c platform r) ds w) = potential registry w"
  by (induction ds arbitrary: w) (simp_all add: add_dependency_potential)

text \<open>The rule of the worklist: it returns, with its queue empty, and what every round keeps holds then.\<close>

lemma work_rule:
  assumes "I processed w"
    and "\<And>p w r q. I p w \<Longrightarrow> wl_queue w = r # q \<Longrightarrow> resource_key r \<in> set p \<Longrightarrow> I p (w\<lparr>wl_queue := q\<rparr>)"
    and "\<And>p w r q. I p w \<Longrightarrow> wl_queue w = r # q \<Longrightarrow> resource_key r \<notin> set p \<Longrightarrow>
      I (resource_key r # p) (fold (add_dependency L registry c platform r) (brp_dependencies (br_capabilities r))
        (w\<lparr>wl_queue := q\<rparr>))"
  shows "\<exists>p' w'. work L registry c platform processed w = Some w' \<and> wl_queue w' = [] \<and> I p' w'"
  using assms(1)
proof (induction "potential registry w" arbitrary: processed w rule: less_induct)
  case less
  show ?case
  proof (cases "wl_queue w")
    case Nil
    then show ?thesis using less.prems by (subst work.simps) auto
  next
    case (Cons r q)
    have smaller: "potential registry (w\<lparr>wl_queue := q\<rparr>) < potential registry w"
      by (simp add: potential_def Cons)
    show ?thesis
    proof (cases "resource_key r \<in> set processed")
      case True
      with less.hyps [OF smaller assms(2) [OF less.prems Cons True]] Cons show ?thesis
        by (subst work.simps) simp
    next
      case False
      with less.hyps [OF _ assms(3) [OF less.prems Cons False]] smaller Cons show ?thesis
        by (subst work.simps) (simp add: add_dependencies_potential)
    qed
  qed
qed

lemma work_returns: "\<exists>w'. work L registry c platform processed w = Some w'"
  using work_rule [where I = "\<lambda>_ _. True"] by blast

text \<open>
  C35. The plan of the builder resources is always made: the worklist over the declared dependencies ends on
  every registry and every selection, cyclic dependencies, repeated ones and unknown ones included, because
  each round takes one resource off the queue and an id of the registry enters it at most once.
\<close>

theorem resource_plan_returns:
  "\<exists>outcome. createBuilderResourcePlan L registry creative c p m active platform now = Some outcome"
proof (cases "select_capabilities (select_capability L registry c p m platform now)
    (deriveRequiredBuilderCapabilities creative c active) ([], \<lparr>ps_selected = [], ps_decisions = []\<rparr>)")
  case (Inr found)
  obtain missing s where found: "found = (missing, s)" by force
  obtain w where "work L registry c platform [] \<lparr>wl_plan = addSubstantiveDomainPacks L registry c platform s,
      wl_ids = map (\<lambda>e. bri_id (br_identity (snd e))) (ps_selected (addSubstantiveDomainPacks L registry c platform s)),
      wl_queue = map snd (ps_selected (addSubstantiveDomainPacks L registry c platform s))\<rparr> = Some w"
    using work_returns by blast
  then show ?thesis using Inr by (simp add: createBuilderResourcePlan_def addDeclaredDependencies_def found Let_def)
qed (simp add: createBuilderResourcePlan_def)

section \<open>What is selected\<close>

lemma only_if_Nil [simp]: "only_if b x = [] \<longleftrightarrow> \<not> b"
  by (simp add: only_if_def)

definition passes :: "builder_resource list \<Rightarrow> product_contract \<Rightarrow> selection_input \<Rightarrow> int \<Rightarrow> builder_resource \<Rightarrow> bool" where
  \<comment> \<open>the gates of the selection, as conditions\<close>
  "passes registry c i now r \<longleftrightarrow>
     admissible c (si_platform i) r \<and>
     isAtLeast (brg_maturity (br_governance r)) (si_floor i) \<and>
     resourceProvidesCapabilities r (si_capabilities i) \<and>
     (\<forall>u. si_allowedUse i = Some u \<longrightarrow> u = [] \<or> u \<in> set (brg_allowedUse (br_governance r))) \<and>
     (\<forall>days. si_maxAgeDays i = Some days \<longrightarrow> \<not> stale now (bre_verifiedAt (br_evidence r)) days) \<and>
     (\<forall>s \<in> set (brg_securityNotes (br_governance r)). \<not> rx_test SECURITY_BLOCK s) \<and>
     set (brp_dependencies (br_capabilities r)) \<subseteq> (\<lambda>s. bri_id (br_identity s)) ` set registry \<and>
     pc_stack c \<notin> set (brc_incompatible (br_compatibility r)) \<and>
     \<not> exactly (brc_incompatible (br_compatibility r)) (si_platform i)"

lemma rejectReasons_Nil: "rejectReasons registry c i now r = [] \<longleftrightarrow> passes registry c i now r"
proof -
  have use: "(case si_allowedUse i of None \<Rightarrow> False | Some u \<Rightarrow> u \<noteq> [] \<and> u \<notin> A) \<longleftrightarrow>
      \<not> (\<forall>u. si_allowedUse i = Some u \<longrightarrow> u = [] \<or> u \<in> A)" for A by (cases "si_allowedUse i") auto
  have age: "(case si_maxAgeDays i of None \<Rightarrow> False | Some days \<Rightarrow> stale now v days) \<longleftrightarrow>
      \<not> (\<forall>days. si_maxAgeDays i = Some days \<longrightarrow> \<not> stale now v days)" for v by (cases "si_maxAgeDays i") auto
  have flagged: "list_ex P xs \<longleftrightarrow> \<not> (\<forall>x \<in> set xs. \<not> P x)" for P and xs :: "string list" by (auto simp: list_ex_iff)
  have deps: "list_all (\<lambda>d. d \<in> set (map f registry)) xs \<longleftrightarrow> set xs \<subseteq> f ` set registry" for f and xs :: "string list"
    by (auto simp: list_all_iff)
  show ?thesis
    unfolding rejectReasons_def Let_def append_is_Nil_conv only_if_Nil passes_def admissible_def use age flagged deps
    by blast
qed

lemma insert_by_sorted:
  assumes "\<And>a b. cmp a b \<le> 0 \<Longrightarrow> f b \<le> f a" "\<And>a b. cmp a b > 0 \<Longrightarrow> f a \<le> (f b :: int)"
  shows "sorted_wrt (\<lambda>a b. f b \<le> f a) xs \<Longrightarrow> sorted_wrt (\<lambda>a b. f b \<le> f a) (insert_by cmp x xs)"
proof (induction xs)
  case (Cons y ys)
  have set: "set (insert_by cmp x zs) = insert x (set zs)" for zs by (rule mset_eq_setD [of _ "x # zs", simplified]) simp
  show ?case
  proof (cases "cmp y x \<le> 0")
    case True
    with Cons assms(1) [OF True] show ?thesis by (simp add: set)
  next
    case False
    then have "f y \<le> f x" using assms(2) by simp
    with Cons.prems False show ?thesis by (auto intro: order_trans)
  qed
qed simp

lemma sort_by_sorted:
  assumes "\<And>a b. cmp a b \<le> 0 \<Longrightarrow> f b \<le> f a" "\<And>a b. cmp a b > 0 \<Longrightarrow> f a \<le> (f b :: int)"
  shows "sorted_wrt (\<lambda>a b. f b \<le> f a) (sort_by cmp xs)"
proof -
  have "sorted_wrt (\<lambda>a b. f b \<le> f a) acc \<Longrightarrow> sorted_wrt (\<lambda>a b. f b \<le> f a) (fold (insert_by cmp) xs acc)" for acc
    by (induction xs arbitrary: acc) (simp_all add: insert_by_sorted [OF assms])
  then show ?thesis by (simp add: sort_by_def)
qed

lemma select_iff:
  "selectBuilderResources L registry c p m i now = Inr (selected, rejected) \<Longrightarrow>
    set selected = select_candidate c m i now ` {r \<in> set registry. passes registry c i now r} \<and>
    sorted_wrt (\<lambda>a b. sr_score b \<le> sr_score a) selected"
proof -
  assume ok: "selectBuilderResources L registry c p m i now = Inr (selected, rejected)"
  then have sel: "selected = sort_by (by_selection L) (map (select_candidate c m i now)
      (filter (\<lambda>r. rejectReasons registry c i now r = []) registry))"
    by (auto simp: selectBuilderResources_def Let_def split: if_splits)
  have "sorted_wrt (\<lambda>a b. sr_score b \<le> sr_score a) selected"
    unfolding sel by (rule sort_by_sorted) (auto simp: by_selection_def by_score_def Let_def split: if_splits)
  then show ?thesis by (auto simp: sel rejectReasons_Nil)
qed

lemma select_candidate_simps [simp]:
  "sr_resource (select_candidate c m i now r) = r"
  "sr_score (select_candidate c m i now r) = selection_score r c i (applicableRequirementIds r c m)"
  by (simp_all add: select_candidate_def Let_def)

text \<open>
  C34. When the contract, plan and manifest agree, the selection offers exactly the resources of the registry that
  pass every gate (active, not quarantined, mature enough, compatible, capable, allowed for the use, freshly
  verified, without a blocking security note, dependencies known, not declared incompatible), the best score
  first whatever the host's collation.
\<close>

theorem selection_offers_the_fit:
  assumes "selectBuilderResources L registry c p m i now = Inr (selected, rejected)"
  shows "sr_resource ` set selected = {r \<in> set registry. rejectReasons registry c i now r = []} \<and>
    (\<forall>r \<in> set registry. rejectReasons registry c i now r = [] \<longleftrightarrow>
      brg_deprecation (br_governance r) = ResourceActive \<and> \<not> resource_quarantined r \<and>
      matchesExactOrWildcard (brc_productTypes (br_compatibility r)) (Some (product_type_text (pc_productType c))) \<and>
      matchesExactOrWildcard (brc_stacks (br_compatibility r)) (Some (pc_stack c)) \<and>
      matchesExactOrWildcard (brc_platforms (br_compatibility r)) (si_platform i) \<and>
      isAtLeast (brg_maturity (br_governance r)) (si_floor i) \<and>
      resourceProvidesCapabilities r (si_capabilities i) \<and>
      (\<forall>u. si_allowedUse i = Some u \<longrightarrow> u = [] \<or> u \<in> set (brg_allowedUse (br_governance r))) \<and>
      (\<forall>days. si_maxAgeDays i = Some days \<longrightarrow> \<not> stale now (bre_verifiedAt (br_evidence r)) days) \<and>
      (\<forall>s \<in> set (brg_securityNotes (br_governance r)). \<not> rx_test SECURITY_BLOCK s) \<and>
      set (brp_dependencies (br_capabilities r)) \<subseteq> (\<lambda>s. bri_id (br_identity s)) ` set registry \<and>
      pc_stack c \<notin> set (brc_incompatible (br_compatibility r)) \<and>
      \<not> exactly (brc_incompatible (br_compatibility r)) (si_platform i)) \<and>
    (\<forall>best rest. selected = best # rest \<longrightarrow> (\<forall>r \<in> set registry. rejectReasons registry c i now r = [] \<longrightarrow>
      selection_score r c i (applicableRequirementIds r c m) \<le> sr_score best))"
proof -
  note sel = select_iff [OF assms]
  have "selection_score r c i (applicableRequirementIds r c m) \<le> sr_score best"
    if "selected = best # rest" "r \<in> set registry" "passes registry c i now r" for best rest r
  proof -
    have "select_candidate c m i now r \<in> set selected" using sel that by blast
    then have "sr_score (select_candidate c m i now r) \<le> sr_score best" using sel that(1) by auto
    then show ?thesis by simp
  qed
  moreover have "sr_resource ` set selected = {r \<in> set registry. passes registry c i now r}"
    using sel by (simp add: image_image)
  ultimately show ?thesis unfolding rejectReasons_Nil by (simp add: passes_def admissible_def)
qed

section \<open>What the plan holds\<close>

definition chosen :: "plan_state \<Rightarrow> builder_resource set" where
  "chosen s = snd ` set (ps_selected s)"

definition well_chosen :: "builder_resource list \<Rightarrow> product_contract \<Rightarrow> string option \<Rightarrow> plan_state \<Rightarrow> bool" where
  "well_chosen registry c platform s \<longleftrightarrow> (\<forall>e \<in> set (ps_selected s). fst e = resource_key (snd e) \<and>
     snd e \<in> set registry \<and> admissible c platform (snd e))"

lemma set_update_entry:
  "(\<And>v. (k, v) \<in> set m \<Longrightarrow> v = x) \<Longrightarrow> set (update_entry k (\<lambda>_. x) m) = insert (k, x) (set m)"
proof (induction m)
  case (Cons e m)
  then show ?case by (cases e) (auto simp: insert_commute)
qed simp

lemma entry_of_key:
  assumes "distinct (map resource_key registry)" "well_chosen registry c platform s" "r \<in> set registry"
  shows "set (update_entry (resource_key r) (\<lambda>_. r) (ps_selected s)) = insert (resource_key r, r) (set (ps_selected s))"
proof (rule set_update_entry)
  fix v assume "(resource_key r, v) \<in> set (ps_selected s)"
  with assms(2) have "resource_key v = resource_key r" "v \<in> set registry" by (auto simp: well_chosen_def)
  with assms(1,3) show "v = r" by (auto simp: distinct_map dest: inj_onD)
qed

lemma selecting:
  assumes "distinct (map resource_key registry)" "well_chosen registry c platform s" "r \<in> set registry"
    "admissible c platform r"
    "ps_selected s' = update_entry (resource_key r) (\<lambda>_. r) (ps_selected s)"
  shows "well_chosen registry c platform s' \<and> chosen s' = insert r (chosen s)"
  using assms(2-4) unfolding assms(5) well_chosen_def chosen_def entry_of_key [OF assms(1-3)] by auto

abbreviation wanted :: "string option \<Rightarrow> string \<Rightarrow> selection_input" where
  "wanted platform capability \<equiv> \<lparr>si_platform = platform, si_capabilities = [capability], si_floor = Discovered,
     si_maxAgeDays = None, si_allowedUse = Some ''internal-generation''\<rparr>"

definition served :: "builder_resource list \<Rightarrow> product_contract \<Rightarrow> string option \<Rightarrow> int \<Rightarrow> string \<Rightarrow>
    string list \<times> plan_state \<Rightarrow> bool" where
  \<comment> \<open>a required capability is reported missing when nothing fits, and has a fitting resource otherwise\<close>
  "served registry c platform now capability = (\<lambda>(missing, s).
     if \<exists>r \<in> set registry. passes registry c (wanted platform capability) now r
     then \<exists>r \<in> chosen s. passes registry c (wanted platform capability) now r
     else capability \<in> set missing)"

definition selects_more :: "string list \<times> plan_state \<Rightarrow> string list \<times> plan_state \<Rightarrow> bool" where
  "selects_more x y \<longleftrightarrow> set (fst x) \<subseteq> set (fst y) \<and> chosen (snd x) \<subseteq> chosen (snd y)"

lemma served_more: "served registry c platform now k x \<Longrightarrow> selects_more x y \<Longrightarrow> served registry c platform now k y"
  by (cases x; cases y) (fastforce simp: served_def selects_more_def split: if_splits)

lemma select_capability_ok:
  assumes "distinct (map resource_key registry)" "well_chosen registry c platform (snd x)"
    "select_capability L registry c p m platform now k x = Inr y"
  shows "well_chosen registry c platform (snd y) \<and> served registry c platform now k y \<and> selects_more x y \<and>
    (set (fst y) = set (fst x) \<or> (\<not> (\<exists>r \<in> set registry. passes registry c (wanted platform k) now r) \<and>
      set (fst y) = insert k (set (fst x))))"
proof -
  obtain missing s where x: "x = (missing, s)" by force
  obtain selected rejected where ok: "selectBuilderResources L registry c p m (wanted platform k) now = Inr (selected, rejected)"
    using assms(3) by (cases "selectBuilderResources L registry c p m (wanted platform k) now")
      (auto simp: select_capability_def x)
  have fit: "r \<in> sr_resource ` set selected \<longleftrightarrow> r \<in> set registry \<and> passes registry c (wanted platform k) now r" for r
    using select_iff [OF ok] by (simp add: image_image)
  show ?thesis
  proof (cases selected)
    case Nil
    with fit have "\<not> (\<exists>r \<in> set registry. passes registry c (wanted platform k) now r)" by auto
    moreover have "y = (missing @ [k], s)" using assms(3) by (simp add: select_capability_def x ok Nil)
    ultimately show ?thesis using assms(2) by (auto simp: x served_def selects_more_def)
  next
    case (Cons best rest)
    let ?r = "sr_resource best"
    have r: "?r \<in> set registry" "passes registry c (wanted platform k) now ?r" using fit [of ?r] Cons by auto
    then have adm: "admissible c platform ?r" by (simp add: passes_def)
    obtain s' where y: "y = (missing, s')" "ps_selected s' = update_entry (resource_key ?r) (\<lambda>_. ?r) (ps_selected s)"
      using assms(3) by (auto simp: select_capability_def x ok Cons decide_in_def select_in_def)
    have "well_chosen registry c platform s" using assms(2) by (simp add: x)
    from selecting [OF assms(1) this r(1) adm y(2)] r show ?thesis
      by (auto simp: x y(1) served_def selects_more_def)
  qed
qed

lemma select_capabilities_ok:
  assumes "distinct (map resource_key registry)" "well_chosen registry c platform (snd x)"
    "select_capabilities (select_capability L registry c p m platform now) ks x = Inr y"
  shows "well_chosen registry c platform (snd y) \<and> selects_more x y \<and>
    (\<forall>k \<in> set ks. served registry c platform now k y) \<and>
    (\<forall>k \<in> set (fst y). k \<in> set (fst x) \<or> (k \<in> set ks \<and>
      \<not> (\<exists>r \<in> set registry. passes registry c (wanted platform k) now r)))"
  using assms(2,3)
proof (induction ks arbitrary: x)
  case (Cons k ks)
  then obtain z where z: "select_capability L registry c p m platform now k x = Inr z"
    "select_capabilities (select_capability L registry c p m platform now) ks z = Inr y"
    by (cases "select_capability L registry c p m platform now k x") auto
  note one = select_capability_ok [OF assms(1) Cons.prems(1) z(1)]
  note rest = Cons.IH [OF conjunct1 [OF one] z(2)]
  from one rest have "served registry c platform now k y" by (blast intro: served_more)
  moreover have "selects_more x y" using one rest by (auto simp: selects_more_def)
  ultimately show ?case using one rest by auto
qed (simp add: selects_more_def)

lemma add_pack_ok:
  assumes "distinct (map resource_key registry)" "well_chosen registry c platform s"
  shows "well_chosen registry c platform (add_pack L registry c platform canonical s) \<and>
    chosen s \<subseteq> chosen (add_pack L registry c platform canonical s)"
proof -
  let ?P = "\<lambda>r. bri_id (br_identity r) = ''domain.'' @ bri_category (br_identity canonical) @ ''.contract-pack'' \<and>
    admissible c platform r"
  show ?thesis
  proof (cases "newest L ?P registry")
    case None
    then show ?thesis using assms(2) by (simp add: add_pack_def)
  next
    case (Some pack)
    from newest_Some [OF Some] have pack: "pack \<in> set registry" "admissible c platform pack" by simp_all
    have "add_pack L registry c platform canonical s = s \<or>
        ps_selected (add_pack L registry c platform canonical s) =
          update_entry (resource_key pack) (\<lambda>_. pack) (ps_selected s)"
      using Some by (auto simp: add_pack_def select_in_def decide_in_def Let_def split: list.split)
    then show ?thesis using selecting [OF assms pack] assms(2) by auto
  qed
qed

lemma add_packs_ok:
  assumes "distinct (map resource_key registry)" "well_chosen registry c platform s"
  shows "well_chosen registry c platform (addSubstantiveDomainPacks L registry c platform s) \<and>
    chosen s \<subseteq> chosen (addSubstantiveDomainPacks L registry c platform s)"
proof -
  have "well_chosen registry c platform s \<Longrightarrow>
      well_chosen registry c platform (fold (add_pack L registry c platform) rs s) \<and>
      chosen s \<subseteq> chosen (fold (add_pack L registry c platform) rs s)" for rs
  proof (induction rs arbitrary: s)
    case (Cons r rs)
    from add_pack_ok [OF assms(1) Cons.prems, of L r] Cons.IH [of "add_pack L registry c platform r s"]
    show ?case by auto
  qed simp
  then show ?thesis using assms(2) by (simp add: addSubstantiveDomainPacks_def)
qed

definition settled :: "builder_resource list \<Rightarrow> product_contract \<Rightarrow> string option \<Rightarrow> string set \<Rightarrow> string \<Rightarrow> bool" where
  \<comment> \<open>a dependency is among the ids, or no resource can stand for it\<close>
  "settled registry c platform ids d \<longleftrightarrow> d \<in> ids \<or>
     (\<forall>s \<in> set registry. \<not> (bri_id (br_identity s) = d \<and> admissible c platform s))"

lemma settled_mono: "settled registry c platform A d \<Longrightarrow> A \<subseteq> B \<Longrightarrow> settled registry c platform B d"
  by (auto simp: settled_def)

definition tracked :: "builder_resource list \<Rightarrow> product_contract \<Rightarrow> string option \<Rightarrow> worklist \<Rightarrow> bool" where
  "tracked registry c platform w \<longleftrightarrow> well_chosen registry c platform (wl_plan w) \<and>
     set (wl_ids w) = (\<lambda>r. bri_id (br_identity r)) ` chosen (wl_plan w)"

definition grows :: "worklist \<Rightarrow> worklist \<Rightarrow> bool" where
  \<comment> \<open>what is new is queued\<close>
  "grows v w \<longleftrightarrow> chosen (wl_plan v) \<subseteq> chosen (wl_plan w) \<and> set (wl_ids v) \<subseteq> set (wl_ids w) \<and>
     chosen (wl_plan w) \<subseteq> chosen (wl_plan v) \<union> set (wl_queue w) \<and> set (wl_queue v) \<subseteq> set (wl_queue w)"

lemma grows_refl: "grows w w"
  by (simp add: grows_def)

lemma grows_trans: "grows u v \<Longrightarrow> grows v w \<Longrightarrow> grows u w"
  unfolding grows_def by blast

lemma add_dependency_ok:
  assumes "distinct (map resource_key registry)" "tracked registry c platform w"
  shows "tracked registry c platform (add_dependency L registry c platform r d w) \<and>
    grows w (add_dependency L registry c platform r d w) \<and>
    settled registry c platform (set (wl_ids (add_dependency L registry c platform r d w))) d"
proof (cases rule: add_dependency_cases [of L registry c platform r d w])
  case same
  then show ?thesis using assms(2) by (simp add: grows_refl settled_def)
next
  case (added s)
  have "well_chosen registry c platform (wl_plan w)" using assms(2) by (simp add: tracked_def)
  from selecting [OF assms(1) this added(1,2,7)] assms(2) show ?thesis
    by (auto simp: tracked_def grows_def settled_def added)
qed

lemma add_dependencies_ok:
  assumes "distinct (map resource_key registry)"
  shows "tracked registry c platform w \<Longrightarrow>
    tracked registry c platform (fold (add_dependency L registry c platform r) ds w) \<and>
    grows w (fold (add_dependency L registry c platform r) ds w) \<and>
    (\<forall>d \<in> set ds. settled registry c platform (set (wl_ids (fold (add_dependency L registry c platform r) ds w))) d)"
proof (induction ds arbitrary: w)
  case (Cons d ds)
  note one = add_dependency_ok [OF assms Cons.prems, of L r d]
  note rest = Cons.IH [OF conjunct1 [OF one]]
  let ?v = "add_dependency L registry c platform r d w"
  let ?w = "fold (add_dependency L registry c platform r) ds ?v"
  have "set (wl_ids ?v) \<subseteq> set (wl_ids ?w)" using rest by (simp add: grows_def)
  with one have "settled registry c platform (set (wl_ids ?w)) d" by (blast intro: settled_mono)
  moreover have "grows w ?w" using one rest by (blast intro: grows_trans)
  ultimately show ?case using rest by simp
qed (simp add: grows_refl)

definition round_inv :: "builder_resource list \<Rightarrow> product_contract \<Rightarrow> string option \<Rightarrow> builder_resource set \<Rightarrow>
    string list \<Rightarrow> worklist \<Rightarrow> bool" where
  "round_inv registry c platform base processed w \<longleftrightarrow> tracked registry c platform w \<and>
     base \<subseteq> chosen (wl_plan w) \<and> set (wl_queue w) \<subseteq> set registry \<and>
     (\<forall>r \<in> chosen (wl_plan w). r \<in> set (wl_queue w) \<or> resource_key r \<in> set processed) \<and>
     (\<forall>r \<in> set registry. resource_key r \<in> set processed \<longrightarrow>
       (\<forall>d \<in> set (brp_dependencies (br_capabilities r)). settled registry c platform (set (wl_ids w)) d))"

lemma tracked_queue [simp]: "tracked registry c platform (w\<lparr>wl_queue := q\<rparr>) = tracked registry c platform w"
  by (simp add: tracked_def)

lemma round_skip:
  "round_inv registry c platform base p w \<Longrightarrow> wl_queue w = r # q \<Longrightarrow> resource_key r \<in> set p \<Longrightarrow>
    round_inv registry c platform base p (w\<lparr>wl_queue := q\<rparr>)"
  by (auto simp: round_inv_def)

lemma round_process:
  assumes "distinct (map resource_key registry)" "round_inv registry c platform base p w" "wl_queue w = r # q"
  shows "round_inv registry c platform base (resource_key r # p)
    (fold (add_dependency L registry c platform r) (brp_dependencies (br_capabilities r)) (w\<lparr>wl_queue := q\<rparr>))"
proof -
  let ?v = "w\<lparr>wl_queue := q\<rparr>"
  let ?w = "fold (add_dependency L registry c platform r) (brp_dependencies (br_capabilities r)) ?v"
  have inv: "tracked registry c platform w" "base \<subseteq> chosen (wl_plan w)" "r \<in> set registry" "set q \<subseteq> set registry"
    using assms(2,3) by (simp_all add: round_inv_def)
  then have "tracked registry c platform ?v" by simp
  note new = add_dependencies_ok [OF assms(1) this, of L r "brp_dependencies (br_capabilities r)"]
  have potential_queue: "set (wl_queue ?w) \<subseteq> set registry"
  proof -
    have "set (wl_queue u) \<subseteq> set registry \<Longrightarrow>
        set (wl_queue (fold (add_dependency L registry c platform r) ds u)) \<subseteq> set registry" for ds u
    proof (induction ds arbitrary: u)
      case (Cons d ds)
      have "set (wl_queue (add_dependency L registry c platform r d u)) \<subseteq> set registry"
        by (cases rule: add_dependency_cases [of L registry c platform r d u]) (use Cons.prems in auto)
      then show ?case using Cons.IH by simp
    qed simp
    then show ?thesis using inv(4) by simp
  qed
  have settled: "settled registry c platform (set (wl_ids ?w)) d"
    if "s \<in> set registry" "resource_key s \<in> set (resource_key r # p)" "d \<in> set (brp_dependencies (br_capabilities s))" for s d
  proof (cases "resource_key s = resource_key r")
    case True
    then have "s = r" using assms(1) that(1) inv(3) by (auto simp: distinct_map dest: inj_onD)
    then show ?thesis using new that(3) by blast
  next
    case False
    then have "settled registry c platform (set (wl_ids w)) d" using that assms(2) by (auto simp: round_inv_def)
    moreover have "set (wl_ids w) \<subseteq> set (wl_ids ?w)" using new by (simp add: grows_def)
    ultimately show ?thesis by (rule settled_mono)
  qed
  have covered: "s \<in> set (wl_queue ?w) \<or> resource_key s \<in> set (resource_key r # p)" if "s \<in> chosen (wl_plan ?w)" for s
  proof (cases "s \<in> chosen (wl_plan w)")
    case True
    then have "s \<in> set (r # q) \<or> resource_key s \<in> set p" using assms(2,3) by (auto simp: round_inv_def)
    moreover have "set q \<subseteq> set (wl_queue ?w)" using new by (simp add: grows_def)
    ultimately show ?thesis by auto
  next
    case False
    then show ?thesis using new that by (auto simp: grows_def)
  qed
  have "base \<subseteq> chosen (wl_plan ?w)" using new inv(2) by (auto simp: grows_def)
  then show ?thesis unfolding round_inv_def using new potential_queue settled covered by blast
qed

lemma dependencies_ok:
  assumes "distinct (map resource_key registry)" "well_chosen registry c platform s"
    "addDeclaredDependencies L registry c platform s = Some s'"
  shows "well_chosen registry c platform s' \<and> chosen s \<subseteq> chosen s' \<and>
    (\<forall>r \<in> chosen s'. \<forall>d \<in> set (brp_dependencies (br_capabilities r)).
      settled registry c platform ((\<lambda>r. bri_id (br_identity r)) ` chosen s') d)"
proof -
  let ?w = "\<lparr>wl_plan = s, wl_ids = map (\<lambda>e. bri_id (br_identity (snd e))) (ps_selected s),
    wl_queue = map snd (ps_selected s)\<rparr>"
  have "round_inv registry c platform (chosen s) [] ?w"
    using assms(2) by (auto simp: round_inv_def tracked_def chosen_def well_chosen_def)
  then have "\<exists>p' w'. work L registry c platform [] ?w = Some w' \<and> wl_queue w' = [] \<and>
      round_inv registry c platform (chosen s) p' w'"
    by (rule work_rule) (erule (2) round_skip, erule (1) round_process [OF assms(1)])
  then obtain p' w' where w': "work L registry c platform [] ?w = Some w'" "wl_queue w' = []"
    "round_inv registry c platform (chosen s) p' w'" by blast
  have s': "s' = wl_plan w'" using assms(3) w'(1) by (simp add: addDeclaredDependencies_def)
  have "chosen s' \<subseteq> set registry" using w'(3) by (auto simp: s' round_inv_def tracked_def well_chosen_def chosen_def)
  then show ?thesis using w' unfolding s' round_inv_def tracked_def by (auto 0 3)
qed

lemma first_duplicate_None: "first_duplicate seen xs = None \<longleftrightarrow> distinct xs \<and> set xs \<inter> seen = {}"
  by (induction xs arbitrary: seen) auto

lemma new_registry_distinct: "new_registry resources = Inr registry \<Longrightarrow> distinct (map resource_key registry)"
  by (auto simp: new_registry_def first_duplicate_None split: option.splits)

lemma composed_ok:
  assumes "cm_ok (composeBuilderResources L rs)"
  shows "\<forall>r \<in> set rs. set (brp_dependencies (br_capabilities r)) \<subseteq> (\<lambda>r. bri_id (br_identity r)) ` set rs"
    "exclusive rs bro_routes" "exclusive rs bro_migrations"
proof -
  let ?rs = "sort_by (\<lambda>a b. co_text L (resource_key a) (resource_key b)) rs"
  have "composition_conflicts L ?rs = []" using assms by (simp add: composeBuilderResources_def Let_def)
  then have "missingDependencyConflicts ?rs = []" "exclusive ?rs bro_routes" "exclusive ?rs bro_migrations"
    unfolding composition_conflicts_def Let_def append_is_Nil_conv owned_iff by blast+
  then show "\<forall>r \<in> set rs. set (brp_dependencies (br_capabilities r)) \<subseteq> (\<lambda>r. bri_id (br_identity r)) ` set rs"
    "exclusive rs bro_routes" "exclusive rs bro_migrations"
    using reordered(1) [of ?rs rs] by (simp_all add: missing_dependencies_iff)
qed

lemma plan_parts:
  assumes "createBuilderResourcePlan L registry creative c p m active platform now = Some (Inr plan)"
  obtains missing s s' where
    "select_capabilities (select_capability L registry c p m platform now) (rp_required plan)
      ([], \<lparr>ps_selected = [], ps_decisions = []\<rparr>) = Inr (missing, s)"
    "addDeclaredDependencies L registry c platform (addSubstantiveDomainPacks L registry c platform s) = Some s'"
    "rp_required plan = deriveRequiredBuilderCapabilities creative c active"
    "set (rp_selected plan) = chosen s'" "rp_missing plan = missing"
    "rp_viable plan \<longleftrightarrow> missing = [] \<and> cm_ok (composeBuilderResources L (rp_selected plan))"
  using assms
  by (auto simp: createBuilderResourcePlan_def chosen_def Let_def split: sum.splits bind_splits)

text \<open>
  C36. On a registry without repeated identities, the plan of the builder resources selects only active, not
  quarantined, compatible resources of the registry; it is closed, in that a dependency of a selected resource is
  selected whenever any resource could stand for it; a required capability is either reported missing, and then
  nothing in the registry fits it, or a selected resource passes every gate for it; and a viable plan misses
  nothing, contains every dependency, and no two of its resources claim a common route or migration.
\<close>

theorem resource_plan_is_closed:
  assumes "new_registry resources = Inr registry"
    "createBuilderResourcePlan L registry creative c p m active platform now = Some (Inr plan)"
  shows "(\<forall>r \<in> set (rp_selected plan). r \<in> set registry \<and> admissible c platform r \<and>
      (\<forall>d \<in> set (brp_dependencies (br_capabilities r)).
        d \<in> (\<lambda>r. bri_id (br_identity r)) ` set (rp_selected plan) \<or>
        (\<forall>s \<in> set registry. bri_id (br_identity s) = d \<longrightarrow> \<not> admissible c platform s))) \<and>
    (\<forall>k \<in> set (rp_required plan).
      if k \<in> set (rp_missing plan) then \<forall>r \<in> set registry. rejectReasons registry c (wanted platform k) now r \<noteq> []
      else \<exists>r \<in> set (rp_selected plan). rejectReasons registry c (wanted platform k) now r = []) \<and>
    (rp_viable plan \<longrightarrow> rp_missing plan = [] \<and>
      (\<forall>r \<in> set (rp_selected plan). set (brp_dependencies (br_capabilities r)) \<subseteq>
        (\<lambda>r. bri_id (br_identity r)) ` set (rp_selected plan)) \<and>
      exclusive (rp_selected plan) bro_routes \<and> exclusive (rp_selected plan) bro_migrations)"
proof -
  note once = new_registry_distinct [OF assms(1)]
  obtain missing s s' where parts:
    "select_capabilities (select_capability L registry c p m platform now) (rp_required plan)
      ([], \<lparr>ps_selected = [], ps_decisions = []\<rparr>) = Inr (missing, s)"
    "addDeclaredDependencies L registry c platform (addSubstantiveDomainPacks L registry c platform s) = Some s'"
    "set (rp_selected plan) = chosen s'" "rp_missing plan = missing"
    "rp_viable plan \<longleftrightarrow> missing = [] \<and> cm_ok (composeBuilderResources L (rp_selected plan))"
    using assms(2) by (rule plan_parts)
  have "well_chosen registry c platform \<lparr>ps_selected = [], ps_decisions = []\<rparr>" by (simp add: well_chosen_def)
  note sel = select_capabilities_ok [OF once, where x = "([], \<lparr>ps_selected = [], ps_decisions = []\<rparr>)", simplified,
    OF this parts(1), simplified]
  note packs = add_packs_ok [OF once conjunct1 [OF sel], of L]
  note deps = dependencies_ok [OF once conjunct1 [OF packs] parts(2)]
  have more: "selects_more (missing, s) (missing, s')" using packs deps by (auto simp: selects_more_def)
  have serve: "served registry c platform now k (missing, s')" if "k \<in> set (rp_required plan)" for k
    using sel that more by (blast intro: served_more)
  have lacking: "\<not> (\<exists>r \<in> set registry. passes registry c (wanted platform k) now r)" if "k \<in> set missing" for k
    using sel that by auto
  have "if k \<in> set (rp_missing plan) then \<forall>r \<in> set registry. rejectReasons registry c (wanted platform k) now r \<noteq> []
      else \<exists>r \<in> set (rp_selected plan). rejectReasons registry c (wanted platform k) now r = []"
    if "k \<in> set (rp_required plan)" for k
  proof (cases "k \<in> set missing")
    case True
    then show ?thesis using lacking unfolding parts(3,4) rejectReasons_Nil by simp
  next
    case False
    with serve [OF that] have "\<exists>r \<in> chosen s'. passes registry c (wanted platform k) now r"
      unfolding served_def by (simp split: if_split_asm)
    with False show ?thesis unfolding parts(3,4) rejectReasons_Nil by simp
  qed
  moreover have "\<forall>r \<in> set (rp_selected plan). r \<in> set registry \<and> admissible c platform r \<and>
      (\<forall>d \<in> set (brp_dependencies (br_capabilities r)).
        d \<in> (\<lambda>r. bri_id (br_identity r)) ` set (rp_selected plan) \<or>
        (\<forall>s \<in> set registry. bri_id (br_identity s) = d \<longrightarrow> \<not> admissible c platform s))"
    using deps unfolding parts(3) settled_def by (auto simp: well_chosen_def chosen_def)
  ultimately show ?thesis using composed_ok [of L "rp_selected plan"] parts(4,5) by blast
qed

section \<open>A concrete plan\<close>

text \<open>
  Two resources that depend on each other, and one that stands alone. The second has a blocking security note and
  no allowed use: the selection rejects it, and the plan selects it nevertheless, as a dependency.
\<close>

definition suspect_dependency :: builder_resource where
  "suspect_dependency = on_governance (\<lambda>g. g\<lparr>brg_securityNotes := [''critical''], brg_allowedUse := [''none'']\<rparr>)
     (sample_resource ''core.base'' [''storage''] [''core.database''])"

definition sample_registry :: "builder_resource list" where
  "sample_registry = [sample_resource ''core.database'' [''database''] [''core.base''], suspect_dependency,
     sample_resource ''core.security'' [''security''] []]"

lemma sample_registered: "new_registry sample_registry = Inr sample_registry"
  by (simp add: new_registry_def sample_registry_def suspect_dependency_def sample_resource_def on_governance_def
    resource_key_def)

definition planned_resources :: "(selection_error, resource_plan) result option" where
  "planned_resources = createBuilderResourcePlan sample_collation sample_registry (\<lambda>_. []) stored_contract stored_plan
     stored_manifest None None 0"

lemma suspect_dependency_is_planned:
  "case planned_resources of Some (Inr plan) \<Rightarrow> rp_viable plan \<and> rp_required plan = [''database'', ''security''] \<and>
      map (\<lambda>r. bri_id (br_identity r)) (rp_selected plan) = [''core.database'', ''core.security'', ''core.base'']
   | _ \<Rightarrow> False"
  by code_simp

lemma suspect_dependency_is_rejected:
  "rejectReasons sample_registry stored_contract (wanted None ''storage'') 0 suspect_dependency =
     [UseNotAllowed, SecurityBlocked]"
  by code_simp

theorem resource_plan_is_closed_witness:
  "\<exists>plan. planned_resources = Some (Inr plan) \<and> exclusive (rp_selected plan) bro_routes"
proof -
  obtain plan where "planned_resources = Some (Inr plan)" "rp_viable plan"
    using suspect_dependency_is_planned by (auto split: option.splits sum.splits)
  then show ?thesis using resource_plan_is_closed [OF sample_registered, of sample_collation "\<lambda>_. []" stored_contract
      stored_plan stored_manifest None None 0 plan] unfolding planned_resources_def by blast
qed

lemma agreeing_sample:
  "pl_productType stored_plan = product_type_text (pc_productType stored_contract)"
  "pl_stack stored_plan = pc_stack stored_contract"
  "rm_productType stored_manifest = product_type_text (pc_productType stored_contract)"
  "rm_stack stored_manifest = pc_stack stored_contract"
  by code_simp+

theorem selection_offers_the_fit_witness:
  "\<exists>selected rejected. selectBuilderResources sample_collation sample_registry stored_contract stored_plan stored_manifest
      (wanted None ''database'') 0 = Inr (selected, rejected) \<and> suspect_dependency \<notin> sr_resource ` set selected"
proof -
  obtain selected rejected where "selectBuilderResources sample_collation sample_registry stored_contract stored_plan
      stored_manifest (wanted None ''database'') 0 = Inr (selected, rejected)"
    using agreeing_sample by (auto simp: selectBuilderResources_def Let_def)
  moreover have "rejectReasons sample_registry stored_contract (wanted None ''database'') 0 suspect_dependency \<noteq> []"
    by code_simp
  ultimately show ?thesis using selection_offers_the_fit by blast
qed

end
