(* ===== verification/Coordination.thy ===== *)
theory Coordination
  imports ResourcePlanning
begin

text \<open>
  The coordination of the code generating agents (\<open>src/lib/agentCoordination.ts\<close>): the context and the record
  made from an accepted plan, the handoff and ownership checks, the states of the tasks, the reconciliation of a
  resumed build, and the coder stage of the pipeline that runs the tasks over them
  (\<open>src/agents/.pipeline_parts/part1.txt\<close>, \<open>part2.txt\<close> and \<open>part4.txt\<close>, the parts of the
  generated pipeline). What the language model answers, when the build is aborted and whether the files can
  be stored are arguments; a message is the constructor of its text.
\<close>

section \<open>Records\<close>

datatype task_status = TaskPending | TaskBlocked | TaskRunning | TaskRetrying | TaskPaused | TaskFailed | TaskCompleted

definition TASK_STATUSES :: "task_status list" where
  "TASK_STATUSES = [TaskPending, TaskBlocked, TaskRunning, TaskRetrying, TaskPaused, TaskFailed, TaskCompleted]"

datatype coordination_error =
    MustHaveNotPlanned string | UnavailableDecision string | CapabilityRefused string
  | ManifestRefused manifest_error
  | ResourcesRefused selection_error | DuplicateOwnership string string string | InvalidRecord
  | UnknownTask string | DependencyOpen string string | OutsideContract string string
  | NotPlannedOwner string string | AgentOwnership string
  | NoGeneratedFiles string | UnownedFile string string | OverwritesFile string "string option"
  | MalformedOutput string | TaskContextFailed string | Noted string
  | NoPersistedOutput | MissingOutput "string list" | AbortInterrupted | TimeoutInterrupted | CancelInterrupted
  | TaskUnfinished string coordination_error

record task_state =
  ts_id :: string
  ts_owner :: string
  ts_requirementIds :: "string list"
  ts_dependencies :: "string list"
  ts_ownedFiles :: "string list"
  ts_validations :: "string list"
  ts_status :: task_status
  ts_attempts :: int
  ts_lastError :: "coordination_error option"
  ts_outputFiles :: "string list"

datatype event_type =
    InputEvent | StartEvent | DecisionEvent | HandoffEvent | OutputEvent | RetryEvent | PauseEvent | ResumeEvent
  | FailureEvent | CompleteEvent

datatype event_detail =
    StartingTask | RetryingTask | CompletedWith "string list" | HandedToDependents | PausedBeforeTask
  | FailedWith coordination_error | ResumedState | PlanHandedOver | TimedOut | Cancelled

record coordination_event =
  ev_at :: string
  ev_agent :: string
  ev_type :: event_type
  ev_task :: "string option"
  ev_provider :: "string option"
  ev_model :: "string option"
  ev_detail :: event_detail

record coordination_record =
  rc_projectId :: int
  rc_productType :: string
  rc_stack :: string
  rc_title :: string
  rc_requirementIds :: "string list"
  rc_researchIds :: "string list"
  rc_usage :: "resource_usage list"
  rc_decisions :: "decision_evidence list"
  rc_tasks :: "(string \<times> task_state) list"
  rc_owners :: "(string \<times> string) list"
  rc_events :: "coordination_event list"
  rc_updatedAt :: string

record coordination_context =
  ct_contract :: product_contract
  ct_plan :: product_plan
  ct_research :: "string list"
  ct_requirementIds :: "string list"
  ct_resources :: resource_plan

section \<open>Schemas\<close>

definition trim_state :: "task_state \<Rightarrow> task_state" where
  "trim_state t = t\<lparr>ts_id := js_trim (ts_id t), ts_owner := js_trim (ts_owner t),
     ts_requirementIds := trim_texts (ts_requirementIds t), ts_dependencies := trim_texts (ts_dependencies t),
     ts_ownedFiles := trim_texts (ts_ownedFiles t), ts_validations := trim_texts (ts_validations t),
     ts_outputFiles := trim_texts (ts_outputFiles t)\<rparr>"

definition taskCoordinationStateSchema :: "task_state \<Rightarrow> bool" where
  "taskCoordinationStateSchema t \<longleftrightarrow> ts_id t \<noteq> [] \<and> ts_owner t \<noteq> [] \<and> texts_ok (ts_requirementIds t) \<and>
     texts_ok (ts_dependencies t) \<and> texts_ok (ts_ownedFiles t) \<and> texts_ok (ts_validations t) \<and>
     0 \<le> ts_attempts t \<and> texts_ok (ts_outputFiles t)"

definition trim_event :: "coordination_event \<Rightarrow> coordination_event" where
  "trim_event e = e\<lparr>ev_at := js_trim (ev_at e), ev_agent := js_trim (ev_agent e)\<rparr>"

definition coordinationEventSchema :: "coordination_event \<Rightarrow> bool" where
  "coordinationEventSchema e \<longleftrightarrow> ev_at e \<noteq> [] \<and> ev_agent e \<noteq> []"

definition trim_usage :: "resource_usage \<Rightarrow> resource_usage" where
  "trim_usage u = \<lparr>ru_resource = js_trim (ru_resource u), ru_version = js_trim (ru_version u),
     ru_ledger = trim_texts (ru_ledger u)\<rparr>"

definition builderResourceUsageSchema :: "resource_usage \<Rightarrow> bool" where
  "builderResourceUsageSchema u \<longleftrightarrow> ru_resource u \<noteq> [] \<and> ru_version u \<noteq> [] \<and> texts_ok (ru_ledger u)"

definition trim_decision :: "decision_evidence \<Rightarrow> decision_evidence" where
  "trim_decision d = d\<lparr>de_capability := js_trim (de_capability d), de_resource := js_trim (de_resource d),
     de_version := js_trim (de_version d), de_requirementIds := trim_texts (de_requirementIds d),
     de_ledger := trim_texts (de_ledger d)\<rparr>"

definition builderResourceDecisionSchema :: "decision_evidence \<Rightarrow> bool" where
  \<comment> \<open>no rationale has an empty text\<close>
  "builderResourceDecisionSchema d \<longleftrightarrow> de_capability d \<noteq> [] \<and> de_resource d \<noteq> [] \<and> de_version d \<noteq> [] \<and>
     texts_ok (de_requirementIds d) \<and> texts_ok (de_ledger d)"

definition trim_record :: "coordination_record \<Rightarrow> coordination_record" where
  "trim_record r = r\<lparr>rc_productType := js_trim (rc_productType r), rc_stack := js_trim (rc_stack r),
     rc_title := js_trim (rc_title r), rc_requirementIds := trim_texts (rc_requirementIds r),
     rc_researchIds := trim_texts (rc_researchIds r), rc_usage := map trim_usage (rc_usage r),
     rc_decisions := map trim_decision (rc_decisions r),
     rc_tasks := map (\<lambda>(k, t). (k, trim_state t)) (rc_tasks r),
     rc_owners := map (\<lambda>(k, t). (k, js_trim t)) (rc_owners r),
     rc_events := map trim_event (rc_events r), rc_updatedAt := js_trim (rc_updatedAt r)\<rparr>"

definition agentCoordinationRecordSchema :: "coordination_record \<Rightarrow> bool" where
  "agentCoordinationRecordSchema r \<longleftrightarrow> 0 < rc_projectId r \<and> rc_productType r \<noteq> [] \<and> rc_stack r \<noteq> [] \<and>
     rc_title r \<noteq> [] \<and> texts_ok (rc_requirementIds r) \<and> texts_ok (rc_researchIds r) \<and>
     list_all builderResourceUsageSchema (rc_usage r) \<and> list_all builderResourceDecisionSchema (rc_decisions r) \<and>
     list_all (\<lambda>e. taskCoordinationStateSchema (snd e)) (rc_tasks r) \<and> texts_ok (map snd (rc_owners r)) \<and>
     list_all coordinationEventSchema (rc_events r) \<and> rc_updatedAt r \<noteq> []"

definition parse_record :: "coordination_record \<Rightarrow> (coordination_error, coordination_record) result" where
  "parse_record r = (let r = trim_record r in if agentCoordinationRecordSchema r then Inr r else Inl InvalidRecord)"

section \<open>Context and record\<close>

fun first_error :: "('a \<Rightarrow> 'e option) \<Rightarrow> 'a list \<Rightarrow> ('e, unit) result" where
  \<comment> \<open>a loop that throws at the first item with an error\<close>
  "first_error f [] = Inr ()"
| "first_error f (x # xs) = (case f x of Some e \<Rightarrow> Inl e | None \<Rightarrow> first_error f xs)"

definition createAgentCoordinationContext :: "collation \<Rightarrow> builder_resource list \<Rightarrow> (string \<Rightarrow> string list) \<Rightarrow>
    product_contract \<Rightarrow> product_plan \<Rightarrow> string list \<Rightarrow> string \<Rightarrow> int \<Rightarrow>
    (coordination_error, coordination_context) result option" where
  \<comment> \<open>the research record is the ids of its decisions\<close>
  "createAgentCoordinationContext L registry creative c p research nowText now =
    (let planned = concat (map tk_requirementIds (pl_tasks p)) in
     case bind_result (first_error (\<lambda>q. if cr_priority q = Must \<and> cr_id q \<notin> set planned
         then Some (MustHaveNotPlanned (cr_id q)) else None) (pc_requirements c)) (\<lambda>_.
       bind_result (first_error (\<lambda>d. if d \<notin> set research then Some (UnavailableDecision d) else None)
         (pl_research p)) (\<lambda>_.
       bind_result (lift_error CapabilityRefused (buildCapabilityDependencies c)) (\<lambda>capabilities.
       lift_error ManifestRefused (createRequirementManifest (manifest_contract_of c) (manifest_plan_of p)
         capabilities None nowText)))) of
       Inl e \<Rightarrow> Some (Inl e)
     | Inr m \<Rightarrow> map_option (\<lambda>resources. map_sum ResourcesRefused (\<lambda>resources. \<lparr>ct_contract = c, ct_plan = p,
           ct_research = research, ct_requirementIds = map cr_id (pc_requirements c), ct_resources = resources\<rparr>) resources)
         (createBuilderResourcePlan L registry creative c p m None None now))"

fun own_files :: "string \<Rightarrow> string list \<Rightarrow> (string \<times> string) list \<Rightarrow>
    (coordination_error, (string \<times> string) list) result" where
  "own_files task [] owners = Inr owners"
| "own_files task (file # files) owners =
    (let existing = (case map_of owners file of None \<Rightarrow> [] | Some e \<Rightarrow> e) in
     if existing \<noteq> [] \<and> existing \<noteq> task then Inl (DuplicateOwnership file existing task)
     else own_files task files (update_entry file (\<lambda>_. task) owners))"

definition initial_state :: "plan_task \<Rightarrow> task_state" where
  "initial_state t = \<lparr>ts_id = tk_id t, ts_owner = agent_text (tk_agent t), ts_requirementIds = tk_requirementIds t,
     ts_dependencies = tk_dependencies t, ts_ownedFiles = tk_files t, ts_validations = tk_validations t,
     ts_status = (if tk_dependencies t \<noteq> [] then TaskBlocked else TaskPending), ts_attempts = 0,
     ts_lastError = None, ts_outputFiles = []\<rparr>"

fun assign_tasks :: "plan_task list \<Rightarrow> (string \<times> string) list \<Rightarrow> (string \<times> task_state) list \<Rightarrow>
    (coordination_error, (string \<times> string) list \<times> (string \<times> task_state) list) result" where
  "assign_tasks [] owners states = Inr (owners, states)"
| "assign_tasks (t # ts) owners states =
     bind_result (own_files (tk_id t) (tk_files t) owners) (\<lambda>owners.
       assign_tasks ts owners (update_entry (tk_id t) (\<lambda>_. initial_state t) states))"

definition createAgentCoordinationRecord :: "int \<Rightarrow> coordination_context \<Rightarrow> string \<Rightarrow>
    (coordination_error, coordination_record) result" where
  "createAgentCoordinationRecord projectId x now =
     bind_result (assign_tasks (pl_tasks (ct_plan x)) [] []) (\<lambda>(owners, states).
       parse_record \<lparr>rc_projectId = projectId, rc_productType = product_type_text (pc_productType (ct_contract x)),
         rc_stack = pc_stack (ct_contract x), rc_title = pl_title (ct_plan x),
         rc_requirementIds = ct_requirementIds x, rc_researchIds = pl_research (ct_plan x),
         rc_usage = usageRecords (ct_resources x), rc_decisions = rp_decisions (ct_resources x),
         rc_tasks = states, rc_owners = owners, rc_events = [], rc_updatedAt = now\<rparr>)"

section \<open>Handoff and ownership\<close>

definition validateTaskHandoff :: "coordination_context \<Rightarrow> coordination_record \<Rightarrow> plan_task \<Rightarrow> string list \<Rightarrow>
    (coordination_error, unit) result" where
  "validateTaskHandoff x r t completed =
    (if tk_id t \<notin> tk_id ` set (pl_tasks (ct_plan x)) then Inl (UnknownTask (tk_id t))
     else
       bind_result (first_error (\<lambda>d. if d \<notin> set completed then Some (DependencyOpen (tk_id t) d) else None)
         (tk_dependencies t)) (\<lambda>_.
       bind_result (first_error (\<lambda>q. if q \<notin> set (ct_requirementIds x) then Some (OutsideContract (tk_id t) q) else None)
         (tk_requirementIds t)) (\<lambda>_.
       bind_result (first_error (\<lambda>file. if map_of (rc_owners r) file \<noteq> Some (tk_id t)
           then Some (NotPlannedOwner (tk_id t) file) else None) (tk_files t)) (\<lambda>_.
       if map_of (pl_taskToAgent (ct_plan x)) (tk_id t) \<noteq> Some (agent_text (tk_agent t))
       then Inl (AgentOwnership (tk_id t)) else Inr ()))))"

definition assertTaskOutputOwnership :: "plan_task \<Rightarrow> string list \<Rightarrow> coordination_record \<Rightarrow>
    (coordination_error, unit) result" where
  "assertTaskOutputOwnership t produced r =
    (if produced = [] then Inl (NoGeneratedFiles (tk_id t))
     else first_error (\<lambda>file. if file \<notin> set (tk_files t) then Some (UnownedFile (tk_id t) file)
       else if map_of (rc_owners r) file \<noteq> Some (tk_id t)
       then Some (OverwritesFile (tk_id t) (map_of (rc_owners r) file)) else None) produced)"

definition appendCoordinationEvent :: "coordination_event \<Rightarrow> string \<Rightarrow> coordination_record \<Rightarrow>
    (coordination_error, coordination_record) result" where
  "appendCoordinationEvent e now r =
    (let e = trim_event e in
     if \<not> coordinationEventSchema e then Inl InvalidRecord
     else let events = rc_events r @ [e]
       in parse_record (r\<lparr>rc_events := drop (length events - 500) events, rc_updatedAt := now\<rparr>))"

section \<open>Task states\<close>

record task_patch =
  tp_owner :: "string option"
  tp_requirementIds :: "string list option"
  tp_dependencies :: "string list option"
  tp_ownedFiles :: "string list option"
  tp_validations :: "string list option"
  tp_status :: "task_status option"
  tp_attempts :: "int option"
  tp_lastError :: "coordination_error option option"
  tp_outputFiles :: "string list option"

definition no_patch :: task_patch where
  "no_patch = \<lparr>tp_owner = None, tp_requirementIds = None, tp_dependencies = None, tp_ownedFiles = None,
     tp_validations = None, tp_status = None, tp_attempts = None, tp_lastError = None, tp_outputFiles = None\<rparr>"

definition patched :: "'a option \<Rightarrow> 'a \<Rightarrow> 'a" where
  "patched new old = (case new of None \<Rightarrow> old | Some x \<Rightarrow> x)"

definition patch_state :: "string \<Rightarrow> task_patch \<Rightarrow> task_state \<Rightarrow> task_state" where
  "patch_state i p t = \<lparr>ts_id = i, ts_owner = patched (tp_owner p) (ts_owner t),
     ts_requirementIds = patched (tp_requirementIds p) (ts_requirementIds t),
     ts_dependencies = patched (tp_dependencies p) (ts_dependencies t),
     ts_ownedFiles = patched (tp_ownedFiles p) (ts_ownedFiles t),
     ts_validations = patched (tp_validations p) (ts_validations t),
     ts_status = patched (tp_status p) (ts_status t), ts_attempts = patched (tp_attempts p) (ts_attempts t),
     ts_lastError = patched (tp_lastError p) (ts_lastError t),
     ts_outputFiles = patched (tp_outputFiles p) (ts_outputFiles t)\<rparr>"

definition updateTaskCoordinationState :: "string \<Rightarrow> task_patch \<Rightarrow> string \<Rightarrow> coordination_record \<Rightarrow>
    (coordination_error, coordination_record) result" where
  "updateTaskCoordinationState i p now r = (case map_of (rc_tasks r) i of None \<Rightarrow> Inl (UnknownTask i)
     | Some current \<Rightarrow> parse_record (r\<lparr>rc_tasks := update_entry i (\<lambda>_. patch_state i p current) (rc_tasks r),
         rc_updatedAt := now\<rparr>))"

definition completed_ids :: "coordination_record \<Rightarrow> string list" where
  "completed_ids r = map ts_id (filter (\<lambda>t. ts_status t = TaskCompleted) (map snd (rc_tasks r)))"

definition unlock_state :: "string list \<Rightarrow> task_state \<Rightarrow> task_state" where
  "unlock_state completed t = (if ts_status t = TaskBlocked \<and> set (ts_dependencies t) \<subseteq> set completed
     then t\<lparr>ts_status := TaskPending\<rparr> else t)"

definition unlockReadyTasks :: "string \<Rightarrow> coordination_record \<Rightarrow> (coordination_error, coordination_record) result" where
  "unlockReadyTasks now r = parse_record (r\<lparr>rc_tasks := map (\<lambda>(k, t). (k, unlock_state (completed_ids r) t)) (rc_tasks r),
     rc_updatedAt := now\<rparr>)"

definition reopened :: "task_state \<Rightarrow> task_status" where
  "reopened t = (if ts_dependencies t \<noteq> [] then TaskBlocked else TaskPending)"

definition reconcile_task :: "artifact_files \<Rightarrow> string option \<Rightarrow> string \<Rightarrow> string \<times> task_state \<Rightarrow>
    coordination_record \<Rightarrow> (coordination_error, coordination_record) result" where
  "reconcile_task generated repair now = (\<lambda>(i, t) r.
     if ts_status t \<noteq> TaskCompleted then Inr r
     else case repair of Some reason \<Rightarrow>
         updateTaskCoordinationState i (no_patch\<lparr>tp_status := Some (reopened t), tp_lastError := Some (Some (Noted reason))\<rparr>)
           now r
     | None \<Rightarrow>
         let missing = filter (\<lambda>file. file \<notin> fst ` set generated) (ts_outputFiles t) in
         if ts_outputFiles t = [] \<or> missing \<noteq> [] then
           updateTaskCoordinationState i (no_patch\<lparr>tp_status := Some (reopened t),
             tp_lastError := Some (Some (if ts_outputFiles t = [] then NoPersistedOutput else MissingOutput missing)),
             tp_outputFiles := Some []\<rparr>) now r
         else Inr r)"

fun reconcile_tasks :: "artifact_files \<Rightarrow> string option \<Rightarrow> string \<Rightarrow> (string \<times> task_state) list \<Rightarrow>
    coordination_record \<Rightarrow> (coordination_error, coordination_record) result" where
  "reconcile_tasks generated repair now [] r = Inr r"
| "reconcile_tasks generated repair now (e # es) r =
     bind_result (reconcile_task generated repair now e r) (reconcile_tasks generated repair now es)"

definition reconcileCoordinationResume :: "coordination_record \<Rightarrow> artifact_files \<Rightarrow> string option \<Rightarrow> string \<Rightarrow>
    (coordination_error, coordination_record) result" where
  \<comment> \<open>an empty repair reason counts as none\<close>
  "reconcileCoordinationResume r generated repair now =
     bind_result (reconcile_tasks generated (if repair = Some [] then None else repair) now (rc_tasks r) r)
       (unlockReadyTasks now)"

definition coordinationStatusSummary :: "coordination_record \<Rightarrow> (task_status \<times> nat) list" where
  "coordinationStatusSummary r =
     map (\<lambda>s. (s, length (filter (\<lambda>e. ts_status (snd e) = s) (rc_tasks r)))) TASK_STATUSES"

section \<open>The coder stage\<close>

record model_answer =
  an_provider :: string
  an_model :: "string option"
  an_files :: "(string, artifact_files) result"
    \<comment> \<open>the error of the model call or of the validation of the output, or the parsed files\<close>
  an_stored :: "string option"
    \<comment> \<open>the error of storing the files, if any\<close>

record coder_env =
  en_now :: string
  en_aborted :: "string \<Rightarrow> nat \<Rightarrow> bool"
    \<comment> \<open>whether the build is aborted before a task (0) or after its n-th attempt\<close>
  en_context :: "string \<Rightarrow> string option"
    \<comment> \<open>the error of building the context of a task, if any\<close>
  en_answer :: "string \<Rightarrow> nat \<Rightarrow> model_answer"

record coder_state =
  cs_record :: coordination_record
  cs_completed :: "string list"
  cs_files :: artifact_files

datatype stage_end = StageFinished | StageInterrupted | StageThrew coordination_error

datatype attempt_end = Succeeded | Exhausted coordination_error | Threw coordination_error

definition coder_event :: "coder_env \<Rightarrow> plan_task \<Rightarrow> event_type \<Rightarrow> model_answer option \<Rightarrow> event_detail \<Rightarrow>
    coordination_record \<Rightarrow> (coordination_error, coordination_record) result" where
  "coder_event E t kind answer detail = appendCoordinationEvent \<lparr>ev_at = en_now E, ev_agent = agent_text (tk_agent t),
     ev_type = kind, ev_task = Some (tk_id t), ev_provider = map_option an_provider answer,
     ev_model = Option.bind answer an_model, ev_detail = detail\<rparr> (en_now E)"

definition given :: "coordination_error \<Rightarrow> coordination_error option" where
  \<comment> \<open>\<open>taskLastError || null\<close>\<close>
  "given e = (if e = Noted [] then None else Some e)"

definition assign_files :: "artifact_files \<Rightarrow> artifact_files \<Rightarrow> artifact_files" where
  \<comment> \<open>\<open>Object.assign\<close>\<close>
  "assign_files files parsed = fold (\<lambda>(k, v). update_entry k (\<lambda>_. v)) parsed files"

definition begin_attempt :: "coder_env \<Rightarrow> plan_task \<Rightarrow> nat \<Rightarrow> coordination_error \<Rightarrow> coordination_record \<Rightarrow>
    (coordination_error, coordination_record) result" where
  "begin_attempt E t k latest r =
    (let previous = (case map_of (rc_tasks r) (tk_id t) of None \<Rightarrow> 0 | Some s \<Rightarrow> ts_attempts s) in
     bind_result (updateTaskCoordinationState (tk_id t) (no_patch\<lparr>
         tp_status := Some (if k = 1 then TaskRunning else TaskRetrying), tp_attempts := Some (previous + 1),
         tp_lastError := Some (given latest)\<rparr>) (en_now E) r)
       (coder_event E t (if k = 1 then StartEvent else RetryEvent) (Some (en_answer E (tk_id t) k))
         (if k = 1 then StartingTask else RetryingTask)))"

definition output_patch :: "string list \<Rightarrow> task_patch" where
  "output_patch produced = no_patch\<lparr>tp_status := Some TaskCompleted, tp_lastError := Some None,
     tp_outputFiles := Some produced\<rparr>"

definition hand_over :: "coder_env \<Rightarrow> plan_task \<Rightarrow> model_answer \<Rightarrow> string list \<Rightarrow> coder_state \<Rightarrow>
    coder_state \<times> coordination_error option" where
  "hand_over E t answer produced s =
    (case unlockReadyTasks (en_now E) (cs_record s) of Inl e \<Rightarrow> (s, Some e)
     | Inr r \<Rightarrow>
         case coder_event E t OutputEvent (Some answer) (CompletedWith produced) r of Inl e \<Rightarrow> (s\<lparr>cs_record := r\<rparr>, Some e)
         | Inr r' \<Rightarrow>
             case coder_event E t HandoffEvent None HandedToDependents r' of Inl e \<Rightarrow> (s\<lparr>cs_record := r'\<rparr>, Some e)
             | Inr r'' \<Rightarrow> (s\<lparr>cs_record := r''\<rparr>, map_option Noted (an_stored answer)))"

definition accept_output :: "coder_env \<Rightarrow> plan_task \<Rightarrow> nat \<Rightarrow> coder_state \<Rightarrow> coder_state \<times> coordination_error option" where
  \<comment> \<open>the body of the try block, with the state it leaves when it throws\<close>
  "accept_output E t k s =
    (let answer = en_answer E (tk_id t) k in
     case an_files answer of Inl e \<Rightarrow> (s, Some (Noted e))
     | Inr parsed \<Rightarrow>
         if parsed = [] then (s, Some (MalformedOutput (tk_id t)))
         else case assertTaskOutputOwnership t (map fst parsed) (cs_record s) of Inl e \<Rightarrow> (s, Some e)
         | Inr _ \<Rightarrow>
             let s = s\<lparr>cs_files := assign_files (cs_files s) parsed\<rparr>; produced = remdups (map fst parsed) in
             case updateTaskCoordinationState (tk_id t) (output_patch produced) (en_now E) (cs_record s) of
               Inl e \<Rightarrow> (s, Some e)
             | Inr r \<Rightarrow>
                 hand_over E t answer produced (s\<lparr>cs_record := r, cs_completed := tk_id t # cs_completed s\<rparr>))"

definition note_failure :: "coder_env \<Rightarrow> plan_task \<Rightarrow> nat \<Rightarrow> coordination_error \<Rightarrow> coordination_record \<Rightarrow>
    (coordination_error, coordination_record) result" where
  "note_failure E t k e r =
     bind_result (updateTaskCoordinationState (tk_id t) (no_patch\<lparr>
         tp_status := Some (if k < 3 then TaskRetrying else TaskFailed), tp_lastError := Some (Some e)\<rparr>) (en_now E) r)
       (coder_event E t (if k < 3 then RetryEvent else FailureEvent) (Some (en_answer E (tk_id t) k)) (FailedWith e))"

fun attempt_loop :: "coder_env \<Rightarrow> plan_task \<Rightarrow> nat \<Rightarrow> coordination_error \<Rightarrow> coder_state \<Rightarrow> coder_state \<times> attempt_end" where
  \<comment> \<open>the number of attempts left, of three\<close>
  "attempt_loop E t 0 latest s = (s, Exhausted latest)"
| "attempt_loop E t (Suc n) latest s =
    (let k = 3 - n in
     case begin_attempt E t k latest (cs_record s) of Inl e \<Rightarrow> (s, Threw e)
     | Inr r \<Rightarrow>
         case accept_output E t k (s\<lparr>cs_record := r\<rparr>) of
           (s, None) \<Rightarrow> (s, Succeeded)
         | (s, Some e) \<Rightarrow>
             case note_failure E t k e (cs_record s) of Inl e' \<Rightarrow> (s, Threw e')
             | Inr r \<Rightarrow> if en_aborted E (tk_id t) k then (s\<lparr>cs_record := r\<rparr>, Exhausted e)
                 else attempt_loop E t n e (s\<lparr>cs_record := r\<rparr>))"

definition last_error :: "coordination_record \<Rightarrow> string \<Rightarrow> coordination_error" where
  "last_error r i = (case map_of (rc_tasks r) i of None \<Rightarrow> Noted [] | Some t \<Rightarrow> patched (ts_lastError t) (Noted []))"

definition task_completed :: "coordination_record \<Rightarrow> string \<Rightarrow> bool" where
  "task_completed r i \<longleftrightarrow> (case map_of (rc_tasks r) i of None \<Rightarrow> False | Some t \<Rightarrow> ts_status t = TaskCompleted)"

definition pause_task :: "coder_env \<Rightarrow> plan_task \<Rightarrow> coordination_record \<Rightarrow>
    (coordination_error, coordination_record) result" where
  "pause_task E t r = (if map_of (rc_tasks r) (tk_id t) = None then Inr r
     else bind_result (updateTaskCoordinationState (tk_id t) (no_patch\<lparr>tp_status := Some TaskPaused,
         tp_lastError := Some (Some AbortInterrupted)\<rparr>) (en_now E) r)
       (coder_event E t PauseEvent None PausedBeforeTask))"

fun run_tasks :: "coder_env \<Rightarrow> coordination_context \<Rightarrow> plan_task list \<Rightarrow> coder_state \<Rightarrow> coder_state \<times> stage_end" where
  "run_tasks E x [] s = (s, StageFinished)"
| "run_tasks E x (t # ts) s =
    (if en_aborted E (tk_id t) 0 then
       (case pause_task E t (cs_record s) of Inl e \<Rightarrow> (s, StageThrew e)
        | Inr r \<Rightarrow> (s\<lparr>cs_record := r\<rparr>, StageInterrupted))
     else if task_completed (cs_record s) (tk_id t) then run_tasks E x ts s
     else case validateTaskHandoff x (cs_record s) t (cs_completed s) of Inl e \<Rightarrow> (s, StageThrew e)
     | Inr _ \<Rightarrow>
         case en_context E (tk_id t) of Some e \<Rightarrow> (s, StageThrew (TaskContextFailed e))
         | None \<Rightarrow>
             case attempt_loop E t 3 (last_error (cs_record s) (tk_id t)) s of
               (s, Succeeded) \<Rightarrow> run_tasks E x ts s
             | (s, Exhausted e) \<Rightarrow> (s, StageThrew (TaskUnfinished (tk_id t) e))
             | (s, Threw e) \<Rightarrow> (s, StageThrew e))"

definition system_event :: "string \<Rightarrow> string \<Rightarrow> event_type \<Rightarrow> string option \<Rightarrow> string option \<Rightarrow> event_detail \<Rightarrow>
    coordination_record \<Rightarrow> (coordination_error, coordination_record) result" where
  "system_event now agent kind provider model detail = appendCoordinationEvent \<lparr>ev_at = now, ev_agent = agent,
     ev_type = kind, ev_task = None, ev_provider = provider, ev_model = model, ev_detail = detail\<rparr> now"

definition resume_coordination :: "coordination_context \<Rightarrow> coordination_record option \<Rightarrow> artifact_files \<Rightarrow>
    string option \<Rightarrow> int \<Rightarrow> string option \<Rightarrow> string option \<Rightarrow> string \<Rightarrow>
    (coordination_error, coordination_record \<times> artifact_files) result" where
  \<comment> \<open>the record and the files that a build starts with: the stored record reconciled, or a fresh one\<close>
  "resume_coordination x stored generated repair projectId provider model now =
     bind_result (createAgentCoordinationRecord projectId x now) (\<lambda>fresh.
       case Option.bind stored (\<lambda>r. case parse_record r of Inl _ \<Rightarrow> None | Inr r \<Rightarrow> Some r) of None \<Rightarrow> Inr (fresh, [])
       | Some r \<Rightarrow>
           if rc_productType r = product_type_text (pc_productType (ct_contract x)) \<and>
              rc_stack r = pc_stack (ct_contract x) \<and> rc_title r = pl_title (ct_plan x) \<and>
              list_all (\<lambda>e. fst e \<in> tk_id ` set (pl_tasks (ct_plan x))) (rc_tasks r)
           then bind_result (reconcileCoordinationResume r generated repair now) (\<lambda>r.
             map_sum id (\<lambda>r. (r, generated)) (system_event now ''System'' ResumeEvent provider model ResumedState r))
           else map_sum id (\<lambda>r. (r, [])) (parse_record (fresh\<lparr>rc_events := rc_events r\<rparr>)))"

definition prepare_coder :: "string option \<Rightarrow> string option \<Rightarrow> string \<Rightarrow> coordination_record \<times> artifact_files \<Rightarrow>
    (coordination_error, coder_state) result" where
  \<comment> \<open>the completed tasks are those of the record before it is unlocked\<close>
  "prepare_coder provider model now = (\<lambda>(r, files).
     map_sum id (\<lambda>r'. \<lparr>cs_record = r', cs_completed = completed_ids r, cs_files = files\<rparr>)
       (bind_result (unlockReadyTasks now r) (system_event now ''Planner'' HandoffEvent provider model PlanHandedOver)))"

definition coder_stage :: "coder_env \<Rightarrow> coordination_context \<Rightarrow> coder_state \<Rightarrow> coder_state \<times> stage_end" where
  "coder_stage E x s = run_tasks E x (sort_key tk_sequence (pl_tasks (ct_plan x))) s"

definition pause_running :: "bool \<Rightarrow> string \<Rightarrow> string \<times> task_state \<Rightarrow> coordination_record \<Rightarrow>
    (coordination_error, coordination_record) result" where
  "pause_running timeout now = (\<lambda>(i, t) r.
     if ts_status t \<in> {TaskRunning, TaskRetrying}
     then updateTaskCoordinationState i (no_patch\<lparr>tp_status := Some TaskPaused,
       tp_lastError := Some (Some (if timeout then TimeoutInterrupted else CancelInterrupted))\<rparr>) now r
     else Inr r)"

fun pause_all :: "bool \<Rightarrow> string \<Rightarrow> (string \<times> task_state) list \<Rightarrow> coordination_record \<Rightarrow>
    (coordination_error, coordination_record) result" where
  "pause_all timeout now [] r = Inr r"
| "pause_all timeout now (e # es) r = bind_result (pause_running timeout now e r) (pause_all timeout now es)"

definition interrupt_coordination :: "bool \<Rightarrow> string \<Rightarrow> coordination_record \<Rightarrow>
    (coordination_error, coordination_record) result" where
  "interrupt_coordination timeout now r = bind_result (pause_all timeout now (rc_tasks r) r)
     (system_event now ''System'' PauseEvent None None (if timeout then TimedOut else Cancelled))"

section \<open>Sound records\<close>

definition sound :: "coordination_record \<Rightarrow> bool" where
  "sound r \<longleftrightarrow> trim_record r = r \<and> agentCoordinationRecordSchema r"

lemma trim_parts_stay [simp]:
  "trim_state (trim_state t) = trim_state t" "trim_event (trim_event e) = trim_event e"
  "trim_usage (trim_usage u) = trim_usage u" "trim_decision (trim_decision d) = trim_decision d"
  by (simp_all add: trim_state_def trim_event_def trim_usage_def trim_decision_def)

lemma trim_record_idem: "trim_record (trim_record r) = trim_record r"
  by (simp add: trim_record_def comp_def case_prod_beta)

lemma parse_record_iff: "parse_record r = Inr s \<longleftrightarrow> s = trim_record r \<and> agentCoordinationRecordSchema s"
  by (auto simp: parse_record_def Let_def)

lemma parse_record_sound: "parse_record r = Inr s \<Longrightarrow> sound s"
  by (auto simp: parse_record_iff sound_def trim_record_idem)

lemma trim_record_fields [simp]:
  "rc_tasks (trim_record r) = map (\<lambda>(k, t). (k, trim_state t)) (rc_tasks r)"
  "rc_owners (trim_record r) = map (\<lambda>(k, t). (k, js_trim t)) (rc_owners r)"
  by (simp_all add: trim_record_def)

lemma sound_fields:
  "sound r \<Longrightarrow> map (\<lambda>(k, t). (k, trim_state t)) (rc_tasks r) = rc_tasks r"
  "sound r \<Longrightarrow> map (\<lambda>(k, t). (k, js_trim t)) (rc_owners r) = rc_owners r"
  by (metis sound_def trim_record_fields(1)) (metis sound_def trim_record_fields(2))

abbreviation view :: "coordination_record \<Rightarrow> string \<Rightarrow> task_state option" where
  "view r \<equiv> map_of (rc_tasks r)"

lemma map_of_trimmed: "map_of (map (\<lambda>(k, t). (k, f t)) m) i = map_option f (map_of m i)"
  by (induction m) auto

lemma sound_view: "sound r \<Longrightarrow> view r i = Some t \<Longrightarrow> trim_state t = t \<and> taskCoordinationStateSchema t"
proof -
  assume r: "sound r" and t: "view r i = Some t"
  from t have "(i, t) \<in> set (rc_tasks r)" by (rule map_of_SomeD)
  with r have "taskCoordinationStateSchema t" by (auto simp: sound_def agentCoordinationRecordSchema_def list_all_iff)
  moreover have "map_option trim_state (view r i) = view r i"
    using sound_fields(1) [OF r] map_of_trimmed [of trim_state "rc_tasks r" i] by simp
  ultimately show ?thesis using t by simp
qed

text \<open>What the operations do to the states of the tasks, and that they leave the owners of the files alone.\<close>

lemma update_view:
  assumes "sound r" "updateTaskCoordinationState i p now r = Inr r'"
  shows "sound r' \<and> rc_owners r' = rc_owners r \<and>
    (\<exists>t. view r i = Some t \<and> view r' = (view r)(i \<mapsto> trim_state (patch_state i p t)))"
proof -
  obtain t where t: "view r i = Some t"
    "parse_record (r\<lparr>rc_tasks := update_entry i (\<lambda>_. patch_state i p t) (rc_tasks r), rc_updatedAt := now\<rparr>) = Inr r'"
    using assms(2) by (auto simp: updateTaskCoordinationState_def split: option.splits)
  then have r': "rc_tasks r' = map (\<lambda>(k, t). (k, trim_state t)) (update_entry i (\<lambda>_. patch_state i p t) (rc_tasks r))"
    "rc_owners r' = map (\<lambda>(k, t). (k, js_trim t)) (rc_owners r)"
    by (simp_all add: parse_record_iff)
  have "view r' j = ((view r)(i \<mapsto> trim_state (patch_state i p t))) j" for j
  proof -
    have "map_option trim_state (view r j) = view r j"
      using sound_fields(1) [OF assms(1)] map_of_trimmed [of trim_state "rc_tasks r" j] by simp
    then show ?thesis by (simp add: r'(1) map_of_trimmed update_entry_lookup)
  qed
  then show ?thesis using t(1) parse_record_sound [OF t(2)] r'(2) sound_fields(2) [OF assms(1)] by auto
qed

lemma same_tasks:
  assumes "sound r" "parse_record (r\<lparr>rc_events := es, rc_updatedAt := now\<rparr>) = Inr r'"
  shows "sound r' \<and> rc_owners r' = rc_owners r \<and> rc_tasks r' = rc_tasks r"
  using assms sound_fields [OF assms(1)] parse_record_sound [OF assms(2)] by (auto simp: parse_record_iff)

lemma event_view:
  assumes "sound r" "appendCoordinationEvent e now r = Inr r'"
  shows "sound r' \<and> rc_owners r' = rc_owners r \<and> rc_tasks r' = rc_tasks r"
  using assms same_tasks [OF assms(1)] by (auto simp: appendCoordinationEvent_def Let_def split: if_splits)

lemma coder_event_view:
  "sound r \<Longrightarrow> coder_event E t kind answer detail r = Inr r' \<Longrightarrow>
    sound r' \<and> rc_owners r' = rc_owners r \<and> rc_tasks r' = rc_tasks r"
  unfolding coder_event_def by (rule event_view)

lemma trim_unlocked: "trim_state t = t \<Longrightarrow> trim_state (unlock_state done t) = unlock_state done t"
  by (cases t) (simp add: unlock_state_def trim_state_def)

lemma map_fixed: "map f xs = xs \<Longrightarrow> x \<in> set xs \<Longrightarrow> f x = x"
  by (induction xs) auto

lemma unlock_view:
  assumes "sound r" "unlockReadyTasks now r = Inr r'"
  shows "sound r' \<and> rc_owners r' = rc_owners r \<and>
    rc_tasks r' = map (\<lambda>(k, t). (k, unlock_state (completed_ids r) t)) (rc_tasks r)"
proof -
  let ?ts = "map (\<lambda>(k, t). (k, unlock_state (completed_ids r) t)) (rc_tasks r)"
  have "map (\<lambda>(k, t). (k, trim_state t)) ?ts = ?ts"
  proof -
    have "trim_state t = t" if "(k, t) \<in> set (rc_tasks r)" for k t
      using map_fixed [OF sound_fields(1) [OF assms(1)] that] by simp
    then show ?thesis by (auto simp: trim_unlocked)
  qed
  then show ?thesis using assms(2) sound_fields(2) [OF assms(1)] parse_record_sound
    by (auto simp: unlockReadyTasks_def parse_record_iff)
qed

end
