(* ===== verification/CoordinationRuns.thy ===== *)
theory CoordinationRuns
  imports Coordination
begin

text \<open>
  What the coder stage guarantees: an invariant of its state along the attempts and the tasks, for every
  behaviour of the language model and every interruption, and the plans it can complete. A run starts from
  the record of an accepted plan or from a stored record that was reconciled.
\<close>

section \<open>The invariant\<close>

definition entry_ok :: "string set \<Rightarrow> string set \<Rightarrow> nat \<Rightarrow> string set \<Rightarrow> plan_task \<Rightarrow> task_state \<Rightarrow> bool" where
  \<comment> \<open>the state of a task, when the tasks of \<open>finished\<close> are done and that of \<open>current\<close> is tried\<close>
  "entry_ok finished current n files t u \<longleftrightarrow>
     (tk_id t \<in> finished \<longrightarrow> ts_status u = TaskCompleted) \<and>
     (ts_status u = TaskCompleted \<longrightarrow> tk_id t \<in> finished \<union> current \<and> ts_outputFiles u \<noteq> [] \<and>
        set (ts_outputFiles u) \<subseteq> set (tk_files t) \<inter> files \<and> set (tk_dependencies t) \<subseteq> finished) \<and>
     ts_attempts u \<le> (if tk_id t \<in> finished then 3 else if tk_id t \<in> current then int n else 0)"

definition planned_files :: "product_plan \<Rightarrow> string set" where
  "planned_files p = (\<Union>t \<in> set (pl_tasks p). set (tk_files t))"

definition coder_inv :: "product_plan \<Rightarrow> (string \<times> string) list \<Rightarrow> string set \<Rightarrow> string set \<Rightarrow> nat \<Rightarrow> coder_state \<Rightarrow> bool" where
  "coder_inv p owners finished current n s \<longleftrightarrow> sound (cs_record s) \<and> rc_owners (cs_record s) = owners \<and>
     finished \<subseteq> set (cs_completed s) \<and> set (cs_completed s) \<subseteq> finished \<union> current \<and>
     fst ` set (cs_files s) \<subseteq> planned_files p \<and>
     (\<forall>t \<in> set (pl_tasks p). \<exists>u. view (cs_record s) (tk_id t) = Some u \<and>
        entry_ok finished current n (fst ` set (cs_files s)) t u)"

definition plan_kept :: "product_plan \<Rightarrow> bool" where
  "plan_kept p \<longleftrightarrow> distinct (map tk_id (pl_tasks p)) \<and>
     (\<forall>t \<in> set (pl_tasks p). trim_task t = t \<and> productPlanTaskSchema t \<and>
        map_of (pl_taskToAgent p) (tk_id t) = Some (agent_text (tk_agent t)))"

lemma plan_tasks_trimmed: "pl_tasks (trim_plan p) = map trim_task (pl_tasks p)"
  by (simp add: trim_plan_def)

lemma accepted_kept: "validateProductPlan input c = Inr p \<Longrightarrow> plan_kept p"
proof -
  assume p: "validateProductPlan input c = Inr p"
  then have "trim_plan p = p" by (auto simp: accepted_iff trim_plan_capabilities trim_plan_idem)
  then have "map trim_task (pl_tasks p) = pl_tasks p" by (metis plan_tasks_trimmed)
  then show ?thesis using accepted_plan_consistent [OF p] accepted_tasks [OF p] map_fixed
    by (auto simp: plan_kept_def)
qed

lemma kept_task:
  assumes "plan_kept p" "t \<in> set (pl_tasks p)"
  shows "js_trim (tk_id t) = tk_id t" "tk_id t \<noteq> []" "f \<in> set (tk_files t) \<Longrightarrow> js_trim f = f \<and> f \<noteq> []"
    "tk_files t \<noteq> []"
proof -
  have t: "trim_task t = t" "productPlanTaskSchema t" using assms by (simp_all add: plan_kept_def)
  then have "tk_id (trim_task t) = tk_id t" "tk_files (trim_task t) = tk_files t" by simp_all
  then show "js_trim (tk_id t) = tk_id t" "f \<in> set (tk_files t) \<Longrightarrow> js_trim f = f \<and> f \<noteq> []"
    using t(2) map_fixed [of js_trim "tk_files t" f]
    by (auto simp: trim_task_def trim_texts_def productPlanTaskSchema_def some_texts_def texts_ok_def)
  show "tk_id t \<noteq> []" "tk_files t \<noteq> []" using t(2) by (auto simp: productPlanTaskSchema_def some_texts_def)
qed

lemma same_task: "plan_kept p \<Longrightarrow> t \<in> set (pl_tasks p) \<Longrightarrow> u \<in> set (pl_tasks p) \<Longrightarrow> tk_id t = tk_id u \<Longrightarrow> t = u"
  by (auto simp: plan_kept_def distinct_map dest: inj_onD)

lemma inv_same_tasks:
  assumes "coder_inv p owners finished current n s"
    "sound r \<and> rc_owners r = rc_owners (cs_record s) \<and> rc_tasks r = rc_tasks (cs_record s)"
  shows "coder_inv p owners finished current n (s\<lparr>cs_record := r\<rparr>)"
  using assms by (simp add: coder_inv_def)

lemma entry_unlocked: "entry_ok finished current n files t u \<Longrightarrow>
    entry_ok finished current n files t (unlock_state completed u)"
  by (auto simp: entry_ok_def unlock_state_def)

lemma inv_unlock:
  assumes "coder_inv p owners finished current n s" "unlockReadyTasks now (cs_record s) = Inr r"
  shows "coder_inv p owners finished current n (s\<lparr>cs_record := r\<rparr>)"
proof -
  have "sound (cs_record s)" using assms(1) by (simp add: coder_inv_def)
  note r = unlock_view [OF this assms(2)]
  have "view r i = map_option (unlock_state (completed_ids (cs_record s))) (view (cs_record s) i)" for i
    using r map_of_trimmed [of "unlock_state (completed_ids (cs_record s))" "rc_tasks (cs_record s)" i] by simp
  then show ?thesis using assms(1) r by (fastforce simp: coder_inv_def intro: entry_unlocked)
qed

lemma inv_update:
  assumes inv: "coder_inv p owners finished {tk_id t} n s" and p: "plan_kept p" and t: "t \<in> set (pl_tasks p)"
    and ok: "updateTaskCoordinationState (tk_id t) patch now (cs_record s) = Inr r" and le: "n \<le> m"
    and entry: "\<And>u. view (cs_record s) (tk_id t) = Some u \<Longrightarrow> entry_ok finished {tk_id t} n (fst ` set (cs_files s)) t u \<Longrightarrow>
      entry_ok finished {tk_id t} m (fst ` set (cs_files s)) t (trim_state (patch_state (tk_id t) patch u))"
  shows "coder_inv p owners finished {tk_id t} m (s\<lparr>cs_record := r\<rparr>)"
proof -
  have "sound (cs_record s)" using inv by (simp add: coder_inv_def)
  from update_view [OF this ok] obtain u where r: "sound r" "rc_owners r = rc_owners (cs_record s)"
    "view (cs_record s) (tk_id t) = Some u"
    "view r = (view (cs_record s))(tk_id t \<mapsto> trim_state (patch_state (tk_id t) patch u))" by blast
  have "\<exists>v. view r (tk_id t') = Some v \<and> entry_ok finished {tk_id t} m (fst ` set (cs_files s)) t' v"
    if t': "t' \<in> set (pl_tasks p)" for t'
  proof -
    obtain v where v: "view (cs_record s) (tk_id t') = Some v"
      "entry_ok finished {tk_id t} n (fst ` set (cs_files s)) t' v" using inv t' by (auto simp: coder_inv_def)
    show ?thesis
    proof (cases "tk_id t' = tk_id t")
      case True
      then have "t' = t" using same_task [OF p t' t] by blast
      then show ?thesis using v r entry by auto
    next
      case False
      then show ?thesis using v r(4) le by (auto simp: entry_ok_def)
    qed
  qed
  then show ?thesis using inv r(1,2) by (simp add: coder_inv_def)
qed

section \<open>One task\<close>

lemma first_error_Inr [simp]: "first_error f xs = Inr u \<longleftrightarrow> (\<forall>x \<in> set xs. f x = None)"
  by (induction xs) (auto split: option.splits)

lemmas patch_simps = patch_state_def no_patch_def patched_def trim_state_def

lemma entry_tried:
  assumes "entry_ok finished {tk_id t} n files t u" "tk_id t \<notin> finished"
    "ts_status v \<noteq> TaskCompleted" "ts_attempts v \<le> int m"
  shows "entry_ok finished {tk_id t} m files t v"
  using assms by (auto simp: entry_ok_def)

lemma entry_attempts: "entry_ok finished {tk_id t} n files t u \<Longrightarrow> tk_id t \<notin> finished \<Longrightarrow> ts_attempts u \<le> int n"
  by (auto simp: entry_ok_def split: if_splits)

lemma inv_sound: "coder_inv p owners finished current n s \<Longrightarrow> sound (cs_record s)"
  by (simp add: coder_inv_def)

lemma inv_event:
  assumes "coder_inv p owners finished current n (s\<lparr>cs_record := r\<rparr>)" "coder_event E t kind answer detail r = Inr r'"
  shows "coder_inv p owners finished current n (s\<lparr>cs_record := r'\<rparr>)"
  using inv_same_tasks [OF assms(1), of r'] coder_event_view [OF _ assms(2)] inv_sound [OF assms(1)] by simp

lemma begin_inv:
  assumes "coder_inv p owners finished {tk_id t} n s" "plan_kept p" "t \<in> set (pl_tasks p)" "tk_id t \<notin> finished"
    "begin_attempt E t k latest (cs_record s) = Inr r"
  shows "coder_inv p owners finished {tk_id t} (Suc n) (s\<lparr>cs_record := r\<rparr>)"
proof -
  obtain u where u: "view (cs_record s) (tk_id t) = Some u" using assms(1,3) by (auto simp: coder_inv_def)
  let ?patch = "no_patch\<lparr>tp_status := Some (if k = 1 then TaskRunning else TaskRetrying),
    tp_attempts := Some (ts_attempts u + 1), tp_lastError := Some (given latest)\<rparr>"
  obtain r1 where r1: "updateTaskCoordinationState (tk_id t) ?patch (en_now E) (cs_record s) = Inr r1"
    "coder_event E t (if k = 1 then StartEvent else RetryEvent) (Some (en_answer E (tk_id t) k))
       (if k = 1 then StartingTask else RetryingTask) r1 = Inr r"
    using assms(5) by (auto simp: begin_attempt_def u Let_def)
  have "coder_inv p owners finished {tk_id t} (Suc n) (s\<lparr>cs_record := r1\<rparr>)"
  proof (rule inv_update [OF assms(1-3) r1(1)])
    fix v assume v: "view (cs_record s) (tk_id t) = Some v"
      and ok: "entry_ok finished {tk_id t} n (fst ` set (cs_files s)) t v"
    then have "v = u" "ts_attempts v \<le> int n" using u entry_attempts [OF ok assms(4)] by auto
    then show "entry_ok finished {tk_id t} (Suc n) (fst ` set (cs_files s)) t (trim_state (patch_state (tk_id t) ?patch v))"
      by (intro entry_tried [OF ok assms(4)]) (simp_all add: patch_simps)
  qed simp
  then show ?thesis using r1(2) by (rule inv_event)
qed

lemma failure_inv:
  assumes "coder_inv p owners finished {tk_id t} n s" "plan_kept p" "t \<in> set (pl_tasks p)" "tk_id t \<notin> finished"
    "note_failure E t k e (cs_record s) = Inr r"
  shows "coder_inv p owners finished {tk_id t} n (s\<lparr>cs_record := r\<rparr>)"
proof -
  let ?patch = "no_patch\<lparr>tp_status := Some (if k < 3 then TaskRetrying else TaskFailed), tp_lastError := Some (Some e)\<rparr>"
  obtain r1 where r1: "updateTaskCoordinationState (tk_id t) ?patch (en_now E) (cs_record s) = Inr r1"
    "coder_event E t (if k < 3 then RetryEvent else FailureEvent) (Some (en_answer E (tk_id t) k)) (FailedWith e) r1 = Inr r"
    using assms(5) by (auto simp: note_failure_def)
  have "coder_inv p owners finished {tk_id t} n (s\<lparr>cs_record := r1\<rparr>)"
  proof (rule inv_update [OF assms(1-3) r1(1)])
    fix v assume ok: "entry_ok finished {tk_id t} n (fst ` set (cs_files s)) t v"
    then show "entry_ok finished {tk_id t} n (fst ` set (cs_files s)) t (trim_state (patch_state (tk_id t) ?patch v))"
      using entry_attempts [OF ok assms(4)] by (intro entry_tried [OF ok assms(4)]) (simp_all add: patch_simps)
  qed simp
  then show ?thesis using r1(2) by (rule inv_event)
qed

lemma assign_files_keys: "fst ` set (assign_files files parsed) = fst ` set files \<union> fst ` set parsed"
proof -
  have "fst ` set (fold (\<lambda>(k, v). update_entry k (\<lambda>_. v)) parsed files) = fst ` set files \<union> fst ` set parsed"
  proof (induction parsed arbitrary: files)
    case (Cons e parsed)
    then show ?case by (cases e) (simp add: update_entry_keys)
  qed simp
  then show ?thesis by (simp add: assign_files_def)
qed

lemma inv_assign:
  assumes "coder_inv p owners finished current n s" "t \<in> set (pl_tasks p)" "fst ` set parsed \<subseteq> set (tk_files t)"
  shows "coder_inv p owners finished current n (s\<lparr>cs_files := assign_files (cs_files s) parsed\<rparr>)"
proof -
  have more: "entry_ok finished current n A t' u \<Longrightarrow> A \<subseteq> B \<Longrightarrow> entry_ok finished current n B t' u" for A B t' u
    unfolding entry_ok_def by blast
  have "fst ` set (assign_files (cs_files s) parsed) \<subseteq> planned_files p"
    using assms by (simp add: coder_inv_def assign_files_keys) (auto simp: planned_files_def)
  then show ?thesis using assms(1) unfolding coder_inv_def
    by (simp add: assign_files_keys) (blast intro: more)
qed

lemma assert_ownership_iff: "assertTaskOutputOwnership t produced r = Inr u \<longleftrightarrow> produced \<noteq> [] \<and>
    (\<forall>file \<in> set produced. file \<in> set (tk_files t) \<and> map_of (rc_owners r) file = Some (tk_id t))"
  by (auto simp: assertTaskOutputOwnership_def split: if_splits)

lemma complete_inv:
  assumes "coder_inv p owners finished {tk_id t} n s" "plan_kept p" "t \<in> set (pl_tasks p)" "tk_id t \<notin> finished"
    "set (tk_dependencies t) \<subseteq> finished" "produced \<noteq> []" "set produced \<subseteq> set (tk_files t) \<inter> fst ` set (cs_files s)"
    "updateTaskCoordinationState (tk_id t) (output_patch (remdups produced)) now (cs_record s) = Inr r"
  shows "coder_inv p owners finished {tk_id t} n (s\<lparr>cs_record := r, cs_completed := tk_id t # cs_completed s\<rparr>)"
    "\<exists>u. view r (tk_id t) = Some u \<and> ts_status u = TaskCompleted"
proof -
  have "coder_inv p owners finished {tk_id t} n (s\<lparr>cs_record := r\<rparr>)"
  proof (rule inv_update [OF assms(1-3,8)])
    fix v assume ok: "entry_ok finished {tk_id t} n (fst ` set (cs_files s)) t v"
    have "trim_texts (remdups produced) = remdups produced"
      using assms(7) kept_task(3) [OF assms(2,3)] by (auto simp: trim_texts_def intro!: map_idI)
    then show "entry_ok finished {tk_id t} n (fst ` set (cs_files s)) t (trim_state (patch_state (tk_id t) (output_patch (remdups produced)) v))"
      using assms(4-7) entry_attempts [OF ok assms(4)] by (simp add: entry_ok_def output_patch_def patch_simps)
  qed simp
  then show "coder_inv p owners finished {tk_id t} n (s\<lparr>cs_record := r, cs_completed := tk_id t # cs_completed s\<rparr>)"
    by (auto simp: coder_inv_def)
  show "\<exists>u. view r (tk_id t) = Some u \<and> ts_status u = TaskCompleted"
    using update_view [OF inv_sound [OF assms(1)] assms(8)] by (auto simp: output_patch_def patch_simps)
qed

definition done_with :: "plan_task \<Rightarrow> coder_state \<Rightarrow> bool" where
  "done_with t s \<longleftrightarrow> (\<exists>u. view (cs_record s) (tk_id t) = Some u \<and> ts_status u = TaskCompleted) \<and>
     tk_id t \<in> set (cs_completed s)"

lemma done_with_unlock:
  assumes "sound (cs_record s)" "done_with t s" "unlockReadyTasks now (cs_record s) = Inr r"
  shows "done_with t (s\<lparr>cs_record := r\<rparr>)"
proof -
  have r: "view r (tk_id t) = map_option (unlock_state (completed_ids (cs_record s))) (view (cs_record s) (tk_id t))"
    using unlock_view [OF assms(1,3)] by (simp add: map_of_trimmed)
  have "ts_status u = TaskCompleted \<Longrightarrow> unlock_state d u = u" for d u by (simp add: unlock_state_def)
  with r assms(2) show ?thesis by (auto simp: done_with_def)
qed

lemma done_with_event:
  assumes "sound r" "done_with t (s\<lparr>cs_record := r\<rparr>)" "coder_event E u kind answer detail r = Inr r'"
  shows "done_with t (s\<lparr>cs_record := r'\<rparr>)"
  using assms(2) coder_event_view [OF assms(1,3)] by (simp add: done_with_def)

lemma after_output:
  assumes "coder_inv p owners finished current n s" "done_with t s" "hand_over E t answer produced s = (s', e)"
  shows "coder_inv p owners finished current n s' \<and> done_with t s'"
proof (cases "unlockReadyTasks (en_now E) (cs_record s)")
  case Inl
  then show ?thesis using assms by (auto simp: hand_over_def)
next
  case (Inr r)
  note inv = inv_unlock [OF assms(1) Inr] and d = done_with_unlock [OF inv_sound [OF assms(1)] assms(2) Inr]
  show ?thesis
  proof (cases "coder_event E t OutputEvent (Some answer) (CompletedWith produced) r")
    case Inl
    then show ?thesis using assms(3) Inr inv d by (auto simp: hand_over_def)
  next
    case r': (Inr r')
    have "sound r" using inv_sound [OF inv] by simp
    note inv' = inv_event [OF inv r'] and d' = done_with_event [OF this d r']
    have "sound r'" using inv_sound [OF inv'] by simp
    note d'' = done_with_event [OF this d']
    show ?thesis
      using assms(3) Inr r' inv' d' inv_event [OF inv'] d''
      by (cases "coder_event E t HandoffEvent None HandedToDependents r'") (auto simp: hand_over_def)
  qed
qed

lemma accept_inv:
  assumes "coder_inv p owners finished {tk_id t} n s" "plan_kept p" "t \<in> set (pl_tasks p)" "tk_id t \<notin> finished"
    "set (tk_dependencies t) \<subseteq> finished" "accept_output E t k s = (s', e)"
  shows "coder_inv p owners finished {tk_id t} n s' \<and> (e = None \<longrightarrow> done_with t s')"
proof (cases "an_files (en_answer E (tk_id t) k)")
  case Inl
  then show ?thesis using assms(1,6) by (auto simp: accept_output_def)
next
  case (Inr parsed)
  show ?thesis
  proof (cases "parsed = [] \<or> (\<exists>e. assertTaskOutputOwnership t (map fst parsed) (cs_record s) = Inl e)")
    case True
    then have "s' = s \<and> e \<noteq> None"
      using assms(6) by (cases "parsed = []") (auto simp: accept_output_def Inr)
    then show ?thesis using assms(1) by auto
  next
    case False
    then obtain u where owned: "parsed \<noteq> []" "assertTaskOutputOwnership t (map fst parsed) (cs_record s) = Inr u"
      by (cases "assertTaskOutputOwnership t (map fst parsed) (cs_record s)") auto
    then have own: "set (map fst parsed) \<subseteq> set (tk_files t)" by (auto simp: assert_ownership_iff)
    let ?s = "s\<lparr>cs_files := assign_files (cs_files s) parsed\<rparr>"
    have inv: "coder_inv p owners finished {tk_id t} n ?s"
      using own by (intro inv_assign [OF assms(1,3)]) auto
    show ?thesis
    proof (cases "updateTaskCoordinationState (tk_id t) (output_patch (remdups (map fst parsed))) (en_now E) (cs_record ?s)")
      case Inl
      then show ?thesis using assms(6) inv owned by (auto simp: accept_output_def Inr Let_def)
    next
      case r: (Inr r)
      have sub: "set (map fst parsed) \<subseteq> set (tk_files t) \<inter> fst ` set (cs_files ?s)"
        using own by (auto simp: assign_files_keys)
      let ?s' = "?s\<lparr>cs_record := r, cs_completed := tk_id t # cs_completed ?s\<rparr>"
      have "map fst parsed \<noteq> []" using owned(1) by simp
      note new = complete_inv [OF inv assms(2-5) this sub r]
      have "done_with t ?s'" using new(2) by (simp add: done_with_def)
      from after_output [OF new(1) this] assms(6) owned r show ?thesis by (simp add: accept_output_def Inr Let_def)
    qed
  qed
qed

lemma inv_weaken: "coder_inv p owners finished {i} n s \<Longrightarrow> n \<le> m \<Longrightarrow> coder_inv p owners finished {i} m s"
  unfolding coder_inv_def entry_ok_def by fastforce

lemma attempt_loop_inv:
  assumes "plan_kept p" "t \<in> set (pl_tasks p)" "tk_id t \<notin> finished" "set (tk_dependencies t) \<subseteq> finished"
  shows "coder_inv p owners finished {tk_id t} n s \<Longrightarrow> attempt_loop E t left latest s = (s', result) \<Longrightarrow>
    n + left \<le> 3 \<Longrightarrow> coder_inv p owners finished {tk_id t} 3 s' \<and> (result = Succeeded \<longrightarrow> done_with t s')"
proof (induction left arbitrary: n latest s)
  case 0
  then show ?case using inv_weaken by auto
next
  case (Suc left)
  show ?case
  proof (cases "begin_attempt E t (3 - left) latest (cs_record s)")
    case Inl
    then show ?thesis using Suc.prems inv_weaken [of p owners finished "tk_id t" n s 3] by auto
  next
    case (Inr r)
    note inv = begin_inv [OF Suc.prems(1) assms(1-3) Inr]
    obtain s1 e where out: "accept_output E t (3 - left) (s\<lparr>cs_record := r\<rparr>) = (s1, e)" by force
    note inv1 = accept_inv [OF inv assms(1-4) out]
    then have three: "coder_inv p owners finished {tk_id t} 3 s1" using Suc.prems(3) inv_weaken by auto
    show ?thesis
    proof (cases e)
      case None
      then show ?thesis using Suc.prems(2) Inr out inv1 three by auto
    next
      case (Some err)
      show ?thesis
      proof (cases "note_failure E t (3 - left) err (cs_record s1)")
        case Inl
        then show ?thesis using Suc.prems(2) \<open>begin_attempt E t (3 - left) latest (cs_record s) = Inr r\<close> out Some three by auto
      next
        case r2: (Inr r2)
        note inv2 = failure_inv [OF conjunct1 [OF inv1] assms(1-3) r2]
        show ?thesis
        proof (cases "en_aborted E (tk_id t) (3 - left)")
          case True
          then show ?thesis using Suc.prems(2,3) Inr out Some r2 inv_weaken [OF inv2, of 3] by auto
        next
          case False
          then have "attempt_loop E t left err (s1\<lparr>cs_record := r2\<rparr>) = (s', result)"
            using Suc.prems(2) Inr out Some r2 by simp
          from Suc.IH [OF inv2 this] Suc.prems(3) show ?thesis by simp
        qed
      qed
    qed
  qed
qed

section \<open>All the tasks\<close>

fun dependencies_first :: "string set \<Rightarrow> plan_task list \<Rightarrow> bool" where
  "dependencies_first finished [] \<longleftrightarrow> True"
| "dependencies_first finished (t # ts) \<longleftrightarrow> set (tk_dependencies t) \<subseteq> finished \<and>
     dependencies_first (insert (tk_id t) finished) ts"

lemma handoff_iff: "validateTaskHandoff x r t completed = Inr u \<longleftrightarrow> tk_id t \<in> tk_id ` set (pl_tasks (ct_plan x)) \<and>
    set (tk_dependencies t) \<subseteq> set completed \<and> set (tk_requirementIds t) \<subseteq> set (ct_requirementIds x) \<and>
    (\<forall>file \<in> set (tk_files t). map_of (rc_owners r) file = Some (tk_id t)) \<and>
    map_of (pl_taskToAgent (ct_plan x)) (tk_id t) = Some (agent_text (tk_agent t))"
  by (auto simp: validateTaskHandoff_def)

lemma inv_start: "coder_inv p owners finished {} 0 s \<Longrightarrow> coder_inv p owners finished {i} 0 s"
  unfolding coder_inv_def entry_ok_def by fastforce

lemma inv_finish:
  assumes "coder_inv p owners finished {tk_id t} 3 s" "plan_kept p" "t \<in> set (pl_tasks p)" "done_with t s"
  shows "coder_inv p owners (insert (tk_id t) finished) {} 0 s"
proof -
  have "\<exists>u. view (cs_record s) (tk_id t') = Some u \<and>
      entry_ok (insert (tk_id t) finished) {} 0 (fst ` set (cs_files s)) t' u" if t': "t' \<in> set (pl_tasks p)" for t'
  proof -
    obtain u where u: "view (cs_record s) (tk_id t') = Some u"
      "entry_ok finished {tk_id t} 3 (fst ` set (cs_files s)) t' u" using assms(1) t' by (auto simp: coder_inv_def)
    have "ts_status u = TaskCompleted" if "tk_id t' = tk_id t" using that u(1) assms(4) by (auto simp: done_with_def)
    then show ?thesis using u by (auto simp: entry_ok_def split: if_splits)
  qed
  then show ?thesis using assms(1,4) by (auto simp: coder_inv_def done_with_def)
qed

lemma pause_inv:
  assumes "coder_inv p owners finished {tk_id t} 0 s" "plan_kept p" "t \<in> set (pl_tasks p)" "tk_id t \<notin> finished"
    "pause_task E t (cs_record s) = Inr r"
  shows "coder_inv p owners finished {tk_id t} 0 (s\<lparr>cs_record := r\<rparr>)"
proof -
  let ?patch = "no_patch\<lparr>tp_status := Some TaskPaused, tp_lastError := Some (Some AbortInterrupted)\<rparr>"
  have "view (cs_record s) (tk_id t) \<noteq> None" using assms(1,3) by (auto simp: coder_inv_def)
  then obtain r1 where r1: "updateTaskCoordinationState (tk_id t) ?patch (en_now E) (cs_record s) = Inr r1"
    "coder_event E t PauseEvent None PausedBeforeTask r1 = Inr r"
    using assms(5) by (auto simp: pause_task_def)
  have "coder_inv p owners finished {tk_id t} 0 (s\<lparr>cs_record := r1\<rparr>)"
  proof (rule inv_update [OF assms(1-3) r1(1)])
    fix v assume ok: "entry_ok finished {tk_id t} 0 (fst ` set (cs_files s)) t v"
    then show "entry_ok finished {tk_id t} 0 (fst ` set (cs_files s)) t (trim_state (patch_state (tk_id t) ?patch v))"
      using entry_attempts [OF ok assms(4)] by (intro entry_tried [OF ok assms(4)]) (simp_all add: patch_simps)
  qed simp
  then show ?thesis using r1(2) by (rule inv_event)
qed

lemma not_completed_yet:
  "coder_inv p owners finished {} 0 s \<Longrightarrow> t \<in> set (pl_tasks p) \<Longrightarrow> tk_id t \<notin> finished \<Longrightarrow>
    \<not> task_completed (cs_record s) (tk_id t)"
  by (fastforce simp: coder_inv_def entry_ok_def task_completed_def)

definition run_inv :: "product_plan \<Rightarrow> (string \<times> string) list \<Rightarrow> coder_state \<Rightarrow> bool" where
  "run_inv p owners s \<longleftrightarrow> (\<exists>finished i. coder_inv p owners finished {i} 3 s)"

lemma run_tasks_inv:
  assumes "plan_kept p" "ct_plan x = p"
  shows "coder_inv p owners finished {} 0 s \<Longrightarrow> run_tasks E x ts s = (s', result) \<Longrightarrow> set ts \<subseteq> set (pl_tasks p) \<Longrightarrow>
    distinct (map tk_id ts) \<Longrightarrow> tk_id ` set ts \<inter> finished = {} \<Longrightarrow>
    run_inv p owners s' \<and> (result = StageFinished \<longrightarrow> coder_inv p owners (finished \<union> tk_id ` set ts) {} 0 s' \<and>
      dependencies_first finished ts \<and> (\<forall>t \<in> set ts. set (tk_requirementIds t) \<subseteq> set (ct_requirementIds x)))"
proof (induction ts arbitrary: finished s)
  case Nil
  then have "coder_inv p owners finished {undefined} 3 s" using inv_weaken [OF inv_start] by simp
  then show ?case using Nil by (auto simp: run_inv_def)
next
  case (Cons t ts)
  have t: "t \<in> set (pl_tasks p)" "tk_id t \<notin> finished" using Cons.prems by auto
  note start = inv_start [OF Cons.prems(1), of "tk_id t"]
  then have here: "run_inv p owners s" using inv_weaken [of p owners finished "tk_id t" 0 s 3] by (auto simp: run_inv_def)
  note skip = not_completed_yet [OF Cons.prems(1) t]
  show ?case
  proof (cases "en_aborted E (tk_id t) 0")
    case True
    show ?thesis
    proof (cases "pause_task E t (cs_record s)")
      case Inl
      then show ?thesis using Cons.prems(2) True here by auto
    next
      case (Inr r)
      from pause_inv [OF start assms(1) t Inr] have "run_inv p owners (s\<lparr>cs_record := r\<rparr>)"
        using inv_weaken [of p owners finished "tk_id t" 0 "s\<lparr>cs_record := r\<rparr>" 3] by (auto simp: run_inv_def)
      then show ?thesis using Cons.prems(2) True Inr by auto
    qed
  next
    case False
    show ?thesis
    proof (cases "(\<exists>e. validateTaskHandoff x (cs_record s) t (cs_completed s) = Inl e) \<or> en_context E (tk_id t) \<noteq> None")
      case True
      then have "s' = s \<and> result \<noteq> StageFinished"
        using Cons.prems(2) False skip by (auto split: sum.splits option.splits)
      then show ?thesis using here by simp
    next
      case ok: False
      then obtain u where handoff: "validateTaskHandoff x (cs_record s) t (cs_completed s) = Inr u"
        and context_ok: "en_context E (tk_id t) = None"
        by (cases "validateTaskHandoff x (cs_record s) t (cs_completed s)") auto
      have deps: "set (tk_dependencies t) \<subseteq> finished" "set (tk_requirementIds t) \<subseteq> set (ct_requirementIds x)"
        using handoff Cons.prems(1) unfolding handoff_iff coder_inv_def by auto
      obtain s1 out where loop: "attempt_loop E t 3 (last_error (cs_record s) (tk_id t)) s = (s1, out)" by force
      note inv1 = attempt_loop_inv [OF assms(1) t deps(1) start loop, simplified]
      then have here1: "run_inv p owners s1" by (auto simp: run_inv_def)
      show ?thesis
      proof (cases out)
        case Succeeded
        with inv1 have "coder_inv p owners (insert (tk_id t) finished) {} 0 s1"
          using inv_finish [OF _ assms(1) t(1)] by simp
        moreover have "run_tasks E x ts s1 = (s', result)"
          using Cons.prems(2) False skip handoff context_ok loop Succeeded by simp
        moreover have "tk_id ` set ts \<inter> insert (tk_id t) finished = {}" using Cons.prems(4,5) by auto
        ultimately show ?thesis using Cons.IH [of "insert (tk_id t) finished" s1] Cons.prems(3,4) deps by auto
      qed (use Cons.prems(2) False skip handoff context_ok loop here1 in auto)
    qed
  qed
qed

section \<open>The operations succeed on sound records\<close>

lemma schema_trimmed: "sound r \<Longrightarrow> agentCoordinationRecordSchema (trim_record r)"
  by (simp add: sound_def)

lemma schema_tasks:
  assumes "sound r" "js_trim now \<noteq> []" "\<And>e. e \<in> set ts \<Longrightarrow> taskCoordinationStateSchema (trim_state (snd e))"
  shows "\<exists>r'. parse_record (r\<lparr>rc_tasks := ts, rc_updatedAt := now\<rparr>) = Inr r'"
  using schema_trimmed [OF assms(1)] assms(2,3)
  by (simp add: parse_record_iff agentCoordinationRecordSchema_def trim_record_def list_all_iff case_prod_beta)

lemma set_update_entry_sub: "set (update_entry k (\<lambda>_. v) m) \<subseteq> insert (k, v) (set m)"
  by (induction m) (auto split: if_splits)

lemma sound_states: "sound r \<Longrightarrow> e \<in> set (rc_tasks r) \<Longrightarrow> taskCoordinationStateSchema (trim_state (snd e))"
  using schema_trimmed by (fastforce simp: agentCoordinationRecordSchema_def list_all_iff case_prod_beta)

lemma update_succeeds:
  assumes "sound r" "view r i = Some u" "js_trim now \<noteq> []" "taskCoordinationStateSchema (trim_state (patch_state i p u))"
  shows "\<exists>r'. updateTaskCoordinationState i p now r = Inr r'"
proof -
  have "taskCoordinationStateSchema (trim_state (snd e))"
    if "e \<in> set (update_entry i (\<lambda>_. patch_state i p u) (rc_tasks r))" for e
    using set_update_entry_sub [THEN subsetD, OF that] assms(4) sound_states [OF assms(1), of e] by auto
  from schema_tasks [OF assms(1,3) this] assms(2) show ?thesis by (simp add: updateTaskCoordinationState_def)
qed

lemma unlock_succeeds: "sound r \<Longrightarrow> js_trim now \<noteq> [] \<Longrightarrow> \<exists>r'. unlockReadyTasks now r = Inr r'"
  unfolding unlockReadyTasks_def
proof (rule schema_tasks)
  fix e assume "sound r" "e \<in> set (map (\<lambda>(k, t). (k, unlock_state (completed_ids r) t)) (rc_tasks r))"
  then obtain k t where "e = (k, unlock_state (completed_ids r) t)" "taskCoordinationStateSchema (trim_state t)"
    using sound_states [of r] by fastforce
  then show "taskCoordinationStateSchema (trim_state (snd e))"
    by (simp add: taskCoordinationStateSchema_def trim_state_def unlock_state_def)
qed

lemma agent_text_ok [simp]: "js_trim (agent_text a) \<noteq> []"
  by (cases a) (simp_all add: js_trim_def is_js_space_def)

lemma event_succeeds:
  assumes "sound r" "js_trim (en_now E) \<noteq> []"
  shows "\<exists>r'. coder_event E t kind answer detail r = Inr r'"
proof -
  let ?e = "\<lparr>ev_at = en_now E, ev_agent = agent_text (tk_agent t), ev_type = kind, ev_task = Some (tk_id t),
    ev_provider = map_option an_provider answer, ev_model = Option.bind answer an_model, ev_detail = detail\<rparr>"
  have ok: "coordinationEventSchema (trim_event ?e)" using assms(2) by (simp add: coordinationEventSchema_def trim_event_def)
  have old: "coordinationEventSchema (trim_event e)" if "e \<in> set (rc_events r)" for e
    using schema_trimmed [OF assms(1)] that by (simp add: agentCoordinationRecordSchema_def trim_record_def list_all_iff)
  let ?es = "drop (length (rc_events r @ [trim_event ?e]) - 500) (rc_events r @ [trim_event ?e])"
  have "coordinationEventSchema (trim_event e)" if "e \<in> set ?es" for e
  proof -
    have "e \<in> set (rc_events r @ [trim_event ?e])" using that by (rule in_set_dropD)
    then show ?thesis using old ok by auto
  qed
  then have "\<exists>r'. parse_record (r\<lparr>rc_events := ?es, rc_updatedAt := en_now E\<rparr>) = Inr r'"
    using schema_trimmed [OF assms(1)] assms(2)
    by (simp add: parse_record_iff agentCoordinationRecordSchema_def trim_record_def list_all_iff del: drop_append)
  then show ?thesis using ok by (simp add: coder_event_def appendCoordinationEvent_def Let_def)
qed

lemma begin_succeeds:
  assumes "sound (cs_record s)" "view (cs_record s) (tk_id t) = Some u" "js_trim (tk_id t) \<noteq> []" "js_trim (en_now E) \<noteq> []"
  shows "\<exists>r. begin_attempt E t k latest (cs_record s) = Inr r"
proof -
  let ?patch = "no_patch\<lparr>tp_status := Some (if k = 1 then TaskRunning else TaskRetrying),
    tp_attempts := Some (ts_attempts u + 1), tp_lastError := Some (given latest)\<rparr>"
  have "trim_state u = u \<and> taskCoordinationStateSchema u" using sound_view [OF assms(1,2)] .
  then have "taskCoordinationStateSchema (trim_state u)" by simp
  then have "taskCoordinationStateSchema (trim_state (patch_state (tk_id t) ?patch u))"
    using assms(3) by (simp add: taskCoordinationStateSchema_def patch_simps)
  from update_succeeds [OF assms(1,2,4) this] obtain r where
    r: "updateTaskCoordinationState (tk_id t) ?patch (en_now E) (cs_record s) = Inr r" by blast
  then show ?thesis using event_succeeds [OF _ assms(4)] update_view [OF assms(1) r]
    by (simp add: begin_attempt_def assms(2))
qed

lemma failure_succeeds:
  assumes "sound r" "view r (tk_id t) = Some u" "js_trim (tk_id t) \<noteq> []" "js_trim (en_now E) \<noteq> []"
  shows "\<exists>r'. note_failure E t k e r = Inr r'"
proof -
  let ?patch = "no_patch\<lparr>tp_status := Some (if k < 3 then TaskRetrying else TaskFailed), tp_lastError := Some (Some e)\<rparr>"
  have "trim_state u = u \<and> taskCoordinationStateSchema u" using sound_view [OF assms(1,2)] .
  then have "taskCoordinationStateSchema (trim_state u)" by simp
  then have "taskCoordinationStateSchema (trim_state (patch_state (tk_id t) ?patch u))"
    using assms(3) by (simp add: taskCoordinationStateSchema_def patch_simps)
  from update_succeeds [OF assms(1,2,4) this] obtain r1 where
    r1: "updateTaskCoordinationState (tk_id t) ?patch (en_now E) r = Inr r1" by blast
  then show ?thesis using event_succeeds [OF _ assms(4)] update_view [OF assms(1) r1]
    by (simp add: note_failure_def)
qed

definition good_answer :: "coder_env \<Rightarrow> plan_task \<Rightarrow> nat \<Rightarrow> bool" where
  \<comment> \<open>the attempt yields files of the task, and they can be stored\<close>
  "good_answer E t k \<longleftrightarrow> (\<exists>parsed. an_files (en_answer E (tk_id t) k) = Inr parsed \<and> parsed \<noteq> [] \<and>
     fst ` set parsed \<subseteq> set (tk_files t)) \<and> an_stored (en_answer E (tk_id t) k) = None"

lemma hand_over_succeeds:
  assumes "sound (cs_record s)" "js_trim (en_now E) \<noteq> []" "an_stored answer = None"
  shows "\<exists>s'. hand_over E t answer produced s = (s', None)"
proof -
  obtain r where r: "unlockReadyTasks (en_now E) (cs_record s) = Inr r" using unlock_succeeds [OF assms(1,2)] by blast
  have "sound r" using unlock_view [OF assms(1) r] by blast
  then obtain r' where r': "coder_event E t OutputEvent (Some answer) (CompletedWith produced) r = Inr r'"
    using event_succeeds [OF _ assms(2)] by blast
  with \<open>sound r\<close> have "sound r'" using coder_event_view by blast
  then obtain r'' where "coder_event E t HandoffEvent None HandedToDependents r' = Inr r''"
    using event_succeeds [OF _ assms(2)] by blast
  then show ?thesis using r r' assms(3) by (simp add: hand_over_def)
qed

lemma accept_succeeds:
  assumes inv: "coder_inv p owners finished {tk_id t} n s" and p: "plan_kept p" and t: "t \<in> set (pl_tasks p)"
    and owners: "\<And>f. f \<in> set (tk_files t) \<Longrightarrow> map_of owners f = Some (tk_id t)"
    and now: "js_trim (en_now E) \<noteq> []" and good: "good_answer E t k"
  shows "\<exists>s'. accept_output E t k s = (s', None)"
proof -
  obtain parsed where parsed: "an_files (en_answer E (tk_id t) k) = Inr parsed" "parsed \<noteq> []"
    "fst ` set parsed \<subseteq> set (tk_files t)" "an_stored (en_answer E (tk_id t) k) = None"
    using good by (auto simp: good_answer_def)
  obtain u where u: "view (cs_record s) (tk_id t) = Some u" using inv t by (auto simp: coder_inv_def)
  have sound: "sound (cs_record s)" by (rule inv_sound [OF inv])
  have "rc_owners (cs_record s) = owners" using inv by (simp add: coder_inv_def)
  then have "assertTaskOutputOwnership t (map fst parsed) (cs_record s) = Inr ()"
    using parsed(2,3) owners by (auto simp: assert_ownership_iff)
  moreover have "\<exists>r. updateTaskCoordinationState (tk_id t) (output_patch (remdups (map fst parsed))) (en_now E)
      (cs_record s) = Inr r"
  proof (rule update_succeeds [OF sound u now])
    have "taskCoordinationStateSchema (trim_state u)" using sound_view [OF sound u] by simp
    moreover have "texts_ok (trim_texts (remdups (map fst parsed)))"
      using parsed(3) kept_task(3) [OF p t] by (force simp: texts_ok_def trim_texts_def)
    ultimately show "taskCoordinationStateSchema (trim_state (patch_state (tk_id t) (output_patch (remdups (map fst parsed))) u))"
      using kept_task(1,2) [OF p t] by (simp add: taskCoordinationStateSchema_def output_patch_def patch_simps)
  qed
  then obtain r where r: "updateTaskCoordinationState (tk_id t) (output_patch (remdups (map fst parsed))) (en_now E)
      (cs_record s) = Inr r" by blast
  moreover have "sound r" using update_view [OF sound r] by blast
  ultimately show ?thesis
    using hand_over_succeeds [OF _ now parsed(4), of "s\<lparr>cs_files := assign_files (cs_files s) parsed, cs_record := r,
      cs_completed := tk_id t # cs_completed s\<rparr>"] parsed(1,2)
    by (simp add: accept_output_def Let_def)
qed

lemma attempt_loop_succeeds:
  assumes p: "plan_kept p" "t \<in> set (pl_tasks p)" "tk_id t \<notin> finished" "set (tk_dependencies t) \<subseteq> finished"
    and owners: "\<And>f. f \<in> set (tk_files t) \<Longrightarrow> map_of owners f = Some (tk_id t)"
    and now: "js_trim (en_now E) \<noteq> []" and calm: "\<And>k. \<not> en_aborted E (tk_id t) k"
  shows "coder_inv p owners finished {tk_id t} n s \<Longrightarrow> left \<le> 3 \<Longrightarrow> 3 - left < k \<Longrightarrow> k \<le> 3 \<Longrightarrow> good_answer E t k \<Longrightarrow>
    \<exists>s'. attempt_loop E t left latest s = (s', Succeeded)"
proof (induction left arbitrary: n latest s)
  case (Suc left)
  have view: "\<exists>u. view (cs_record s') (tk_id t) = Some u" if "coder_inv p owners finished {tk_id t} m s'" for s' m
    using that p(2) by (auto simp: coder_inv_def)
  have name: "js_trim (tk_id t) \<noteq> []" using kept_task(1,2) [OF p(1,2)] by simp
  obtain r where r: "begin_attempt E t (3 - left) latest (cs_record s) = Inr r"
    using begin_succeeds [OF inv_sound [OF Suc.prems(1)] _ name now] view [OF Suc.prems(1)] by blast
  note inv = begin_inv [OF Suc.prems(1) p(1-3) r]
  obtain s1 e where out: "accept_output E t (3 - left) (s\<lparr>cs_record := r\<rparr>) = (s1, e)" by force
  note inv1 = conjunct1 [OF accept_inv [OF inv p out]]
  show ?case
  proof (cases e)
    case None
    then show ?thesis using r out by simp
  next
    case (Some err)
    have "k \<noteq> 3 - left"
      using accept_succeeds [OF inv p(1,2) owners now, of k] Suc.prems(5) out Some by auto
    then have later: "3 - left < k" using Suc.prems(2,3) by auto
    obtain r2 where r2: "note_failure E t (3 - left) err (cs_record s1) = Inr r2"
      using failure_succeeds [OF inv_sound [OF inv1] _ name now] view [OF inv1] by blast
    from Suc.IH [OF failure_inv [OF inv1 p(1-3) r2]] later Suc.prems obtain s2
      where "attempt_loop E t left err (s1\<lparr>cs_record := r2\<rparr>) = (s2, Succeeded)" by auto
    then show ?thesis using r out Some r2 calm by simp
  qed
qed simp

lemma run_tasks_finish:
  assumes "plan_kept p" "ct_plan x = p" "js_trim (en_now E) \<noteq> []"
    and owners: "\<And>t f. t \<in> set (pl_tasks p) \<Longrightarrow> f \<in> set (tk_files t) \<Longrightarrow> map_of owners f = Some (tk_id t)"
  shows "coder_inv p owners finished {} 0 s \<Longrightarrow> set ts \<subseteq> set (pl_tasks p) \<Longrightarrow> distinct (map tk_id ts) \<Longrightarrow>
    tk_id ` set ts \<inter> finished = {} \<Longrightarrow> dependencies_first finished ts \<Longrightarrow>
    (\<forall>t \<in> set ts. set (tk_requirementIds t) \<subseteq> set (ct_requirementIds x) \<and> en_context E (tk_id t) = None \<and>
      (\<forall>k. \<not> en_aborted E (tk_id t) k) \<and> (\<exists>k. 0 < k \<and> k \<le> 3 \<and> good_answer E t k)) \<Longrightarrow>
    \<exists>s'. run_tasks E x ts s = (s', StageFinished)"
proof (induction ts arbitrary: finished s)
  case (Cons t ts)
  have t: "t \<in> set (pl_tasks p)" "tk_id t \<notin> finished" "set (tk_dependencies t) \<subseteq> finished" using Cons.prems by auto
  have env: "set (tk_requirementIds t) \<subseteq> set (ct_requirementIds x)" "en_context E (tk_id t) = None"
    "\<And>k. \<not> en_aborted E (tk_id t) k" using Cons.prems(6) by auto
  obtain k where k: "0 < k" "k \<le> 3" "good_answer E t k" using Cons.prems(6) by auto
  note start = inv_start [OF Cons.prems(1), of "tk_id t"]
  obtain s1 where s1: "attempt_loop E t 3 (last_error (cs_record s) (tk_id t)) s = (s1, Succeeded)"
    using attempt_loop_succeeds [OF assms(1) t owners [OF t(1)] assms(3) env(3) start, of 3 k] k by auto
  have "validateTaskHandoff x (cs_record s) t (cs_completed s) = Inr ()"
    using assms(1,2) t Cons.prems(1) env(1) owners [OF t(1)] by (auto simp: handoff_iff coder_inv_def plan_kept_def)
  then have step: "run_tasks E x (t # ts) s = run_tasks E x ts s1"
    using env s1 not_completed_yet [OF Cons.prems(1) t(1,2)] by simp
  have "coder_inv p owners (insert (tk_id t) finished) {} 0 s1"
    using attempt_loop_inv [OF assms(1) t start s1] inv_finish [OF _ assms(1) t(1)] by simp
  from Cons.IH [OF this] Cons.prems(2-6) step show ?case by auto
qed simp

section \<open>A fresh start\<close>

lemma own_files_ok:
  assumes "task \<noteq> []"
  shows "own_files task files owners = Inr owners' \<Longrightarrow>
    (\<forall>f \<in> set files. map_of owners' f = Some task) \<and>
    (\<forall>f e. map_of owners f = Some e \<and> e \<noteq> [] \<longrightarrow> map_of owners' f = Some e)"
proof (induction files arbitrary: owners)
  case (Cons path files)
  have free: "\<forall>e. map_of owners path = Some e \<longrightarrow> e = [] \<or> e = task"
    "own_files task files (update_entry path (\<lambda>_. task) owners) = Inr owners'"
    using Cons.prems by (auto simp: Let_def split: if_splits option.splits)
  note rest = Cons.IH [OF free(2), unfolded update_entry_lookup]
  then have "map_of owners' path = Some task" using assms by auto
  moreover have "map_of owners' f = Some e" if "map_of owners f = Some e" "e \<noteq> []" for f e
    using rest that free(1) \<open>map_of owners' path = Some task\<close> by (cases "f = path") auto
  ultimately show ?case using rest by auto
qed simp

lemma assign_tasks_ok:
  "assign_tasks ts owners states = Inr (owners', states') \<Longrightarrow> distinct (map tk_id ts) \<Longrightarrow> [] \<notin> tk_id ` set ts \<Longrightarrow>
    (\<forall>t \<in> set ts. map_of states' (tk_id t) = Some (initial_state t) \<and>
      (\<forall>f \<in> set (tk_files t). map_of owners' f = Some (tk_id t))) \<and>
    (\<forall>f e. map_of owners f = Some e \<and> e \<noteq> [] \<longrightarrow> map_of owners' f = Some e) \<and>
    (\<forall>i. i \<notin> tk_id ` set ts \<longrightarrow> map_of states' i = map_of states i) \<and>
    set states' \<subseteq> set states \<union> range (\<lambda>t. (tk_id t, initial_state t))"
proof (induction ts arbitrary: owners states)
  case (Cons t ts)
  obtain owners1 where own: "own_files (tk_id t) (tk_files t) owners = Inr owners1"
    and rest: "assign_tasks ts owners1 (update_entry (tk_id t) (\<lambda>_. initial_state t) states) = Inr (owners', states')"
    using Cons.prems(1) by auto
  have nonempty: "tk_id t \<noteq> []" using Cons.prems(3) by auto
  note here = own_files_ok [OF nonempty own]
  note later = Cons.IH [OF rest]
  have "set (update_entry (tk_id t) (\<lambda>_. initial_state t) states) \<subseteq> insert (tk_id t, initial_state t) (set states)"
    by (rule set_update_entry_sub)
  then have "set states' \<subseteq> set states \<union> range (\<lambda>t. (tk_id t, initial_state t))" using later Cons.prems(2,3) by auto
  then show ?case using here later Cons.prems(2,3) nonempty by (auto simp: update_entry_lookup)
qed auto

lemma initial_not_completed: "ts_status (trim_state (initial_state t)) \<noteq> TaskCompleted" "ts_attempts (trim_state (initial_state t)) = 0"
  by (simp_all add: trim_state_def initial_state_def)

lemma created_inv:
  assumes p: "plan_kept (ct_plan x)" and r: "createAgentCoordinationRecord projectId x now = Inr r"
  shows "coder_inv (ct_plan x) (rc_owners r) {} {} 0 \<lparr>cs_record = r, cs_completed = completed_ids r, cs_files = []\<rparr>"
    and "t \<in> set (pl_tasks (ct_plan x)) \<Longrightarrow> f \<in> set (tk_files t) \<Longrightarrow> map_of (rc_owners r) f = Some (tk_id t)"
proof -
  obtain owners states where assigned: "assign_tasks (pl_tasks (ct_plan x)) [] [] = Inr (owners, states)"
    and fields: "rc_tasks r = map (\<lambda>(k, t). (k, trim_state t)) states" "rc_owners r = map (\<lambda>(k, t). (k, js_trim t)) owners"
    and sound: "sound r"
    using r parse_record_sound by (auto simp: createAgentCoordinationRecord_def parse_record_iff)
  have "distinct (map tk_id (pl_tasks (ct_plan x)))" "[] \<notin> tk_id ` set (pl_tasks (ct_plan x))"
    using p kept_task(2) [OF p] by (simp add: plan_kept_def, metis imageE)
  note start = assign_tasks_ok [OF assigned this]
  have view: "view r (tk_id t) = Some (trim_state (initial_state t))" if "t \<in> set (pl_tasks (ct_plan x))" for t
    using start that by (simp add: fields map_of_trimmed)
  have "ts_status u \<noteq> TaskCompleted" if "(k, u) \<in> set (rc_tasks r)" for k u
    using that start initial_not_completed(1) by (fastforce simp: fields)
  then have "completed_ids r = []" by (auto simp: completed_ids_def filter_empty_conv)
  then show "coder_inv (ct_plan x) (rc_owners r) {} {} 0 \<lparr>cs_record = r, cs_completed = completed_ids r, cs_files = []\<rparr>"
    using view sound initial_not_completed by (simp add: coder_inv_def entry_ok_def)
  show "map_of (rc_owners r) f = Some (tk_id t)" if "t \<in> set (pl_tasks (ct_plan x))" "f \<in> set (tk_files t)"
    using start that kept_task(1) [OF p that(1)] by (simp add: fields map_of_trimmed)
qed

lemma map_sum_Inr: "map_sum f g r = Inr x \<longleftrightarrow> (\<exists>y. r = Inr y \<and> x = g y)"
  by (cases r) auto

lemma fresh_inv:
  assumes "plan_kept (ct_plan x)" "resume_coordination x None generated repair projectId provider model now = Inr start"
    "prepare_coder provider model now start = Inr s"
  shows "\<exists>owners. coder_inv (ct_plan x) owners {} {} 0 s \<and>
    (\<forall>t \<in> set (pl_tasks (ct_plan x)). \<forall>f \<in> set (tk_files t). map_of owners f = Some (tk_id t))"
proof -
  obtain r where r: "createAgentCoordinationRecord projectId x now = Inr r" "start = (r, [])"
    using assms(2) by (auto simp: resume_coordination_def)
  let ?s = "\<lparr>cs_record = r, cs_completed = completed_ids r, cs_files = []\<rparr>"
  note inv = created_inv [OF assms(1) r(1)]
  obtain r1 r2 where r12: "unlockReadyTasks now (cs_record ?s) = Inr r1"
    "system_event now ''Planner'' HandoffEvent provider model PlanHandedOver r1 = Inr r2" "s = ?s\<lparr>cs_record := r2\<rparr>"
    using assms(3) by (auto simp: prepare_coder_def r(2) map_sum_Inr)
  note inv1 = inv_unlock [OF inv(1) r12(1)]
  then have "sound r1" using inv_sound by fastforce
  from event_view [OF this r12(2) [unfolded system_event_def]]
  have "coder_inv (ct_plan x) (rc_owners r) {} {} 0 s" using inv_same_tasks [OF inv1, of r2] by (simp add: r12(3))
  then show ?thesis using inv(2) by blast
qed

lemma sorted_tasks:
  "set (sort_key tk_sequence (pl_tasks p)) = set (pl_tasks p)"
  "plan_kept p \<Longrightarrow> distinct (map tk_id (sort_key tk_sequence (pl_tasks p)))"
  by (simp_all add: plan_kept_def distinct_map)

lemma stage_inv:
  assumes "plan_kept (ct_plan x)" "coder_inv (ct_plan x) owners {} {} 0 s" "coder_stage E x s = (s', result)"
  shows "run_inv (ct_plan x) owners s' \<and> (result = StageFinished \<longrightarrow>
    coder_inv (ct_plan x) owners (tk_id ` set (pl_tasks (ct_plan x))) {} 0 s' \<and>
    dependencies_first {} (sort_key tk_sequence (pl_tasks (ct_plan x))) \<and>
    (\<forall>t \<in> set (pl_tasks (ct_plan x)). set (tk_requirementIds t) \<subseteq> set (ct_requirementIds x)))"
proof -
  let ?ts = "sort_key tk_sequence (pl_tasks (ct_plan x))"
  have "run_tasks E x ?ts s = (s', result)" using assms(3) by (simp add: coder_stage_def)
  from run_tasks_inv [OF assms(1) refl assms(2) this _ sorted_tasks(2) [OF assms(1)]]
  show ?thesis unfolding sorted_tasks(1) by simp
qed

lemma unique_owner:
  assumes "plan_kept p" "f \<in> planned_files p"
    "\<And>t f. t \<in> set (pl_tasks p) \<Longrightarrow> f \<in> set (tk_files t) \<Longrightarrow> map_of owners f = Some (tk_id t)"
  shows "\<exists>!t. t \<in> set (pl_tasks p) \<and> f \<in> set (tk_files t)"
proof -
  obtain t where t: "t \<in> set (pl_tasks p)" "f \<in> set (tk_files t)" using assms(2) by (auto simp: planned_files_def)
  have "u = t" if "u \<in> set (pl_tasks p)" "f \<in> set (tk_files u)" for u
    using assms(3) [OF t] assms(3) [OF that] same_task [OF assms(1) that(1) t(1)] by simp
  with t show ?thesis by blast
qed


text \<open>
  C38. The coder stage completes every executable plan: if the dependencies of each task come earlier in the
  sequence, the requirement ids are the contract's, the build is not aborted, and for each task one of the three
  attempts yields files of the task, then the stage finishes and every task is completed.
\<close>

theorem coder_stage_completes:
  assumes "validateProductPlan input c = Inr (ct_plan x)"
    "resume_coordination x None generated repair projectId provider model now = Inr start"
    "prepare_coder provider model now start = Inr s" "js_trim (en_now E) \<noteq> []"
    "dependencies_first {} (sort_key tk_sequence (pl_tasks (ct_plan x)))"
    "\<forall>t \<in> set (pl_tasks (ct_plan x)). set (tk_requirementIds t) \<subseteq> set (ct_requirementIds x) \<and>
      en_context E (tk_id t) = None \<and> (\<forall>k. \<not> en_aborted E (tk_id t) k) \<and> (\<exists>k. 0 < k \<and> k \<le> 3 \<and> good_answer E t k)"
  shows "\<exists>s'. coder_stage E x s = (s', StageFinished) \<and>
    (\<forall>t \<in> set (pl_tasks (ct_plan x)). task_completed (cs_record s') (tk_id t))"
proof -
  note p = accepted_kept [OF assms(1)]
  obtain owners where inv: "coder_inv (ct_plan x) owners {} {} 0 s"
    and owned: "\<forall>t \<in> set (pl_tasks (ct_plan x)). \<forall>f \<in> set (tk_files t). map_of owners f = Some (tk_id t)"
    using fresh_inv [OF p assms(2,3)] by blast
  have "\<exists>s'. run_tasks E x (sort_key tk_sequence (pl_tasks (ct_plan x))) s = (s', StageFinished)"
    by (rule run_tasks_finish [OF p refl assms(4) _ inv]) (use owned assms(5,6) sorted_tasks p in auto)
  then obtain s' where s': "run_tasks E x (sort_key tk_sequence (pl_tasks (ct_plan x))) s = (s', StageFinished)" ..
  from stage_inv [OF p inv] s' have "coder_inv (ct_plan x) owners (tk_id ` set (pl_tasks (ct_plan x))) {} 0 s'"
    by (simp add: coder_stage_def)
  then have "\<forall>t \<in> set (pl_tasks (ct_plan x)). task_completed (cs_record s') (tk_id t)"
    by (fastforce simp: coder_inv_def entry_ok_def task_completed_def)
  then show ?thesis using s' by (auto simp: coder_stage_def)
qed

definition willing_env :: coder_env where
  \<comment> \<open>a model that writes the files of every task at once\<close>
  "willing_env = \<lparr>en_now = ''t'', en_aborted = (\<lambda>_ _. False), en_context = (\<lambda>_. None),
     en_answer = (\<lambda>_ _. \<lparr>an_provider = ''p'', an_model = None, an_files = Inr [], an_stored = None\<rparr>)\<rparr>"


section \<open>Resuming\<close>

lemma completed_unlocked:
  "rc_tasks r' = map (\<lambda>(k, t). (k, unlock_state d t)) (rc_tasks r) \<Longrightarrow> completed_ids r' = completed_ids r"
proof -
  have "ts_status (unlock_state d t) = TaskCompleted \<longleftrightarrow> ts_status t = TaskCompleted" "ts_id (unlock_state d t) = ts_id t"
    for t by (simp_all add: unlock_state_def)
  then show "rc_tasks r' = map (\<lambda>(k, t). (k, unlock_state d t)) (rc_tasks r) \<Longrightarrow> ?thesis"
    by (simp add: completed_ids_def filter_map comp_def case_prod_beta)
qed

definition keeps_plan :: "task_state \<Rightarrow> task_state \<Rightarrow> bool" where
  "keeps_plan t u \<longleftrightarrow> (ts_id u, ts_owner u, ts_requirementIds u, ts_dependencies u, ts_ownedFiles u, ts_validations u,
     ts_attempts u) = (ts_id t, ts_owner t, ts_requirementIds t, ts_dependencies t, ts_ownedFiles t, ts_validations t,
     ts_attempts t)"

definition survives :: "artifact_files \<Rightarrow> string option \<Rightarrow> task_state \<Rightarrow> bool" where
  \<comment> \<open>its output is there, and no repair is asked\<close>
  "survives generated repair t \<longleftrightarrow> repair = None \<and> ts_outputFiles t \<noteq> [] \<and> set (ts_outputFiles t) \<subseteq> fst ` set generated"

definition reconciled :: "artifact_files \<Rightarrow> string option \<Rightarrow> task_state \<Rightarrow> task_state \<Rightarrow> bool" where
  "reconciled generated repair t u \<longleftrightarrow> keeps_plan t u \<and>
     (if ts_status t = TaskCompleted \<and> \<not> survives generated repair t
      then ts_status u = reopened t \<and> ts_lastError u \<noteq> None else u = t)"

lemma reconcile_task_view:
  assumes "sound r" "view r i = Some t" "ts_id t = i" "reconcile_task generated repair now (i, t) r = Inr r'"
  shows "sound r' \<and> rc_owners r' = rc_owners r \<and> (\<exists>u. reconciled generated repair t u \<and> view r' = (view r)(i \<mapsto> u))"
proof (cases "ts_status t = TaskCompleted \<and> \<not> survives generated repair t")
  case False
  then have "r' = r" using assms(4)
    by (auto simp: reconcile_task_def survives_def Let_def filter_empty_conv split: option.splits if_splits)
  then show ?thesis using assms(1,2) False by (auto simp: reconciled_def keeps_plan_def fun_upd_idem)
next
  case True
  obtain e outs where patch: "updateTaskCoordinationState i (no_patch\<lparr>tp_status := Some (reopened t),
      tp_lastError := Some (Some e), tp_outputFiles := outs\<rparr>) now r = Inr r'"
    using assms(4) True
    by (cases repair; cases "ts_outputFiles t = []")
      (auto simp: reconcile_task_def survives_def Let_def filter_empty_conv no_patch_def split: if_splits)
  have t: "trim_state t = t" using sound_view [OF assms(1,2)] by blast
  then have "keeps_plan t (trim_state (patch_state i (no_patch\<lparr>tp_status := Some (reopened t),
      tp_lastError := Some (Some e), tp_outputFiles := outs\<rparr>) t))"
    using assms(3) by (cases t) (simp add: keeps_plan_def patch_simps)
  then show ?thesis using update_view [OF assms(1) patch] assms(2) True
    by (auto simp: reconciled_def patch_simps)
qed

lemma reconcile_tasks_view:
  "sound r \<Longrightarrow> reconcile_tasks generated repair now es r = Inr r' \<Longrightarrow> distinct (map fst es) \<Longrightarrow>
    (\<forall>(i, t) \<in> set es. view r i = Some t \<and> ts_id t = i) \<Longrightarrow>
    sound r' \<and> rc_owners r' = rc_owners r \<and>
    (\<forall>(i, t) \<in> set es. \<exists>u. reconciled generated repair t u \<and> view r' i = Some u) \<and>
    (\<forall>i. i \<notin> fst ` set es \<longrightarrow> view r' i = view r i)"
proof (induction es arbitrary: r)
  case (Cons e es)
  obtain i t where e: "e = (i, t)" by force
  obtain r1 where r1: "reconcile_task generated repair now (i, t) r = Inr r1" "reconcile_tasks generated repair now es r1 = Inr r'"
    using Cons.prems(2) by (auto simp: e)
  have here: "view r i = Some t" "ts_id t = i" using Cons.prems(4) by (simp_all add: e)
  from reconcile_task_view [OF Cons.prems(1) here r1(1)] obtain u where
    u: "sound r1" "rc_owners r1 = rc_owners r" "reconciled generated repair t u" "view r1 = (view r)(i \<mapsto> u)" by blast
  have i: "i \<notin> fst ` set es" using Cons.prems(3) by (simp add: e)
  then have "\<forall>(j, v) \<in> set es. view r1 j = Some v \<and> ts_id v = j" using Cons.prems(4) u(4) by (force simp: e)
  note rest = Cons.IH [OF u(1) r1(2) _ this]
  then show ?case using Cons.prems(3) u i by (auto simp: e)
qed simp


section \<open>Concrete builds\<close>

definition no_resources :: resource_plan where
  "no_resources = \<lparr>rp_required = [], rp_selected = [], rp_missing = [], rp_conflicts = [], rp_viable = True,
     rp_decisions = [], rp_catalogSize = 0\<rparr>"

definition sample_context :: "product_plan \<Rightarrow> coordination_context" where
  "sample_context p = \<lparr>ct_contract = stored_contract, ct_plan = p, ct_research = [],
     ct_requirementIds = [''REQ-001''], ct_resources = no_resources\<rparr>"

definition sample_start :: "product_plan \<Rightarrow> (coordination_error, coder_state) result" where
  "sample_start p = bind_result (resume_coordination (sample_context p) None [] None 1 None None ''t0'')
     (prepare_coder None None ''t0'')"

definition schema_env :: coder_env where
  \<comment> \<open>a first answer without files, then the schema\<close>
  "schema_env = willing_env\<lparr>en_answer := (\<lambda>_ k. \<lparr>an_provider = ''p'', an_model = None,
     an_files = Inr (if k = 1 then [] else [(''schema.ts'', ''x'')]), an_stored = None\<rparr>)\<rparr>"

text \<open>A plan of two tasks, the first of which depends on the second, is accepted.\<close>

definition backward_input :: product_plan where
  "backward_input = stored_input\<lparr>pl_sequence := [''t1'', ''t2''],
     pl_tasks := [stored_task\<lparr>tk_dependencies := [''t2'']\<rparr>,
       stored_task\<lparr>tk_id := ''t2'', tk_sequence := 2, tk_files := [''seed.ts''], tk_module := ''Seed''\<rparr>],
     pl_taskToFiles := [(''t1'', tk_files stored_task), (''t2'', [''seed.ts''])],
     pl_taskToAgent := [(''t1'', ''database''), (''t2'', ''database'')],
     pl_taskToValidation := [(''t1'', [''schema'']), (''t2'', [''schema''])]\<rparr>"

definition backward_plan :: product_plan where
  "backward_plan = (trim_plan backward_input)\<lparr>pl_capabilities := Some []\<rparr>"

lemma backward_accepted: "validateProductPlan backward_input stored_contract = Inr backward_plan"
  by code_simp

lemma sample_starts:
  assumes "sample_start p = Inr s"
  obtains start where "resume_coordination (sample_context p) None [] None 1 None None ''t0'' = Inr start"
    "prepare_coder None None ''t0'' start = Inr s"
  using assms by (auto simp: sample_start_def)

lemma stored_start: "\<exists>s. sample_start stored_plan = Inr s" "\<exists>s. sample_start backward_plan = Inr s"
proof -
  have "(case sample_start stored_plan of Inl _ \<Rightarrow> False | Inr _ \<Rightarrow> True)"
    "(case sample_start backward_plan of Inl _ \<Rightarrow> False | Inr _ \<Rightarrow> True)" by code_simp+
  then show "\<exists>s. sample_start stored_plan = Inr s" "\<exists>s. sample_start backward_plan = Inr s"
    by (auto split: sum.splits)
qed

lemma sample_context_plan [simp]: "ct_plan (sample_context p) = p" "ct_requirementIds (sample_context p) = [''REQ-001'']"
  by (simp_all add: sample_context_def)


lemma stored_tasks: "pl_tasks stored_plan = [stored_task\<lparr>tk_id := ''t1''\<rparr>]"
  by (simp add: stored_plan_def trim_plan_def stored_input_def trim_task_def stored_task_def trim_texts_def js_trim_def
    is_js_space_def)

theorem coder_stage_completes_witness:
  "\<exists>s s'. sample_start stored_plan = Inr s \<and> coder_stage schema_env (sample_context stored_plan) s = (s', StageFinished) \<and>
    task_completed (cs_record s') ''t1''"
proof -
  obtain s where s: "sample_start stored_plan = Inr s" using stored_start by blast
  then obtain start where start: "resume_coordination (sample_context stored_plan) None [] None 1 None None ''t0'' = Inr start"
    "prepare_coder None None ''t0'' start = Inr s" by (rule sample_starts)
  let ?t = "stored_task\<lparr>tk_id := ''t1''\<rparr>"
  have "good_answer schema_env ?t 2"
    by (simp add: good_answer_def schema_env_def willing_env_def stored_task_def)
  then have good: "\<exists>k. 0 < k \<and> k \<le> 3 \<and> good_answer schema_env ?t k" by (intro exI [of _ 2]) simp
  have now: "js_trim (en_now schema_env) \<noteq> []" by (simp add: schema_env_def willing_env_def js_trim_def is_js_space_def)
  have first: "dependencies_first {} (sort_key tk_sequence (pl_tasks stored_plan))"
    by (simp add: stored_tasks) (simp add: stored_task_def)
  have "\<forall>t \<in> set (pl_tasks stored_plan). set (tk_requirementIds t) \<subseteq> set [''REQ-001''] \<and> en_context schema_env (tk_id t) = None \<and>
      (\<forall>k. \<not> en_aborted schema_env (tk_id t) k) \<and> (\<exists>k. 0 < k \<and> k \<le> 3 \<and> good_answer schema_env t k)"
    using good by (simp add: stored_tasks) (simp add: schema_env_def willing_env_def stored_task_def)
  from coder_stage_completes [where x = "sample_context stored_plan", unfolded sample_context_plan,
      OF stored_accepted start now first this] s
  show ?thesis by (auto simp: stored_tasks)
qed


text \<open>A stored build whose first task lost its output, and whose second task, that depends on it, did not.\<close>

definition torn_record :: coordination_record where
  "torn_record = \<lparr>rc_projectId = 1, rc_productType = ''website'', rc_stack = ''react-node'', rc_title = ''Store'',
     rc_requirementIds = [''REQ-001''], rc_researchIds = [], rc_usage = [], rc_decisions = [],
     rc_tasks = [(''t2'', (initial_state (pl_tasks backward_plan ! 1))\<lparr>ts_status := TaskCompleted, ts_outputFiles := [''seed.ts'']\<rparr>),
       (''t1'', (initial_state (pl_tasks backward_plan ! 0))\<lparr>ts_status := TaskCompleted, ts_outputFiles := [''schema.ts'']\<rparr>)],
     rc_owners = [(''seed.ts'', ''t2''), (''schema.ts'', ''t1'')], rc_events = [], rc_updatedAt = ''t0''\<rparr>"

definition torn_resumed :: "(coordination_error, coordination_record) result" where
  "torn_resumed = reconcileCoordinationResume torn_record [(''schema.ts'', ''x'')] None ''t1''"

lemma torn_parsed: "parse_record torn_record = Inr torn_record"
  by code_simp

lemma dependent_stays_completed:
  "case torn_resumed of Inl _ \<Rightarrow> False | Inr r \<Rightarrow> map (\<lambda>(i, t). (i, ts_status t)) (rc_tasks r) =
      [(''t2'', TaskPending), (''t1'', TaskCompleted)]"
  by code_simp


text \<open>
  A stored record that misses a task of the plan is resumed all the same; the missing task then owns no file, so its
  handoff is refused whatever is completed.
\<close>

lemma missing_task_is_refused:
  assumes "t \<in> set (pl_tasks (ct_plan x))" "f \<in> set (tk_files t)" "map_of (rc_owners r) f = None"
  shows "\<exists>e. validateTaskHandoff x r t completed = Inl e"
  using assms by (cases "validateTaskHandoff x r t completed") (auto simp: handoff_iff)

end
