(* ===== verification/Spec2Isabelle.thy ===== *)
theory Spec2Isabelle
  imports WebhookPayments SeniorDev GuardedOperation StackCertification Snapshots CoordinationRuns
begin

text \<open>
  AppForge turns a prompt into a generated software product, bills the customer for the build and
  serves the result. This development models the parts of its server that keep money, builds and
  artifacts consistent, as executable functions translated from the TypeScript sources, and proves
  what they promise. The sources are named relative to the repository's own \<open>src\<close> directory.

  Three parts, which meet in the guarded provider operation, in the projects table and in the
  requirement manifest:

  Money. \<open>ProviderLedger\<close> models the reservation ledger of provider spending
  (\<open>src/services/providerSpendLedger.ts\<close>), \<open>ProviderTopUps\<close> the orders, payments and plan invoices
  that fund it (\<open>providerCreditTopUps.ts\<close>, \<open>providerCreditProvisioning.ts\<close>), \<open>CreditPolicy\<close> the cost
  envelopes and settlement decisions (\<open>src/lib/providerCostEnvelope.ts\<close>, \<open>creditSettlement.ts\<close>), and
  \<open>LedgerRuns\<close> all interleavings of these transactions. \<open>UserCredits\<close> models the credit balances of
  \<open>src/db.ts\<close>, \<open>StripeCredits\<close> refunds, plan invoices and the event ledger, \<open>CreditRuns\<close> their
  interleavings. \<open>StripeEvents\<close> and \<open>StripeWebhook\<close> model the webhook
  (\<open>src/webhooks/stripe.ts\<close>) that drives both; \<open>WebhookSafety\<close> shows that every delivery is a run of
  the two ledgers, and \<open>WebhookPayments\<close> what single payments do. \<open>Contracts\<close> holds the locales that
  the ledgers share (a claim that is taken once, an invariant that every operation keeps), with an
  interpretation by each provider, and \<open>Books\<close> the frame facts between the tables.

  Builds and products. \<open>BuildClaims\<close> and \<open>BuildLeases\<close> model who may run a build and how a worker
  that was overtaken is fenced (\<open>build-claim.ts\<close>, \<open>buildExecutionLease.ts\<close>, \<open>build-queue.ts\<close>),
  \<open>SeniorDev\<close> the same for Senior Dev tasks, \<open>GuardedOperation\<close> a paid provider call under a lease
  and a reservation (\<open>guardedProviderOperation.ts\<close>). \<open>Adapters\<close>, \<open>AdapterRegistry\<close>,
  \<open>StackRegistry\<close> and \<open>StackCertification\<close> model which technologies a product may use, what is
  verified about them and when a product is certified (\<open>src/lib/adapterSdk.ts\<close>,
  \<open>stackAdapters.ts\<close>, \<open>stackDependencyResolver.ts\<close>, \<open>certificationLogic.ts\<close>). \<open>Artifacts\<close> models file
  paths and integrity records (\<open>artifactIntegrity.ts\<close>), \<open>RequirementManifest\<close> the tracking of
  requirements to completion (\<open>requirementManifest.ts\<close>), and \<open>Snapshots\<close> the versions that are
  saved, served, rolled back and recovered (\<open>src/db.ts\<close>, \<open>projectFileEdits.ts\<close>, \<open>recovery.ts\<close>).

  Planning. \<open>ProductContract\<close> holds the contract of a product and the shape of a plan
  (\<open>src/lib/productContract.ts\<close>, \<open>productPlan.ts\<close>), \<open>Regex\<close> the regular expressions of JavaScript
  as a matcher with its meaning, \<open>PlanPolicies\<close> the database, integration, AI and billing policies
  (\<open>databasePersistence.ts\<close>, \<open>integrationImplementation.ts\<close>, \<open>aiAgentImplementation.ts\<close>,
  \<open>monetizationImplementation.ts\<close>), \<open>NativeCapabilities\<close> which native capabilities a contract asks for
  and what is registered for them (\<open>nativeCapabilitySelection.ts\<close>, \<open>productCapabilityAdapters.ts\<close>),
  and \<open>ProductPlan\<close> the validation of a plan, which feeds the requirement manifest. Under
  \<open>src/lib/builderResources\<close>, \<open>BuilderResources\<close> models the reusable resources, their governance
  and registry, \<open>ResourceComposition\<close> how several are merged, and \<open>ResourcePlanning\<close> how they are
  chosen for a product. \<open>Coordination\<close> models the record that the code generating agents share
  (\<open>agentCoordination.ts\<close>) and the task loop of the pipeline over it
  (\<open>src/agents/.pipeline_parts\<close>), and \<open>CoordinationRuns\<close> what every run of the loop keeps, which
  plans it completes, and how an interrupted build resumes.

  Conventions. \<open>Prelude\<close> has results (a sum of an error and a value), tables as row lists and the
  text functions of JavaScript; \<open>Database\<close> the rows and constraints. An operation takes the
  database and returns an error or a result with the new database; an error leaves the caller's
  database as it was, which is the rollback of its transaction. Where the source commits part of
  its work before it fails, the operation returns the new database with the error. Transactions
  that the source serialises with row or advisory locks are one step; where it runs several
  transactions in a row, the model takes what other sessions do in between as an argument or makes
  each transaction a step of its own. CHECK and UNIQUE constraints are tested at every commit that
  could break them; foreign keys and column lengths are not modelled. JavaScript numbers that hold
  counts and cents are integers, with the tests of \<open>Number.isSafeInteger\<close> written out; a time is an
  integer of milliseconds and an operation reads the clock once. Texts are lists of characters:
  bytes of UTF-8 where lengths are measured, and letter case is that of ASCII. Random identifiers,
  SHA-256, environment variables, Stripe's answers and other services are parameters.

  What is shown. For each ledger an invariant that all interleavings keep, the effect of each
  operation on every branch, and that payments, refunds and provider calls act once. For builds:
  one starter, one executor, no write by an overtaken worker. For products: claimed capabilities
  stay justified, certification needs its evidence and is monotone, paths stay inside the project,
  integrity records verify exactly what they were built from, completion needs evidence, and what
  is served always verifies, is resolved, and is restored unchanged by rollback and recovery. For
  planning: an accepted plan is consistent and covers its policies, resources keep an earned
  maturity, compose exactly when nothing clashes, and are planned by a worklist that ends; every
  generated file has one owner, a task is completed after what it depends on, and the plans that can
  be completed are characterised.
  Lemmas that record surprising behaviour stand at the end of their theories.

  Bounds. No definition needs fuel: the recursions are structural or come with a measure, and the
  worklist over dependencies, which the source writes as a loop on a queue, is a partial function
  that is proved to return. A message of the source is the constructor of its text.

  Not modelled, with the reasons: the pages and components of the client (rendering), the prompts,
  the calls to language models and the checks of generated texts (free text), templates, scaffolds
  and the catalogue of built-in resources (texts and data; the catalogue is an argument of the
  planning), deployers, previews, sandboxes and integrations (processes and services outside the
  repository), API procedures (parsing and authorisation in front of the modelled operations), the
  extraction of a contract from a prompt (the contract is an argument), sign-in (an external service).
\<close>

end
